(* ===== verification/Prelude.thy ===== *)
theory Prelude
  imports Main "HOL-Library.Char_ord" "HOL-Library.List_Lexorder"
    "HOL-Library.Product_Lexorder" "HOL-Library.Sublist" "HOL-Library.Code_Target_Nat"
begin

text \<open>
  Shared material of the development: Go strings (byte strings, as \<^typ>\<open>char list\<close>), the
  \<open>strings\<close>, \<open>strconv\<close> and \<open>unicode/utf8\<close> functions the code calls, clock values, and the
  collections of simplification rules the component theories extend.

  A Go \<open>string\<close> is a sequence of bytes; a \<^typ>\<open>char\<close> is one byte, and \<open>length\<close> is Go's
  \<open>len\<close>.  Functions of the standard library that look at code points (\<open>strings.TrimSpace\<close>,
  \<open>unicode.IsControl\<close> under \<open>range\<close>) decode UTF-8 as \<open>unicode/utf8\<close> does, an invalid byte
  being U+FFFD of width 1.
\<close>

named_theorems go_simps \<open>evaluation of the modelled standard library\<close>
named_theorems store_defs \<open>definitions of the persistence operations\<close>
named_theorems handler_defs \<open>definitions of the HTTP handlers\<close>

section \<open>Clock values\<close>

text \<open>
  \<open>time.Time\<close> is an instant in nanoseconds; the database keeps Unix seconds.
  \<open>Time.Unix()\<close> rounds towards minus infinity, \<open>time.Unix(s, 0)\<close> is the start of second \<open>s\<close>.
\<close>

type_synonym gotime = int
type_synonym unixsec = int

definition second :: gotime where "second = 1000000000"

definition minute :: gotime where "minute = 60 * second"

definition to_unix :: "gotime \<Rightarrow> unixsec" where "to_unix t = t div second"

definition from_unix :: "unixsec \<Rightarrow> gotime" where "from_unix s = s * second"

lemma to_unix_from_unix [simp]: "to_unix (from_unix s) = s"
  by (simp add: to_unix_def from_unix_def second_def)

lemma from_to_unix_le: "from_unix (to_unix t) \<le> t"
  using pos_mod_sign [of second t] div_mult_mod_eq [of t second]
  by (simp add: to_unix_def from_unix_def second_def)

lemma to_unix_mono: "s \<le> t \<Longrightarrow> to_unix s \<le> to_unix t"
  by (simp add: to_unix_def second_def zdiv_mono1)

lemma from_unix_mono [simp]: "from_unix s \<le> from_unix t \<longleftrightarrow> s \<le> t"
  by (simp add: from_unix_def second_def)

lemma from_unix_less [simp]: "from_unix s < from_unix t \<longleftrightarrow> s < t"
  by (simp add: from_unix_def second_def)

lemma to_unix_le_iff: "s \<le> to_unix t \<longleftrightarrow> from_unix s \<le> t"
proof
  assume "s \<le> to_unix t"
  then have "from_unix s \<le> from_unix (to_unix t)" by simp
  then show "from_unix s \<le> t" using from_to_unix_le [of t] by (rule order_trans)
next
  assume "from_unix s \<le> t"
  then show "s \<le> to_unix t" using to_unix_mono [of "from_unix s" t] by simp
qed

section \<open>strings: prefixes, suffixes, substrings\<close>

definition has_prefix :: "string \<Rightarrow> string \<Rightarrow> bool" where
  "has_prefix s p \<longleftrightarrow> take (length p) s = p"

definition has_suffix :: "string \<Rightarrow> string \<Rightarrow> bool" where
  "has_suffix s p \<longleftrightarrow> length p \<le> length s \<and> drop (length s - length p) s = p"

definition trim_prefix :: "string \<Rightarrow> string \<Rightarrow> string" where
  "trim_prefix s p = (if has_prefix s p then drop (length p) s else s)"

definition trim_suffix :: "string \<Rightarrow> string \<Rightarrow> string" where
  "trim_suffix s p = (if has_suffix s p then take (length s - length p) s else s)"

definition cut_prefix :: "string \<Rightarrow> string \<Rightarrow> string option" where
  "cut_prefix s p = (if has_prefix s p then Some (drop (length p) s) else None)"

fun contains_str :: "string \<Rightarrow> string \<Rightarrow> bool" where
  "contains_str [] p = (p = [])"
| "contains_str (c # s) p = (has_prefix (c # s) p \<or> contains_str s p)"

fun split_char :: "char \<Rightarrow> string \<Rightarrow> string list" where
  "split_char x [] = [[]]"
| "split_char x (c # s) =
     (if c = x then [] # split_char x s
      else (case split_char x s of [] \<Rightarrow> [[c]] | w # ws \<Rightarrow> (c # w) # ws))"

lemma has_prefix_append [simp]: "has_prefix (p @ s) p"
  by (simp add: has_prefix_def)

lemma has_prefix_iff: "has_prefix s p \<longleftrightarrow> (\<exists>t. s = p @ t)"
  by (metis append_take_drop_id has_prefix_append has_prefix_def)

lemma has_suffix_append [simp]: "has_suffix (s @ p) p"
  by (simp add: has_suffix_def)

lemma has_suffix_iff: "has_suffix s p \<longleftrightarrow> (\<exists>t. s = t @ p)"
  by (metis append_take_drop_id has_suffix_append has_suffix_def)

lemma has_prefix_Nil [simp]: "has_prefix s []"
  by (simp add: has_prefix_def)

lemma cut_prefix_append [simp]: "cut_prefix (p @ s) p = Some s"
  by (simp add: cut_prefix_def)

lemma trim_prefix_append [simp]: "trim_prefix (p @ s) p = s"
  by (simp add: trim_prefix_def)

lemma trim_suffix_append [simp]: "trim_suffix (s @ p) p = s"
  by (simp add: trim_suffix_def)

lemma contains_str_append [intro]: "contains_str (a @ p @ b) p"
proof (induction a)
  case Nil
  have "has_prefix (p @ b) p" by simp
  then show ?case by (cases "p @ b") auto
qed simp

lemma contains_str_iff: "contains_str s p \<longleftrightarrow> (\<exists>a b. s = a @ p @ b)"
proof (induction s)
  case Nil
  show ?case by auto
next
  case (Cons c s)
  show ?case
    by (auto simp: Cons.IH has_prefix_iff Cons_eq_append_conv)
qed

lemma split_char_ne [simp]: "split_char x s \<noteq> []"
  by (induction s) (auto split: list.splits)

lemma split_char_no: "x \<notin> set s \<Longrightarrow> split_char x s = [s]"
  by (induction s) auto

lemma split_char_append: "x \<notin> set s \<Longrightarrow> split_char x (s @ x # t) = s # split_char x t"
  by (induction s) auto

lemma split_char_sep_free: "w \<in> set (split_char x s) \<Longrightarrow> x \<notin> set w"
proof (induction s arbitrary: w)
  case (Cons c s)
  then show ?case
    by (cases "split_char x s") (auto split: if_splits)
qed simp

lemma length_filter_imp:
  "(\<And>x. x \<in> set xs \<Longrightarrow> P x \<Longrightarrow> Q x) \<Longrightarrow> length (filter P xs) \<le> length (filter Q xs)"
proof (induction xs)
  case (Cons x xs)
  then have "length (filter P xs) \<le> length (filter Q xs)" and "P x \<Longrightarrow> Q x" by simp_all
  then show ?case by auto
qed simp

end
