(* ===== verification/Go_Text.thy ===== *)
theory Go_Text
  imports Prelude
begin

text \<open>
  The parts of \<open>unicode/utf8\<close>, \<open>strings\<close> and \<open>strconv\<close> that the validators of the code
  rest on: decoding one rune, \<open>strings.TrimSpace\<close>, \<open>unicode.IsControl\<close> under \<open>range\<close>,
  decimal printing (\<open>strconv.FormatInt\<close>, \<open>Itoa\<close>) and parsing (\<open>strconv.ParseInt(s, 10, 64)\<close>,
  \<open>Atoi\<close>).  The lemmas are the laws the components use: trimming is idempotent, parsing undoes
  printing on the 64-bit range.
\<close>

section \<open>unicode/utf8\<close>

definition byte :: "char \<Rightarrow> nat" where "byte c = of_char c"

lemma byte_less [simp]: "byte c < 256"
  by (simp add: byte_def)

definition in_range :: "nat \<Rightarrow> nat \<Rightarrow> char \<Rightarrow> bool" where
  "in_range lo hi c \<longleftrightarrow> lo \<le> byte c \<and> byte c \<le> hi"

abbreviation cont :: "char \<Rightarrow> bool" where "cont \<equiv> in_range 128 191"

text \<open>The bounds of the second byte, by first byte (the table \<open>acceptRanges\<close>).\<close>

definition second_lo :: "nat \<Rightarrow> nat" where
  "second_lo b = (if b = 224 then 160 else if b = 240 then 144 else 128)"

definition second_hi :: "nat \<Rightarrow> nat" where
  "second_hi b = (if b = 237 then 159 else if b = 244 then 143 else 191)"

definition rune_error :: nat where "rune_error = 65533"

text \<open>\<open>utf8.DecodeRuneInString\<close>: the rune and its width.\<close>

definition decode_rune :: "string \<Rightarrow> nat \<times> nat" where
  "decode_rune s =
     (if s = [] then (rune_error, 0)
      else let b = byte (s ! 0); ok = in_range (second_lo b) (second_hi b) in
        if b < 128 then (b, 1)
        else if 194 \<le> b \<and> b \<le> 223 then
          (if 2 \<le> length s \<and> ok (s ! 1)
           then ((b - 192) * 64 + (byte (s ! 1) - 128), 2) else (rune_error, 1))
        else if 224 \<le> b \<and> b \<le> 239 then
          (if 3 \<le> length s \<and> ok (s ! 1) \<and> cont (s ! 2)
           then ((b - 224) * 4096 + (byte (s ! 1) - 128) * 64 + (byte (s ! 2) - 128), 3)
           else (rune_error, 1))
        else if 240 \<le> b \<and> b \<le> 244 then
          (if 4 \<le> length s \<and> ok (s ! 1) \<and> cont (s ! 2) \<and> cont (s ! 3)
           then ((b - 240) * 262144 + (byte (s ! 1) - 128) * 4096
                 + (byte (s ! 2) - 128) * 64 + (byte (s ! 3) - 128), 4)
           else (rune_error, 1))
        else (rune_error, 1))"

lemma decode_rune_width_pos: "s \<noteq> [] \<Longrightarrow> 0 < snd (decode_rune s)"
  by (simp add: decode_rune_def Let_def)

lemma decode_rune_width_le: "snd (decode_rune s) \<le> length s"
  by (cases s) (auto simp: decode_rune_def Let_def)

lemma decode_rune_ascii: "byte c < 128 \<Longrightarrow> decode_rune (c # s) = (byte c, 1)"
  by (simp add: decode_rune_def)

text \<open>Cutting a string short either leaves its first rune or makes it invalid.\<close>

lemma decode_rune_take:
  assumes "0 < n"
  shows "decode_rune (take n s) = decode_rune s \<or> decode_rune (take n s) = (rune_error, 1)"
  using assms by (cases "n < 2"; cases "n < 3"; cases "n < 4") (simp_all add: decode_rune_def Let_def)

text \<open>\<open>unicode.IsSpace\<close> and \<open>unicode.IsControl\<close>.\<close>

definition rune_is_space :: "nat \<Rightarrow> bool" where
  "rune_is_space r \<longleftrightarrow>
     (9 \<le> r \<and> r \<le> 13) \<or> r = 32 \<or> r = 133 \<or> r = 160 \<or> r = 5760 \<or> (8192 \<le> r \<and> r \<le> 8202)
     \<or> r = 8232 \<or> r = 8233 \<or> r = 8239 \<or> r = 8287 \<or> r = 12288"

definition rune_is_control :: "nat \<Rightarrow> bool" where
  "rune_is_control r \<longleftrightarrow> r < 32 \<or> (127 \<le> r \<and> r \<le> 159)"

lemma rune_error_not_space [simp]: "\<not> rune_is_space rune_error"
  by (simp add: rune_is_space_def rune_error_def)

section \<open>strings.TrimSpace\<close>

function trim_left_space :: "string \<Rightarrow> string" where
  "trim_left_space s =
     (if s \<noteq> [] \<and> rune_is_space (fst (decode_rune s))
      then trim_left_space (drop (snd (decode_rune s)) s) else s)"
  by pat_completeness auto
termination
  by (relation "measure length") (auto simp: decode_rune_width_pos)

declare trim_left_space.simps [simp del]

text \<open>\<open>utf8.DecodeLastRuneInString\<close>: back up over at most three continuation bytes.\<close>

fun back_to_start :: "nat \<Rightarrow> string \<Rightarrow> nat \<Rightarrow> nat" where
  "back_to_start 0 s i = i"
| "back_to_start (Suc k) s i =
     (if i = 0 then 0 else if cont (s ! i) then back_to_start k s (i - 1) else i)"

definition last_start :: "string \<Rightarrow> nat" where
  "last_start s = (if length s = 1 then 0 else back_to_start 2 s (length s - 2))"

definition decode_last_rune :: "string \<Rightarrow> nat \<times> nat" where
  "decode_last_rune s =
     (if s = [] then (rune_error, 0)
      else if byte (last s) < 128 then (byte (last s), 1)
      else let rw = decode_rune (drop (last_start s) s)
           in if last_start s + snd rw = length s then rw else (rune_error, 1))"

lemma back_to_start_le: "back_to_start k s i \<le> i"
  by (induction k s i rule: back_to_start.induct) auto

lemma last_start_less: "s \<noteq> [] \<Longrightarrow> last_start s < length s"
  using back_to_start_le [of 2 s "length s - 2"]
  by (cases "length s = 1") (auto simp: last_start_def intro: le_less_trans)

lemma decode_last_rune_width: "s \<noteq> [] \<Longrightarrow> 0 < snd (decode_last_rune s)"
  using decode_rune_width_pos [of "drop (last_start s) s"] last_start_less [of s]
  by (simp add: decode_last_rune_def Let_def)

function trim_right_space :: "string \<Rightarrow> string" where
  "trim_right_space s =
     (if s \<noteq> [] \<and> rune_is_space (fst (decode_last_rune s))
      then trim_right_space (take (length s - snd (decode_last_rune s)) s) else s)"
  by pat_completeness auto
termination
  by (relation "measure length") (auto simp: decode_last_rune_width)

declare trim_right_space.simps [simp del]

definition trim_space :: "string \<Rightarrow> string" where
  "trim_space s = trim_right_space (trim_left_space s)"

lemma trim_left_space_idem: "trim_left_space (trim_left_space s) = trim_left_space s"
proof (induction s rule: trim_left_space.induct)
  case (1 s)
  show ?case
  proof (cases "s \<noteq> [] \<and> rune_is_space (fst (decode_rune s))")
    case True
    then have "trim_left_space s = trim_left_space (drop (snd (decode_rune s)) s)"
      by (subst trim_left_space.simps) simp
    with "1" [OF True] show ?thesis by simp
  next
    case False
    then have "trim_left_space s = s" by (subst trim_left_space.simps) auto
    then show ?thesis by simp
  qed
qed

lemma trim_left_space_head:
  "trim_left_space s = [] \<or> \<not> rune_is_space (fst (decode_rune (trim_left_space s)))"
proof (induction s rule: trim_left_space.induct)
  case (1 s)
  then show ?case
    by (cases "s \<noteq> [] \<and> rune_is_space (fst (decode_rune s))")
       (auto simp add: trim_left_space.simps [of s])
qed

lemma trim_left_space_id:
  "s = [] \<or> \<not> rune_is_space (fst (decode_rune s)) \<Longrightarrow> trim_left_space s = s"
  by (subst trim_left_space.simps) auto

lemma trim_right_space_idem: "trim_right_space (trim_right_space s) = trim_right_space s"
proof (induction s rule: trim_right_space.induct)
  case (1 s)
  show ?case
  proof (cases "s \<noteq> [] \<and> rune_is_space (fst (decode_last_rune s))")
    case True
    then have "trim_right_space s = trim_right_space (take (length s - snd (decode_last_rune s)) s)"
      by (subst trim_right_space.simps) simp
    with "1" [OF True] show ?thesis by simp
  next
    case False
    then have "trim_right_space s = s" by (subst trim_right_space.simps) auto
    then show ?thesis by simp
  qed
qed

lemma trim_right_space_take: "\<exists>n. trim_right_space s = take n s"
proof (induction s rule: trim_right_space.induct)
  case (1 s)
  show ?case
  proof (cases "s \<noteq> [] \<and> rune_is_space (fst (decode_last_rune s))")
    case True
    with "1" obtain n where
      "trim_right_space (take (length s - snd (decode_last_rune s)) s)
         = take n (take (length s - snd (decode_last_rune s)) s)" by blast
    with True show ?thesis by (subst trim_right_space.simps) (auto simp: take_take)
  next
    case False
    then show ?thesis by (subst trim_right_space.simps) (auto intro: exI [of _ "length s"])
  qed
qed

text \<open>\<open>strings.TrimSpace\<close> is idempotent, also on strings that are not valid UTF-8.\<close>

lemma trim_space_idem [simp]: "trim_space (trim_space s) = trim_space s"
proof -
  obtain n where n: "trim_space s = take n (trim_left_space s)"
    using trim_right_space_take unfolding trim_space_def by blast
  have "trim_left_space (trim_space s) = trim_space s"
  proof (cases "n = 0 \<or> trim_left_space s = []")
    case False
    then have "\<not> rune_is_space (fst (decode_rune (trim_left_space s)))"
      using trim_left_space_head by blast
    with False have "\<not> rune_is_space (fst (decode_rune (trim_space s)))"
      using decode_rune_take [of n "trim_left_space s"] unfolding n by auto
    then show ?thesis by (intro trim_left_space_id) simp
  qed (auto simp: n trim_left_space_id)
  then show ?thesis
    using trim_right_space_idem [of "trim_left_space s"] by (simp add: trim_space_def)
qed

lemma trim_space_Nil [simp]: "trim_space [] = []"
  by (simp add: trim_space_def trim_left_space.simps trim_right_space.simps)

lemma set_trim_left: "set (trim_left_space s) \<subseteq> set s"
proof (induction s rule: trim_left_space.induct)
  case (1 s)
  then show ?case
    by (subst trim_left_space.simps) (auto dest!: subsetD in_set_dropD)
qed

lemma set_trim_space: "set (trim_space s) \<subseteq> set s"
proof -
  obtain n where "trim_space s = take n (trim_left_space s)"
    using trim_right_space_take unfolding trim_space_def by blast
  then have "set (trim_space s) \<subseteq> set (trim_left_space s)" by (metis set_take_subset)
  then show ?thesis using set_trim_left by blast
qed

section \<open>Ranging over runes\<close>

text \<open>The runes \<open>for _, r := range s\<close> visits.\<close>

function runes :: "string \<Rightarrow> nat list" where
  "runes s = (if s = [] then [] else fst (decode_rune s) # runes (drop (snd (decode_rune s)) s))"
  by pat_completeness auto
termination
  by (relation "measure length") (auto simp: decode_rune_width_pos)

declare runes.simps [simp del]

definition contains_control :: "string \<Rightarrow> bool" where
  "contains_control s \<longleftrightarrow> (\<exists>r \<in> set (runes s). rune_is_control r)"

definition contains_control_or_space :: "string \<Rightarrow> bool" where
  "contains_control_or_space s \<longleftrightarrow>
     (\<exists>r \<in> set (runes s). rune_is_control r \<or> rune_is_space r)"

lemma runes_ascii: "byte c < 128 \<Longrightarrow> runes (c # s) = byte c # runes s"
  by (subst runes.simps) (simp add: decode_rune_ascii)

lemma decode_rune_tail:
  assumes "1 \<le> i" "i < snd (decode_rune s)"
  shows "128 \<le> byte (s ! i)"
proof -
  have lo: "128 \<le> second_lo (byte (s ! 0))" by (simp add: second_lo_def)
  have "i = 1 \<or> i = 2 \<or> i = 3" using assms by (auto simp: decode_rune_def Let_def split: if_splits)
  then show ?thesis
    using assms lo by (elim disjE) (auto simp: decode_rune_def Let_def in_range_def split: if_splits)
qed

lemma decode_rune_multi:
  assumes "s \<noteq> []" "i < snd (decode_rune s)" "byte (s ! i) < 128"
  shows "decode_rune s = (byte (s ! i), 1)"
proof (cases "i = 0")
  case True
  with assms show ?thesis by (simp add: decode_rune_def)
next
  case False
  with assms decode_rune_tail [of i s] show ?thesis by simp
qed

lemma ascii_byte_in_runes: "c \<in> set s \<Longrightarrow> byte c < 128 \<Longrightarrow> byte c \<in> set (runes s)"
proof (induction s rule: runes.induct)
  case (1 s)
  then have ne: "s \<noteq> []" by auto
  let ?w = "snd (decode_rune s)"
  have "c \<in> set (take ?w s) \<or> c \<in> set (drop ?w s)"
    using "1.prems"(1) by (metis Un_iff append_take_drop_id set_append)
  then show ?case
  proof
    assume "c \<in> set (take ?w s)"
    then obtain i where "i < ?w" "s ! i = c" by (auto simp: in_set_conv_nth)
    with ne "1.prems"(2) have "decode_rune s = (byte c, 1)"
      using decode_rune_multi [of s i] by simp
    with ne show ?case by (subst runes.simps) simp
  next
    assume "c \<in> set (drop ?w s)"
    with "1.IH" "1.prems"(2) ne show ?case by (subst runes.simps) simp
  qed
qed

text \<open>A newline is seen by \<open>containsControl\<close> wherever it stands.\<close>

abbreviation newline :: char where "newline \<equiv> CHR 0x0A"

lemma no_control_no_newline: "\<not> contains_control s \<Longrightarrow> newline \<notin> set s"
  using ascii_byte_in_runes [of newline s]
  by (fastforce simp: contains_control_def rune_is_control_def byte_def)

section \<open>strconv\<close>

definition digit_char :: "nat \<Rightarrow> char" where "digit_char d = char_of (48 + d)"

definition upper_hex :: "nat \<Rightarrow> char" where
  "upper_hex n = (if n < 10 then char_of (48 + n) else char_of (55 + n))"

definition is_digit :: "char \<Rightarrow> bool" where "is_digit c \<longleftrightarrow> in_range 48 57 c"

fun show_nat :: "nat \<Rightarrow> string" where
  "show_nat n = (if n < 10 then [digit_char n] else show_nat (n div 10) @ [digit_char (n mod 10)])"

declare show_nat.simps [simp del]

definition format_int :: "int \<Rightarrow> string" where
  "format_int i = (if i < 0 then CHR ''-'' # show_nat (nat (- i)) else show_nat (nat i))"

definition parse_digits :: "nat \<Rightarrow> string \<Rightarrow> nat" where
  "parse_digits = foldl (\<lambda>n c. 10 * n + (byte c - 48))"

definition parse_uint :: "string \<Rightarrow> nat option" where
  "parse_uint s = (if s \<noteq> [] \<and> list_all is_digit s then Some (parse_digits 0 s) else None)"

text \<open>\<open>strconv.ParseInt(s, 10, 64)\<close>; \<open>strconv.Atoi\<close> is the same on 64-bit platforms.\<close>

definition parse_int64 :: "string \<Rightarrow> int option" where
  "parse_int64 s =
     (let neg = has_prefix s ''-'';
          body = (if neg \<or> has_prefix s ''+'' then tl s else s)
      in case parse_uint body of
           None \<Rightarrow> None
         | Some n \<Rightarrow> let v = (if neg then - int n else int n)
                     in if - (2 ^ 63) \<le> v \<and> v < 2 ^ 63 then Some v else None)"

lemma byte_digit_char [simp]: "d < 10 \<Longrightarrow> byte (digit_char d) = 48 + d"
  by (simp add: byte_def digit_char_def)

lemma is_digit_digit_char [simp]: "d < 10 \<Longrightarrow> is_digit (digit_char d)"
  by (simp add: is_digit_def in_range_def)

lemma show_nat_ne [simp]: "show_nat n \<noteq> []"
  by (subst show_nat.simps) simp

lemma show_nat_digits: "list_all is_digit (show_nat n)"
proof (induction n rule: show_nat.induct)
  case (1 n)
  then show ?case by (subst show_nat.simps) simp
qed

lemma parse_digits_show: "parse_digits 0 (show_nat n) = n"
proof (induction n rule: show_nat.induct)
  case (1 n)
  then show ?case by (subst show_nat.simps) (auto simp: parse_digits_def)
qed

lemma parse_uint_show [simp]: "parse_uint (show_nat n) = Some n"
  by (simp add: parse_uint_def show_nat_digits parse_digits_show)

lemma not_is_digit_sign: "\<not> is_digit (CHR ''-'')" "\<not> is_digit (CHR ''+'')"
  by (simp_all add: is_digit_def in_range_def byte_def)

lemma show_nat_no_sign: "\<not> has_prefix (show_nat n) ''-''" "\<not> has_prefix (show_nat n) ''+''"
proof -
  obtain c cs where "show_nat n = c # cs" by (cases "show_nat n") auto
  moreover from this have "is_digit c" using show_nat_digits [of n] by simp
  ultimately show "\<not> has_prefix (show_nat n) ''-''" "\<not> has_prefix (show_nat n) ''+''"
    using not_is_digit_sign by (auto simp: has_prefix_def)
qed

text \<open>Parsing undoes printing on every \<open>int64\<close>.\<close>

lemma parse_format_int64:
  "- (2 ^ 63) \<le> i \<Longrightarrow> i < 2 ^ 63 \<Longrightarrow> parse_int64 (format_int i) = Some i"
  by (cases "i < 0")
     (simp_all add: parse_int64_def format_int_def show_nat_no_sign has_prefix_def [of "_ # _"] Let_def)

lemma format_int_digits: "0 \<le> i \<Longrightarrow> list_all is_digit (format_int i)"
  by (simp add: format_int_def show_nat_digits)

lemma format_int_ne [simp]: "format_int i \<noteq> []"
  by (simp add: format_int_def)

lemma format_int_inj: "format_int i = format_int j \<Longrightarrow> 0 \<le> i \<Longrightarrow> 0 \<le> j \<Longrightarrow> i = j"
  by (metis format_int_def int_nat_eq not_less option.inject parse_uint_show)

end
