(* ===== verification/Tables.thy ===== *)
theory Tables
  imports Prelude
begin

text \<open>
  The persistence substrate: SQL tables as lists of rows in insertion (rowid) order, and fallible
  statements over a database state.

  \<^item> A table's primary key is a function \<open>key\<close> from rows; \<open>tget\<close>, \<open>tupdate\<close>, \<open>tdelete\<close> are
    \<open>SELECT .. WHERE key = ?\<close>, \<open>UPDATE .. WHERE\<close> and \<open>DELETE .. WHERE\<close>.
  \<^item> A statement may fail for a reason outside the model (disk error, busy timeout, cancelled
    context).  The failures are the environment's choice: a list of booleans in the state, one
    taken by each statement, \<open>True\<close> making it fail without effect.  Every \<open>if err != nil\<close> after
    a database call is thereby a branch of the model, and theorems hold for every choice.
  \<^item> \<open>dbind\<close> runs a statement and stops at its error, as \<open>if err != nil { return err }\<close> does.
\<close>

section \<open>Rows by key\<close>

definition tget :: "('r \<Rightarrow> 'k) \<Rightarrow> 'k \<Rightarrow> 'r list \<Rightarrow> 'r option" where
  "tget key k rows = find (\<lambda>r. key r = k) rows"

definition tupdate :: "('r \<Rightarrow> bool) \<Rightarrow> ('r \<Rightarrow> 'r) \<Rightarrow> 'r list \<Rightarrow> 'r list" where
  "tupdate P f rows = map (\<lambda>r. if P r then f r else r) rows"

definition tdelete :: "('r \<Rightarrow> bool) \<Rightarrow> 'r list \<Rightarrow> 'r list" where
  "tdelete P rows = filter (\<lambda>r. \<not> P r) rows"

definition taffected :: "('r \<Rightarrow> bool) \<Rightarrow> 'r list \<Rightarrow> nat" where
  "taffected P rows = length (filter P rows)"

definition tunique :: "('r \<Rightarrow> 'k) \<Rightarrow> 'r list \<Rightarrow> bool" where
  "tunique key rows \<longleftrightarrow> distinct (map key rows)"

lemma tget_Nil [simp]: "tget key k [] = None"
  by (simp add: tget_def)

lemma tget_Cons [simp]: "tget key k (r # rows) = (if key r = k then Some r else tget key k rows)"
  by (simp add: tget_def)

lemma tget_Some: "tget key k rows = Some r \<Longrightarrow> r \<in> set rows \<and> key r = k"
  by (induction rows) (auto split: if_splits)

lemma tget_SomeD [dest]: "tget key k rows = Some r \<Longrightarrow> key r = k"
  by (drule tget_Some) simp

lemma tget_None: "tget key k rows = None \<longleftrightarrow> (\<forall>r \<in> set rows. key r \<noteq> k)"
  by (induction rows) auto

lemma tget_key_mem: "k \<in> set (map key rows) \<Longrightarrow> tget key k rows \<noteq> None"
  by (induction rows) auto

lemma tget_mem: "tunique key rows \<Longrightarrow> r \<in> set rows \<Longrightarrow> tget key (key r) rows = Some r"
  by (induction rows) (auto simp: tunique_def)

lemma tget_append:
  "tget key k (xs @ ys) = (case tget key k xs of None \<Rightarrow> tget key k ys | Some r \<Rightarrow> Some r)"
  by (induction xs) auto

lemma tget_tdelete_key [simp]: "tget key k (tdelete (\<lambda>r. key r = k) rows) = None"
  by (induction rows) (simp_all add: tdelete_def)

lemma tget_tdelete_other:
  "(\<And>r. r \<in> set rows \<Longrightarrow> key r = k \<Longrightarrow> \<not> P r) \<Longrightarrow> tget key k (tdelete P rows) = tget key k rows"
  by (induction rows) (auto simp: tdelete_def)

lemma tget_tupdate:
  "(\<And>r. key (f r) = key r) \<Longrightarrow>
   tget key k (tupdate P f rows)
     = map_option (\<lambda>r. if P r then f r else r) (tget key k rows)"
  by (induction rows) (auto simp: tupdate_def)

lemma tunique_tupdate [simp]:
  "(\<And>r. key (f r) = key r) \<Longrightarrow> tunique key (tupdate P f rows) = tunique key rows"
  unfolding tunique_def tupdate_def by (induction rows) (auto simp: image_iff)

lemma tunique_tdelete: "tunique key rows \<Longrightarrow> tunique key (tdelete P rows)"
  by (simp add: tunique_def tdelete_def distinct_map_filter)

lemma tunique_snoc: "tunique key (rows @ [r]) \<longleftrightarrow> tunique key rows \<and> tget key (key r) rows = None"
  by (simp add: tunique_def tget_None) (metis image_iff)

lemma tunique_Nil [simp]: "tunique key []"
  by (simp add: tunique_def)

lemma tunique_eq: "tunique key rows \<Longrightarrow> r \<in> set rows \<Longrightarrow> s \<in> set rows \<Longrightarrow> key r = key s \<Longrightarrow> r = s"
  by (metis tget_mem option.inject)

lemma set_tdelete [simp]: "set (tdelete P rows) = {r \<in> set rows. \<not> P r}"
  by (auto simp: tdelete_def)

lemma set_tupdate: "set (tupdate P f rows) = (\<lambda>r. if P r then f r else r) ` set rows"
  by (simp add: tupdate_def)

lemma in_tupdate: "r \<in> set (tupdate P f rows) \<Longrightarrow> \<exists>s \<in> set rows. r = (if P s then f s else s)"
  unfolding set_tupdate by blast

lemma length_tupdate [simp]: "length (tupdate P f rows) = length rows"
  by (simp add: tupdate_def)

lemma tupdate_none: "taffected P rows = 0 \<Longrightarrow> tupdate P f rows = rows"
  by (auto simp: tupdate_def taffected_def filter_empty_conv intro!: map_idI)

lemma tdelete_length: "length (tdelete P rows) + taffected P rows = length rows"
  by (simp add: tdelete_def taffected_def sum_length_filter_compl add.commute)

section \<open>References between tables\<close>

definition trefs :: "('r \<Rightarrow> 'k) \<Rightarrow> 'r list \<Rightarrow> ('p \<Rightarrow> 'k) \<Rightarrow> 'p list \<Rightarrow> bool" where
  "trefs f rows pk parents \<longleftrightarrow> (\<forall>r \<in> set rows. \<exists>p \<in> set parents. pk p = f r)"

definition trefs_opt :: "('r \<Rightarrow> 'k option) \<Rightarrow> 'r list \<Rightarrow> ('p \<Rightarrow> 'k) \<Rightarrow> 'p list \<Rightarrow> bool" where
  "trefs_opt f rows pk parents \<longleftrightarrow>
     (\<forall>r \<in> set rows. f r \<noteq> None \<longrightarrow> (\<exists>p \<in> set parents. Some (pk p) = f r))"

definition tbelow :: "('r \<Rightarrow> int) \<Rightarrow> int \<Rightarrow> 'r list \<Rightarrow> bool" where
  "tbelow f n rows \<longleftrightarrow> (\<forall>r \<in> set rows. f r \<le> n)"

lemma map_tupdate: "(\<And>r. f (g r) = f r) \<Longrightarrow> map f (tupdate P g rows) = map f rows"
  by (simp add: tupdate_def)

lemma trefs_map: "trefs f rows pk ps \<longleftrightarrow> set (map f rows) \<subseteq> set (map pk ps)"
  by (auto simp: trefs_def image_iff subset_iff; metis)

lemma trefs_opt_map:
  "trefs_opt f rows pk ps \<longleftrightarrow> (\<forall>v \<in> set (map f rows). v \<noteq> None \<longrightarrow> v \<in> Some ` set (map pk ps))"
  unfolding trefs_opt_def set_map ball_simps image_image by (intro ball_cong refl) (metis image_iff)

lemma tbelow_map: "tbelow f n rows \<longleftrightarrow> (\<forall>v \<in> set (map f rows). v \<le> n)"
  by (simp add: tbelow_def)

lemma trefs_snoc [simp]:
  "trefs f (rows @ [r]) pk ps \<longleftrightarrow> trefs f rows pk ps \<and> tget pk (f r) ps \<noteq> None"
  by (auto simp: trefs_def tget_None)

lemma trefs_tupdate [simp]:
  "(\<And>r. f (g r) = f r) \<Longrightarrow> trefs f (tupdate P g rows) pk ps = trefs f rows pk ps"
  by (simp only: trefs_map map_tupdate)

lemma trefs_tupdate_parent [simp]:
  "(\<And>p. pk (g p) = pk p) \<Longrightarrow> trefs f rows pk (tupdate P g ps) = trefs f rows pk ps"
  by (simp only: trefs_map map_tupdate)

lemma trefs_tdelete: "trefs f rows pk ps \<Longrightarrow> trefs f (tdelete P rows) pk ps"
  by (simp add: trefs_def)

lemma trefs_parent_append: "trefs f rows pk ps \<Longrightarrow> trefs f rows pk (ps @ qs)"
  by (auto simp: trefs_def)

text \<open>ON DELETE CASCADE, and deleting a parent nothing refers to.\<close>

lemma trefs_cascade:
  "trefs f rows pk ps \<Longrightarrow> trefs f (tdelete (\<lambda>r. f r = k) rows) pk (tdelete (\<lambda>p. pk p = k) ps)"
  by (auto simp: trefs_def) metis

lemma trefs_unreferenced:
  "trefs f rows pk ps \<Longrightarrow> (\<forall>r \<in> set rows. f r \<noteq> k) \<Longrightarrow> trefs f rows pk (tdelete (\<lambda>p. pk p = k) ps)"
  by (auto simp: trefs_def) metis

lemma trefs_opt_tupdate [simp]:
  "(\<And>r. f (g r) = f r) \<Longrightarrow> trefs_opt f (tupdate P g rows) pk ps = trefs_opt f rows pk ps"
  by (simp only: trefs_opt_map map_tupdate)

lemma trefs_opt_tupdate_parent [simp]:
  "(\<And>p. pk (g p) = pk p) \<Longrightarrow> trefs_opt f rows pk (tupdate P g ps) = trefs_opt f rows pk ps"
  by (simp only: trefs_opt_map map_tupdate)

lemma trefs_opt_tdelete: "trefs_opt f rows pk ps \<Longrightarrow> trefs_opt f (tdelete P rows) pk ps"
  by (simp add: trefs_opt_def)

lemma trefs_opt_parent_append: "trefs_opt f rows pk ps \<Longrightarrow> trefs_opt f rows pk (ps @ qs)"
  by (auto simp: trefs_opt_def)

lemma trefs_opt_cascade:
  "trefs_opt f rows pk ps \<Longrightarrow>
   trefs_opt f (tdelete (\<lambda>r. f r = Some k) rows) pk (tdelete (\<lambda>p. pk p = k) ps)"
  by (auto simp: trefs_opt_def) (metis option.inject)

lemma tbelow_snoc [simp]: "tbelow f n (rows @ [r]) \<longleftrightarrow> tbelow f n rows \<and> f r \<le> n"
  by (auto simp: tbelow_def)

lemma tbelow_mono: "tbelow f n rows \<Longrightarrow> n \<le> m \<Longrightarrow> tbelow f m rows"
  by (auto simp: tbelow_def)

lemma tbelow_fresh: "tbelow f n rows \<Longrightarrow> n < k \<Longrightarrow> tget f k rows = None"
  by (auto simp: tbelow_def tget_None)

lemma tbelow_tupdate [simp]: "(\<And>r. f (g r) = f r) \<Longrightarrow> tbelow f n (tupdate P g rows) = tbelow f n rows"
  by (simp only: tbelow_map map_tupdate)

lemma tbelow_tdelete: "tbelow f n rows \<Longrightarrow> tbelow f n (tdelete P rows)"
  by (simp add: tbelow_def)

lemmas table_simps = tunique_snoc tunique_tdelete trefs_tdelete trefs_parent_append trefs_cascade
  trefs_unreferenced trefs_opt_tdelete trefs_opt_parent_append trefs_opt_cascade tbelow_tdelete

end
