(* ===== verification/Store_Schema.thy ===== *)
theory Store_Schema
  imports Tables
begin

text \<open>
  The database of \<open>internal/store\<close>: one record per table (the columns of
  \<open>store/migrations/*.sql\<close>), the state \<open>db\<close> that holds them, fallible statements and
  transactions, the key and foreign-key invariant \<open>db_wf\<close>.

  A record stands for both the table row and the Go struct the package returns.  In a row the
  time fields are Unix seconds; in a struct they are instants, as the \<open>scan\<close> functions of the
  component theories convert them.  0/1 columns are kept as booleans.
\<close>

section \<open>Rows\<close>

record user =
  u_id :: int
  u_username :: string
  u_password_hash :: string
  u_is_admin :: bool
  u_incus_project :: string
  u_created_at :: int

record session =
  se_id :: string
  se_user_id :: int
  se_created_at :: int
  se_expires_at :: int
  se_last_seen_at :: int

record api_token =
  at_id :: string
  at_user_id :: int
  at_name :: string
  at_token_hash :: string
  at_scopes :: string
  at_created_at :: int
  at_expires_at :: "int option"
  at_last_used_at :: "int option"

record totp_secret =
  ts_user_id :: int
  ts_secret :: string
  ts_enabled :: bool
  ts_created_at :: int
  ts_updated_at :: int

record recovery_code =
  rc_id :: int
  rc_user_id :: int
  rc_code_hash :: string
  rc_used :: bool

datatype op_status = OpPending | OpRunning | OpSuccess | OpFailure | OpCancelled

record operation =
  op_id :: string
  op_user_id :: int
  op_kind :: string
  op_target :: string
  op_incus_op_id :: string
  op_status :: op_status
  op_error :: string
  op_created_at :: int
  op_updated_at :: int

record schedule =
  sc_id :: string
  sc_user_id :: int
  sc_name :: string
  sc_kind :: string
  sc_target :: string
  sc_on_calendar :: string
  sc_enabled :: bool
  sc_unit_name :: "string option"
  sc_last_status :: "string option"
  sc_last_error :: "string option"
  sc_last_run_at :: "int option"
  sc_next_run_at :: "int option"
  sc_created_at :: int
  sc_updated_at :: int

record webhook =
  wh_id :: string
  wh_user_id :: int
  wh_name :: string
  wh_url :: string
  wh_secret_encrypted :: string
  wh_events :: "string list"
  wh_enabled :: bool
  wh_created_at :: int
  wh_updated_at :: int

record delivery =
  de_id :: string
  de_webhook_id :: string
  de_event_id :: string
  de_event_type :: string
  de_status :: string
  de_status_code :: "int option"
  de_response_body :: "string option"
  de_error :: "string option"
  de_attempt :: int
  de_created_at :: int

record event =
  ev_id :: string
  ev_type :: string
  ev_time :: int
  ev_source :: string
  ev_subject :: string
  ev_data :: string

datatype ob_status = ObPending | ObProcessing | ObDelivered

record outbox =
  ob_id :: string
  ob_event_id :: string
  ob_webhook_id :: "string option"
  ob_status :: ob_status
  ob_attempts :: int
  ob_next_run_at :: "int option"
  ob_created_at :: int
  ob_updated_at :: int

record firewall_rule =
  fw_id :: string
  fw_user_id :: int
  fw_direction :: string
  fw_action :: string
  fw_protocol :: string
  fw_source_cidr :: "string option"
  fw_destination_cidr :: "string option"
  fw_destination_port :: "int option"
  fw_enabled :: bool
  fw_comment :: "string option"
  fw_nft_comment :: string
  fw_nft_handle :: "int option"
  fw_created_at :: int
  fw_updated_at :: int

record incus_cert =
  ic_user_id :: int
  ic_cert_pem :: string
  ic_encrypted_cert_pem :: string
  ic_encrypted_key_pem :: string
  ic_fingerprint :: string
  ic_restricted :: bool
  ic_project_scope :: string
  ic_expires_at :: "int option"
  ic_revoked_at :: "int option"
  ic_created_at :: int
  ic_updated_at :: int

record k8s_cluster =
  k8_id :: string
  k8_user_id :: int
  k8_name :: string
  k8_version :: string
  k8_control_planes :: int
  k8_workers :: int
  k8_status :: string
  k8_kubeconfig :: "string option"
  k8_created_at :: int
  k8_updated_at :: int

record bmc_endpoint =
  bm_id :: string
  bm_user_id :: int
  bm_name :: string
  bm_address :: string
  bm_port :: int
  bm_username :: string
  bm_password :: string
  bm_protocol :: string
  bm_created_at :: int
  bm_updated_at :: int

section \<open>The database\<close>

record db =
  users :: "user list"
  user_seq :: int
  sessions :: "session list"
  api_tokens :: "api_token list"
  totp_secrets :: "totp_secret list"
  recovery_codes :: "recovery_code list"
  recovery_seq :: int
  operations :: "operation list"
  schedules :: "schedule list"
  webhooks :: "webhook list"
  webhook_events :: "(string \<times> string) list"
  deliveries :: "delivery list"
  events :: "event list"
  event_outbox :: "outbox list"
  firewall_rules :: "firewall_rule list"
  incus_certs :: "incus_cert list"
  k8s_clusters :: "k8s_cluster list"
  bmc_endpoints :: "bmc_endpoint list"
  faults :: "bool list"

definition empty_db :: db where
  "empty_db = \<lparr>users = [], user_seq = 0, sessions = [], api_tokens = [], totp_secrets = [],
     recovery_codes = [], recovery_seq = 0, operations = [], schedules = [], webhooks = [],
     webhook_events = [], deliveries = [], events = [], event_outbox = [], firewall_rules = [],
     incus_certs = [],
     k8s_clusters = [], bmc_endpoints = [], faults = []\<rparr>"

text \<open>The data, without the environment's choice of failures.\<close>

definition content :: "db \<Rightarrow> db" where "content d = d\<lparr>faults := []\<rparr>"

section \<open>Errors, statements, transactions\<close>

datatype store_error =
    ErrNotFound
  | ErrUsersExist
  | ErrUnique         \<comment> \<open>a UNIQUE or PRIMARY KEY constraint\<close>
  | ErrForeignKey     \<comment> \<open>a FOREIGN KEY constraint\<close>
  | ErrIO             \<comment> \<open>any other failure of the driver\<close>
  | ErrUUID           \<comment> \<open>\<open>uuid.NewV7\<close> failed\<close>
  | ErrCrypto         \<comment> \<open>encryption or decryption failed\<close>
  | ErrInvalid string

type_synonym 'a res = "store_error + 'a"
type_synonym 'a dbm = "db \<Rightarrow> 'a res \<times> db"

definition dret :: "'a \<Rightarrow> 'a dbm" where "dret x d = (Inr x, d)"

definition dfail :: "store_error \<Rightarrow> 'a dbm" where "dfail e d = (Inl e, d)"

definition dbind :: "'a dbm \<Rightarrow> ('a \<Rightarrow> 'b dbm) \<Rightarrow> 'b dbm" where
  "dbind m k d = (case m d of (Inl e, d1) \<Rightarrow> (Inl e, d1) | (Inr x, d1) \<Rightarrow> k x d1)"

definition stmt :: "'a dbm \<Rightarrow> 'a dbm" where
  "stmt f d = (case faults d of
     [] \<Rightarrow> f d
   | b # fs \<Rightarrow> if b then (Inl ErrIO, d\<lparr>faults := fs\<rparr>) else f (d\<lparr>faults := fs\<rparr>))"

definition query :: "(db \<Rightarrow> 'a) \<Rightarrow> 'a dbm" where
  "query q = stmt (\<lambda>d. (Inr (q d), d))"

definition exec :: "(db \<Rightarrow> db) \<Rightarrow> unit dbm" where
  "exec f = stmt (\<lambda>d. (Inr (), f d))"

text \<open>
  \<open>BeginTx\<close>, the body, \<open>Commit\<close>; every early return runs the deferred \<open>Rollback\<close>, which
  restores the data of the beginning (the failures already taken stay taken).
\<close>

definition transaction :: "'a dbm \<Rightarrow> 'a dbm" where
  "transaction m d = (case stmt (dret ()) d of
     (Inl e, d1) \<Rightarrow> (Inl e, d1)
   | (Inr _, d1) \<Rightarrow> (case dbind m (\<lambda>x. dbind (stmt (dret ())) (\<lambda>_. dret x)) d1 of
       (Inl e, d2) \<Rightarrow> (Inl e, d1\<lparr>faults := faults d2\<rparr>)
     | (Inr x, d2) \<Rightarrow> (Inr x, d2)))"

lemma content_faults [simp]: "content (d\<lparr>faults := fs\<rparr>) = content d"
  by (simp add: content_def)

lemma content_content [simp]: "content (content d) = content d"
  by (simp add: content_def)

lemma contentD:
  assumes "content d = content d'"
  shows "users d = users d'" "user_seq d = user_seq d'" "sessions d = sessions d'"
    "api_tokens d = api_tokens d'" "totp_secrets d = totp_secrets d'"
    "recovery_codes d = recovery_codes d'" "recovery_seq d = recovery_seq d'"
    "operations d = operations d'" "schedules d = schedules d'" "webhooks d = webhooks d'"
    "webhook_events d = webhook_events d'" "deliveries d = deliveries d'"
    "events d = events d'" "event_outbox d = event_outbox d'"
    "firewall_rules d = firewall_rules d'" "incus_certs d = incus_certs d'"
    "k8s_clusters d = k8s_clusters d'" "bmc_endpoints d = bmc_endpoints d'"
  using assms by (cases d; cases d'; simp add: content_def)+

lemma stmt_cases:
  obtains (ok) fs where "stmt f d = f (d\<lparr>faults := fs\<rparr>)"
  | (fault) fs where "stmt f d = (Inl ErrIO, d\<lparr>faults := fs\<rparr>)"
proof (cases "faults d")
  case Nil
  have "d = d\<lparr>faults := faults d\<rparr>" by simp
  then have "d = d\<lparr>faults := []\<rparr>" by (simp only: Nil)
  moreover have "stmt f d = f d" by (simp add: stmt_def Nil)
  ultimately have "stmt f d = f (d\<lparr>faults := []\<rparr>)" by metis
  then show ?thesis by (rule ok)
next
  case (Cons b fs)
  then show ?thesis by (cases b) (auto simp: stmt_def intro: ok fault)
qed

lemma stmt_quiet_cases:
  obtains (ok) fs where "stmt f d = f (d\<lparr>faults := fs\<rparr>)" "faults d = [] \<longrightarrow> fs = []"
  | (fault) fs where "stmt f d = (Inl ErrIO, d\<lparr>faults := fs\<rparr>)" "faults d \<noteq> []"
proof (cases "faults d")
  case Nil
  have "d = d\<lparr>faults := faults d\<rparr>" by simp
  then have "d = d\<lparr>faults := []\<rparr>" by (simp only: Nil)
  moreover have "stmt f d = f d" by (simp add: stmt_def Nil)
  ultimately have "stmt f d = f (d\<lparr>faults := []\<rparr>)" by metis
  then show ?thesis by (rule ok) simp
next
  case (Cons b fs)
  show ?thesis
  proof (cases b)
    case True
    then have "stmt f d = (Inl ErrIO, d\<lparr>faults := fs\<rparr>)" by (simp add: stmt_def Cons)
    then show ?thesis by (rule fault) (simp add: Cons)
  next
    case False
    then have "stmt f d = f (d\<lparr>faults := fs\<rparr>)" by (simp add: stmt_def Cons)
    then show ?thesis by (rule ok) (simp add: Cons)
  qed
qed

lemma stmt_no_faults: "faults d = [] \<Longrightarrow> stmt f d = f d"
  by (simp add: stmt_def)

text \<open>A statement that succeeded ran on the same data.\<close>

lemma query_Inr: "query q d = (Inr x, d') \<Longrightarrow> \<exists>fs. d' = d\<lparr>faults := fs\<rparr> \<and> x = q (d\<lparr>faults := fs\<rparr>)"
  unfolding query_def by (rule stmt_cases [of "\<lambda>d. (Inr (q d), d)" d]) auto

lemma query_Inl: "query q d = (Inl e, d') \<Longrightarrow> e = ErrIO \<and> (\<exists>fs. d' = d\<lparr>faults := fs\<rparr>)"
  unfolding query_def by (rule stmt_cases [of "\<lambda>d. (Inr (q d), d)" d]) auto

lemma query_content: "query q d = (r, d') \<Longrightarrow> content d' = content d"
  by (cases r) (auto dest: query_Inr query_Inl)

lemma exec_Inr: "exec f d = (Inr u, d') \<Longrightarrow> \<exists>fs. d' = f (d\<lparr>faults := fs\<rparr>)"
  unfolding exec_def by (rule stmt_cases [of "\<lambda>d. (Inr (), f d)" d]) auto

lemma exec_Inl: "exec f d = (Inl e, d') \<Longrightarrow> e = ErrIO \<and> (\<exists>fs. d' = d\<lparr>faults := fs\<rparr>)"
  unfolding exec_def by (rule stmt_cases [of "\<lambda>d. (Inr (), f d)" d]) auto

lemma dbind_Inr: "dbind m k d = (Inr y, d') \<longleftrightarrow> (\<exists>x d1. m d = (Inr x, d1) \<and> k x d1 = (Inr y, d'))"
  by (auto simp: dbind_def split: prod.splits sum.splits)

lemma dbind_Inl: "dbind m k d = (Inl e, d') \<longleftrightarrow>
    m d = (Inl e, d') \<or> (\<exists>x d1. m d = (Inr x, d1) \<and> k x d1 = (Inl e, d'))"
  by (auto simp: dbind_def split: prod.splits sum.splits)

lemma stmt_dret: "stmt (dret x) d = (r, d') \<Longrightarrow>
    (\<exists>fs. d' = d\<lparr>faults := fs\<rparr>) \<and> (r = Inr x \<or> r = Inl ErrIO)"
  by (rule stmt_cases [of "dret x" d]) (auto simp: dret_def)

lemma transaction_Inr:
  assumes "transaction m d = (Inr x, d')"
  shows "\<exists>fs fs' d2. m (d\<lparr>faults := fs\<rparr>) = (Inr x, d2) \<and> d' = d2\<lparr>faults := fs'\<rparr>"
proof -
  obtain u d1 where 1: "stmt (dret ()) d = (Inr u, d1)"
    and 2: "dbind m (\<lambda>x. dbind (stmt (dret ())) (\<lambda>_. dret x)) d1 = (Inr x, d')"
    using assms by (auto simp: transaction_def split: prod.splits sum.splits)
  from stmt_dret [OF 1] obtain fs where d1: "d1 = d\<lparr>faults := fs\<rparr>" by blast
  from 2 obtain y d2 v d3 where m: "m d1 = (Inr y, d2)" and c: "stmt (dret ()) d2 = (Inr v, d3)"
    and r: "dret y d3 = (Inr x, d')"
    by (auto simp: dbind_Inr)
  from stmt_dret [OF c] obtain fs' where "d3 = d2\<lparr>faults := fs'\<rparr>" by blast
  with r m d1 show ?thesis by (auto simp: dret_def)
qed

text \<open>A transaction that reports an error has left the data as it was.\<close>

lemma transaction_Inl: "transaction m d = (Inl e, d') \<Longrightarrow> \<exists>fs. d' = d\<lparr>faults := fs\<rparr>"
  by (auto simp: transaction_def split: prod.splits sum.splits dest!: stmt_dret)

corollary transaction_atomic: "transaction m d = (Inl e, d') \<Longrightarrow> content d' = content d"
  by (auto dest: transaction_Inl)

section \<open>Predicates every operation keeps\<close>

definition keeps :: "(db \<Rightarrow> bool) \<Rightarrow> 'a dbm \<Rightarrow> bool" where
  "keeps P m \<longleftrightarrow> (\<forall>d. P d \<longrightarrow> P (snd (m d)))"

definition data_pred :: "(db \<Rightarrow> bool) \<Rightarrow> bool" where
  "data_pred P \<longleftrightarrow> (\<forall>d fs. P (d\<lparr>faults := fs\<rparr>) = P d)"

named_theorems keeps_intros \<open>rules that an operation keeps a predicate\<close>

lemma keepsD: "keeps P m \<Longrightarrow> m d = (r, d') \<Longrightarrow> P d \<Longrightarrow> P d'"
  unfolding keeps_def by (metis snd_conv)

lemma keepsI: "(\<And>d r d'. P d \<Longrightarrow> m d = (r, d') \<Longrightarrow> P d') \<Longrightarrow> keeps P m"
  unfolding keeps_def by (metis prod.collapse)

lemma data_predD [simp]: "data_pred P \<Longrightarrow> P (d\<lparr>faults := fs\<rparr>) = P d"
  by (simp add: data_pred_def)

lemma keeps_dret [keeps_intros]: "keeps P (dret x)"
  by (simp add: keeps_def dret_def)

lemma keeps_dfail [keeps_intros]: "keeps P (dfail e)"
  by (simp add: keeps_def dfail_def)

lemma keeps_dbind [keeps_intros]:
  "keeps P m \<Longrightarrow> (\<And>x. keeps P (k x)) \<Longrightarrow> keeps P (dbind m k)"
  by (rule keepsI) (auto simp: dbind_def split: prod.splits sum.splits dest: keepsD)

lemma keeps_stmt: "data_pred P \<Longrightarrow> keeps P f \<Longrightarrow> keeps P (stmt f)"
  by (rule keepsI, rule_tac f = f and d = d in stmt_cases) (auto dest: keepsD)

lemma keeps_query: "data_pred P \<Longrightarrow> keeps P (query q)"
  unfolding query_def by (rule keeps_stmt) (simp_all add: keeps_def)

lemma keeps_exec: "data_pred P \<Longrightarrow> (\<And>d. P d \<Longrightarrow> P (f d)) \<Longrightarrow> keeps P (exec f)"
  unfolding exec_def by (rule keeps_stmt) (simp_all add: keeps_def)

lemma keeps_transaction: "data_pred P \<Longrightarrow> keeps P m \<Longrightarrow> keeps P (transaction m)"
proof (rule keepsI)
  fix d r d' assume "data_pred P" "keeps P m" "P d" "transaction m d = (r, d')"
  then show "P d'"
    by (cases r) (auto dest!: transaction_Inl transaction_Inr dest: keepsD)
qed

lemma keeps_if [keeps_intros]: "keeps P m \<Longrightarrow> keeps P n \<Longrightarrow> keeps P (if b then m else n)"
  by simp

lemma keeps_option [keeps_intros]:
  "keeps P m \<Longrightarrow> (\<And>x. keeps P (n x)) \<Longrightarrow> keeps P (case v of None \<Rightarrow> m | Some x \<Rightarrow> n x)"
  by (cases v) auto

section \<open>Keys and references\<close>

text \<open>
  The constraints the migrations declare: primary and UNIQUE keys, foreign keys, and that the
  AUTOINCREMENT counters bound the ids they gave out.
\<close>

definition keys_ok :: "db \<Rightarrow> bool" where
  "keys_ok d \<longleftrightarrow>
     tunique u_id (users d) \<and> tunique u_username (users d) \<and> tunique se_id (sessions d) \<and>
     tunique at_id (api_tokens d) \<and> tunique at_token_hash (api_tokens d) \<and>
     tunique ts_user_id (totp_secrets d) \<and> tunique rc_id (recovery_codes d) \<and>
     tunique op_id (operations d) \<and> tunique sc_id (schedules d) \<and> tunique wh_id (webhooks d) \<and>
     tunique id (webhook_events d) \<and> tunique de_id (deliveries d) \<and> tunique ev_id (events d) \<and>
     tunique ob_id (event_outbox d) \<and> tunique fw_id (firewall_rules d) \<and>
     tunique fw_nft_comment (firewall_rules d) \<and> tunique ic_user_id (incus_certs d) \<and>
     tunique ic_fingerprint (incus_certs d) \<and> tunique k8_id (k8s_clusters d) \<and>
     tunique k8_name (k8s_clusters d) \<and> tunique bm_id (bmc_endpoints d)"

definition seqs_ok :: "db \<Rightarrow> bool" where
  "seqs_ok d \<longleftrightarrow> tbelow u_id (user_seq d) (users d) \<and> tbelow rc_id (recovery_seq d) (recovery_codes d)"

definition refs_ok :: "db \<Rightarrow> bool" where
  "refs_ok d \<longleftrightarrow>
     trefs se_user_id (sessions d) u_id (users d) \<and> trefs at_user_id (api_tokens d) u_id (users d) \<and>
     trefs ts_user_id (totp_secrets d) u_id (users d) \<and>
     trefs rc_user_id (recovery_codes d) u_id (users d) \<and>
     trefs op_user_id (operations d) u_id (users d) \<and> trefs sc_user_id (schedules d) u_id (users d) \<and>
     trefs wh_user_id (webhooks d) u_id (users d) \<and>
     trefs fst (webhook_events d) wh_id (webhooks d) \<and>
     trefs de_webhook_id (deliveries d) wh_id (webhooks d) \<and>
     trefs ob_event_id (event_outbox d) ev_id (events d) \<and>
     trefs_opt ob_webhook_id (event_outbox d) wh_id (webhooks d) \<and>
     trefs fw_user_id (firewall_rules d) u_id (users d) \<and>
     trefs ic_user_id (incus_certs d) u_id (users d) \<and>
     trefs k8_user_id (k8s_clusters d) u_id (users d) \<and>
     trefs bm_user_id (bmc_endpoints d) u_id (users d)"

definition db_wf :: "db \<Rightarrow> bool" where
  "db_wf d \<longleftrightarrow> keys_ok d \<and> seqs_ok d \<and> refs_ok d"

lemmas wf_defs = db_wf_def keys_ok_def seqs_ok_def refs_ok_def

lemma db_wf_empty: "db_wf empty_db"
  by (simp add: wf_defs empty_db_def trefs_def trefs_opt_def tbelow_def)

lemma data_pred_wf [simp]: "data_pred db_wf"
  by (simp add: data_pred_def wf_defs)

lemma db_wf_faults [simp]: "db_wf (d\<lparr>faults := fs\<rparr>) = db_wf d"
  by simp

text \<open>A statement that keeps \<open>db_wf\<close>, in the forms the operations use.\<close>

lemma keeps_wf_exec [keeps_intros]: "(\<And>d. db_wf d \<Longrightarrow> db_wf (f d)) \<Longrightarrow> keeps db_wf (exec f)"
  by (simp add: keeps_exec)

lemma keeps_wf_query [keeps_intros]: "keeps db_wf (query q)"
  by (simp add: keeps_query)

lemma keeps_wf_stmt [keeps_intros]: "(\<And>d. db_wf d \<Longrightarrow> db_wf (snd (f d))) \<Longrightarrow> keeps db_wf (stmt f)"
  by (rule keeps_stmt) (simp_all add: keeps_def)

lemma keeps_wf_transaction [keeps_intros]: "keeps db_wf m \<Longrightarrow> keeps db_wf (transaction m)"
  by (simp add: keeps_transaction)

end
