(* ===== verification/Credentials.thy ===== *)
theory Credentials
  imports Prelude
begin

text \<open>
  The contract of a store of expiring credentials, which the HTTP layer relies on twice: for
  session cookies (the \<open>sessions\<close> table) and for MFA challenges (the \<open>mfaTokens\<close> map).
  \<open>held s k\<close> is the credential the store has under key \<open>k\<close>.
\<close>

datatype ('k, 'a) cred_call = Issue gotime 'k 'a | Redeem gotime 'k | Revoke 'k

fun cred_run ::
  "(gotime \<Rightarrow> 'k \<Rightarrow> 'a \<Rightarrow> 's \<Rightarrow> bool \<times> 's) \<Rightarrow> (gotime \<Rightarrow> 'k \<Rightarrow> 's \<Rightarrow> 'v option \<times> 's) \<Rightarrow> ('k \<Rightarrow> 's \<Rightarrow> bool \<times> 's)
    \<Rightarrow> ('k, 'a) cred_call list \<Rightarrow> 's \<Rightarrow> 's" where
  "cred_run issue redeem revoke [] s = s"
| "cred_run issue redeem revoke (Issue t k a # cs) s =
     cred_run issue redeem revoke cs (snd (issue t k a s))"
| "cred_run issue redeem revoke (Redeem t k # cs) s =
     cred_run issue redeem revoke cs (snd (redeem t k s))"
| "cred_run issue redeem revoke (Revoke k # cs) s =
     cred_run issue redeem revoke cs (snd (revoke k s))"

locale credential_store =
  fixes held :: "'s \<Rightarrow> 'k \<Rightarrow> 'v option"
    and expired :: "gotime \<Rightarrow> 'v \<Rightarrow> bool"
    and issued :: "gotime \<Rightarrow> 'a \<Rightarrow> 'v"
    and issue :: "gotime \<Rightarrow> 'k \<Rightarrow> 'a \<Rightarrow> 's \<Rightarrow> bool \<times> 's"
    and redeem :: "gotime \<Rightarrow> 'k \<Rightarrow> 's \<Rightarrow> 'v option \<times> 's"
    and revoke :: "'k \<Rightarrow> 's \<Rightarrow> bool \<times> 's"
  assumes issue_ok: "issue now k a s = (True, s') \<Longrightarrow> held s' k = Some (issued now a)"
    and issue_other: "issue now k a s = (b, s') \<Longrightarrow> held s' j = Some v \<Longrightarrow>
      held s j = Some v \<or> (b \<and> j = k \<and> v = issued now a)"
    and redeem_some: "redeem now k s = (Some v, s') \<Longrightarrow> held s k = Some v \<and> \<not> expired now v \<and> held s' = held s"
    and redeem_none: "redeem now k s = (None, s') \<Longrightarrow> held s' \<subseteq>\<^sub>m held s"
    and revoke: "revoke k s = (b, s') \<Longrightarrow> held s' \<subseteq>\<^sub>m held s \<and> (b \<longrightarrow> held s' k = None)"
begin

lemma redeem_mono: "held (snd (redeem now k s)) \<subseteq>\<^sub>m held s"
proof (cases "redeem now k s")
  case (Pair v s')
  then show ?thesis using redeem_some [of now k s] redeem_none [of now k s s'] by (cases v) auto
qed

lemma revoke_mono: "held (snd (revoke k s)) \<subseteq>\<^sub>m held s"
  using revoke [of k s] by (cases "revoke k s") auto

text \<open>Whatever is held after a run was held before it, or issued in it.\<close>

theorem run_origin:
  "held (cred_run issue redeem revoke cs s) k = Some v \<Longrightarrow>
   held s k = Some v \<or> (\<exists>t a. Issue t k a \<in> set cs \<and> v = issued t a)"
proof (induction cs arbitrary: s)
  case (Cons c cs)
  show ?case
  proof (cases c)
    case (Issue t j a)
    then show ?thesis using Cons issue_other [of t j a s "fst (issue t j a s)" "snd (issue t j a s)" k v]
      by auto
  next
    case (Redeem t j)
    then show ?thesis using Cons redeem_mono [of t j s] by (auto simp: map_le_def dom_def)
  next
    case (Revoke j)
    then show ?thesis using Cons revoke_mono [of j s] by (auto simp: map_le_def dom_def)
  qed
qed simp

text \<open>A credential is redeemed only as issued and before it expires; once revoked, never again.\<close>

theorem redeem_issued:
  assumes "held s0 = Map.empty"
    and "redeem now k (cred_run issue redeem revoke cs s0) = (Some v, s')"
  shows "\<exists>t a. Issue t k a \<in> set cs \<and> v = issued t a \<and> \<not> expired now v"
  using run_origin [of cs s0 k v] redeem_some [OF assms(2)] assms(1) by auto

theorem revoked_never_redeemed:
  assumes "revoke k s = (True, s1)" "\<forall>t a. Issue t k a \<notin> set cs"
  shows "fst (redeem now k (cred_run issue redeem revoke cs s1)) = None"
proof (cases "redeem now k (cred_run issue redeem revoke cs s1)")
  case (Pair v s2)
  then show ?thesis
    using assms revoke [OF assms(1)] redeem_some [of now k _ _ s2] run_origin [of cs s1 k]
    by (cases v) auto
qed

text \<open>Redeemed, then revoked: single use.\<close>

corollary single_use:
  assumes "redeem now k s = (Some v, s1)" "revoke k s1 = (True, s2)" "\<forall>t a. Issue t k a \<notin> set cs"
  shows "fst (redeem later k (cred_run issue redeem revoke cs s2)) = None"
  using revoked_never_redeemed assms(2,3) by blast

end

end
