(* ===== verification/Store_Accounts.thy ===== *)
theory Store_Accounts
  imports Store_Schema Credentials
begin

text \<open>
  \<open>store/users.go\<close>, \<open>sessions.go\<close>, \<open>api_tokens.go\<close> and \<open>totp.go\<close>: the rows that decide who a
  caller is.  Every operation is the Go function of the same name; \<open>now\<close> is its \<open>time.Now()\<close>,
  a generated UUID is an argument (\<open>None\<close> when \<open>uuid.NewV7\<close> fails).

  The lemmas give each operation's effect, and that each keeps any predicate of the data that
  its statements keep (\<open>keeps_intros\<close>).
\<close>

section \<open>Users\<close>

definition default_string :: "string \<Rightarrow> string \<Rightarrow> string" where
  "default_string v fallback = (if v \<noteq> '''' then v else fallback)"

definition scan_user :: "user \<Rightarrow> user" where
  "scan_user r = r\<lparr>u_created_at := from_unix (u_created_at r),
                    u_incus_project := default_string (u_incus_project r) ''default''\<rparr>"

text \<open>\<open>INSERT INTO users (..)\<close>: \<open>username\<close> is UNIQUE, \<open>id\<close> AUTOINCREMENT, \<open>incus_project\<close>
  DEFAULT 'default'.\<close>

definition insert_user :: "string \<Rightarrow> string \<Rightarrow> unixsec \<Rightarrow> bool \<Rightarrow> int dbm" where
  "insert_user name hash created admin = stmt (\<lambda>d.
     if tget u_username name (users d) \<noteq> None then (Inl ErrUnique, d)
     else let i = user_seq d + 1;
              row = \<lparr>u_id = i, u_username = name, u_password_hash = hash, u_is_admin = admin,
                     u_incus_project = ''default'', u_created_at = created\<rparr>
          in (Inr i, d\<lparr>users := users d @ [row], user_seq := i\<rparr>))"

definition CreateUser :: "gotime \<Rightarrow> string \<Rightarrow> string \<Rightarrow> bool \<Rightarrow> user dbm" where
  "CreateUser now name hash admin =
     dbind (insert_user name hash (to_unix now) admin) (\<lambda>i.
     dret \<lparr>u_id = i, u_username = name, u_password_hash = hash, u_is_admin = admin,
           u_incus_project = ''default'', u_created_at = from_unix (to_unix now)\<rparr>)"

definition CreateFirstAdmin :: "gotime \<Rightarrow> string \<Rightarrow> string \<Rightarrow> user dbm" where
  "CreateFirstAdmin now name hash = transaction (
     dbind (query (\<lambda>d. length (users d))) (\<lambda>n.
     if 0 < n then dfail ErrUsersExist else
     dbind (insert_user name hash (to_unix now) True) (\<lambda>i.
     dret \<lparr>u_id = i, u_username = name, u_password_hash = hash, u_is_admin = True,
           u_incus_project = ''default'', u_created_at = from_unix (to_unix now)\<rparr>)))"

definition one_row :: "('r \<Rightarrow> 'a) \<Rightarrow> 'r option \<Rightarrow> 'a dbm" where
  "one_row scan r = (case r of None \<Rightarrow> dfail ErrNotFound | Some x \<Rightarrow> dret (scan x))"

definition GetUserByUsername :: "string \<Rightarrow> user dbm" where
  "GetUserByUsername name = dbind (query (\<lambda>d. tget u_username name (users d))) (one_row scan_user)"

definition GetUserByID :: "int \<Rightarrow> user dbm" where
  "GetUserByID i = dbind (query (\<lambda>d. tget u_id i (users d))) (one_row scan_user)"

definition CountUsers :: "nat dbm" where
  "CountUsers = query (\<lambda>d. length (users d))"

text \<open>\<open>ORDER BY created_at ASC\<close>; rows of equal \<open>created_at\<close> in rowid order.\<close>

definition ListUsers :: "user list dbm" where
  "ListUsers = query (\<lambda>d. map scan_user (sort_key u_created_at (users d)))"

definition UpdateUser :: "int \<Rightarrow> string \<Rightarrow> bool \<Rightarrow> unit dbm" where
  "UpdateUser i hash admin = exec (\<lambda>d. d\<lparr>users :=
     tupdate (\<lambda>u. u_id u = i) (\<lambda>u. u\<lparr>u_password_hash := hash, u_is_admin := admin\<rparr>) (users d)\<rparr>)"

definition SetUserIncusProject :: "int \<Rightarrow> string \<Rightarrow> unit dbm" where
  "SetUserIncusProject i project =
     dbind (stmt (\<lambda>d. (Inr (taffected (\<lambda>u. u_id u = i) (users d)),
        d\<lparr>users := tupdate (\<lambda>u. u_id u = i) (\<lambda>u. u\<lparr>u_incus_project := project\<rparr>) (users d)\<rparr>)))
     (\<lambda>n. if n = 0 then dfail ErrNotFound else dret ())"

text \<open>
  \<open>DELETE FROM users\<close>.  \<open>sessions\<close>, \<open>api_tokens\<close>, \<open>totp_secrets\<close>, \<open>totp_recovery_codes\<close> and
  \<open>incus_user_certs\<close> are declared ON DELETE CASCADE; \<open>operations\<close>, \<open>schedules\<close>, \<open>webhooks\<close>,
  \<open>firewall_host_rules\<close>, \<open>k8s_clusters\<close> and \<open>bmc_endpoints\<close> reference \<open>users(id)\<close> with no action, so a row of theirs makes the
  statement fail (\<open>PRAGMA foreign_keys(on)\<close>).
\<close>

definition user_referenced :: "int \<Rightarrow> db \<Rightarrow> bool" where
  "user_referenced i d \<longleftrightarrow>
     (\<exists>r \<in> set (operations d). op_user_id r = i) \<or> (\<exists>r \<in> set (schedules d). sc_user_id r = i)
     \<or> (\<exists>r \<in> set (webhooks d). wh_user_id r = i) \<or> (\<exists>r \<in> set (firewall_rules d). fw_user_id r = i)
     \<or> (\<exists>r \<in> set (k8s_clusters d). k8_user_id r = i) \<or> (\<exists>r \<in> set (bmc_endpoints d). bm_user_id r = i)"

definition delete_user_rows :: "int \<Rightarrow> db \<Rightarrow> db" where
  "delete_user_rows i d = d\<lparr>
     users := tdelete (\<lambda>u. u_id u = i) (users d),
     sessions := tdelete (\<lambda>r. se_user_id r = i) (sessions d),
     api_tokens := tdelete (\<lambda>r. at_user_id r = i) (api_tokens d),
     totp_secrets := tdelete (\<lambda>r. ts_user_id r = i) (totp_secrets d),
     recovery_codes := tdelete (\<lambda>r. rc_user_id r = i) (recovery_codes d),
     incus_certs := tdelete (\<lambda>r. ic_user_id r = i) (incus_certs d)\<rparr>"

definition DeleteUser :: "int \<Rightarrow> unit dbm" where
  "DeleteUser i = stmt (\<lambda>d.
     if tget u_id i (users d) \<noteq> None \<and> user_referenced i d then (Inl ErrForeignKey, d)
     else (Inr (), if tget u_id i (users d) = None then d else delete_user_rows i d))"

section \<open>Sessions\<close>

definition scan_session :: "session \<Rightarrow> session" where
  "scan_session r = r\<lparr>se_created_at := from_unix (se_created_at r),
     se_expires_at := from_unix (se_expires_at r), se_last_seen_at := from_unix (se_last_seen_at r)\<rparr>"

definition CreateSession :: "gotime \<Rightarrow> string \<Rightarrow> int \<Rightarrow> gotime \<Rightarrow> session dbm" where
  "CreateSession now hash uid ttl =
     dbind (stmt (\<lambda>d.
       if tget se_id hash (sessions d) \<noteq> None then (Inl ErrUnique, d)
       else if tget u_id uid (users d) = None then (Inl ErrForeignKey, d)
       else (Inr (), d\<lparr>sessions := sessions d @
         [\<lparr>se_id = hash, se_user_id = uid, se_created_at = to_unix now,
           se_expires_at = to_unix (now + ttl), se_last_seen_at = to_unix now\<rparr>]\<rparr>)))
     (\<lambda>_. dret \<lparr>se_id = hash, se_user_id = uid, se_created_at = now, se_expires_at = now + ttl,
                se_last_seen_at = now\<rparr>)"

definition delete_session_stmt :: "string \<Rightarrow> unit dbm" where
  "delete_session_stmt hash =
     exec (\<lambda>d. d\<lparr>sessions := tdelete (\<lambda>r. se_id r = hash) (sessions d)\<rparr>)"

text \<open>\<open>_, _ = db.ExecContext(..)\<close>: the outcome is ignored.\<close>

definition dignore :: "'a dbm \<Rightarrow> unit dbm" where
  "dignore m d = (Inr (), snd (m d))"

definition GetSessionByTokenHash :: "gotime \<Rightarrow> string \<Rightarrow> session dbm" where
  "GetSessionByTokenHash now hash =
     dbind (query (\<lambda>d. tget se_id hash (sessions d))) (\<lambda>r. case r of
       None \<Rightarrow> dfail ErrNotFound
     | Some row \<Rightarrow>
         let sess = scan_session row in
         if se_expires_at sess < now
         then dbind (dignore (delete_session_stmt hash)) (\<lambda>_. dfail ErrNotFound)
         else dret sess)"

definition TouchSession :: "gotime \<Rightarrow> string \<Rightarrow> unit dbm" where
  "TouchSession now hash = exec (\<lambda>d. d\<lparr>sessions :=
     tupdate (\<lambda>r. se_id r = hash) (\<lambda>r. r\<lparr>se_last_seen_at := to_unix now\<rparr>) (sessions d)\<rparr>)"

definition DeleteSession :: "string \<Rightarrow> unit dbm" where
  "DeleteSession hash = delete_session_stmt hash"

section \<open>API tokens\<close>

definition scan_api_token :: "api_token \<Rightarrow> api_token" where
  "scan_api_token r = r\<lparr>at_created_at := from_unix (at_created_at r),
     at_expires_at := map_option from_unix (at_expires_at r),
     at_last_used_at := map_option from_unix (at_last_used_at r)\<rparr>"

definition CreateAPIToken ::
  "gotime \<Rightarrow> string option \<Rightarrow> int \<Rightarrow> string \<Rightarrow> string \<Rightarrow> string \<Rightarrow> gotime option \<Rightarrow> api_token dbm" where
  "CreateAPIToken now uuid uid name hash scopes expires = (case uuid of
     None \<Rightarrow> dfail ErrUUID
   | Some i \<Rightarrow>
       dbind (stmt (\<lambda>d.
         if tget at_id i (api_tokens d) \<noteq> None \<or> tget at_token_hash hash (api_tokens d) \<noteq> None
         then (Inl ErrUnique, d)
         else if tget u_id uid (users d) = None then (Inl ErrForeignKey, d)
         else (Inr (), d\<lparr>api_tokens := api_tokens d @
           [\<lparr>at_id = i, at_user_id = uid, at_name = name, at_token_hash = hash, at_scopes = scopes,
             at_created_at = to_unix now, at_expires_at = map_option to_unix expires,
             at_last_used_at = None\<rparr>]\<rparr>)))
       (\<lambda>_. dret \<lparr>at_id = i, at_user_id = uid, at_name = name, at_token_hash = hash,
                  at_scopes = scopes, at_created_at = now, at_expires_at = expires,
                  at_last_used_at = None\<rparr>))"

definition GetAPITokenByHash :: "string \<Rightarrow> api_token dbm" where
  "GetAPITokenByHash hash =
     dbind (query (\<lambda>d. tget at_token_hash hash (api_tokens d))) (one_row scan_api_token)"

text \<open>\<open>ORDER BY created_at DESC\<close>.  The comment of the Go function says \<open>non-expired\<close>; the
  statement has no such condition.\<close>

definition ListAPITokensByUser :: "int \<Rightarrow> api_token list dbm" where
  "ListAPITokensByUser uid = query (\<lambda>d. map scan_api_token
     (sort_key (\<lambda>r. - at_created_at r) (filter (\<lambda>r. at_user_id r = uid) (api_tokens d))))"

definition DeleteAPIToken :: "string \<Rightarrow> unit dbm" where
  "DeleteAPIToken i = exec (\<lambda>d. d\<lparr>api_tokens := tdelete (\<lambda>r. at_id r = i) (api_tokens d)\<rparr>)"

definition TouchAPIToken :: "gotime \<Rightarrow> string \<Rightarrow> unit dbm" where
  "TouchAPIToken now hash = exec (\<lambda>d. d\<lparr>api_tokens :=
     tupdate (\<lambda>r. at_token_hash r = hash) (\<lambda>r. r\<lparr>at_last_used_at := Some (to_unix now)\<rparr>)
       (api_tokens d)\<rparr>)"

section \<open>TOTP secrets and recovery codes\<close>

definition scan_totp :: "totp_secret \<Rightarrow> totp_secret" where
  "scan_totp r = r\<lparr>ts_created_at := from_unix (ts_created_at r),
                    ts_updated_at := from_unix (ts_updated_at r)\<rparr>"

definition GetTOTPSecret :: "int \<Rightarrow> totp_secret dbm" where
  "GetTOTPSecret uid =
     dbind (query (\<lambda>d. tget ts_user_id uid (totp_secrets d))) (one_row scan_totp)"

text \<open>The upsert keeps \<open>created_at\<close> on conflict.\<close>

definition SetTOTPSecret :: "gotime \<Rightarrow> int \<Rightarrow> string \<Rightarrow> bool \<Rightarrow> unit dbm" where
  "SetTOTPSecret now uid secret enabled = stmt (\<lambda>d.
     if tget u_id uid (users d) = None then (Inl ErrForeignKey, d)
     else (Inr (), d\<lparr>totp_secrets :=
       (if tget ts_user_id uid (totp_secrets d) = None
        then totp_secrets d @ [\<lparr>ts_user_id = uid, ts_secret = secret, ts_enabled = enabled,
               ts_created_at = to_unix now, ts_updated_at = to_unix now\<rparr>]
        else tupdate (\<lambda>r. ts_user_id r = uid)
               (\<lambda>r. r\<lparr>ts_secret := secret, ts_enabled := enabled, ts_updated_at := to_unix now\<rparr>)
               (totp_secrets d))\<rparr>))"

definition DeleteTOTPSecret :: "int \<Rightarrow> unit dbm" where
  "DeleteTOTPSecret uid =
     exec (\<lambda>d. d\<lparr>totp_secrets := tdelete (\<lambda>r. ts_user_id r = uid) (totp_secrets d)\<rparr>)"

fun SaveRecoveryCodes :: "int \<Rightarrow> string list \<Rightarrow> unit dbm" where
  "SaveRecoveryCodes uid [] = dret ()"
| "SaveRecoveryCodes uid (h # hs) =
     dbind (stmt (\<lambda>d.
       if tget u_id uid (users d) = None then (Inl ErrForeignKey, d)
       else let i = recovery_seq d + 1 in
         (Inr (), d\<lparr>recovery_codes := recovery_codes d @
            [\<lparr>rc_id = i, rc_user_id = uid, rc_code_hash = h, rc_used = False\<rparr>], recovery_seq := i\<rparr>)))
     (\<lambda>_. SaveRecoveryCodes uid hs)"

definition consume_code :: "int \<Rightarrow> int \<Rightarrow> bool dbm" where
  "consume_code i uid =
     dbind (stmt (\<lambda>d. let P = (\<lambda>r. rc_id r = i \<and> rc_user_id r = uid \<and> \<not> rc_used r) in
        (Inr (taffected P (recovery_codes d)),
         d\<lparr>recovery_codes := tupdate P (\<lambda>r. r\<lparr>rc_used := True\<rparr>) (recovery_codes d)\<rparr>)))
     (\<lambda>n. dret (0 < n))"

text \<open>The loop over the candidates; \<open>verify\<close> is \<open>auth.VerifyRecoveryCode\<close>.\<close>

fun try_codes :: "(string \<Rightarrow> string \<Rightarrow> bool) \<Rightarrow> int \<Rightarrow> string \<Rightarrow> recovery_code list \<Rightarrow> bool dbm" where
  "try_codes verify uid raw [] = dret False"
| "try_codes verify uid raw (c # cs) =
     (if verify raw (rc_code_hash c) then consume_code (rc_id c) uid
      else try_codes verify uid raw cs)"

definition ConsumeRecoveryCode ::
  "(string \<Rightarrow> string \<Rightarrow> bool) \<Rightarrow> int \<Rightarrow> string \<Rightarrow> bool dbm" where
  "ConsumeRecoveryCode verify uid raw =
     dbind (query (\<lambda>d. filter (\<lambda>r. rc_user_id r = uid \<and> \<not> rc_used r) (recovery_codes d)))
       (try_codes verify uid raw)"

definition DeleteRecoveryCodes :: "int \<Rightarrow> unit dbm" where
  "DeleteRecoveryCodes uid =
     exec (\<lambda>d. d\<lparr>recovery_codes := tdelete (\<lambda>r. rc_user_id r = uid) (recovery_codes d)\<rparr>)"

definition CountUnusedRecoveryCodes :: "int \<Rightarrow> nat dbm" where
  "CountUnusedRecoveryCodes uid =
     query (\<lambda>d. length (filter (\<lambda>r. rc_user_id r = uid \<and> \<not> rc_used r) (recovery_codes d)))"

lemmas account_ops = insert_user_def CreateUser_def CreateFirstAdmin_def GetUserByUsername_def
  GetUserByID_def CountUsers_def ListUsers_def UpdateUser_def SetUserIncusProject_def DeleteUser_def
  CreateSession_def delete_session_stmt_def GetSessionByTokenHash_def TouchSession_def
  DeleteSession_def CreateAPIToken_def GetAPITokenByHash_def ListAPITokensByUser_def
  DeleteAPIToken_def TouchAPIToken_def GetTOTPSecret_def SetTOTPSecret_def DeleteTOTPSecret_def
  ConsumeRecoveryCode_def consume_code_def DeleteRecoveryCodes_def CountUnusedRecoveryCodes_def

section \<open>Every operation keeps the constraints\<close>

lemma wf_insert_user [keeps_intros]: "keeps db_wf (insert_user name hash created admin)"
  unfolding insert_user_def
  by (intro keeps_intros)
    (auto simp: wf_defs Let_def table_simps intro: tbelow_mono elim: tbelow_fresh)

lemma wf_one_row [keeps_intros]: "keeps db_wf (one_row scan r)"
  unfolding one_row_def by (intro keeps_intros)

lemma wf_users [keeps_intros]:
  "keeps db_wf (CreateUser now name hash admin)" "keeps db_wf (CreateFirstAdmin now name hash)"
  "keeps db_wf (GetUserByUsername name)" "keeps db_wf (GetUserByID i)" "keeps db_wf CountUsers"
  "keeps db_wf ListUsers"
  unfolding CreateUser_def CreateFirstAdmin_def GetUserByUsername_def GetUserByID_def
    CountUsers_def ListUsers_def by (intro keeps_intros)+

lemma wf_UpdateUser [keeps_intros]: "keeps db_wf (UpdateUser i hash admin)"
  unfolding UpdateUser_def by (intro keeps_intros) (simp add: wf_defs)

lemma wf_SetUserIncusProject [keeps_intros]: "keeps db_wf (SetUserIncusProject i project)"
  unfolding SetUserIncusProject_def by (intro keeps_intros) (simp add: wf_defs)

lemma wf_delete_user_rows:
  "db_wf d \<Longrightarrow> \<not> user_referenced i d \<Longrightarrow> db_wf (delete_user_rows i d)"
  by (simp add: wf_defs delete_user_rows_def user_referenced_def table_simps)

lemma wf_DeleteUser [keeps_intros]: "keeps db_wf (DeleteUser i)"
  unfolding DeleteUser_def by (intro keeps_intros) (simp add: wf_delete_user_rows)

lemma wf_CreateSession [keeps_intros]: "keeps db_wf (CreateSession now hash uid ttl)"
  unfolding CreateSession_def by (intro keeps_intros) (simp add: wf_defs table_simps)

lemma wf_delete_session [keeps_intros]: "keeps db_wf (delete_session_stmt hash)"
  unfolding delete_session_stmt_def by (intro keeps_intros) (simp add: wf_defs table_simps)

lemma wf_dignore [keeps_intros]: "keeps P m \<Longrightarrow> keeps P (dignore m)"
  by (simp add: keeps_def dignore_def)

lemma wf_sessions [keeps_intros]:
  "keeps db_wf (GetSessionByTokenHash now hash)" "keeps db_wf (TouchSession now hash)"
  "keeps db_wf (DeleteSession hash)"
  unfolding account_ops Let_def by (intro keeps_intros; simp add: wf_defs table_simps)+

lemma wf_tokens [keeps_intros]:
  "keeps db_wf (CreateAPIToken now uuid uid name hash scopes expires)"
  "keeps db_wf (GetAPITokenByHash hash)" "keeps db_wf (ListAPITokensByUser uid)"
  "keeps db_wf (DeleteAPIToken i)" "keeps db_wf (TouchAPIToken now hash)"
  unfolding account_ops by (intro keeps_intros; simp add: wf_defs table_simps)+

lemma wf_totp [keeps_intros]:
  "keeps db_wf (GetTOTPSecret uid)" "keeps db_wf (SetTOTPSecret now uid secret enabled)"
  "keeps db_wf (DeleteTOTPSecret uid)"
  unfolding account_ops by (intro keeps_intros; simp add: wf_defs table_simps)+

lemma wf_SaveRecoveryCodes [keeps_intros]: "keeps db_wf (SaveRecoveryCodes uid hs)"
proof (induction hs)
  case (Cons h hs)
  show ?case unfolding SaveRecoveryCodes.simps
    by (intro keeps_intros Cons)
      (auto simp: wf_defs Let_def table_simps intro: tbelow_mono elim: tbelow_fresh)
qed (simp add: keeps_dret)

lemma wf_consume_code [keeps_intros]: "keeps db_wf (consume_code i uid)"
  unfolding consume_code_def Let_def by (intro keeps_intros) (simp add: wf_defs)

lemma wf_try_codes [keeps_intros]: "keeps db_wf (try_codes verify uid raw cs)"
  by (induction cs) (simp_all add: keeps_dret wf_consume_code)

lemma wf_recovery [keeps_intros]:
  "keeps db_wf (ConsumeRecoveryCode verify uid raw)" "keeps db_wf (DeleteRecoveryCodes uid)"
  "keeps db_wf (CountUnusedRecoveryCodes uid)"
  unfolding account_ops by (intro keeps_intros; simp add: wf_defs table_simps)+

section \<open>What the operations do\<close>

lemma exec_cases:
  obtains (ok) fs where "exec f d = (Inr (), f (d\<lparr>faults := fs\<rparr>))"
  | (fault) fs where "exec f d = (Inl ErrIO, d\<lparr>faults := fs\<rparr>)"
proof (rule stmt_cases [of "\<lambda>d. (Inr (), f d)" d])
  fix fs assume "stmt (\<lambda>d. (Inr (), f d)) d = (Inr (), f (d\<lparr>faults := fs\<rparr>))"
  then show ?thesis by (intro ok [of fs]) (simp only: exec_def)
next
  fix fs assume "stmt (\<lambda>d. (Inr (), f d)) d = (Inl ErrIO, d\<lparr>faults := fs\<rparr>)"
  then show ?thesis by (intro fault [of fs]) (simp only: exec_def)
qed

lemma query_cases:
  obtains (ok) fs where "query q d = (Inr (q (d\<lparr>faults := fs\<rparr>)), d\<lparr>faults := fs\<rparr>)"
  | (fault) fs where "query q d = (Inl ErrIO, d\<lparr>faults := fs\<rparr>)"
proof (rule stmt_cases [of "\<lambda>d. (Inr (q d), d)" d])
  fix fs assume "stmt (\<lambda>d. (Inr (q d), d)) d = (Inr (q (d\<lparr>faults := fs\<rparr>)), d\<lparr>faults := fs\<rparr>)"
  then show ?thesis by (intro ok [of fs]) (simp only: query_def)
next
  fix fs assume "stmt (\<lambda>d. (Inr (q d), d)) d = (Inl ErrIO, d\<lparr>faults := fs\<rparr>)"
  then show ?thesis by (intro fault [of fs]) (simp only: query_def)
qed

lemma one_row_Inr: "one_row scan r d = (Inr x, d') \<longleftrightarrow> d' = d \<and> (\<exists>y. r = Some y \<and> x = scan y)"
  by (auto simp: one_row_def dret_def dfail_def split: option.splits)

lemma one_row_Inl: "one_row scan r d = (Inl e, d') \<longleftrightarrow> d' = d \<and> r = None \<and> e = ErrNotFound"
  by (auto simp: one_row_def dret_def dfail_def split: option.splits)

text \<open>A lookup by key: the row, \<open>ErrNotFound\<close>, or a failure; the data stay.\<close>

lemma lookup_cases:
  assumes "\<And>fs. q (d\<lparr>faults := fs\<rparr>) = q d"
  obtains (found) fs x where "q d = Some x" "dbind (query q) (one_row scan) d = (Inr (scan x), d\<lparr>faults := fs\<rparr>)"
  | (missing) fs where "q d = None" "dbind (query q) (one_row scan) d = (Inl ErrNotFound, d\<lparr>faults := fs\<rparr>)"
  | (fault) fs where "dbind (query q) (one_row scan) d = (Inl ErrIO, d\<lparr>faults := fs\<rparr>)"
proof (rule query_cases [of q d])
  fix fs assume q: "query q d = (Inr (q (d\<lparr>faults := fs\<rparr>)), d\<lparr>faults := fs\<rparr>)"
  show ?thesis
  proof (cases "q d")
    case None
    then show ?thesis using q by (intro missing [of fs]) (simp_all add: dbind_def one_row_def dfail_def assms)
  next
    case (Some x)
    then show ?thesis using q by (intro found [of x fs]) (simp_all add: dbind_def one_row_def dret_def assms)
  qed
next
  fix fs assume "query q d = (Inl ErrIO, d\<lparr>faults := fs\<rparr>)"
  then show ?thesis by (intro fault [of fs]) (simp add: dbind_def)
qed

lemma GetUserByUsername_cases:
  obtains (found) fs x where "tget u_username name (users d) = Some x"
      "GetUserByUsername name d = (Inr (scan_user x), d\<lparr>faults := fs\<rparr>)"
  | (missing) fs where "tget u_username name (users d) = None"
      "GetUserByUsername name d = (Inl ErrNotFound, d\<lparr>faults := fs\<rparr>)"
  | (fault) fs where "GetUserByUsername name d = (Inl ErrIO, d\<lparr>faults := fs\<rparr>)"
  by (rule lookup_cases [of "\<lambda>d. tget u_username name (users d)" d scan_user, folded GetUserByUsername_def], simp, (rule that, assumption+)+)

lemma GetUserByID_cases:
  obtains (found) fs x where "tget u_id i (users d) = Some x"
      "GetUserByID i d = (Inr (scan_user x), d\<lparr>faults := fs\<rparr>)"
  | (missing) fs where "tget u_id i (users d) = None"
      "GetUserByID i d = (Inl ErrNotFound, d\<lparr>faults := fs\<rparr>)"
  | (fault) fs where "GetUserByID i d = (Inl ErrIO, d\<lparr>faults := fs\<rparr>)"
  by (rule lookup_cases [of "\<lambda>d. tget u_id i (users d)" d scan_user, folded GetUserByID_def], simp, (rule that, assumption+)+)

lemma GetTOTPSecret_cases:
  obtains (found) fs x where "tget ts_user_id i (totp_secrets d) = Some x"
      "GetTOTPSecret i d = (Inr (scan_totp x), d\<lparr>faults := fs\<rparr>)"
  | (missing) fs where "tget ts_user_id i (totp_secrets d) = None"
      "GetTOTPSecret i d = (Inl ErrNotFound, d\<lparr>faults := fs\<rparr>)"
  | (fault) fs where "GetTOTPSecret i d = (Inl ErrIO, d\<lparr>faults := fs\<rparr>)"
  by (rule lookup_cases [of "\<lambda>d. tget ts_user_id i (totp_secrets d)" d scan_totp, folded GetTOTPSecret_def], simp, (rule that, assumption+)+)

lemma GetAPITokenByHash_cases:
  obtains (found) fs x where "tget at_token_hash h (api_tokens d) = Some x"
      "GetAPITokenByHash h d = (Inr (scan_api_token x), d\<lparr>faults := fs\<rparr>)"
  | (missing) fs where "tget at_token_hash h (api_tokens d) = None"
      "GetAPITokenByHash h d = (Inl ErrNotFound, d\<lparr>faults := fs\<rparr>)"
  | (fault) fs where "GetAPITokenByHash h d = (Inl ErrIO, d\<lparr>faults := fs\<rparr>)"
  by (rule lookup_cases [of "\<lambda>d. tget at_token_hash h (api_tokens d)" d scan_api_token, folded GetAPITokenByHash_def], simp, (rule that, assumption+)+)

lemma scan_simps [simp]:
  "u_id (scan_user x) = u_id x" "u_username (scan_user x) = u_username x"
  "u_password_hash (scan_user x) = u_password_hash x" "u_is_admin (scan_user x) = u_is_admin x"
  "ts_secret (scan_totp t) = ts_secret t" "ts_enabled (scan_totp t) = ts_enabled t"
  "at_user_id (scan_api_token a) = at_user_id a" "at_scopes (scan_api_token a) = at_scopes a"
  "at_id (scan_api_token a) = at_id a"
  "se_user_id (scan_session s) = se_user_id s"
  "se_expires_at (scan_session s) = from_unix (se_expires_at s)"
  by (simp_all add: scan_user_def scan_totp_def scan_api_token_def scan_session_def)

text \<open>\<open>CreateSession\<close> adds one row, or leaves the data alone.\<close>

lemma CreateSession_cases:
  obtains (ok) fs where "tget se_id hash (sessions d) = None" "tget u_id uid (users d) \<noteq> None"
      "CreateSession now hash uid ttl d =
        (Inr \<lparr>se_id = hash, se_user_id = uid, se_created_at = now, se_expires_at = now + ttl,
              se_last_seen_at = now\<rparr>,
         d\<lparr>faults := fs, sessions := sessions d @
           [\<lparr>se_id = hash, se_user_id = uid, se_created_at = to_unix now,
             se_expires_at = to_unix (now + ttl), se_last_seen_at = to_unix now\<rparr>]\<rparr>)"
  | (fail) e fs where "CreateSession now hash uid ttl d = (Inl e, d\<lparr>faults := fs\<rparr>)"
proof -
  let ?f = "\<lambda>d. if tget se_id hash (sessions d) \<noteq> None then (Inl ErrUnique, d)
       else if tget u_id uid (users d) = None then (Inl ErrForeignKey, d)
       else (Inr (), d\<lparr>sessions := sessions d @
         [\<lparr>se_id = hash, se_user_id = uid, se_created_at = to_unix now,
           se_expires_at = to_unix (now + ttl), se_last_seen_at = to_unix now\<rparr>]\<rparr>)"
  have eq: "CreateSession now hash uid ttl d = dbind (stmt ?f) (\<lambda>_. dret
     \<lparr>se_id = hash, se_user_id = uid, se_created_at = now, se_expires_at = now + ttl,
      se_last_seen_at = now\<rparr>) d" by (simp add: CreateSession_def)
  consider (run) fs where "stmt ?f d = ?f (d\<lparr>faults := fs\<rparr>)"
    | (fault) fs where "stmt ?f d = (Inl ErrIO, d\<lparr>faults := fs\<rparr>)" by (rule stmt_cases)
  then show ?thesis
  proof cases
    case run
    then show ?thesis using eq ok [of fs] fail [of _ fs]
      by (cases "tget se_id hash (sessions d)"; cases "tget u_id uid (users d)")
        (simp_all add: dbind_def dret_def)
  next
    case fault
    then show ?thesis using eq fail [of _ fs] by (simp add: dbind_def)
  qed
qed

section \<open>Sessions are an expiring-credential store\<close>

definition session_held :: "db \<Rightarrow> string \<Rightarrow> (int \<times> gotime) option" where
  "session_held d hash = map_option (\<lambda>r. (se_user_id r, from_unix (se_expires_at r))) (tget se_id hash (sessions d))"

definition session_issue :: "gotime \<Rightarrow> string \<Rightarrow> int \<times> gotime \<Rightarrow> db \<Rightarrow> bool \<times> db" where
  "session_issue now hash a d = (case CreateSession now hash (fst a) (snd a) d of
     (Inl _, d') \<Rightarrow> (False, d') | (Inr _, d') \<Rightarrow> (True, d'))"

definition session_redeem :: "gotime \<Rightarrow> string \<Rightarrow> db \<Rightarrow> (int \<times> gotime) option \<times> db" where
  "session_redeem now hash d = (case GetSessionByTokenHash now hash d of
     (Inl _, d') \<Rightarrow> (None, d') | (Inr s, d') \<Rightarrow> (Some (se_user_id s, se_expires_at s), d'))"

definition session_revoke :: "string \<Rightarrow> db \<Rightarrow> bool \<times> db" where
  "session_revoke hash d = (case DeleteSession hash d of
     (Inl _, d') \<Rightarrow> (False, d') | (Inr _, d') \<Rightarrow> (True, d'))"

lemma session_held_faults [simp]: "session_held (d\<lparr>faults := fs\<rparr>) = session_held d"
  by (simp add: session_held_def fun_eq_iff)

lemma session_held_delete:
  "session_held (d\<lparr>faults := fs, sessions := tdelete (\<lambda>r. se_id r = hash) (sessions d)\<rparr>) = (session_held d)(hash := None)"
  by (auto simp: session_held_def fun_eq_iff tget_tdelete_other)

lemma delete_session_cases:
  obtains (ok) fs where "delete_session_stmt hash d =
      (Inr (), d\<lparr>faults := fs, sessions := tdelete (\<lambda>r. se_id r = hash) (sessions d)\<rparr>)"
  | (fault) fs where "delete_session_stmt hash d = (Inl ErrIO, d\<lparr>faults := fs\<rparr>)"
proof (rule exec_cases [of "\<lambda>d. d\<lparr>sessions := tdelete (\<lambda>r. se_id r = hash) (sessions d)\<rparr>" d])
qed (simp_all only: delete_session_stmt_def ok fault, simp_all add: ok [unfolded delete_session_stmt_def] fault [unfolded delete_session_stmt_def])

lemma GetSession_cases:
  obtains (found) fs r where "tget se_id hash (sessions d) = Some r" "now \<le> from_unix (se_expires_at r)"
      "GetSessionByTokenHash now hash d = (Inr (scan_session r), d\<lparr>faults := fs\<rparr>)"
  | (expired) fs r d' where "tget se_id hash (sessions d) = Some r" "from_unix (se_expires_at r) < now"
      "GetSessionByTokenHash now hash d = (Inl ErrNotFound, d')"
      "d' = d\<lparr>faults := fs\<rparr> \<or> d' = d\<lparr>faults := fs, sessions := tdelete (\<lambda>r. se_id r = hash) (sessions d)\<rparr>"
  | (missing) fs where "tget se_id hash (sessions d) = None"
      "GetSessionByTokenHash now hash d = (Inl ErrNotFound, d\<lparr>faults := fs\<rparr>)"
  | (fault) fs where "GetSessionByTokenHash now hash d = (Inl ErrIO, d\<lparr>faults := fs\<rparr>)"
proof -
  let ?q = "\<lambda>d. tget se_id hash (sessions d)"
  show ?thesis
  proof (rule query_cases [of ?q d])
    fix fs assume "query ?q d = (Inl ErrIO, d\<lparr>faults := fs\<rparr>)"
    then show ?thesis by (intro fault [of fs]) (simp add: GetSessionByTokenHash_def dbind_def)
  next
    fix fs assume q: "query ?q d = (Inr (?q (d\<lparr>faults := fs\<rparr>)), d\<lparr>faults := fs\<rparr>)"
    show ?thesis
    proof (cases "?q d")
      case None
      then show ?thesis using q
        by (intro missing [of fs]) (simp_all add: GetSessionByTokenHash_def dbind_def dfail_def)
    next
      case (Some r)
      show ?thesis
      proof (cases "from_unix (se_expires_at r) < now")
        case True
        then have "GetSessionByTokenHash now hash d =
            (Inl ErrNotFound, snd (delete_session_stmt hash (d\<lparr>faults := fs\<rparr>)))"
          using q Some by (simp add: GetSessionByTokenHash_def dbind_def dfail_def dignore_def)
        then show ?thesis using Some True
          by (rule_tac delete_session_cases [of hash "d\<lparr>faults := fs\<rparr>"]) (auto intro: expired)
      next
        case False
        then show ?thesis using q Some
          by (intro found [of r fs]) (simp_all add: GetSessionByTokenHash_def dbind_def dret_def)
      qed
    qed
  qed
qed

lemma GetSession_held:
  "GetSessionByTokenHash now hash d = (Inr s, d') \<Longrightarrow>
   session_held d hash = Some (se_user_id s, se_expires_at s) \<and> now \<le> se_expires_at s
   \<and> (\<exists>fs. d' = d\<lparr>faults := fs\<rparr>)"
  by (rule GetSession_cases [of hash d now]) (auto simp: session_held_def)

lemma GetSession_not_held:
  "GetSessionByTokenHash now hash d = (Inl e, d') \<Longrightarrow> session_held d' \<subseteq>\<^sub>m session_held d"
proof (rule GetSession_cases [of hash d now])
  fix fs r d2
  assume "GetSessionByTokenHash now hash d = (Inl e, d')" "GetSessionByTokenHash now hash d = (Inl ErrNotFound, d2)"
    and "d2 = d\<lparr>faults := fs\<rparr> \<or> d2 = d\<lparr>faults := fs, sessions := tdelete (\<lambda>r. se_id r = hash) (sessions d)\<rparr>"
  then show ?thesis by (auto simp: map_le_def session_held_delete split: if_splits)
qed (auto simp: map_le_def)

interpretation sess: credential_store session_held "\<lambda>now v. snd v < now"
  "\<lambda>now a. (fst a, from_unix (to_unix (now + snd a)))" session_issue session_redeem session_revoke
proof (unfold_locales, goal_cases)
  case (1 now k a s s')
  then show ?case
    by (rule_tac CreateSession_cases [of k s "fst a" now "snd a"])
      (auto simp: session_issue_def session_held_def tget_append)
next
  case (2 now k a s b s' j v)
  then show ?case
    by (rule_tac CreateSession_cases [of k s "fst a" now "snd a"])
      (auto simp: session_issue_def session_held_def tget_append split: option.splits if_splits)
next
  case (3 now k s v s')
  then show ?case
    by (auto simp: session_redeem_def not_less dest!: GetSession_held split: prod.splits sum.splits)
next
  case (4 now k s s')
  then show ?case by (auto simp: session_redeem_def dest: GetSession_not_held split: prod.splits sum.splits)
next
  case (5 k s b s')
  then show ?case
    by (rule_tac delete_session_cases [of k s])
      (auto simp: session_revoke_def DeleteSession_def map_le_def session_held_delete split: if_splits)
qed

section \<open>Results, in the form the handlers use them\<close>

lemma GetUserByUsername_Inr: "GetUserByUsername name d = (Inr u, d') \<Longrightarrow>
    \<exists>x fs. tget u_username name (users d) = Some x \<and> u = scan_user x \<and> d' = d\<lparr>faults := fs\<rparr>"
  by (rule GetUserByUsername_cases [of name d]) auto

lemma GetUserByUsername_Inl: "GetUserByUsername name d = (Inl e, d') \<Longrightarrow>
    (\<exists>fs. d' = d\<lparr>faults := fs\<rparr>) \<and> (e = ErrIO \<or> e = ErrNotFound \<and> tget u_username name (users d) = None)"
  by (rule GetUserByUsername_cases [of name d]) auto

lemma GetUserByID_Inr: "GetUserByID i d = (Inr u, d') \<Longrightarrow>
    \<exists>x fs. tget u_id i (users d) = Some x \<and> u = scan_user x \<and> d' = d\<lparr>faults := fs\<rparr>"
  by (rule GetUserByID_cases [of i d]) auto

lemma GetUserByID_Inl: "GetUserByID i d = (Inl e, d') \<Longrightarrow>
    (\<exists>fs. d' = d\<lparr>faults := fs\<rparr>) \<and> (e = ErrIO \<or> e = ErrNotFound \<and> tget u_id i (users d) = None)"
  by (rule GetUserByID_cases [of i d]) auto

lemma GetTOTPSecret_Inr: "GetTOTPSecret i d = (Inr t, d') \<Longrightarrow>
    \<exists>x fs. tget ts_user_id i (totp_secrets d) = Some x \<and> t = scan_totp x \<and> d' = d\<lparr>faults := fs\<rparr>"
  by (rule GetTOTPSecret_cases [of i d]) auto

lemma GetTOTPSecret_Inl: "GetTOTPSecret i d = (Inl e, d') \<Longrightarrow>
    (\<exists>fs. d' = d\<lparr>faults := fs\<rparr>) \<and> (e = ErrIO \<or> e = ErrNotFound \<and> tget ts_user_id i (totp_secrets d) = None)"
  by (rule GetTOTPSecret_cases [of i d]) auto

lemma GetAPITokenByHash_Inr: "GetAPITokenByHash h d = (Inr t, d') \<Longrightarrow>
    \<exists>x fs. tget at_token_hash h (api_tokens d) = Some x \<and> t = scan_api_token x \<and> d' = d\<lparr>faults := fs\<rparr>"
  by (rule GetAPITokenByHash_cases [of h d]) auto

lemma GetAPITokenByHash_Inl: "GetAPITokenByHash h d = (Inl e, d') \<Longrightarrow> \<exists>fs. d' = d\<lparr>faults := fs\<rparr>"
  by (rule GetAPITokenByHash_cases [of h d]) auto

lemma CreateSession_Inr: "CreateSession now hash uid ttl d = (Inr s, d') \<Longrightarrow>
    \<exists>fs. d' = d\<lparr>faults := fs, sessions := sessions d @
      [\<lparr>se_id = hash, se_user_id = uid, se_created_at = to_unix now,
        se_expires_at = to_unix (now + ttl), se_last_seen_at = to_unix now\<rparr>]\<rparr>"
  by (rule CreateSession_cases [of hash d uid now ttl]) auto

lemma CreateSession_Inl: "CreateSession now hash uid ttl d = (Inl e, d') \<Longrightarrow> \<exists>fs. d' = d\<lparr>faults := fs\<rparr>"
  by (rule CreateSession_cases [of hash d uid now ttl]) auto

lemma dbind_query_Inr: "dbind (query q) k d = (Inr y, d') \<Longrightarrow> \<exists>fs. k (q (d\<lparr>faults := fs\<rparr>)) (d\<lparr>faults := fs\<rparr>) = (Inr y, d')"
  by (auto simp: dbind_Inr dest!: query_Inr)

lemmas lookup_results = GetUserByUsername_Inr GetUserByUsername_Inl GetUserByID_Inr GetUserByID_Inl
  GetTOTPSecret_Inr GetTOTPSecret_Inl GetAPITokenByHash_Inr GetAPITokenByHash_Inl

section \<open>Recovery codes are used once\<close>

definition usable_codes :: "(string \<Rightarrow> string \<Rightarrow> bool) \<Rightarrow> int \<Rightarrow> string \<Rightarrow> db \<Rightarrow> recovery_code list" where
  "usable_codes verify uid raw d =
     filter (\<lambda>r. rc_user_id r = uid \<and> \<not> rc_used r \<and> verify raw (rc_code_hash r)) (recovery_codes d)"

lemma usable_codes_faults [simp]: "usable_codes verify uid raw (d\<lparr>faults := fs\<rparr>) = usable_codes verify uid raw d"
  by (simp add: usable_codes_def)

lemma filter_mark_one:
  assumes "tunique rc_id rows" "c \<in> set rows" "P c" "\<And>r. \<not> P (r\<lparr>rc_used := True\<rparr>)"
    "\<And>r. Q r \<Longrightarrow> rc_id r = rc_id c" "Q c"
  shows "Suc (length (filter P (tupdate Q (\<lambda>r. r\<lparr>rc_used := True\<rparr>) rows))) = length (filter P rows)"
  using assms(1,2)
proof (induction rows)
  case (Cons r rows)
  have other: "tupdate Q (\<lambda>r. r\<lparr>rc_used := True\<rparr>) xs = xs" if "rc_id c \<notin> rc_id ` set xs" for xs
    unfolding tupdate_def by (rule map_idI) (metis image_eqI that assms(5))
  show ?case
  proof (cases "r = c")
    case True
    then have "rc_id c \<notin> rc_id ` set rows" using Cons.prems by (simp add: tunique_def)
    then show ?thesis using True assms(3,4,6) other [of rows] by (simp add: tupdate_def)
  next
    case False
    then have "\<not> Q r" using Cons.prems assms(5) [of r] by (auto simp: tunique_def)
    then show ?thesis using False Cons by (simp add: tupdate_def tunique_def)
  qed
qed simp

lemma consume_code_Inr:
  assumes "consume_code i uid d = (Inr b, d')"
  shows "\<exists>fs. d' = d\<lparr>faults := fs, recovery_codes := tupdate (\<lambda>r. rc_id r = i \<and> rc_user_id r = uid \<and> \<not> rc_used r)
      (\<lambda>r. r\<lparr>rc_used := True\<rparr>) (recovery_codes d)\<rparr>
    \<and> b = (\<exists>r \<in> set (recovery_codes d). rc_id r = i \<and> rc_user_id r = uid \<and> \<not> rc_used r)"
proof -
  let ?P = "\<lambda>r. rc_id r = i \<and> rc_user_id r = uid \<and> \<not> rc_used r"
  let ?f = "\<lambda>d. (Inr (taffected ?P (recovery_codes d)),
         d\<lparr>recovery_codes := tupdate ?P (\<lambda>r. r\<lparr>rc_used := True\<rparr>) (recovery_codes d)\<rparr>)"
  have "consume_code i uid d = dbind (stmt ?f) (\<lambda>n. dret (0 < n)) d"
    by (simp add: consume_code_def Let_def)
  moreover have "(0 < taffected ?P (recovery_codes d)) = (\<exists>r \<in> set (recovery_codes d). ?P r)"
    by (auto simp: taffected_def filter_empty_conv)
  ultimately show ?thesis using assms
    by (rule_tac stmt_cases [of ?f d]) (auto simp: dbind_def dret_def)
qed

lemma try_codes_Inr:
  assumes "try_codes verify uid raw cs d = (Inr b, d')" "db_wf d"
    and "\<forall>c \<in> set cs. c \<in> set (recovery_codes d) \<and> rc_user_id c = uid \<and> \<not> rc_used c"
  shows "if b then Suc (length (usable_codes verify uid raw d')) = length (usable_codes verify uid raw d)
    else (\<forall>c \<in> set cs. \<not> verify raw (rc_code_hash c)) \<and> d' = d"
  using assms
proof (induction cs)
  case (Cons c cs)
  show ?case
  proof (cases "verify raw (rc_code_hash c)")
    case True
    then have con: "consume_code (rc_id c) uid d = (Inr b, d')" using Cons.prems by simp
    have c: "c \<in> set (recovery_codes d)" "rc_user_id c = uid" "\<not> rc_used c" using Cons.prems by auto
    from consume_code_Inr [OF con] obtain fs where
      d': "d' = d\<lparr>faults := fs, recovery_codes := tupdate (\<lambda>r. rc_id r = rc_id c \<and> rc_user_id r = uid \<and> \<not> rc_used r)
         (\<lambda>r. r\<lparr>rc_used := True\<rparr>) (recovery_codes d)\<rparr>" and b using c by auto
    have "tunique rc_id (recovery_codes d)" using Cons.prems by (simp add: wf_defs)
    from filter_mark_one [OF this c(1), of "\<lambda>r. rc_user_id r = uid \<and> \<not> rc_used r \<and> verify raw (rc_code_hash r)"
        "\<lambda>r. rc_id r = rc_id c \<and> rc_user_id r = uid \<and> \<not> rc_used r"]
    show ?thesis using c True \<open>b\<close> by (simp add: usable_codes_def d')
  next
    case False
    then show ?thesis using Cons by auto
  qed
qed (simp add: dret_def)

lemma ConsumeRecoveryCode_Inr:
  assumes "ConsumeRecoveryCode verify uid raw d = (Inr b, d')" "db_wf d"
  shows "if b then Suc (length (usable_codes verify uid raw d')) = length (usable_codes verify uid raw d)
    else usable_codes verify uid raw d = [] \<and> usable_codes verify uid raw d' = []"
proof -
  from dbind_query_Inr [OF assms(1) [unfolded ConsumeRecoveryCode_def]] obtain fs where
    run: "try_codes verify uid raw (filter (\<lambda>r. rc_user_id r = uid \<and> \<not> rc_used r) (recovery_codes d))
      (d\<lparr>faults := fs\<rparr>) = (Inr b, d')" by auto
  show ?thesis
    using try_codes_Inr [OF run] assms(2)
    by (cases b) (auto simp: usable_codes_def filter_empty_conv)
qed

text \<open>Consuming changes \<open>recovery_codes\<close> only.\<close>

lemma keeps_ConsumeRecoveryCode:
  assumes "data_pred P" "\<And>d x. P d \<Longrightarrow> P (d\<lparr>recovery_codes := x\<rparr>)"
  shows "keeps P (ConsumeRecoveryCode verify uid raw)"
proof -
  have con: "keeps P (consume_code i uid)" for i
    unfolding consume_code_def Let_def
    by (intro keeps_intros keeps_stmt assms(1)) (simp add: keeps_def assms(2))
  have "keeps P (try_codes verify uid raw cs)" for cs
    by (induction cs) (simp_all add: keeps_dret con)
  then show ?thesis unfolding ConsumeRecoveryCode_def
    by (intro keeps_dbind keeps_query assms(1)) auto
qed

lemma ConsumeRecoveryCode_frame:
  assumes "ConsumeRecoveryCode verify uid raw d = (r, d')"
  shows "users d' = users d" "sessions d' = sessions d" "totp_secrets d' = totp_secrets d"
    "api_tokens d' = api_tokens d"
  by (rule keepsD [OF keeps_ConsumeRecoveryCode assms]; simp add: data_pred_def)+

text \<open>consuming a recovery code succeeds exactly when the user has an unused code that verifies
  against it, and it uses up one: with \<open>n\<close> usable codes a raw value is accepted \<open>n\<close> times.\<close>

theorem recovery_code_single_use:
  assumes "db_wf d" "ConsumeRecoveryCode verify uid raw d = (Inr b, d')"
  shows "(b \<longleftrightarrow> usable_codes verify uid raw d \<noteq> []) \<and>
    length (usable_codes verify uid raw d') = length (usable_codes verify uid raw d) - 1"
  using ConsumeRecoveryCode_Inr [OF assms(2,1)] by (cases b) auto


definition demo_codes :: db where
  "demo_codes = empty_db\<lparr>recovery_codes :=
     [\<lparr>rc_id = 1, rc_user_id = 2, rc_code_hash = ''pw:AAAA'', rc_used = False\<rparr>],
     recovery_seq := 1, users := [\<lparr>u_id = 2, u_username = ''alice'', u_password_hash = '''', u_is_admin = False,
       u_incus_project = ''default'', u_created_at = 0\<rparr>], user_seq := 2\<rparr>"

lemma demo_codes_wf: "db_wf demo_codes"
  by (simp add: wf_defs demo_codes_def empty_db_def tunique_def tbelow_def trefs_def trefs_opt_def)

definition demo_consume :: "bool res \<times> db" where
  "demo_consume = ConsumeRecoveryCode (\<lambda>raw h. h = ''pw:'' @ raw) 2 ''AAAA'' demo_codes"

theorem recovery_code_single_use_witness:
  "fst demo_consume = Inr True \<and> usable_codes (\<lambda>raw h. h = ''pw:'' @ raw) 2 ''AAAA'' (snd demo_consume) = []"
proof -
  have run: "fst demo_consume = Inr True" by code_simp
  have len: "length (usable_codes (\<lambda>raw h. h = ''pw:'' @ raw) 2 ''AAAA'' demo_codes) = 1" by code_simp
  from run have "ConsumeRecoveryCode (\<lambda>raw h. h = ''pw:'' @ raw) 2 ''AAAA'' demo_codes = (Inr True, snd demo_consume)"
    by (simp add: demo_consume_def prod_eq_iff)
  from recovery_code_single_use [OF demo_codes_wf this] show ?thesis using run len by simp
qed

end
