(* ===== verification/Rate_Limit.thy ===== *)
theory Rate_Limit
  imports Prelude "HOL-Library.AList"
begin

text \<open>
  \<open>auth/ratelimit.go\<close>: the sliding-window limiter of failed logins.  \<open>hits\<close> is an association
  list (a Go map: distinct keys, order without meaning); \<open>now\<close> is the \<open>time.Now()\<close> of the call.

  The locale \<open>throttle\<close> is the contract the login handler relies on, stated on the grants that
  are still inside a window; its lemmas count the grants of a trace of calls.  The limiter is
  interpreted into it at the end.
\<close>

section \<open>The limiter\<close>

definition maxRateLimiterKeys :: nat where "maxRateLimiterKeys = 4096"

record limiter =
  rl_limit :: int
  rl_window :: int
  rl_hits :: "(string \<times> gotime list) list"

definition NewRateLimiter :: "int \<Rightarrow> int \<Rightarrow> limiter" where
  "NewRateLimiter limit window = \<lparr>rl_limit = limit, rl_window = window, rl_hits = []\<rparr>"

definition stamps_of :: "(string \<times> gotime list) list \<Rightarrow> string \<Rightarrow> gotime list" where
  "stamps_of hits key = (case map_of hits key of None \<Rightarrow> [] | Some ts \<Rightarrow> ts)"

text \<open>The loop that keeps the stamps \<open>t.After(cutoff)\<close>.\<close>

definition prune_stamps :: "gotime \<Rightarrow> gotime list \<Rightarrow> gotime list" where
  "prune_stamps cutoff ts = filter (\<lambda>t. cutoff < t) ts"

fun gcAllLocked :: "gotime \<Rightarrow> (string \<times> gotime list) list \<Rightarrow> (string \<times> gotime list) list" where
  "gcAllLocked cutoff [] = []"
| "gcAllLocked cutoff ((key, ts) # rest) =
     (let pruned = prune_stamps cutoff ts in
      if pruned = [] then gcAllLocked cutoff rest else (key, pruned) # gcAllLocked cutoff rest)"

definition Allow_locked :: "string \<Rightarrow> gotime \<Rightarrow> limiter \<Rightarrow> bool \<times> limiter" where
  "Allow_locked key now r =
     (let cutoff = now - rl_window r;
          pruned = prune_stamps cutoff (stamps_of (rl_hits r) key) in
      if rl_limit r \<le> int (length pruned)
      then (False, r\<lparr>rl_hits := AList.update key pruned (rl_hits r)\<rparr>)
      else (True, r\<lparr>rl_hits := AList.update key (pruned @ [now]) (rl_hits r)\<rparr>))"

definition Allow :: "string \<Rightarrow> gotime \<Rightarrow> limiter \<Rightarrow> bool \<times> limiter" where
  "Allow key now r =
     (if map_of (rl_hits r) key = None \<and> maxRateLimiterKeys \<le> length (rl_hits r) then
        let r' = r\<lparr>rl_hits := gcAllLocked (now - rl_window r) (rl_hits r)\<rparr> in
        if maxRateLimiterKeys \<le> length (rl_hits r') then (False, r') else Allow_locked key now r'
      else Allow_locked key now r)"

definition Reset :: "string \<Rightarrow> limiter \<Rightarrow> limiter" where
  "Reset key r = r\<lparr>rl_hits := AList.delete key (rl_hits r)\<rparr>"

definition HitLimit :: "string \<Rightarrow> gotime \<Rightarrow> limiter \<Rightarrow> bool \<times> limiter" where
  "HitLimit key now r =
     (let pruned = prune_stamps (now - rl_window r) (stamps_of (rl_hits r) key) in
      if pruned = [] then (False, r\<lparr>rl_hits := AList.delete key (rl_hits r)\<rparr>)
      else (rl_limit r \<le> int (length pruned), r\<lparr>rl_hits := AList.update key pruned (rl_hits r)\<rparr>))"

section \<open>Its representation\<close>

definition limiter_ok :: "limiter \<Rightarrow> bool" where
  "limiter_ok r \<longleftrightarrow> distinct (map fst (rl_hits r)) \<and> length (rl_hits r) \<le> maxRateLimiterKeys"

lemma prune_prune [simp]: "c \<le> c' \<Longrightarrow> prune_stamps c' (prune_stamps c ts) = prune_stamps c' ts"
  by (induction ts) (auto simp: prune_stamps_def)

lemma prune_append: "prune_stamps c (ts @ us) = prune_stamps c ts @ prune_stamps c us"
  by (simp add: prune_stamps_def)

lemma prune_Nil [simp]: "prune_stamps c [] = []"
  by (simp add: prune_stamps_def)

lemma prune_single: "prune_stamps c [t] = (if c < t then [t] else [])"
  by (simp add: prune_stamps_def)

lemma prune_mono_Nil: "prune_stamps c ts = [] \<Longrightarrow> c \<le> c' \<Longrightarrow> prune_stamps c' ts = []"
  by (metis prune_prune prune_Nil)

lemma gc_Cons: "gcAllLocked c (e # rest) =
    (if prune_stamps c (snd e) = [] then [] else [(fst e, prune_stamps c (snd e))]) @ gcAllLocked c rest"
  by (cases e) (simp add: Let_def)

lemma gc_keys: "fst ` set (gcAllLocked c hits) \<subseteq> fst ` set hits"
  by (induction hits) (auto simp: gc_Cons simp del: gcAllLocked.simps(2) split: if_splits)

lemma gc_distinct: "distinct (map fst hits) \<Longrightarrow> distinct (map fst (gcAllLocked c hits))"
proof (induction hits)
  case (Cons e rest)
  then show ?case using gc_keys [of c rest] by (auto simp: gc_Cons simp del: gcAllLocked.simps(2))
qed simp

lemma gc_length: "length (gcAllLocked c hits) \<le> length hits"
  by (induction hits) (auto simp: gc_Cons simp del: gcAllLocked.simps(2))

lemma stamps_Cons: "stamps_of (e # rest) key = (if key = fst e then snd e else stamps_of rest key)"
  by (cases e) (simp add: stamps_of_def)

lemma stamps_absent: "key \<notin> fst ` set hits \<Longrightarrow> stamps_of hits key = []"
  by (simp add: stamps_of_def map_of_eq_None_iff [THEN iffD2])

lemma stamps_gc:
  "distinct (map fst hits) \<Longrightarrow> stamps_of (gcAllLocked c hits) key = prune_stamps c (stamps_of hits key)"
proof (induction hits)
  case (Cons e rest)
  have "stamps_of (gcAllLocked c rest) (fst e) = []" if "fst e \<notin> fst ` set rest"
    using gc_keys [of c rest] that by (intro stamps_absent) auto
  then show ?case using Cons
    by (auto simp: gc_Cons stamps_Cons simp del: gcAllLocked.simps(2))
qed (simp add: stamps_of_def)

lemma stamps_update [simp]:
  "stamps_of (AList.update k ts hits) key = (if key = k then ts else stamps_of hits key)"
  by (simp add: stamps_of_def update_conv')

lemma stamps_delete [simp]:
  "stamps_of (AList.delete k hits) key = (if key = k then [] else stamps_of hits key)"
  by (simp add: stamps_of_def delete_conv')

lemma length_update: "length (AList.update k v al) =
    (if map_of al k = None then Suc (length al) else length al)"
  by (induction al) auto

lemma limiter_ok_New: "limiter_ok (NewRateLimiter limit window)"
  by (simp add: limiter_ok_def NewRateLimiter_def)

lemma limiter_ok_locked:
  "limiter_ok r \<Longrightarrow> map_of (rl_hits r) key \<noteq> None \<or> length (rl_hits r) < maxRateLimiterKeys \<Longrightarrow>
   limiter_ok (snd (Allow_locked key now r))"
  by (auto simp: limiter_ok_def Allow_locked_def Let_def length_update distinct_update)

lemma limiter_ok_gc: "limiter_ok r \<Longrightarrow> limiter_ok (r\<lparr>rl_hits := gcAllLocked c (rl_hits r)\<rparr>)"
  using gc_length [of c "rl_hits r"] by (auto simp: limiter_ok_def gc_distinct)

lemma limiter_ok_Allow: "limiter_ok r \<Longrightarrow> limiter_ok (snd (Allow key now r))"
  by (auto simp: Allow_def Let_def limiter_ok_gc intro!: limiter_ok_locked)

lemma limiter_ok_Reset: "limiter_ok r \<Longrightarrow> limiter_ok (Reset key r)"
  using length_delete_le [of key "rl_hits r"]
  by (auto simp: limiter_ok_def Reset_def distinct_delete)

lemma limiter_ok_HitLimit:
  assumes "limiter_ok r" shows "limiter_ok (snd (HitLimit key now r))"
proof -
  have "map_of (rl_hits r) key \<noteq> None" if "prune_stamps (now - rl_window r) (stamps_of (rl_hits r) key) \<noteq> []"
    using that by (auto simp: stamps_of_def split: option.splits)
  then show ?thesis using assms length_delete_le [of key "rl_hits r"]
    by (auto simp: limiter_ok_def HitLimit_def Let_def length_update distinct_update distinct_delete)
qed

section \<open>The contract of a throttle\<close>

text \<open>A trace of calls, and the grants (key, time) it returned.\<close>

datatype 'k throttle_call = CallAllow 'k gotime | CallHit 'k gotime | CallReset 'k

fun throttle_run ::
  "('k \<Rightarrow> gotime \<Rightarrow> 's \<Rightarrow> bool \<times> 's) \<Rightarrow> ('k \<Rightarrow> gotime \<Rightarrow> 's \<Rightarrow> bool \<times> 's) \<Rightarrow> ('k \<Rightarrow> 's \<Rightarrow> 's) \<Rightarrow>
   'k throttle_call list \<Rightarrow> 's \<Rightarrow> ('k \<times> gotime) list \<times> 's" where
  "throttle_run allow hit reset [] s = ([], s)"
| "throttle_run allow hit reset (CallAllow k t # cs) s =
     (case allow k t s of (b, s1) \<Rightarrow> case throttle_run allow hit reset cs s1 of (g, s2) \<Rightarrow>
        ((if b then (k, t) # g else g), s2))"
| "throttle_run allow hit reset (CallHit k t # cs) s =
     throttle_run allow hit reset cs (snd (hit k t s))"
| "throttle_run allow hit reset (CallReset k # cs) s =
     throttle_run allow hit reset cs (reset k s)"

fun call_times :: "'k throttle_call list \<Rightarrow> gotime list" where
  "call_times [] = []"
| "call_times (CallAllow k t # cs) = t # call_times cs"
| "call_times (CallHit k t # cs) = t # call_times cs"
| "call_times (CallReset k # cs) = call_times cs"

definition granted_in :: "'k \<Rightarrow> gotime \<Rightarrow> gotime \<Rightarrow> ('k \<times> gotime) list \<Rightarrow> nat" where
  "granted_in k lo hi g = length (filter (\<lambda>(j, t). j = k \<and> lo < t \<and> t \<le> hi) g)"

definition times_of :: "'k \<Rightarrow> ('k \<times> gotime) list \<Rightarrow> gotime list" where
  "times_of k g = map snd (filter (\<lambda>e. fst e = k) g)"

lemma granted_in_times: "granted_in k lo hi g = length (filter (\<lambda>t. lo < t \<and> t \<le> hi) (times_of k g))"
  by (induction g) (auto simp: granted_in_def times_of_def)

lemma times_of_append [simp]: "times_of k (g @ h) = times_of k g @ times_of k h"
  by (simp add: times_of_def)

locale throttle =
  fixes live :: "'s \<Rightarrow> gotime \<Rightarrow> 'k \<Rightarrow> gotime list"
    and limit :: int and window :: int
    and ok :: "'s \<Rightarrow> bool"
    and allow :: "'k \<Rightarrow> gotime \<Rightarrow> 's \<Rightarrow> bool \<times> 's"
    and hit :: "'k \<Rightarrow> gotime \<Rightarrow> 's \<Rightarrow> bool \<times> 's"
    and reset :: "'k \<Rightarrow> 's \<Rightarrow> 's"
  assumes grant: "ok s \<Longrightarrow> allow k now s = (True, s') \<Longrightarrow> ok s' \<and>
      int (length (live s (now - window) k)) < limit \<and>
      (\<forall>j c. now - window \<le> c \<longrightarrow> live s' c j = live s c j @ (if j = k \<and> c < now then [now] else []))"
    and deny: "ok s \<Longrightarrow> allow k now s = (False, s') \<Longrightarrow> ok s' \<and>
      (\<forall>j c. now - window \<le> c \<longrightarrow> live s' c j = live s c j)"
    and peek: "ok s \<Longrightarrow> hit k now s = (b, s') \<Longrightarrow> ok s' \<and>
      (b \<longleftrightarrow> limit \<le> int (length (live s (now - window) k))) \<and>
      (\<forall>j c. now - window \<le> c \<longrightarrow> live s' c j = live s c j)"
    and reset: "ok s \<Longrightarrow> ok (reset k s) \<and> live (reset k s) c j = (if j = k then [] else live s c j)"
begin

text \<open>The state \<open>s\<close> knows the grants \<open>g\<close> of the key that a window ending at \<open>now\<close> can see.\<close>

definition tracks :: "'k \<Rightarrow> 's \<Rightarrow> ('k \<times> gotime) list \<Rightarrow> gotime \<Rightarrow> bool" where
  "tracks k s g now \<longleftrightarrow> ok s
     \<and> (\<forall>c. now - window \<le> c \<longrightarrow> live s c k = filter (\<lambda>t. c < t) (times_of k g))
     \<and> (\<forall>t \<in> set (times_of k g). t \<le> now)
     \<and> (\<forall>T. int (granted_in k (T - window) T g) \<le> limit)"

lemma tracks_later:
  assumes "tracks k s g now" "now \<le> now'" shows "tracks k s g now'"
  using assms unfolding tracks_def by (meson diff_right_mono order_trans)

lemma tracks_same_live:
  assumes "tracks k s g now" "ok s'" "\<forall>c. now - window \<le> c \<longrightarrow> live s' c k = live s c k"
  shows "tracks k s' g now"
  using assms by (simp add: tracks_def)

lemma tracks_grant:
  assumes tr: "tracks k s g now" and al: "allow k now s = (True, s')"
  shows "tracks k s' (g @ [(k, now)]) now"
proof -
  note gr = grant [OF _ al]
  from tr have "ok s" by (simp add: tracks_def)
  with gr have "ok s'" and room: "int (length (live s (now - window) k)) < limit"
    and live': "\<And>c. now - window \<le> c \<Longrightarrow> live s' c k = live s c k @ (if c < now then [now] else [])"
    by auto
  have "int (granted_in k (T - window) T (g @ [(k, now)])) \<le> limit" for T
  proof (cases "T < now")
    case True
    then have "granted_in k (T - window) T (g @ [(k, now)]) = granted_in k (T - window) T g"
      by (simp add: granted_in_def)
    then show ?thesis using tr by (simp add: tracks_def)
  next
    case False
    have "length (filter (\<lambda>t. T - window < t \<and> t \<le> T) (times_of k g))
        \<le> length (filter (\<lambda>t. now - window < t) (times_of k g))"
      using False by (intro length_filter_imp) auto
    moreover have "live s (now - window) k = filter (\<lambda>t. now - window < t) (times_of k g)"
      using tr by (simp add: tracks_def)
    ultimately have "int (length (filter (\<lambda>t. T - window < t \<and> t \<le> T) (times_of k g))) < limit"
      using room by simp
    then show ?thesis by (auto simp: granted_in_times times_of_def)
  qed
  with tr \<open>ok s'\<close> live' show ?thesis by (auto simp: tracks_def times_of_def)
qed

theorem run_bound:
  assumes "tracks k s g now" "sorted (now # call_times cs)" "CallReset k \<notin> set cs"
    and "throttle_run allow hit reset cs s = (h, s')"
  shows "\<exists>now'. tracks k s' (g @ h) now'"
  using assms
proof (induction cs arbitrary: s g now h)
  case Nil
  then show ?case by auto
next
  case (Cons a cs)
  show ?case
  proof (cases a)
    case (CallAllow j t)
    then obtain b s1 h1 where al: "allow j t s = (b, s1)" and h: "h = (if b then (j, t) # h1 else h1)"
      and run: "throttle_run allow hit reset cs s1 = (h1, s')"
      using Cons.prems(4) by (auto split: prod.splits)
    have tr: "tracks k s g t" using Cons.prems CallAllow by (auto intro: tracks_later)
    have srt: "sorted (t # call_times cs)" and nr: "CallReset k \<notin> set cs"
      using Cons.prems CallAllow by auto
    have ok: "ok s" using tr by (simp add: tracks_def)
    have "tracks k s1 (if b then g @ [(j, t)] else g) t"
    proof (cases b)
      case True
      show ?thesis
      proof (cases "j = k")
        case True
        then show ?thesis using tracks_grant [OF tr] al \<open>b\<close> by simp
      next
        case False
        have "tracks k s1 g t" using grant [OF ok, of j t s1] al \<open>b\<close> False
          by (intro tracks_same_live [OF tr]) auto
        then show ?thesis using \<open>b\<close> False by (auto simp: tracks_def times_of_def granted_in_def)
      qed
    next
      case False
      then show ?thesis using deny [OF ok, of j t s1] al by (auto intro: tracks_same_live [OF tr])
    qed
    from Cons.IH [OF this srt nr run] show ?thesis by (cases b) (simp_all add: h)
  next
    case (CallHit j t)
    have tr: "tracks k s g t" using Cons.prems CallHit by (auto intro: tracks_later)
    obtain b s1 where ht: "hit j t s = (b, s1)" by (cases "hit j t s")
    have "tracks k s1 g t" using tr peek [OF _ ht] by (auto simp: tracks_def)
    then show ?thesis using Cons.IH [of s1 g t h] Cons.prems CallHit ht by auto
  next
    case (CallReset j)
    have "tracks k (reset j s) g now" using Cons.prems(1,3) CallReset reset [of s j]
      by (auto simp: tracks_def)
    then show ?thesis using Cons.IH [of "reset j s" g now h] Cons.prems CallReset by auto
  qed
qed

text \<open>While a window holds \<open>limit\<close> live grants the throttle refuses, and says so when asked.\<close>

lemma full_refuses:
  assumes "ok s" "limit \<le> int (length (live s (now - window) k))"
  shows "\<not> fst (allow k now s)" "fst (hit k now s)"
proof -
  show "\<not> fst (allow k now s)"
    using assms grant [of s k now "snd (allow k now s)"] by (cases "allow k now s") auto
  show "fst (hit k now s)"
    using assms peek [of s k now "fst (hit k now s)" "snd (hit k now s)"] by simp
qed

end

section \<open>The limiter is a throttle\<close>

definition limiter_live :: "limiter \<Rightarrow> gotime \<Rightarrow> string \<Rightarrow> gotime list" where
  "limiter_live r c k = prune_stamps c (stamps_of (rl_hits r) k)"

definition limiter_for :: "int \<Rightarrow> int \<Rightarrow> limiter \<Rightarrow> bool" where
  "limiter_for limit window r \<longleftrightarrow> limiter_ok r \<and> rl_limit r = limit \<and> rl_window r = window \<and> 0 < limit"

lemma limiter_for_New: "0 < limit \<Longrightarrow> limiter_for limit window (NewRateLimiter limit window)"
  by (simp add: limiter_for_def limiter_ok_New) (simp add: NewRateLimiter_def)

lemma limiter_live_New [simp]: "limiter_live (NewRateLimiter limit window) c k = []"
  by (simp add: limiter_live_def NewRateLimiter_def stamps_of_def)

lemma Allow_settings [simp]:
  "rl_limit (snd (Allow key now r)) = rl_limit r" "rl_window (snd (Allow key now r)) = rl_window r"
  by (auto simp: Allow_def Allow_locked_def Let_def)

lemma HitLimit_settings [simp]:
  "rl_limit (snd (HitLimit key now r)) = rl_limit r" "rl_window (snd (HitLimit key now r)) = rl_window r"
  by (auto simp: HitLimit_def Let_def)

lemma live_gc:
  "limiter_ok r \<Longrightarrow> now - rl_window r \<le> c \<Longrightarrow>
   limiter_live (r\<lparr>rl_hits := gcAllLocked (now - rl_window r) (rl_hits r)\<rparr>) c j = limiter_live r c j"
  by (simp add: limiter_live_def limiter_ok_def stamps_gc)

lemma live_locked:
  assumes "Allow_locked k now r = (b, r')" "now - rl_window r \<le> c"
  shows "limiter_live r' c j = limiter_live r c j @ (if b \<and> j = k \<and> c < now then [now] else [])"
    and "b \<longleftrightarrow> int (length (limiter_live r (now - rl_window r) k)) < rl_limit r"
  using assms
  by (auto simp: Allow_locked_def Let_def limiter_live_def prune_append prune_single split: if_splits)

lemma live_Allow:
  assumes "limiter_ok r" "Allow k now r = (b, r')" "now - rl_window r \<le> c"
  shows "limiter_live r' c j = limiter_live r c j @ (if b \<and> j = k \<and> c < now then [now] else [])"
    and "b \<Longrightarrow> int (length (limiter_live r (now - rl_window r) k)) < rl_limit r"
proof -
  let ?g = "r\<lparr>rl_hits := gcAllLocked (now - rl_window r) (rl_hits r)\<rparr>"
  consider (1) "Allow_locked k now r = (b, r')" | (2) "Allow_locked k now ?g = (b, r')" | (3) "\<not> b" "r' = ?g"
  proof (cases "map_of (rl_hits r) k = None \<and> maxRateLimiterKeys \<le> length (rl_hits r)")
    case True
    then show ?thesis using assms(2) that
      by (cases "maxRateLimiterKeys \<le> length (rl_hits ?g)") (simp_all add: Allow_def)
  next
    case False
    then show ?thesis using assms(2) that by (simp only: Allow_def if_False)
  qed
  then have "limiter_live r' c j = limiter_live r c j @ (if b \<and> j = k \<and> c < now then [now] else []) \<and>
    (b \<longrightarrow> int (length (limiter_live r (now - rl_window r) k)) < rl_limit r)"
  proof cases
    case 1
    then show ?thesis using live_locked [OF 1 assms(3)] by blast
  next
    case 2
    then show ?thesis using live_locked(1) [OF 2, of c j] live_locked(2) [OF 2, of c] live_gc [OF assms(1), of now c j]
      live_gc [OF assms(1), of now "now - rl_window r" k] assms(3) by simp
  next
    case 3
    then show ?thesis using live_gc [OF assms(1,3)] by simp
  qed
  then show "limiter_live r' c j = limiter_live r c j @ (if b \<and> j = k \<and> c < now then [now] else [])"
    and "b \<Longrightarrow> int (length (limiter_live r (now - rl_window r) k)) < rl_limit r" by auto
qed

lemma live_HitLimit:
  assumes "HitLimit k now r = (b, r')" "now - rl_window r \<le> c"
  shows "limiter_live r' c j = limiter_live r c j"
  using assms prune_mono_Nil [of "now - rl_window r" "stamps_of (rl_hits r) k" c]
  by (auto simp: HitLimit_def Let_def limiter_live_def split: if_splits)

interpretation lim: throttle limiter_live limit window "limiter_for limit window" Allow HitLimit Reset
  for limit window
proof (unfold_locales, goal_cases)
  case (1 s k now s')
  then show ?case
    using live_Allow [of s k now True s'] limiter_ok_Allow [of s k now] Allow_settings [of k now s]
    by (auto simp: limiter_for_def)
next
  case (2 s k now s')
  then show ?case
    using live_Allow [of s k now False s'] limiter_ok_Allow [of s k now] Allow_settings [of k now s]
    by (auto simp: limiter_for_def)
next
  case (3 s k now b s')
  then show ?case
    using live_HitLimit [of k now s b s'] limiter_ok_HitLimit [of s k now] HitLimit_settings [of k now s]
    by (auto simp: limiter_for_def) (auto simp: HitLimit_def Let_def limiter_live_def split: if_splits)
next
  case (4 s k c j)
  then show ?case by (auto simp: limiter_for_def limiter_ok_Reset) (auto simp: limiter_live_def Reset_def)
qed

text \<open>C33: in a trace of calls at non-decreasing times with no reset of the key, every window holds at
  most \<open>limit\<close> granted attempts of that key.\<close>

theorem limiter_window_bound:
  assumes "0 < limit" "sorted (call_times cs)" "CallReset k \<notin> set cs"
    and "throttle_run Allow HitLimit Reset cs (NewRateLimiter limit window) = (g, r)"
  shows "int (granted_in k (T - window) T g) \<le> limit"
proof -
  let ?now = "case call_times cs of [] \<Rightarrow> 0 | t # ts \<Rightarrow> t"
  have "lim.tracks limit window k (NewRateLimiter limit window) [] ?now"
    using assms(1) by (simp add: lim.tracks_def limiter_for_New times_of_def granted_in_def)
  moreover have "sorted (?now # call_times cs)" using assms(2) by (cases "call_times cs") auto
  ultimately obtain now' where "lim.tracks limit window k r ([] @ g) now'"
    using lim.run_bound assms(3,4) by blast
  then show ?thesis by (simp add: lim.tracks_def)
qed

theorem limiter_window_bound_witness:
  "let (g, r) = throttle_run Allow HitLimit Reset
      [CallAllow ''a'' 1, CallAllow ''a'' 2, CallHit ''a'' 3, CallAllow ''a'' 3, CallAllow ''a'' 12]
      (NewRateLimiter 2 10) in g = [(''a'', 1), (''a'', 2), (''a'', 12)] \<and> int (granted_in ''a'' 2 12 g) \<le> 2"
proof -
  let ?cs = "[CallAllow ''a'' 1, CallAllow ''a'' 2, CallHit ''a'' 3, CallAllow ''a'' 3, CallAllow ''a'' 12]"
  let ?run = "throttle_run Allow HitLimit Reset ?cs (NewRateLimiter 2 10)"
  have g: "fst ?run = [(''a'', 1), (''a'', 2), (''a'', 12)]" by code_simp
  have "int (granted_in ''a'' (12 - 10) 12 (fst ?run)) \<le> 2"
    by (rule limiter_window_bound [OF _ _ _ surjective_pairing]) simp_all
  then show ?thesis using g by (simp add: case_prod_beta)
qed

text \<open>whatever the calls, the limiter holds at most 4096 keys, each once.\<close>

theorem limiter_memory_bound:
  "length (rl_hits (snd (throttle_run Allow HitLimit Reset cs (NewRateLimiter limit window)))) \<le> maxRateLimiterKeys
   \<and> distinct (map fst (rl_hits (snd (throttle_run Allow HitLimit Reset cs (NewRateLimiter limit window)))))"
proof -
  have "limiter_ok r \<Longrightarrow> limiter_ok (snd (throttle_run Allow HitLimit Reset cs r))" for r
  proof (induction cs arbitrary: r)
    case (Cons c cs)
    then show ?case
      by (cases c) (auto simp: limiter_ok_HitLimit limiter_ok_Reset case_prod_beta limiter_ok_Allow)
  qed simp
  then show ?thesis using limiter_ok_New by (auto simp: limiter_ok_def)
qed

end
