(* ===== verification/Server_Core.thy ===== *)
theory Server_Core
  imports Go_Text Store_Accounts Rate_Limit
begin

text \<open>
  The HTTP layer's common ground (\<open>server.go\<close>, \<open>audit_emit.go\<close>, the MFA map of
  \<open>auth_handlers.go\<close>): requests with what the middleware put in their context, responses, the
  server's state, and the functions that are not part of the repository.

  A handler is a function of the server state that returns the response and the new state.  The
  fields of a request are what the handlers read; \<open>rq_source_ip\<close> is the value of \<open>clientIP(r)\<close>.
  A JSON body is the decoded value, \<open>None\<close> when decoding fails.
\<close>

section \<open>Requests and responses\<close>

record request =
  rq_method :: string
  rq_path :: string
  rq_uri :: string
  rq_source_ip :: string
  rq_cookie :: "string option"
  rq_authorization :: string
  rq_schedule_token :: string
  rq_user :: "user option"            \<comment> \<open>\<open>ctxKeyUser\<close>\<close>
  rq_scopes :: "string option"        \<comment> \<open>\<open>ctxKeyAPITokenScopes\<close>\<close>
  rq_jwt_id :: "string option"        \<comment> \<open>\<open>ctxKeyJWTID\<close>\<close>
  rq_runner :: bool                   \<comment> \<open>\<open>ctxKeyScheduleRunner\<close>\<close>

record cookie =
  ck_value :: string
  ck_max_age :: int

datatype 'p payload = NoBody | ErrorBody string string | Body 'p

record 'p response =
  rs_status :: nat
  rs_payload :: "'p payload"
  rs_cookie :: "cookie option"

definition writeJSON :: "nat \<Rightarrow> 'p \<Rightarrow> 'p response" where
  "writeJSON status p = \<lparr>rs_status = status, rs_payload = Body p, rs_cookie = None\<rparr>"

definition writeError :: "nat \<Rightarrow> string \<Rightarrow> string \<Rightarrow> 'p response" where
  "writeError status code message =
     \<lparr>rs_status = status, rs_payload = ErrorBody code message, rs_cookie = None\<rparr>"

definition noContent :: "'p response" where
  "noContent = \<lparr>rs_status = 204, rs_payload = NoBody, rs_cookie = None\<rparr>"

abbreviation internalError :: "'p response" where
  "internalError \<equiv> writeError 500 ''internal'' ''internal error''"

lemma response_simps [simp]:
  "rs_status (writeJSON st p) = st" "rs_payload (writeJSON st p) = Body p" "rs_cookie (writeJSON st p) = None"
  "rs_status (writeError st c m) = st" "rs_payload (writeError st c m) = ErrorBody c m"
  "rs_cookie (writeError st c m) = None"
  "rs_status noContent = 204" "rs_payload noContent = NoBody" "rs_cookie noContent = None"
  by (simp_all add: writeJSON_def writeError_def noContent_def)

section \<open>The state of the server\<close>

text \<open>
  One audit record, without the fields that only describe the connection (request id, duration,
  user agent).
\<close>

record audit =
  au_actor :: string
  au_actor_id :: string
  au_role :: string
  au_action :: string
  au_outcome :: string
  au_target_type :: string
  au_target_id :: string
  au_policy_reason :: string
  au_source_ip :: string
  au_status_code :: nat
  au_jwt_id :: string
  au_message :: string

record mfa_challenge =
  mc_user_id :: int
  mc_expires_at :: gotime

record server =
  sv_db :: db
  sv_user_limiter :: limiter
  sv_ip_limiter :: limiter
  sv_mfa :: "string \<rightharpoonup> mfa_challenge"
  sv_audit :: "audit list"                 \<comment> \<open>emitted records, newest last\<close>
  sv_setup_token :: "string option"        \<comment> \<open>content of the setup token file\<close>
  sv_schedule_token :: "string option"     \<comment> \<open>content of the schedule runner token file\<close>

record jwt_claims =
  jc_subject :: string
  jc_username :: string
  jc_is_admin :: bool
  jc_role :: string
  jc_scopes :: string
  jc_id :: string
  jc_expires_at :: gotime

text \<open>
  Functions outside the repository: SHA-256 in hexadecimal, Argon2id over its PHC string, HMAC-SHA1,
  EdDSA signing and verification (which checks the registered time claims), age decryption.
\<close>

record crypto =
  cr_hash :: "string \<Rightarrow> string"
  cr_verify :: "string \<Rightarrow> string \<Rightarrow> bool"              \<comment> \<open>\<open>Verify(encoded, password)\<close>: true, and no error\<close>
  cr_hash_password :: "string \<Rightarrow> string \<Rightarrow> string"     \<comment> \<open>salt, password\<close>
  cr_totp :: "unixsec \<Rightarrow> string \<Rightarrow> string \<Rightarrow> bool"      \<comment> \<open>\<open>ValidateTOTP\<close> at a time\<close>
  cr_sign :: "jwt_claims \<Rightarrow> string option"
  cr_jwt_verify :: "gotime \<Rightarrow> string \<Rightarrow> jwt_claims option"

record config =
  cf_session_ttl :: int
  cf_access_ttl :: int
  cf_jwt_signer :: bool                    \<comment> \<open>\<open>JWTSigner != nil\<close>\<close>
  cf_setup_token_path :: string
  cf_crypto :: crypto

text \<open>A database operation inside a handler.\<close>

definition with_db :: "'a dbm \<Rightarrow> ('a res \<Rightarrow> server \<Rightarrow> 'b \<times> server) \<Rightarrow> server \<Rightarrow> 'b \<times> server" where
  "with_db m k s = (case m (sv_db s) of (r, d) \<Rightarrow> k r (s\<lparr>sv_db := d\<rparr>))"

lemma with_db_eq: "m (sv_db s) = (r, d) \<Longrightarrow> with_db m k s = k r (s\<lparr>sv_db := d\<rparr>)"
  by (simp add: with_db_def)

section \<open>Audit records\<close>

definition or_unknown :: "string \<Rightarrow> string" where
  "or_unknown v = (if v = '''' then ''unknown'' else v)"

definition auditStatusForOutcome :: "string \<Rightarrow> nat" where
  "auditStatusForOutcome outcome =
     (if outcome = ''denied'' then 403
      else if outcome = ''failure'' \<or> outcome = ''failed'' then 500
      else 200)"

type_synonym actor_name = string
type_synonym actor_role = string
type_synonym audit_action = string
type_synonym audit_outcome = string
type_synonym target_kind = string
type_synonym target_name = string
type_synonym policy_reason = string
type_synonym audit_message = string

definition auditForActorWithPolicyReason ::
  "request \<Rightarrow> actor_name \<Rightarrow> string \<Rightarrow> actor_role \<Rightarrow> audit_action \<Rightarrow> audit_outcome \<Rightarrow> target_kind \<Rightarrow>
   target_name \<Rightarrow> policy_reason \<Rightarrow> audit_message \<Rightarrow> server \<Rightarrow> server" where
  "auditForActorWithPolicyReason r actor actorID role action outcome targetType targetID policyReason message s =
     (let actor = or_unknown actor;
          actorID = (if actor = ''anonymous'' then ''anonymous'' else actorID);
          role = (if actor = ''anonymous'' then ''none'' else role);
          outcome = (if outcome = ''failed'' then ''failure'' else outcome)
      in s\<lparr>sv_audit := sv_audit s @
        [\<lparr>au_actor = actor, au_actor_id = or_unknown actorID, au_role = or_unknown role, au_action = action,
          au_outcome = outcome, au_target_type = targetType, au_target_id = targetID,
          au_policy_reason = policyReason, au_source_ip = rq_source_ip r,
          au_status_code = auditStatusForOutcome outcome,
          au_jwt_id = (case rq_jwt_id r of None \<Rightarrow> '''' | Some i \<Rightarrow> i), au_message = message\<rparr>]\<rparr>)"

definition auditForUserWithPolicyReason ::
  "request \<Rightarrow> user \<Rightarrow> audit_action \<Rightarrow> audit_outcome \<Rightarrow> target_kind \<Rightarrow> target_name \<Rightarrow> policy_reason \<Rightarrow>
   audit_message \<Rightarrow> server \<Rightarrow> server" where
  "auditForUserWithPolicyReason r u action outcome targetType targetID policyReason message =
     auditForActorWithPolicyReason r (u_username u) (format_int (u_id u))
       (if u_is_admin u then ''admin'' else ''user'') action outcome targetType targetID policyReason message"

definition auditForUser ::
  "request \<Rightarrow> user \<Rightarrow> audit_action \<Rightarrow> audit_outcome \<Rightarrow> target_kind \<Rightarrow> target_name \<Rightarrow> audit_message \<Rightarrow>
   server \<Rightarrow> server" where
  "auditForUser r u action outcome targetType targetID message =
     auditForUserWithPolicyReason r u action outcome targetType targetID '''' message"

definition auditForAnonymous ::
  "request \<Rightarrow> audit_action \<Rightarrow> audit_outcome \<Rightarrow> target_kind \<Rightarrow> target_name \<Rightarrow> audit_message \<Rightarrow> server \<Rightarrow> server" where
  "auditForAnonymous r action outcome targetType targetID message =
     auditForActorWithPolicyReason r ''anonymous'' ''anonymous'' ''none'' action outcome targetType targetID '''' message"

definition audit ::
  "request \<Rightarrow> audit_action \<Rightarrow> audit_outcome \<Rightarrow> target_kind \<Rightarrow> target_name \<Rightarrow> audit_message \<Rightarrow> server \<Rightarrow> server" where
  "audit r action outcome targetType targetID message =
     (case rq_user r of
        Some u \<Rightarrow> auditForUser r u action outcome targetType targetID message
      | None \<Rightarrow> auditForAnonymous r action outcome targetType targetID message)"

lemmas audit_defs = audit_def auditForUser_def auditForAnonymous_def
  auditForUserWithPolicyReason_def auditForActorWithPolicyReason_def

lemma auditForActor_frame [simp]:
  "sv_db (auditForActorWithPolicyReason r a i ro ac oc tt ti p m s) = sv_db s"
  "sv_user_limiter (auditForActorWithPolicyReason r a i ro ac oc tt ti p m s) = sv_user_limiter s"
  "sv_ip_limiter (auditForActorWithPolicyReason r a i ro ac oc tt ti p m s) = sv_ip_limiter s"
  "sv_mfa (auditForActorWithPolicyReason r a i ro ac oc tt ti p m s) = sv_mfa s"
  "sv_setup_token (auditForActorWithPolicyReason r a i ro ac oc tt ti p m s) = sv_setup_token s"
  "sv_schedule_token (auditForActorWithPolicyReason r a i ro ac oc tt ti p m s) = sv_schedule_token s"
  by (simp_all add: auditForActorWithPolicyReason_def Let_def)

lemma auditForUser_frame [simp]:
  "sv_db (auditForUserWithPolicyReason r u ac oc tt ti p m s) = sv_db s"
  "sv_mfa (auditForUserWithPolicyReason r u ac oc tt ti p m s) = sv_mfa s"
  "sv_setup_token (auditForUserWithPolicyReason r u ac oc tt ti p m s) = sv_setup_token s"
  "sv_db (auditForUser r u ac oc tt ti m s) = sv_db s"
  "sv_mfa (auditForUser r u ac oc tt ti m s) = sv_mfa s"
  "sv_setup_token (auditForUser r u ac oc tt ti m s) = sv_setup_token s"
  "sv_user_limiter (auditForUser r u ac oc tt ti m s) = sv_user_limiter s"
  "sv_ip_limiter (auditForUser r u ac oc tt ti m s) = sv_ip_limiter s"
  "sv_db (auditForAnonymous r ac oc tt ti m s) = sv_db s"
  "sv_mfa (auditForAnonymous r ac oc tt ti m s) = sv_mfa s"
  "sv_user_limiter (auditForAnonymous r ac oc tt ti m s) = sv_user_limiter s"
  "sv_ip_limiter (auditForAnonymous r ac oc tt ti m s) = sv_ip_limiter s"
  "sv_db (audit r ac oc tt ti m s) = sv_db s"
  "sv_mfa (audit r ac oc tt ti m s) = sv_mfa s"
  "sv_setup_token (audit r ac oc tt ti m s) = sv_setup_token s"
  by (simp_all add: auditForUserWithPolicyReason_def auditForUser_def auditForAnonymous_def audit_def
      split: option.splits)

section \<open>MFA challenges\<close>

text \<open>\<open>now\<close> is the time each function reads; \<open>storeMFAChallenge\<close> first drops what has expired.\<close>

definition storeMFAChallenge :: "gotime \<Rightarrow> string \<Rightarrow> mfa_challenge \<Rightarrow>
    (string \<rightharpoonup> mfa_challenge) \<Rightarrow> (string \<rightharpoonup> mfa_challenge)" where
  "storeMFAChallenge now tokenHash challenge tokens =
     (\<lambda>h. case tokens h of None \<Rightarrow> None | Some c \<Rightarrow> if mc_expires_at c < now then None else Some c)
       (tokenHash \<mapsto> challenge)"

definition getMFAChallenge :: "gotime \<Rightarrow> string \<Rightarrow> (string \<rightharpoonup> mfa_challenge) \<Rightarrow>
    mfa_challenge option \<times> (string \<rightharpoonup> mfa_challenge)" where
  "getMFAChallenge now tokenHash tokens = (case tokens tokenHash of
     None \<Rightarrow> (None, tokens)
   | Some c \<Rightarrow> if mc_expires_at c < now then (None, tokens(tokenHash := None)) else (Some c, tokens))"

definition deleteMFAChallenge ::
  "string \<Rightarrow> (string \<rightharpoonup> mfa_challenge) \<Rightarrow> (string \<rightharpoonup> mfa_challenge)" where
  "deleteMFAChallenge tokenHash tokens = tokens(tokenHash := None)"

interpretation mfa: credential_store "\<lambda>m. m" "\<lambda>now c. mc_expires_at c < now" "\<lambda>now c. c"
  "\<lambda>now h c m. (True, storeMFAChallenge now h c m)" getMFAChallenge "\<lambda>h m. (True, deleteMFAChallenge h m)"
proof (unfold_locales, goal_cases)
  case (2 now k a s b s' j v)
  then show ?case by (auto simp: storeMFAChallenge_def split: if_splits option.splits)
qed (auto simp: storeMFAChallenge_def getMFAChallenge_def deleteMFAChallenge_def map_le_def
      split: option.splits if_splits)

end
