(* ===== verification/Server_Auth.thy ===== *)
theory Server_Auth
  imports Server_Core
begin

text \<open>
  \<open>middleware.go\<close>, \<open>auth_handlers.go\<close> and \<open>auth_ext_handlers.go\<close>: who a request acts for, login,
  MFA, sessions, API tokens, TOTP enrolment and the first administrator.

  A middleware maps a request to a refusal (\<open>Inl\<close> a response) or to the request it hands on.
  Random values are arguments (\<open>None\<close> when the generator fails); \<open>now\<close> is the time a request is
  handled at.
\<close>

section \<open>Scopes\<close>

definition ValidScopes :: "string \<Rightarrow> bool" where
  "ValidScopes scopes \<longleftrightarrow> scopes = ''read'' \<or> scopes = ''write'' \<or> scopes = ''admin''"

definition scopeAllows :: "string \<Rightarrow> string \<Rightarrow> bool" where
  "scopeAllows have required =
     (if have = ''admin'' then True
      else if have = ''write'' then required = ''read'' \<or> required = ''write''
      else if have = ''read'' then required = ''read''
      else False)"

section \<open>JWT\<close>

text \<open>\<open>strconv.ParseInt\<close> with its error ignored: 0 on a syntax error, the nearest bound on overflow.\<close>

definition parse_int64_lenient :: "string \<Rightarrow> int" where
  "parse_int64_lenient s =
     (let neg = has_prefix s ''-'';
          digits = (if neg \<or> has_prefix s ''+'' then drop 1 s else s) in
      case parse_uint digits of None \<Rightarrow> 0
      | Some n \<Rightarrow> if neg then max (- (2 ^ 63)) (- int n) else min (2 ^ 63 - 1) (int n))"

definition UserID :: "jwt_claims \<Rightarrow> int" where
  "UserID c = parse_int64_lenient (jc_subject c)"

definition NewAccessToken ::
  "crypto \<Rightarrow> gotime \<Rightarrow> string \<Rightarrow> int \<Rightarrow> string \<Rightarrow> bool \<Rightarrow> string \<Rightarrow> int \<Rightarrow> string option" where
  "NewAccessToken cr now jti uid username isAdmin scopes ttl =
     cr_sign cr \<lparr>jc_subject = format_int uid, jc_username = username, jc_is_admin = isAdmin,
       jc_role = (if isAdmin then ''admin'' else ''user''), jc_scopes = scopes, jc_id = jti,
       jc_expires_at = now + ttl\<rparr>"

section \<open>Authentication\<close>

definition authenticateAPIToken ::
  "config \<Rightarrow> gotime \<Rightarrow> string \<Rightarrow> server \<Rightarrow> ('p response + user \<times> string) \<times> server" where
  "authenticateAPIToken cfg now raw s =
     (let hash = cr_hash (cf_crypto cfg) raw in
      with_db (GetAPITokenByHash hash) (\<lambda>res s. case res of
        Inl e \<Rightarrow> (Inl (if e = ErrNotFound then writeError 401 ''invalid_token'' ''API token rejected''
                       else internalError), s)
      | Inr tok \<Rightarrow>
          if \<not> ValidScopes (at_scopes tok)
          then (Inl (writeError 401 ''invalid_token'' ''API token rejected''), s)
          else if (case at_expires_at tok of None \<Rightarrow> False | Some t \<Rightarrow> \<not> now < t)
          then (Inl (writeError 401 ''invalid_token'' ''API token expired''), s)
          else with_db (GetUserByID (at_user_id tok)) (\<lambda>res s. case res of
            Inl e \<Rightarrow> (Inl (if e = ErrNotFound then writeError 401 ''invalid_token'' ''user no longer exists''
                           else internalError), s)
          | Inr u \<Rightarrow> with_db (TouchAPIToken now hash) (\<lambda>_ s. (Inr (u, at_scopes tok), s)) s) s) s)"

text \<open>\<open>None\<close>: no bearer token was presented (\<open>attempted\<close> false).\<close>

definition bearer_token :: "request \<Rightarrow> string option" where
  "bearer_token r = (case cut_prefix (rq_authorization r) ''Bearer '' of
     None \<Rightarrow> None
   | Some raw \<Rightarrow> if trim_space raw = '''' then None else Some (trim_space raw))"

definition authenticateBearer ::
  "config \<Rightarrow> gotime \<Rightarrow> string \<Rightarrow> server \<Rightarrow> ('p response + user \<times> string option \<times> string option) \<times> server" where
  "authenticateBearer cfg now raw s =
     (if has_prefix raw ''helling_'' then
        (case authenticateAPIToken cfg now raw s of
           (Inl resp, s) \<Rightarrow> (Inl resp, s)
         | (Inr (u, scopes), s) \<Rightarrow> (Inr (u, if scopes = '''' then None else Some scopes, None), s))
      else if \<not> cf_jwt_signer cfg
      then (Inl (writeError 401 ''invalid_token'' ''bearer token rejected''), s)
      else case cr_jwt_verify (cf_crypto cfg) now raw of
        None \<Rightarrow> (Inl (writeError 401 ''invalid_token'' ''bearer token rejected''), s)
      | Some claims \<Rightarrow> with_db (GetUserByID (UserID claims)) (\<lambda>res s. case res of
          Inl e \<Rightarrow> (Inl (if e = ErrNotFound then writeError 401 ''invalid_token'' ''user no longer exists''
                         else internalError), s)
        | Inr u \<Rightarrow> (Inr (u, None, if jc_id claims = '''' then None else Some (jc_id claims)), s)) s)"

definition authMiddleware ::
  "config \<Rightarrow> gotime \<Rightarrow> request \<Rightarrow> server \<Rightarrow> ('p response + request) \<times> server" where
  "authMiddleware cfg now r s =
     (if rq_cookie r \<noteq> None \<and> rq_cookie r \<noteq> Some '''' then
        let hash = cr_hash (cf_crypto cfg) (the (rq_cookie r)) in
        with_db (GetSessionByTokenHash now hash) (\<lambda>res s. case res of
          Inl e \<Rightarrow> (Inl (if e = ErrNotFound then writeError 401 ''no_session'' ''session expired or unknown''
                         else internalError), s)
        | Inr sess \<Rightarrow> with_db (GetUserByID (se_user_id sess)) (\<lambda>res s. case res of
            Inl e \<Rightarrow>
              if e = ErrNotFound then with_db (DeleteSession hash)
                (\<lambda>_ s. (Inl (writeError 401 ''no_session'' ''user no longer exists''), s)) s
              else (Inl internalError, s)
          | Inr u \<Rightarrow> with_db (TouchSession now hash) (\<lambda>_ s. (Inr (r\<lparr>rq_user := Some u\<rparr>), s)) s) s) s
      else case bearer_token r of
        None \<Rightarrow> (Inl (writeError 401 ''no_session'' ''authentication required''), s)
      | Some raw \<Rightarrow> (case authenticateBearer cfg now raw s of
          (Inl resp, s) \<Rightarrow> (Inl resp, s)
        | (Inr (u, scopes, jti), s) \<Rightarrow>
            (Inr (r\<lparr>rq_user := Some u, rq_scopes := scopes, rq_jwt_id := jti\<rparr>), s)))"

definition adminMiddleware :: "request \<Rightarrow> server \<Rightarrow> ('p response + request) \<times> server" where
  "adminMiddleware r s = (case rq_user r of
     None \<Rightarrow> (Inl (writeError 401 ''no_session'' ''authentication required''), s)
   | Some u \<Rightarrow>
       if rq_scopes r \<noteq> None \<and> rq_scopes r \<noteq> Some ''admin'' then
         (Inl (writeError 403 ''forbidden'' ''admin API token scope required''),
          auditForUserWithPolicyReason r u ''policy.deny'' ''denied'' ''admin'' (rq_path r)
            ''rbac.insufficient_scope'' ''admin API token scope denied'' s)
       else if \<not> u_is_admin u then
         (Inl (writeError 403 ''forbidden'' ''admin role required''),
          auditForUserWithPolicyReason r u ''policy.deny'' ''denied'' ''admin'' (rq_path r)
            ''rbac.insufficient_role'' ''admin role denied'' s)
       else (Inr r, s))"

definition tokenScopeMiddleware :: "string \<Rightarrow> request \<Rightarrow> server \<Rightarrow> ('p response + request) \<times> server" where
  "tokenScopeMiddleware required r s =
     (if (case rq_scopes r of None \<Rightarrow> False | Some scopes \<Rightarrow> \<not> scopeAllows scopes required)
      then (Inl (writeError 403 ''forbidden'' (required @ '' API token scope required'')), s)
      else (Inr r, s))"

definition writeScopeMiddleware :: "request \<Rightarrow> server \<Rightarrow> ('p response + request) \<times> server" where
  "writeScopeMiddleware = tokenScopeMiddleware ''write''"

definition scheduleRunnerMiddleware :: "request \<Rightarrow> server \<Rightarrow> ('p response + request) \<times> server" where
  "scheduleRunnerMiddleware r s = (case sv_schedule_token s of
     None \<Rightarrow> (Inl (writeError 503 ''schedule_token_unavailable'' ''schedule runner token unavailable''), s)
   | Some want \<Rightarrow>
       let got = trim_space (rq_schedule_token r); token = trim_space want in
       if token = '''' \<or> got = '''' \<or> got \<noteq> token
       then (Inl (writeError 401 ''unauthorized'' ''invalid schedule runner token''), s)
       else (Inr (r\<lparr>rq_runner := True\<rparr>), s))"

text \<open>Running what follows a middleware.\<close>

definition through ::
  "(request \<Rightarrow> server \<Rightarrow> ('p response + request) \<times> server) \<Rightarrow>
   (request \<Rightarrow> server \<Rightarrow> 'p response \<times> server) \<Rightarrow> request \<Rightarrow> server \<Rightarrow> 'p response \<times> server" where
  "through mw k r s = (case mw r s of (Inl resp, s) \<Rightarrow> (resp, s) | (Inr r, s) \<Rightarrow> k r s)"

section \<open>Payloads\<close>

record auth_token_response =
  tr_access_token :: string
  tr_token_type :: string
  tr_expires_in :: int
  tr_mfa_required :: bool
  tr_mfa_token :: string

record user_response =
  ur_id :: int
  ur_username :: string
  ur_is_admin :: bool
  ur_incus_project :: string
  ur_created_at :: gotime

record token_summary =
  tk_id :: string
  tk_name :: string
  tk_scopes :: string
  tk_created_at :: gotime
  tk_expires_at :: "gotime option"
  tk_last_used_at :: "gotime option"

datatype auth_body =
    TokenBody auth_token_response
  | UserBody user_response
  | UsersBody "user_response list"
  | SetupStatusBody bool
  | TokensBody "token_summary list"
  | NewTokenBody token_summary string        \<comment> \<open>with the raw token\<close>
  | TOTPBody string "string list"            \<comment> \<open>secret, raw recovery codes\<close>
  | ScopeBody string

section \<open>Login\<close>

definition isLoginRateLimited :: "gotime \<Rightarrow> string \<Rightarrow> string \<Rightarrow> server \<Rightarrow> bool \<times> server" where
  "isLoginRateLimited now username sourceIP s =
     (case HitLimit username now (sv_user_limiter s) of (b, l) \<Rightarrow>
        let s = s\<lparr>sv_user_limiter := l\<rparr> in
        if b then (True, s)
        else case HitLimit sourceIP now (sv_ip_limiter s) of (b, l) \<Rightarrow> (b, s\<lparr>sv_ip_limiter := l\<rparr>))"

definition allowFailedLoginAttempt :: "gotime \<Rightarrow> string \<Rightarrow> string \<Rightarrow> server \<Rightarrow> bool \<times> server" where
  "allowFailedLoginAttempt now username sourceIP s =
     (case Allow username now (sv_user_limiter s) of (b, l) \<Rightarrow>
        let s = s\<lparr>sv_user_limiter := l\<rparr> in
        if \<not> b then (False, s)
        else case Allow sourceIP now (sv_ip_limiter s) of (b, l) \<Rightarrow> (b, s\<lparr>sv_ip_limiter := l\<rparr>))"

text \<open>
  \<open>issueSession\<close>: the access token with its lifetime in seconds (\<open>None\<close> on error), and the
  cookie already set on the response when the error comes after \<open>http.SetCookie\<close>.
\<close>

definition issueSession ::
  "config \<Rightarrow> gotime \<Rightarrow> string option \<Rightarrow> string \<Rightarrow> user \<Rightarrow> server \<Rightarrow>
   ((string \<times> int) option \<times> cookie option) \<times> server" where
  "issueSession cfg now token jti u s = (case token of
     None \<Rightarrow> ((None, None), s)
   | Some raw \<Rightarrow>
       with_db (CreateSession now (cr_hash (cf_crypto cfg) raw) (u_id u) (cf_session_ttl cfg)) (\<lambda>res s.
         case res of Inl _ \<Rightarrow> ((None, None), s)
         | Inr _ \<Rightarrow>
             let ck = Some \<lparr>ck_value = raw, ck_max_age = cf_session_ttl cfg div second\<rparr> in
             if \<not> cf_jwt_signer cfg then ((Some ('''', 0), ck), s)
             else
               let ttl = (if cf_access_ttl cfg \<le> 0 then 15 * minute else cf_access_ttl cfg) in
               case NewAccessToken (cf_crypto cfg) now jti (u_id u) (u_username u) (u_is_admin u) ''write'' ttl of
                 None \<Rightarrow> ((None, ck), s)
               | Some jwt \<Rightarrow> ((Some (jwt, ttl div second), ck), s)) s)"

definition wantsAuthJSON :: "request \<Rightarrow> bool" where
  "wantsAuthJSON r \<longleftrightarrow> has_prefix (rq_path r) ''/api/v1/''"

text \<open>The response after \<open>issueSession\<close> succeeded.\<close>

definition session_response :: "request \<Rightarrow> string \<times> int \<Rightarrow> cookie option \<Rightarrow> auth_body response" where
  "session_response r tok ck =
     (if wantsAuthJSON r
      then (writeJSON 200 (TokenBody \<lparr>tr_access_token = fst tok, tr_token_type = ''Bearer'',
              tr_expires_in = snd tok, tr_mfa_required = False, tr_mfa_token = ''''\<rparr>))\<lparr>rs_cookie := ck\<rparr>
      else noContent\<lparr>rs_cookie := ck\<rparr>)"

definition login_rate_limited :: "request \<Rightarrow> string \<Rightarrow> server \<Rightarrow> auth_body response \<times> server" where
  "login_rate_limited r name s =
     (writeError 429 ''rate_limited'' ''too many login attempts; try again later'',
      auditForAnonymous r ''auth.login'' ''failed'' ''user'' name ''login rate limited'' s)"

definition login_refused :: "gotime \<Rightarrow> request \<Rightarrow> string \<Rightarrow> server \<Rightarrow> auth_body response \<times> server" where
  "login_refused now r name s =
     (case allowFailedLoginAttempt now name (rq_source_ip r) s of
        (False, s) \<Rightarrow> login_rate_limited r name s
      | (True, s) \<Rightarrow>
          (writeError 401 ''invalid_credentials'' ''invalid username or password'',
           auditForAnonymous r ''auth.login'' ''failed'' ''user'' name ''invalid username or password'' s))"

definition login_complete ::
  "config \<Rightarrow> gotime \<Rightarrow> string option \<Rightarrow> string \<Rightarrow> request \<Rightarrow> string \<Rightarrow> user \<Rightarrow> server \<Rightarrow> auth_body response \<times> server" where
  "login_complete cfg now token jti r name u s =
     (let s = s\<lparr>sv_user_limiter := Reset name (sv_user_limiter s),
                sv_ip_limiter := Reset (rq_source_ip r) (sv_ip_limiter s)\<rparr> in
      case issueSession cfg now token jti u s of
        ((None, ck), s) \<Rightarrow> (internalError\<lparr>rs_cookie := ck\<rparr>, s)
      | ((Some tok, ck), s) \<Rightarrow>
          (session_response r tok ck,
           auditForUser r u ''auth.login'' ''success'' ''user'' (format_int (u_id u)) ''login succeeded'' s))"

definition login_challenge ::
  "config \<Rightarrow> gotime \<Rightarrow> string option \<Rightarrow> request \<Rightarrow> user \<Rightarrow> server \<Rightarrow> auth_body response \<times> server" where
  "login_challenge cfg now token r u s = (case token of
     None \<Rightarrow> (internalError, s)
   | Some raw \<Rightarrow>
       (writeJSON 202 (TokenBody \<lparr>tr_access_token = '''', tr_token_type = '''', tr_expires_in = 0,
          tr_mfa_required = True, tr_mfa_token = raw\<rparr>),
        auditForUser r u ''auth.mfa.challenge'' ''success'' ''user'' (format_int (u_id u)) ''MFA challenge created''
          (s\<lparr>sv_mfa := storeMFAChallenge now (cr_hash (cf_crypto cfg) raw)
               \<lparr>mc_user_id = u_id u, mc_expires_at = now + 5 * minute\<rparr> (sv_mfa s)\<rparr>)))"

definition login_password_ok ::
  "config \<Rightarrow> gotime \<Rightarrow> string option \<Rightarrow> string \<Rightarrow> request \<Rightarrow> string \<Rightarrow> user \<Rightarrow> server \<Rightarrow> auth_body response \<times> server" where
  "login_password_ok cfg now token jti r name u =
     with_db (GetTOTPSecret (u_id u)) (\<lambda>res s. case res of
       Inr ts \<Rightarrow> if ts_enabled ts then login_challenge cfg now token r u s
                 else login_complete cfg now token jti r name u s
     | Inl e \<Rightarrow> if e \<noteq> ErrNotFound then (internalError, s)
               else login_complete cfg now token jti r name u s)"

definition handleLogin ::
  "config \<Rightarrow> gotime \<Rightarrow> string option \<Rightarrow> string \<Rightarrow> request \<Rightarrow> (string \<times> string) option \<Rightarrow> server \<Rightarrow>
   auth_body response \<times> server" where
  "handleLogin cfg now token jti r body s = (case body of
     None \<Rightarrow> (writeError 400 ''bad_request'' ''invalid JSON body'', s)
   | Some (username, password) \<Rightarrow>
       let name = trim_space username in
       if name = '''' \<or> password = '''' \<or> 128 < length name
       then (writeError 400 ''bad_request'' ''username and password required'', s)
       else case isLoginRateLimited now name (rq_source_ip r) s of
         (True, s) \<Rightarrow> login_rate_limited r name s
       | (False, s) \<Rightarrow> with_db (GetUserByUsername name) (\<lambda>res s. case res of
           Inl e \<Rightarrow> if e = ErrNotFound then login_refused now r name s else (internalError, s)
         | Inr u \<Rightarrow> if \<not> cr_verify (cf_crypto cfg) (u_password_hash u) password
                   then login_refused now r name s
                   else login_password_ok cfg now token jti r name u s) s)"

definition handleLogout :: "config \<Rightarrow> request \<Rightarrow> server \<Rightarrow> auth_body response \<times> server" where
  "handleLogout cfg r s =
     (if rq_cookie r = None \<or> rq_cookie r = Some ''''
      then (writeError 401 ''no_session'' ''no session cookie'', s)
      else with_db (DeleteSession (cr_hash (cf_crypto cfg) (the (rq_cookie r)))) (\<lambda>res s. case res of
        Inl _ \<Rightarrow> (internalError, s)
      | Inr _ \<Rightarrow> (noContent\<lparr>rs_cookie := Some \<lparr>ck_value = '''', ck_max_age = -1\<rparr>\<rparr>,
                  audit r ''auth.logout'' ''success'' ''session'' '''' ''logout succeeded'' s)) s)"

definition handleMe :: "request \<Rightarrow> server \<Rightarrow> auth_body response \<times> server" where
  "handleMe r s = (case rq_user r of
     None \<Rightarrow> (writeError 401 ''no_session'' ''no session'', s)
   | Some u \<Rightarrow> (writeJSON 200 (UserBody \<lparr>ur_id = u_id u, ur_username = u_username u,
       ur_is_admin = u_is_admin u, ur_incus_project = '''', ur_created_at = u_created_at u\<rparr>), s))"

end
