(* ===== verification/Store_Ops.thy ===== *)
theory Store_Ops
  imports Store_Accounts
begin

text \<open>
  \<open>store/operations.go\<close>, \<open>schedules.go\<close>, \<open>firewall.go\<close>, \<open>incus_certs.go\<close>, \<open>kubernetes.go\<close> and
  \<open>bmc.go\<close>: the rows users own.  Conventions as in \<open>Store_Accounts\<close>; \<open>encrypt\<close> and \<open>decrypt\<close> are
  \<open>EncryptSecret\<close> and \<open>DecryptSecret\<close> (age, outside the repository), \<open>None\<close> when they fail.
\<close>

text \<open>A generated UUID, or the error of \<open>uuid.NewV7\<close>.\<close>

definition with_uuid :: "string option \<Rightarrow> (string \<Rightarrow> 'a dbm) \<Rightarrow> 'a dbm" where
  "with_uuid uuid k = (case uuid of None \<Rightarrow> dfail ErrUUID | Some i \<Rightarrow> k i)"

lemma keeps_with_uuid [keeps_intros]: "(\<And>i. keeps P (k i)) \<Longrightarrow> keeps P (with_uuid uuid k)"
  unfolding with_uuid_def by (intro keeps_intros)

lemma keeps_sum [keeps_intros]:
  "(\<And>e. keeps P (m e)) \<Longrightarrow> (\<And>x. keeps P (n x)) \<Longrightarrow> keeps P (case v of Inl e \<Rightarrow> m e | Inr x \<Rightarrow> n x)"
  by (cases v) auto

section \<open>Operations\<close>

definition op_status_wire :: "op_status \<Rightarrow> string" where
  "op_status_wire st = (case st of OpPending \<Rightarrow> ''pending'' | OpRunning \<Rightarrow> ''running''
     | OpSuccess \<Rightarrow> ''success'' | OpFailure \<Rightarrow> ''failure'' | OpCancelled \<Rightarrow> ''cancelled'')"

definition scan_operation :: "operation \<Rightarrow> operation" where
  "scan_operation r = r\<lparr>op_created_at := from_unix (op_created_at r), op_updated_at := from_unix (op_updated_at r)\<rparr>"

definition CreateOperation ::
  "gotime \<Rightarrow> string option \<Rightarrow> int \<Rightarrow> string \<Rightarrow> string \<Rightarrow> string \<Rightarrow> operation dbm" where
  "CreateOperation now uuid uid kind target incus_op = with_uuid uuid (\<lambda>i.
     let op = \<lparr>op_id = i, op_user_id = uid, op_kind = kind, op_target = target, op_incus_op_id = incus_op,
               op_status = OpPending, op_error = '''', op_created_at = now, op_updated_at = now\<rparr> in
     dbind (stmt (\<lambda>d.
       if tget op_id i (operations d) \<noteq> None then (Inl ErrUnique, d)
       else if tget u_id uid (users d) = None then (Inl ErrForeignKey, d)
       else (Inr (), d\<lparr>operations := operations d @
              [op\<lparr>op_created_at := to_unix now, op_updated_at := to_unix now\<rparr>]\<rparr>)))
     (\<lambda>_. dret op))"

definition GetOperation :: "int \<Rightarrow> string \<Rightarrow> operation dbm" where
  "GetOperation uid i =
     dbind (query (\<lambda>d. tget (\<lambda>r. (op_id r, op_user_id r)) (i, uid) (operations d))) (one_row scan_operation)"

definition clamp_limit :: "int \<Rightarrow> nat" where
  "clamp_limit limit = nat (if limit \<le> 0 then 50 else if 200 < limit then 200 else limit)"

definition ListOperations :: "int \<Rightarrow> string \<Rightarrow> int \<Rightarrow> operation list dbm" where
  "ListOperations uid status limit = query (\<lambda>d. map scan_operation (take (clamp_limit limit)
     (sort_key (\<lambda>r. - op_created_at r)
       (filter (\<lambda>r. op_user_id r = uid \<and> (status = '''' \<or> op_status_wire (op_status r) = status)) (operations d)))))"

definition op_active :: "operation \<Rightarrow> bool" where
  "op_active r \<longleftrightarrow> op_status r = OpPending \<or> op_status r = OpRunning"

definition ListActiveOperations :: "operation list dbm" where
  "ListActiveOperations =
     query (\<lambda>d. map scan_operation (sort_key op_created_at (filter op_active (operations d))))"

definition UpdateOperationStatus :: "gotime \<Rightarrow> string \<Rightarrow> op_status \<Rightarrow> string \<Rightarrow> unit dbm" where
  "UpdateOperationStatus now i status err = exec (\<lambda>d. d\<lparr>operations := tupdate (\<lambda>r. op_id r = i)
     (\<lambda>r. r\<lparr>op_status := status, op_error := err, op_updated_at := to_unix now\<rparr>) (operations d)\<rparr>)"

section \<open>Schedules\<close>

definition scan_schedule :: "schedule \<Rightarrow> schedule" where
  "scan_schedule r = r\<lparr>
     sc_unit_name := Some (default_string (case sc_unit_name r of None \<Rightarrow> '''' | Some n \<Rightarrow> n) (''helling-schedule-'' @ sc_id r)),
     sc_last_run_at := map_option from_unix (sc_last_run_at r),
     sc_next_run_at := map_option from_unix (sc_next_run_at r),
     sc_created_at := from_unix (sc_created_at r), sc_updated_at := from_unix (sc_updated_at r)\<rparr>"

definition CreateSchedule ::
  "gotime \<Rightarrow> string option \<Rightarrow> int \<Rightarrow> string \<Rightarrow> string \<Rightarrow> string \<Rightarrow> string \<Rightarrow> schedule dbm" where
  "CreateSchedule now uuid uid name kind target on_calendar = with_uuid uuid (\<lambda>i.
     let sch = \<lparr>sc_id = i, sc_user_id = uid, sc_name = name, sc_kind = kind, sc_target = target,
                sc_on_calendar = on_calendar, sc_enabled = True, sc_unit_name = Some (''helling-schedule-'' @ i),
                sc_last_status = None, sc_last_error = None, sc_last_run_at = None, sc_next_run_at = None,
                sc_created_at = now, sc_updated_at = now\<rparr> in
     dbind (stmt (\<lambda>d.
       if tget sc_id i (schedules d) \<noteq> None then (Inl ErrUnique, d)
       else if tget u_id uid (users d) = None then (Inl ErrForeignKey, d)
       else (Inr (), d\<lparr>schedules := schedules d @
              [sch\<lparr>sc_last_status := Some ''never'', sc_created_at := to_unix now, sc_updated_at := to_unix now\<rparr>]\<rparr>)))
     (\<lambda>_. dret sch))"

definition GetSchedule :: "string \<Rightarrow> schedule dbm" where
  "GetSchedule i = dbind (query (\<lambda>d. tget sc_id i (schedules d))) (one_row scan_schedule)"

definition ListSchedules :: "string \<Rightarrow> schedule list dbm" where
  "ListSchedules kind = query (\<lambda>d. map scan_schedule (sort_key (\<lambda>r. - sc_created_at r)
     (filter (\<lambda>r. kind = '''' \<or> sc_kind r = kind) (schedules d))))"

definition UpdateSchedule :: "gotime \<Rightarrow> string \<Rightarrow> string \<Rightarrow> string \<Rightarrow> bool \<Rightarrow> unit dbm" where
  "UpdateSchedule now i name on_calendar enabled = exec (\<lambda>d. d\<lparr>schedules := tupdate (\<lambda>r. sc_id r = i)
     (\<lambda>r. r\<lparr>sc_name := name, sc_on_calendar := on_calendar, sc_enabled := enabled, sc_updated_at := to_unix now\<rparr>)
     (schedules d)\<rparr>)"

definition TouchScheduleRun :: "gotime \<Rightarrow> string \<Rightarrow> gotime \<Rightarrow> unit dbm" where
  "TouchScheduleRun now i next_run = exec (\<lambda>d. d\<lparr>schedules := tupdate (\<lambda>r. sc_id r = i)
     (\<lambda>r. r\<lparr>sc_last_run_at := Some (to_unix now), sc_next_run_at := Some (to_unix next_run),
            sc_updated_at := to_unix now\<rparr>) (schedules d)\<rparr>)"

definition MarkScheduleRunStarted :: "gotime \<Rightarrow> string \<Rightarrow> unit dbm" where
  "MarkScheduleRunStarted now i = exec (\<lambda>d. d\<lparr>schedules := tupdate (\<lambda>r. sc_id r = i)
     (\<lambda>r. r\<lparr>sc_last_run_at := Some (to_unix now), sc_last_error := None, sc_updated_at := to_unix now\<rparr>)
     (schedules d)\<rparr>)"

definition DeleteSchedule :: "string \<Rightarrow> unit dbm" where
  "DeleteSchedule i = exec (\<lambda>d. d\<lparr>schedules := tdelete (\<lambda>r. sc_id r = i) (schedules d)\<rparr>)"

section \<open>Host firewall rules\<close>

record firewall_input =
  fi_direction :: string
  fi_action :: string
  fi_protocol :: string
  fi_source_cidr :: "string option"
  fi_destination_cidr :: "string option"
  fi_destination_port :: "int option"
  fi_enabled :: bool
  fi_comment :: "string option"

definition CreateFirewallRule ::
  "gotime \<Rightarrow> string option \<Rightarrow> int \<Rightarrow> firewall_input option \<Rightarrow> firewall_rule dbm" where
  "CreateFirewallRule now uuid uid inp = (case inp of
     None \<Rightarrow> dfail (ErrInvalid ''firewall rule input required'')
   | Some r \<Rightarrow> with_uuid uuid (\<lambda>i.
       let rule = \<lparr>fw_id = i, fw_user_id = uid, fw_direction = fi_direction r, fw_action = fi_action r,
                   fw_protocol = fi_protocol r, fw_source_cidr = fi_source_cidr r,
                   fw_destination_cidr = fi_destination_cidr r, fw_destination_port = fi_destination_port r,
                   fw_enabled = fi_enabled r, fw_comment = fi_comment r, fw_nft_comment = ''helling:'' @ i,
                   fw_nft_handle = None, fw_created_at = now, fw_updated_at = now\<rparr> in
       dbind (stmt (\<lambda>d.
         if tget fw_id i (firewall_rules d) \<noteq> None \<or> tget fw_nft_comment (fw_nft_comment rule) (firewall_rules d) \<noteq> None
         then (Inl ErrUnique, d)
         else if tget u_id uid (users d) = None then (Inl ErrForeignKey, d)
         else (Inr (), d\<lparr>firewall_rules := firewall_rules d @
                [rule\<lparr>fw_created_at := to_unix now, fw_updated_at := to_unix now\<rparr>]\<rparr>)))
       (\<lambda>_. dret rule)))"

definition scan_firewall_rule :: "firewall_rule \<Rightarrow> firewall_rule" where
  "scan_firewall_rule r = r\<lparr>fw_created_at := from_unix (fw_created_at r), fw_updated_at := from_unix (fw_updated_at r)\<rparr>"

definition ListFirewallRules :: "firewall_rule list dbm" where
  "ListFirewallRules =
     query (\<lambda>d. map scan_firewall_rule (sort_key (\<lambda>r. - fw_created_at r) (firewall_rules d)))"

definition GetFirewallRule :: "string \<Rightarrow> firewall_rule dbm" where
  "GetFirewallRule i = dbind (query (\<lambda>d. tget fw_id i (firewall_rules d))) (one_row scan_firewall_rule)"

definition DeleteFirewallRule :: "string \<Rightarrow> unit dbm" where
  "DeleteFirewallRule i =
     dbind (stmt (\<lambda>d. (Inr (taffected (\<lambda>r. fw_id r = i) (firewall_rules d)),
        d\<lparr>firewall_rules := tdelete (\<lambda>r. fw_id r = i) (firewall_rules d)\<rparr>)))
     (\<lambda>n. if n = 0 then dfail ErrNotFound else dret ())"

definition UpdateFirewallRuleHandle :: "gotime \<Rightarrow> string \<Rightarrow> int \<Rightarrow> unit dbm" where
  "UpdateFirewallRuleHandle now i handle = exec (\<lambda>d. d\<lparr>firewall_rules := tupdate (\<lambda>r. fw_id r = i)
     (\<lambda>r. r\<lparr>fw_nft_handle := Some handle, fw_updated_at := to_unix now\<rparr>) (firewall_rules d)\<rparr>)"

section \<open>Incus client certificates\<close>

text \<open>
  \<open>encryptIncusUserCert\<close>.  The rows of \<open>incus_certs\<close> have an empty \<open>ic_cert_pem\<close>: it is not a
  column, \<open>GetIncusUserCert\<close> fills it in.
\<close>

definition encryptIncusUserCert ::
  "(string \<Rightarrow> string option) \<Rightarrow> string \<Rightarrow> string \<Rightarrow> (string \<times> string) dbm" where
  "encryptIncusUserCert encrypt cert key = (case encrypt cert of
     None \<Rightarrow> dfail ErrCrypto
   | Some c \<Rightarrow> (case encrypt key of None \<Rightarrow> dfail ErrCrypto | Some k \<Rightarrow> dret (c, k)))"

text \<open>
  \<open>INSERT .. ON CONFLICT(user_id) DO UPDATE\<close>: the conflict clause names \<open>user_id\<close> only, so the
  fingerprint of another user's row is a constraint error; \<open>created_at\<close> is kept on conflict.
\<close>

definition upsert_cert :: "incus_cert \<Rightarrow> unit dbm" where
  "upsert_cert row = stmt (\<lambda>d.
     if \<exists>r \<in> set (incus_certs d). ic_fingerprint r = ic_fingerprint row \<and> ic_user_id r \<noteq> ic_user_id row
     then (Inl ErrUnique, d)
     else if tget u_id (ic_user_id row) (users d) = None then (Inl ErrForeignKey, d)
     else (Inr (), d\<lparr>incus_certs :=
       (if tget ic_user_id (ic_user_id row) (incus_certs d) = None then incus_certs d @ [row]
        else tupdate (\<lambda>r. ic_user_id r = ic_user_id row) (\<lambda>r. row\<lparr>ic_created_at := ic_created_at r, ic_user_id := ic_user_id r\<rparr>)
          (incus_certs d))\<rparr>))"

definition UpsertIncusUserCert ::
  "(string \<Rightarrow> string option) \<Rightarrow> gotime \<Rightarrow> int \<Rightarrow> string \<Rightarrow> string \<Rightarrow> string \<Rightarrow> string \<Rightarrow> gotime \<Rightarrow> unit dbm" where
  "UpsertIncusUserCert encrypt now uid cert key fingerprint project expires =
     dbind (encryptIncusUserCert encrypt cert key) (\<lambda>(c, k).
     upsert_cert \<lparr>ic_user_id = uid, ic_cert_pem = '''', ic_encrypted_cert_pem = c, ic_encrypted_key_pem = k,
       ic_fingerprint = fingerprint, ic_restricted = True, ic_project_scope = project,
       ic_expires_at = Some (to_unix expires), ic_revoked_at = None,
       ic_created_at = to_unix now, ic_updated_at = to_unix now\<rparr>)"

definition set_project_stmt :: "int \<Rightarrow> string \<Rightarrow> unit dbm" where
  "set_project_stmt uid project = exec (\<lambda>d. d\<lparr>users :=
     tupdate (\<lambda>u. u_id u = uid) (\<lambda>u. u\<lparr>u_incus_project := project\<rparr>) (users d)\<rparr>)"

definition UpsertIncusUserCertAndProject ::
  "(string \<Rightarrow> string option) \<Rightarrow> gotime \<Rightarrow> int \<Rightarrow> string \<Rightarrow> string \<Rightarrow> string \<Rightarrow> string \<Rightarrow> gotime \<Rightarrow> unit dbm" where
  "UpsertIncusUserCertAndProject encrypt now uid cert key fingerprint project expires =
     dbind (encryptIncusUserCert encrypt cert key) (\<lambda>(c, k).
     transaction (dbind (set_project_stmt uid project) (\<lambda>_.
       upsert_cert \<lparr>ic_user_id = uid, ic_cert_pem = '''', ic_encrypted_cert_pem = c, ic_encrypted_key_pem = k,
         ic_fingerprint = fingerprint, ic_restricted = True, ic_project_scope = project,
         ic_expires_at = Some (to_unix expires), ic_revoked_at = None,
         ic_created_at = to_unix now, ic_updated_at = to_unix now\<rparr>)))"

definition RestoreIncusUserCertAndProject :: "gotime \<Rightarrow> incus_cert option \<Rightarrow> unit dbm" where
  "RestoreIncusUserCertAndProject now row = (case row of
     None \<Rightarrow> dfail (ErrInvalid ''invalid Incus user certificate restore row'')
   | Some r \<Rightarrow>
       if ic_user_id r = 0 \<or> ic_encrypted_cert_pem r = '''' \<or> ic_encrypted_key_pem r = ''''
         \<or> ic_fingerprint r = '''' \<or> ic_project_scope r = ''''
       then dfail (ErrInvalid ''invalid Incus user certificate restore row'')
       else transaction (dbind (set_project_stmt (ic_user_id r) (ic_project_scope r)) (\<lambda>_.
         upsert_cert (r\<lparr>ic_cert_pem := '''',
           ic_expires_at := map_option to_unix (ic_expires_at r),
           ic_revoked_at := map_option to_unix (ic_revoked_at r),
           ic_created_at := (if to_unix (ic_created_at r) \<le> 0 then to_unix now else to_unix (ic_created_at r)),
           ic_updated_at := to_unix now\<rparr>))))"

definition scan_cert :: "incus_cert \<Rightarrow> incus_cert" where
  "scan_cert r = r\<lparr>ic_expires_at := map_option from_unix (ic_expires_at r),
     ic_revoked_at := map_option from_unix (ic_revoked_at r),
     ic_created_at := from_unix (ic_created_at r), ic_updated_at := from_unix (ic_updated_at r)\<rparr>"

definition GetIncusUserCert :: "(string \<Rightarrow> string option) \<Rightarrow> int \<Rightarrow> incus_cert dbm" where
  "GetIncusUserCert decrypt uid =
     dbind (dbind (query (\<lambda>d. tget ic_user_id uid (incus_certs d))) (one_row scan_cert)) (\<lambda>r.
     case decrypt (ic_encrypted_cert_pem r) of
       None \<Rightarrow> dfail ErrCrypto
     | Some pem \<Rightarrow> dret (r\<lparr>ic_cert_pem := pem\<rparr>))"

definition RevokeIncusUserCert :: "gotime \<Rightarrow> int \<Rightarrow> unit dbm" where
  "RevokeIncusUserCert now uid = exec (\<lambda>d. d\<lparr>incus_certs :=
     tupdate (\<lambda>r. ic_user_id r = uid \<and> ic_revoked_at r = None)
       (\<lambda>r. r\<lparr>ic_revoked_at := Some (to_unix now), ic_updated_at := to_unix now\<rparr>) (incus_certs d)\<rparr>)"

section \<open>Kubernetes clusters and BMC endpoints\<close>

definition scan_k8s :: "k8s_cluster \<Rightarrow> k8s_cluster" where
  "scan_k8s r = r\<lparr>k8_created_at := from_unix (k8_created_at r), k8_updated_at := from_unix (k8_updated_at r)\<rparr>"

definition CreateK8sCluster ::
  "gotime \<Rightarrow> string option \<Rightarrow> int \<Rightarrow> string \<Rightarrow> string \<Rightarrow> int \<Rightarrow> int \<Rightarrow> k8s_cluster dbm" where
  "CreateK8sCluster now uuid uid name version controls workers = with_uuid uuid (\<lambda>i.
     let c = \<lparr>k8_id = i, k8_user_id = uid, k8_name = name, k8_version = version, k8_control_planes = controls,
              k8_workers = workers, k8_status = ''provisioning'', k8_kubeconfig = None,
              k8_created_at = now, k8_updated_at = now\<rparr> in
     dbind (stmt (\<lambda>d.
       if tget k8_id i (k8s_clusters d) \<noteq> None \<or> tget k8_name name (k8s_clusters d) \<noteq> None then (Inl ErrUnique, d)
       else if tget u_id uid (users d) = None then (Inl ErrForeignKey, d)
       else (Inr (), d\<lparr>k8s_clusters := k8s_clusters d @
              [c\<lparr>k8_created_at := to_unix now, k8_updated_at := to_unix now\<rparr>]\<rparr>)))
     (\<lambda>_. dret c))"

definition GetK8sCluster :: "string \<Rightarrow> k8s_cluster dbm" where
  "GetK8sCluster name = dbind (query (\<lambda>d. tget k8_name name (k8s_clusters d))) (one_row scan_k8s)"

definition ListK8sClusters :: "k8s_cluster list dbm" where
  "ListK8sClusters = query (\<lambda>d. map scan_k8s (sort_key (\<lambda>r. - k8_created_at r) (k8s_clusters d)))"

definition UpdateK8sClusterStatus :: "gotime \<Rightarrow> string \<Rightarrow> string \<Rightarrow> string option \<Rightarrow> unit dbm" where
  "UpdateK8sClusterStatus now name status kubeconfig = exec (\<lambda>d. d\<lparr>k8s_clusters := tupdate (\<lambda>r. k8_name r = name)
     (\<lambda>r. r\<lparr>k8_status := status, k8_kubeconfig := kubeconfig, k8_updated_at := to_unix now\<rparr>) (k8s_clusters d)\<rparr>)"

definition UpdateK8sClusterScale :: "gotime \<Rightarrow> string \<Rightarrow> int \<Rightarrow> unit dbm" where
  "UpdateK8sClusterScale now name workers = exec (\<lambda>d. d\<lparr>k8s_clusters := tupdate (\<lambda>r. k8_name r = name)
     (\<lambda>r. r\<lparr>k8_workers := workers, k8_updated_at := to_unix now\<rparr>) (k8s_clusters d)\<rparr>)"

definition DeleteK8sCluster :: "string \<Rightarrow> unit dbm" where
  "DeleteK8sCluster name = exec (\<lambda>d. d\<lparr>k8s_clusters := tdelete (\<lambda>r. k8_name r = name) (k8s_clusters d)\<rparr>)"

definition scan_bmc :: "bmc_endpoint \<Rightarrow> bmc_endpoint" where
  "scan_bmc r = r\<lparr>bm_created_at := from_unix (bm_created_at r), bm_updated_at := from_unix (bm_updated_at r)\<rparr>"

definition CreateBMCEndpoint ::
  "gotime \<Rightarrow> string option \<Rightarrow> int \<Rightarrow> string \<Rightarrow> string \<Rightarrow> int \<Rightarrow> string \<Rightarrow> string \<Rightarrow> string \<Rightarrow> bmc_endpoint dbm" where
  "CreateBMCEndpoint now uuid uid name address port username password protocol = with_uuid uuid (\<lambda>i.
     let b = \<lparr>bm_id = i, bm_user_id = uid, bm_name = name, bm_address = address, bm_port = port,
              bm_username = username, bm_password = password, bm_protocol = protocol,
              bm_created_at = now, bm_updated_at = now\<rparr> in
     dbind (stmt (\<lambda>d.
       if tget bm_id i (bmc_endpoints d) \<noteq> None then (Inl ErrUnique, d)
       else if tget u_id uid (users d) = None then (Inl ErrForeignKey, d)
       else (Inr (), d\<lparr>bmc_endpoints := bmc_endpoints d @
              [b\<lparr>bm_created_at := to_unix now, bm_updated_at := to_unix now\<rparr>]\<rparr>)))
     (\<lambda>_. dret b))"

definition GetBMCEndpoint :: "string \<Rightarrow> bmc_endpoint dbm" where
  "GetBMCEndpoint i = dbind (query (\<lambda>d. tget bm_id i (bmc_endpoints d))) (one_row scan_bmc)"

definition ListBMCEndpoints :: "bmc_endpoint list dbm" where
  "ListBMCEndpoints = query (\<lambda>d. map scan_bmc (sort_key (\<lambda>r. - bm_created_at r) (bmc_endpoints d)))"

definition DeleteBMCEndpoint :: "string \<Rightarrow> unit dbm" where
  "DeleteBMCEndpoint i = exec (\<lambda>d. d\<lparr>bmc_endpoints := tdelete (\<lambda>r. bm_id r = i) (bmc_endpoints d)\<rparr>)"

section \<open>Every operation keeps the constraints\<close>

lemmas ops_defs = CreateOperation_def GetOperation_def ListOperations_def ListActiveOperations_def
  UpdateOperationStatus_def CreateSchedule_def GetSchedule_def ListSchedules_def UpdateSchedule_def
  TouchScheduleRun_def MarkScheduleRunStarted_def DeleteSchedule_def

lemmas infra_defs = ListFirewallRules_def GetFirewallRule_def DeleteFirewallRule_def UpdateFirewallRuleHandle_def
  CreateK8sCluster_def GetK8sCluster_def ListK8sClusters_def UpdateK8sClusterStatus_def UpdateK8sClusterScale_def
  DeleteK8sCluster_def CreateBMCEndpoint_def GetBMCEndpoint_def ListBMCEndpoints_def DeleteBMCEndpoint_def

lemma wf_operations [keeps_intros]:
  "keeps db_wf (CreateOperation now uuid uid kind target incus_op)" "keeps db_wf (GetOperation uid i)"
  "keeps db_wf (ListOperations uid status limit)" "keeps db_wf ListActiveOperations"
  "keeps db_wf (UpdateOperationStatus now i st err)"
  unfolding ops_defs Let_def by (intro keeps_intros; simp add: wf_defs table_simps)+

lemma wf_schedules [keeps_intros]:
  "keeps db_wf (CreateSchedule now uuid uid name kind target cal)" "keeps db_wf (GetSchedule i)"
  "keeps db_wf (ListSchedules kind)" "keeps db_wf (UpdateSchedule now i name cal en)"
  "keeps db_wf (TouchScheduleRun now i nxt)" "keeps db_wf (MarkScheduleRunStarted now i)"
  "keeps db_wf (DeleteSchedule i)"
  unfolding ops_defs Let_def by (intro keeps_intros; simp add: wf_defs table_simps)+

lemma wf_CreateFirewallRule [keeps_intros]: "keeps db_wf (CreateFirewallRule now uuid uid inp)"
  unfolding CreateFirewallRule_def Let_def by (intro keeps_intros) (simp add: wf_defs table_simps)

lemma wf_infra [keeps_intros]:
  "keeps db_wf ListFirewallRules" "keeps db_wf (GetFirewallRule i)" "keeps db_wf (DeleteFirewallRule i)"
  "keeps db_wf (UpdateFirewallRuleHandle now i h)"
  "keeps db_wf (CreateK8sCluster now uuid uid name ver cp wk)" "keeps db_wf (GetK8sCluster name)"
  "keeps db_wf ListK8sClusters" "keeps db_wf (UpdateK8sClusterStatus now name st kc)"
  "keeps db_wf (UpdateK8sClusterScale now name wk)" "keeps db_wf (DeleteK8sCluster name)"
  "keeps db_wf (CreateBMCEndpoint now uuid uid name addr port un pw proto)" "keeps db_wf (GetBMCEndpoint i)"
  "keeps db_wf ListBMCEndpoints" "keeps db_wf (DeleteBMCEndpoint i)"
  unfolding infra_defs Let_def by (intro keeps_intros; simp add: wf_defs table_simps)+

lemma tunique_tupdate_one:
  assumes "tunique key rows" "tunique f rows" "\<And>r. f (g r) = v" "\<forall>r \<in> set rows. f r = v \<longrightarrow> key r = k"
  shows "tunique f (tupdate (\<lambda>r. key r = k) g rows)"
  using assms(1,2,4)
proof (induction rows)
  case (Cons r rows)
  then have IH: "tunique f (tupdate (\<lambda>r. key r = k) g rows)" and keys: "\<forall>x \<in> set rows. key x \<noteq> key r"
    and fs: "\<forall>x \<in> set rows. f x \<noteq> f r"
    by (auto simp: tunique_def image_iff)
  show ?case
  proof (cases "key r = k")
    case True
    then have "tupdate (\<lambda>r. key r = k) g rows = rows" using keys by (auto simp: tupdate_def intro!: map_idI)
    moreover have "\<forall>x \<in> set rows. f x \<noteq> v" using Cons.prems(3) keys True by auto
    ultimately show ?thesis using Cons.prems(2) True assms(3) by (auto simp: tupdate_def tunique_def image_iff)
  next
    case False
    then have "f r \<noteq> v" using Cons.prems(3) by auto
    then show ?thesis using IH fs False assms(3)
      by (auto simp: tupdate_def tunique_def image_iff)
  qed
qed (simp add: tupdate_def)

lemma wf_upsert_cert [keeps_intros]: "keeps db_wf (upsert_cert row)"
proof -
  have upd: "db_wf (d\<lparr>incus_certs := tupdate (\<lambda>r. ic_user_id r = ic_user_id row)
        (\<lambda>r. row\<lparr>ic_created_at := ic_created_at r, ic_user_id := ic_user_id r\<rparr>) (incus_certs d)\<rparr>)"
    if "db_wf d" "\<forall>r \<in> set (incus_certs d). ic_fingerprint r = ic_fingerprint row \<longrightarrow> ic_user_id r = ic_user_id row" for d
  proof -
    have "tunique ic_fingerprint (tupdate (\<lambda>r. ic_user_id r = ic_user_id row)
        (\<lambda>r. row\<lparr>ic_created_at := ic_created_at r, ic_user_id := ic_user_id r\<rparr>) (incus_certs d))"
      by (rule tunique_tupdate_one [where v = "ic_fingerprint row"]) (use that in \<open>simp_all add: wf_defs\<close>)
    then show ?thesis using that(1) by (simp add: wf_defs)
  qed
  have new: "db_wf (d\<lparr>incus_certs := incus_certs d @ [row]\<rparr>)"
    if "db_wf d" "\<forall>r \<in> set (incus_certs d). ic_fingerprint r = ic_fingerprint row \<longrightarrow> ic_user_id r = ic_user_id row"
      "tget ic_user_id (ic_user_id row) (incus_certs d) = None" "tget u_id (ic_user_id row) (users d) \<noteq> None" for d
  proof -
    have "tget ic_fingerprint (ic_fingerprint row) (incus_certs d) = None"
      using that(2,3) by (auto simp: tget_None)
    then show ?thesis using that by (simp add: wf_defs table_simps)
  qed
  show ?thesis unfolding upsert_cert_def by (intro keeps_intros) (auto intro: upd new)
qed

lemma wf_certs [keeps_intros]:
  "keeps db_wf (UpsertIncusUserCert enc now uid cert key fp project exp)"
  "keeps db_wf (UpsertIncusUserCertAndProject enc now uid cert key fp project exp)"
  "keeps db_wf (RestoreIncusUserCertAndProject now row)" "keeps db_wf (GetIncusUserCert dec uid)"
  "keeps db_wf (RevokeIncusUserCert now uid)"
proof -
  have proj: "keeps db_wf (set_project_stmt i p)" for i p
    unfolding set_project_stmt_def by (intro keeps_intros) (simp add: wf_defs)
  have e: "keeps db_wf (encryptIncusUserCert enc cert key)"
    unfolding encryptIncusUserCert_def by (intro keeps_intros)
  show "keeps db_wf (UpsertIncusUserCert enc now uid cert key fp project exp)"
    unfolding UpsertIncusUserCert_def by (auto intro!: keeps_intros e split: prod.splits)
  show "keeps db_wf (UpsertIncusUserCertAndProject enc now uid cert key fp project exp)"
    unfolding UpsertIncusUserCertAndProject_def by (auto intro!: keeps_intros e proj split: prod.splits)
  show "keeps db_wf (RestoreIncusUserCertAndProject now row)"
    unfolding RestoreIncusUserCertAndProject_def by (auto intro!: keeps_intros proj split: option.splits)
  show "keeps db_wf (GetIncusUserCert dec uid)"
    unfolding GetIncusUserCert_def by (intro keeps_intros)
  show "keeps db_wf (RevokeIncusUserCert now uid)"
    unfolding RevokeIncusUserCert_def by (intro keeps_intros) (simp add: wf_defs)
qed

section \<open>Certificates and projects change together\<close>

lemma tget_tupdate_key:
  "(\<And>r. key (g r) = key r) \<Longrightarrow> tget key k' (tupdate (\<lambda>r. key r = k) g rows)
     = (if k' = k then map_option g (tget key k rows) else tget key k' rows)"
  by (induction rows) (auto simp: tupdate_def)

lemma upsert_cert_Inr:
  assumes "upsert_cert row d = (Inr u, d')"
  shows "tget u_id (ic_user_id row) (users d) \<noteq> None \<and> users d' = users d \<and>
    (\<exists>created. tget ic_user_id (ic_user_id row) (incus_certs d') = Some (row\<lparr>ic_created_at := created\<rparr>)) \<and>
    (\<forall>i. i \<noteq> ic_user_id row \<longrightarrow> tget ic_user_id i (incus_certs d') = tget ic_user_id i (incus_certs d))"
proof -
  let ?f = "\<lambda>d. if \<exists>r \<in> set (incus_certs d). ic_fingerprint r = ic_fingerprint row \<and> ic_user_id r \<noteq> ic_user_id row
     then (Inl ErrUnique, d)
     else if tget u_id (ic_user_id row) (users d) = None then (Inl ErrForeignKey, d)
     else (Inr (), d\<lparr>incus_certs :=
       (if tget ic_user_id (ic_user_id row) (incus_certs d) = None then incus_certs d @ [row]
        else tupdate (\<lambda>r. ic_user_id r = ic_user_id row) (\<lambda>r. row\<lparr>ic_created_at := ic_created_at r, ic_user_id := ic_user_id r\<rparr>)
          (incus_certs d))\<rparr>)"
  let ?g = "\<lambda>r. row\<lparr>ic_created_at := ic_created_at r, ic_user_id := ic_user_id r\<rparr>"
  have g: "ic_user_id (?g r) = ic_user_id r" for r by simp
  have same: "?g r = row\<lparr>ic_created_at := ic_created_at r\<rparr>" if "ic_user_id r = ic_user_id row" for r
    using that by simp
  consider (run) fs where "stmt ?f d = ?f (d\<lparr>faults := fs\<rparr>)"
    | (fault) fs where "stmt ?f d = (Inl ErrIO, d\<lparr>faults := fs\<rparr>)" by (rule stmt_cases)
  then show ?thesis
  proof cases
    case run
    then have "?f (d\<lparr>faults := fs\<rparr>) = (Inr u, d')" using assms by (simp add: upsert_cert_def)
    then have known: "tget u_id (ic_user_id row) (users d) \<noteq> None" "users d' = users d"
      and certs: "incus_certs d' = (if tget ic_user_id (ic_user_id row) (incus_certs d) = None then incus_certs d @ [row]
        else tupdate (\<lambda>r. ic_user_id r = ic_user_id row) ?g (incus_certs d))"
      by (auto split: if_splits)
    show ?thesis
    proof (cases "tget ic_user_id (ic_user_id row) (incus_certs d)")
      case None
      moreover have "\<exists>created. row = row\<lparr>ic_created_at := created\<rparr>"
        by (rule exI [of _ "ic_created_at row"]) simp
      ultimately show ?thesis using known None certs by (auto simp: tget_append split: option.splits)
    next
      case (Some r)
      then have "tget ic_user_id (ic_user_id row) (incus_certs d') = Some (row\<lparr>ic_created_at := ic_created_at r\<rparr>)"
        using certs same by (auto simp: tget_tupdate_key)
      then show ?thesis using known Some certs by (auto simp: tget_tupdate_key)
    qed
  next
    case fault
    then show ?thesis using assms by (simp add: upsert_cert_def)
  qed
qed

lemma set_project_Inr:
  assumes "set_project_stmt uid project d = (Inr u, d')"
  shows "incus_certs d' = incus_certs d \<and>
    tget u_id uid (users d') = map_option (\<lambda>u. u\<lparr>u_incus_project := project\<rparr>) (tget u_id uid (users d))"
  using exec_Inr [OF assms [unfolded set_project_stmt_def]] by (auto simp: tget_tupdate_key)

lemma encryptIncusUserCert_Inr:
  "encryptIncusUserCert encrypt cert key d = (Inr ck, d') \<longleftrightarrow>
   d' = d \<and> encrypt cert = Some (fst ck) \<and> encrypt key = Some (snd ck)"
  by (cases ck) (auto simp: encryptIncusUserCert_def dfail_def dret_def split: option.splits)

text \<open>assigning a user a certificate and an Incus project is atomic.  On success the user's row has
  the project and the user's only certificate row decrypts to the key pair given, restricted to that
  project and not revoked, no other user's certificate being touched; on any error the data are as
  before.\<close>

theorem certificate_and_project_together:
  assumes "UpsertIncusUserCertAndProject encrypt now uid cert key fingerprint project expires d = (res, d')"
    and "\<And>x y. encrypt x = Some y \<Longrightarrow> decrypt y = Some x"
  shows "case res of Inl _ \<Rightarrow> content d' = content d | Inr _ \<Rightarrow>
    (\<exists>row u. tget ic_user_id uid (incus_certs d') = Some row \<and> tget u_id uid (users d') = Some u \<and>
      u_incus_project u = project \<and> ic_project_scope row = project \<and> ic_restricted row \<and> ic_revoked_at row = None \<and>
      decrypt (ic_encrypted_cert_pem row) = Some cert \<and> decrypt (ic_encrypted_key_pem row) = Some key) \<and>
    (\<forall>i. i \<noteq> uid \<longrightarrow> tget ic_user_id i (incus_certs d') = tget ic_user_id i (incus_certs d))"
proof (cases res)
  case (Inl e)
  have "content d' = content d"
    using assms(1) Inl
    by (auto simp: UpsertIncusUserCertAndProject_def dbind_Inl encryptIncusUserCert_def dfail_def dret_def
        dest: transaction_atomic split: option.splits)
  then show ?thesis using Inl by simp
next
  case (Inr v)
  let ?row = "\<lambda>c k. \<lparr>ic_user_id = uid, ic_cert_pem = '''', ic_encrypted_cert_pem = c, ic_encrypted_key_pem = k,
         ic_fingerprint = fingerprint, ic_restricted = True, ic_project_scope = project,
         ic_expires_at = Some (to_unix expires), ic_revoked_at = None,
         ic_created_at = to_unix now, ic_updated_at = to_unix now\<rparr>"
  from assms(1) Inr obtain c k where enc: "encrypt cert = Some c" "encrypt key = Some k"
    and tr: "transaction (dbind (set_project_stmt uid project) (\<lambda>_. upsert_cert (?row c k))) d = (Inr v, d')"
    by (auto simp: UpsertIncusUserCertAndProject_def dbind_Inr encryptIncusUserCert_Inr)
  from transaction_Inr [OF tr] obtain fs fs' d2 where
    body: "dbind (set_project_stmt uid project) (\<lambda>_. upsert_cert (?row c k)) (d\<lparr>faults := fs\<rparr>) = (Inr v, d2)"
    and d': "d' = d2\<lparr>faults := fs'\<rparr>" by blast
  then obtain w d1 where sp: "set_project_stmt uid project (d\<lparr>faults := fs\<rparr>) = (Inr w, d1)"
    and up: "upsert_cert (?row c k) d1 = (Inr v, d2)" by (auto simp: dbind_Inr)
  obtain u where "tget u_id uid (users d2) = Some (u\<lparr>u_incus_project := project\<rparr>)"
    using set_project_Inr [OF sp] upsert_cert_Inr [OF up] by auto
  then show ?thesis
    using Inr d' set_project_Inr [OF sp] upsert_cert_Inr [OF up] assms(2) [OF enc(1)] assms(2) [OF enc(2)]
    by auto
qed

definition demo_users :: db where
  "demo_users = empty_db\<lparr>users := [\<lparr>u_id = 2, u_username = ''alice'', u_password_hash = '''', u_is_admin = False,
       u_incus_project = ''default'', u_created_at = 0\<rparr>], user_seq := 2\<rparr>"

definition demo_assign :: "unit res \<times> db" where
  "demo_assign = UpsertIncusUserCertAndProject (\<lambda>x. Some (''age:'' @ x)) 5 2 ''CERT'' ''KEY'' ''fp'' ''web'' 9 demo_users"

theorem certificate_and_project_together_witness:
  "fst demo_assign = Inr () \<and> (\<exists>u. tget u_id 2 (users (snd demo_assign)) = Some u \<and> u_incus_project u = ''web'')"
proof -
  have ok: "fst demo_assign = Inr ()" by code_simp
  have "UpsertIncusUserCertAndProject (\<lambda>x. Some (''age:'' @ x)) 5 2 ''CERT'' ''KEY'' ''fp'' ''web'' 9 demo_users
      = (Inr (), snd demo_assign)"
    using ok by (simp add: demo_assign_def prod_eq_iff)
  from certificate_and_project_together [OF this, of "\<lambda>y. Some (drop 4 y)"]
  show ?thesis using ok by auto
qed

section \<open>Operations are seen by their owner\<close>

text \<open>listing a user's operations returns only that user's, with the status asked for, newest first
  and never more than 200; when the page is not full it is all of them.\<close>

theorem list_operations_own:
  assumes "ListOperations uid status limit d = (Inr ops, d')"
  shows "set ops \<subseteq> scan_operation ` {r \<in> set (operations d). op_user_id r = uid \<and>
        (status = '''' \<or> op_status_wire (op_status r) = status)} \<and>
    sorted_wrt (\<lambda>a b. op_created_at b \<le> op_created_at a) ops \<and> length ops \<le> 200 \<and>
    (length ops < clamp_limit limit \<longrightarrow> scan_operation ` {r \<in> set (operations d). op_user_id r = uid \<and>
        (status = '''' \<or> op_status_wire (op_status r) = status)} \<subseteq> set ops)"
proof -
  let ?P = "\<lambda>r. op_user_id r = uid \<and> (status = '''' \<or> op_status_wire (op_status r) = status)"
  let ?s = "sort_key (\<lambda>r. - op_created_at r) (filter ?P (operations d))"
  from query_Inr [OF assms [unfolded ListOperations_def]]
  have ops: "ops = map scan_operation (take (clamp_limit limit) ?s)" by auto
  have sub: "set (take (clamp_limit limit) ?s) \<subseteq> {r \<in> set (operations d). ?P r}"
    by (auto dest: in_set_takeD)
  have "sorted (map (\<lambda>r. - op_created_at r) (take (clamp_limit limit) ?s))"
    unfolding take_map [symmetric] by (rule sorted_wrt_take) (rule sorted_sort_key)
  then have srt: "sorted_wrt (\<lambda>a b. op_created_at b \<le> op_created_at a) ops"
    unfolding ops sorted_wrt_map by (simp add: scan_operation_def)
  have full: "take (clamp_limit limit) ?s = ?s" if "length ops < clamp_limit limit"
    using that by (simp add: ops)
  have "clamp_limit limit \<le> 200" by (auto simp: clamp_limit_def)
  then show ?thesis using sub srt full by (auto simp: ops)
qed

definition demo_ops :: db where
  "demo_ops = demo_users\<lparr>operations := [
     \<lparr>op_id = ''a'', op_user_id = 2, op_kind = ''k'', op_target = ''t'', op_incus_op_id = '''', op_status = OpPending,
       op_error = '''', op_created_at = 1, op_updated_at = 1\<rparr>,
     \<lparr>op_id = ''b'', op_user_id = 2, op_kind = ''k'', op_target = ''t'', op_incus_op_id = ''x'', op_status = OpRunning,
       op_error = '''', op_created_at = 2, op_updated_at = 2\<rparr>,
     \<lparr>op_id = ''c'', op_user_id = 2, op_kind = ''k'', op_target = ''t'', op_incus_op_id = ''y'', op_status = OpCancelled,
       op_error = '''', op_created_at = 3, op_updated_at = 3\<rparr>]\<rparr>"

lemma demo_ops_wf: "db_wf demo_ops"
  by (simp add: wf_defs demo_ops_def demo_users_def empty_db_def tunique_def tbelow_def trefs_def trefs_opt_def)

theorem list_operations_own_witness:
  "\<exists>ops d'. ListOperations 2 '''' 0 demo_ops = (Inr ops, d') \<and> map op_id ops = [''c'', ''b'', ''a''] \<and>
     sorted_wrt (\<lambda>a b. op_created_at b \<le> op_created_at a) ops"
proof -
  let ?l = "ListOperations 2 '''' 0 demo_ops"
  have ids: "map op_id (projr (fst ?l)) = [''c'', ''b'', ''a'']" by code_simp
  then have "fst ?l = Inr (projr (fst ?l))"
    by (simp add: ListOperations_def query_def stmt_def demo_ops_def demo_users_def empty_db_def)
  then have run: "?l = (Inr (projr (fst ?l)), snd ?l)" by (metis prod.collapse)
  from list_operations_own [OF run]
  have "sorted_wrt (\<lambda>a b. op_created_at b \<le> op_created_at a) (projr (fst ?l))" by (elim conjE)
  then show ?thesis using run ids by (intro exI conjI) assumption+
qed

end
