(* ===== verification/Incus_Trust.thy ===== *)
theory Incus_Trust
  imports Go_Text Store_Ops
begin

text \<open>
  \<open>incus/user_trust.go\<close>: each user acts on Incus through a client certificate restricted to one
  project.  \<open>UserTrustService\<close> registers and removes certificates through a privileged helper and
  keeps the user's row in the database in step, undoing the other half when one fails.

  The state is the database and the set of certificates Incus trusts.  How the writing of a request file and a
  run of the helper end is the environment's choice, one outcome per attempt: done, failed with nothing changed, or
  failed after the change was made, as when the request's context ends and the helper is killed while Incus answers.
  Issuing a certificate (\<open>certificates.go\<close>, X.509) is a parameter.
\<close>

text \<open>
  The trust manager of \<open>Config.IncusTrust\<close>: \<open>None\<close> when it is nil.\<close>

record trust_manager =
  tm_provision :: "user \<Rightarrow> unit dbm"
  tm_revoke :: "user \<Rightarrow> unit dbm"

definition provisionIncusTrust :: "trust_manager option \<Rightarrow> user \<Rightarrow> unit dbm" where
  "provisionIncusTrust tm u = (case tm of None \<Rightarrow> dret () | Some m \<Rightarrow> tm_provision m u)"

definition revokeIncusTrust :: "trust_manager option \<Rightarrow> user \<Rightarrow> unit dbm" where
  "revokeIncusTrust tm u = (case tm of None \<Rightarrow> dret () | Some m \<Rightarrow> tm_revoke m u)"

section \<open>Names of Incus projects\<close>

definition is_alnum :: "char \<Rightarrow> bool" where
  "is_alnum c \<longleftrightarrow> (let b = byte c in 48 \<le> b \<and> b \<le> 57 \<or> 65 \<le> b \<and> b \<le> 90 \<or> 97 \<le> b \<and> b \<le> 122)"

text \<open>The regular expression \<open>^[A-Za-z0-9][A-Za-z0-9_.-]{0,62}$\<close>.\<close>

definition ValidTrustProjectName :: "string \<Rightarrow> bool" where
  "ValidTrustProjectName p \<longleftrightarrow> p \<noteq> '''' \<and> length p \<le> 63 \<and> is_alnum (hd p)
     \<and> list_all (\<lambda>c. is_alnum c \<or> c \<in> set ''_.-'') (tl p)"

section \<open>The service\<close>

record trust_material =
  mt_cert :: string
  mt_key :: string
  mt_fingerprint :: string
  mt_expires :: gotime

record trust_service =
  us_issue :: "int \<Rightarrow> string \<Rightarrow> trust_material option"   \<comment> \<open>for a user id and name; with the staged file\<close>
  us_encrypt :: "string \<Rightarrow> string option"
  us_decrypt :: "string \<Rightarrow> string option"

datatype helper_run = Done | Failed | FailedLate

record trust_env =
  te_db :: db
  te_trust :: "string \<rightharpoonup> string"      \<comment> \<open>fingerprints Incus trusts, with the project of each\<close>
  te_helper :: "helper_run list"

definition on_db :: "'a dbm \<Rightarrow> trust_env \<Rightarrow> 'a res \<times> trust_env" where
  "on_db m e = (case m (te_db e) of (r, d) \<Rightarrow> (r, e\<lparr>te_db := d\<rparr>))"

definition attempt :: "trust_env \<Rightarrow> helper_run \<times> trust_env" where
  "attempt e = (case te_helper e of [] \<Rightarrow> (Done, e) | x # xs \<Rightarrow> (x, e\<lparr>te_helper := xs\<rparr>))"

definition validateTrustFingerprint :: "string \<Rightarrow> bool" where
  "validateTrustFingerprint fp \<longleftrightarrow> length fp = 64 \<and>
     list_all (\<lambda>c. let b = byte c in 48 \<le> b \<and> b \<le> 57 \<or> 97 \<le> b \<and> b \<le> 102) fp"

definition writeTrustRequest :: "int \<Rightarrow> string \<Rightarrow> string \<Rightarrow> trust_env \<Rightarrow> bool \<times> trust_env" where
  "writeTrustRequest uid fp project e =
     (if uid \<le> 0 \<or> \<not> validateTrustFingerprint fp \<or> \<not> ValidTrustProjectName project then (False, e)
      else case attempt e of (x, e) \<Rightarrow> (x = Done, e))"

text \<open>A run of the helper that changes which fingerprints Incus trusts.\<close>

definition run_helper :: "((string \<rightharpoonup> string) \<Rightarrow> (string \<rightharpoonup> string)) \<Rightarrow> trust_env \<Rightarrow> bool \<times> trust_env" where
  "run_helper f e = (case attempt e of
     (x, e) \<Rightarrow> (x = Done, if x = Failed then e else e\<lparr>te_trust := f (te_trust e)\<rparr>))"

definition helper_register :: "string \<Rightarrow> string \<Rightarrow> trust_env \<Rightarrow> bool \<times> trust_env" where
  "helper_register fp project = run_helper (\<lambda>t. t(fp \<mapsto> project))"

definition revokeFingerprint :: "int \<Rightarrow> string \<Rightarrow> string \<Rightarrow> trust_env \<Rightarrow> bool \<times> trust_env" where
  "revokeFingerprint uid fp project e = (case writeTrustRequest uid fp project e of
     (False, e) \<Rightarrow> (False, e)
   | (True, e) \<Rightarrow> run_helper (\<lambda>t. t(fp := None)) e)"

definition currentTrust :: "trust_service \<Rightarrow> int \<Rightarrow> trust_env \<Rightarrow> incus_cert option res \<times> trust_env" where
  "currentTrust svc uid e = (case on_db (GetIncusUserCert (us_decrypt svc) uid) e of
     (Inl err, e) \<Rightarrow> (if err = ErrNotFound then Inr None else Inl err, e)
   | (Inr row, e) \<Rightarrow> (Inr (if ic_revoked_at row \<noteq> None \<or> ic_fingerprint row = '''' then None else Some row), e))"

text \<open>What follows the registration: the row, the old certificate, and undoing.\<close>

definition provision_store ::
  "trust_service \<Rightarrow> gotime \<Rightarrow> int \<Rightarrow> string \<Rightarrow> trust_material \<Rightarrow> incus_cert option \<Rightarrow> trust_env \<Rightarrow> unit res \<times> trust_env" where
  "provision_store svc now uid project m previous e =
     (case on_db (UpsertIncusUserCertAndProject (us_encrypt svc) now uid (mt_cert m) (mt_key m)
         (mt_fingerprint m) project (mt_expires m)) e of
        (Inl err, e) \<Rightarrow> (Inl err, snd (revokeFingerprint uid (mt_fingerprint m) project e))
      | (Inr _, e) \<Rightarrow> (case previous of
          None \<Rightarrow> (Inr (), e)
        | Some prev \<Rightarrow>
            if ic_fingerprint prev = mt_fingerprint m then (Inr (), e)
            else case revokeFingerprint uid (ic_fingerprint prev) (ic_project_scope prev) e of
              (True, e) \<Rightarrow> (Inr (), e)
            | (False, e) \<Rightarrow>
                let e = snd (on_db (RestoreIncusUserCertAndProject now previous) e);
                    e = snd (revokeFingerprint uid (mt_fingerprint m) project e)
                in (Inl (ErrInvalid ''revoking previous Incus trust''), e)))"

definition Provision :: "trust_service \<Rightarrow> gotime \<Rightarrow> user \<Rightarrow> trust_env \<Rightarrow> unit res \<times> trust_env" where
  "Provision svc now u e =
     (let uid = u_id u; project = (if u_incus_project u = '''' then ''default'' else u_incus_project u) in
      if \<not> ValidTrustProjectName project then (Inl (ErrInvalid ''invalid Incus project''), e)
      else case us_issue svc uid (u_username u) of
        None \<Rightarrow> (Inl ErrCrypto, e)
      | Some m \<Rightarrow> (case writeTrustRequest uid (mt_fingerprint m) project e of
          (False, e) \<Rightarrow> (Inl (ErrInvalid ''writing Incus trust request''), e)
        | (True, e) \<Rightarrow> (case currentTrust svc uid e of
            (Inl err, e) \<Rightarrow> (Inl err, e)
          | (Inr previous, e) \<Rightarrow> (case helper_register (mt_fingerprint m) project e of
              (False, e) \<Rightarrow> (Inl (ErrInvalid ''registering Incus trust certificate''), e)
            | (True, e) \<Rightarrow> provision_store svc now uid project m previous e))))"

definition Revoke :: "trust_service \<Rightarrow> gotime \<Rightarrow> user \<Rightarrow> trust_env \<Rightarrow> unit res \<times> trust_env" where
  "Revoke svc now u e = (case on_db (GetIncusUserCert (us_decrypt svc) (u_id u)) e of
     (Inl err, e) \<Rightarrow> (if err = ErrNotFound then Inr () else Inl err, e)
   | (Inr row, e) \<Rightarrow>
       if ic_revoked_at row \<noteq> None \<or> ic_fingerprint row = '''' then (Inr (), e)
       else case revokeFingerprint (u_id u) (ic_fingerprint row) (ic_project_scope row) e of
         (False, e) \<Rightarrow> (Inl (ErrInvalid ''revoking Incus trust certificate''), e)
       | (True, e) \<Rightarrow> on_db (RevokeIncusUserCert now (u_id u)) e)"

text \<open>The manager the handlers call, over a given trust store and choice of helper failures.\<close>

definition service_manager :: "trust_service \<Rightarrow> gotime \<Rightarrow> (string \<rightharpoonup> string) \<Rightarrow> helper_run list \<Rightarrow> trust_manager" where
  "service_manager svc now trust helper = \<lparr>
     tm_provision = (\<lambda>u d. case Provision svc now u \<lparr>te_db = d, te_trust = trust, te_helper = helper\<rparr> of (r, e) \<Rightarrow> (r, te_db e)),
     tm_revoke = (\<lambda>u d. case Revoke svc now u \<lparr>te_db = d, te_trust = trust, te_helper = helper\<rparr> of (r, e) \<Rightarrow> (r, te_db e))\<rparr>"

section \<open>Steps without database failures\<close>

lemma exec_no_faults [simp]: "faults d = [] \<Longrightarrow> exec f d = (Inr (), f d)"
  by (simp add: exec_def stmt_def)

lemma query_no_faults [simp]: "faults d = [] \<Longrightarrow> query q d = (Inr (q d), d)"
  by (simp add: query_def stmt_def)

lemma transaction_no_faults:
  "faults d = [] \<Longrightarrow> m d = (r, d') \<Longrightarrow> faults d' = [] \<Longrightarrow>
   transaction m d = (r, case r of Inl e \<Rightarrow> d | Inr _ \<Rightarrow> d')"
  by (cases r) (simp_all add: transaction_def stmt_def dret_def dbind_def)

definition put_cert :: "incus_cert \<Rightarrow> incus_cert list \<Rightarrow> incus_cert list" where
  "put_cert row rows = (if tget ic_user_id (ic_user_id row) rows = None then rows @ [row]
     else tupdate (\<lambda>r. ic_user_id r = ic_user_id row) (\<lambda>r. row\<lparr>ic_created_at := ic_created_at r, ic_user_id := ic_user_id r\<rparr>) rows)"

lemma upsert_no_faults:
  "faults d = [] \<Longrightarrow> upsert_cert row d =
     (if \<exists>r \<in> set (incus_certs d). ic_fingerprint r = ic_fingerprint row \<and> ic_user_id r \<noteq> ic_user_id row then (Inl ErrUnique, d)
      else if tget u_id (ic_user_id row) (users d) = None then (Inl ErrForeignKey, d)
      else (Inr (), d\<lparr>incus_certs := put_cert row (incus_certs d)\<rparr>))"
  by (simp add: upsert_cert_def stmt_def put_cert_def)

lemma put_cert_rows:
  "r \<in> set (put_cert row rows) \<Longrightarrow>
   (\<exists>created. r = row\<lparr>ic_created_at := created\<rparr>) \<or> (r \<in> set rows \<and> ic_user_id r \<noteq> ic_user_id row)"
proof -
  assume r: "r \<in> set (put_cert row rows)"
  have self: "row = row\<lparr>ic_created_at := ic_created_at row\<rparr>" by simp
  have upd: "row\<lparr>ic_created_at := c, ic_user_id := ic_user_id x\<rparr> = row\<lparr>ic_created_at := c\<rparr>"
    if "ic_user_id x = ic_user_id row" for x c using that by simp
  show ?thesis
  proof (cases "tget ic_user_id (ic_user_id row) rows = None")
    case True
    then have "r = row \<or> (r \<in> set rows \<and> ic_user_id r \<noteq> ic_user_id row)"
      using r by (auto simp: put_cert_def tget_None)
    then show ?thesis using self by blast
  next
    case False
    then show ?thesis using r upd by (force simp: put_cert_def set_tupdate split: if_splits)
  qed
qed

lemma tget_put_cert:
  "tget ic_user_id i (put_cert row rows) =
    (if i = ic_user_id row then
       Some (row\<lparr>ic_created_at := (case tget ic_user_id i rows of None \<Rightarrow> ic_created_at row | Some r \<Rightarrow> ic_created_at r)\<rparr>)
     else tget ic_user_id i rows)"
proof (cases "tget ic_user_id (ic_user_id row) rows")
  case None
  then show ?thesis by (auto simp: put_cert_def tget_append split: option.splits)
next
  case (Some r)
  then have "row\<lparr>ic_created_at := ic_created_at r, ic_user_id := ic_user_id r\<rparr> = row\<lparr>ic_created_at := ic_created_at r\<rparr>"
    by (auto dest!: tget_SomeD)
  then show ?thesis using Some by (auto simp: put_cert_def tget_tupdate_key)
qed

lemma Upsert_no_faults:
  assumes "UpsertIncusUserCertAndProject enc now uid cert key fp project exp d = (r, d')" "faults d = []"
  shows "faults d' = [] \<and> (case r of Inl _ \<Rightarrow> d' = d
    | Inr _ \<Rightarrow> \<exists>c k. incus_certs d' = put_cert \<lparr>ic_user_id = uid, ic_cert_pem = '''', ic_encrypted_cert_pem = c,
         ic_encrypted_key_pem = k, ic_fingerprint = fp, ic_restricted = True, ic_project_scope = project,
         ic_expires_at = Some (to_unix exp), ic_revoked_at = None, ic_created_at = to_unix now,
         ic_updated_at = to_unix now\<rparr> (incus_certs d) \<and>
       users d' = tupdate (\<lambda>u. u_id u = uid) (\<lambda>u. u\<lparr>u_incus_project := project\<rparr>) (users d) \<and>
       tget u_id uid (users d) \<noteq> None)"
proof -
  let ?row = "\<lambda>c k. \<lparr>ic_user_id = uid, ic_cert_pem = '''', ic_encrypted_cert_pem = c,
         ic_encrypted_key_pem = k, ic_fingerprint = fp, ic_restricted = True, ic_project_scope = project,
         ic_expires_at = Some (to_unix exp), ic_revoked_at = None, ic_created_at = to_unix now,
         ic_updated_at = to_unix now\<rparr>"
  let ?users = "tupdate (\<lambda>u. u_id u = uid) (\<lambda>u. u\<lparr>u_incus_project := project\<rparr>) (users d)"
  show ?thesis
  proof (cases "enc cert \<noteq> None \<and> enc key \<noteq> None")
    case False
    then show ?thesis using assms
      by (auto simp: UpsertIncusUserCertAndProject_def encryptIncusUserCert_def dfail_def dbind_def split: option.splits)
  next
    case True
    then obtain c k where enc: "enc cert = Some c" "enc key = Some k" by blast
    let ?body = "dbind (set_project_stmt uid project) (\<lambda>_. upsert_cert (?row c k))"
    have sp: "set_project_stmt uid project d = (Inr (), d\<lparr>users := ?users\<rparr>)"
      using assms(2) by (simp add: set_project_stmt_def)
    have up: "upsert_cert (?row c k) (d\<lparr>users := ?users\<rparr>) =
     (if \<exists>r \<in> set (incus_certs d). ic_fingerprint r = fp \<and> ic_user_id r \<noteq> uid then (Inl ErrUnique, d\<lparr>users := ?users\<rparr>)
      else if tget u_id uid ?users = None then (Inl ErrForeignKey, d\<lparr>users := ?users\<rparr>)
      else (Inr (), d\<lparr>users := ?users, incus_certs := put_cert (?row c k) (incus_certs d)\<rparr>))"
      using assms(2) by (simp add: upsert_no_faults)
    have tr: "transaction ?body d = (fst (?body d), case fst (?body d) of Inl e \<Rightarrow> d | Inr _ \<Rightarrow> snd (?body d))"
      by (rule transaction_no_faults) (use assms(2) up in \<open>auto simp: dbind_def sp\<close>)
    have "UpsertIncusUserCertAndProject enc now uid cert key fp project exp d = transaction ?body d"
      using enc by (simp add: UpsertIncusUserCertAndProject_def encryptIncusUserCert_def dbind_def dret_def)
    then show ?thesis using assms tr up by (auto simp: dbind_def sp tget_tupdate_key split: if_splits)
  qed
qed

lemma Restore_no_faults:
  assumes "faults d = []" "ic_user_id row \<noteq> 0" "ic_encrypted_cert_pem row \<noteq> ''''" "ic_encrypted_key_pem row \<noteq> ''''"
    "ic_fingerprint row \<noteq> ''''" "ic_project_scope row \<noteq> ''''"
    "\<forall>r \<in> set (incus_certs d). ic_fingerprint r = ic_fingerprint row \<longrightarrow> ic_user_id r = ic_user_id row"
    "tget u_id (ic_user_id row) (users d) \<noteq> None"
  shows "\<exists>created. RestoreIncusUserCertAndProject now (Some row) d = (Inr (),
     d\<lparr>users := tupdate (\<lambda>u. u_id u = ic_user_id row) (\<lambda>u. u\<lparr>u_incus_project := ic_project_scope row\<rparr>) (users d),
       incus_certs := put_cert (row\<lparr>ic_cert_pem := '''', ic_expires_at := map_option to_unix (ic_expires_at row),
           ic_revoked_at := map_option to_unix (ic_revoked_at row), ic_created_at := created,
           ic_updated_at := to_unix now\<rparr>) (incus_certs d)\<rparr>)"
proof -
  let ?c = "if to_unix (ic_created_at row) \<le> 0 then to_unix now else to_unix (ic_created_at row)"
  let ?r = "row\<lparr>ic_cert_pem := '''', ic_expires_at := map_option to_unix (ic_expires_at row),
           ic_revoked_at := map_option to_unix (ic_revoked_at row), ic_created_at := ?c, ic_updated_at := to_unix now\<rparr>"
  let ?users = "tupdate (\<lambda>u. u_id u = ic_user_id row) (\<lambda>u. u\<lparr>u_incus_project := ic_project_scope row\<rparr>) (users d)"
  have sp: "set_project_stmt (ic_user_id row) (ic_project_scope row) d = (Inr (), d\<lparr>users := ?users\<rparr>)"
    using assms(1) by (simp add: set_project_stmt_def)
  have up: "upsert_cert ?r (d\<lparr>users := ?users\<rparr>) = (Inr (), d\<lparr>users := ?users, incus_certs := put_cert ?r (incus_certs d)\<rparr>)"
    using assms by (auto simp: upsert_no_faults tget_tupdate_key)
  have body: "dbind (set_project_stmt (ic_user_id row) (ic_project_scope row)) (\<lambda>_. upsert_cert ?r) d
      = (Inr (), d\<lparr>users := ?users, incus_certs := put_cert ?r (incus_certs d)\<rparr>)"
    unfolding dbind_def sp by (simp only: prod.case sum.case up)
  have "transaction (dbind (set_project_stmt (ic_user_id row) (ic_project_scope row)) (\<lambda>_. upsert_cert ?r)) d
      = (Inr (), d\<lparr>users := ?users, incus_certs := put_cert ?r (incus_certs d)\<rparr>)"
    using transaction_no_faults [where d = d and m = "dbind (set_project_stmt (ic_user_id row) (ic_project_scope row)) (\<lambda>_. upsert_cert ?r)",
        OF assms(1) body] assms(1) by simp
  then have "RestoreIncusUserCertAndProject now (Some row) d =
     (Inr (), d\<lparr>users := ?users, incus_certs := put_cert ?r (incus_certs d)\<rparr>)"
    using assms by (simp add: RestoreIncusUserCertAndProject_def)
  then show ?thesis by blast
qed

section \<open>The database and Incus stay in step\<close>

text \<open>Incus trusts every certificate the database has as active, with the project of the row.\<close>

definition trust_consistent :: "trust_env \<Rightarrow> bool" where
  "trust_consistent e \<longleftrightarrow> (\<forall>row \<in> set (incus_certs (te_db e)). ic_revoked_at row = None \<longrightarrow>
     te_trust e (ic_fingerprint row) = Some (ic_project_scope row))"

text \<open>A row \<open>RestoreIncusUserCertAndProject\<close> accepts.\<close>

definition restorable :: "incus_cert \<Rightarrow> bool" where
  "restorable r \<longleftrightarrow> ic_user_id r \<noteq> 0 \<and> ic_encrypted_cert_pem r \<noteq> '''' \<and> ic_encrypted_key_pem r \<noteq> ''''
     \<and> ic_fingerprint r \<noteq> '''' \<and> ic_project_scope r \<noteq> ''''"

text \<open>A row without the columns a restore rewrites.\<close>

definition cert_core :: "incus_cert \<Rightarrow> incus_cert" where
  "cert_core r = r\<lparr>ic_cert_pem := '''', ic_created_at := 0, ic_updated_at := 0\<rparr>"

text \<open>No attempt fails once its change is made; no attempt fails.\<close>

definition no_late :: "trust_env \<Rightarrow> bool" where
  "no_late e \<longleftrightarrow> FailedLate \<notin> set (te_helper e)"

definition smooth :: "trust_env \<Rightarrow> bool" where
  "smooth e \<longleftrightarrow> set (te_helper e) \<subseteq> {Done}"

lemma no_late_db [simp]: "no_late (e\<lparr>te_db := d\<rparr>) = no_late e"
  by (simp add: no_late_def)

lemma smooth_db [simp]: "smooth (e\<lparr>te_db := d\<rparr>) = smooth e"
  by (simp add: smooth_def)

text \<open>What an attempt leaves of the choices to come.\<close>

definition narrower :: "trust_env \<Rightarrow> trust_env \<Rightarrow> bool" where
  "narrower e e' \<longleftrightarrow> (no_late e \<longrightarrow> no_late e') \<and> (smooth e \<longrightarrow> smooth e')"

lemma attempt_frame:
  "attempt e = (x, e') \<Longrightarrow> te_db e' = te_db e \<and> te_trust e' = te_trust e \<and> narrower e e' \<and>
   (no_late e \<longrightarrow> x \<noteq> FailedLate) \<and> (smooth e \<longrightarrow> x = Done)"
  by (auto simp: attempt_def narrower_def no_late_def smooth_def split: list.splits)

lemma writeTrustRequest_frame:
  "writeTrustRequest uid fp p e = (b, e') \<Longrightarrow> te_db e' = te_db e \<and> te_trust e' = te_trust e \<and> narrower e e'"
  by (auto simp: writeTrustRequest_def narrower_def dest: attempt_frame split: if_splits prod.splits)

lemma run_helper_result:
  assumes "run_helper f e = (b, e')"
  shows "te_db e' = te_db e \<and> narrower e e' \<and> (b \<longrightarrow> te_trust e' = f (te_trust e)) \<and>
    (te_trust e' = te_trust e \<or> te_trust e' = f (te_trust e)) \<and> (\<not> b \<and> no_late e \<longrightarrow> te_trust e' = te_trust e) \<and> (smooth e \<longrightarrow> b)"
proof -
  obtain x e1 where a: "attempt e = (x, e1)" by fastforce
  from attempt_frame [OF a] assms a show ?thesis
    by (cases x) (auto simp: run_helper_def narrower_def no_late_def smooth_def)
qed

text \<open>The parts of a request file that \<open>writeTrustRequest\<close> checks.\<close>

definition requestable :: "int \<Rightarrow> string \<Rightarrow> string \<Rightarrow> bool" where
  "requestable uid fp project \<longleftrightarrow> 0 < uid \<and> validateTrustFingerprint fp \<and> ValidTrustProjectName project"

lemma writeTrustRequest_requestable: "writeTrustRequest uid fp p e = (True, e') \<Longrightarrow> requestable uid fp p"
  by (auto simp: writeTrustRequest_def requestable_def split: if_splits)

lemma writeTrustRequest_smooth: "writeTrustRequest uid fp p e = (b, e') \<Longrightarrow> smooth e \<Longrightarrow> requestable uid fp p \<Longrightarrow> b"
  by (auto simp: writeTrustRequest_def requestable_def dest: attempt_frame split: prod.splits)

lemma revokeFingerprint_result:
  assumes "revokeFingerprint uid fp p e = (b, e')"
  shows "te_db e' = te_db e \<and> narrower e e' \<and> (b \<longrightarrow> te_trust e' = (te_trust e)(fp := None)) \<and>
    (\<forall>x. x \<noteq> fp \<longrightarrow> te_trust e' x = te_trust e x) \<and> (\<not> b \<and> no_late e \<longrightarrow> te_trust e' = te_trust e) \<and>
    (smooth e \<and> requestable uid fp p \<longrightarrow> b)"
proof -
  obtain w e1 where w: "writeTrustRequest uid fp p e = (w, e1)" by fastforce
  note W = writeTrustRequest_frame [OF w] writeTrustRequest_smooth [OF w]
  show ?thesis
  proof (cases w)
    case False
    then show ?thesis using assms w W by (auto simp: revokeFingerprint_def)
  next
    case True
    then have "run_helper (\<lambda>t. t(fp := None)) e1 = (b, e')" using assms w by (simp add: revokeFingerprint_def)
    from run_helper_result [OF this] W show ?thesis by (auto simp: narrower_def)
  qed
qed

lemma helper_register_result:
  "helper_register fp p e = (b, e') \<Longrightarrow> te_db e' = te_db e \<and> narrower e e' \<and>
   (b \<longrightarrow> te_trust e' = (te_trust e)(fp \<mapsto> p)) \<and> (\<forall>x. x \<noteq> fp \<longrightarrow> te_trust e' x = te_trust e x) \<and> (smooth e \<longrightarrow> b)"
  unfolding helper_register_def by (drule run_helper_result) auto

lemma GetIncusUserCert_no_faults:
  assumes "faults d = []"
  shows "GetIncusUserCert dec uid d = (case tget ic_user_id uid (incus_certs d) of
     None \<Rightarrow> (Inl ErrNotFound, d)
   | Some row \<Rightarrow> (case dec (ic_encrypted_cert_pem row) of None \<Rightarrow> (Inl ErrCrypto, d)
       | Some pem \<Rightarrow> (Inr ((scan_cert row)\<lparr>ic_cert_pem := pem\<rparr>), d)))"
  using assms by (auto simp: GetIncusUserCert_def dbind_def one_row_def dfail_def dret_def scan_cert_def
      split: option.splits)

lemma currentTrust_no_faults:
  assumes "currentTrust svc uid e = (res, e')" "faults (te_db e) = []"
  shows "e' = e \<and> (\<forall>prev. res = Inr (Some prev) \<longrightarrow> (\<exists>row pem. tget ic_user_id uid (incus_certs (te_db e)) = Some row \<and>
      prev = (scan_cert row)\<lparr>ic_cert_pem := pem\<rparr> \<and> ic_revoked_at row = None))"
  using assms by (auto simp: currentTrust_def on_db_def GetIncusUserCert_no_faults scan_cert_def
      split: option.splits if_splits)

text \<open>How provisioning ends, given the fingerprint \<open>old\<close> that it replaces.  A success swaps the two fingerprints, in
  Incus and in the user's row.  An error leaves the user's row; if no attempt failed after its change it leaves
  every other certificate as trusted as before, and if no attempt failed at all the new one is not left trusted.\<close>

definition stored_outcome ::
  "int \<Rightarrow> string \<Rightarrow> string \<Rightarrow> string option \<Rightarrow> trust_env \<Rightarrow> unit res \<Rightarrow> trust_env \<Rightarrow> bool" where
  "stored_outcome uid project new old e res e' \<longleftrightarrow>
     (\<forall>fp. fp \<noteq> new \<and> Some fp \<noteq> old \<longrightarrow> te_trust e' fp = te_trust e fp) \<and>
     (case res of
        Inr _ \<Rightarrow> trust_consistent e' \<and> te_trust e' new = Some project \<and>
          (\<forall>fp. old = Some fp \<longrightarrow> te_trust e' fp = None) \<and>
          (\<exists>row. tget ic_user_id uid (incus_certs (te_db e')) = Some row \<and> ic_fingerprint row = new \<and>
             ic_project_scope row = project \<and> ic_revoked_at row = None)
      | Inl _ \<Rightarrow> map_option cert_core (tget ic_user_id uid (incus_certs (te_db e')))
            = map_option cert_core (tget ic_user_id uid (incus_certs (te_db e))) \<and>
          (no_late e \<longrightarrow> trust_consistent e' \<and> (\<forall>fp. fp \<noteq> new \<longrightarrow> te_trust e' fp = te_trust e fp)) \<and>
          (smooth e \<longrightarrow> te_trust e' new = None))"

text \<open>The effect of \<open>provision_store\<close> when the new fingerprint is in no row and the previous row is
  the user's active one.\<close>

lemma provision_store_result:
  assumes run: "provision_store svc now uid project m previous e = (res, e')"
    and wf: "tunique ic_user_id (incus_certs (te_db e))" "tunique ic_fingerprint (incus_certs (te_db e))"
    and cons: "trust_consistent e" and nf: "faults (te_db e) = []"
    and rest: "\<forall>row \<in> set (incus_certs (te_db e)). restorable row"
    and fresh: "\<forall>row \<in> set (incus_certs (te_db e)). ic_fingerprint row \<noteq> mt_fingerprint m"
    and trusted: "te_trust e (mt_fingerprint m) = Some project"
    and valid: "requestable uid (mt_fingerprint m) project"
    and prev: "\<forall>p. previous = Some p \<longrightarrow> (\<exists>row pem. tget ic_user_id uid (incus_certs (te_db e)) = Some row \<and>
      p = (scan_cert row)\<lparr>ic_cert_pem := pem\<rparr> \<and> ic_revoked_at row = None)"
  shows "stored_outcome uid project (mt_fingerprint m) (map_option ic_fingerprint previous) e res e'"
proof -
  let ?d = "te_db e" and ?new = "mt_fingerprint m"
  obtain r1 d1 where up: "UpsertIncusUserCertAndProject (us_encrypt svc) now uid (mt_cert m) (mt_key m)
         ?new project (mt_expires m) ?d = (r1, d1)" by fastforce
  note U = Upsert_no_faults [OF up nf]
  show ?thesis
  proof (cases r1)
    case (Inl err)
    then have d1: "d1 = ?d" using U by simp
    obtain b e2 where rv: "revokeFingerprint uid ?new project (e\<lparr>te_db := d1\<rparr>) = (b, e2)" by fastforce
    have "res = Inl err" "e' = e2" using run up Inl rv by (simp_all add: provision_store_def on_db_def)
    then show ?thesis using revokeFingerprint_result [OF rv] d1 cons fresh valid
      by (auto simp: trust_consistent_def stored_outcome_def)
  next
    case (Inr v)
    then obtain c k where certs: "incus_certs d1 = put_cert \<lparr>ic_user_id = uid, ic_cert_pem = '''',
         ic_encrypted_cert_pem = c, ic_encrypted_key_pem = k, ic_fingerprint = ?new, ic_restricted = True,
         ic_project_scope = project, ic_expires_at = Some (to_unix (mt_expires m)), ic_revoked_at = None,
         ic_created_at = to_unix now, ic_updated_at = to_unix now\<rparr> (incus_certs ?d)"
      and us: "users d1 = tupdate (\<lambda>u. u_id u = uid) (\<lambda>u. u\<lparr>u_incus_project := project\<rparr>) (users ?d)"
        "tget u_id uid (users ?d) \<noteq> None" and f1: "faults d1 = []" using U by auto
    have new_row: "\<exists>row. tget ic_user_id uid (incus_certs d1) = Some row \<and> ic_fingerprint row = ?new
         \<and> ic_project_scope row = project \<and> ic_revoked_at row = None" by (simp add: certs tget_put_cert)
    have rows1: "(ic_fingerprint x = ?new \<and> ic_project_scope x = project) \<or> (x \<in> set (incus_certs ?d) \<and> ic_user_id x \<noteq> uid)"
      if "x \<in> set (incus_certs d1)" for x using put_cert_rows [OF that [unfolded certs]] by auto
    have cons1: "trust_consistent (e\<lparr>te_db := d1\<rparr>)"
      unfolding trust_consistent_def
    proof (intro ballI impI)
      fix x assume "x \<in> set (incus_certs (te_db (e\<lparr>te_db := d1\<rparr>)))" "ic_revoked_at x = None"
      then show "te_trust (e\<lparr>te_db := d1\<rparr>) (ic_fingerprint x) = Some (ic_project_scope x)"
        using rows1 [of x] trusted cons by (auto simp: trust_consistent_def)
    qed
    show ?thesis
    proof (cases previous)
      case None
      then have "res = Inr ()" "e' = e\<lparr>te_db := d1\<rparr>" using run up Inr by (simp_all add: provision_store_def on_db_def)
      then show ?thesis using None new_row trusted cons1 by (simp add: stored_outcome_def)
    next
      case (Some p)
      then obtain row pem where row: "tget ic_user_id uid (incus_certs ?d) = Some row"
        and p: "p = (scan_cert row)\<lparr>ic_cert_pem := pem\<rparr>" and active: "ic_revoked_at row = None" using prev by blast
      have mem: "row \<in> set (incus_certs ?d)" and uid: "ic_user_id row = uid" using tget_Some [OF row] by simp_all
      have pf: "ic_fingerprint p = ic_fingerprint row" "ic_project_scope p = ic_project_scope row"
        by (simp_all add: p scan_cert_def)
      have old: "ic_fingerprint row \<noteq> ?new" using fresh mem by blast
      have other: "ic_fingerprint x \<noteq> ic_fingerprint row" if "x \<in> set (incus_certs ?d)" "ic_user_id x \<noteq> uid" for x
        using tunique_eq [OF wf(2) that(1) mem] that(2) uid by auto
      obtain b2 e2 where rv: "revokeFingerprint uid (ic_fingerprint p) (ic_project_scope p) (e\<lparr>te_db := d1\<rparr>) = (b2, e2)"
        by fastforce
      note R = revokeFingerprint_result [OF rv]
      show ?thesis
      proof (cases b2)
        case True
        then have "res = Inr ()" "e' = e2"
          using run up Inr Some rv old pf by (simp_all add: provision_store_def on_db_def)
        moreover have "trust_consistent e2"
          unfolding trust_consistent_def
        proof (intro ballI impI)
          fix x assume x: "x \<in> set (incus_certs (te_db e2))" "ic_revoked_at x = None"
          then have "ic_fingerprint x \<noteq> ic_fingerprint row" using rows1 [of x] other old R by auto
          then show "te_trust e2 (ic_fingerprint x) = Some (ic_project_scope x)"
            using x cons1 R True pf by (simp add: trust_consistent_def)
        qed
        ultimately show ?thesis using R True new_row trusted Some pf old by (simp add: stored_outcome_def)
      next
        case False
        have "restorable row" using rest mem by blast
        then have rp: "ic_user_id p \<noteq> 0" "ic_encrypted_cert_pem p \<noteq> ''''" "ic_encrypted_key_pem p \<noteq> ''''"
            "ic_fingerprint p \<noteq> ''''" "ic_project_scope p \<noteq> ''''"
          by (simp_all add: restorable_def p scan_cert_def)
        have others: "\<forall>r \<in> set (incus_certs d1). ic_fingerprint r = ic_fingerprint p \<longrightarrow> ic_user_id r = ic_user_id p"
        proof (intro ballI impI)
          fix x assume x: "x \<in> set (incus_certs d1)" "ic_fingerprint x = ic_fingerprint p"
          then have "x \<in> set (incus_certs ?d) \<and> ic_user_id x \<noteq> uid" using rows1 [OF x(1)] old pf by auto
          then show "ic_user_id x = ic_user_id p" using other [of x] x(2) pf by simp
        qed
        have known: "tget u_id (ic_user_id p) (users d1) \<noteq> None"
          using us by (simp add: p scan_cert_def uid tget_tupdate_key)
        obtain created where re: "RestoreIncusUserCertAndProject now (Some p) d1 = (Inr (),
            d1\<lparr>users := tupdate (\<lambda>u. u_id u = ic_user_id p) (\<lambda>u. u\<lparr>u_incus_project := ic_project_scope p\<rparr>) (users d1),
              incus_certs := put_cert (p\<lparr>ic_cert_pem := '''', ic_expires_at := map_option to_unix (ic_expires_at p),
                ic_revoked_at := map_option to_unix (ic_revoked_at p), ic_created_at := created,
                ic_updated_at := to_unix now\<rparr>) (incus_certs d1)\<rparr>)"
          using Restore_no_faults [OF f1 rp others known] by blast
        let ?d2 = "snd (RestoreIncusUserCertAndProject now (Some p) d1)"
        let ?row = "row\<lparr>ic_cert_pem := '''', ic_created_at := created, ic_updated_at := to_unix now\<rparr>"
        have row_eq: "p\<lparr>ic_cert_pem := '''', ic_expires_at := map_option to_unix (ic_expires_at p),
                ic_revoked_at := map_option to_unix (ic_revoked_at p), ic_created_at := created,
                ic_updated_at := to_unix now\<rparr> = ?row"
          by (cases row) (simp add: p scan_cert_def option.map_comp o_def option.map_ident)
        obtain b3 e3 where rv3: "revokeFingerprint uid ?new project (e2\<lparr>te_db := ?d2\<rparr>) = (b3, e3)" by fastforce
        note R3 = revokeFingerprint_result [OF rv3]
        have fin: "isl res" "e' = e3"
          using run up Inr Some rv False old pf R rv3
          by (auto simp: provision_store_def on_db_def Let_def case_prod_beta)
        have d3: "incus_certs (te_db e') = put_cert ?row (incus_certs d1)" using R3 fin row_eq re by simp
        have rows3: "(ic_fingerprint x = ic_fingerprint row \<and> ic_project_scope x = ic_project_scope row)
            \<or> (x \<in> set (incus_certs ?d) \<and> ic_user_id x \<noteq> uid)" if "x \<in> set (incus_certs (te_db e'))" for x
          using put_cert_rows [OF that [unfolded d3]] rows1 uid by (auto simp: certs dest!: put_cert_rows)
        have tr: "te_trust e' fp = te_trust e fp" if "fp \<noteq> ?new" "no_late e" for fp using R R3 False fin that by simp
        have far: "te_trust e' fp = te_trust e fp" if "fp \<noteq> ?new" "fp \<noteq> ic_fingerprint row" for fp
          using R R3 fin that pf by simp
        have gone: "te_trust e' ?new = None" if "smooth e"
          using R R3 fin that valid by (simp add: narrower_def)
        have "te_trust e (ic_fingerprint row) = Some (ic_project_scope row)"
          using cons mem active by (auto simp: trust_consistent_def)
        then have step: "no_late e \<longrightarrow> trust_consistent e'"
          unfolding trust_consistent_def
        proof (intro ballI impI)
          fix x assume x: "no_late e" "x \<in> set (incus_certs (te_db e'))" "ic_revoked_at x = None"
          then show "te_trust e' (ic_fingerprint x) = Some (ic_project_scope x)"
            using rows3 [of x] tr [of "ic_fingerprint x"] old fresh cons
              \<open>te_trust e (ic_fingerprint row) = Some (ic_project_scope row)\<close>
            by (auto simp: trust_consistent_def)
        qed
        have "map_option cert_core (tget ic_user_id uid (incus_certs (te_db e'))) = Some (cert_core row)"
          by (simp add: d3 tget_put_cert uid cert_core_def)
        then show ?thesis using fin(1) step tr far gone row Some pf by (cases res) (simp_all add: stored_outcome_def)
      qed
    qed
  qed
qed

text \<open>The fingerprint of the user's certificate, unless it is revoked.\<close>

definition active_fingerprint :: "int \<Rightarrow> db \<Rightarrow> string option" where
  "active_fingerprint uid d = (case tget ic_user_id uid (incus_certs d) of
     None \<Rightarrow> None | Some row \<Rightarrow> if ic_revoked_at row = None then Some (ic_fingerprint row) else None)"


definition demo_trust_service :: trust_service where
  "demo_trust_service = \<lparr>us_issue = (\<lambda>uid name. Some \<lparr>mt_cert = ''C'', mt_key = ''K'',
       mt_fingerprint = replicate 64 (CHR ''b''), mt_expires = 9\<rparr>),
     us_encrypt = (\<lambda>x. Some (''age:'' @ x)), us_decrypt = (\<lambda>y. Some (drop 4 y))\<rparr>"

definition demo_trust_env :: trust_env where
  "demo_trust_env = \<lparr>te_db = demo_users\<lparr>incus_certs := [\<lparr>ic_user_id = 2, ic_cert_pem = '''',
       ic_encrypted_cert_pem = ''age:X'', ic_encrypted_key_pem = ''age:Y'', ic_fingerprint = replicate 64 (CHR ''a''),
       ic_restricted = True, ic_project_scope = ''web'', ic_expires_at = None, ic_revoked_at = None,
       ic_created_at = 0, ic_updated_at = 0\<rparr>]\<rparr>,
     te_trust = [replicate 64 (CHR ''a'') \<mapsto> ''web''], te_helper = [Done, Done, Done, Failed]\<rparr>"

definition demo_alice :: user where
  "demo_alice = \<lparr>u_id = 2, u_username = ''alice'', u_password_hash = '''', u_is_admin = False,
     u_incus_project = ''db'', u_created_at = 0\<rparr>"

definition demo_provision :: "unit res \<times> trust_env" where
  "demo_provision = Provision demo_trust_service 5 demo_alice demo_trust_env"


section \<open>What the handlers rely on\<close>

text \<open>Everything but the certificates and the project column of the users.\<close>

definition access_view :: "db \<Rightarrow> db" where
  "access_view d = content (d\<lparr>incus_certs := [], users := map (u_incus_project_update (\<lambda>_. '''')) (users d)\<rparr>)"

lemma access_view_faults [simp]: "access_view (d\<lparr>faults := fs\<rparr>) = access_view d"
  by (simp add: access_view_def content_def)

lemma access_view_certs [simp]: "access_view (d\<lparr>incus_certs := x\<rparr>) = access_view d"
  by (simp add: access_view_def)

lemma access_view_project [simp]:
  "access_view (d\<lparr>users := tupdate Q (u_incus_project_update (\<lambda>_. p)) (users d)\<rparr>) = access_view d"
  by (simp add: access_view_def tupdate_def o_def if_distrib cong: if_cong)

lemma access_viewD:
  assumes "access_view d' = access_view d"
  shows "map (\<lambda>u. (u_id u, u_username u, u_password_hash u, u_is_admin u)) (users d')
      = map (\<lambda>u. (u_id u, u_username u, u_password_hash u, u_is_admin u)) (users d)"
    "sessions d' = sessions d" "api_tokens d' = api_tokens d" "totp_secrets d' = totp_secrets d"
    "recovery_codes d' = recovery_codes d" "user_referenced i d' = user_referenced i d" "map u_id (users d') = map u_id (users d)"
proof -
  note c = contentD [OF assms [unfolded access_view_def]]
  show "sessions d' = sessions d" "api_tokens d' = api_tokens d" "totp_secrets d' = totp_secrets d"
    "recovery_codes d' = recovery_codes d" using c by simp_all
  show "user_referenced i d' = user_referenced i d" using c by (simp add: user_referenced_def)
  have f: "map (\<lambda>u. g u) (map (u_incus_project_update (\<lambda>_. '''')) us) = map g us"
    if "\<And>u. g (u\<lparr>u_incus_project := ''''\<rparr>) = g u" for us and g :: "user \<Rightarrow> 'a"
    using that by simp
  have us: "map (u_incus_project_update (\<lambda>_. '''')) (users d') = map (u_incus_project_update (\<lambda>_. '''')) (users d)"
    using c(1) by simp
  show "map (\<lambda>u. (u_id u, u_username u, u_password_hash u, u_is_admin u)) (users d')
      = map (\<lambda>u. (u_id u, u_username u, u_password_hash u, u_is_admin u)) (users d)"
    using arg_cong [OF us, where f = "map (\<lambda>u. (u_id u, u_username u, u_password_hash u, u_is_admin u))"] by (simp add: o_def)
  show "map u_id (users d') = map u_id (users d)"
    using arg_cong [OF us, where f = "map u_id"] by (simp add: o_def)
qed

locale project_trust =
  fixes tm :: "trust_manager option"
  assumes provision_access: "provisionIncusTrust tm u d = (r, d') \<Longrightarrow> access_view d' = access_view d"
    and revoke_access: "revokeIncusTrust tm u d = (r, d') \<Longrightarrow> access_view d' = access_view d"
    and provision_wf: "keeps db_wf (provisionIncusTrust tm u)"
    and revoke_wf: "keeps db_wf (revokeIncusTrust tm u)"
    and provision_quiet: "keeps (\<lambda>d. faults d = []) (provisionIncusTrust tm u)"
    and revoke_quiet: "keeps (\<lambda>d. faults d = []) (revokeIncusTrust tm u)"

text \<open>A predicate of the data that the certificate operations keep is kept by the service.\<close>

lemma on_db_keeps: "keeps P m \<Longrightarrow> on_db m e = (r, e') \<Longrightarrow> P (te_db e) \<Longrightarrow> P (te_db e')"
  by (auto simp: on_db_def dest: keepsD split: prod.splits)

lemma attempt_db: "te_db (snd (attempt e)) = te_db e"
  by (simp add: attempt_def split: list.split)

lemma writeTrustRequest_db: "te_db (snd (writeTrustRequest uid fp p e)) = te_db e"
  by (metis prod.collapse writeTrustRequest_frame)

lemma revokeFingerprint_db: "te_db (snd (revokeFingerprint uid fp p e)) = te_db e"
  by (metis prod.collapse revokeFingerprint_result)

lemma helper_register_db: "te_db (snd (helper_register fp p e)) = te_db e"
  by (metis prod.collapse helper_register_result)

lemma provision_store_keeps:
  assumes up: "\<And>enc now uid c k fp p ex. keeps P (UpsertIncusUserCertAndProject enc now uid c k fp p ex)"
    and re: "\<And>now row. keeps P (RestoreIncusUserCertAndProject now row)" and P: "P (te_db e)"
  shows "P (te_db (snd (provision_store svc now uid p m previous e)))"
proof -
  obtain r e1 where 1: "on_db (UpsertIncusUserCertAndProject (us_encrypt svc) now uid (mt_cert m) (mt_key m)
         (mt_fingerprint m) p (mt_expires m)) e = (r, e1)" by fastforce
  have P1: "P (te_db e1)" by (rule on_db_keeps [OF up 1 P])
  show ?thesis
  proof (cases r)
    case (Inl err)
    then show ?thesis using 1 P1 by (simp add: provision_store_def revokeFingerprint_db)
  next
    case (Inr u)
    show ?thesis
    proof (cases previous)
      case None
      then show ?thesis using 1 Inr P1 by (simp add: provision_store_def)
    next
      case (Some prev)
      obtain b e2 where 2: "revokeFingerprint uid (ic_fingerprint prev) (ic_project_scope prev) e1 = (b, e2)" by fastforce
      have "te_db e2 = te_db e1"
        using revokeFingerprint_db [of uid "ic_fingerprint prev" "ic_project_scope prev" e1] 2 by simp
      then have P2: "P (te_db e2)" using P1 by simp
      obtain r3 e3 where 3: "on_db (RestoreIncusUserCertAndProject now previous) e2 = (r3, e3)" by fastforce
      have "P (te_db e3)" by (rule on_db_keeps [OF re 3 P2])
      then show ?thesis using 1 2 3 Inr Some P1 P2
        by (cases b) (simp_all add: provision_store_def revokeFingerprint_db Let_def)
    qed
  qed
qed

lemma Provision_keeps:
  assumes get: "\<And>dec uid. keeps P (GetIncusUserCert dec uid)"
    and up: "\<And>enc now uid c k fp p ex. keeps P (UpsertIncusUserCertAndProject enc now uid c k fp p ex)"
    and re: "\<And>now row. keeps P (RestoreIncusUserCertAndProject now row)" and P: "P (te_db e)"
  shows "P (te_db (snd (Provision svc now u e)))"
proof -
  let ?p = "if u_incus_project u = '''' then ''default'' else u_incus_project u"
  show ?thesis
  proof (cases "us_issue svc (u_id u) (u_username u)")
    case None
    then show ?thesis using P by (simp add: Provision_def Let_def)
  next
    case (Some m)
    obtain b e1 where 1: "writeTrustRequest (u_id u) (mt_fingerprint m) ?p e = (b, e1)" by fastforce
    then have P1: "P (te_db e1)" using P writeTrustRequest_db [of "u_id u" "mt_fingerprint m" ?p e] by simp
    obtain c e2 where 2: "currentTrust svc (u_id u) e1 = (c, e2)" by fastforce
    obtain r e2' where get2: "on_db (GetIncusUserCert (us_decrypt svc) (u_id u)) e1 = (r, e2')" by fastforce
    have "e2 = e2'" using 2 get2 by (cases r) (simp_all add: currentTrust_def)
    then have P2: "P (te_db e2)" using on_db_keeps [OF get get2 P1] by simp
    obtain b3 e3 where 3: "helper_register (mt_fingerprint m) ?p e2 = (b3, e3)" by fastforce
    then have P3: "P (te_db e3)" using P2 helper_register_db [of "mt_fingerprint m" ?p e2] by simp
    show ?thesis using 1 2 3 Some P P1 P2 P3 provision_store_keeps [OF up re P3]
      by (cases b; cases c; cases b3) (simp_all add: Provision_def Let_def)
  qed
qed

lemma Revoke_keeps:
  assumes get: "\<And>dec uid. keeps P (GetIncusUserCert dec uid)" and rk: "\<And>now uid. keeps P (RevokeIncusUserCert now uid)"
    and P: "P (te_db e)"
  shows "P (te_db (snd (Revoke svc now u e)))"
proof -
  obtain r e1 where 1: "on_db (GetIncusUserCert (us_decrypt svc) (u_id u)) e = (r, e1)" by fastforce
  have P1: "P (te_db e1)" by (rule on_db_keeps [OF get 1 P])
  show ?thesis
  proof (cases r)
    case (Inl err)
    then show ?thesis using 1 P1 by (simp add: Revoke_def)
  next
    case (Inr row)
    obtain b e2 where 2: "revokeFingerprint (u_id u) (ic_fingerprint row) (ic_project_scope row) e1 = (b, e2)" by fastforce
    then have P2: "P (te_db e2)"
      using P1 revokeFingerprint_db [of "u_id u" "ic_fingerprint row" "ic_project_scope row" e1] by simp
    obtain r3 e3 where 3: "on_db (RevokeIncusUserCert now (u_id u)) e2 = (r3, e3)" by fastforce
    have "P (te_db e3)" by (rule on_db_keeps [OF rk 3 P2])
    then show ?thesis using 1 2 3 Inr P1 P2 by (cases b) (simp_all add: Revoke_def)
  qed
qed

lemma certs_keep_access:
  "keeps (\<lambda>d. access_view d = v) (GetIncusUserCert dec uid)"
  "keeps (\<lambda>d. access_view d = v) (UpsertIncusUserCertAndProject enc now uid c k fp p ex)"
  "keeps (\<lambda>d. access_view d = v) (RestoreIncusUserCertAndProject now row)"
  "keeps (\<lambda>d. access_view d = v) (RevokeIncusUserCert now uid)"
proof -
  let ?P = "\<lambda>d. access_view d = v"
  have dp: "data_pred ?P" by (simp add: data_pred_def)
  have proj: "keeps ?P (set_project_stmt i q)" for i q
    unfolding set_project_stmt_def by (rule keeps_exec [OF dp]) simp
  have ups: "keeps ?P (upsert_cert r)" for r
    unfolding upsert_cert_def by (rule keeps_stmt [OF dp]) (simp add: keeps_def)
  have one: "keeps ?P (one_row scan r)" for scan :: "incus_cert \<Rightarrow> incus_cert" and r
    unfolding one_row_def by (intro keeps_intros)
  have e: "keeps ?P (encryptIncusUserCert enc c k)"
    unfolding encryptIncusUserCert_def by (intro keeps_intros)
  show "keeps ?P (GetIncusUserCert dec uid)"
    unfolding GetIncusUserCert_def by (intro keeps_intros keeps_query [OF dp] one)
  show "keeps ?P (UpsertIncusUserCertAndProject enc now uid c k fp p ex)"
    unfolding UpsertIncusUserCertAndProject_def
    by (auto intro!: keeps_dbind e keeps_transaction [OF dp] proj ups split: prod.splits)
  show "keeps ?P (RestoreIncusUserCertAndProject now row)"
    unfolding RestoreIncusUserCertAndProject_def
    by (auto intro!: keeps_dbind keeps_dfail keeps_transaction [OF dp] proj ups split: option.splits)
  show "keeps ?P (RevokeIncusUserCert now uid)"
    unfolding RevokeIncusUserCert_def by (rule keeps_exec [OF dp]) simp
qed

lemma service_access:
  "access_view (snd (tm_provision (service_manager svc now trust helper) u d)) = access_view d"
  "access_view (snd (tm_revoke (service_manager svc now trust helper) u d)) = access_view d"
  using Provision_keeps [where P = "\<lambda>d'. access_view d' = access_view d", OF certs_keep_access(1-3),
      of "\<lparr>te_db = d, te_trust = trust, te_helper = helper\<rparr>" svc now u]
    Revoke_keeps [where P = "\<lambda>d'. access_view d' = access_view d", OF certs_keep_access(1,4),
      of "\<lparr>te_db = d, te_trust = trust, te_helper = helper\<rparr>" svc now u]
  by (simp_all add: service_manager_def case_prod_beta)

lemma service_wf:
  "keeps db_wf (tm_provision (service_manager svc now trust helper) u)"
  "keeps db_wf (tm_revoke (service_manager svc now trust helper) u)"
  using Provision_keeps [where P = db_wf, OF wf_certs(4,2,3)] Revoke_keeps [where P = db_wf, OF wf_certs(4,5)]
  by (simp_all add: service_manager_def keeps_def case_prod_beta)

text \<open>Where the database did not fail before, the service does not make it.\<close>

lemma quiet_stmt: "(\<And>d. faults d = [] \<Longrightarrow> faults (snd (f d)) = []) \<Longrightarrow> keeps (\<lambda>d. faults d = []) (stmt f)"
  by (simp add: keeps_def stmt_def)

lemma quiet_transaction: "keeps (\<lambda>d. faults d = []) m \<Longrightarrow> keeps (\<lambda>d. faults d = []) (transaction m)"
proof (rule keepsI)
  fix d r d' assume m: "keeps (\<lambda>d. faults d = []) m" and d: "faults d = []" and t: "transaction m d = (r, d')"
  obtain x d2 where x: "m d = (x, d2)" by fastforce
  then have "faults d2 = []" using m d by (auto simp: keeps_def dest: spec [of _ d])
  from transaction_no_faults [where d = d and m = m, OF d x this] this d t
  show "faults d' = []" by (cases x) auto
qed

lemma quiet_certs:
  "keeps (\<lambda>d. faults d = []) (GetIncusUserCert dec uid)"
  "keeps (\<lambda>d. faults d = []) (UpsertIncusUserCertAndProject enc now uid c k fp p ex)"
  "keeps (\<lambda>d. faults d = []) (RestoreIncusUserCertAndProject now row)"
  "keeps (\<lambda>d. faults d = []) (RevokeIncusUserCert now uid)"
proof -
  let ?P = "\<lambda>d. faults d = []"
  have proj: "keeps ?P (set_project_stmt i q)" for i q
    unfolding set_project_stmt_def exec_def by (rule quiet_stmt) simp
  have ups: "keeps ?P (upsert_cert r)" for r
    unfolding upsert_cert_def by (rule quiet_stmt) simp
  have one: "keeps ?P (one_row scan r)" for scan :: "incus_cert \<Rightarrow> incus_cert" and r
    unfolding one_row_def by (intro keeps_intros)
  have e: "keeps ?P (encryptIncusUserCert enc c k)"
    unfolding encryptIncusUserCert_def by (intro keeps_intros)
  have q: "keeps ?P (query f)" for f :: "db \<Rightarrow> 'a" unfolding query_def by (rule quiet_stmt) simp
  show "keeps ?P (GetIncusUserCert dec uid)"
    unfolding GetIncusUserCert_def by (intro keeps_intros q one)
  show "keeps ?P (UpsertIncusUserCertAndProject enc now uid c k fp p ex)"
    unfolding UpsertIncusUserCertAndProject_def
    by (auto intro!: keeps_dbind e quiet_transaction proj ups split: prod.splits)
  show "keeps ?P (RestoreIncusUserCertAndProject now row)"
    unfolding RestoreIncusUserCertAndProject_def
    by (auto intro!: keeps_dbind keeps_dfail quiet_transaction proj ups split: option.splits)
  show "keeps ?P (RevokeIncusUserCert now uid)"
    unfolding RevokeIncusUserCert_def exec_def by (rule quiet_stmt) simp
qed

lemma service_quiet:
  "keeps (\<lambda>d. faults d = []) (tm_provision (service_manager svc now trust helper) u)"
  "keeps (\<lambda>d. faults d = []) (tm_revoke (service_manager svc now trust helper) u)"
  using Provision_keeps [where P = "\<lambda>d. faults d = []", OF quiet_certs(1-3)]
    Revoke_keeps [where P = "\<lambda>d. faults d = []", OF quiet_certs(1,4)]
  by (simp_all add: service_manager_def keeps_def case_prod_beta)

interpretation no_trust: project_trust None
  by unfold_locales (simp_all add: provisionIncusTrust_def revokeIncusTrust_def dret_def keeps_def)

interpretation user_trust: project_trust "Some (service_manager svc now trust helper)"
  using service_access service_wf service_quiet
  by unfold_locales (auto simp: provisionIncusTrust_def revokeIncusTrust_def dest: arg_cong [where f = snd], metis snd_conv, metis snd_conv)

text \<open>After a revocation that succeeded the user has no active certificate.\<close>

lemma Revoke_Inr:
  assumes "Revoke svc now u e = (Inr x, e')" "tget ic_user_id (u_id u) (incus_certs (te_db e')) = Some row"
  shows "ic_revoked_at row \<noteq> None \<or> ic_fingerprint row = ''''"
proof -
  obtain r d1 where g: "GetIncusUserCert (us_decrypt svc) (u_id u) (te_db e) = (r, d1)" by fastforce
  have frame: "incus_certs d1 = incus_certs (te_db e)"
  proof -
    have "keeps (\<lambda>d. incus_certs d = incus_certs (te_db e)) (GetIncusUserCert (us_decrypt svc) (u_id u))"
      unfolding GetIncusUserCert_def one_row_def
      by (intro keeps_intros keeps_query) (simp add: data_pred_def)
    from keepsD [OF this g] show ?thesis by simp
  qed
  show ?thesis
  proof (cases r)
    case (Inl err)
    then have nf: "err = ErrNotFound" "te_db e' = d1" using assms(1) g
      by (auto simp: Revoke_def on_db_def split: if_splits)
    have "tget ic_user_id (u_id u) (incus_certs (te_db e)) = None"
      using g Inl nf(1) query_Inr [of "\<lambda>d. tget ic_user_id (u_id u) (incus_certs d)"] query_Inl [of "\<lambda>d. tget ic_user_id (u_id u) (incus_certs d)"]
      by (auto simp: GetIncusUserCert_def dbind_Inl one_row_Inl dfail_def dret_def split: option.splits dest!: query_Inr query_Inl)
    then show ?thesis using assms(2) nf frame by simp
  next
    case (Inr c)
    have "\<exists>row0 pem. tget ic_user_id (u_id u) (incus_certs (te_db e)) = Some row0 \<and> c = (scan_cert row0)\<lparr>ic_cert_pem := pem\<rparr>"
      using g Inr by (auto simp: GetIncusUserCert_def dbind_Inr one_row_Inr dfail_def dret_def split: option.splits
          dest!: query_Inr) (metis)
    then obtain pem row0 where c: "tget ic_user_id (u_id u) (incus_certs (te_db e)) = Some row0" "c = (scan_cert row0)\<lparr>ic_cert_pem := pem\<rparr>"
      by blast
    show ?thesis
    proof (cases "ic_revoked_at c \<noteq> None \<or> ic_fingerprint c = ''''")
      case True
      then have "te_db e' = d1" using assms(1) g Inr by (auto simp: Revoke_def on_db_def)
      then show ?thesis using True c assms(2) frame by (simp add: scan_cert_def)
    next
      case False
      obtain b e2 where rv: "revokeFingerprint (u_id u) (ic_fingerprint c) (ic_project_scope c) (e\<lparr>te_db := d1\<rparr>) = (b, e2)" by fastforce
      have e2: "te_db e2 = d1" using revokeFingerprint_result [OF rv] by simp
      have run: "on_db (RevokeIncusUserCert now (u_id u)) e2 = (Inr x, e')"
        using assms(1) g Inr False rv by (cases b) (simp_all add: Revoke_def on_db_def)
      then have "RevokeIncusUserCert now (u_id u) d1 = (Inr x, te_db e')"
        using e2 by (auto simp: on_db_def split: prod.splits)
      from exec_Inr [OF this [unfolded RevokeIncusUserCert_def]] obtain fs where
        "incus_certs (te_db e') = tupdate (\<lambda>r. ic_user_id r = u_id u \<and> ic_revoked_at r = None)
           (\<lambda>r. r\<lparr>ic_revoked_at := Some (to_unix now), ic_updated_at := to_unix now\<rparr>) (incus_certs d1)" by auto
      then obtain r0 where r0: "ic_user_id r0 = u_id u" "row = (if ic_user_id r0 = u_id u \<and> ic_revoked_at r0 = None
          then r0\<lparr>ic_revoked_at := Some (to_unix now), ic_updated_at := to_unix now\<rparr> else r0)"
        using assms(2) by (auto simp: tget_tupdate dest: tget_SomeD)
      then show ?thesis by (cases "ic_revoked_at r0 = None") simp_all
    qed
  qed
qed

end
