(* ===== verification/Server_Enrol.thy ===== *)
theory Server_Enrol
  imports Server_Auth Incus_Trust
begin

text \<open>
  \<open>auth_ext_handlers.go\<close>: first-administrator setup, API tokens, TOTP enrolment, completion of an
  MFA login.
\<close>

section \<open>Setup\<close>

text \<open>What removing the setup token file did (\<open>os.Remove\<close>, then truncation).\<close>

datatype file_removal = Removed | Truncated | NotRemoved

record setup_request =
  su_username :: string
  su_password :: string
  su_token :: string

definition SetupRequired :: "bool dbm" where
  "SetupRequired = dbind CountUsers (\<lambda>n. dret (n = 0))"

definition decodeSetupRequest :: "setup_request option \<Rightarrow> auth_body response + setup_request" where
  "decodeSetupRequest body = (case body of
     None \<Rightarrow> Inl (writeError 400 ''bad_request'' ''invalid JSON body'')
   | Some req0 \<Rightarrow>
       let req = req0\<lparr>su_username := trim_space (su_username req0), su_token := trim_space (su_token req0)\<rparr> in
       if su_username req = '''' \<or> su_password req = ''''
       then Inl (writeError 400 ''bad_request'' ''username and password required'')
       else if 64 < length (su_username req)
       then Inl (writeError 400 ''bad_request'' ''username must be at most 64 characters'')
       else if length (su_password req) < 8 \<or> 256 < length (su_password req)
       then Inl (writeError 400 ''bad_request'' ''password must be 8 to 256 characters'')
       else if length (su_token req) < 32 \<or> 128 < length (su_token req)
       then Inl (writeError 400 ''bad_request'' ''setup token must be 32 to 128 characters'')
       else Inr req)"

datatype setup_token_result = TokenOk | TokenUnavailable | TokenRequired | TokenMismatch

definition VerifySetupToken :: "config \<Rightarrow> string option \<Rightarrow> string \<Rightarrow> setup_token_result" where
  "VerifySetupToken cfg file provided0 =
     (if cf_setup_token_path cfg = '''' then TokenUnavailable
      else case file of None \<Rightarrow> TokenUnavailable
      | Some raw \<Rightarrow>
          let expected = trim_space raw; provided = trim_space provided0 in
          if expected = '''' then TokenUnavailable
          else if provided = '''' then TokenRequired
          else if provided \<noteq> expected then TokenMismatch
          else TokenOk)"

definition RetireSetupToken :: "config \<Rightarrow> file_removal \<Rightarrow> server \<Rightarrow> server" where
  "RetireSetupToken cfg rm s =
     (if cf_setup_token_path cfg = '''' then s
      else case rm of Removed \<Rightarrow> s\<lparr>sv_setup_token := None\<rparr>
      | Truncated \<Rightarrow> s\<lparr>sv_setup_token := map_option (\<lambda>_. '''') (sv_setup_token s)\<rparr>
      | NotRemoved \<Rightarrow> s)"

text \<open>\<open>storeFirstAdminSetupService.CreateFirstAdmin\<close>; \<open>salt\<close> is \<open>None\<close> when the generator fails.\<close>

definition setup_CreateFirstAdmin ::
  "config \<Rightarrow> gotime \<Rightarrow> string option \<Rightarrow> setup_request \<Rightarrow> user dbm" where
  "setup_CreateFirstAdmin cfg now salt req =
     dbind CountUsers (\<lambda>n.
       if 0 < n then dfail ErrUsersExist
       else case salt of None \<Rightarrow> dfail ErrCrypto
       | Some st \<Rightarrow> CreateFirstAdmin now (su_username req) (cr_hash_password (cf_crypto cfg) st (su_password req)))"

definition user_response_of :: "user \<Rightarrow> user_response" where
  "user_response_of u = \<lparr>ur_id = u_id u, ur_username = u_username u, ur_is_admin = u_is_admin u,
     ur_incus_project = u_incus_project u, ur_created_at = u_created_at u\<rparr>"

definition handleSetup ::
  "config \<Rightarrow> trust_manager option \<Rightarrow> gotime \<Rightarrow> string option \<Rightarrow> file_removal \<Rightarrow> request \<Rightarrow>
   setup_request option \<Rightarrow> server \<Rightarrow> auth_body response \<times> server" where
  "handleSetup cfg tm now salt rm r body =
     with_db SetupRequired (\<lambda>res s. case res of
       Inl _ \<Rightarrow> (internalError, s)
     | Inr required \<Rightarrow>
         if \<not> required then (writeError 409 ''already_setup'' ''admin user already exists'', s)
         else case decodeSetupRequest body of Inl resp \<Rightarrow> (resp, s)
         | Inr req \<Rightarrow>
           (case VerifySetupToken cfg (sv_setup_token s) (su_token req) of
              TokenUnavailable \<Rightarrow> (writeError 503 ''setup_locked'' ''setup token is not available'', s)
            | TokenRequired \<Rightarrow> (writeError 401 ''invalid_setup_token'' ''setup token is invalid'', s)
            | TokenMismatch \<Rightarrow> (writeError 401 ''invalid_setup_token'' ''setup token is invalid'', s)
            | TokenOk \<Rightarrow>
                with_db (setup_CreateFirstAdmin cfg now salt req) (\<lambda>res s. case res of
                  Inl e \<Rightarrow> (if e = ErrUsersExist then writeError 409 ''already_setup'' ''admin user already exists''
                           else internalError, s)
                | Inr u \<Rightarrow> with_db (provisionIncusTrust tm u) (\<lambda>res s. case res of
                    Inl _ \<Rightarrow> with_db (DeleteUser (u_id u)) (\<lambda>_ s.
                      (writeError 500 ''internal'' ''could not provision Incus project scope'', s)) s
                  | Inr _ \<Rightarrow> (writeJSON 201 (UserBody (user_response_of u)),
                      RetireSetupToken cfg rm (auditForUser r u ''auth.setup'' ''success'' ''user''
                        (format_int (u_id u)) ''first admin created'' s))) s) s))"

definition handleSetupStatus :: "server \<Rightarrow> auth_body response \<times> server" where
  "handleSetupStatus = with_db SetupRequired (\<lambda>res s. case res of
     Inl _ \<Rightarrow> (internalError, s) | Inr required \<Rightarrow> (writeJSON 200 (SetupStatusBody required), s))"

section \<open>API tokens\<close>

definition NewAPIToken :: "crypto \<Rightarrow> string option \<Rightarrow> (string \<times> string) option" where
  "NewAPIToken cr random = map_option (\<lambda>buf. let raw = ''helling_'' @ buf in (raw, cr_hash cr raw)) random"

definition token_summary_of :: "api_token \<Rightarrow> token_summary" where
  "token_summary_of t = \<lparr>tk_id = at_id t, tk_name = at_name t, tk_scopes = at_scopes t,
     tk_created_at = at_created_at t, tk_expires_at = at_expires_at t, tk_last_used_at = at_last_used_at t\<rparr>"

definition handleListTokens :: "request \<Rightarrow> server \<Rightarrow> auth_body response \<times> server" where
  "handleListTokens r s = (case rq_user r of
     None \<Rightarrow> (writeError 401 ''no_session'' ''no session'', s)
   | Some u \<Rightarrow> with_db (ListAPITokensByUser (u_id u)) (\<lambda>res s. case res of
       Inl _ \<Rightarrow> (internalError, s)
     | Inr tokens \<Rightarrow> (writeJSON 200 (TokensBody (map token_summary_of tokens)), s)) s)"

text \<open>The decoded body is (name, scopes); no scopes means \<open>read\<close>.\<close>

definition requested_scopes :: "string \<Rightarrow> string" where
  "requested_scopes scopes = (if scopes = '''' then ''read'' else scopes)"

definition handleCreateToken ::
  "config \<Rightarrow> gotime \<Rightarrow> string option \<Rightarrow> string option \<Rightarrow> request \<Rightarrow> (string \<times> string) option \<Rightarrow> server \<Rightarrow>
   auth_body response \<times> server" where
  "handleCreateToken cfg now random uuid r body s = (case rq_user r of
     None \<Rightarrow> (writeError 401 ''no_session'' ''no session'', s)
   | Some u \<Rightarrow> (case body of
       None \<Rightarrow> (writeError 400 ''bad_request'' ''invalid JSON body'', s)
     | Some (name, scopes0) \<Rightarrow>
         let scopes = requested_scopes scopes0 in
         if name = '''' then (writeError 400 ''bad_request'' ''name is required'', s)
         else if \<not> ValidScopes scopes
         then (writeError 400 ''bad_request'' ''scopes must be read, write, or admin'', s)
         else if (case rq_scopes r of None \<Rightarrow> False | Some have \<Rightarrow> \<not> scopeAllows have scopes)
         then (writeError 403 ''forbidden'' (scopes @ '' API token scope required''), s)
         else case NewAPIToken (cf_crypto cfg) random of
           None \<Rightarrow> (internalError, s)
         | Some (raw, hash) \<Rightarrow>
             with_db (CreateAPIToken now uuid (u_id u) name hash scopes None) (\<lambda>res s. case res of
               Inl _ \<Rightarrow> (internalError, s)
             | Inr t \<Rightarrow> (writeJSON 201 (NewTokenBody (token_summary_of t) raw),
                 audit r ''auth.token.create'' ''success'' ''api_token'' (at_id t) ''API token created'' s)) s))"

definition handleRevokeToken :: "request \<Rightarrow> string \<Rightarrow> server \<Rightarrow> auth_body response \<times> server" where
  "handleRevokeToken r tid s = (case rq_user r of
     None \<Rightarrow> (writeError 401 ''no_session'' ''no session'', s)
   | Some u \<Rightarrow>
       if tid = '''' then (writeError 400 ''bad_request'' ''token id required'', s)
       else with_db (ListAPITokensByUser (u_id u)) (\<lambda>res s. case res of
         Inl _ \<Rightarrow> (internalError, s)
       | Inr tokens \<Rightarrow>
           if \<not> list_ex (\<lambda>t. at_id t = tid) tokens
           then (writeError 404 ''not_found'' ''token not found'', s)
           else with_db (DeleteAPIToken tid) (\<lambda>res s. case res of
             Inl _ \<Rightarrow> (internalError, s)
           | Inr _ \<Rightarrow> (noContent, audit r ''auth.token.revoke'' ''success'' ''api_token'' tid ''API token revoked'' s)) s) s)"

section \<open>TOTP enrolment\<close>

text \<open>\<open>codes\<close>: the raw recovery codes and their hashes.\<close>

definition handleTOTPSetup ::
  "gotime \<Rightarrow> string option \<Rightarrow> (string list \<times> string list) option \<Rightarrow> request \<Rightarrow> server \<Rightarrow>
   auth_body response \<times> server" where
  "handleTOTPSetup now secret codes r s = (case rq_user r of
     None \<Rightarrow> (writeError 401 ''no_session'' ''no session'', s)
   | Some u \<Rightarrow> with_db (GetTOTPSecret (u_id u)) (\<lambda>res s. case res of
       Inr _ \<Rightarrow> (writeError 409 ''conflict'' ''TOTP already configured; disable first'', s)
     | Inl e \<Rightarrow>
         if e \<noteq> ErrNotFound then (internalError, s)
         else case secret of None \<Rightarrow> (internalError, s)
         | Some sec \<Rightarrow> with_db (SetTOTPSecret now (u_id u) sec False) (\<lambda>res s. case res of
             Inl _ \<Rightarrow> (internalError, s)
           | Inr _ \<Rightarrow> (case codes of None \<Rightarrow> (internalError, s)
             | Some (raws, hashes) \<Rightarrow> with_db (SaveRecoveryCodes (u_id u) hashes) (\<lambda>res s. case res of
                 Inl _ \<Rightarrow> (internalError, s)
               | Inr _ \<Rightarrow> (writeJSON 200 (TOTPBody sec raws),
                   audit r ''auth.totp.setup'' ''success'' ''user'' (format_int (u_id u)) ''TOTP setup started'' s)) s)) s) s)"

definition handleTOTPVerify ::
  "config \<Rightarrow> gotime \<Rightarrow> request \<Rightarrow> string option \<Rightarrow> server \<Rightarrow> auth_body response \<times> server" where
  "handleTOTPVerify cfg now r body s = (case rq_user r of
     None \<Rightarrow> (writeError 401 ''no_session'' ''no session'', s)
   | Some u \<Rightarrow> (case body of
       None \<Rightarrow> (writeError 400 ''bad_request'' ''invalid JSON body'', s)
     | Some code \<Rightarrow>
         if code = '''' then (writeError 400 ''bad_request'' ''code is required'', s)
         else with_db (GetTOTPSecret (u_id u)) (\<lambda>res s. case res of
           Inl e \<Rightarrow> (if e = ErrNotFound then writeError 404 ''not_found'' ''TOTP not configured; run setup first''
                    else internalError, s)
         | Inr ts \<Rightarrow>
             if \<not> cr_totp (cf_crypto cfg) (to_unix now) (ts_secret ts) code
             then (writeError 400 ''invalid_code'' ''invalid TOTP code'', s)
             else with_db (SetTOTPSecret now (u_id u) (ts_secret ts) True) (\<lambda>res s. case res of
               Inl _ \<Rightarrow> (internalError, s)
             | Inr _ \<Rightarrow> (noContent,
                 audit r ''auth.totp.enable'' ''success'' ''user'' (format_int (u_id u)) ''TOTP enabled'' s)) s) s))"

definition handleTOTPDelete :: "request \<Rightarrow> server \<Rightarrow> auth_body response \<times> server" where
  "handleTOTPDelete r s = (case rq_user r of
     None \<Rightarrow> (writeError 401 ''no_session'' ''no session'', s)
   | Some u \<Rightarrow> with_db (DeleteTOTPSecret (u_id u)) (\<lambda>res s. case res of
       Inl _ \<Rightarrow> (internalError, s)
     | Inr _ \<Rightarrow> with_db (DeleteRecoveryCodes (u_id u)) (\<lambda>_ s.
         (noContent, audit r ''auth.totp.delete'' ''success'' ''user'' (format_int (u_id u)) ''TOTP deleted'' s)) s) s)"

section \<open>Completing an MFA login\<close>

record mfa_request =
  mr_token :: string
  mr_code :: string
  mr_totp_code :: string
  mr_recovery_code :: string

definition drop_challenge :: "string \<Rightarrow> server \<Rightarrow> server" where
  "drop_challenge h s = s\<lparr>sv_mfa := deleteMFAChallenge h (sv_mfa s)\<rparr>"

text \<open>The end of the handler, once the code is known to be valid or not.\<close>

definition mfa_finish ::
  "config \<Rightarrow> gotime \<Rightarrow> string option \<Rightarrow> string \<Rightarrow> request \<Rightarrow> string \<Rightarrow> user \<Rightarrow> bool \<Rightarrow> bool \<Rightarrow> server \<Rightarrow>
   auth_body response \<times> server" where
  "mfa_finish cfg now token jti r h u valid usedRecovery s =
     (if \<not> valid then
        (writeError 401 ''invalid_mfa_code'' ''invalid MFA code'',
         auditForUser r u ''auth.mfa.complete'' ''failed'' ''user'' (format_int (u_id u)) ''invalid MFA code''
           (drop_challenge h s))
      else case issueSession cfg now token jti u (drop_challenge h s) of
        ((None, ck), s) \<Rightarrow> (internalError\<lparr>rs_cookie := ck\<rparr>, s)
      | ((Some tok, ck), s) \<Rightarrow>
          (session_response r tok ck,
           auditForUser r u ''auth.login'' ''success'' ''user'' (format_int (u_id u)) ''login succeeded after MFA''
             (auditForUser r u ''auth.mfa.complete'' ''success'' ''user'' (format_int (u_id u))
               (if usedRecovery then ''MFA completed with recovery code'' else ''MFA completed'') s)))"

definition mfa_check ::
  "config \<Rightarrow> gotime \<Rightarrow> string option \<Rightarrow> string \<Rightarrow> request \<Rightarrow> mfa_request \<Rightarrow> string \<Rightarrow> user \<Rightarrow> totp_secret \<Rightarrow> server \<Rightarrow>
   auth_body response \<times> server" where
  "mfa_check cfg now token jti r req h u ts s =
     (let code = (if mr_code req = '''' then mr_totp_code req else mr_code req);
          valid = (code \<noteq> '''' \<and> cr_totp (cf_crypto cfg) (to_unix now) (ts_secret ts) code) in
      if \<not> valid \<and> mr_recovery_code req \<noteq> '''' then
        with_db (ConsumeRecoveryCode (\<lambda>raw hash. cr_verify (cf_crypto cfg) hash raw) (u_id u)
            (trim_space (mr_recovery_code req))) (\<lambda>res s. case res of
          Inl _ \<Rightarrow> (internalError, s)
        | Inr consumed \<Rightarrow> mfa_finish cfg now token jti r h u consumed consumed s) s
      else mfa_finish cfg now token jti r h u valid False s)"

definition handleMFAComplete ::
  "config \<Rightarrow> gotime \<Rightarrow> string option \<Rightarrow> string \<Rightarrow> request \<Rightarrow> mfa_request option \<Rightarrow> server \<Rightarrow>
   auth_body response \<times> server" where
  "handleMFAComplete cfg now token jti r body s = (case body of
     None \<Rightarrow> (writeError 400 ''bad_request'' ''invalid JSON body'', s)
   | Some req \<Rightarrow>
       if mr_token req = '''' then (writeError 400 ''bad_request'' ''mfa_token required'', s)
       else if mr_code req = '''' \<and> mr_totp_code req = '''' \<and> mr_recovery_code req = ''''
       then (writeError 400 ''bad_request'' ''code or recovery_code required'', s)
       else
         let h = cr_hash (cf_crypto cfg) (mr_token req) in
         case getMFAChallenge now h (sv_mfa s) of
           (None, m) \<Rightarrow> (writeError 401 ''invalid_mfa_token'' ''MFA challenge expired or unknown'', s\<lparr>sv_mfa := m\<rparr>)
         | (Some c, m) \<Rightarrow> with_db (GetUserByID (mc_user_id c)) (\<lambda>res s. case res of
             Inl e \<Rightarrow> if e = ErrNotFound
               then (writeError 401 ''invalid_mfa_token'' ''user no longer exists'', drop_challenge h s)
               else (internalError, s)
           | Inr u \<Rightarrow> with_db (GetTOTPSecret (u_id u)) (\<lambda>res s. case res of
               Inl e \<Rightarrow> if e = ErrNotFound
                 then (writeError 401 ''mfa_not_configured'' ''MFA is not configured'', drop_challenge h s)
                 else (internalError, s)
             | Inr ts \<Rightarrow> if \<not> ts_enabled ts
                 then (writeError 401 ''mfa_not_enabled'' ''MFA is not enabled'', drop_challenge h s)
                 else mfa_check cfg now token jti r req h u ts s) s) (s\<lparr>sv_mfa := m\<rparr>))"

end
