(* ===== verification/Poller.thy ===== *)
theory Poller
  imports Go_Text Store_Ops
begin

text \<open>
  \<open>poller/poller.go\<close> and \<open>GetOperation\<close> of \<open>incus/client.go\<close>: one tick of the background poller,
  which mirrors the state of Incus operations into the \<open>operations\<close> table, and the proof that a tick
  is one pass of a pure function over the rows.
\<close>

section \<open>The state of an Incus operation\<close>

datatype incus_status = IncusUnknown | IncusRunning | IncusSuccess | IncusFailure | IncusCancelled

text \<open>
  \<open>strings.ToLower\<close>, as far as the comparison with ASCII literals goes: two code points outside
  ASCII have an ASCII letter as lower case, U+0130 and the Kelvin sign U+212A.
\<close>

fun to_lower :: "string \<Rightarrow> string" where
  "to_lower [] = []"
| "to_lower (c # cs) =
     (if byte c = 196 \<and> cs \<noteq> [] \<and> byte (hd cs) = 176 then CHR ''i'' # to_lower (tl cs)
      else if byte c = 226 \<and> 2 \<le> length cs \<and> byte (cs ! 0) = 132 \<and> byte (cs ! 1) = 170 then CHR ''k'' # to_lower (drop 2 cs)
      else (if 65 \<le> byte c \<and> byte c \<le> 90 then char_of (byte c + 32) else c) # to_lower cs)"

definition incus_status_of :: "string \<Rightarrow> incus_status" where
  "incus_status_of s = (let l = to_lower s in
     if l = ''success'' then IncusSuccess
     else if l = ''failure'' then IncusFailure
     else if l = ''cancelled'' then IncusCancelled
     else if l = ''pending'' \<or> l = ''running'' then IncusRunning
     else IncusUnknown)"

text \<open>
  \<open>fetch\<close> is the HTTP call to Incus for an operation id: its status and error text, or \<open>None\<close>
  when the request fails (an id Incus no longer knows is such a failure: it answers 404).
\<close>

definition incus_GetOperation ::
  "(string \<Rightarrow> (string \<times> string) option) \<Rightarrow> string \<Rightarrow> (incus_status \<times> string) option" where
  "incus_GetOperation fetch i =
     (if i = '''' then Some (IncusUnknown, '''')
      else case fetch i of None \<Rightarrow> None | Some (status, err) \<Rightarrow> Some (incus_status_of status, err))"

section \<open>A tick\<close>

definition next_status :: "incus_status \<Rightarrow> op_status option" where
  "next_status st = (case st of
     IncusRunning \<Rightarrow> Some OpRunning | IncusSuccess \<Rightarrow> Some OpSuccess | IncusFailure \<Rightarrow> Some OpFailure
   | IncusCancelled \<Rightarrow> Some OpCancelled | IncusUnknown \<Rightarrow> None)"

text \<open>The body of the loop; a failed update is logged and dropped.\<close>

definition poll_one ::
  "(string \<Rightarrow> (string \<times> string) option) \<Rightarrow> gotime \<Rightarrow> operation \<Rightarrow> db \<Rightarrow> db" where
  "poll_one fetch now op d =
     (if op_incus_op_id op = '''' then snd (UpdateOperationStatus now (op_id op) OpSuccess '''' d)
      else case incus_GetOperation fetch (op_incus_op_id op) of
        None \<Rightarrow> d
      | Some (status, err) \<Rightarrow> (case next_status status of
          None \<Rightarrow> d
        | Some st \<Rightarrow> if st = op_status op \<and> err = op_error op then d
                   else snd (UpdateOperationStatus now (op_id op) st err d)))"

definition tick :: "(string \<Rightarrow> (string \<times> string) option) \<Rightarrow> gotime \<Rightarrow> db \<Rightarrow> db" where
  "tick fetch now d = (case ListActiveOperations d of
     (Inl _, d) \<Rightarrow> d
   | (Inr ops, d) \<Rightarrow> fold (poll_one fetch now) ops d)"

section \<open>A tick as a function on rows\<close>

definition advance :: "(string \<Rightarrow> (string \<times> string) option) \<Rightarrow> gotime \<Rightarrow> operation \<Rightarrow> operation" where
  "advance fetch now r =
     (if \<not> op_active r then r
      else if op_incus_op_id r = '''' then r\<lparr>op_status := OpSuccess, op_error := '''', op_updated_at := to_unix now\<rparr>
      else case incus_GetOperation fetch (op_incus_op_id r) of
        None \<Rightarrow> r
      | Some (status, err) \<Rightarrow> (case next_status status of
          None \<Rightarrow> r
        | Some st \<Rightarrow> if st = op_status r \<and> err = op_error r then r
                   else r\<lparr>op_status := st, op_error := err, op_updated_at := to_unix now\<rparr>))"

lemma advance_id [simp]: "op_id (advance fetch now r) = op_id r"
  by (simp add: advance_def split: option.splits prod.splits)

text \<open>One step either writes the advanced row or, when the database fails, nothing.\<close>

lemma UpdateOperationStatus_cases:
  obtains (ok) fs where "snd (UpdateOperationStatus now i st err d) = d\<lparr>faults := fs, operations :=
      tupdate (\<lambda>r. op_id r = i) (\<lambda>r. r\<lparr>op_status := st, op_error := err, op_updated_at := to_unix now\<rparr>) (operations d)\<rparr>"
      "faults d = [] \<Longrightarrow> fs = []"
  | (fault) fs where "snd (UpdateOperationStatus now i st err d) = d\<lparr>faults := fs\<rparr>" "faults d \<noteq> []"
proof -
  let ?f = "\<lambda>d. d\<lparr>operations := tupdate (\<lambda>r. op_id r = i)
     (\<lambda>r. r\<lparr>op_status := st, op_error := err, op_updated_at := to_unix now\<rparr>) (operations d)\<rparr>"
  have u: "UpdateOperationStatus now i st err d = exec ?f d" by (simp add: UpdateOperationStatus_def)
  show ?thesis
  proof (cases "faults d")
    case Nil
    then have "snd (exec ?f d) = ?f d" by (simp add: exec_def stmt_def)
    moreover have "?f d = d\<lparr>faults := faults d, operations := operations (?f d)\<rparr>" by simp
    ultimately show ?thesis using Nil u by (intro ok [of "[]"]) simp_all
  next
    case (Cons b fs)
    then show ?thesis using u
      by (cases b) (auto simp: exec_def stmt_def intro: ok [of fs] fault [of fs])
  qed
qed

definition rows_step ::
  "(string \<Rightarrow> (string \<times> string) option) \<Rightarrow> gotime \<Rightarrow> bool \<Rightarrow> string set \<Rightarrow> operation \<Rightarrow> operation \<Rightarrow> bool" where
  "rows_step fetch now faulty ids r r' \<longleftrightarrow>
     (if op_id r \<in> ids then r' = advance fetch now r \<or> (faulty \<and> r' = r) else r' = r)"

lemma poll_one_step:
  assumes rows: "list_all2 (rows_step fetch now faulty ids) rows (operations d)"
    and op: "op_id op \<notin> ids" "r0 \<in> set rows" "op = scan_operation r0" "op_active r0"
    and uniq: "tunique op_id rows" and faults: "\<not> faulty \<Longrightarrow> faults d = []"
  shows "list_all2 (rows_step fetch now faulty (insert (op_id op) ids)) rows (operations (poll_one fetch now op d)) \<and>
    (\<not> faulty \<longrightarrow> faults (poll_one fetch now op d) = [])"
proof -
  have the_row: "r = r0" if "r \<in> set rows" "op_id r = op_id op" for r
    using tunique_eq [OF uniq that(1) op(2)] that(2) op(3) by (simp add: scan_operation_def)
  have keep: "list_all2 (rows_step fetch now faulty (insert (op_id op) ids)) rows (operations d)"
    if "advance fetch now r0 = r0 \<or> faulty"
    using rows by (rule list.rel_mono_strong) (use that the_row op(1) in \<open>auto simp: rows_step_def split: if_splits\<close>)
  have upd: "list_all2 (rows_step fetch now faulty (insert (op_id op) ids)) rows
      (operations (snd (UpdateOperationStatus now (op_id op) st err d))) \<and>
      (\<not> faulty \<longrightarrow> faults (snd (UpdateOperationStatus now (op_id op) st err d)) = [])"
    if adv: "advance fetch now r0 = r0\<lparr>op_status := st, op_error := err, op_updated_at := to_unix now\<rparr>" for st err
  proof (cases rule: UpdateOperationStatus_cases [of now "op_id op" st err d])
    case (ok fs)
    have "list_all2 (rows_step fetch now faulty (insert (op_id op) ids)) rows (tupdate (\<lambda>r. op_id r = op_id op)
        (\<lambda>r. r\<lparr>op_status := st, op_error := err, op_updated_at := to_unix now\<rparr>) (operations d))"
      unfolding tupdate_def list.rel_map using rows
      by (rule list.rel_mono_strong) (use the_row op(1) adv in \<open>auto simp: rows_step_def split: if_splits\<close>)
    then show ?thesis using ok faults by simp
  next
    case (fault fs)
    then have faulty using faults by blast
    then show ?thesis using fault keep by simp
  qed
  have op_fields: "op_incus_op_id op = op_incus_op_id r0" "op_status op = op_status r0" "op_error op = op_error r0"
    using op(3) by (simp_all add: scan_operation_def)
  show ?thesis
  proof (cases "op_incus_op_id r0 = ''''")
    case True
    then show ?thesis using upd [where st = OpSuccess and err = "''''"] op(4) op_fields by (simp add: poll_one_def advance_def)
  next
    case False
    show ?thesis
    proof (cases "incus_GetOperation fetch (op_incus_op_id r0)")
      case None
      then show ?thesis using keep faults False op_fields by (simp add: poll_one_def advance_def)
    next
      case (Some res)
      obtain status err where res: "res = (status, err)" by (cases res)
      show ?thesis
      proof (cases "next_status status")
        case None
        then show ?thesis using keep faults False Some res op_fields by (simp add: poll_one_def advance_def)
      next
        case (Some st)
        note known = False \<open>incus_GetOperation fetch (op_incus_op_id r0) = Some res\<close> res Some op_fields op(4)
        show ?thesis
        proof (cases "st = op_status r0 \<and> err = op_error r0")
          case True
          then have "poll_one fetch now op d = d" "advance fetch now r0 = r0"
            using known by (simp_all add: poll_one_def advance_def)
          then show ?thesis using keep faults by simp
        next
          case False
          then have "poll_one fetch now op d = snd (UpdateOperationStatus now (op_id op) st err d)"
            using known by (auto simp: poll_one_def)
          moreover have "advance fetch now r0 = r0\<lparr>op_status := st, op_error := err, op_updated_at := to_unix now\<rparr>"
            using False known by (auto simp: advance_def)
          ultimately show ?thesis using upd [where st = st and err = err] by simp
        qed
      qed
    qed
  qed
qed

lemma fold_poll_step:
  assumes "list_all2 (rows_step fetch now faulty ids) rows (operations d)" "tunique op_id rows"
    and "distinct (map op_id ops)" "set (map op_id ops) \<inter> ids = {}"
    and "\<forall>op \<in> set ops. \<exists>r \<in> set rows. op = scan_operation r \<and> op_active r"
    and "\<not> faulty \<Longrightarrow> faults d = []"
  shows "list_all2 (rows_step fetch now faulty (ids \<union> set (map op_id ops))) rows
    (operations (fold (poll_one fetch now) ops d))"
  using assms
proof (induction ops arbitrary: ids d)
  case (Cons op ops)
  then obtain r where r: "r \<in> set rows" "op = scan_operation r" "op_active r" by auto
  have step: "list_all2 (rows_step fetch now faulty (insert (op_id op) ids)) rows (operations (poll_one fetch now op d)) \<and>
    (\<not> faulty \<longrightarrow> faults (poll_one fetch now op d) = [])"
    by (rule poll_one_step [OF Cons.prems(1) _ r Cons.prems(2,6)]) (use Cons.prems(4) in auto)
  have "list_all2 (rows_step fetch now faulty (insert (op_id op) ids \<union> set (map op_id ops))) rows
    (operations (fold (poll_one fetch now) ops (poll_one fetch now op d)))"
    by (rule Cons.IH) (use step Cons.prems in auto)
  then show ?case by simp
qed simp

lemma tick_rows:
  assumes "db_wf d"
  shows "list_all2 (\<lambda>r r'. r' = advance fetch now r \<or> (faults d \<noteq> [] \<and> r' = r)) (operations d) (operations (tick fetch now d))"
proof -
  let ?q = "\<lambda>d. map scan_operation (sort_key op_created_at (filter op_active (operations d)))"
  let ?ops = "?q d"
  have l: "ListActiveOperations d = query ?q d" by (simp add: ListActiveOperations_def)
  have start: "list_all2 (rows_step fetch now faulty {}) (operations d) (operations d)" for faulty
    by (rule list.rel_refl) (simp add: rows_step_def)
  have run: "list_all2 (\<lambda>r r'. r' = advance fetch now r \<or> (faults d \<noteq> [] \<and> r' = r)) (operations d)
      (operations (fold (poll_one fetch now) ?ops (d\<lparr>faults := fs\<rparr>)))"
    if fs: "faults d = [] \<Longrightarrow> fs = []" for fs
  proof -
    have uniq: "tunique op_id (operations d)" using assms by (simp add: wf_defs)
    have "distinct (map op_id (filter op_active (operations d)))"
      using uniq by (simp add: tunique_def distinct_map_filter)
    then have "distinct (map op_id ?ops)"
      by (simp add: scan_operation_def o_def distinct_map inj_on_def)
    then have "list_all2 (rows_step fetch now (faults d \<noteq> []) ({} \<union> set (map op_id ?ops))) (operations d)
      (operations (fold (poll_one fetch now) ?ops (d\<lparr>faults := fs\<rparr>)))"
      by (intro fold_poll_step) (use start uniq fs in auto)
    moreover have "r' = advance fetch now r \<or> (faults d \<noteq> [] \<and> r' = r)"
      if "rows_step fetch now (faults d \<noteq> []) ({} \<union> set (map op_id ?ops)) r r'" "r \<in> set (operations d)" for r r'
    proof (cases "op_active r")
      case True
      then have "op_id r \<in> set (map op_id ?ops)" using that(2) by (force simp: scan_operation_def)
      then show ?thesis using that(1) by (simp add: rows_step_def)
    next
      case False
      then show ?thesis using that(1) by (auto simp: rows_step_def advance_def split: if_splits)
    qed
    ultimately show ?thesis by (rule list.rel_mono_strong) auto
  qed
  show ?thesis
  proof (cases "faults d")
    case Nil
    then have eq: "d\<lparr>faults := []\<rparr> = d" by simp
    have "tick fetch now d = fold (poll_one fetch now) ?ops d"
      using l Nil by (simp add: tick_def query_def stmt_def)
    then show ?thesis using run [of "[]", unfolded eq] by simp
  next
    case (Cons b fs)
    then have "tick fetch now d = (if b then d\<lparr>faults := fs\<rparr> else fold (poll_one fetch now) ?ops (d\<lparr>faults := fs\<rparr>))"
      using l by (simp add: tick_def query_def stmt_def)
    then show ?thesis using run [of fs] Cons by (auto intro: list.rel_refl)
  qed
qed

text \<open>C32: a tick rewrites every row at most once, by the pure function \<open>advance\<close>: a row that is not
  pending or running is untouched, one without an Incus operation succeeds, any other takes the
  status and error Incus reports; without database failures this is exactly a map over the table,
  and with failures a row is either advanced or as it was.\<close>

theorem tick_advances:
  assumes "db_wf d"
  shows "list_all2 (\<lambda>r r'. r' = advance fetch now r \<or> (faults d \<noteq> [] \<and> r' = r)) (operations d) (operations (tick fetch now d)) \<and>
    (faults d = [] \<longrightarrow> operations (tick fetch now d) = map (advance fetch now) (operations d)) \<and>
    (\<forall>r \<in> set (operations d). \<not> op_active r \<longrightarrow> r \<in> set (operations (tick fetch now d)))"
proof -
  note rows = tick_rows [OF assms, of fetch now]
  have "operations (tick fetch now d) = map (advance fetch now) (operations d)" if "faults d = []"
  proof -
    have "list_all2 (=) (map (advance fetch now) (operations d)) (operations (tick fetch now d))"
      unfolding list.rel_map using rows by (rule list.rel_mono_strong) (use that in auto)
    then show ?thesis by (simp add: list.rel_eq)
  qed
  moreover have "r \<in> set (operations (tick fetch now d))" if r: "r \<in> set (operations d)" "\<not> op_active r" for r
  proof -
    obtain i where i: "i < length (operations d)" "operations d ! i = r"
      using r(1) in_set_conv_nth [of r "operations d"] by blast
    have "advance fetch now r = r" using r(2) by (simp add: advance_def)
    then have "operations (tick fetch now d) ! i = r" using list_all2_nthD [OF rows i(1)] i(2) by auto
    moreover have "i < length (operations (tick fetch now d))" using list_all2_lengthD [OF rows] i(1) by simp
    ultimately show ?thesis by (metis nth_mem)
  qed
  ultimately show ?thesis using rows by blast
qed

theorem tick_advances_witness:
  "map op_status (operations (tick (\<lambda>i. Some (''Success'', '''')) 9 demo_ops)) = [OpSuccess, OpSuccess, OpCancelled]"
proof -
  have "faults demo_ops = []" by (simp add: demo_ops_def demo_users_def empty_db_def)
  then have "operations (tick (\<lambda>i. Some (''Success'', '''')) 9 demo_ops)
      = map (advance (\<lambda>i. Some (''Success'', '''')) 9) (operations demo_ops)"
    by (rule tick_advances [OF demo_ops_wf, THEN conjunct2, THEN conjunct1, THEN mp])
  moreover have "map op_status (map (advance (\<lambda>i. Some (''Success'', '''')) 9) (operations demo_ops))
      = [OpSuccess, OpSuccess, OpCancelled]" by code_simp
  ultimately show ?thesis by simp
qed

end
