(* ===== verification/Server_Users.thy ===== *)
theory Server_Users
  imports Server_Enrol Incus_Trust Poller
begin

text \<open>
  \<open>user_handlers.go\<close> and \<open>operation_handlers.go\<close>: administration of users, and a user's view of
  their operations.  \<open>tm\<close> is the trust manager; \<open>salt\<close> is \<open>None\<close> when the generator of \<open>auth.Hash\<close>
  fails; \<open>ident\<close> is the path parameter \<open>id\<close>.
\<close>

definition normalizeIncusProject :: "string \<Rightarrow> string" where
  "normalizeIncusProject scope =
     trim_prefix (trim_prefix (trim_space scope) ''incus:project:'') ''incus:''"

section \<open>Looking a user up\<close>

definition getUserFromIDParam :: "string \<Rightarrow> user dbm" where
  "getUserFromIDParam ident = (case parse_int64 ident of
     Some n \<Rightarrow> GetUserByID n | None \<Rightarrow> GetUserByUsername ident)"

definition handleListUsers :: "server \<Rightarrow> auth_body response \<times> server" where
  "handleListUsers = with_db ListUsers (\<lambda>res s. case res of
     Inl _ \<Rightarrow> (internalError, s)
   | Inr us \<Rightarrow> (writeJSON 200 (UsersBody (map user_response_of us)), s))"

definition user_not_found :: "store_error \<Rightarrow> 'p response" where
  "user_not_found e = (if e = ErrNotFound then writeError 404 ''not_found'' ''user not found'' else internalError)"

definition handleGetUser :: "string \<Rightarrow> server \<Rightarrow> auth_body response \<times> server" where
  "handleGetUser ident = with_db (getUserFromIDParam ident) (\<lambda>res s. case res of
     Inl e \<Rightarrow> (user_not_found e, s)
   | Inr u \<Rightarrow> (writeJSON 200 (UserBody (user_response_of u)), s))"

section \<open>Creating a user\<close>

record create_user_request =
  cu_username :: string
  cu_password :: string
  cu_is_admin :: bool
  cu_incus_project :: string

text \<open>The end of the handler: provisioning, with the user deleted again when it fails.\<close>

definition create_user_provision ::
  "trust_manager option \<Rightarrow> request \<Rightarrow> user \<Rightarrow> server \<Rightarrow> auth_body response \<times> server" where
  "create_user_provision tm r u = with_db (provisionIncusTrust tm u) (\<lambda>res s. case res of
     Inl _ \<Rightarrow> with_db (DeleteUser (u_id u)) (\<lambda>_ s.
       (writeError 500 ''internal'' ''could not provision Incus project scope'', s)) s
   | Inr _ \<Rightarrow> (writeJSON 201 (UserBody (user_response_of u)),
       audit r ''user.create'' ''success'' ''user'' (format_int (u_id u)) ''user created'' s))"

definition create_user_project ::
  "trust_manager option \<Rightarrow> request \<Rightarrow> string \<Rightarrow> user \<Rightarrow> server \<Rightarrow> auth_body response \<times> server" where
  "create_user_project tm r proj0 u s =
     (if proj0 = '''' then create_user_provision tm r u s
      else let project = normalizeIncusProject proj0 in
        if \<not> ValidTrustProjectName project then
          with_db (DeleteUser (u_id u)) (\<lambda>_ s. (writeError 400 ''bad_request'' ''invalid incus_project'', s)) s
        else with_db (SetUserIncusProject (u_id u) project) (\<lambda>res s. case res of
          Inl _ \<Rightarrow> with_db (DeleteUser (u_id u)) (\<lambda>_ s. (internalError, s)) s
        | Inr _ \<Rightarrow> create_user_provision tm r (u\<lparr>u_incus_project := project\<rparr>) s) s)"

definition handleCreateUser ::
  "config \<Rightarrow> trust_manager option \<Rightarrow> gotime \<Rightarrow> string option \<Rightarrow> request \<Rightarrow> create_user_request option \<Rightarrow> server \<Rightarrow>
   auth_body response \<times> server" where
  "handleCreateUser cfg tm now salt r body s = (case body of
     None \<Rightarrow> (writeError 400 ''bad_request'' ''invalid JSON body'', s)
   | Some req \<Rightarrow>
       let name = trim_space (cu_username req) in
       if name = '''' \<or> cu_password req = ''''
       then (writeError 400 ''bad_request'' ''username and password required'', s)
       else if length (cu_password req) < 8
       then (writeError 400 ''bad_request'' ''password must be at least 8 characters'', s)
       else case salt of None \<Rightarrow> (internalError, s)
       | Some st \<Rightarrow>
           with_db (CreateUser now name (cr_hash_password (cf_crypto cfg) st (cu_password req)) (cu_is_admin req)) (\<lambda>res s.
             case res of
               Inl e \<Rightarrow> (if e = ErrUnique then writeError 409 ''conflict'' ''username already exists''
                        else internalError, s)
             | Inr u \<Rightarrow> create_user_project tm r (cu_incus_project req) u s) s)"

section \<open>Changing and deleting a user\<close>

record update_user_request =
  uu_password :: "string option"
  uu_is_admin :: "bool option"

definition update_user_store ::
  "request \<Rightarrow> user \<Rightarrow> string \<Rightarrow> bool \<Rightarrow> server \<Rightarrow> auth_body response \<times> server" where
  "update_user_store r u hash admin = with_db (UpdateUser (u_id u) hash admin) (\<lambda>res s. case res of
     Inl _ \<Rightarrow> (internalError, s)
   | Inr _ \<Rightarrow> (writeJSON 200 (UserBody ((user_response_of u)\<lparr>ur_is_admin := admin\<rparr>)),
       audit r ''user.update'' ''success'' ''user'' (format_int (u_id u)) ''user updated'' s))"

definition handleUpdateUser ::
  "config \<Rightarrow> string option \<Rightarrow> request \<Rightarrow> string \<Rightarrow> update_user_request option \<Rightarrow> server \<Rightarrow>
   auth_body response \<times> server" where
  "handleUpdateUser cfg salt r ident body = with_db (getUserFromIDParam ident) (\<lambda>res s. case res of
     Inl e \<Rightarrow> (user_not_found e, s)
   | Inr u \<Rightarrow> (case body of
       None \<Rightarrow> (writeError 400 ''bad_request'' ''invalid JSON body'', s)
     | Some req \<Rightarrow>
         let admin = (case uu_is_admin req of None \<Rightarrow> u_is_admin u | Some b \<Rightarrow> b) in
         (case uu_password req of
            None \<Rightarrow> update_user_store r u (u_password_hash u) admin s
          | Some pw \<Rightarrow>
              if length pw < 8 then (writeError 400 ''bad_request'' ''password must be at least 8 characters'', s)
              else case salt of None \<Rightarrow> (internalError, s)
              | Some st \<Rightarrow> update_user_store r u (cr_hash_password (cf_crypto cfg) st pw) admin s)))"

definition handleDeleteUser ::
  "trust_manager option \<Rightarrow> request \<Rightarrow> string \<Rightarrow> server \<Rightarrow> auth_body response \<times> server" where
  "handleDeleteUser tm r ident = with_db (getUserFromIDParam ident) (\<lambda>res s. case res of
     Inl e \<Rightarrow> (user_not_found e, s)
   | Inr u \<Rightarrow> with_db (revokeIncusTrust tm u) (\<lambda>res s. case res of
       Inl _ \<Rightarrow> (writeError 500 ''internal'' ''could not revoke Incus project scope'', s)
     | Inr _ \<Rightarrow> with_db (DeleteUser (u_id u)) (\<lambda>res s. case res of
         Inl _ \<Rightarrow> (internalError, s)
       | Inr _ \<Rightarrow> (noContent,
           audit r ''user.delete'' ''success'' ''user'' (format_int (u_id u)) ''user deleted'' s)) s) s)"

definition handleUpdateUserScope ::
  "trust_manager option \<Rightarrow> request \<Rightarrow> string \<Rightarrow> string option \<Rightarrow> server \<Rightarrow> auth_body response \<times> server" where
  "handleUpdateUserScope tm r ident body = with_db (getUserFromIDParam ident) (\<lambda>res s. case res of
     Inl e \<Rightarrow> (user_not_found e, s)
   | Inr u \<Rightarrow> (case body of
       None \<Rightarrow> (writeError 400 ''bad_request'' ''invalid JSON body'', s)
     | Some scope \<Rightarrow>
         let project = normalizeIncusProject scope in
         if project = '''' \<or> \<not> ValidTrustProjectName project
         then (writeError 400 ''bad_request'' ''valid scope is required'', s)
         else with_db (provisionIncusTrust tm (u\<lparr>u_incus_project := project\<rparr>)) (\<lambda>res s. case res of
           Inl _ \<Rightarrow> (writeError 500 ''internal'' ''could not provision Incus project scope'', s)
         | Inr _ \<Rightarrow> (writeJSON 200 (ScopeBody (''incus:project:'' @ project)),
             audit r ''user.scope.update'' ''success'' ''user'' (format_int (u_id u))
               ''user Incus project scope updated'' s)) s))"

section \<open>Operations\<close>

datatype operation_body = OperationBody operation | OperationsBody "operation list"

text \<open>\<open>status\<close> and \<open>limit\<close> are the query parameters, \<open>''''\<close> when absent.\<close>

definition handleListOperations ::
  "request \<Rightarrow> string \<Rightarrow> string \<Rightarrow> server \<Rightarrow> operation_body response \<times> server" where
  "handleListOperations r status limit s = (case rq_user r of
     None \<Rightarrow> (writeError 401 ''no_session'' ''no session'', s)
   | Some u \<Rightarrow>
       let n = (if limit = '''' then Some 0 else parse_int64 limit) in
       if limit \<noteq> '''' \<and> (n = None \<or> the n < 1 \<or> 200 < the n)
       then (writeError 400 ''bad_request'' ''limit must be between 1 and 200'', s)
       else with_db (ListOperations (u_id u) status (the n)) (\<lambda>res s. case res of
         Inl _ \<Rightarrow> (internalError, s) | Inr ops \<Rightarrow> (writeJSON 200 (OperationsBody ops), s)) s)"

definition handleGetOperation :: "request \<Rightarrow> string \<Rightarrow> server \<Rightarrow> operation_body response \<times> server" where
  "handleGetOperation r ident s = (case rq_user r of
     None \<Rightarrow> (writeError 401 ''no_session'' ''no session'', s)
   | Some u \<Rightarrow> with_db (GetOperation (u_id u) ident) (\<lambda>res s. case res of
       Inl e \<Rightarrow> (if e = ErrNotFound then writeError 404 ''not_found'' ''operation not found'' else internalError, s)
     | Inr op \<Rightarrow> (writeJSON 200 (OperationBody op), s)) s)"

end
