(* ===== verification/Example_State.thy ===== *)
theory Example_State
  imports Server_Enrol
begin

text \<open>
  A concrete configuration and server, on which witnesses evaluate the handlers.  The cryptographic
  parameters are instantiated by transparent functions: a hash prefixes its input, a password hash
  is the password behind \<open>pw:\<close>, a TOTP code is the secret followed by the time step, a JWT is its
  subject.
\<close>

definition demo_crypto :: crypto where
  "demo_crypto = \<lparr>cr_hash = (\<lambda>s. ''h:'' @ s), cr_verify = (\<lambda>enc pw. enc = ''pw:'' @ pw),
     cr_hash_password = (\<lambda>salt pw. ''pw:'' @ pw),
     cr_totp = (\<lambda>t secret code. code = secret @ show_nat (nat (t div 30))),
     cr_sign = (\<lambda>c. Some (''jwt.'' @ jc_subject c)),
     cr_jwt_verify = (\<lambda>now raw. map_option (\<lambda>sub. \<lparr>jc_subject = sub, jc_username = '''', jc_is_admin = False,
        jc_role = ''user'', jc_scopes = ''write'', jc_id = ''1'', jc_expires_at = now\<rparr>) (cut_prefix raw ''jwt.''))\<rparr>"

definition demo_cfg :: config where
  "demo_cfg = \<lparr>cf_session_ttl = 24 * 60 * minute, cf_access_ttl = 0, cf_jwt_signer = True,
     cf_setup_token_path = ''/etc/helling/setup-token'', cf_crypto = demo_crypto\<rparr>"

definition demo_user :: "int \<Rightarrow> string \<Rightarrow> bool \<Rightarrow> user" where
  "demo_user i name admin = \<lparr>u_id = i, u_username = name, u_password_hash = ''pw:secret'',
     u_is_admin = admin, u_incus_project = ''default'', u_created_at = 0\<rparr>"

text \<open>Root (1) has no second factor; Alice (2) has TOTP enabled and one recovery code.\<close>

definition demo_db :: db where
  "demo_db = empty_db\<lparr>users := [demo_user 1 ''root'' True, demo_user 2 ''alice'' False], user_seq := 2,
     totp_secrets := [\<lparr>ts_user_id = 2, ts_secret = ''S'', ts_enabled = True, ts_created_at = 0, ts_updated_at = 0\<rparr>],
     recovery_codes := [\<lparr>rc_id = 1, rc_user_id = 2, rc_code_hash = ''pw:AAAA'', rc_used = False\<rparr>],
     recovery_seq := 1\<rparr>"

definition demo_server :: server where
  "demo_server = \<lparr>sv_db = demo_db, sv_user_limiter = NewRateLimiter 5 (15 * minute),
     sv_ip_limiter = NewRateLimiter 20 (15 * minute), sv_mfa = Map.empty, sv_audit = [],
     sv_setup_token = None, sv_schedule_token = None\<rparr>"

text \<open>The same data with a live session of root, and Alice's read-only API token.\<close>

definition demo_db2 :: db where
  "demo_db2 = demo_db\<lparr>
     sessions := [\<lparr>se_id = ''h:cookie'', se_user_id = 1, se_created_at = 0, se_expires_at = 1000, se_last_seen_at = 0\<rparr>],
     api_tokens := [\<lparr>at_id = ''t1'', at_user_id = 2, at_name = ''ci'', at_token_hash = ''h:helling_x'',
       at_scopes = ''write'', at_created_at = 0, at_expires_at = None, at_last_used_at = None\<rparr>]\<rparr>"

definition demo_server2 :: server where
  "demo_server2 = demo_server\<lparr>sv_db := demo_db2\<rparr>"

definition demo_request :: request where
  "demo_request = \<lparr>rq_method = ''POST'', rq_path = ''/api/v1/auth/login'', rq_uri = ''/api/v1/auth/login'',
     rq_source_ip = ''192.0.2.1'', rq_cookie = None, rq_authorization = '''', rq_schedule_token = '''',
     rq_user = None, rq_scopes = None, rq_jwt_id = None, rq_runner = False\<rparr>"

lemma demo_hash [simp]: "cr_hash (cf_crypto demo_cfg) s = ''h:'' @ s"
  by (simp add: demo_cfg_def demo_crypto_def)

lemma demo_db_wf: "db_wf demo_db"
  by (simp add: wf_defs demo_db_def empty_db_def demo_user_def tunique_def tbelow_def trefs_def trefs_opt_def)

lemma demo_db2_wf: "db_wf demo_db2"
  by (simp add: wf_defs demo_db2_def demo_db_def empty_db_def demo_user_def tunique_def tbelow_def trefs_def trefs_opt_def)

end
