(* ===== verification/Server_Auth_Props.thy ===== *)
theory Server_Auth_Props
  imports Example_State
begin

text \<open>
  What the authentication handlers guarantee: sessions are issued only for a verified password and,
  where TOTP is enabled, a verified second factor; refusals are counted and audited; middleware hands
  on only requests of a user the credential belongs to.
\<close>

section \<open>The steps of a handler\<close>

lemma with_dbE:
  assumes "with_db m k s = (b, s')"
  obtains r d where "m (sv_db s) = (r, d)" "k r (s\<lparr>sv_db := d\<rparr>) = (b, s')"
  using assms by (cases "m (sv_db s)") (auto simp: with_db_def)

lemma isLoginRateLimited_frame:
  "isLoginRateLimited now name ip s = (b, s') \<Longrightarrow>
   sv_db s' = sv_db s \<and> sv_mfa s' = sv_mfa s \<and> sv_audit s' = sv_audit s \<and> sv_setup_token s' = sv_setup_token s"
  by (auto simp: isLoginRateLimited_def Let_def split: prod.splits if_splits)

lemma allowFailed_frame:
  "allowFailedLoginAttempt now name ip s = (b, s') \<Longrightarrow>
   sv_db s' = sv_db s \<and> sv_mfa s' = sv_mfa s \<and> sv_audit s' = sv_audit s \<and> sv_setup_token s' = sv_setup_token s"
  by (auto simp: allowFailedLoginAttempt_def Let_def split: prod.splits if_splits)

text \<open>The same data, up to failures already taken; a session row added to them.\<close>

definition same_data :: "db \<Rightarrow> db \<Rightarrow> bool" where
  "same_data d d' \<longleftrightarrow> content d' = content d"

definition session_row :: "config \<Rightarrow> gotime \<Rightarrow> string \<Rightarrow> int \<Rightarrow> session" where
  "session_row cfg now raw uid = \<lparr>se_id = cr_hash (cf_crypto cfg) raw, se_user_id = uid,
     se_created_at = to_unix now, se_expires_at = to_unix (now + cf_session_ttl cfg),
     se_last_seen_at = to_unix now\<rparr>"

definition session_added :: "config \<Rightarrow> gotime \<Rightarrow> string \<Rightarrow> int \<Rightarrow> db \<Rightarrow> db \<Rightarrow> bool" where
  "session_added cfg now raw uid d d' \<longleftrightarrow>
     same_data (d\<lparr>sessions := sessions d @ [session_row cfg now raw uid]\<rparr>) d'"

text \<open>No cookie and the same data, or the cookie of a session just added.\<close>

definition session_outcome ::
  "config \<Rightarrow> gotime \<Rightarrow> string option \<Rightarrow> int \<Rightarrow> cookie option \<Rightarrow> db \<Rightarrow> db \<Rightarrow> bool" where
  "session_outcome cfg now token uid ck d d' \<longleftrightarrow>
     (case ck of None \<Rightarrow> same_data d d'
      | Some c \<Rightarrow> token = Some (ck_value c) \<and> ck_max_age c = cf_session_ttl cfg div second
          \<and> session_added cfg now (ck_value c) uid d d')"

lemma same_data_refl [simp]: "same_data d d"
  by (simp add: same_data_def)

lemma same_data_faults [simp]: "same_data d (d\<lparr>faults := fs\<rparr>)"
  by (simp add: same_data_def)

lemma same_data_trans [trans]: "same_data d d1 \<Longrightarrow> same_data d1 d2 \<Longrightarrow> same_data d d2"
  by (simp add: same_data_def)

lemma same_dataD:
  assumes "same_data d d'"
  shows "users d' = users d" "sessions d' = sessions d" "api_tokens d' = api_tokens d"
    "totp_secrets d' = totp_secrets d" "recovery_codes d' = recovery_codes d" "db_wf d' = db_wf d"
  using contentD [OF assms [unfolded same_data_def]] by (simp_all add: wf_defs)

lemma same_data_sessions:
  "same_data d d1 \<Longrightarrow> same_data (d\<lparr>sessions := x\<rparr>) (d1\<lparr>sessions := x\<rparr>)"
  by (cases d; cases d1) (simp add: same_data_def content_def)

lemma session_added_same:
  assumes "same_data d d1" "session_added cfg now raw uid d1 d2" shows "session_added cfg now raw uid d d2"
  using same_data_trans [OF same_data_sessions [OF assms(1)] assms(2) [unfolded session_added_def]]
  by (simp add: session_added_def same_dataD(2) [OF assms(1)])

lemma session_outcome_same:
  "same_data d d1 \<Longrightarrow> session_outcome cfg now token uid ck d1 d2 \<Longrightarrow> session_outcome cfg now token uid ck d d2"
  by (auto simp: session_outcome_def split: option.splits intro: session_added_same same_data_trans)

lemma session_outcome_None [simp]: "session_outcome cfg now token uid None d d' = same_data d d'"
  by (simp add: session_outcome_def)

lemma session_outcome_Some: "session_outcome cfg now token uid (Some c) d d' \<Longrightarrow>
    token = Some (ck_value c) \<and> sessions d' = sessions d @ [session_row cfg now (ck_value c) uid]"
  by (auto simp: session_outcome_def session_added_def dest: same_dataD)

lemma issueSession_result:
  assumes "issueSession cfg now token jti u s = ((t, ck), s')"
  shows "session_outcome cfg now token (u_id u) ck (sv_db s) (sv_db s') \<and> (ck = None \<longrightarrow> t = None)
    \<and> sv_mfa s' = sv_mfa s"
proof (cases token)
  case None
  then show ?thesis using assms by (simp add: issueSession_def)
next
  case (Some raw)
  from assms obtain res d where cs: "CreateSession now (cr_hash (cf_crypto cfg) raw) (u_id u)
      (cf_session_ttl cfg) (sv_db s) = (res, d)"
    by (auto simp: issueSession_def Some elim!: with_dbE)
  show ?thesis
  proof (cases res)
    case (Inl e)
    then show ?thesis using assms CreateSession_Inl [OF cs [unfolded Inl]] cs
      by (auto simp: issueSession_def Some with_db_def)
  next
    case (Inr x)
    from CreateSession_Inr [OF cs [unfolded Inr]]
    have "session_added cfg now raw (u_id u) (sv_db s) d"
      by (auto simp: session_added_def same_data_def content_def session_row_def)
    then show ?thesis using assms cs Inr
      by (auto simp: issueSession_def Some with_db_def Let_def session_outcome_def split: if_splits option.splits)
  qed
qed

lemma session_response_cookie [simp]: "rs_cookie (session_response r tok ck) = ck"
  by (simp add: session_response_def)

lemma session_response_status: "rs_status (session_response r tok ck) \<in> {200, 204}"
  by (simp add: session_response_def)

lemma login_refused_result:
  "login_refused now r name s = (resp, s') \<Longrightarrow>
   rs_cookie resp = None \<and> sv_db s' = sv_db s \<and> sv_mfa s' = sv_mfa s \<and> rs_status resp \<in> {401, 429}"
  by (auto simp: login_refused_def login_rate_limited_def split: prod.splits bool.splits dest: allowFailed_frame)

lemma login_challenge_result:
  "login_challenge cfg now token r u s = (resp, s') \<Longrightarrow> rs_cookie resp = None \<and> sv_db s' = sv_db s"
  by (auto simp: login_challenge_def split: option.splits)

lemma login_complete_result:
  assumes "login_complete cfg now token jti r name u s = (resp, s')"
  shows "session_outcome cfg now token (u_id u) (rs_cookie resp) (sv_db s) (sv_db s') \<and> sv_mfa s' = sv_mfa s"
proof -
  let ?s = "s\<lparr>sv_user_limiter := Reset name (sv_user_limiter s),
                sv_ip_limiter := Reset (rq_source_ip r) (sv_ip_limiter s)\<rparr>"
  obtain t ck s1 where iss: "issueSession cfg now token jti u ?s = ((t, ck), s1)"
    by (metis prod.collapse)
  have "rs_cookie resp = ck \<and> sv_db s' = sv_db s1 \<and> sv_mfa s' = sv_mfa s1"
    using assms iss by (cases t) (auto simp: login_complete_def Let_def)
  then show ?thesis using issueSession_result [OF iss] by simp
qed

lemma login_password_ok_result:
  assumes "login_password_ok cfg now token jti r name u s = (resp, s')"
  shows "session_outcome cfg now token (u_id u) (rs_cookie resp) (sv_db s) (sv_db s') \<and>
    (rs_cookie resp \<noteq> None \<longrightarrow>
      (\<forall>ts. tget ts_user_id (u_id u) (totp_secrets (sv_db s)) = Some ts \<longrightarrow> \<not> ts_enabled ts))"
proof -
  obtain res d where g: "GetTOTPSecret (u_id u) (sv_db s) = (res, d)"
    by (cases "GetTOTPSecret (u_id u) (sv_db s)")
  have same: "same_data (sv_db s) d"
    by (rule GetTOTPSecret_cases [of "u_id u" "sv_db s"]) (use g in auto)
  consider (challenge) "login_challenge cfg now token r u (s\<lparr>sv_db := d\<rparr>) = (resp, s')"
    | (error) "rs_cookie resp = None" "sv_db s' = d"
    | (complete) "login_complete cfg now token jti r name u (s\<lparr>sv_db := d\<rparr>) = (resp, s')"
      "\<forall>ts. res = Inr ts \<longrightarrow> \<not> ts_enabled ts" "\<forall>e. res = Inl e \<longrightarrow> e = ErrNotFound"
    using assms g by (cases res) (auto simp: login_password_ok_def with_db_def split: if_splits)
  then show ?thesis
  proof cases
    case challenge
    then show ?thesis using same by (auto dest!: login_challenge_result)
  next
    case error
    then show ?thesis using same by simp
  next
    case complete
    have "\<not> ts_enabled ts" if "tget ts_user_id (u_id u) (totp_secrets (sv_db s)) = Some ts" for ts
      using that complete(2,3) g by (rule_tac GetTOTPSecret_cases [of "u_id u" "sv_db s"]) auto
    then show ?thesis using login_complete_result [OF complete(1)] session_outcome_same [OF same] by auto
  qed
qed

section \<open>Login\<close>

text \<open>The handler once the body is decoded and the limits allow the attempt.\<close>

lemma handleLogin_result:
  assumes "handleLogin cfg now token jti r body s = (resp, s')"
  shows "(rs_cookie resp = None \<and> same_data (sv_db s) (sv_db s')) \<or>
    (\<exists>username password u. body = Some (username, password) \<and>
      tget u_username (trim_space username) (users (sv_db s)) = Some u \<and>
      \<not> fst (isLoginRateLimited now (trim_space username) (rq_source_ip r) s) \<and>
      cr_verify (cf_crypto cfg) (u_password_hash u) password \<and>
      session_outcome cfg now token (u_id u) (rs_cookie resp) (sv_db s) (sv_db s') \<and>
      (rs_cookie resp \<noteq> None \<longrightarrow>
        (\<forall>ts. tget ts_user_id (u_id u) (totp_secrets (sv_db s)) = Some ts \<longrightarrow> \<not> ts_enabled ts)))"
proof -
  consider (early) "rs_cookie resp = None" "s' = s"
    | (go) username password where "body = Some (username, password)"
      "handleLogin cfg now token jti r body s =
        (case isLoginRateLimited now (trim_space username) (rq_source_ip r) s of
         (True, s) \<Rightarrow> login_rate_limited r (trim_space username) s
       | (False, s) \<Rightarrow> with_db (GetUserByUsername (trim_space username)) (\<lambda>res s. case res of
           Inl e \<Rightarrow> if e = ErrNotFound then login_refused now r (trim_space username) s else (internalError, s)
         | Inr u \<Rightarrow> if \<not> cr_verify (cf_crypto cfg) (u_password_hash u) password
                   then login_refused now r (trim_space username) s
                   else login_password_ok cfg now token jti r (trim_space username) u s) s)"
    using assms by (auto simp: handleLogin_def Let_def split: option.splits if_splits)
  then show ?thesis
  proof cases
    case early
    then show ?thesis by simp
  next
    case go
    let ?name = "trim_space username"
    obtain b s1 where lim: "isLoginRateLimited now ?name (rq_source_ip r) s = (b, s1)"
      by (cases "isLoginRateLimited now ?name (rq_source_ip r) s")
    note db1 = isLoginRateLimited_frame [OF lim]
    show ?thesis
    proof (cases b)
      case True
      then show ?thesis using assms go lim db1 by (auto simp: login_rate_limited_def)
    next
      case False
      obtain res d where get: "GetUserByUsername ?name (sv_db s) = (res, d)"
        by (cases "GetUserByUsername ?name (sv_db s)")
      have same: "same_data (sv_db s) d"
        by (rule GetUserByUsername_cases [of ?name "sv_db s"]) (use get in auto)
      consider (refused) "login_refused now r ?name (s1\<lparr>sv_db := d\<rparr>) = (resp, s')"
        | (error) "rs_cookie resp = None" "sv_db s' = d"
        | (ok) u where "res = Inr u" "cr_verify (cf_crypto cfg) (u_password_hash u) password"
          "login_password_ok cfg now token jti r ?name u (s1\<lparr>sv_db := d\<rparr>) = (resp, s')"
        using assms go lim False get db1 by (cases res) (auto simp: with_db_def split: if_splits)
      then show ?thesis
      proof cases
        case refused
        then show ?thesis using same by (auto dest!: login_refused_result)
      next
        case error
        then show ?thesis using same by simp
      next
        case ok
        from GetUserByUsername_Inr [OF get [unfolded ok(1)]] obtain x where
          x: "tget u_username ?name (users (sv_db s)) = Some x" "u = scan_user x" by blast
        show ?thesis
          using login_password_ok_result [OF ok(3)] x ok(2) go(1) lim False same
            session_outcome_same [OF same] same_dataD [OF same]
          by auto
      qed
    qed
  qed
qed

text \<open>C1: login sets a session cookie only for the right password of an existing user without TOTP
  who is not rate limited; then the sessions gain exactly one row, of that user, expiring one TTL
  later, keyed by the hash of the cookie.  In every other case the data are unchanged.\<close>

theorem login_session_sound:
  assumes "handleLogin cfg now token jti r body s = (resp, s')"
  shows "case rs_cookie resp of
      None \<Rightarrow> content (sv_db s') = content (sv_db s)
    | Some ck \<Rightarrow> \<exists>username password u.
        body = Some (username, password)
        \<and> tget u_username (trim_space username) (users (sv_db s)) = Some u
        \<and> cr_verify (cf_crypto cfg) (u_password_hash u) password
        \<and> (\<forall>ts. tget ts_user_id (u_id u) (totp_secrets (sv_db s)) = Some ts \<longrightarrow> \<not> ts_enabled ts)
        \<and> \<not> fst (isLoginRateLimited now (trim_space username) (rq_source_ip r) s)
        \<and> token = Some (ck_value ck)
        \<and> sessions (sv_db s') = sessions (sv_db s) @ [session_row cfg now (ck_value ck) (u_id u)]"
proof (cases "rs_cookie resp")
  case None
  then show ?thesis using handleLogin_result [OF assms]
    by (auto simp: same_data_def session_outcome_def)
next
  case (Some ck)
  then show ?thesis using handleLogin_result [OF assms]
    by (auto dest!: session_outcome_Some)
qed

definition demo_login :: "auth_body response \<times> server" where
  "demo_login = handleLogin demo_cfg (1000 * second) (Some ''tok'') ''j'' demo_request
     (Some ('' root '', ''secret'')) demo_server"

theorem login_session_sound_witness:
  "rs_cookie (fst demo_login) = Some \<lparr>ck_value = ''tok'', ck_max_age = 86400\<rparr> \<and>
   sessions (sv_db (snd demo_login)) = [session_row demo_cfg (1000 * second) ''tok'' 1]"
proof -
  have ck: "rs_cookie (fst demo_login) = Some \<lparr>ck_value = ''tok'', ck_max_age = 86400\<rparr>" by code_simp
  have root: "trim_space '' root '' = ''root''" by code_simp
  have db: "sessions (sv_db demo_server) = []"
    "tget u_username ''root'' (users (sv_db demo_server)) = Some (demo_user 1 ''root'' True)"
    "u_id (demo_user 1 ''root'' True) = 1"
    by (simp_all add: demo_server_def demo_db_def empty_db_def demo_user_def)
  show ?thesis
    using login_session_sound [OF surjective_pairing, of demo_cfg "1000 * second" "Some ''tok''" "''j''"
        demo_request "Some ('' root '', ''secret'')" demo_server]
    unfolding demo_login_def [symmetric] by (auto simp: ck root db)
qed

section \<open>MFA\<close>

lemma mfa_finish_result:
  assumes "mfa_finish cfg now token jti r h u valid used s = (resp, s')"
  shows "session_outcome cfg now token (u_id u) (rs_cookie resp) (sv_db s) (sv_db s') \<and>
    (rs_cookie resp \<noteq> None \<longrightarrow> valid) \<and> sv_mfa s' = (sv_mfa s)(h := None)"
proof (cases valid)
  case False
  then show ?thesis using assms by (auto simp: mfa_finish_def drop_challenge_def deleteMFAChallenge_def)
next
  case True
  obtain t ck s1 where iss: "issueSession cfg now token jti u (drop_challenge h s) = ((t, ck), s1)"
    by (metis prod.collapse)
  have "rs_cookie resp = ck \<and> sv_db s' = sv_db s1 \<and> sv_mfa s' = sv_mfa s1"
    using assms iss True by (cases t) (auto simp: mfa_finish_def)
  then show ?thesis using issueSession_result [OF iss] True
    by (auto simp: drop_challenge_def deleteMFAChallenge_def)
qed

text \<open>The second factor the request gave: a code for the secret, or an unused recovery code.\<close>

definition mfa_code :: "mfa_request \<Rightarrow> string" where
  "mfa_code req = (if mr_code req = '''' then mr_totp_code req else mr_code req)"

definition second_factor :: "config \<Rightarrow> gotime \<Rightarrow> mfa_request \<Rightarrow> totp_secret \<Rightarrow> user \<Rightarrow> db \<Rightarrow> db \<Rightarrow> bool" where
  "second_factor cfg now req ts u d d' \<longleftrightarrow>
     (mfa_code req \<noteq> '''' \<and> cr_totp (cf_crypto cfg) (to_unix now) (ts_secret ts) (mfa_code req)
       \<and> recovery_codes d' = recovery_codes d)
     \<or> (let usable = usable_codes (\<lambda>raw hash. cr_verify (cf_crypto cfg) hash raw) (u_id u)
             (trim_space (mr_recovery_code req)) in
        mr_recovery_code req \<noteq> '''' \<and> usable d \<noteq> [] \<and> length (usable d') = length (usable d) - 1)"

lemma usable_codes_same: "same_data d d' \<Longrightarrow> usable_codes v i x d' = usable_codes v i x d"
  by (simp add: usable_codes_def same_dataD)

lemma mfa_check_result:
  assumes "mfa_check cfg now token jti r req h u ts s = (resp, s')" "db_wf (sv_db s)"
  shows "case rs_cookie resp of None \<Rightarrow> sessions (sv_db s') = sessions (sv_db s)
    | Some ck \<Rightarrow> token = Some (ck_value ck) \<and> sv_mfa s' h = None
        \<and> sessions (sv_db s') = sessions (sv_db s) @ [session_row cfg now (ck_value ck) (u_id u)]
        \<and> second_factor cfg now req ts u (sv_db s) (sv_db s')"
proof -
  let ?valid = "mfa_code req \<noteq> '''' \<and> cr_totp (cf_crypto cfg) (to_unix now) (ts_secret ts) (mfa_code req)"
  let ?verify = "\<lambda>raw hash. cr_verify (cf_crypto cfg) hash raw"
  let ?raw = "trim_space (mr_recovery_code req)"
  show ?thesis
  proof (cases "\<not> ?valid \<and> mr_recovery_code req \<noteq> ''''")
    case False
    then have fin: "mfa_finish cfg now token jti r h u ?valid False s = (resp, s')"
      using assms(1) by (auto simp: mfa_check_def Let_def mfa_code_def split: if_splits)
    show ?thesis
    proof (cases "rs_cookie resp")
      case None
      then show ?thesis using mfa_finish_result [OF fin] by (simp add: same_dataD)
    next
      case (Some ck)
      note res = mfa_finish_result [OF fin, unfolded Some]
      from res have "session_outcome cfg now token (u_id u) (Some ck) (sv_db s) (sv_db s')" by simp
      note ses = session_outcome_Some [OF this]
      have "recovery_codes (sv_db s') = recovery_codes (sv_db s)"
        using res by (auto simp: session_outcome_def session_added_def dest: same_dataD)
      then show ?thesis using Some res ses by (auto simp: second_factor_def)
    qed
  next
    case True
    obtain rr d where con: "ConsumeRecoveryCode ?verify (u_id u) ?raw (sv_db s) = (rr, d)"
      by (cases "ConsumeRecoveryCode ?verify (u_id u) ?raw (sv_db s)")
    note frame = ConsumeRecoveryCode_frame [OF con]
    show ?thesis
    proof (cases rr)
      case (Inl e)
      then have "rs_cookie resp = None" "sv_db s' = d"
        using assms(1) True con by (auto simp: mfa_check_def Let_def mfa_code_def with_db_def split: if_splits)
      then show ?thesis using frame by simp
    next
      case (Inr b)
      then have fin: "mfa_finish cfg now token jti r h u b b (s\<lparr>sv_db := d\<rparr>) = (resp, s')"
        using assms(1) True con by (auto simp: mfa_check_def Let_def mfa_code_def with_db_def split: if_splits)
      show ?thesis
      proof (cases "rs_cookie resp")
        case None
        then show ?thesis using mfa_finish_result [OF fin] frame by (auto dest!: same_dataD(2))
      next
        case (Some ck)
        note res = mfa_finish_result [OF fin, unfolded Some]
        from res have "session_outcome cfg now token (u_id u) (Some ck) d (sv_db s')" by simp
        note ses = session_outcome_Some [OF this]
        have "recovery_codes (sv_db s') = recovery_codes d"
          using res by (auto simp: session_outcome_def session_added_def dest: same_dataD)
        then have "usable_codes ?verify (u_id u) ?raw (sv_db s') = usable_codes ?verify (u_id u) ?raw d"
          by (simp add: usable_codes_def)
        moreover have b using res by simp
        ultimately have "second_factor cfg now req ts u (sv_db s) (sv_db s')"
          using ConsumeRecoveryCode_Inr [OF con [unfolded Inr] assms(2)] True
          by (auto simp: second_factor_def Let_def)
        then show ?thesis using Some res ses frame by simp
      qed
    qed
  qed
qed

lemma getMFAChallenge_Some:
  "getMFAChallenge now h m = (Some c, m') \<Longrightarrow> m h = Some c \<and> now \<le> mc_expires_at c \<and> m' = m"
  by (auto simp: getMFAChallenge_def split: option.splits if_splits)

text \<open>The three lookups before the code is checked.\<close>

lemma handleMFAComplete_reaches:
  assumes "handleMFAComplete cfg now token jti r body s = (resp, s')"
  obtains (stopped) "rs_cookie resp = None" "same_data (sv_db s) (sv_db s')"
  | (checked) req c u ts s1 where "body = Some req"
      "sv_mfa s (cr_hash (cf_crypto cfg) (mr_token req)) = Some c" "now \<le> mc_expires_at c"
      "tget u_id (mc_user_id c) (users (sv_db s)) = Some u"
      "tget ts_user_id (u_id u) (totp_secrets (sv_db s)) = Some ts" "ts_enabled ts"
      "same_data (sv_db s) (sv_db s1)"
      "mfa_check cfg now token jti r req (cr_hash (cf_crypto cfg) (mr_token req)) (scan_user u) (scan_totp ts) s1
        = (resp, s')"
proof (cases body)
  case None
  then show ?thesis using assms stopped by (auto simp: handleMFAComplete_def)
next
  case (Some req)
  let ?h = "cr_hash (cf_crypto cfg) (mr_token req)"
  obtain co m where get: "getMFAChallenge now ?h (sv_mfa s) = (co, m)"
    by (cases "getMFAChallenge now ?h (sv_mfa s)")
  show ?thesis
  proof (cases "mr_token req = '''' \<or> mr_code req = '''' \<and> mr_totp_code req = '''' \<and> mr_recovery_code req = '''' \<or> co = None")
    case True
    then show ?thesis using assms stopped get Some
      by (auto simp: handleMFAComplete_def Let_def split: if_splits)
  next
    case False
    then obtain c where c: "co = Some c" by auto
    note mc = getMFAChallenge_Some [OF get [unfolded c]]
    obtain r1 d1 where g1: "GetUserByID (mc_user_id c) (sv_db s) = (r1, d1)"
      by (cases "GetUserByID (mc_user_id c) (sv_db s)")
    have same1: "same_data (sv_db s) d1"
      by (rule GetUserByID_cases [of "mc_user_id c" "sv_db s"]) (use g1 in auto)
    show ?thesis
    proof (cases r1)
      case (Inl e)
      then show ?thesis using assms stopped get Some False c g1 same1
        by (auto simp: handleMFAComplete_def Let_def with_db_def drop_challenge_def split: if_splits)
    next
      case (Inr v)
      from GetUserByID_Inr [OF g1 [unfolded Inr]] obtain u where
        u: "tget u_id (mc_user_id c) (users (sv_db s)) = Some u" "v = scan_user u" by blast
      obtain r2 d2 where g2: "GetTOTPSecret (u_id u) d1 = (r2, d2)"
        by (cases "GetTOTPSecret (u_id u) d1")
      have same2: "same_data (sv_db s) d2"
        by (rule GetTOTPSecret_cases [of "u_id u" d1]) (use g2 same1 same_data_trans [OF same1] in auto)
      show ?thesis
      proof (cases "\<exists>ts. r2 = Inr ts \<and> ts_enabled ts")
        case en: False
        then show ?thesis using assms stopped get Some False c g1 Inr u g2 same2
          by (cases r2) (auto simp: handleMFAComplete_def Let_def with_db_def drop_challenge_def split: if_splits)
      next
        case True
        then obtain ts where ts: "r2 = Inr ts" "ts_enabled ts" by blast
        from GetTOTPSecret_Inr [OF g2 [unfolded ts(1)]] obtain x where
          x: "tget ts_user_id (u_id u) (totp_secrets (sv_db s)) = Some x" "ts = scan_totp x"
          using same_dataD [OF same1] by auto
        have "mfa_check cfg now token jti r req ?h (scan_user u) (scan_totp x) (s\<lparr>sv_mfa := m, sv_db := d2\<rparr>) = (resp, s')"
          using assms get Some False c g1 Inr u g2 ts x
          by (auto simp: handleMFAComplete_def Let_def with_db_def split: if_splits)
        then show ?thesis using checked [of req c u x "s\<lparr>sv_mfa := m, sv_db := d2\<rparr>"] Some mc u x ts same2 by simp
      qed
    qed
  qed
qed

text \<open>C2: completing an MFA login sets a session cookie only for a live challenge whose user has TOTP
  enabled, and only with a second factor of that user (a code for the secret, or an unused recovery
  code, which is thereby used); the session is that user's and the challenge is gone.  Otherwise the
  sessions are unchanged.\<close>

theorem mfa_complete_sound:
  assumes "handleMFAComplete cfg now token jti r body s = (resp, s')" "db_wf (sv_db s)"
  shows "case rs_cookie resp of
      None \<Rightarrow> sessions (sv_db s') = sessions (sv_db s)
    | Some ck \<Rightarrow> \<exists>req c u ts.
        body = Some req
        \<and> sv_mfa s (cr_hash (cf_crypto cfg) (mr_token req)) = Some c \<and> now \<le> mc_expires_at c
        \<and> tget u_id (mc_user_id c) (users (sv_db s)) = Some u
        \<and> tget ts_user_id (u_id u) (totp_secrets (sv_db s)) = Some ts \<and> ts_enabled ts
        \<and> second_factor cfg now req ts u (sv_db s) (sv_db s')
        \<and> sv_mfa s' (cr_hash (cf_crypto cfg) (mr_token req)) = None
        \<and> sessions (sv_db s') = sessions (sv_db s) @ [session_row cfg now (ck_value ck) (u_id u)]"
proof (cases rule: handleMFAComplete_reaches [OF assms(1)])
  case 1
  then show ?thesis by (simp add: same_dataD)
next
  case (2 req c u ts s1)
  have wf: "db_wf (sv_db s1)" using assms(2) same_dataD [OF 2(7)] by simp
  have "second_factor cfg now req (scan_totp ts) (scan_user u) (sv_db s1) (sv_db s')
      \<Longrightarrow> second_factor cfg now req ts u (sv_db s) (sv_db s')"
    using usable_codes_same [OF 2(7)] same_dataD [OF 2(7)] by (simp add: second_factor_def Let_def)
  then show ?thesis
    using mfa_check_result [OF 2(8) wf] 2(1-6) same_dataD [OF 2(7)] by (auto split: option.splits)
qed

definition demo_mfa :: "auth_body response \<times> server" where
  "demo_mfa = handleMFAComplete demo_cfg 900 (Some ''tok'') ''j'' demo_request
     (Some \<lparr>mr_token = ''m'', mr_code = '''', mr_totp_code = '''', mr_recovery_code = ''AAAA''\<rparr>)
     (demo_server\<lparr>sv_mfa := [''h:m'' \<mapsto> \<lparr>mc_user_id = 2, mc_expires_at = 1000\<rparr>]\<rparr>)"

theorem mfa_complete_sound_witness:
  "rs_cookie (fst demo_mfa) = Some \<lparr>ck_value = ''tok'', ck_max_age = 86400\<rparr> \<and>
   sv_mfa (snd demo_mfa) ''h:m'' = None \<and> length (sessions (sv_db (snd demo_mfa))) = 1"
proof -
  let ?s = "demo_server\<lparr>sv_mfa := [''h:m'' \<mapsto> \<lparr>mc_user_id = 2, mc_expires_at = 1000\<rparr>]\<rparr>"
  have ck: "rs_cookie (fst demo_mfa) = Some \<lparr>ck_value = ''tok'', ck_max_age = 86400\<rparr>" by code_simp
  have wf: "db_wf (sv_db ?s)" by (simp add: demo_server_def demo_db_wf)
  have none: "sessions (sv_db demo_server) = []"
    by (simp add: demo_server_def demo_db_def empty_db_def)
  show ?thesis
    using mfa_complete_sound [OF surjective_pairing wf, of demo_cfg 900 "Some ''tok''" "''j''" demo_request
        "Some \<lparr>mr_token = ''m'', mr_code = '''', mr_totp_code = '''', mr_recovery_code = ''AAAA''\<rparr>"]
    unfolding demo_mfa_def [symmetric] by (auto simp: ck none)
qed

section \<open>Middleware\<close>

text \<open>Which user a request acts for: the credential it carried, and the user row it belongs to.\<close>

definition acts_for :: "config \<Rightarrow> gotime \<Rightarrow> request \<Rightarrow> db \<Rightarrow> user \<Rightarrow> string option \<Rightarrow> bool" where
  "acts_for cfg now r d row scopes \<longleftrightarrow> tget u_id (u_id row) (users d) = Some row \<and>
     (if rq_cookie r \<noteq> None \<and> rq_cookie r \<noteq> Some '''' then
        scopes = rq_scopes r \<and>
        (\<exists>expires. session_held d (cr_hash (cf_crypto cfg) (the (rq_cookie r))) = Some (u_id row, expires) \<and> now \<le> expires)
      else \<exists>raw. bearer_token r = Some raw \<and>
        (if has_prefix raw ''helling_'' then
           \<exists>tok. tget at_token_hash (cr_hash (cf_crypto cfg) raw) (api_tokens d) = Some tok
             \<and> at_user_id tok = u_id row \<and> scopes = Some (at_scopes tok) \<and> ValidScopes (at_scopes tok)
             \<and> (\<forall>t. at_expires_at tok = Some t \<longrightarrow> now < from_unix t)
         else \<exists>claims. cf_jwt_signer cfg \<and> cr_jwt_verify (cf_crypto cfg) now raw = Some claims
             \<and> UserID claims = u_id row \<and> scopes = None))"

lemma TouchSession_frame: "TouchSession now h d = (r, d') \<Longrightarrow> users d' = users d \<and> api_tokens d' = api_tokens d"
  unfolding TouchSession_def
  by (rule exec_cases [of "\<lambda>d. d\<lparr>sessions := tupdate (\<lambda>r. se_id r = h) (\<lambda>r. r\<lparr>se_last_seen_at := to_unix now\<rparr>) (sessions d)\<rparr>" d]) auto

lemma authenticateAPIToken_Inr:
  assumes "authenticateAPIToken cfg now raw s = (Inr (u, scopes), s')"
  shows "\<exists>tok row. tget at_token_hash (cr_hash (cf_crypto cfg) raw) (api_tokens (sv_db s)) = Some tok
    \<and> tget u_id (at_user_id tok) (users (sv_db s)) = Some row \<and> u = scan_user row
    \<and> scopes = at_scopes tok \<and> ValidScopes (at_scopes tok)
    \<and> (\<forall>t. at_expires_at tok = Some t \<longrightarrow> now < from_unix t)"
proof -
  let ?h = "cr_hash (cf_crypto cfg) raw"
  obtain tr d1 d2 where g: "GetAPITokenByHash ?h (sv_db s) = (Inr tr, d1)"
    and ok: "ValidScopes (at_scopes tr)" "\<not> (case at_expires_at tr of None \<Rightarrow> False | Some t \<Rightarrow> \<not> now < t)"
    and gu: "GetUserByID (at_user_id tr) d1 = (Inr u, d2)" and sc: "scopes = at_scopes tr"
    using assms
    by (auto simp: authenticateAPIToken_def Let_def elim!: with_dbE split: sum.splits if_splits)
  from GetAPITokenByHash_Inr [OF g] obtain tok fs where
    tok: "tget at_token_hash ?h (api_tokens (sv_db s)) = Some tok" "tr = scan_api_token tok" "d1 = (sv_db s)\<lparr>faults := fs\<rparr>"
    by blast
  with GetUserByID_Inr [OF gu] ok sc show ?thesis
    by (auto simp: scan_api_token_def split: option.splits)
qed

lemma auth_ok:
  assumes "authMiddleware cfg now r s = (Inr r' :: 'p response + request, s')"
  shows "\<exists>row. rq_user r' = Some (scan_user row) \<and> acts_for cfg now r (sv_db s) row (rq_scopes r')"
proof (cases "rq_cookie r \<noteq> None \<and> rq_cookie r \<noteq> Some ''''")
  case True
  let ?h = "cr_hash (cf_crypto cfg) (the (rq_cookie r))"
  obtain sess d1 where g: "GetSessionByTokenHash now ?h (sv_db s) = (Inr sess, d1)"
    and rest: "with_db (GetUserByID (se_user_id sess)) (\<lambda>res s. case res of
            Inl e \<Rightarrow>
              if e = ErrNotFound then with_db (DeleteSession ?h)
                (\<lambda>_ s. (Inl (writeError 401 ''no_session'' ''user no longer exists''), s)) s
              else (Inl internalError, s)
          | Inr u \<Rightarrow> with_db (TouchSession now ?h) (\<lambda>_ s. (Inr (r\<lparr>rq_user := Some u\<rparr>), s)) s) (s\<lparr>sv_db := d1\<rparr>)
        = (Inr r' :: 'p response + request, s')"
    using assms True by (auto simp: authMiddleware_def Let_def elim!: with_dbE split: sum.splits)
  from GetSession_held [OF g] obtain fs where
    held: "session_held (sv_db s) ?h = Some (se_user_id sess, se_expires_at sess)" "now \<le> se_expires_at sess"
      "d1 = (sv_db s)\<lparr>faults := fs\<rparr>" by blast
  from rest obtain u d2 where gu: "GetUserByID (se_user_id sess) d1 = (Inr u, d2)" and r': "r' = r\<lparr>rq_user := Some u\<rparr>"
    by (auto elim!: with_dbE split: sum.splits if_splits)
  from GetUserByID_Inr [OF gu] held obtain row where
    row: "tget u_id (se_user_id sess) (users (sv_db s)) = Some row" "u = scan_user row" by auto
  then show ?thesis using held True r' tget_SomeD [OF row(1)] by (auto simp: acts_for_def)
next
  case False
  then obtain raw where raw: "bearer_token r = Some raw"
    using assms by (cases "bearer_token r") (auto simp: authMiddleware_def)
  with assms False obtain u scopes jti where
    b: "authenticateBearer cfg now raw s = (Inr (u, scopes, jti) :: 'p response + _, s')"
    and r': "r' = r\<lparr>rq_user := Some u, rq_scopes := scopes, rq_jwt_id := jti\<rparr>"
    by (auto simp: authMiddleware_def split: prod.splits sum.splits if_splits)
  show ?thesis
  proof (cases "has_prefix raw ''helling_''")
    case True
    then obtain sc where a: "authenticateAPIToken cfg now raw s = (Inr (u, sc) :: 'p response + _, s')"
      and sc: "scopes = (if sc = '''' then None else Some sc)"
      using b by (auto simp: authenticateBearer_def split: prod.splits sum.splits)
    from authenticateAPIToken_Inr [OF a] obtain tok row where
      tok: "tget at_token_hash (cr_hash (cf_crypto cfg) raw) (api_tokens (sv_db s)) = Some tok"
        "sc = at_scopes tok" "ValidScopes (at_scopes tok)"
        "\<forall>t. at_expires_at tok = Some t \<longrightarrow> now < from_unix t"
      and row: "tget u_id (at_user_id tok) (users (sv_db s)) = Some row" "u = scan_user row" by blast
    have "scopes = Some (at_scopes tok)" using tok(2,3) sc by (auto simp: ValidScopes_def)
    moreover have "at_user_id tok = u_id row" using tget_SomeD [OF row(1)] by simp
    ultimately show ?thesis
      using tok row r' raw True \<open>\<not> (rq_cookie r \<noteq> None \<and> rq_cookie r \<noteq> Some [])\<close>
      by (intro exI [of _ row]) (auto simp: acts_for_def)
  next
    case False
    then obtain claims d where j: "cf_jwt_signer cfg" "cr_jwt_verify (cf_crypto cfg) now raw = Some claims"
        "scopes = None" and gu: "GetUserByID (UserID claims) (sv_db s) = (Inr u, d)"
      using b by (auto simp: authenticateBearer_def elim!: with_dbE split: sum.splits option.splits if_splits)
    from GetUserByID_Inr [OF gu] obtain row where
      row: "tget u_id (UserID claims) (users (sv_db s)) = Some row" "u = scan_user row" by blast
    then show ?thesis using j raw r' False \<open>\<not> (rq_cookie r \<noteq> None \<and> rq_cookie r \<noteq> Some [])\<close> tget_SomeD [OF row(1)]
      by (intro exI [of _ row]) (auto simp: acts_for_def)
  qed
qed

text \<open>C3: the middleware hands on a request only for a credential that is valid now (an unexpired
  session, an API token with a known scope that has not expired, a verified JWT), acting for exactly
  the user row it belongs to, and an API token's scope travels with it.\<close>

theorem auth_middleware_sound:
  assumes "authMiddleware cfg now r s = (Inr r' :: 'p response + request, s')"
  shows "\<exists>row. rq_user r' = Some (scan_user row) \<and> acts_for cfg now r (sv_db s) row (rq_scopes r')"
  using assms by (rule auth_ok)

theorem auth_middleware_sound_witness:
  "\<exists>row. rq_user (projr (fst (authMiddleware demo_cfg 5 (demo_request\<lparr>rq_authorization := ''Bearer helling_x''\<rparr>) demo_server2
      :: (unit response + request) \<times> server))) = Some (scan_user row) \<and>
    acts_for demo_cfg 5 (demo_request\<lparr>rq_authorization := ''Bearer helling_x''\<rparr>) demo_db2 row (Some ''write'')"
proof -
  let ?r = "demo_request\<lparr>rq_authorization := ''Bearer helling_x''\<rparr>"
  let ?a = "authMiddleware demo_cfg 5 ?r demo_server2 :: (unit response + request) \<times> server"
  have ok: "isl (fst ?a) = False" "rq_scopes (projr (fst ?a)) = Some ''write''" by code_simp+
  then have "?a = (Inr (projr (fst ?a)), snd ?a)" by (metis sum.collapse(2) prod.collapse)
  have "sv_db demo_server2 = demo_db2" by (simp add: demo_server2_def)
  with auth_middleware_sound [OF \<open>?a = _\<close>] show ?thesis by (simp only: ok)
qed

section \<open>Ending a session\<close>

text \<open>after a logout that answered 204 the cookie opens nothing: whatever sessions are issued,
  looked up and revoked afterwards, unless that very cookie is issued again the middleware refuses it.\<close>

theorem logout_ends_session:
  assumes "handleLogout cfg r s = (resp, s')" "rs_status resp = 204"
    and "rq_cookie r2 = rq_cookie r" "h = cr_hash (cf_crypto cfg) (the (rq_cookie r))"
    and "\<forall>t a. Issue t h a \<notin> set cs"
    and "sv_db s2 = cred_run session_issue session_redeem session_revoke cs (sv_db s')"
  shows "\<exists>refusal. fst (authMiddleware cfg now r2 s2) = Inl refusal \<and> rs_status refusal \<in> {401, 500}"
proof -
  from assms(1,2) obtain u d where ck: "rq_cookie r \<noteq> None" "rq_cookie r \<noteq> Some ''''"
    and del: "DeleteSession h (sv_db s) = (Inr u, d)" and d: "sv_db s' = d"
    by (auto simp: handleLogout_def assms(4) elim!: with_dbE split: if_splits sum.splits)
  then have "session_revoke h (sv_db s) = (True, sv_db s')" by (simp add: session_revoke_def)
  from sess.revoked_never_redeemed [OF this assms(5)]
  have none: "fst (session_redeem now h (sv_db s2)) = None" using assms(6) by simp
  obtain res d2 where g: "GetSessionByTokenHash now h (sv_db s2) = (res, d2)"
    by (cases "GetSessionByTokenHash now h (sv_db s2)")
  with none obtain e where "res = Inl e" by (cases res) (auto simp: session_redeem_def)
  then show ?thesis using g ck assms(3,4) by (auto simp: authMiddleware_def with_db_def Let_def)
qed

theorem logout_ends_session_witness:
  "rs_status (fst (handleLogout demo_cfg (demo_request\<lparr>rq_cookie := Some ''cookie''\<rparr>) demo_server2)) = 204 \<and>
   (\<exists>refusal. fst (authMiddleware demo_cfg 6 (demo_request\<lparr>rq_cookie := Some ''cookie''\<rparr>)
     (snd (handleLogout demo_cfg (demo_request\<lparr>rq_cookie := Some ''cookie''\<rparr>) demo_server2))) = Inl refusal
     \<and> rs_status refusal \<in> {401, 500})"
proof -
  let ?r = "demo_request\<lparr>rq_cookie := Some ''cookie''\<rparr>"
  have ok: "rs_status (fst (handleLogout demo_cfg ?r demo_server2)) = 204" by code_simp
  show ?thesis
    by (intro conjI ok logout_ends_session [OF surjective_pairing ok refl refl, of "[]"]) simp_all
qed

text \<open>a challenge that completed a login is spent: whatever is done with the challenges
  afterwards, unless the same token is issued again it is never accepted again.\<close>

theorem mfa_challenge_single_use:
  assumes "handleMFAComplete cfg now token jti r (Some req) s = (resp, s')" "db_wf (sv_db s)"
    and "rs_cookie resp \<noteq> None" "h = cr_hash (cf_crypto cfg) (mr_token req)"
    and "\<forall>t a. Issue t h a \<notin> set cs"
    and "m = cred_run (\<lambda>now h c m. (True, storeMFAChallenge now h c m)) getMFAChallenge
      (\<lambda>h m. (True, deleteMFAChallenge h m)) cs (sv_mfa s')"
  shows "fst (getMFAChallenge later h m) = None"
proof (cases rule: handleMFAComplete_reaches [OF assms(1)])
  case 1
  then show ?thesis using assms(3) by simp
next
  case (2 req' c u ts s1)
  have "db_wf (sv_db s1)" using assms(2) same_dataD [OF 2(7)] by simp
  from mfa_check_result [OF 2(8) this] have "sv_mfa s' h = None"
    using assms(3,4) 2(1) by (auto split: option.splits)
  then have del: "(True, deleteMFAChallenge h (sv_mfa s')) = (True, sv_mfa s')"
    by (simp add: deleteMFAChallenge_def fun_upd_idem)
  show ?thesis
    using mfa.revoked_never_redeemed [OF del assms(5), of later] by (simp add: assms(6))
qed

theorem mfa_challenge_single_use_witness:
  "rs_cookie (fst demo_mfa) \<noteq> None \<and> fst (getMFAChallenge 901 ''h:m'' (sv_mfa (snd demo_mfa))) = None"
proof -
  let ?s = "demo_server\<lparr>sv_mfa := [''h:m'' \<mapsto> \<lparr>mc_user_id = 2, mc_expires_at = 1000\<rparr>]\<rparr>"
  have ck: "rs_cookie (fst demo_mfa) \<noteq> None" by code_simp
  have wf: "db_wf (sv_db ?s)" by (simp add: demo_server_def demo_db_wf)
  have "fst (getMFAChallenge 901 (cr_hash (cf_crypto demo_cfg) ''m'') (sv_mfa (snd demo_mfa))) = None"
    using mfa_challenge_single_use [OF surjective_pairing wf, of demo_cfg 900 "Some ''tok''" "''j''" demo_request
        "\<lparr>mr_token = ''m'', mr_code = '''', mr_totp_code = '''', mr_recovery_code = ''AAAA''\<rparr>" _ "[]"] ck
    unfolding demo_mfa_def [symmetric] by simp
  with ck show ?thesis by simp
qed

end
