(* ===== verification/Server_Routes.thy ===== *)
theory Server_Routes
  imports Server_Auth_Props
begin

text \<open>
  The route table of \<open>server.go\<close> (\<open>registerV1Routes\<close>, mounted under \<open>/v1\<close> and \<open>/api/v1\<close>) with the
  middleware each route passes, in the order chi applies it, and what that middleware guarantees.
\<close>

datatype guard = GPublic | GRunner | GAuth | GAuthWrite | GAdmin

text \<open>Method, pattern, handler, guard; in the order of the source.\<close>

definition registerV1Routes :: "(string \<times> string \<times> string \<times> guard) list" where
  "registerV1Routes = [
     (''GET'', ''/healthz'', ''handleHealth'', GPublic),
     (''GET'', ''/version'', ''handleVersion'', GPublic),
     (''POST'', ''/auth/login'', ''handleLogin'', GPublic),
     (''GET'', ''/auth/setup/status'', ''handleSetupStatus'', GPublic),
     (''POST'', ''/auth/setup'', ''handleSetup'', GPublic),
     (''POST'', ''/auth/mfa/complete'', ''handleMFAComplete'', GPublic),
     (''POST'', ''/internal/schedules/{id}/run'', ''handleRunSchedule'', GRunner),
     (''POST'', ''/auth/logout'', ''handleLogout'', GAuth),
     (''GET'', ''/auth/me'', ''handleMe'', GAuth),
     (''POST'', ''/auth/totp/setup'', ''handleTOTPSetup'', GAuthWrite),
     (''POST'', ''/auth/totp/verify'', ''handleTOTPVerify'', GAuthWrite),
     (''DELETE'', ''/auth/totp'', ''handleTOTPDelete'', GAuthWrite),
     (''GET'', ''/auth/tokens'', ''handleListTokens'', GAuth),
     (''POST'', ''/auth/tokens'', ''handleCreateToken'', GAuthWrite),
     (''DELETE'', ''/auth/tokens/{id}'', ''handleRevokeToken'', GAuthWrite),
     (''GET'', ''/instances'', ''handleListInstances'', GAuth),
     (''POST'', ''/instances'', ''handleCreateInstance'', GAuthWrite),
     (''GET'', ''/instances/{name}'', ''handleGetInstance'', GAuth),
     (''DELETE'', ''/instances/{name}'', ''handleDeleteInstance'', GAuthWrite),
     (''POST'', ''/instances/{name}/start'', ''handleStartInstance'', GAuthWrite),
     (''POST'', ''/instances/{name}/stop'', ''handleStopInstance'', GAuthWrite),
     (''GET'', ''/operations'', ''handleListOperations'', GAuth),
     (''GET'', ''/operations/{id}'', ''handleGetOperation'', GAuth),
     (''GET'', ''/system/info'', ''handleSystemInfo'', GAuth),
     (''GET'', ''/system/hardware'', ''handleSystemHardware'', GAuth),
     (''GET'', ''/system/diagnostics'', ''handleSystemDiagnostics'', GAuth),
     (''GET'', ''/events'', ''handleEvents'', GAuth),
     (''GET'', ''/users'', ''handleListUsers'', GAdmin),
     (''POST'', ''/users'', ''handleCreateUser'', GAdmin),
     (''GET'', ''/users/{id}'', ''handleGetUser'', GAdmin),
     (''PATCH'', ''/users/{id}'', ''handleUpdateUser'', GAdmin),
     (''PUT'', ''/users/{id}/scope'', ''handleUpdateUserScope'', GAdmin),
     (''DELETE'', ''/users/{id}'', ''handleDeleteUser'', GAdmin),
     (''GET'', ''/system/config'', ''handleSystemConfig'', GAdmin),
     (''PUT'', ''/system/config'', ''handleSystemConfigUpdate'', GAdmin),
     (''POST'', ''/system/upgrade'', ''handleSystemUpgrade'', GAdmin),
     (''GET'', ''/schedules'', ''handleListSchedules'', GAdmin),
     (''POST'', ''/schedules'', ''handleCreateSchedule'', GAdmin),
     (''GET'', ''/schedules/{id}'', ''handleGetSchedule'', GAdmin),
     (''PATCH'', ''/schedules/{id}'', ''handleUpdateSchedule'', GAdmin),
     (''DELETE'', ''/schedules/{id}'', ''handleDeleteSchedule'', GAdmin),
     (''POST'', ''/schedules/{id}/run'', ''handleRunSchedule'', GAdmin),
     (''GET'', ''/webhooks'', ''handleListWebhooks'', GAdmin),
     (''POST'', ''/webhooks'', ''handleCreateWebhook'', GAdmin),
     (''GET'', ''/webhooks/{id}'', ''handleGetWebhook'', GAdmin),
     (''PATCH'', ''/webhooks/{id}'', ''handleUpdateWebhook'', GAdmin),
     (''DELETE'', ''/webhooks/{id}'', ''handleDeleteWebhook'', GAdmin),
     (''POST'', ''/webhooks/{id}/test'', ''handleTestWebhook'', GAdmin),
     (''GET'', ''/bmc'', ''handleListBMC'', GAdmin),
     (''POST'', ''/bmc'', ''handleCreateBMC'', GAdmin),
     (''GET'', ''/bmc/{id}'', ''handleGetBMC'', GAdmin),
     (''DELETE'', ''/bmc/{id}'', ''handleDeleteBMC'', GAdmin),
     (''POST'', ''/bmc/{id}/power'', ''handleBMCPower'', GAdmin),
     (''GET'', ''/bmc/{id}/sensors'', ''handleBMCSensors'', GAdmin),
     (''GET'', ''/bmc/{id}/sel'', ''handleBMCSEL'', GAdmin),
     (''GET'', ''/kubernetes'', ''handleListK8s'', GAdmin),
     (''POST'', ''/kubernetes'', ''handleCreateK8s'', GAdmin),
     (''GET'', ''/kubernetes/{name}'', ''handleGetK8s'', GAdmin),
     (''DELETE'', ''/kubernetes/{name}'', ''handleDeleteK8s'', GAdmin),
     (''POST'', ''/kubernetes/{name}/scale'', ''handleScaleK8s'', GAdmin),
     (''POST'', ''/kubernetes/{name}/upgrade'', ''handleUpgradeK8s'', GAdmin),
     (''GET'', ''/kubernetes/{name}/kubeconfig'', ''handleK8sKubeconfig'', GAdmin),
     (''GET'', ''/firewall/host'', ''handleListFirewallRules'', GAdmin),
     (''POST'', ''/firewall/host'', ''handleCreateFirewallRule'', GAdmin),
     (''DELETE'', ''/firewall/host/{id}'', ''handleDeleteFirewallRule'', GAdmin),
     (''GET'', ''/audit'', ''handleAuditQuery'', GAdmin),
     (''GET'', ''/audit/export'', ''handleAuditExport'', GAdmin),
     (''GET'', ''/notifications/channels'', ''handleListNotificationChannels'', GAdmin),
     (''POST'', ''/notifications/channels'', ''handleCreateNotificationChannel'', GAdmin),
     (''DELETE'', ''/notifications/channels/{id}'', ''handleDeleteNotificationChannel'', GAdmin),
     (''POST'', ''/notifications/channels/{id}/test'', ''handleTestNotificationChannel'', GAdmin)]"

definition run_guard ::
  "guard \<Rightarrow> config \<Rightarrow> gotime \<Rightarrow> request \<Rightarrow> server \<Rightarrow> ('p response + request) \<times> server" where
  "run_guard g cfg now r s = (case g of
     GPublic \<Rightarrow> (Inr r, s)
   | GRunner \<Rightarrow> scheduleRunnerMiddleware r s
   | GAuth \<Rightarrow> authMiddleware cfg now r s
   | GAuthWrite \<Rightarrow> (case authMiddleware cfg now r s of
       (Inl resp, s) \<Rightarrow> (Inl resp, s) | (Inr r, s) \<Rightarrow> writeScopeMiddleware r s)
   | GAdmin \<Rightarrow> (case authMiddleware cfg now r s of
       (Inl resp, s) \<Rightarrow> (Inl resp, s) | (Inr r, s) \<Rightarrow> adminMiddleware r s))"

lemma adminMiddleware_Inr:
  "adminMiddleware r s = (Inr r', s') \<Longrightarrow> r' = r \<and> s' = s \<and>
   (\<exists>u. rq_user r = Some u \<and> u_is_admin u) \<and> (rq_scopes r = None \<or> rq_scopes r = Some ''admin'')"
  by (auto simp: adminMiddleware_def split: option.splits if_splits)

lemma writeScopeMiddleware_Inr:
  "writeScopeMiddleware r s = (Inr r', s') \<Longrightarrow> r' = r \<and> s' = s \<and>
   (\<forall>sc. rq_scopes r = Some sc \<longrightarrow> scopeAllows sc ''write'')"
  by (auto simp: writeScopeMiddleware_def tokenScopeMiddleware_def split: option.splits if_splits)

text \<open>The routes that change state without a user's write permission: the ones that establish who
  the caller is, the scheduler's, and ending one's own session.\<close>

definition open_mutations :: "string list" where
  "open_mutations = [''/auth/login'', ''/auth/setup'', ''/auth/mfa/complete'',
     ''/internal/schedules/{id}/run'', ''/auth/logout'']"

lemma mutation_guards:
  "list_all (\<lambda>(m, p, h, g). m = ''GET'' \<or> p \<in> set open_mutations \<or> g = GAuthWrite \<or> g = GAdmin) registerV1Routes"
  by code_simp

text \<open>C25: every route that is not a GET, other than login, setup, MFA completion, logout and the
  schedule run, reaches its handler only for an authenticated user whose API token (if any) allows
  writing; on an admin route only for an administrator, with an admin token (if any).\<close>

theorem mutating_routes_authorised:
  assumes "(m, p, h, g) \<in> set registerV1Routes" "m \<noteq> ''GET''" "p \<notin> set open_mutations"
    and "run_guard g cfg now r s = (Inr r' :: 'p response + request, s')"
  shows "\<exists>row. rq_user r' = Some (scan_user row) \<and> acts_for cfg now r (sv_db s) row (rq_scopes r')
    \<and> (\<forall>sc. rq_scopes r' = Some sc \<longrightarrow> scopeAllows sc ''write'')
    \<and> (g = GAdmin \<longrightarrow> u_is_admin row \<and> rq_scopes r' \<in> {None, Some ''admin''})"
proof -
  from assms(1-3) mutation_guards have g: "g = GAuthWrite \<or> g = GAdmin" by (auto simp: list_all_iff)
  with assms(4) obtain r1 s1 where auth: "authMiddleware cfg now r s = (Inr r1 :: 'p response + request, s1)"
    by (auto simp: run_guard_def split: prod.splits sum.splits)
  from auth_ok [OF auth] obtain row where
    row: "rq_user r1 = Some (scan_user row)" "acts_for cfg now r (sv_db s) row (rq_scopes r1)" by blast
  from g show ?thesis
  proof
    assume "g = GAuthWrite"
    then have "writeScopeMiddleware r1 s1 = (Inr r' :: 'p response + request, s')"
      using assms(4) auth by (simp add: run_guard_def)
    then show ?thesis using row \<open>g = GAuthWrite\<close> writeScopeMiddleware_Inr by fastforce
  next
    assume "g = GAdmin"
    then have "adminMiddleware r1 s1 = (Inr r' :: 'p response + request, s')"
      using assms(4) auth by (simp add: run_guard_def)
    from adminMiddleware_Inr [OF this] row show ?thesis by (auto simp: scopeAllows_def)
  qed
qed


definition demo_admin_run :: "(unit response + request) \<times> server" where
  "demo_admin_run = run_guard GAdmin demo_cfg 5 (demo_request\<lparr>rq_cookie := Some ''cookie''\<rparr>) demo_server2"

theorem mutating_routes_authorised_witness:
  "\<exists>row. rq_user (projr (fst demo_admin_run)) = Some (scan_user row) \<and> u_is_admin row"
proof -
  have ok: "isl (fst demo_admin_run) = False" by code_simp
  have "(''POST'', ''/users'', ''handleCreateUser'', GAdmin) \<in> set registerV1Routes"
    "''POST'' \<noteq> ''GET''" "''/users'' \<notin> set open_mutations" by code_simp+
  moreover have "run_guard GAdmin demo_cfg 5 (demo_request\<lparr>rq_cookie := Some ''cookie''\<rparr>) demo_server2
      = (Inr (projr (fst demo_admin_run)) :: unit response + request, snd demo_admin_run)"
    using ok by (cases "fst demo_admin_run") (auto simp: demo_admin_run_def prod_eq_iff)
  ultimately show ?thesis using mutating_routes_authorised by blast
qed

end
