(* ===== verification/Server_Enrol_Props.thy ===== *)
theory Server_Enrol_Props
  imports Server_Auth_Props
begin

text \<open>
  Setup creates one administrator and only with the setup token; an API token never carries more
  than its creator had, and is revoked only by its owner.
\<close>

section \<open>Scopes are ordered\<close>

lemma scopeAllows_trans:
  "scopeAllows a b \<Longrightarrow> ValidScopes b \<Longrightarrow> scopeAllows b c \<Longrightarrow> scopeAllows a c"
  by (auto simp: scopeAllows_def ValidScopes_def split: if_splits)

section \<open>API tokens\<close>

lemma CreateAPIToken_result:
  assumes "CreateAPIToken now uuid uid name hash scopes expires d = (res, d')"
  shows "(\<exists>e. res = Inl e \<and> same_data d d') \<or>
    (\<exists>i row. uuid = Some i \<and> api_tokens d' = api_tokens d @ [row] \<and>
      row = \<lparr>at_id = i, at_user_id = uid, at_name = name, at_token_hash = hash, at_scopes = scopes,
        at_created_at = to_unix now, at_expires_at = map_option to_unix expires, at_last_used_at = None\<rparr> \<and>
      res = Inr \<lparr>at_id = i, at_user_id = uid, at_name = name, at_token_hash = hash, at_scopes = scopes,
        at_created_at = now, at_expires_at = expires, at_last_used_at = None\<rparr>)"
proof (cases uuid)
  case None
  then show ?thesis using assms by (auto simp: CreateAPIToken_def dfail_def)
next
  case (Some i)
  let ?row = "\<lparr>at_id = i, at_user_id = uid, at_name = name, at_token_hash = hash, at_scopes = scopes,
        at_created_at = to_unix now, at_expires_at = map_option to_unix expires, at_last_used_at = None\<rparr>"
  let ?f = "\<lambda>d. if tget at_id i (api_tokens d) \<noteq> None \<or> tget at_token_hash hash (api_tokens d) \<noteq> None
         then (Inl ErrUnique, d)
         else if tget u_id uid (users d) = None then (Inl ErrForeignKey, d)
         else (Inr (), d\<lparr>api_tokens := api_tokens d @ [?row]\<rparr>)"
  consider (run) fs where "stmt ?f d = ?f (d\<lparr>faults := fs\<rparr>)"
    | (fault) fs where "stmt ?f d = (Inl ErrIO, d\<lparr>faults := fs\<rparr>)" by (rule stmt_cases)
  then show ?thesis
  proof cases
    case run
    then show ?thesis using assms Some
      by (auto simp: CreateAPIToken_def dbind_def dret_def split: if_splits)
  next
    case fault
    then show ?thesis using assms Some by (auto simp: CreateAPIToken_def dbind_def)
  qed
qed

text \<open>C26: a created API token belongs to the caller, has a known scope and is stored by its hash; when
  the caller used an API token itself, the new one allows nothing the old one did not.  A response
  other than 201 creates no token.\<close>

theorem create_token_no_escalation:
  assumes "handleCreateToken cfg now random uuid r body s = (resp, s')"
  shows "if rs_status resp = 201 then
      \<exists>u buf tok. rq_user r = Some u \<and> random = Some buf
        \<and> api_tokens (sv_db s') = api_tokens (sv_db s) @ [tok]
        \<and> at_user_id tok = u_id u \<and> ValidScopes (at_scopes tok)
        \<and> at_token_hash tok = cr_hash (cf_crypto cfg) (''helling_'' @ buf)
        \<and> (\<forall>held required. rq_scopes r = Some held \<longrightarrow> scopeAllows (at_scopes tok) required \<longrightarrow> scopeAllows held required)
    else api_tokens (sv_db s') = api_tokens (sv_db s)"
proof (cases "\<exists>u name scopes0 buf. rq_user r = Some u \<and> body = Some (name, scopes0) \<and> random = Some buf \<and> name \<noteq> ''''
    \<and> ValidScopes (requested_scopes scopes0)
    \<and> \<not> (case rq_scopes r of None \<Rightarrow> False | Some have \<Rightarrow> \<not> scopeAllows have (requested_scopes scopes0))")
  case False
  then show ?thesis using assms
    by (auto simp: handleCreateToken_def Let_def NewAPIToken_def split: option.splits prod.splits if_splits)
next
  case True
  then obtain u name scopes0 buf where go: "rq_user r = Some u" "body = Some (name, scopes0)" "random = Some buf" "name \<noteq> ''''"
    and ok0: "ValidScopes (requested_scopes scopes0)"
      "\<not> (case rq_scopes r of None \<Rightarrow> False | Some have \<Rightarrow> \<not> scopeAllows have (requested_scopes scopes0))"
    by blast
  let ?scopes = "requested_scopes scopes0"
  have ok: "ValidScopes ?scopes" "\<not> (case rq_scopes r of None \<Rightarrow> False | Some have \<Rightarrow> \<not> scopeAllows have ?scopes)"
    by (rule ok0)+
  let ?h = "cr_hash (cf_crypto cfg) (''helling_'' @ buf)"
  obtain res d where cr: "CreateAPIToken now uuid (u_id u) name ?h ?scopes None (sv_db s) = (res, d)"
    by (cases "CreateAPIToken now uuid (u_id u) name ?h ?scopes None (sv_db s)")
  from assms go ok cr have out: "(resp, s') = (case res of
               Inl _ \<Rightarrow> (internalError, s\<lparr>sv_db := d\<rparr>)
             | Inr t \<Rightarrow> (writeJSON 201 (NewTokenBody (token_summary_of t) (''helling_'' @ buf)),
                 audit r ''auth.token.create'' ''success'' ''api_token'' (at_id t) ''API token created'' (s\<lparr>sv_db := d\<rparr>)))"
    by (cases res) (simp_all add: handleCreateToken_def Let_def NewAPIToken_def with_db_def)
  from CreateAPIToken_result [OF cr] show ?thesis
  proof (elim disjE exE conjE)
    fix e assume "res = Inl e" "same_data (sv_db s) d"
    then show ?thesis using out by (simp add: same_dataD)
  next
    fix i row assume *: "api_tokens d = api_tokens (sv_db s) @ [row]"
      "row = \<lparr>at_id = i, at_user_id = u_id u, at_name = name, at_token_hash = ?h, at_scopes = ?scopes,
        at_created_at = to_unix now, at_expires_at = map_option to_unix None, at_last_used_at = None\<rparr>"
      "res = Inr \<lparr>at_id = i, at_user_id = u_id u, at_name = name, at_token_hash = ?h, at_scopes = ?scopes,
        at_created_at = now, at_expires_at = None, at_last_used_at = None\<rparr>"
    have "scopeAllows held required" if "rq_scopes r = Some held" "scopeAllows ?scopes required" for held required
      using scopeAllows_trans [OF _ ok(1) that(2)] ok(2) that(1) by simp
    then show ?thesis using out * go ok by auto
  qed
qed

definition demo_create_token :: "auth_body response \<times> server" where
  "demo_create_token = handleCreateToken demo_cfg 5 (Some ''new'') (Some ''t2'')
     (demo_request\<lparr>rq_user := Some (demo_user 2 ''alice'' False), rq_scopes := Some ''write''\<rparr>) (Some (''ci2'', ''read'')) demo_server2"

theorem create_token_no_escalation_witness:
  "rs_status (fst demo_create_token) = 201 \<and>
   (\<exists>tok. api_tokens (sv_db (snd demo_create_token)) = api_tokens demo_db2 @ [tok] \<and> at_user_id tok = 2)"
proof -
  have ok: "rs_status (fst demo_create_token) = 201" by code_simp
  have "sv_db demo_server2 = demo_db2" by (simp add: demo_server2_def)
  then show ?thesis
    using create_token_no_escalation [OF surjective_pairing, of demo_cfg 5 "Some ''new''" "Some ''t2''"
        "demo_request\<lparr>rq_user := Some (demo_user 2 ''alice'' False), rq_scopes := Some ''write''\<rparr>" "Some (''ci2'', ''read'')" demo_server2]
    unfolding demo_create_token_def [symmetric] by (auto simp: ok demo_user_def)
qed

text \<open>revoking removes exactly the token named, and only when it is the caller's own.\<close>

theorem revoke_token_own_only:
  assumes "handleRevokeToken r tid s = (resp, s')"
  shows "if rs_status resp = 204 then
      \<exists>u tok. rq_user r = Some u \<and> tok \<in> set (api_tokens (sv_db s)) \<and> at_id tok = tid \<and> at_user_id tok = u_id u
        \<and> api_tokens (sv_db s') = filter (\<lambda>t. at_id t \<noteq> tid) (api_tokens (sv_db s))
    else api_tokens (sv_db s') = api_tokens (sv_db s)"
proof (cases "rq_user r")
  case None
  then show ?thesis using assms by (auto simp: handleRevokeToken_def)
next
  case (Some u)
  let ?q = "\<lambda>d. map scan_api_token
     (sort_key (\<lambda>r. - at_created_at r) (filter (\<lambda>r. at_user_id r = u_id u) (api_tokens d)))"
  obtain res d where q: "query ?q (sv_db s) = (res, d)" by (cases "query ?q (sv_db s)")
  have frame: "api_tokens d = api_tokens (sv_db s)"
    using contentD(4) [OF query_content [OF q]] .
  show ?thesis
  proof (cases "\<exists>tokens. res = Inr tokens \<and> list_ex (\<lambda>t. at_id t = tid) tokens \<and> tid \<noteq> ''''")
    case False
    then show ?thesis using assms Some q frame
      by (cases res) (auto simp: handleRevokeToken_def ListAPITokensByUser_def with_db_def split: if_splits)
  next
    case True
    then obtain tokens where t: "res = Inr tokens" "list_ex (\<lambda>t. at_id t = tid) tokens" "tid \<noteq> ''''" by blast
    obtain tok where tok: "tok \<in> set (api_tokens (sv_db s))" "at_id tok = tid" "at_user_id tok = u_id u"
      using t query_Inr [OF q [unfolded t(1)]] by (auto simp: list_ex_iff)
    let ?f = "\<lambda>d. d\<lparr>api_tokens := tdelete (\<lambda>r. at_id r = tid) (api_tokens d)\<rparr>"
    have "DeleteAPIToken tid = exec ?f" by (simp add: DeleteAPIToken_def)
    then show ?thesis
    proof (cases rule: exec_cases [of ?f d])
      case (ok fs)
      then show ?thesis using assms Some q t tok frame
        by (auto simp: handleRevokeToken_def ListAPITokensByUser_def with_db_def DeleteAPIToken_def tdelete_def)
    next
      case (fault fs)
      then show ?thesis using assms Some q t frame
        by (auto simp: handleRevokeToken_def ListAPITokensByUser_def with_db_def DeleteAPIToken_def)
    qed
  qed
qed

section \<open>Setup\<close>

lemma insert_user_result:
  assumes "insert_user name hash created admin d = (res, d')"
  shows "(\<exists>e. res = Inl e \<and> same_data d d') \<or>
    (res = Inr (user_seq d + 1) \<and> tget u_username name (users d) = None \<and> user_seq d' = user_seq d + 1
      \<and> users d' = users d @ [\<lparr>u_id = user_seq d + 1, u_username = name, u_password_hash = hash,
          u_is_admin = admin, u_incus_project = ''default'', u_created_at = created\<rparr>])"
proof -
  let ?f = "\<lambda>d. if tget u_username name (users d) \<noteq> None then (Inl ErrUnique, d)
     else let i = user_seq d + 1;
              row = \<lparr>u_id = i, u_username = name, u_password_hash = hash, u_is_admin = admin,
                     u_incus_project = ''default'', u_created_at = created\<rparr>
          in (Inr i, d\<lparr>users := users d @ [row], user_seq := i\<rparr>)"
  consider (run) fs where "stmt ?f d = ?f (d\<lparr>faults := fs\<rparr>)"
    | (fault) fs where "stmt ?f d = (Inl ErrIO, d\<lparr>faults := fs\<rparr>)" by (rule stmt_cases)
  then show ?thesis
  proof cases
    case run
    then show ?thesis using assms by (auto simp: insert_user_def Let_def split: if_splits)
  next
    case fault
    then show ?thesis using assms by (auto simp: insert_user_def)
  qed
qed

lemma CreateFirstAdmin_Inr:
  assumes "CreateFirstAdmin now name hash d = (Inr u, d')"
  shows "users d = [] \<and> users d' = [\<lparr>u_id = u_id u, u_username = name, u_password_hash = hash,
      u_is_admin = True, u_incus_project = ''default'', u_created_at = to_unix now\<rparr>]
    \<and> u_username u = name \<and> u_password_hash u = hash \<and> u_is_admin u"
proof -
  from transaction_Inr [OF assms [unfolded CreateFirstAdmin_def]] obtain fs fs' d2 where
    body: "dbind (query (\<lambda>d. length (users d))) (\<lambda>n. if 0 < n then dfail ErrUsersExist else
     dbind (insert_user name hash (to_unix now) True) (\<lambda>i.
     dret \<lparr>u_id = i, u_username = name, u_password_hash = hash, u_is_admin = True,
           u_incus_project = ''default'', u_created_at = from_unix (to_unix now)\<rparr>)) (d\<lparr>faults := fs\<rparr>) = (Inr u, d2)"
    and d': "d' = d2\<lparr>faults := fs'\<rparr>" by blast
  from dbind_query_Inr [OF body] obtain fs2 where
    "dbind (insert_user name hash (to_unix now) True) (\<lambda>i.
     dret \<lparr>u_id = i, u_username = name, u_password_hash = hash, u_is_admin = True,
           u_incus_project = ''default'', u_created_at = from_unix (to_unix now)\<rparr>) (d\<lparr>faults := fs2\<rparr>) = (Inr u, d2)"
    and empty: "users d = []" by (auto simp: dfail_def split: if_splits)
  then obtain i where ins: "insert_user name hash (to_unix now) True (d\<lparr>faults := fs2\<rparr>) = (Inr i, d2)"
    and u: "u = \<lparr>u_id = i, u_username = name, u_password_hash = hash, u_is_admin = True,
           u_incus_project = ''default'', u_created_at = from_unix (to_unix now)\<rparr>"
    by (auto simp: dbind_Inr dret_def)
  from insert_user_result [OF ins] show ?thesis using empty u d' by auto
qed

lemma CreateFirstAdmin_refused:
  assumes "users d \<noteq> []"
  shows "\<exists>e d'. CreateFirstAdmin now name hash d = (Inl e, d') \<and> content d' = content d"
proof -
  obtain res d' where run: "CreateFirstAdmin now name hash d = (res, d')"
    by (cases "CreateFirstAdmin now name hash d")
  then show ?thesis using assms CreateFirstAdmin_Inr [of now name hash d _ d']
      transaction_atomic [of _ d _ d'] by (cases res) (auto simp: CreateFirstAdmin_def)
qed

text \<open>the first administrator is created on an empty user table only, and once it exists no other
  creation, whatever its arguments and whenever it runs, changes anything.\<close>

theorem first_admin_once:
  assumes "CreateFirstAdmin now name hash d = (Inr u, d')"
  shows "users d = [] \<and> (\<exists>row. users d' = [row] \<and> u_is_admin row \<and> u_username row = name) \<and>
    (\<forall>d2 now2 name2 hash2. users d2 = users d' \<longrightarrow>
      (\<exists>e d3. CreateFirstAdmin now2 name2 hash2 d2 = (Inl e, d3) \<and> content d3 = content d2))"
  using CreateFirstAdmin_Inr [OF assms] CreateFirstAdmin_refused by auto

theorem first_admin_once_witness:
  "\<exists>d'. CreateFirstAdmin 5 ''root'' ''x'' empty_db = (Inr \<lparr>u_id = 1, u_username = ''root'', u_password_hash = ''x'',
     u_is_admin = True, u_incus_project = ''default'', u_created_at = 0\<rparr>, d') \<and> (\<exists>row. users d' = [row] \<and> u_is_admin row)"
proof -
  have "fst (CreateFirstAdmin 5 ''root'' ''x'' empty_db) = Inr \<lparr>u_id = 1, u_username = ''root'',
     u_password_hash = ''x'', u_is_admin = True, u_incus_project = ''default'', u_created_at = 0\<rparr>" by code_simp
  then have run: "CreateFirstAdmin 5 ''root'' ''x'' empty_db = (Inr \<lparr>u_id = 1, u_username = ''root'',
     u_password_hash = ''x'', u_is_admin = True, u_incus_project = ''default'', u_created_at = 0\<rparr>,
     snd (CreateFirstAdmin 5 ''root'' ''x'' empty_db))" by (metis prod.collapse)
  from first_admin_once [OF this] run show ?thesis by blast
qed


definition demo_revoke :: "auth_body response \<times> server" where
  "demo_revoke = handleRevokeToken (demo_request\<lparr>rq_user := Some (demo_user 2 ''alice'' False)\<rparr>) ''t1'' demo_server2"

theorem revoke_token_own_only_witness:
  "rs_status (fst demo_revoke) = 204 \<and>
   api_tokens (sv_db (snd demo_revoke)) = filter (\<lambda>t. at_id t \<noteq> ''t1'') (api_tokens (sv_db demo_server2))"
proof -
  have "rs_status (fst demo_revoke) = 204" by code_simp
  then show ?thesis
    using revoke_token_own_only [OF surjective_pairing, of "demo_request\<lparr>rq_user := Some (demo_user 2 ''alice'' False)\<rparr>" "''t1''" demo_server2]
    unfolding demo_revoke_def [symmetric] by auto
qed

end
