(* ===== verification/Server_Users_Props.thy ===== *)
theory Server_Users_Props
  imports Server_Users Server_Routes Server_Enrol_Props
begin

text \<open>
  What user administration guarantees, for every trust manager that behaves as \<open>project_trust\<close>
  says; the properties are stated for the managers the server is built with: none, or the service of
  \<open>Incus_Trust\<close>.
\<close>

section \<open>The steps\<close>

text \<open>The user a path parameter denotes.\<close>

definition denotes :: "string \<Rightarrow> user \<Rightarrow> bool" where
  "denotes ident row \<longleftrightarrow> (case parse_int64 ident of Some n \<Rightarrow> u_id row = n | None \<Rightarrow> u_username row = ident)"

lemma getUser_Inr:
  assumes "getUserFromIDParam ident d = (Inr u, d')"
  shows "\<exists>row fs. row \<in> set (users d) \<and> denotes ident row \<and> u = scan_user row \<and> d' = d\<lparr>faults := fs\<rparr>"
proof (cases "parse_int64 ident")
  case None
  then have "GetUserByUsername ident d = (Inr u, d')" using assms by (simp add: getUserFromIDParam_def)
  then show ?thesis using None by (auto simp: denotes_def dest!: GetUserByUsername_Inr tget_Some)
next
  case (Some n)
  then have "GetUserByID n d = (Inr u, d')" using assms by (simp add: getUserFromIDParam_def)
  then show ?thesis using Some by (auto simp: denotes_def dest!: GetUserByID_Inr tget_Some)
qed

lemma getUser_Inl: "getUserFromIDParam ident d = (Inl e, d') \<Longrightarrow> \<exists>fs. d' = d\<lparr>faults := fs\<rparr>"
  by (auto simp: getUserFromIDParam_def split: option.splits dest: GetUserByUsername_Inl GetUserByID_Inl)

lemma user_not_found_status [simp]: "rs_status (user_not_found e) \<noteq> 204" "rs_status (user_not_found e) \<noteq> 200"
  "rs_status (user_not_found e) \<noteq> 201"
  by (simp_all add: user_not_found_def)

lemma DeleteUser_cases:
  obtains (gone) fs where "tget u_id i (users d) \<noteq> None" "\<not> user_referenced i d"
      "DeleteUser i d = (Inr (), (delete_user_rows i d)\<lparr>faults := fs\<rparr>)"
  | (absent) fs where "tget u_id i (users d) = None" "DeleteUser i d = (Inr (), d\<lparr>faults := fs\<rparr>)"
  | (failed) fs e where "DeleteUser i d = (Inl e, d\<lparr>faults := fs\<rparr>)" "faults d \<noteq> [] \<or> user_referenced i d"
proof -
  let ?f = "\<lambda>d. if tget u_id i (users d) \<noteq> None \<and> user_referenced i d then (Inl ErrForeignKey, d)
     else (Inr (), if tget u_id i (users d) = None then d else delete_user_rows i d)"
  have D: "DeleteUser i d = stmt ?f d" by (simp add: DeleteUser_def)
  have ref: "user_referenced i (d\<lparr>faults := fs\<rparr>) = user_referenced i d" for fs by (simp add: user_referenced_def)
  have rows: "delete_user_rows i (d\<lparr>faults := fs\<rparr>) = (delete_user_rows i d)\<lparr>faults := fs\<rparr>" for fs
    by (simp add: delete_user_rows_def)
  have run: thesis if r: "stmt ?f d = ?f (d\<lparr>faults := fs\<rparr>)" for fs
  proof (cases "tget u_id i (users d) = None")
    case True
    then have "DeleteUser i d = (Inr (), d\<lparr>faults := fs\<rparr>)" using D r by simp
    with True show thesis by (rule absent)
  next
    case False
    show thesis
    proof (cases "user_referenced i d")
      case True
      then have "DeleteUser i d = (Inl ErrForeignKey, d\<lparr>faults := fs\<rparr>)" using D r False ref by simp
      then show thesis by (rule failed) (simp add: True)
    next
      case unref: False
      then have "DeleteUser i d = (Inr (), (delete_user_rows i d)\<lparr>faults := fs\<rparr>)" using D r False ref rows by simp
      with False unref show thesis by (rule gone)
    qed
  qed
  show ?thesis
  proof (cases "faults d")
    case Nil
    then have "stmt ?f d = ?f d" "d\<lparr>faults := []\<rparr> = d" by (simp_all add: stmt_def)
    then show ?thesis using run [of "[]"] by presburger
  next
    case (Cons b fs)
    show ?thesis
    proof (cases b)
      case True
      then have "DeleteUser i d = (Inl ErrIO, d\<lparr>faults := fs\<rparr>)" using D Cons by (simp add: stmt_def)
      then show ?thesis by (rule failed) (simp add: Cons)
    next
      case False
      then show ?thesis using run [of fs] Cons by (simp add: stmt_def)
    qed
  qed
qed

lemma delete_user_rows_fields:
  "sessions (delete_user_rows i d) = filter (\<lambda>x. se_user_id x \<noteq> i) (sessions d)"
  "api_tokens (delete_user_rows i d) = filter (\<lambda>x. at_user_id x \<noteq> i) (api_tokens d)"
  "totp_secrets (delete_user_rows i d) = filter (\<lambda>x. ts_user_id x \<noteq> i) (totp_secrets d)"
  "recovery_codes (delete_user_rows i d) = filter (\<lambda>x. rc_user_id x \<noteq> i) (recovery_codes d)"
  "users (delete_user_rows i d) = filter (\<lambda>x. u_id x \<noteq> i) (users d)"
  by (simp_all add: delete_user_rows_def tdelete_def)

text \<open>What identifies a user and lets the user in.\<close>

definition account :: "user \<Rightarrow> int \<times> string \<times> string \<times> bool" where
  "account u = (u_id u, u_username u, u_password_hash u, u_is_admin u)"

lemma access_view_accounts: "access_view d' = access_view d \<Longrightarrow> map account (users d') = map account (users d)"
  using access_viewD(1) [of d' d] by (simp add: account_def cong: map_cong)

lemma account_filter:
  "map account us' = map account us \<Longrightarrow> map account (filter (\<lambda>x. u_id x \<noteq> i) us') = map account (filter (\<lambda>x. u_id x \<noteq> i) us)"
proof -
  have f: "map account (filter (\<lambda>x. u_id x \<noteq> i) us) = filter (\<lambda>a. fst a \<noteq> i) (map account us)" for us
    by (induction us) (simp_all add: account_def)
  show "map account us' = map account us \<Longrightarrow> ?thesis" by (simp add: f)
qed

section \<open>Deleting a user\<close>

context project_trust
begin

lemma delete_user:
  assumes "handleDeleteUser tm r ident s = (resp, s')"
  shows "(rs_status resp = 204 \<longrightarrow> (\<exists>row \<in> set (users (sv_db s)). denotes ident row \<and> \<not> user_referenced (u_id row) (sv_db s) \<and>
      map account (users (sv_db s')) = map account (filter (\<lambda>x. u_id x \<noteq> u_id row) (users (sv_db s))) \<and>
      sessions (sv_db s') = filter (\<lambda>x. se_user_id x \<noteq> u_id row) (sessions (sv_db s)) \<and>
      api_tokens (sv_db s') = filter (\<lambda>x. at_user_id x \<noteq> u_id row) (api_tokens (sv_db s)) \<and>
      totp_secrets (sv_db s') = filter (\<lambda>x. ts_user_id x \<noteq> u_id row) (totp_secrets (sv_db s)) \<and>
      recovery_codes (sv_db s') = filter (\<lambda>x. rc_user_id x \<noteq> u_id row) (recovery_codes (sv_db s)))) \<and>
    (rs_status resp \<noteq> 204 \<longrightarrow> access_view (sv_db s') = access_view (sv_db s))"
proof -
  obtain g d1 where get: "getUserFromIDParam ident (sv_db s) = (g, d1)" by fastforce
  show ?thesis
  proof (cases g)
    case (Inl e)
    then show ?thesis using assms get getUser_Inl [of ident "sv_db s"]
      by (auto simp: handleDeleteUser_def with_db_def)
  next
    case (Inr u)
    then obtain row fs where row: "row \<in> set (users (sv_db s))" "denotes ident row" "u = scan_user row" and d1: "d1 = sv_db s\<lparr>faults := fs\<rparr>"
      using get getUser_Inr by blast
    obtain rv d2 where rev: "revokeIncusTrust tm u d1 = (rv, d2)" by fastforce
    have acc: "access_view d2 = access_view (sv_db s)" using revoke_access [OF rev] d1 by simp
    show ?thesis
    proof (cases rv)
      case (Inl e)
      then show ?thesis using assms get Inr rev acc by (auto simp: handleDeleteUser_def with_db_def)
    next
      case (Inr x)
      have id: "u_id u = u_id row" using row(3) by simp
      note A = access_viewD [OF acc] access_view_accounts [OF acc]
      show ?thesis
      proof (cases rule: DeleteUser_cases [of "u_id row" d2])
        case (gone fs2)
        have "user_referenced (u_id row) (sv_db s) = user_referenced (u_id row) d2" using A(6) by simp
        then show ?thesis using assms get \<open>g = Inr u\<close> rev Inr gone row id A account_filter [OF A(8)]
          by (auto simp: handleDeleteUser_def with_db_def delete_user_rows_fields intro!: bexI [of _ row])
      next
        case (absent fs2)
        have "u_id row \<in> set (map u_id (users d2))" using A(7) row(1) by simp
        then show ?thesis using absent(1) by (auto simp: tget_None)
      next
        case (failed fs2 e)
        then show ?thesis using assms get \<open>g = Inr u\<close> rev Inr id acc by (auto simp: handleDeleteUser_def with_db_def)
      qed
    qed
  qed
qed

end

text \<open>C27: a deletion answered 204 removed exactly the user named, who owned no other rows, with every
  session, API token, TOTP secret and recovery code of that user and no others; in the state it leaves no
  request is authenticated as that user.  Any other answer leaves every account, session, API token and second
  factor as it was.  (Certificates for Incus are not part of this: a deletion that is refused in the end has
  already revoked the user's.)\<close>

theorem delete_user_ends_access:
  assumes "handleDeleteUser tm r ident s = (resp, s')" "tm = None \<or> tm = Some (service_manager svc now trust helper)"
  shows "if rs_status resp = 204 then \<exists>row \<in> set (users (sv_db s)). denotes ident row \<and>
      map account (users (sv_db s')) = map account (filter (\<lambda>x. u_id x \<noteq> u_id row) (users (sv_db s))) \<and>
      sessions (sv_db s') = filter (\<lambda>x. se_user_id x \<noteq> u_id row) (sessions (sv_db s)) \<and>
      api_tokens (sv_db s') = filter (\<lambda>x. at_user_id x \<noteq> u_id row) (api_tokens (sv_db s)) \<and>
      totp_secrets (sv_db s') = filter (\<lambda>x. ts_user_id x \<noteq> u_id row) (totp_secrets (sv_db s)) \<and>
      recovery_codes (sv_db s') = filter (\<lambda>x. rc_user_id x \<noteq> u_id row) (recovery_codes (sv_db s)) \<and>
      (\<forall>cfg later req req' t. authMiddleware cfg later req s' = (Inr req' :: unit response + request, t) \<longrightarrow>
         map_option u_id (rq_user req') \<noteq> Some (u_id row))
    else access_view (sv_db s') = access_view (sv_db s)"
proof -
  have D: "(rs_status resp = 204 \<longrightarrow> (\<exists>row \<in> set (users (sv_db s)). denotes ident row \<and> \<not> user_referenced (u_id row) (sv_db s) \<and>
      map account (users (sv_db s')) = map account (filter (\<lambda>x. u_id x \<noteq> u_id row) (users (sv_db s))) \<and>
      sessions (sv_db s') = filter (\<lambda>x. se_user_id x \<noteq> u_id row) (sessions (sv_db s)) \<and>
      api_tokens (sv_db s') = filter (\<lambda>x. at_user_id x \<noteq> u_id row) (api_tokens (sv_db s)) \<and>
      totp_secrets (sv_db s') = filter (\<lambda>x. ts_user_id x \<noteq> u_id row) (totp_secrets (sv_db s)) \<and>
      recovery_codes (sv_db s') = filter (\<lambda>x. rc_user_id x \<noteq> u_id row) (recovery_codes (sv_db s)))) \<and>
    (rs_status resp \<noteq> 204 \<longrightarrow> access_view (sv_db s') = access_view (sv_db s))"
    using assms(2)
  proof
    assume "tm = None" then show ?thesis using no_trust.delete_user assms(1) by simp
  next
    assume "tm = Some (service_manager svc now trust helper)"
    then show ?thesis using user_trust.delete_user assms(1) by simp
  qed
  have barred: "map_option u_id (rq_user req') \<noteq> Some i"
    if "map account (users (sv_db s')) = map account (filter (\<lambda>x. u_id x \<noteq> i) (users (sv_db s)))"
      "authMiddleware cfg later req s' = (Inr req' :: unit response + request, t)" for cfg later req req' t i
  proof -
    from auth_ok [OF that(2)] obtain row where r: "rq_user req' = Some (scan_user row)"
      and "tget u_id (u_id row) (users (sv_db s')) = Some row" by (auto simp: acts_for_def)
    then have "account row \<in> set (map account (users (sv_db s')))" by (auto dest: tget_Some)
    then have "u_id row \<noteq> i" unfolding that(1) by (auto simp: account_def)
    then show ?thesis using r by simp
  qed
  show ?thesis
  proof (cases "rs_status resp = 204")
    case True
    then obtain row where row: "row \<in> set (users (sv_db s))" "denotes ident row"
      "map account (users (sv_db s')) = map account (filter (\<lambda>x. u_id x \<noteq> u_id row) (users (sv_db s)))"
      "sessions (sv_db s') = filter (\<lambda>x. se_user_id x \<noteq> u_id row) (sessions (sv_db s))"
      "api_tokens (sv_db s') = filter (\<lambda>x. at_user_id x \<noteq> u_id row) (api_tokens (sv_db s))"
      "totp_secrets (sv_db s') = filter (\<lambda>x. ts_user_id x \<noteq> u_id row) (totp_secrets (sv_db s))"
      "recovery_codes (sv_db s') = filter (\<lambda>x. rc_user_id x \<noteq> u_id row) (recovery_codes (sv_db s))"
      using D by blast
    then show ?thesis unfolding if_P [OF True]
      by (intro bexI [of _ row] conjI allI impI barred [OF row(3)])
  next
    case False
    then show ?thesis using D by simp
  qed
qed

definition demo_delete :: "auth_body response \<times> server" where
  "demo_delete = handleDeleteUser (Some (service_manager demo_trust_service 5 Map.empty [])) demo_request ''alice'' demo_server2"

theorem delete_user_ends_access_witness:
  "rs_status (fst demo_delete) = 204 \<and> api_tokens (sv_db (snd demo_delete)) = []"
proof -
  have ok: "rs_status (fst demo_delete) = 204" by code_simp
  have "api_tokens (sv_db demo_server2) \<noteq> []" and one: "\<forall>x \<in> set (api_tokens (sv_db demo_server2)). at_user_id x = 2" by code_simp+
  have alone: "\<forall>row \<in> set (users (sv_db demo_server2)). denotes ''alice'' row \<longrightarrow> u_id row = 2" by code_simp
  from delete_user_ends_access [where tm = "Some (service_manager demo_trust_service 5 Map.empty [])" and r = demo_request
      and ident = "''alice''" and s = demo_server2, OF surjective_pairing disjI2 [OF refl]]
  obtain row where "row \<in> set (users (sv_db demo_server2))" "denotes ''alice'' row"
    "api_tokens (sv_db (snd demo_delete)) = filter (\<lambda>x. at_user_id x \<noteq> u_id row) (api_tokens (sv_db demo_server2))"
    unfolding demo_delete_def [symmetric] if_P [OF ok] by blast
  then show ?thesis using ok one alone by auto
qed

text \<open>a user who owns an operation, schedule, webhook, firewall rule, cluster or BMC endpoint cannot
  be deleted (the foreign keys have no ON DELETE), and the attempt is not harmless: the handler has
  by then revoked the user's Incus certificate, so it answers 500 with the account still able to log
  in but without an active certificate.\<close>

theorem blocked_delete_loses_trust:
  assumes "getUserFromIDParam ident (sv_db s) = (Inr u, sv_db s)" "faults (sv_db s) = []"
    and "user_referenced (u_id u) (sv_db s)"
    and "Revoke svc now u \<lparr>te_db = sv_db s, te_trust = trust, te_helper = helper\<rparr> = (Inr (), e')"
    and "list_all restorable (incus_certs (te_db e'))"
    and "handleDeleteUser (Some (service_manager svc now trust helper)) r ident s = (resp, s')"
  shows "rs_status resp = 500 \<and> access_view (sv_db s') = access_view (sv_db s) \<and>
    (\<forall>row. tget ic_user_id (u_id u) (incus_certs (sv_db s')) = Some row \<longrightarrow> ic_revoked_at row \<noteq> None)"
proof -
  have rev: "revokeIncusTrust (Some (service_manager svc now trust helper)) u (sv_db s) = (Inr (), te_db e')"
    using assms(4) by (simp add: revokeIncusTrust_def service_manager_def)
  have acc: "access_view (te_db e') = access_view (sv_db s)" by (rule user_trust.revoke_access [OF rev])
  have quiet: "faults (te_db e') = []" by (rule keepsD [OF user_trust.revoke_quiet rev assms(2)])
  obtain row where "row \<in> set (users (sv_db s))" "u_id row = u_id u"
    using getUser_Inr [OF assms(1)] by auto
  then have "u_id u \<in> set (map u_id (users (te_db e')))" unfolding access_viewD(7) [OF acc] by (metis image_eqI list.set_map)
  then have "tget u_id (u_id u) (users (te_db e')) \<noteq> None" by (rule tget_key_mem)
  then have "DeleteUser (u_id u) (te_db e') = (Inl ErrForeignKey, te_db e')"
    using quiet assms(3) access_viewD(6) [OF acc] by (simp add: DeleteUser_def stmt_def)
  then have result: "rs_status resp = 500" "sv_db s' = te_db e'"
    using assms(1,6) rev by (auto simp: handleDeleteUser_def with_db_def)
  moreover have "ic_revoked_at row \<noteq> None" if "tget ic_user_id (u_id u) (incus_certs (te_db e')) = Some row" for row
    using Revoke_Inr [OF assms(4) that] tget_Some [OF that] assms(5) by (auto simp: list_all_iff restorable_def)
  ultimately show ?thesis using acc by simp
qed

definition demo_blocked :: server where
  "demo_blocked = demo_server\<lparr>sv_db := demo_ops\<lparr>incus_certs := incus_certs (te_db demo_trust_env)\<rparr>\<rparr>"

definition demo_blocked_delete :: "auth_body response \<times> server" where
  "demo_blocked_delete = handleDeleteUser (Some (service_manager demo_trust_service 5 Map.empty [])) demo_request ''2'' demo_blocked"

theorem blocked_delete_loses_trust_witness:
  "rs_status (fst demo_blocked_delete) = 500 \<and>
   map_option (\<lambda>row. ic_revoked_at row \<noteq> None) (tget ic_user_id 2 (incus_certs (sv_db (snd demo_blocked_delete)))) = Some True"
proof -
  let ?u = "scan_user (hd (users (sv_db demo_blocked)))"
  let ?rv = "Revoke demo_trust_service 5 ?u \<lparr>te_db = sv_db demo_blocked, te_trust = Map.empty, te_helper = []\<rparr>"
  have u: "u_id ?u = 2" by code_simp
  have nf: "faults (sv_db demo_blocked) = []"
    by (simp add: demo_blocked_def demo_ops_def demo_users_def empty_db_def)
  have get: "getUserFromIDParam ''2'' (sv_db demo_blocked) = (Inr ?u, sv_db demo_blocked)"
  proof -
    have "parse_int64 ''2'' = Some 2" by code_simp
    moreover have "tget u_id 2 (users (sv_db demo_blocked)) = Some (hd (users (sv_db demo_blocked)))" by code_simp
    ultimately show ?thesis using nf by (simp add: getUserFromIDParam_def GetUserByID_def dbind_def one_row_def dret_def)
  qed
  have ref: "user_referenced (u_id ?u) (sv_db demo_blocked)" by code_simp
  have "fst ?rv = Inr ()" by code_simp
  then have rev: "?rv = (Inr (), snd ?rv)" by (metis prod.collapse)
  have rest: "list_all restorable (incus_certs (te_db (snd ?rv)))" by code_simp
  from blocked_delete_loses_trust [where r = demo_request, OF get nf ref rev rest surjective_pairing]
  have "rs_status (fst demo_blocked_delete) = 500 \<and> (\<forall>row. tget ic_user_id 2 (incus_certs (sv_db (snd demo_blocked_delete))) = Some row
      \<longrightarrow> ic_revoked_at row \<noteq> None)" unfolding demo_blocked_delete_def [symmetric] u by blast
  moreover have "tget ic_user_id 2 (incus_certs (sv_db (snd demo_blocked_delete))) \<noteq> None" by code_simp
  ultimately show ?thesis by auto
qed

section \<open>Creating a user\<close>

lemma CreateUser_result:
  assumes "CreateUser now name hash admin d = (res, d')"
  shows "(\<exists>e. res = Inl e \<and> same_data d d') \<or>
    (\<exists>u row fs. res = Inr u \<and> tget u_username name (users d) = None \<and> account u = account row \<and>
       account row = (user_seq d + 1, name, hash, admin) \<and>
       d' = d\<lparr>users := users d @ [row], user_seq := user_seq d + 1, faults := fs\<rparr> \<and> (faults d = [] \<longrightarrow> fs = []))"
proof -
  let ?row = "\<lparr>u_id = user_seq d + 1, u_username = name, u_password_hash = hash,
          u_is_admin = admin, u_incus_project = ''default'', u_created_at = to_unix now\<rparr>"
  obtain i d1 where ins: "insert_user name hash (to_unix now) admin d = (i, d1)" by fastforce
  from ins consider (bad) e where "i = Inl e" "same_data d d1"
    | (good) fs where "i = Inr (user_seq d + 1)" "tget u_username name (users d) = None"
       "d1 = d\<lparr>users := users d @ [?row], user_seq := user_seq d + 1, faults := fs\<rparr>" "faults d = [] \<longrightarrow> fs = []"
  proof -
    let ?f = "\<lambda>d. if tget u_username name (users d) \<noteq> None then (Inl ErrUnique, d)
     else let i = user_seq d + 1;
              row = \<lparr>u_id = i, u_username = name, u_password_hash = hash, u_is_admin = admin,
                     u_incus_project = ''default'', u_created_at = to_unix now\<rparr>
          in (Inr i, d\<lparr>users := users d @ [row], user_seq := i\<rparr>)"
    have run: "stmt ?f d = (i, d1)" using ins by (simp add: insert_user_def)
    show thesis
    proof (rule stmt_quiet_cases [of ?f d])
      fix fs assume r: "stmt ?f d = ?f (d\<lparr>faults := fs\<rparr>)" and q: "faults d = [] \<longrightarrow> fs = []"
      show thesis
      proof (cases "tget u_username name (users d) = None")
        case True
        then show thesis using r q run by (intro good [of fs]) (auto simp: Let_def)
      next
        case False
        then show thesis using r run by (intro bad [of ErrUnique]) (auto simp: Let_def)
      qed
    next
      fix fs assume "stmt ?f d = (Inl ErrIO, d\<lparr>faults := fs\<rparr>)"
      then show thesis using run by (auto intro: bad)
    qed
  qed
  then show ?thesis
  proof cases
    case bad
    then show ?thesis using assms ins by (auto simp: CreateUser_def dbind_def)
  next
    case good
    then show ?thesis using assms ins
      by (intro disjI2 exI [of _ "?row\<lparr>u_created_at := from_unix (to_unix now)\<rparr>"] exI [of _ ?row] exI [of _ fs])
        (auto simp: CreateUser_def dbind_def dret_def account_def)
  qed
qed

lemma SetUserIncusProject_access:
  assumes "SetUserIncusProject i p d = (r, d')"
  shows "access_view d' = access_view d" "faults d = [] \<Longrightarrow> faults d' = []"
proof -
  let ?f = "\<lambda>d. (Inr (taffected (\<lambda>u. u_id u = i) (users d)),
        d\<lparr>users := tupdate (\<lambda>u. u_id u = i) (\<lambda>u. u\<lparr>u_incus_project := p\<rparr>) (users d)\<rparr>)"
  have "keeps (\<lambda>d'. access_view d' = access_view d) (SetUserIncusProject i p)"
    unfolding SetUserIncusProject_def
    by (intro keeps_intros keeps_stmt) (simp_all add: data_pred_def keeps_def)
  from keepsD [OF this assms] show "access_view d' = access_view d" by simp
  have "keeps (\<lambda>d. faults d = []) (SetUserIncusProject i p)"
    unfolding SetUserIncusProject_def by (intro keeps_intros quiet_stmt) simp
  from keepsD [OF this assms] show "faults d = [] \<Longrightarrow> faults d' = []" by simp
qed

lemma undo_create:
  assumes "access_view d2 = access_view d1" "users d1 = us @ [row]" "u_id row = i" "\<forall>x \<in> set us. u_id x \<noteq> i"
    "\<not> user_referenced i d1" "faults d2 = []" "DeleteUser i d2 = (r, d3)"
  shows "map account (users d3) = map account us"
proof -
  note A = access_viewD [OF assms(1)] access_view_accounts [OF assms(1)]
  have ref: "\<not> user_referenced i d2" using A(6) assms(5) by simp
  show ?thesis
  proof (cases rule: DeleteUser_cases [of i d2])
    case (gone fs)
    then have "users d3 = filter (\<lambda>x. u_id x \<noteq> i) (users d2)" using assms(7) by (auto simp: delete_user_rows_fields)
    then have "map account (users d3) = map account (filter (\<lambda>x. u_id x \<noteq> i) (us @ [row]))"
      using account_filter [OF A(8)] assms(2) by simp
    also have "filter (\<lambda>x. u_id x \<noteq> i) (us @ [row]) = us" using assms(3,4) by simp
    finally show ?thesis .
  next
    case (absent fs)
    have "i \<in> set (map u_id (users d2))" unfolding A(7) assms(2) using assms(3) by simp
    then show ?thesis using absent(1) tget_key_mem [of i u_id] by blast
  next
    case (failed fs e)
    then show ?thesis using ref assms(6) by simp
  qed
qed

lemma fresh_user:
  assumes "db_wf d"
  shows "\<forall>x \<in> set (users d). u_id x \<noteq> user_seq d + 1" "\<not> user_referenced (user_seq d + 1) d"
proof -
  have le: "\<forall>x \<in> set (users d). u_id x \<le> user_seq d" using assms by (simp add: wf_defs tbelow_def)
  then show "\<forall>x \<in> set (users d). u_id x \<noteq> user_seq d + 1" by force
  then show "\<not> user_referenced (user_seq d + 1) d"
    using assms by (fastforce simp: wf_defs user_referenced_def trefs_def)
qed

context project_trust
begin

lemma create_user:
  assumes run: "handleCreateUser cfg tm now salt r (Some req) s = (resp, s')" and wf: "db_wf (sv_db s)"
  shows "(rs_status resp = 201 \<longrightarrow> (\<exists>st. salt = Some st \<and> 8 \<le> length (cu_password req) \<and> trim_space (cu_username req) \<noteq> '''' \<and>
      tget u_username (trim_space (cu_username req)) (users (sv_db s)) = None \<and>
      user_seq (sv_db s) + 1 \<notin> set (map u_id (users (sv_db s))) \<and>
      map account (users (sv_db s')) = map account (users (sv_db s)) @
        [(user_seq (sv_db s) + 1, trim_space (cu_username req), cr_hash_password (cf_crypto cfg) st (cu_password req), cu_is_admin req)])) \<and>
    (rs_status resp \<noteq> 201 \<longrightarrow> faults (sv_db s) = [] \<longrightarrow> map account (users (sv_db s')) = map account (users (sv_db s)))"
proof -
  let ?name = "trim_space (cu_username req)" and ?d = "sv_db s" and ?i = "user_seq (sv_db s) + 1"
  show ?thesis
  proof (cases "?name = '''' \<or> cu_password req = '''' \<or> length (cu_password req) < 8 \<or> salt = None")
    case True
    then show ?thesis using run by (auto simp: handleCreateUser_def Let_def split: option.splits if_splits)
  next
    case False
    then obtain st where st: "salt = Some st" by blast
    let ?hash = "cr_hash_password (cf_crypto cfg) st (cu_password req)"
    obtain c d1 where cr: "CreateUser now ?name ?hash (cu_is_admin req) ?d = (c, d1)" by fastforce
    have step: "case c of Inl e \<Rightarrow> (resp, s') = (if e = ErrUnique then writeError 409 ''conflict'' ''username already exists'' else internalError, s\<lparr>sv_db := d1\<rparr>)
        | Inr u \<Rightarrow> create_user_project tm r (cu_incus_project req) u (s\<lparr>sv_db := d1\<rparr>) = (resp, s')"
      using run False st cr by (cases c) (simp_all add: handleCreateUser_def Let_def with_db_def)
    show ?thesis
    proof (cases c)
      case (Inl e)
      then have "same_data ?d d1" using CreateUser_result [OF cr] by auto
      then show ?thesis using step Inl by (auto dest: same_dataD)
    next
      case (Inr u)
      then obtain row fs where new: "tget u_username ?name (users ?d) = None" "account u = account row"
          "account row = (?i, ?name, ?hash, cu_is_admin req)"
          "d1 = ?d\<lparr>users := users ?d @ [row], user_seq := ?i, faults := fs\<rparr>" "faults ?d = [] \<longrightarrow> fs = []"
        using CreateUser_result [OF cr] by auto
      have id: "u_id u = ?i" "u_id row = ?i" using new(2,3) by (simp_all add: account_def)
      have ref: "\<not> user_referenced ?i d1" using fresh_user(2) [OF wf] new(4) by (simp add: user_referenced_def)
      have undo: "map account (users d3) = map account (users ?d)"
        if "access_view d2 = access_view d1" "faults d2 = []" "DeleteUser ?i d2 = (x, d3)" for d2 d3 x
        by (rule undo_create [OF that(1) _ id(2) fresh_user(1) [OF wf] ref that(2,3)]) (simp add: new(4))
      have prov: "(rs_status resp = 201 \<longrightarrow> map account (users (sv_db s')) = map account (users d1)) \<and>
          (rs_status resp \<noteq> 201 \<longrightarrow> faults (sv_db t) = [] \<longrightarrow> map account (users (sv_db s')) = map account (users ?d))"
        if "create_user_provision tm r v t = (resp, s')" "u_id v = ?i" "access_view (sv_db t) = access_view d1" for v t
      proof -
        obtain p d2 where pr: "provisionIncusTrust tm v (sv_db t) = (p, d2)" by fastforce
        have acc: "access_view d2 = access_view d1" using provision_access [OF pr] that(3) by simp
        obtain x d3 where del: "DeleteUser ?i d2 = (x, d3)" by fastforce
        show ?thesis
        proof (cases p)
          case (Inl e)
          then have "rs_status resp = 500" "sv_db s' = d3" using that(1,2) pr del
            by (auto simp: create_user_provision_def with_db_def)
          then show ?thesis using undo [OF acc _ del] keepsD [OF provision_quiet pr] by auto
        next
          case (Inr y)
          then have "rs_status resp = 201" "sv_db s' = d2" using that(1) pr
            by (auto simp: create_user_provision_def with_db_def)
          then show ?thesis using access_view_accounts [OF acc] by simp
        qed
      qed
      have proj: "create_user_project tm r (cu_incus_project req) u (s\<lparr>sv_db := d1\<rparr>) = (resp, s')"
        using step Inr by simp
      have fin: "(rs_status resp = 201 \<longrightarrow> map account (users (sv_db s')) = map account (users d1)) \<and>
          (rs_status resp \<noteq> 201 \<longrightarrow> faults d1 = [] \<longrightarrow> map account (users (sv_db s')) = map account (users ?d))"
      proof (cases "cu_incus_project req = ''''")
        case True
        then show ?thesis using prov [OF _ id(1), of "s\<lparr>sv_db := d1\<rparr>"] proj by (simp add: create_user_project_def)
      next
        case named: False
        let ?p = "normalizeIncusProject (cu_incus_project req)"
        obtain x d3 where del: "DeleteUser ?i d1 = (x, d3)" by fastforce
        obtain y d4 where set: "SetUserIncusProject ?i ?p d1 = (y, d4)" by fastforce
        obtain z d5 where del4: "DeleteUser ?i d4 = (z, d5)" by fastforce
        note S = SetUserIncusProject_access [OF set]
        show ?thesis
        proof (cases "ValidTrustProjectName ?p")
          case False
          then have "rs_status resp = 400" "sv_db s' = d3" using proj named del id
            by (auto simp: create_user_project_def Let_def with_db_def)
          then show ?thesis using undo [OF refl _ del] by simp
        next
          case True
          show ?thesis
          proof (cases y)
            case (Inl e)
            then have "rs_status resp = 500" "sv_db s' = d5" using proj named set del4 id True
              by (auto simp: create_user_project_def Let_def with_db_def)
            then show ?thesis using undo [OF S(1) _ del4] S(2) by simp
          next
            case (Inr w)
            then have "create_user_provision tm r (u\<lparr>u_incus_project := ?p\<rparr>) (s\<lparr>sv_db := d4\<rparr>) = (resp, s')"
              using proj named set id True by (simp add: create_user_project_def Let_def with_db_def)
            from prov [OF this] S id show ?thesis by simp
          qed
        qed
      qed
      have "?i \<notin> set (map u_id (users ?d))" using fresh_user(1) [OF wf] by auto
      then show ?thesis
        using fin st False new id by auto
    qed
  qed
qed

end

text \<open>creating a user answers 201 exactly with one new account: a fresh id, a name nobody had, the
  hash of the password given (at least 8 bytes) and the admin flag asked for, every other account as
  it was.  On any other answer, unless the database itself failed while undoing, no account was
  added, removed or changed.\<close>

theorem create_user_sound:
  assumes "handleCreateUser cfg tm now salt r (Some req) s = (resp, s')" "db_wf (sv_db s)"
    and "tm = None \<or> tm = Some (service_manager svc later trust helper)"
  shows "if rs_status resp = 201 then \<exists>st. salt = Some st \<and> 8 \<le> length (cu_password req) \<and>
      tget u_username (trim_space (cu_username req)) (users (sv_db s)) = None \<and>
      user_seq (sv_db s) + 1 \<notin> set (map u_id (users (sv_db s))) \<and>
      map account (users (sv_db s')) = map account (users (sv_db s)) @
        [(user_seq (sv_db s) + 1, trim_space (cu_username req), cr_hash_password (cf_crypto cfg) st (cu_password req), cu_is_admin req)]
    else faults (sv_db s) = [] \<longrightarrow> map account (users (sv_db s')) = map account (users (sv_db s))"
  using assms(3)
proof
  assume "tm = None"
  then show ?thesis using no_trust.create_user [OF assms(1) [unfolded \<open>tm = None\<close>] assms(2)] by auto
next
  assume tm: "tm = Some (service_manager svc later trust helper)"
  show ?thesis using user_trust.create_user [OF assms(1) [unfolded tm] assms(2)] by auto
qed

definition demo_new_user :: create_user_request where
  "demo_new_user = \<lparr>cu_username = '' bob '', cu_password = ''password'', cu_is_admin = False, cu_incus_project = ''incus:project:web''\<rparr>"

definition demo_create_user :: "auth_body response \<times> server" where
  "demo_create_user = handleCreateUser demo_cfg (Some (service_manager demo_trust_service 5 Map.empty [])) 7 (Some ''salt'')
     demo_request (Some demo_new_user) demo_server"

theorem create_user_sound_witness:
  "rs_status (fst demo_create_user) = 201 \<and> (3, ''bob'', ''pw:password'', False) \<in> set (map account (users (sv_db (snd demo_create_user))))"
proof -
  have ok: "rs_status (fst demo_create_user) = 201" by code_simp
  have args: "user_seq (sv_db demo_server) + 1 = 3" "trim_space (cu_username demo_new_user) = ''bob''"
    "cr_hash_password (cf_crypto demo_cfg) ''salt'' (cu_password demo_new_user) = ''pw:password''" "cu_is_admin demo_new_user = False"
    by code_simp+
  have "db_wf (sv_db demo_server)" by (simp add: demo_server_def demo_db_wf)
  from create_user_sound [where cfg = demo_cfg and tm = "Some (service_manager demo_trust_service 5 Map.empty [])" and now = 7
      and salt = "Some ''salt''" and r = demo_request and req = demo_new_user and s = demo_server,
      OF surjective_pairing this disjI2 [OF refl]]
  show ?thesis unfolding demo_create_user_def [symmetric] if_P [OF ok] using ok args by auto
qed

end
