(* ===== verification/Store_Events.thy ===== *)
theory Store_Events
  imports Go_Text Store_Ops "HOL-Library.Option_ord"
begin

text \<open>
  \<open>store/events.go\<close> and \<open>store/webhooks.go\<close>: events, webhook subscriptions, the outbox of delivery
  jobs, and the log of deliveries.

  The data of an event is its JSON text; \<open>data\<close> is \<open>None\<close> when \<open>json.Marshal\<close> fails.  SQLite compares
  TEXT byte by byte, as the order on \<^typ>\<open>string\<close> does, and puts NULL first, as the order on options does.
\<close>

section \<open>SQL LIKE\<close>

text \<open>
  \<open>text LIKE pattern\<close> on valid UTF-8: \<open>%\<close> is any sequence, \<open>_\<close> any code point, ASCII letters match in
  either case.
\<close>

definition like_fold :: "char \<Rightarrow> nat" where
  "like_fold c = (let b = byte c in if 65 \<le> b \<and> b \<le> 90 then b + 32 else b)"

function sql_like :: "string \<Rightarrow> string \<Rightarrow> bool" where
  "sql_like [] t = (t = [])"
| "sql_like (p # ps) t =
     (if p = CHR ''%'' then (if sql_like ps t then True
         else if t = [] then False else sql_like (p # ps) (drop (snd (decode_rune t)) t))
      else if t = [] then False
      else if p = CHR ''_'' then sql_like ps (drop (snd (decode_rune t)) t)
      else like_fold p = like_fold (hd t) \<and> sql_like ps (tl t))"
  by pat_completeness auto

termination
proof (relation "measure (\<lambda>(p, t). length p + length t)", goal_cases)
  case (3 p ps t)
  then show ?case using decode_rune_width_pos [of t] decode_rune_width_le [of t] by (cases t) auto
qed auto

declare sql_like.simps [simp del]

text \<open>The condition of the statement that fills the outbox, for one subscription pattern.\<close>

definition sql_subscribes :: "string \<Rightarrow> string \<Rightarrow> bool" where
  "sql_subscribes pat ty \<longleftrightarrow> pat = ''*'' \<or> pat = ty
     \<or> (has_suffix pat ''.*'' \<and> sql_like (butlast pat @ ''%'') ty)
     \<or> (has_suffix pat ''.'' \<and> sql_like (pat @ ''%'') ty)"

section \<open>Events\<close>

definition scan_event :: "event \<Rightarrow> event" where
  "scan_event r = r\<lparr>ev_time := from_unix (ev_time r)\<rparr>"

text \<open>
  The jobs of an event: one per enabled webhook with a matching subscription, in the order of the
  webhooks (the statement states none); an id that is taken is ignored.
\<close>

definition outbox_rows :: "unixsec \<Rightarrow> string \<Rightarrow> string \<Rightarrow> db \<Rightarrow> outbox list" where
  "outbox_rows now eid ty d =
     map (\<lambda>w. \<lparr>ob_id = eid @ '':'' @ wh_id w, ob_event_id = eid, ob_webhook_id = Some (wh_id w), ob_status = ObPending,
               ob_attempts = 0, ob_next_run_at = Some now, ob_created_at = now, ob_updated_at = now\<rparr>)
       (filter (\<lambda>w. wh_enabled w \<and> list_ex (\<lambda>(i, pat). i = wh_id w \<and> sql_subscribes pat ty) (webhook_events d))
         (webhooks d))"

definition insert_or_ignore :: "('r \<Rightarrow> 'k) \<Rightarrow> 'r list \<Rightarrow> 'r list \<Rightarrow> 'r list" where
  "insert_or_ignore key new rows =
     fold (\<lambda>r rows. if tget key (key r) rows = None then rows @ [r] else rows) new rows"

definition CreateEvent ::
  "gotime \<Rightarrow> string option \<Rightarrow> string \<Rightarrow> string \<Rightarrow> string \<Rightarrow> string option \<Rightarrow> event dbm" where
  "CreateEvent now uuid ty source subject data = with_uuid uuid (\<lambda>i. case data of
     None \<Rightarrow> dfail (ErrInvalid ''marshaling event data'')
   | Some json \<Rightarrow> transaction (
       dbind (stmt (\<lambda>d. if tget ev_id i (events d) \<noteq> None then (Inl ErrUnique, d)
         else (Inr (), d\<lparr>events := events d @ [\<lparr>ev_id = i, ev_type = ty, ev_time = to_unix now, ev_source = source,
                 ev_subject = subject, ev_data = json\<rparr>]\<rparr>))) (\<lambda>_.
       dbind (stmt (\<lambda>d. if tget ev_id i (events d) = None then (Inl ErrForeignKey, d)
         else (Inr (), d\<lparr>event_outbox := insert_or_ignore ob_id (outbox_rows (to_unix now) i ty d) (event_outbox d)\<rparr>))) (\<lambda>_.
       dret \<lparr>ev_id = i, ev_type = ty, ev_time = now, ev_source = source, ev_subject = subject, ev_data = json\<rparr>))))"

definition ListEvents :: "int \<Rightarrow> string \<Rightarrow> string \<Rightarrow> event list dbm" where
  "ListEvents limit typeFilter since = query (\<lambda>d.
     let n = nat (if limit \<le> 0 \<or> 500 < limit then 50 else limit);
         prefixed = has_suffix typeFilter ''.'';
         exactType = (if prefixed then '''' else typeFilter);
         prefixType = (if prefixed then typeFilter @ ''%'' else '''');
         rows = filter (\<lambda>r. (exactType = '''' \<and> prefixType = '''' \<or> exactType \<noteq> '''' \<and> ev_type r = exactType
             \<or> prefixType \<noteq> '''' \<and> sql_like prefixType (ev_type r)) \<and> (since = '''' \<or> since < ev_id r)) (events d);
         sorted = (if since \<noteq> '''' then sort_key ev_id rows else rev (sort_key (\<lambda>r. (ev_time r, ev_id r)) rows))
     in map scan_event (take n sorted))"

section \<open>The outbox\<close>

record outbox_event =
  oe_event :: event
  oe_outbox_id :: string
  oe_webhook_id :: string
  oe_attempt :: int

definition outboxProcessingLease :: int where "outboxProcessingLease = 2 * minute"

text \<open>
  \<open>UPDATE .. WHERE P RETURNING\<close>: the rows become \<open>processing\<close> with one more attempt; the claimed rows
  are returned as updated.
\<close>

definition claim_row :: "unixsec \<Rightarrow> outbox \<Rightarrow> outbox" where
  "claim_row now r = r\<lparr>ob_status := ObProcessing, ob_attempts := ob_attempts r + 1, ob_next_run_at := None, ob_updated_at := now\<rparr>"

definition claim_update :: "(db \<Rightarrow> outbox \<Rightarrow> bool) \<Rightarrow> unixsec \<Rightarrow> outbox list dbm" where
  "claim_update P now = stmt (\<lambda>d.
     (Inr (map (claim_row now) (filter (P d) (event_outbox d))),
      d\<lparr>event_outbox := tupdate (P d) (claim_row now) (event_outbox d)\<rparr>))"

text \<open>Due jobs and jobs whose lease has run out; with NULL no comparison holds.\<close>

definition due :: "unixsec \<Rightarrow> unixsec \<Rightarrow> outbox \<Rightarrow> bool" where
  "due now staleBefore r \<longleftrightarrow> ob_webhook_id r \<noteq> None \<and>
     (ob_status r = ObPending \<and> (case ob_next_run_at r of None \<Rightarrow> False | Some t \<Rightarrow> t \<le> now)
      \<or> ob_status r = ObProcessing \<and> ob_updated_at r \<le> staleBefore)"

definition claimOutboxEventIDs :: "unixsec \<Rightarrow> unixsec \<Rightarrow> nat \<Rightarrow> outbox list dbm" where
  "claimOutboxEventIDs now staleBefore limit = claim_update (\<lambda>d r. ob_id r \<in> set (map ob_id (take limit
     (sort_key (\<lambda>r. (ob_next_run_at r, ob_created_at r, ob_id r)) (filter (due now staleBefore) (event_outbox d)))))) now"

text \<open>
  The join of the claimed jobs with their events.  A claimed job has a webhook; the attempt is the
  one the claim returned.
\<close>

definition listOutboxEvents :: "outbox list \<Rightarrow> outbox_event list dbm" where
  "listOutboxEvents claimed = query (\<lambda>d.
     let jobs = List.map_filter (\<lambda>r. if ob_id r \<notin> set (map ob_id claimed) then None
         else case tget ev_id (ob_event_id r) (events d) of None \<Rightarrow> None
         | Some e \<Rightarrow> Some (e, r)) (event_outbox d)
     in map (\<lambda>(e, r). \<lparr>oe_event = scan_event e, oe_outbox_id = ob_id r,
               oe_webhook_id = (case ob_webhook_id r of None \<Rightarrow> '''' | Some w \<Rightarrow> w),
               oe_attempt = (case tget ob_id (ob_id r) claimed of None \<Rightarrow> 0 | Some c \<Rightarrow> ob_attempts c)\<rparr>)
          (sort_key (\<lambda>(e, r). (ev_time e, ev_id e, ob_id r)) jobs))"

definition claimed_events :: "outbox list \<Rightarrow> outbox_event list dbm" where
  "claimed_events claimed = (if claimed = [] then dret [] else listOutboxEvents claimed)"

definition ClaimPendingOutboxEvents :: "gotime \<Rightarrow> int \<Rightarrow> outbox_event list dbm" where
  "ClaimPendingOutboxEvents now limit =
     (let n = nat (if limit \<le> 0 \<or> 2000 < limit then 1000 else limit) in
      transaction (dbind (claimOutboxEventIDs (to_unix now) (to_unix (now - outboxProcessingLease)) n) claimed_events))"

definition claimEventOutbox :: "gotime \<Rightarrow> string \<Rightarrow> outbox list dbm" where
  "claimEventOutbox now eid = claim_update (\<lambda>d r. ob_event_id r = eid \<and> ob_webhook_id r \<noteq> None \<and>
     (ob_status r = ObPending \<and> (case ob_next_run_at r of None \<Rightarrow> True | Some t \<Rightarrow> t \<le> to_unix now)
      \<or> ob_status r = ObProcessing \<and> ob_updated_at r \<le> to_unix (now - outboxProcessingLease))) (to_unix now)"

definition ClaimEventOutbox :: "gotime \<Rightarrow> string \<Rightarrow> outbox_event list dbm" where
  "ClaimEventOutbox now eid = transaction (dbind (claimEventOutbox now eid) claimed_events)"

definition MarkEventOutboxProcessing :: "gotime \<Rightarrow> string \<Rightarrow> bool dbm" where
  "MarkEventOutboxProcessing now eid = dbind (ClaimEventOutbox now eid) (\<lambda>claimed. dret (claimed \<noteq> []))"

definition mark_outbox :: "(outbox \<Rightarrow> bool) \<Rightarrow> (outbox \<Rightarrow> outbox) \<Rightarrow> unit dbm" where
  "mark_outbox P f = exec (\<lambda>d. d\<lparr>event_outbox := tupdate P f (event_outbox d)\<rparr>)"

definition delivered_row :: "unixsec \<Rightarrow> outbox \<Rightarrow> outbox" where
  "delivered_row now r = r\<lparr>ob_status := ObDelivered, ob_updated_at := now\<rparr>"

definition pending_row :: "unixsec \<Rightarrow> unixsec \<Rightarrow> outbox \<Rightarrow> outbox" where
  "pending_row now next_run r = r\<lparr>ob_status := ObPending, ob_next_run_at := Some next_run, ob_updated_at := now\<rparr>"

definition MarkEventOutboxDelivered :: "gotime \<Rightarrow> string \<Rightarrow> unit dbm" where
  "MarkEventOutboxDelivered now eid = mark_outbox (\<lambda>r. ob_event_id r = eid) (delivered_row (to_unix now))"

definition MarkOutboxDelivered :: "gotime \<Rightarrow> string \<Rightarrow> unit dbm" where
  "MarkOutboxDelivered now oid = mark_outbox (\<lambda>r. ob_id r = oid) (delivered_row (to_unix now))"

definition MarkEventOutboxPending :: "gotime \<Rightarrow> string \<Rightarrow> gotime \<Rightarrow> unit dbm" where
  "MarkEventOutboxPending now eid next_run =
     mark_outbox (\<lambda>r. ob_event_id r = eid) (pending_row (to_unix now) (to_unix next_run))"

definition MarkOutboxPending :: "gotime \<Rightarrow> string \<Rightarrow> gotime \<Rightarrow> unit dbm" where
  "MarkOutboxPending now oid next_run =
     mark_outbox (\<lambda>r. ob_id r = oid) (pending_row (to_unix now) (to_unix next_run))"

section \<open>Pruning\<close>

definition eventPruneBatchLimit :: nat where "eventPruneBatchLimit = 5000"

definition eventPruneMaxBatches :: nat where "eventPruneMaxBatches = 20"

text \<open>
  \<open>DELETE FROM events WHERE id IN (SELECT id .. WHERE P ORDER BY created_at, id LIMIT n)\<close>; the outbox
  rows go by ON DELETE CASCADE.
\<close>

definition deleteEventBatch :: "(event \<Rightarrow> bool) \<Rightarrow> nat dbm" where
  "deleteEventBatch P = stmt (\<lambda>d.
     let gone = set (map ev_id (take eventPruneBatchLimit (sort_key (\<lambda>r. (ev_time r, ev_id r)) (filter P (events d)))))
     in (Inr (taffected (\<lambda>r. ev_id r \<in> gone) (events d)),
         d\<lparr>events := tdelete (\<lambda>r. ev_id r \<in> gone) (events d),
           event_outbox := tdelete (\<lambda>r. ob_event_id r \<in> gone) (event_outbox d)\<rparr>))"

fun prune_batches :: "nat \<Rightarrow> (event \<Rightarrow> bool) \<Rightarrow> unit dbm" where
  "prune_batches 0 P = dret ()"
| "prune_batches (Suc n) P = dbind (deleteEventBatch P) (\<lambda>affected.
     if affected < eventPruneBatchLimit then dret () else prune_batches n P)"

definition pruneEventsBefore :: "unixsec \<Rightarrow> unit dbm" where
  "pruneEventsBefore cutoff = prune_batches eventPruneMaxBatches (\<lambda>r. ev_time r < cutoff)"

definition pruneEventsAboveLimit :: "nat \<Rightarrow> unit dbm" where
  "pruneEventsAboveLimit keepRows =
     dbind (query (\<lambda>d. let newest = rev (sort_key (\<lambda>r. (ev_time r, ev_id r)) (events d))
                       in if keepRows - 1 < length newest then Some (newest ! (keepRows - 1)) else None)) (\<lambda>boundary.
     case boundary of None \<Rightarrow> dret ()
     | Some b \<Rightarrow> prune_batches eventPruneMaxBatches
         (\<lambda>r. ev_time r < ev_time b \<or> (ev_time r = ev_time b \<and> ev_id r < ev_id b)))"

definition PruneEvents :: "gotime \<Rightarrow> int \<Rightarrow> int \<Rightarrow> unit dbm" where
  "PruneEvents now keepRows maxAge =
     (let keep = nat (if keepRows \<le> 0 then 10000 else keepRows) in
      dbind (pruneEventsBefore (to_unix (now - maxAge))) (\<lambda>_. pruneEventsAboveLimit keep))"

section \<open>Every operation keeps the constraints\<close>

lemma insert_or_ignore_induct:
  assumes "P rows" "\<And>r acc. r \<in> set new \<Longrightarrow> P acc \<Longrightarrow> tget key (key r) acc = None \<Longrightarrow> P (acc @ [r])"
  shows "P (insert_or_ignore key new rows)"
  using assms unfolding insert_or_ignore_def by (induction new arbitrary: rows) auto

lemma tunique_insert_or_ignore: "tunique key rows \<Longrightarrow> tunique key (insert_or_ignore key new rows)"
  by (rule insert_or_ignore_induct) (simp_all add: tunique_snoc)

lemma outbox_rows_refs:
  assumes "r \<in> set (outbox_rows t i ty d)"
  shows "ob_event_id r = i" "\<exists>w \<in> set (webhooks d). ob_webhook_id r = Some (wh_id w)"
  using assms by (auto simp: outbox_rows_def)

lemma wf_outbox_insert:
  assumes "db_wf d" "tget ev_id i (events d) \<noteq> None"
  shows "db_wf (d\<lparr>event_outbox := insert_or_ignore ob_id (outbox_rows t i ty d) (event_outbox d)\<rparr>)"
proof -
  let ?new = "insert_or_ignore ob_id (outbox_rows t i ty d) (event_outbox d)"
  have "trefs ob_event_id ?new ev_id (events d)"
    by (rule insert_or_ignore_induct) (use assms in \<open>simp_all add: wf_defs outbox_rows_refs\<close>)
  moreover have "trefs_opt ob_webhook_id ?new wh_id (webhooks d)"
  proof (rule insert_or_ignore_induct)
    fix r and acc :: "outbox list"
    assume "r \<in> set (outbox_rows t i ty d)" "trefs_opt ob_webhook_id acc wh_id (webhooks d)"
    then show "trefs_opt ob_webhook_id (acc @ [r]) wh_id (webhooks d)"
      using outbox_rows_refs(2) [of r t i ty d] by (auto simp: trefs_opt_def)
  qed (use assms in \<open>simp add: wf_defs\<close>)
  ultimately show ?thesis using assms by (simp add: wf_defs tunique_insert_or_ignore)
qed

lemma wf_CreateEvent [keeps_intros]: "keeps db_wf (CreateEvent now uuid ty source subject data)"
proof -
  have "db_wf (snd (if tget ev_id i (events d) = None then (Inl ErrForeignKey, d)
      else (Inr (), d\<lparr>event_outbox := insert_or_ignore ob_id (outbox_rows t i ty d) (event_outbox d)\<rparr>)))"
    if "db_wf d" for d i t
    using wf_outbox_insert [OF that, of i t ty] that by auto
  then show ?thesis unfolding CreateEvent_def
    by (intro keeps_intros; (simp add: wf_defs table_simps; fail)?; (simp; fail)?)
qed

lemma claim_row_keys [simp]:
  "ob_id (claim_row now r) = ob_id r" "ob_event_id (claim_row now r) = ob_event_id r"
  "ob_webhook_id (claim_row now r) = ob_webhook_id r"
  by (simp_all add: claim_row_def)

lemma mark_row_keys [simp]:
  "ob_id (delivered_row now r) = ob_id r" "ob_event_id (delivered_row now r) = ob_event_id r"
  "ob_webhook_id (delivered_row now r) = ob_webhook_id r"
  "ob_id (pending_row now nxt r) = ob_id r" "ob_event_id (pending_row now nxt r) = ob_event_id r"
  "ob_webhook_id (pending_row now nxt r) = ob_webhook_id r"
  by (simp_all add: delivered_row_def pending_row_def)

lemma wf_claim_update [keeps_intros]: "keeps db_wf (claim_update P now)"
  unfolding claim_update_def by (intro keeps_intros) (simp add: wf_defs)

lemmas outbox_defs = ClaimPendingOutboxEvents_def claimOutboxEventIDs_def claimed_events_def listOutboxEvents_def
  ClaimEventOutbox_def claimEventOutbox_def MarkEventOutboxProcessing_def mark_outbox_def MarkEventOutboxDelivered_def
  MarkOutboxDelivered_def MarkEventOutboxPending_def MarkOutboxPending_def ListEvents_def

lemma wf_outbox [keeps_intros]:
  "keeps db_wf (ListEvents limit ty since)" "keeps db_wf (ClaimPendingOutboxEvents now limit)"
  "keeps db_wf (ClaimEventOutbox now eid)" "keeps db_wf (MarkEventOutboxProcessing now eid)"
  "keeps db_wf (MarkEventOutboxDelivered now eid)" "keeps db_wf (MarkOutboxDelivered now eid)"
  "keeps db_wf (MarkEventOutboxPending now eid nxt)" "keeps db_wf (MarkOutboxPending now eid nxt)"
  unfolding outbox_defs Let_def by (intro keeps_intros; simp add: wf_defs)+

lemma trefs_cascade_set:
  "trefs f rows pk ps \<Longrightarrow> trefs f (tdelete (\<lambda>r. f r \<in> K) rows) pk (tdelete (\<lambda>p. pk p \<in> K) ps)"
  by (auto simp: trefs_def) metis

lemma wf_deleteEventBatch [keeps_intros]: "keeps db_wf (deleteEventBatch P)"
  unfolding deleteEventBatch_def Let_def
  by (intro keeps_intros) (simp add: wf_defs table_simps trefs_cascade_set)

lemma wf_prune_batches [keeps_intros]: "keeps db_wf (prune_batches n P)"
  by (induction n) (simp_all, (intro keeps_intros; assumption?)+)

lemma wf_PruneEvents [keeps_intros]: "keeps db_wf (PruneEvents now keep age)"
  unfolding PruneEvents_def pruneEventsBefore_def pruneEventsAboveLimit_def Let_def by (intro keeps_intros)

section \<open>What pruning leaves\<close>

abbreviation age_key :: "event \<Rightarrow> int \<times> string" where
  "age_key r \<equiv> (ev_time r, ev_id r)"

definition without_events :: "(event \<Rightarrow> bool) \<Rightarrow> db \<Rightarrow> db" where
  "without_events P d = d\<lparr>events := tdelete P (events d),
     event_outbox := tdelete (\<lambda>r. ob_event_id r \<in> ev_id ` {e \<in> set (events d). P e}) (event_outbox d)\<rparr>"

lemma taffected_set:
  assumes "tunique key rows"
  shows "taffected (\<lambda>r. key r \<in> K) rows = card (key ` set rows \<inter> K)"
proof -
  have "distinct (map key (filter (\<lambda>r. key r \<in> K) rows))"
    using assms by (simp add: tunique_def distinct_map_filter)
  then have "taffected (\<lambda>r. key r \<in> K) rows = card (set (map key (filter (\<lambda>r. key r \<in> K) rows)))"
    by (metis distinct_card length_map taffected_def)
  also have "set (map key (filter (\<lambda>r. key r \<in> K) rows)) = key ` set rows \<inter> K" by auto
  finally show ?thesis .
qed

lemma image_key_mem: "K \<subseteq> f ` A \<Longrightarrow> f ` {e \<in> A. f e \<in> K} = K"
  by blast

lemma batch_step:
  assumes quiet: "faults d = []" and uniq: "tunique ev_id (events d)"
  obtains G where "deleteEventBatch P d = (Inr (taffected G (events d)), without_events G d)"
    "\<And>r. r \<in> set (events d) \<Longrightarrow> G r \<Longrightarrow> P r"
    "taffected G (events d) = min eventPruneBatchLimit (taffected P (events d))"
proof
  let ?xs = "sort_key age_key (filter P (events d))"
  let ?gone = "set (map ev_id (take eventPruneBatchLimit ?xs))"
  let ?G = "\<lambda>r. ev_id r \<in> ?gone"
  have sub: "?gone \<subseteq> ev_id ` set (events d)" by (auto dest!: in_set_takeD)
  have same: "ev_id ` {e \<in> set (events d). ?G e} = ?gone" by (rule image_key_mem [OF sub])
  show "deleteEventBatch P d = (Inr (taffected ?G (events d)), without_events ?G d)"
    by (simp only: deleteEventBatch_def Let_def stmt_no_faults [OF quiet] without_events_def same)
  show "P r" if "r \<in> set (events d)" "?G r" for r
  proof -
    from that(2) obtain s where s: "s \<in> set ?xs" "ev_id s = ev_id r" by (auto dest!: in_set_takeD)
    then show ?thesis using tunique_eq [OF uniq, of s r] that(1) by auto
  qed
  have "distinct (map ev_id (filter P (events d)))"
    using uniq by (simp add: tunique_def distinct_map_filter)
  then have "distinct (map ev_id ?xs)" by (simp add: distinct_map)
  then have "distinct (map ev_id (take eventPruneBatchLimit ?xs))" by (simp add: take_map [symmetric])
  then have "card ?gone = length (map ev_id (take eventPruneBatchLimit ?xs))" by (rule distinct_card)
  moreover have "taffected ?G (events d) = card ?gone"
    using taffected_set [OF uniq, of ?gone] sub by (simp only: Int_absorb1)
  ultimately show "taffected ?G (events d) = min eventPruneBatchLimit (taffected P (events d))"
    by (simp add: taffected_def min.commute)
qed

lemma taffected_split:
  "(\<And>r. r \<in> set rows \<Longrightarrow> G r \<Longrightarrow> P r) \<Longrightarrow> taffected P rows = taffected G rows + taffected P (tdelete G rows)"
  by (induction rows) (auto simp: taffected_def tdelete_def)

lemma without_events_twice:
  assumes "\<And>r. r \<in> set (events d) \<Longrightarrow> G r \<Longrightarrow> P r"
  shows "without_events P (without_events G d) = without_events P d"
proof -
  have "tdelete P (tdelete G (events d)) = tdelete P (events d)"
    using assms by (auto simp: tdelete_def intro: filter_cong)
  moreover have "tdelete (\<lambda>r. ob_event_id r \<in> ev_id ` {e \<in> set (tdelete G (events d)). P e})
        (tdelete (\<lambda>r. ob_event_id r \<in> ev_id ` {e \<in> set (events d). G e}) (event_outbox d))
      = tdelete (\<lambda>r. ob_event_id r \<in> ev_id ` {e \<in> set (events d). P e}) (event_outbox d)"
    using assms unfolding tdelete_def filter_filter by (intro filter_cong) auto
  ultimately show ?thesis by (simp add: without_events_def)
qed

lemma without_none:
  assumes "taffected P (events d) = 0"
  shows "without_events P d = d"
proof -
  have no: "\<not> P r" if "r \<in> set (events d)" for r
    using assms that by (auto simp: taffected_def filter_empty_conv)
  then have none: "{e \<in> set (events d). P e} = {}" by blast
  have "tdelete P (events d) = events d" using no by (simp add: tdelete_def filter_id_conv)
  then show ?thesis unfolding without_events_def none by (simp add: tdelete_def)
qed

lemma without_events_frame [simp]:
  "faults (without_events P d) = faults d" "events (without_events P d) = tdelete P (events d)"
  by (simp_all add: without_events_def)

lemma prune_batches_all:
  assumes "faults d = []" "tunique ev_id (events d)" "taffected P (events d) \<le> n * eventPruneBatchLimit"
  shows "prune_batches n P d = (Inr (), without_events P d)"
  using assms
proof (induction n arbitrary: d)
  case 0
  then show ?case by (simp add: dret_def without_none)
next
  case (Suc n)
  obtain G where del: "deleteEventBatch P d = (Inr (taffected G (events d)), without_events G d)"
    and sub: "\<And>r. r \<in> set (events d) \<Longrightarrow> G r \<Longrightarrow> P r"
    and num: "taffected G (events d) = min eventPruneBatchLimit (taffected P (events d))"
    by (rule batch_step [OF Suc.prems(1,2), of P]) (rule that)
  let ?d1 = "without_events G d"
  have rest: "taffected P (events d) = taffected G (events d) + taffected P (events ?d1)"
    using taffected_split [OF sub] by simp
  have twice: "without_events P ?d1 = without_events P d" by (rule without_events_twice [OF sub])
  show ?case
  proof (cases "taffected G (events d) < eventPruneBatchLimit")
    case True
    then have "taffected P (events ?d1) = 0" using num rest by linarith
    then have "?d1 = without_events P d" using twice without_none by metis
    then show ?thesis using True del by (simp add: dbind_def dret_def)
  next
    case False
    then have "taffected P (events ?d1) \<le> n * eventPruneBatchLimit"
      using Suc.prems(3) num rest mult_Suc [of n eventPruneBatchLimit] by linarith
    moreover have "faults ?d1 = []" "tunique ev_id (events ?d1)"
      using Suc.prems by (simp_all add: tunique_tdelete)
    ultimately have "prune_batches n P ?d1 = (Inr (), without_events P ?d1)" using Suc.IH by blast
    then show ?thesis using False del twice by (simp add: dbind_def)
  qed
qed

text \<open>The first \<open>k\<close> of a strictly decreasing list are those not below its \<open>k\<close>-th.\<close>

lemma strictly_decreasing:
  fixes key :: "'r \<Rightarrow> 'k :: linorder"
  assumes "distinct rows" "inj_on key (set rows)"
  shows "sorted_wrt (\<lambda>x y. key y < key x) (rev (sort_key key rows))"
proof -
  let ?s = "sort_key key rows"
  have "distinct (map key ?s)" using assms by (simp add: distinct_map)
  moreover have "sorted (map key ?s)" by simp
  ultimately have "sorted_wrt (<) (map key ?s)" by (simp add: strict_sorted_iff)
  then show ?thesis by (simp add: sorted_wrt_map sorted_wrt_rev)
qed

lemma take_decreasing:
  fixes key :: "'r \<Rightarrow> 'k :: linorder"
  assumes dec: "sorted_wrt (\<lambda>x y. key y < key x) ys" and k: "0 < k" "k \<le> length ys"
  shows "set (take k ys) = {x \<in> set ys. \<not> key x < key (ys ! (k - 1))}"
proof (intro set_eqI iffI)
  fix x assume x: "x \<in> set (take k ys)"
  then obtain i where i: "i < k" "x = ys ! i" using k by (auto simp: in_set_conv_nth)
  have "i = k - 1 \<or> key (ys ! (k - 1)) < key (ys ! i)"
    using sorted_wrt_nth_less [OF dec, of i "k - 1"] i k by (cases "i = k - 1") auto
  then show "x \<in> {x \<in> set ys. \<not> key x < key (ys ! (k - 1))}" using i x by (auto dest: in_set_takeD)
next
  fix x assume "x \<in> {x \<in> set ys. \<not> key x < key (ys ! (k - 1))}"
  then obtain i where i: "i < length ys" "x = ys ! i" "\<not> key (ys ! i) < key (ys ! (k - 1))"
    by (auto simp: in_set_conv_nth)
  then have "\<not> k - 1 < i" using sorted_wrt_nth_less [OF dec, of "k - 1" i] by blast
  then show "x \<in> set (take k ys)" using i k by (auto simp: in_set_conv_nth intro!: exI [of _ i])
qed

definition newest_first :: "event list \<Rightarrow> event list" where
  "newest_first rows = rev (sort_key age_key rows)"

lemma newest_decreasing:
  assumes "tunique ev_id rows"
  shows "sorted_wrt (\<lambda>x y. age_key y < age_key x) (newest_first rows)"
  unfolding newest_first_def
proof (rule strictly_decreasing)
  show "distinct rows" using assms by (simp add: tunique_def distinct_map)
  show "inj_on age_key (set rows)" using tunique_eq [OF assms] by (auto intro: inj_onI)
qed

lemma pruneEventsBefore_all:
  assumes "faults d = []" "tunique ev_id (events d)" "length (events d) \<le> eventPruneMaxBatches * eventPruneBatchLimit"
  shows "pruneEventsBefore cutoff d = (Inr (), without_events (\<lambda>r. ev_time r < cutoff) d)"
  unfolding pruneEventsBefore_def
  by (rule prune_batches_all) (use assms in \<open>auto simp: taffected_def intro: order_trans [OF length_filter_le]\<close>)

lemma pruneEventsAboveLimit_all:
  assumes "faults d = []" "tunique ev_id (events d)" "length (events d) \<le> eventPruneMaxBatches * eventPruneBatchLimit"
    and k: "0 < k"
  obtains P where "pruneEventsAboveLimit k d = (Inr (), without_events P d)"
    "{r \<in> set (events d). \<not> P r} = set (take k (newest_first (events d)))"
proof (cases "k - 1 < length (events d)")
  case True
  let ?n = "newest_first (events d)"
  let ?b = "?n ! (k - 1)"
  let ?P = "\<lambda>r. ev_time r < ev_time ?b \<or> (ev_time r = ev_time ?b \<and> ev_id r < ev_id ?b)"
  have len: "length ?n = length (events d)" and set: "set ?n = set (events d)" by (simp_all add: newest_first_def)
  have "prune_batches eventPruneMaxBatches ?P d = (Inr (), without_events ?P d)"
    by (rule prune_batches_all) (use assms in \<open>auto simp: taffected_def intro: order_trans [OF length_filter_le]\<close>)
  moreover have "pruneEventsAboveLimit k d = prune_batches eventPruneMaxBatches ?P d"
    unfolding pruneEventsAboveLimit_def dbind_def query_def stmt_no_faults [OF assms(1)] Let_def
      newest_first_def [symmetric] len using True by simp
  ultimately have "pruneEventsAboveLimit k d = (Inr (), without_events ?P d)" by simp
  moreover have "{r \<in> set (events d). \<not> ?P r} = set (take k ?n)"
    using take_decreasing [OF newest_decreasing [OF assms(2)], of k] k True len set
    by (auto simp: less_prod_def)
  ultimately show ?thesis by (rule that)
next
  case False
  have "pruneEventsAboveLimit k d = (Inr (), d)"
    using False by (simp add: pruneEventsAboveLimit_def dbind_def query_def stmt_no_faults [OF assms(1)] dret_def)
  moreover have "without_events (\<lambda>r. False) d = d" by (rule without_none) (simp add: taffected_def)
  moreover have "{r \<in> set (events d). \<not> False} = set (take k (newest_first (events d)))"
    using False k by (auto simp: newest_first_def)
  ultimately show ?thesis using that [of "\<lambda>r. False"] by simp
qed

lemma without_events_within:
  "without_events Q (without_events P d) = without_events (\<lambda>r. P r \<or> Q r) d"
proof -
  have "tdelete (\<lambda>r. ob_event_id r \<in> ev_id ` {e \<in> set (events (without_events P d)). Q e}) (event_outbox (without_events P d))
      = tdelete (\<lambda>r. ob_event_id r \<in> ev_id ` {e \<in> set (events d). P e \<or> Q e}) (event_outbox d)"
    unfolding tdelete_def without_events_def by (auto intro!: filter_cong)
  then show ?thesis
    by (auto simp: without_events_def tdelete_def intro: filter_cong)
qed

lemma kept_outbox:
  assumes "db_wf d"
  shows "tdelete (\<lambda>r. ob_event_id r \<in> ev_id ` {e \<in> set (events d). P e}) (event_outbox d)
    = filter (\<lambda>r. ob_event_id r \<in> ev_id ` set (tdelete P (events d))) (event_outbox d)"
  unfolding tdelete_def [of _ "event_outbox d"]
proof (rule filter_cong [OF refl])
  fix r assume "r \<in> set (event_outbox d)"
  then obtain e where e: "e \<in> set (events d)" "ev_id e = ob_event_id r"
    using assms by (auto simp: wf_defs trefs_def)
  have sel: "ob_event_id r \<in> ev_id ` {e \<in> set (events d). Q e} \<longleftrightarrow> Q e" for Q
  proof
    assume "ob_event_id r \<in> ev_id ` {e \<in> set (events d). Q e}"
    then obtain e' where "e' \<in> set (events d)" "Q e'" "ev_id e' = ob_event_id r" by auto
    moreover from this have "e' = e" using tunique_eq [of ev_id "events d" e' e] assms e by (simp add: wf_defs)
    ultimately show "Q e" by simp
  next
    assume "Q e"
    then show "ob_event_id r \<in> ev_id ` {e \<in> set (events d). Q e}" using e by (metis (mono_tags, lifting) image_eqI mem_Collect_eq)
  qed
  show "(ob_event_id r \<notin> ev_id ` {e \<in> set (events d). P e}) = (ob_event_id r \<in> ev_id ` set (tdelete P (events d)))"
    by (simp only: sel set_tdelete)
qed

text \<open>
  With no database failure and at most 100000 stored events, one run of the retention worker keeps
  exactly the newest events of those young enough, as many as configured (10000 when the setting is not
  positive), and of the outbox exactly the jobs of the events kept; it changes nothing else.
\<close>

theorem prune_keeps_newest:
  assumes wf: "db_wf d" and quiet: "faults d = []"
    and few: "length (events d) \<le> eventPruneMaxBatches * eventPruneBatchLimit"
  shows "\<exists>d'. PruneEvents now keepRows maxAge d = (Inr (), d') \<and>
    set (events d') = set (take (if keepRows \<le> 0 then 10000 else nat keepRows)
      (newest_first (filter (\<lambda>r. to_unix (now - maxAge) \<le> ev_time r) (events d)))) \<and>
    event_outbox d' = filter (\<lambda>r. ob_event_id r \<in> ev_id ` set (events d')) (event_outbox d) \<and>
    d'\<lparr>events := events d, event_outbox := event_outbox d\<rparr> = d"
proof -
  let ?old = "\<lambda>r. ev_time r < to_unix (now - maxAge)"
  let ?k = "nat (if keepRows \<le> 0 then 10000 else keepRows)"
  let ?d1 = "without_events ?old d"
  have uniq: "tunique ev_id (events d)" using wf by (simp add: wf_defs)
  have before: "pruneEventsBefore (to_unix (now - maxAge)) d = (Inr (), ?d1)"
    by (rule pruneEventsBefore_all [OF quiet uniq few])
  have d1: "faults ?d1 = []" "tunique ev_id (events ?d1)"
    "length (events ?d1) \<le> eventPruneMaxBatches * eventPruneBatchLimit" "0 < ?k"
    using quiet tunique_tdelete [OF uniq] order_trans [OF length_filter_le few] by (simp_all add: tdelete_def)
  obtain P where above: "pruneEventsAboveLimit ?k ?d1 = (Inr (), without_events P ?d1)"
    and P: "{r \<in> set (events ?d1). \<not> P r} = set (take ?k (newest_first (events ?d1)))"
    by (rule pruneEventsAboveLimit_all [OF d1]) (rule that)
  let ?d2 = "without_events (\<lambda>r. ?old r \<or> P r) d"
  have young: "events ?d1 = filter (\<lambda>r. to_unix (now - maxAge) \<le> ev_time r) (events d)"
    by (simp add: tdelete_def not_less)
  have k: "?k = (if keepRows \<le> 0 then 10000 else nat keepRows)" by simp
  have "set (events ?d2) = {r \<in> set (events ?d1). \<not> P r}" by auto
  also have "\<dots> = set (take ?k (newest_first (events ?d1)))" by (rule P)
  finally have "set (events ?d2) = set (take (if keepRows \<le> 0 then 10000 else nat keepRows)
      (newest_first (filter (\<lambda>r. to_unix (now - maxAge) \<le> ev_time r) (events d))))"
    by (simp only: k young)
  moreover have "PruneEvents now keepRows maxAge d = (Inr (), ?d2)"
    using above by (simp add: PruneEvents_def dbind_def before without_events_within)
  moreover have "event_outbox ?d2 = filter (\<lambda>r. ob_event_id r \<in> ev_id ` set (events ?d2)) (event_outbox d)"
    using kept_outbox [OF wf, of "\<lambda>r. ?old r \<or> P r"] by (simp add: without_events_def)
  moreover have "?d2\<lparr>events := events d, event_outbox := event_outbox d\<rparr> = d"
    by (simp add: without_events_def)
  ultimately show ?thesis by blast
qed

definition demo_events :: db where
  "demo_events = empty_db\<lparr>events :=
     [\<lparr>ev_id = ''a'', ev_type = ''user.created'', ev_time = 10, ev_source = ''hellingd'', ev_subject = '''', ev_data = ''{}''\<rparr>,
      \<lparr>ev_id = ''b'', ev_type = ''user.created'', ev_time = 90, ev_source = ''hellingd'', ev_subject = '''', ev_data = ''{}''\<rparr>,
      \<lparr>ev_id = ''c'', ev_type = ''user.deleted'', ev_time = 95, ev_source = ''hellingd'', ev_subject = '''', ev_data = ''{}''\<rparr>]\<rparr>"

theorem prune_keeps_newest_witness:
  "\<exists>d'. PruneEvents (100 * second) 1 (50 * second) demo_events = (Inr (), d') \<and> map ev_id (events d') = [''c'']"
proof -
  have pre: "db_wf demo_events" "faults demo_events = []"
    "length (events demo_events) \<le> eventPruneMaxBatches * eventPruneBatchLimit"
    by (simp_all add: demo_events_def empty_db_def wf_defs tunique_def trefs_def trefs_opt_def tbelow_def
        eventPruneMaxBatches_def eventPruneBatchLimit_def)
  obtain d' where d': "PruneEvents (100 * second) 1 (50 * second) demo_events = (Inr (), d')"
    "set (events d') = set (take (if (1::int) \<le> 0 then 10000 else nat 1)
       (newest_first (filter (\<lambda>r. to_unix (100 * second - 50 * second) \<le> ev_time r) (events demo_events))))"
    using prune_keeps_newest [OF pre, of "100 * second" 1 "50 * second"] by blast
  have "map ev_id (events (snd (PruneEvents (100 * second) 1 (50 * second) demo_events))) = [''c'']"
    by code_simp
  then show ?thesis using d'(1) by simp
qed

end
