(* ===== verification/Store_Webhooks.thy ===== *)
theory Store_Webhooks
  imports Store_Events
begin

text \<open>
  \<open>store/webhooks.go\<close>: webhooks, their subscriptions and the log of deliveries, and what the
  subscription table means for the fan-out of \<open>CreateEvent\<close>.

  \<open>wh_events\<close> is the list of patterns the column \<open>events\<close> holds as JSON; accepted patterns are ASCII,
  so that \<open>json.Unmarshal\<close> gives back what \<open>json.Marshal\<close> wrote.
\<close>

section \<open>Subscriptions\<close>

definition knownWebhookEventTypes :: "string list" where
  "knownWebhookEventTypes =
     [''auth.login.fail'', ''auth.login.ok'', ''auth.token.revoked'', ''backup.completed'', ''backup.failed'',
      ''cluster.node.joined'', ''cluster.node.left'', ''container.created'', ''container.deleted'',
      ''container.started'', ''container.stopped'', ''firewall.rule.created'', ''firewall.rule.deleted'',
      ''instance.created'', ''instance.deleted'', ''instance.started'', ''instance.stopped'', ''instance.updated'',
      ''schedule.completed'', ''schedule.created'', ''schedule.deleted'', ''schedule.failed'', ''schedule.started'',
      ''schedule.updated'', ''snapshot.created'', ''snapshot.deleted'', ''system.upgrade.completed'',
      ''system.upgrade.failed'', ''system.upgrade.started'', ''user.created'', ''user.deleted'', ''user.updated'',
      ''warning.raised'', ''warning.resolved'', ''webhook.created'', ''webhook.deleted'', ''webhook.delivery.fail'',
      ''webhook.delivery.ok'', ''webhook.test'', ''webhook.updated'']"

fun normalize_from :: "string set \<Rightarrow> string list \<Rightarrow> string list" where
  "normalize_from seen [] = []"
| "normalize_from seen (e # es) = (let ty = trim_space e in
     if ty = '''' \<or> ty \<in> seen then normalize_from seen es else ty # normalize_from (insert ty seen) es)"

definition normalizeWebhookEvents :: "string list \<Rightarrow> string list" where
  "normalizeWebhookEvents evs = normalize_from {} evs"

definition webhookEventTypeAllowed :: "string \<Rightarrow> bool" where
  "webhookEventTypeAllowed ty =
     (if ty = ''*'' then True
      else if ty \<in> set knownWebhookEventTypes then True
      else let prefix = (if has_suffix ty ''.*'' then trim_suffix ty ''*''
                         else if has_suffix ty ''.'' then ty else '''')
           in if prefix = '''' then False else list_ex (\<lambda>known. has_prefix known prefix) knownWebhookEventTypes)"

definition ValidateWebhookEvents :: "string list \<Rightarrow> string list res" where
  "ValidateWebhookEvents evs = (let evs = normalizeWebhookEvents evs in
     if evs = [] then Inl (ErrInvalid ''webhook events cannot be empty'')
     else if list_all webhookEventTypeAllowed evs then Inr evs
     else Inl (ErrInvalid ''unsupported webhook event type''))"

section \<open>Operations\<close>

definition insert_subscription :: "string \<Rightarrow> string \<Rightarrow> unit dbm" where
  "insert_subscription wid ty = stmt (\<lambda>d.
     if (wid, ty) \<in> set (webhook_events d) then (Inr (), d)
     else if tget wh_id wid (webhooks d) = None then (Inl ErrForeignKey, d)
     else (Inr (), d\<lparr>webhook_events := webhook_events d @ [(wid, ty)]\<rparr>))"

fun insert_subscriptions :: "string \<Rightarrow> string list \<Rightarrow> unit dbm" where
  "insert_subscriptions wid [] = dret ()"
| "insert_subscriptions wid (ty # tys) = dbind (insert_subscription wid ty) (\<lambda>_. insert_subscriptions wid tys)"

definition replaceWebhookEventSubscriptions :: "string \<Rightarrow> string list \<Rightarrow> unit dbm" where
  "replaceWebhookEventSubscriptions wid evs =
     dbind (exec (\<lambda>d. d\<lparr>webhook_events := tdelete (\<lambda>s. fst s = wid) (webhook_events d)\<rparr>)) (\<lambda>_.
     insert_subscriptions wid (normalizeWebhookEvents evs))"

definition store_webhook :: "gotime \<Rightarrow> webhook \<Rightarrow> webhook dbm" where
  "store_webhook now w = transaction (
     dbind (stmt (\<lambda>d.
       if tget wh_id (wh_id w) (webhooks d) \<noteq> None then (Inl ErrUnique, d)
       else if tget u_id (wh_user_id w) (users d) = None then (Inl ErrForeignKey, d)
       else (Inr (), d\<lparr>webhooks := webhooks d @
              [w\<lparr>wh_created_at := to_unix now, wh_updated_at := to_unix now\<rparr>]\<rparr>))) (\<lambda>_.
     dbind (replaceWebhookEventSubscriptions (wh_id w) (wh_events w)) (\<lambda>_. dret w)))"

definition CreateWebhook ::
  "(string \<Rightarrow> string option) \<Rightarrow> gotime \<Rightarrow> string option \<Rightarrow> int \<Rightarrow> string \<Rightarrow> string \<Rightarrow> string \<Rightarrow> string list \<Rightarrow> webhook dbm" where
  "CreateWebhook encrypt now uuid uid name url secret evs = with_uuid uuid (\<lambda>i.
     case ValidateWebhookEvents evs of Inl e \<Rightarrow> dfail e
     | Inr evs \<Rightarrow> (case encrypt secret of None \<Rightarrow> dfail ErrCrypto
       | Some enc \<Rightarrow> store_webhook now
           \<lparr>wh_id = i, wh_user_id = uid, wh_name = name, wh_url = url, wh_secret_encrypted = enc,
            wh_events = evs, wh_enabled = True, wh_created_at = now, wh_updated_at = now\<rparr>))"

definition scan_webhook :: "webhook \<Rightarrow> webhook" where
  "scan_webhook r = r\<lparr>wh_created_at := from_unix (wh_created_at r), wh_updated_at := from_unix (wh_updated_at r)\<rparr>"

definition GetWebhook :: "string \<Rightarrow> webhook dbm" where
  "GetWebhook i = dbind (query (\<lambda>d. tget wh_id i (webhooks d))) (one_row scan_webhook)"

definition ListWebhooks :: "webhook list dbm" where
  "ListWebhooks = query (\<lambda>d. map scan_webhook (sort_key (\<lambda>r. - wh_created_at r) (webhooks d)))"

definition rewrite_webhook :: "string \<Rightarrow> string list \<Rightarrow> (webhook \<Rightarrow> webhook) \<Rightarrow> unit dbm" where
  "rewrite_webhook i evs f = transaction (
     dbind (exec (\<lambda>d. d\<lparr>webhooks := tupdate (\<lambda>r. wh_id r = i) (\<lambda>r. (f r)\<lparr>wh_id := wh_id r, wh_events := evs\<rparr>) (webhooks d)\<rparr>))
     (\<lambda>_. replaceWebhookEventSubscriptions i evs))"

definition UpdateWebhook ::
  "(string \<Rightarrow> string option) \<Rightarrow> gotime \<Rightarrow> string \<Rightarrow> string \<Rightarrow> string \<Rightarrow> string \<Rightarrow> string list \<Rightarrow> bool \<Rightarrow> unit dbm" where
  "UpdateWebhook encrypt now i name url secret evs enabled = (case ValidateWebhookEvents evs of Inl e \<Rightarrow> dfail e
     | Inr evs \<Rightarrow> (case encrypt secret of None \<Rightarrow> dfail ErrCrypto
       | Some enc \<Rightarrow> rewrite_webhook i evs (\<lambda>r. r\<lparr>wh_name := name, wh_url := url, wh_secret_encrypted := enc,
           wh_enabled := enabled, wh_updated_at := to_unix now\<rparr>)))"

text \<open>Subscriptions, deliveries and outbox jobs go by ON DELETE CASCADE.\<close>

definition DeleteWebhook :: "string \<Rightarrow> unit dbm" where
  "DeleteWebhook i = exec (\<lambda>d. d\<lparr>webhooks := tdelete (\<lambda>r. wh_id r = i) (webhooks d),
     webhook_events := tdelete (\<lambda>s. fst s = i) (webhook_events d),
     deliveries := tdelete (\<lambda>r. de_webhook_id r = i) (deliveries d),
     event_outbox := tdelete (\<lambda>r. ob_webhook_id r = Some i) (event_outbox d)\<rparr>)"

section \<open>Deliveries\<close>

definition newest_deliveries :: "string \<Rightarrow> db \<Rightarrow> delivery list" where
  "newest_deliveries wid d = rev (sort_key (\<lambda>r. (de_created_at r, de_attempt r, de_id r))
     (filter (\<lambda>r. de_webhook_id r = wid) (deliveries d)))"

definition trim_deliveries :: "string \<Rightarrow> unit dbm" where
  "trim_deliveries wid = exec (\<lambda>d. let kept = set (map de_id (take 100 (newest_deliveries wid d))) in
     d\<lparr>deliveries := tdelete (\<lambda>r. de_webhook_id r = wid \<and> de_id r \<notin> kept) (deliveries d)\<rparr>)"

record delivery_input =
  di_webhook_id :: string
  di_event_id :: string
  di_event_type :: string
  di_status :: string
  di_status_code :: "int option"
  di_response_body :: "string option"
  di_error :: "string option"
  di_attempt :: int

definition CreateWebhookDelivery :: "gotime \<Rightarrow> string option \<Rightarrow> delivery_input \<Rightarrow> delivery dbm" where
  "CreateWebhookDelivery now uuid a = with_uuid uuid (\<lambda>i.
     let de = \<lparr>de_id = i, de_webhook_id = di_webhook_id a, de_event_id = di_event_id a, de_event_type = di_event_type a,
               de_status = di_status a, de_status_code = di_status_code a, de_response_body = di_response_body a,
               de_error = di_error a, de_attempt = di_attempt a, de_created_at = now\<rparr> in
     dbind (stmt (\<lambda>d.
       if tget de_id i (deliveries d) \<noteq> None then (Inl ErrUnique, d)
       else if tget wh_id (di_webhook_id a) (webhooks d) = None then (Inl ErrForeignKey, d)
       else (Inr (), d\<lparr>deliveries := deliveries d @ [de\<lparr>de_created_at := to_unix now\<rparr>]\<rparr>))) (\<lambda>_.
     dbind (dignore (trim_deliveries (di_webhook_id a))) (\<lambda>_. dret de)))"

definition scan_delivery :: "delivery \<Rightarrow> delivery" where
  "scan_delivery r = r\<lparr>de_created_at := from_unix (de_created_at r)\<rparr>"

definition ListWebhookDeliveries :: "string \<Rightarrow> int \<Rightarrow> delivery list dbm" where
  "ListWebhookDeliveries wid limit = query (\<lambda>d. map scan_delivery
     (take (nat (if limit \<le> 0 then 50 else limit)) (newest_deliveries wid d)))"

section \<open>Every operation keeps the constraints\<close>

lemma wf_insert_subscriptions [keeps_intros]: "keeps db_wf (insert_subscriptions wid tys)"
proof (induction tys)
  case (Cons ty tys)
  have "keeps db_wf (insert_subscription wid ty)"
    unfolding insert_subscription_def
    by (intro keeps_intros) (auto simp: wf_defs tunique_snoc tget_None)
  then show ?case using Cons by (simp add: keeps_dbind)
qed (simp add: keeps_dret)

lemma wf_replaceSubscriptions [keeps_intros]: "keeps db_wf (replaceWebhookEventSubscriptions wid evs)"
  unfolding replaceWebhookEventSubscriptions_def
  by (intro keeps_intros) (simp add: wf_defs table_simps)

lemma wf_webhooks [keeps_intros]:
  "keeps db_wf (CreateWebhook encrypt now uuid uid name url secret evs)" "keeps db_wf (GetWebhook i)"
  "keeps db_wf ListWebhooks" "keeps db_wf (UpdateWebhook encrypt now i name url secret evs enabled)"
  "keeps db_wf (DeleteWebhook i)"
  unfolding CreateWebhook_def store_webhook_def GetWebhook_def ListWebhooks_def UpdateWebhook_def rewrite_webhook_def
    DeleteWebhook_def Let_def one_row_def
  by (intro keeps_intros; simp add: wf_defs table_simps)+

lemma wf_deliveries [keeps_intros]:
  "keeps db_wf (CreateWebhookDelivery now uuid a)" "keeps db_wf (ListWebhookDeliveries wid limit)"
  unfolding CreateWebhookDelivery_def ListWebhookDeliveries_def trim_deliveries_def Let_def
  by (intro keeps_intros; simp add: wf_defs table_simps)+

section \<open>The log of deliveries is bounded\<close>

lemma newest_own:
  "r \<in> set (take n (newest_deliveries wid d)) \<Longrightarrow> r \<in> set (deliveries d) \<and> de_webhook_id r = wid"
  by (auto simp: newest_deliveries_def dest!: in_set_takeD)

lemma trim_kept:
  assumes uniq: "tunique de_id (deliveries d)"
  shows "filter (\<lambda>r. de_webhook_id r = wid)
      (tdelete (\<lambda>r. de_webhook_id r = wid \<and> de_id r \<notin> set (map de_id (take 100 (newest_deliveries wid d)))) (deliveries d))
    = filter (\<lambda>r. r \<in> set (take 100 (newest_deliveries wid d))) (deliveries d)"
  unfolding tdelete_def filter_filter
proof (rule filter_cong [OF refl])
  fix r assume r: "r \<in> set (deliveries d)"
  note own = newest_own [of _ 100 wid d]
  have "de_id r \<in> set (map de_id (take 100 (newest_deliveries wid d))) \<longleftrightarrow> r \<in> set (take 100 (newest_deliveries wid d))"
    using own tunique_eq [OF uniq _ r] by (auto simp: image_iff) metis
  then show "(\<not> (de_webhook_id r = wid \<and> de_id r \<notin> set (map de_id (take 100 (newest_deliveries wid d)))) \<and> de_webhook_id r = wid)
      = (r \<in> set (take 100 (newest_deliveries wid d)))"
    using own by blast
qed

lemma length_filter_mem:
  assumes "distinct xs"
  shows "length (filter (\<lambda>x. x \<in> set ys) xs) \<le> length ys"
proof -
  have "length (filter (\<lambda>x. x \<in> set ys) xs) = card (set (filter (\<lambda>x. x \<in> set ys) xs))"
    using assms by (simp only: distinct_card distinct_filter)
  also have "\<dots> \<le> card (set ys)" by (rule card_mono) auto
  also have "\<dots> \<le> length ys" by (rule card_length)
  finally show ?thesis .
qed

text \<open>
  A delivery recorded without a database failure leaves, for its webhook, at most 100 rows, which are
  the newest of those there were and the new one, and no other change.
\<close>

theorem delivery_log_bounded:
  assumes wf: "db_wf d" and quiet: "faults d = []"
    and run: "CreateWebhookDelivery now uuid a d = (Inr de, d')"
  shows "length (filter (\<lambda>r. de_webhook_id r = di_webhook_id a) (deliveries d')) \<le> 100 \<and>
    set (filter (\<lambda>r. de_webhook_id r = di_webhook_id a) (deliveries d')) =
      set (take 100 (newest_deliveries (di_webhook_id a) (d\<lparr>deliveries := deliveries d @ [de\<lparr>de_created_at := to_unix now\<rparr>]\<rparr>))) \<and>
    filter (\<lambda>r. de_webhook_id r \<noteq> di_webhook_id a) (deliveries d') = filter (\<lambda>r. de_webhook_id r \<noteq> di_webhook_id a) (deliveries d) \<and>
    d'\<lparr>deliveries := deliveries d\<rparr> = d"
proof -
  let ?wid = "di_webhook_id a"
  obtain i where i: "uuid = Some i" using run by (cases uuid) (simp_all add: CreateWebhookDelivery_def with_uuid_def dfail_def)
  have de: "de_webhook_id de = ?wid" "de_id de = i"
    and fresh: "tget de_id i (deliveries d) = None"
    and d': "d' = snd (trim_deliveries ?wid (d\<lparr>deliveries := deliveries d @ [de\<lparr>de_created_at := to_unix now\<rparr>]\<rparr>))"
    using run by (auto simp: CreateWebhookDelivery_def with_uuid_def i dbind_def stmt_no_faults [OF quiet] dignore_def dret_def
        Let_def split: if_splits)
  let ?d1 = "d\<lparr>deliveries := deliveries d @ [de\<lparr>de_created_at := to_unix now\<rparr>]\<rparr>"
  let ?top = "take 100 (newest_deliveries ?wid ?d1)"
  have uniq: "tunique de_id (deliveries ?d1)" using wf fresh de by (simp add: wf_defs tunique_snoc)
  have rows: "deliveries d' = tdelete (\<lambda>r. de_webhook_id r = ?wid \<and> de_id r \<notin> set (map de_id ?top)) (deliveries ?d1)"
    and rest: "d'\<lparr>deliveries := deliveries d\<rparr> = d"
    using quiet by (simp_all add: d' trim_deliveries_def exec_def stmt_no_faults Let_def)
  have own: "filter (\<lambda>r. de_webhook_id r = ?wid) (deliveries d') = filter (\<lambda>r. r \<in> set ?top) (deliveries ?d1)"
    unfolding rows by (rule trim_kept [OF uniq])
  have "distinct (deliveries ?d1)" using uniq by (simp only: tunique_def distinct_map)
  then have "length (filter (\<lambda>r. r \<in> set ?top) (deliveries ?d1)) \<le> length ?top" by (rule length_filter_mem)
  moreover have "set (filter (\<lambda>r. r \<in> set ?top) (deliveries ?d1)) = set ?top"
    using newest_own [of _ 100 ?wid ?d1] unfolding set_filter by blast
  moreover have "filter (\<lambda>r. de_webhook_id r \<noteq> ?wid) (deliveries d') = filter (\<lambda>r. de_webhook_id r \<noteq> ?wid) (deliveries d)"
    using de by (auto simp: rows tdelete_def intro: filter_cong)
  ultimately show ?thesis using rest own by simp
qed

definition demo_hooks :: db where
  "demo_hooks = empty_db\<lparr>
     users := [\<lparr>u_id = 1, u_username = ''admin'', u_password_hash = ''h'', u_is_admin = True, u_incus_project = '''', u_created_at = 0\<rparr>],
     user_seq := 1,
     webhooks := [
       \<lparr>wh_id = ''w1'', wh_user_id = 1, wh_name = ''ci'', wh_url = ''https://ci.example'', wh_secret_encrypted = ''s'',
        wh_events = [''instance.*''], wh_enabled = True, wh_created_at = 0, wh_updated_at = 0\<rparr>,
       \<lparr>wh_id = ''w2'', wh_user_id = 1, wh_name = ''ops'', wh_url = ''https://ops.example'', wh_secret_encrypted = ''s'',
        wh_events = [''user.''], wh_enabled = True, wh_created_at = 0, wh_updated_at = 0\<rparr>],
     webhook_events := [(''w1'', ''instance.*''), (''w2'', ''user.'')]\<rparr>"

theorem delivery_log_bounded_witness:
  "map de_id (deliveries (snd (CreateWebhookDelivery (9 * second) (Some ''d1'')
     \<lparr>di_webhook_id = ''w1'', di_event_id = ''e'', di_event_type = ''instance.started'', di_status = ''success'',
      di_status_code = Some 200, di_response_body = None, di_error = None, di_attempt = 1\<rparr> demo_hooks))) = [''d1''] \<and>
   length (filter (\<lambda>r. de_webhook_id r = ''w1'') (deliveries (snd (CreateWebhookDelivery (9 * second) (Some ''d1'')
     \<lparr>di_webhook_id = ''w1'', di_event_id = ''e'', di_event_type = ''instance.started'', di_status = ''success'',
      di_status_code = Some 200, di_response_body = None, di_error = None, di_attempt = 1\<rparr> demo_hooks)))) \<le> 100"
  (is "map de_id (deliveries (snd (?m demo_hooks))) = _ \<and> _")
proof -
  have wf: "db_wf demo_hooks" "faults demo_hooks = []"
    by (simp_all add: demo_hooks_def empty_db_def wf_defs tunique_def trefs_def trefs_opt_def tbelow_def)
  have "\<not> isl (fst (?m demo_hooks))" by code_simp
  then obtain de d' where run: "?m demo_hooks = (Inr de, d')" by (cases "?m demo_hooks"; cases "fst (?m demo_hooks)") auto
  have "map de_id (deliveries (snd (?m demo_hooks))) = [''d1'']" by code_simp
  then show ?thesis using delivery_log_bounded [OF wf run] by (simp add: run)
qed

end
