(* ===== verification/Webhook_Queue.thy ===== *)
theory Webhook_Queue
  imports Store_Webhooks
begin

text \<open>
  The event store as a system: which webhooks an event reaches, and the outbox as a queue of leased
  jobs.

  \<open>CreateEvent\<close> selects the webhooks of an event by a SQL condition on the subscription table, the
  dispatcher (\<open>webhookSubscribesToEvent\<close> of \<open>server/webhook_dispatch.go\<close>) by Go code on the patterns of
  the webhook; the first section proves that they agree.  \<open>run_call\<close> is one call of the package on
  events, webhooks or the outbox; \<open>hooks_wf\<close> is kept by every call.
\<close>

section \<open>Two matchers of subscriptions\<close>

definition webhookSubscribesToEvent :: "string list \<Rightarrow> string \<Rightarrow> bool" where
  "webhookSubscribesToEvent patterns ty \<longleftrightarrow> list_ex (\<lambda>pat.
     if pat = ''*'' \<or> pat = ty then True
     else if has_suffix pat ''.*'' then has_prefix ty (trim_suffix pat ''*'')
     else if has_suffix pat ''.'' then has_prefix ty pat
     else False) patterns"

definition upper_letter :: "char \<Rightarrow> bool" where
  "upper_letter c \<longleftrightarrow> 65 \<le> byte c \<and> byte c \<le> 90"

definition plain_char :: "char \<Rightarrow> bool" where
  "plain_char c \<longleftrightarrow> c \<noteq> CHR ''%'' \<and> c \<noteq> CHR ''_'' \<and> \<not> upper_letter c"

lemma like_fold_eq: "\<not> upper_letter c \<Longrightarrow> \<not> upper_letter d \<Longrightarrow> like_fold c = like_fold d \<longleftrightarrow> c = d"
  by (auto simp: like_fold_def upper_letter_def Let_def byte_def)

lemma sql_like_anything [simp]: "sql_like ''%'' t"
proof (induction "length t" arbitrary: t rule: less_induct)
  case less
  show ?case
  proof (cases "t = []")
    case False
    let ?t = "drop (snd (decode_rune t)) t"
    have "length ?t < length t" using decode_rune_width_pos [OF False] False by simp
    then have "sql_like ''%'' ?t" by (rule less)
    then show ?thesis using False by (subst sql_like.simps) simp
  qed (simp add: sql_like.simps)
qed

lemma sql_like_prefix:
  assumes "list_all plain_char p" "list_all (\<lambda>c. \<not> upper_letter c) t"
  shows "sql_like (p @ ''%'') t \<longleftrightarrow> has_prefix t p"
  using assms
proof (induction p arbitrary: t)
  case (Cons c p)
  show ?case
  proof (cases t)
    case (Cons h s)
    have "sql_like ((c # p) @ ''%'') (h # s) \<longleftrightarrow> like_fold c = like_fold h \<and> sql_like (p @ ''%'') s"
      using Cons.prems by (subst append_Cons, subst sql_like.simps) (simp add: plain_char_def)
    also have "\<dots> \<longleftrightarrow> c = h \<and> has_prefix s p"
      using Cons.prems Cons Cons.IH [of s] by (auto simp: plain_char_def like_fold_eq)
    finally show ?thesis using Cons by (auto simp: has_prefix_def)
  qed (use Cons.prems in \<open>simp add: sql_like.simps has_prefix_def plain_char_def\<close>)
qed simp

lemma allowed_plain: "webhookEventTypeAllowed pat \<Longrightarrow> list_all plain_char pat"
proof -
  have known: "list_all (list_all plain_char) knownWebhookEventTypes" by code_simp
  have prefix: "list_all plain_char p"
    if "list_ex (\<lambda>k. has_prefix k p) knownWebhookEventTypes" for p
  proof -
    from that obtain k where "k \<in> set knownWebhookEventTypes" "p = take (length p) k"
      by (auto simp: list_ex_iff has_prefix_def)
    then show ?thesis using known by (metis in_set_takeD list_all_iff)
  qed
  assume "webhookEventTypeAllowed pat"
  then consider "pat = ''*''" | "pat \<in> set knownWebhookEventTypes"
    | "has_suffix pat ''.*''" "list_all plain_char (trim_suffix pat ''*'')" | "list_all plain_char pat"
    by (auto simp: webhookEventTypeAllowed_def Let_def split: if_splits intro: prefix)
  then show ?thesis
  proof cases
    case 3
    from 3(1) obtain q where "pat = (q @ ''.'') @ ''*''" by (auto simp: has_suffix_iff)
    then have "pat = trim_suffix pat ''*'' @ ''*''" by (simp only: trim_suffix_append)
    moreover have "plain_char (CHR ''*'')" by code_simp
    ultimately show ?thesis using 3(2) by (metis list_all_append list.pred_inject)
  next
    case 1
    then show ?thesis by simp code_simp
  qed (use known in \<open>auto simp: list_all_iff\<close>)
qed

lemma subscription_agrees:
  assumes "list_all plain_char pat" "list_all (\<lambda>c. \<not> upper_letter c) ty"
  shows "sql_subscribes pat ty \<longleftrightarrow> webhookSubscribesToEvent [pat] ty"
proof -
  have star: "sql_like (butlast pat @ ''%'') ty \<longleftrightarrow> has_prefix ty (trim_suffix pat ''*'')" if "has_suffix pat ''.*''"
  proof -
    from that obtain q where q: "pat = (q @ ''.'') @ ''*''" by (auto simp: has_suffix_iff)
    then have "trim_suffix pat ''*'' = q @ ''.''" by (simp only: trim_suffix_append)
    moreover have "butlast pat = q @ ''.''" by (simp only: q butlast_append) simp
    ultimately show ?thesis using sql_like_prefix [of "q @ ''.''" ty] assms q by simp
  qed
  have dot: "sql_like (pat @ ''%'') ty \<longleftrightarrow> has_prefix ty pat" by (rule sql_like_prefix [OF assms])
  have "\<not> has_suffix pat ''.''" if "has_suffix pat ''.*''" using that by (auto simp: has_suffix_iff)
  then show ?thesis by (auto simp: sql_subscribes_def webhookSubscribesToEvent_def star dot)
qed

section \<open>Calls and the invariant of the tables\<close>

text \<open>
  \<open>subs_ok\<close>: the subscription table and the column \<open>events\<close> of a webhook say the same, with accepted
  patterns only.  \<open>jobs_named\<close>: a job is named after its event and its webhook; event ids are UUIDs, of
  which the model keeps that they hold no colon.
\<close>

definition subs_ok :: "db \<Rightarrow> bool" where
  "subs_ok d \<longleftrightarrow> (\<forall>w \<in> set (webhooks d).
     {p. (wh_id w, p) \<in> set (webhook_events d)} = set (wh_events w) \<and> list_all webhookEventTypeAllowed (wh_events w))"

definition jobs_named :: "db \<Rightarrow> bool" where
  "jobs_named d \<longleftrightarrow> (\<forall>e \<in> set (events d). CHR '':'' \<notin> set (ev_id e)) \<and>
     (\<forall>r \<in> set (event_outbox d). \<exists>w. ob_webhook_id r = Some w \<and> ob_id r = ob_event_id r @ '':'' @ w)"

definition hooks_wf :: "db \<Rightarrow> bool" where
  "hooks_wf d \<longleftrightarrow> db_wf d \<and> subs_ok d \<and> jobs_named d"

datatype hook_call =
    CallCreateEvent gotime "string option" string string string "string option"
  | CallClaimPending gotime int
  | CallClaimEvent gotime string
  | CallMarkDelivered gotime string
  | CallMarkPending gotime string gotime
  | CallMarkEventDelivered gotime string
  | CallMarkEventPending gotime string gotime
  | CallPrune gotime int int
  | CallCreateWebhook gotime "string option" int string string string "string list"
  | CallUpdateWebhook gotime string string string string "string list" bool
  | CallDeleteWebhook string
  | CallCreateDelivery gotime "string option" delivery_input

text \<open>One call: whether it succeeded, the jobs it handed out, the state after it.\<close>

definition quiet_call :: "'a dbm \<Rightarrow> db \<Rightarrow> (bool \<times> string list) \<times> db" where
  "quiet_call m d = (case m d of (r, d') \<Rightarrow> ((\<not> isl r, []), d'))"

definition claim_call :: "outbox_event list dbm \<Rightarrow> db \<Rightarrow> (bool \<times> string list) \<times> db" where
  "claim_call m d = (case m d of (Inl e, d') \<Rightarrow> ((False, []), d')
     | (Inr js, d') \<Rightarrow> ((True, map oe_outbox_id js), d'))"

fun run_call :: "(string \<Rightarrow> string option) \<Rightarrow> hook_call \<Rightarrow> db \<Rightarrow> (bool \<times> string list) \<times> db" where
  "run_call enc (CallCreateEvent now uuid ty src sub data) = quiet_call (CreateEvent now uuid ty src sub data)"
| "run_call enc (CallClaimPending now limit) = claim_call (ClaimPendingOutboxEvents now limit)"
| "run_call enc (CallClaimEvent now eid) = claim_call (ClaimEventOutbox now eid)"
| "run_call enc (CallMarkDelivered now j) = quiet_call (MarkOutboxDelivered now j)"
| "run_call enc (CallMarkPending now j nxt) = quiet_call (MarkOutboxPending now j nxt)"
| "run_call enc (CallMarkEventDelivered now eid) = quiet_call (MarkEventOutboxDelivered now eid)"
| "run_call enc (CallMarkEventPending now eid nxt) = quiet_call (MarkEventOutboxPending now eid nxt)"
| "run_call enc (CallPrune now keep age) = quiet_call (PruneEvents now keep age)"
| "run_call enc (CallCreateWebhook now uuid uid name url secret evs) =
     quiet_call (CreateWebhook enc now uuid uid name url secret evs)"
| "run_call enc (CallUpdateWebhook now i name url secret evs en) =
     quiet_call (UpdateWebhook enc now i name url secret evs en)"
| "run_call enc (CallDeleteWebhook i) = quiet_call (DeleteWebhook i)"
| "run_call enc (CallCreateDelivery now uuid a) = quiet_call (CreateWebhookDelivery now uuid a)"

lemma snd_calls [simp]: "snd (quiet_call m d) = snd (m d)" "snd (claim_call n d) = snd (n d)"
  by (simp_all add: quiet_call_def claim_call_def split: prod.split sum.split)

lemma hooks_preds [simp]: "data_pred subs_ok" "data_pred jobs_named"
  by (simp_all add: data_pred_def subs_ok_def jobs_named_def)

lemma keeps_rules:
  assumes "data_pred P"
  shows "keeps P (query q)" "(\<And>d. P d \<Longrightarrow> P (f d)) \<Longrightarrow> keeps P (exec f)"
    "(\<And>d. P d \<Longrightarrow> P (snd (g d))) \<Longrightarrow> keeps P (stmt g)" "keeps P m \<Longrightarrow> keeps P (transaction m)"
    "keeps P m \<Longrightarrow> keeps P (dignore m)"
  using assms by (simp_all add: keeps_query keeps_exec keeps_stmt keeps_transaction keeps_def [of P g] keeps_def [of P "dignore m"]
      keeps_def [of P m] dignore_def)

lemmas flow_rules = keeps_dret keeps_dfail keeps_dbind keeps_if keeps_option keeps_with_uuid keeps_sum

lemmas subs_rules = keeps_rules [OF hooks_preds(1)]
lemmas jobs_rules = keeps_rules [OF hooks_preds(2)]

lemma prune_batches_keeps: "keeps P (deleteEventBatch Q) \<Longrightarrow> keeps P (prune_batches n Q)"
  by (induction n) (simp_all add: keeps_dret keeps_dbind)

lemma subs_deleteEventBatch: "keeps subs_ok (deleteEventBatch P)"
  unfolding deleteEventBatch_def Let_def by (rule subs_rules) (simp add: subs_ok_def)

lemma jobs_deleteEventBatch: "keeps jobs_named (deleteEventBatch P)"
  unfolding deleteEventBatch_def Let_def by (rule jobs_rules) (auto simp: jobs_named_def)

lemma subs_events:
  "keeps subs_ok (CreateEvent now uuid ty src sub data)" "keeps subs_ok (ClaimPendingOutboxEvents now limit)"
  "keeps subs_ok (ClaimEventOutbox now eid)" "keeps subs_ok (MarkOutboxDelivered now j)"
  "keeps subs_ok (MarkOutboxPending now j nxt)" "keeps subs_ok (MarkEventOutboxDelivered now eid)"
  "keeps subs_ok (MarkEventOutboxPending now eid nxt)" "keeps subs_ok (PruneEvents now keep age)"
  "keeps subs_ok (CreateWebhookDelivery now uuid a)"
  unfolding outbox_defs claim_update_def CreateEvent_def PruneEvents_def pruneEventsBefore_def pruneEventsAboveLimit_def
    CreateWebhookDelivery_def trim_deliveries_def Let_def
  by (intro flow_rules subs_rules prune_batches_keeps subs_deleteEventBatch; (simp add: subs_ok_def; fail)?)+

lemma jobs_tupdate:
  assumes "jobs_named d"
    "\<And>r. ob_id (f r) = ob_id r \<and> ob_event_id (f r) = ob_event_id r \<and> ob_webhook_id (f r) = ob_webhook_id r"
  shows "jobs_named (d\<lparr>event_outbox := tupdate P f (event_outbox d)\<rparr>)"
  using assms by (auto simp: jobs_named_def set_tupdate)

lemma jobs_subset:
  "jobs_named d \<Longrightarrow> set (events d') \<subseteq> set (events d) \<Longrightarrow> set (event_outbox d') \<subseteq> set (event_outbox d) \<Longrightarrow> jobs_named d'"
  by (auto simp: jobs_named_def)

lemma jobs_insert:
  assumes "jobs_named d"
  shows "jobs_named (d\<lparr>event_outbox := insert_or_ignore ob_id (outbox_rows t i ty d) (event_outbox d)\<rparr>)"
proof -
  let ?named = "\<lambda>rows. \<forall>r \<in> set rows. \<exists>w. ob_webhook_id r = Some w \<and> ob_id r = ob_event_id r @ '':'' @ w"
  have "?named (insert_or_ignore ob_id (outbox_rows t i ty d) (event_outbox d))"
  proof (rule insert_or_ignore_induct)
    fix r and acc :: "outbox list"
    assume r: "r \<in> set (outbox_rows t i ty d)" and acc: "?named acc"
    from r have "\<exists>w. ob_webhook_id r = Some w \<and> ob_id r = ob_event_id r @ '':'' @ w"
      by (auto simp: outbox_rows_def)
    then show "?named (acc @ [r])" using acc by auto
  qed (use assms in \<open>simp add: jobs_named_def\<close>)
  then show ?thesis using assms by (simp add: jobs_named_def)
qed

lemma jobs_CreateEvent:
  assumes "\<And>i. uuid = Some i \<Longrightarrow> CHR '':'' \<notin> set i"
  shows "keeps jobs_named (CreateEvent now uuid ty src sub data)"
proof (cases uuid)
  case (Some i)
  then have "CHR '':'' \<notin> set i" using assms by simp
  then show ?thesis unfolding CreateEvent_def with_uuid_def Some option.case
    by (intro flow_rules jobs_rules) (simp_all add: jobs_insert, simp_all add: jobs_named_def)
qed (simp add: CreateEvent_def with_uuid_def keeps_dfail)

lemma jobs_outbox:
  "keeps jobs_named (ClaimPendingOutboxEvents now limit)"
  "keeps jobs_named (ClaimEventOutbox now eid)" "keeps jobs_named (MarkOutboxDelivered now j)"
  "keeps jobs_named (MarkOutboxPending now j nxt)" "keeps jobs_named (MarkEventOutboxDelivered now eid)"
  "keeps jobs_named (MarkEventOutboxPending now eid nxt)"
  unfolding outbox_defs claim_update_def Let_def
  by (intro flow_rules jobs_rules; (simp add: jobs_tupdate; fail)?)+

lemma jobs_prune: "keeps jobs_named (PruneEvents now keep age)"
  unfolding PruneEvents_def pruneEventsBefore_def pruneEventsAboveLimit_def Let_def
  by (intro flow_rules jobs_rules prune_batches_keeps jobs_deleteEventBatch)

lemma jobs_subscriptions: "keeps jobs_named (insert_subscriptions wid tys)"
proof (induction tys)
  case (Cons ty tys)
  have "keeps jobs_named (insert_subscription wid ty)"
    unfolding insert_subscription_def by (rule jobs_rules) (simp add: jobs_named_def)
  then show ?case using Cons by (simp add: keeps_dbind)
qed (simp add: keeps_dret)

lemma jobs_webhooks:
  "keeps jobs_named (CreateWebhook enc now uuid uid name url secret evs)"
  "keeps jobs_named (UpdateWebhook enc now i name url secret evs enabled)"
  "keeps jobs_named (DeleteWebhook i)" "keeps jobs_named (CreateWebhookDelivery now uuid a)"
  unfolding CreateWebhook_def store_webhook_def UpdateWebhook_def rewrite_webhook_def DeleteWebhook_def CreateWebhookDelivery_def
    replaceWebhookEventSubscriptions_def trim_deliveries_def Let_def
  by (intro flow_rules jobs_rules jobs_subscriptions; (simp add: jobs_named_def; fail)?)+

lemma normalize_from_fresh:
  "distinct (normalize_from seen evs) \<and> set (normalize_from seen evs) \<inter> seen = {}"
proof (induction evs arbitrary: seen)
  case (Cons e es)
  show ?case using Cons.IH [of seen] Cons.IH [of "insert (trim_space e) seen"] by (simp add: Let_def)
qed simp

lemma normalize_from_trimmed:
  "e \<in> set (normalize_from seen evs) \<Longrightarrow> e \<noteq> [] \<and> trim_space e = e"
proof (induction evs arbitrary: seen)
  case (Cons x es)
  then show ?case by (cases "trim_space x = [] \<or> trim_space x \<in> seen") (auto simp: Let_def)
qed simp

lemma normalize_from_id:
  assumes "distinct es" "set es \<inter> seen = {}" "\<And>e. e \<in> set es \<Longrightarrow> e \<noteq> [] \<and> trim_space e = e"
  shows "normalize_from seen es = es"
  using assms
proof (induction es arbitrary: seen)
  case (Cons e es)
  have e: "trim_space e = e" "e \<noteq> []" "e \<notin> seen" using Cons.prems by simp_all
  have "normalize_from (insert e seen) es = es" using Cons.prems by (intro Cons.IH) simp_all
  then show ?case using e by (simp add: Let_def)
qed simp

lemma normalize_twice: "normalizeWebhookEvents (normalizeWebhookEvents evs) = normalizeWebhookEvents evs"
  unfolding normalizeWebhookEvents_def
  using normalize_from_fresh [of "{}" evs] normalize_from_trimmed [of _ "{}" evs] by (intro normalize_from_id) blast+

lemma Validate_Inr:
  "ValidateWebhookEvents evs = Inr es \<Longrightarrow> normalizeWebhookEvents es = es \<and> list_all webhookEventTypeAllowed es"
  by (auto simp: ValidateWebhookEvents_def Let_def normalize_twice split: if_splits)

lemma insert_subscription_Inr:
  assumes "insert_subscription wid ty d = (Inr v, d1)"
  shows "\<exists>subs fs. d1 = d\<lparr>webhook_events := subs, faults := fs\<rparr> \<and> set subs = set (webhook_events d) \<union> {(wid, ty)}"
proof -
  let ?f = "\<lambda>d. if (wid, ty) \<in> set (webhook_events d) then (Inr (), d)
       else if tget wh_id wid (webhooks d) = None then (Inl ErrForeignKey, d)
       else (Inr (), d\<lparr>webhook_events := webhook_events d @ [(wid, ty)]\<rparr>)"
  have st: "stmt ?f d = (Inr v, d1)" using assms by (simp add: insert_subscription_def)
  show ?thesis
  proof (cases rule: stmt_cases [of ?f d])
    case (ok fs)
    with st have "?f (d\<lparr>faults := fs\<rparr>) = (Inr v, d1)" by simp
    then show ?thesis
      by (intro exI [of _ "webhook_events d1"] exI [of _ fs]) (auto split: if_splits)
  next
    case (fault fs)
    with st show ?thesis by simp
  qed
qed

lemma insert_subscriptions_Inr:
  assumes "insert_subscriptions wid tys d = (Inr u, d')"
  shows "\<exists>subs fs. d' = d\<lparr>webhook_events := subs, faults := fs\<rparr> \<and> set subs = set (webhook_events d) \<union> Pair wid ` set tys"
  using assms
proof (induction tys arbitrary: d)
  case Nil
  then show ?case by (intro exI [of _ "webhook_events d"] exI [of _ "faults d"]) (simp add: dret_def)
next
  case (Cons ty tys)
  then obtain v d1 where 1: "insert_subscription wid ty d = (Inr v, d1)"
    and 2: "insert_subscriptions wid tys d1 = (Inr u, d')" by (auto simp: dbind_Inr)
  have "\<exists>subs fs. d1 = d\<lparr>webhook_events := subs, faults := fs\<rparr> \<and> set subs = set (webhook_events d) \<union> {(wid, ty)}"
    by (rule insert_subscription_Inr [OF 1])
  then obtain s1 f1 where s1: "d1 = d\<lparr>webhook_events := s1, faults := f1\<rparr>" "set s1 = set (webhook_events d) \<union> {(wid, ty)}"
    by blast
  from Cons.IH [OF 2] obtain s2 f2 where "d' = d1\<lparr>webhook_events := s2, faults := f2\<rparr>"
    "set s2 = set (webhook_events d1) \<union> Pair wid ` set tys" by blast
  then show ?case using s1 by (intro exI [of _ s2] exI [of _ f2]) auto
qed

lemma replaceSubscriptions_Inr:
  assumes "replaceWebhookEventSubscriptions wid evs d = (Inr u, d')" "normalizeWebhookEvents evs = evs"
  shows "\<exists>subs fs. d' = d\<lparr>webhook_events := subs, faults := fs\<rparr>
    \<and> set subs = {s \<in> set (webhook_events d). fst s \<noteq> wid} \<union> Pair wid ` set evs"
proof -
  from assms obtain v d1 where 1: "exec (\<lambda>d. d\<lparr>webhook_events := tdelete (\<lambda>s. fst s = wid) (webhook_events d)\<rparr>) d = (Inr v, d1)"
    and 2: "insert_subscriptions wid evs d1 = (Inr u, d')"
    by (auto simp: replaceWebhookEventSubscriptions_def dbind_Inr)
  from exec_Inr [OF 1] obtain fs where "d1 = d\<lparr>faults := fs, webhook_events := tdelete (\<lambda>s. fst s = wid) (webhook_events d)\<rparr>"
    by auto
  moreover from insert_subscriptions_Inr [OF 2] obtain s2 f2 where "d' = d1\<lparr>webhook_events := s2, faults := f2\<rparr>"
    "set s2 = set (webhook_events d1) \<union> Pair wid ` set evs" by blast
  ultimately show ?thesis by (intro exI [of _ s2] exI [of _ f2]) auto
qed

lemma keeps_transaction_Inr:
  assumes "data_pred P" "\<And>d x d'. P d \<Longrightarrow> m d = (Inr x, d') \<Longrightarrow> P d'"
  shows "keeps P (transaction m)"
proof (rule keepsI)
  fix d r d' assume "P d" "transaction m d = (r, d')"
  then show "P d'"
  proof (cases r)
    case (Inl e)
    then show ?thesis using \<open>P d\<close> \<open>transaction m d = (r, d')\<close> assms(1) by (auto dest: transaction_Inl)
  next
    case (Inr x)
    then obtain fs fs' d2 where "m (d\<lparr>faults := fs\<rparr>) = (Inr x, d2)" "d' = d2\<lparr>faults := fs'\<rparr>"
      using \<open>transaction m d = (r, d')\<close> transaction_Inr by metis
    then show ?thesis using assms(2) [of "d\<lparr>faults := fs\<rparr>" x d2] \<open>P d\<close> assms(1) by simp
  qed
qed

lemma subs_after_replace:
  assumes replaced: "replaceWebhookEventSubscriptions i evs d = (Inr u, d')" and valid: "ValidateWebhookEvents es = Inr evs"
    and others: "\<forall>w \<in> set (webhooks d). wh_id w \<noteq> i \<longrightarrow>
      {p. (wh_id w, p) \<in> set (webhook_events d)} = set (wh_events w) \<and> list_all webhookEventTypeAllowed (wh_events w)"
    and own: "\<forall>w \<in> set (webhooks d). wh_id w = i \<longrightarrow> wh_events w = evs"
  shows "subs_ok d'"
proof -
  obtain subs fs where d': "d' = d\<lparr>webhook_events := subs, faults := fs\<rparr>"
    and subs: "set subs = {s \<in> set (webhook_events d). fst s \<noteq> i} \<union> Pair i ` set evs"
    using replaceSubscriptions_Inr [OF replaced] Validate_Inr [OF valid] by blast
  have "{p. (wh_id w, p) \<in> set subs} = set (wh_events w) \<and> list_all webhookEventTypeAllowed (wh_events w)"
    if "w \<in> set (webhooks d)" for w
  proof (cases "wh_id w = i")
    case True
    then show ?thesis using that own Validate_Inr [OF valid] by (auto simp: subs)
  next
    case False
    then have "{p. (wh_id w, p) \<in> set subs} = {p. (wh_id w, p) \<in> set (webhook_events d)}" by (auto simp: subs)
    then show ?thesis using that False others by simp
  qed
  then show ?thesis by (simp add: d' subs_ok_def)
qed

lemma subs_store_webhook:
  assumes "ValidateWebhookEvents es = Inr (wh_events w)"
  shows "keeps subs_ok (store_webhook now w)"
  unfolding store_webhook_def
proof (rule keeps_transaction_Inr)
  let ?f = "\<lambda>d. if tget wh_id (wh_id w) (webhooks d) \<noteq> None then (Inl ErrUnique, d)
     else if tget u_id (wh_user_id w) (users d) = None then (Inl ErrForeignKey, d)
     else (Inr (), d\<lparr>webhooks := webhooks d @ [w\<lparr>wh_created_at := to_unix now, wh_updated_at := to_unix now\<rparr>]\<rparr>)"
  fix d x d' assume ok: "subs_ok d"
    and run: "dbind (stmt ?f) (\<lambda>_. dbind (replaceWebhookEventSubscriptions (wh_id w) (wh_events w)) (\<lambda>_. dret w)) d = (Inr x, d')"
  from run obtain u d1 v where 1: "stmt ?f d = (Inr u, d1)"
    and 2: "replaceWebhookEventSubscriptions (wh_id w) (wh_events w) d1 = (Inr v, d')"
    by (auto simp: dbind_Inr dret_def)
  have "tget wh_id (wh_id w) (webhooks d) = None \<and>
     (\<exists>fs. d1 = d\<lparr>webhooks := webhooks d @ [w\<lparr>wh_created_at := to_unix now, wh_updated_at := to_unix now\<rparr>], faults := fs\<rparr>)"
  proof (cases rule: stmt_cases [of ?f d])
    case (ok fs)
    with 1 have "?f (d\<lparr>faults := fs\<rparr>) = (Inr u, d1)" by simp
    then show ?thesis by (auto split: if_splits intro!: exI [of _ fs])
  next
    case (fault fs)
    with 1 show ?thesis by simp
  qed
  then obtain fs where fresh: "tget wh_id (wh_id w) (webhooks d) = None"
    and d1: "d1 = d\<lparr>webhooks := webhooks d @ [w\<lparr>wh_created_at := to_unix now, wh_updated_at := to_unix now\<rparr>], faults := fs\<rparr>"
    by blast
  show "subs_ok d'"
    by (rule subs_after_replace [OF 2 assms]) (use ok fresh in \<open>auto simp: d1 subs_ok_def tget_None\<close>)
qed simp

lemma subs_rewrite_webhook:
  assumes "ValidateWebhookEvents es = Inr evs"
  shows "keeps subs_ok (rewrite_webhook i evs f)"
  unfolding rewrite_webhook_def
proof (rule keeps_transaction_Inr)
  let ?f = "\<lambda>d. d\<lparr>webhooks := tupdate (\<lambda>r. wh_id r = i) (\<lambda>r. (f r)\<lparr>wh_id := wh_id r, wh_events := evs\<rparr>) (webhooks d)\<rparr>"
  fix d x d' assume ok: "subs_ok d" and run: "dbind (exec ?f) (\<lambda>_. replaceWebhookEventSubscriptions i evs) d = (Inr x, d')"
  from run obtain u d1 where 1: "exec ?f d = (Inr u, d1)" and 2: "replaceWebhookEventSubscriptions i evs d1 = (Inr x, d')"
    by (auto simp: dbind_Inr)
  from exec_Inr [OF 1] obtain fs where d1: "d1 = ?f (d\<lparr>faults := fs\<rparr>)" by blast
  have "wh_events w = evs" if "w \<in> set (webhooks d1)" "wh_id w = i" for w
  proof -
    from that(1) obtain x where "w = (if wh_id x = i then (f x)\<lparr>wh_id := wh_id x, wh_events := evs\<rparr> else x)"
      unfolding d1 by (auto simp del: webhook.update_convs dest!: in_tupdate)
    then show ?thesis using that(2) by (cases "wh_id x = i") simp_all
  qed
  moreover have "w \<in> set (webhooks d)" if "w \<in> set (webhooks d1)" "wh_id w \<noteq> i" for w
    using that by (auto simp: d1 set_tupdate split: if_splits)
  ultimately show "subs_ok d'"
    using ok by (intro subs_after_replace [OF 2 assms]) (auto simp: d1 subs_ok_def)
qed simp

lemma subs_webhooks:
  "keeps subs_ok (CreateWebhook enc now uuid uid name url secret evs)"
  "keeps subs_ok (UpdateWebhook enc now i name url secret evs enabled)" "keeps subs_ok (DeleteWebhook i)"
proof -
  show "keeps subs_ok (CreateWebhook enc now uuid uid name url secret evs)"
    unfolding CreateWebhook_def with_uuid_def
    by (auto intro!: keeps_dfail subs_store_webhook split: option.split sum.split)
  show "keeps subs_ok (UpdateWebhook enc now i name url secret evs enabled)"
    unfolding UpdateWebhook_def by (auto intro!: keeps_dfail subs_rewrite_webhook split: option.split sum.split)
  show "keeps subs_ok (DeleteWebhook i)"
    unfolding DeleteWebhook_def by (rule subs_rules) (simp add: subs_ok_def)
qed

section \<open>Every call keeps the invariant\<close>

fun uuid_ok :: "hook_call \<Rightarrow> bool" where
  "uuid_ok (CallCreateEvent now uuid ty src sub data) = (case uuid of None \<Rightarrow> True | Some i \<Rightarrow> CHR '':'' \<notin> set i)"
| "uuid_ok _ = True"

definition run_calls :: "(string \<Rightarrow> string option) \<Rightarrow> hook_call list \<Rightarrow> db \<Rightarrow> db" where
  "run_calls enc cs d = fold (\<lambda>c d. snd (run_call enc c d)) cs d"

lemma hooks_wfD: "hooks_wf d \<Longrightarrow> db_wf d" "hooks_wf d \<Longrightarrow> subs_ok d" "hooks_wf d \<Longrightarrow> jobs_named d"
  by (simp_all add: hooks_wf_def)

lemma keeps_snd: "keeps P m \<Longrightarrow> P d \<Longrightarrow> P (snd (m d))"
  by (simp add: keeps_def)

lemmas call_keeps = wf_CreateEvent wf_outbox wf_PruneEvents wf_webhooks wf_deliveries
  subs_events subs_webhooks jobs_outbox jobs_prune jobs_webhooks jobs_CreateEvent

lemma hooks_keep:
  "keeps db_wf m \<Longrightarrow> keeps subs_ok m \<Longrightarrow> keeps jobs_named m \<Longrightarrow> hooks_wf d \<Longrightarrow> hooks_wf (snd (m d))"
  by (simp add: hooks_wf_def keeps_snd)

lemma hooks_wf_call:
  assumes "hooks_wf d" "uuid_ok c"
  shows "hooks_wf (snd (run_call enc c d))"
proof (cases c)
  case (CallCreateEvent now uuid ty src sub data)
  then have "keeps jobs_named (CreateEvent now uuid ty src sub data)"
    using assms(2) by (intro jobs_CreateEvent) simp
  then show ?thesis using assms(1) by (simp add: CallCreateEvent hooks_keep call_keeps)
qed (simp_all add: assms(1) hooks_keep call_keeps)

lemma hooks_wf_calls: "hooks_wf d \<Longrightarrow> list_all uuid_ok cs \<Longrightarrow> hooks_wf (run_calls enc cs d)"
  unfolding run_calls_def by (induction cs arbitrary: d) (simp_all add: hooks_wf_call)

text \<open>
  Every sequence of calls on events, webhooks, deliveries and the outbox, whatever statements fail in
  it, keeps the keys and references of the tables, keeps the subscription table equal to the patterns of
  the webhooks, with accepted patterns only, and keeps the naming of the jobs.
\<close>

theorem hook_tables_consistent:
  assumes "hooks_wf d" "list_all uuid_ok cs"
  shows "hooks_wf (run_calls enc cs d)"
  using assms by (rule hooks_wf_calls)

section \<open>Fan-out\<close>

lemma insert_all_new:
  "distinct (map key new) \<Longrightarrow> (\<And>r. r \<in> set new \<Longrightarrow> tget key (key r) rows = None) \<Longrightarrow>
   insert_or_ignore key new rows = rows @ new"
proof (induction new arbitrary: rows)
  case (Cons r new)
  have "tget key (key s) (rows @ [r]) = None" if "s \<in> set new" for s
    using Cons.prems that by (auto simp: tget_append image_iff)
  then have "insert_or_ignore key new (rows @ [r]) = (rows @ [r]) @ new" using Cons by simp
  then show ?case using Cons.prems by (simp add: insert_or_ignore_def)
qed (simp add: insert_or_ignore_def)

lemma colon_split: "a @ '':'' @ b = c @ '':'' @ d \<Longrightarrow> CHR '':'' \<notin> set a \<Longrightarrow> CHR '':'' \<notin> set c \<Longrightarrow> a = c"
  by (metis append_Cons append_Nil list.inject split_char_append)

lemma subscribes_iff:
  assumes "subs_ok d" "w \<in> set (webhooks d)" "list_all (\<lambda>c. \<not> upper_letter c) ty"
  shows "list_ex (\<lambda>(i, pat). i = wh_id w \<and> sql_subscribes pat ty) (webhook_events d)
    \<longleftrightarrow> webhookSubscribesToEvent (wh_events w) ty"
proof -
  have evs: "{p. (wh_id w, p) \<in> set (webhook_events d)} = set (wh_events w)" "list_all webhookEventTypeAllowed (wh_events w)"
    using assms(1,2) by (auto simp: subs_ok_def)
  have "list_ex (\<lambda>(i, pat). i = wh_id w \<and> sql_subscribes pat ty) (webhook_events d)
      \<longleftrightarrow> (\<exists>p \<in> {p. (wh_id w, p) \<in> set (webhook_events d)}. sql_subscribes p ty)"
    by (auto simp: list_ex_iff)
  also have "\<dots> \<longleftrightarrow> (\<exists>p \<in> set (wh_events w). webhookSubscribesToEvent [p] ty)"
    unfolding evs(1) using evs(2) subscription_agrees [OF allowed_plain assms(3)] by (auto simp: list_all_iff)
  also have "\<dots> \<longleftrightarrow> webhookSubscribesToEvent (wh_events w) ty"
    by (auto simp: webhookSubscribesToEvent_def list_ex_iff)
  finally show ?thesis .
qed

text \<open>The job \<open>CreateEvent\<close> queues for a webhook.\<close>

definition new_job :: "unixsec \<Rightarrow> string \<Rightarrow> webhook \<Rightarrow> outbox" where
  "new_job now i w = \<lparr>ob_id = i @ '':'' @ wh_id w, ob_event_id = i, ob_webhook_id = Some (wh_id w), ob_status = ObPending,
     ob_attempts = 0, ob_next_run_at = Some now, ob_created_at = now, ob_updated_at = now\<rparr>"

lemma outbox_rows_new_job:
  assumes "subs_ok d" "list_all (\<lambda>c. \<not> upper_letter c) ty"
  shows "outbox_rows now i ty d
    = map (new_job now i) (filter (\<lambda>w. wh_enabled w \<and> webhookSubscribesToEvent (wh_events w) ty) (webhooks d))"
  unfolding outbox_rows_def new_job_def using subscribes_iff [OF assms(1) _ assms(2)]
  by (intro arg_cong [of _ _ "map _"] filter_cong) auto

lemma CreateEvent_Inr:
  assumes "CreateEvent now (Some i) ty src sub (Some json) d = (Inr e, d')"
  obtains fs where "tget ev_id i (events d) = None"
    "d' = d\<lparr>events := events d @ [\<lparr>ev_id = i, ev_type = ty, ev_time = to_unix now, ev_source = src, ev_subject = sub, ev_data = json\<rparr>],
      event_outbox := insert_or_ignore ob_id (outbox_rows (to_unix now) i ty d) (event_outbox d), faults := fs\<rparr>"
proof -
  let ?row = "\<lparr>ev_id = i, ev_type = ty, ev_time = to_unix now, ev_source = src, ev_subject = sub, ev_data = json\<rparr>"
  let ?s1 = "\<lambda>d. if tget ev_id i (events d) \<noteq> None then (Inl ErrUnique, d)
    else (Inr (), d\<lparr>events := events d @ [?row]\<rparr>)"
  let ?s2 = "\<lambda>d. if tget ev_id i (events d) = None then (Inl ErrForeignKey, d)
    else (Inr (), d\<lparr>event_outbox := insert_or_ignore ob_id (outbox_rows (to_unix now) i ty d) (event_outbox d)\<rparr>)"
  have same: "outbox_rows t i ty (d\<lparr>events := x, faults := fs\<rparr>) = outbox_rows t i ty d" for t x fs
    by (simp add: outbox_rows_def)
  have "transaction (dbind (stmt ?s1) (\<lambda>_. dbind (stmt ?s2) (\<lambda>_. dret (?row\<lparr>ev_time := now\<rparr>)))) d = (Inr e, d')"
    using assms by (simp add: CreateEvent_def with_uuid_def)
  from transaction_Inr [OF this] obtain fs fs' d3
    where "dbind (stmt ?s1) (\<lambda>_. dbind (stmt ?s2) (\<lambda>_. dret (?row\<lparr>ev_time := now\<rparr>))) (d\<lparr>faults := fs\<rparr>) = (Inr e, d3)"
    and d': "d' = d3\<lparr>faults := fs'\<rparr>" by blast
  then obtain u d1 v where 1: "stmt ?s1 (d\<lparr>faults := fs\<rparr>) = (Inr u, d1)" and 2: "stmt ?s2 d1 = (Inr v, d3)"
    by (auto simp: dbind_Inr dret_def)
  have "tget ev_id i (events d) = None \<and> (\<exists>fs. d1 = d\<lparr>events := events d @ [?row], faults := fs\<rparr>)"
  proof (cases rule: stmt_cases [of ?s1 "d\<lparr>faults := fs\<rparr>"])
    case (ok gs)
    with 1 have "?s1 (d\<lparr>faults := gs\<rparr>) = (Inr u, d1)" by simp
    then show ?thesis by (auto split: if_splits intro!: exI [of _ gs])
  next
    case (fault gs)
    with 1 show ?thesis by simp
  qed
  then obtain gs where fresh: "tget ev_id i (events d) = None"
    and d1: "d1 = d\<lparr>events := events d @ [?row], faults := gs\<rparr>" by blast
  have "\<exists>hs. d3 = d1\<lparr>event_outbox := insert_or_ignore ob_id (outbox_rows (to_unix now) i ty d) (event_outbox d), faults := hs\<rparr>"
  proof (cases rule: stmt_cases [of ?s2 d1])
    case (ok hs)
    with 2 have "?s2 (d1\<lparr>faults := hs\<rparr>) = (Inr v, d3)" by simp
    then show ?thesis by (auto simp: d1 same split: if_splits intro!: exI [of _ hs])
  next
    case (fault hs)
    with 2 show ?thesis by simp
  qed
  then have "d' = d\<lparr>events := events d @ [?row],
      event_outbox := insert_or_ignore ob_id (outbox_rows (to_unix now) i ty d) (event_outbox d), faults := fs'\<rparr>"
    using d' d1 by auto
  with fresh show ?thesis by (rule that)
qed

lemma fan_out_append:
  assumes wf: "hooks_wf d" and uuid: "CHR '':'' \<notin> set i" and fresh: "tget ev_id i (events d) = None"
  shows "insert_or_ignore ob_id (outbox_rows now i ty d) (event_outbox d) = event_outbox d @ outbox_rows now i ty d"
proof (rule insert_all_new)
  have "distinct (map wh_id (webhooks d))" using hooks_wfD(1) [OF wf] by (simp add: wf_defs tunique_def)
  then show "distinct (map ob_id (outbox_rows now i ty d))"
    by (simp add: outbox_rows_def comp_def distinct_map inj_on_def)
  fix r assume r: "r \<in> set (outbox_rows now i ty d)"
  have "ob_id s \<noteq> ob_id r" if s: "s \<in> set (event_outbox d)" for s
  proof
    assume eq: "ob_id s = ob_id r"
    obtain e where e: "e \<in> set (events d)" "ev_id e = ob_event_id s"
      using hooks_wfD(1) [OF wf] s by (auto simp: wf_defs trefs_def)
    obtain w where w: "ob_id s = ob_event_id s @ '':'' @ w"
      using hooks_wfD(3) [OF wf] s by (auto simp: jobs_named_def)
    obtain w' where "ob_id r = i @ '':'' @ w'" using r by (auto simp: outbox_rows_def)
    moreover have "CHR '':'' \<notin> set (ob_event_id s)"
      using hooks_wfD(3) [OF wf] e by (auto simp: jobs_named_def)
    ultimately have "ob_event_id s = i" using w eq uuid colon_split [of "ob_event_id s" w i w'] by simp
    then show False using fresh e by (auto simp: tget_None)
  qed
  then show "tget ob_id (ob_id r) (event_outbox d) = None" by (auto simp: tget_None)
qed

text \<open>
  C18: An event whose creation succeeded is stored once, and the jobs queued for it are one for each enabled
  webhook whose patterns match its type in the sense of the dispatcher, due at once, and no others; the
  type of the event has no upper-case letter, as LIKE would match those in either case.
\<close>

theorem event_reaches_subscribers:
  assumes "hooks_wf d" "CHR '':'' \<notin> set i" "list_all (\<lambda>c. \<not> upper_letter c) ty"
    and run: "CreateEvent now (Some i) ty src sub (Some json) d = (Inr e, d')"
  shows "events d' = events d @
      [\<lparr>ev_id = i, ev_type = ty, ev_time = to_unix now, ev_source = src, ev_subject = sub, ev_data = json\<rparr>] \<and>
    event_outbox d' = event_outbox d @ map (new_job (to_unix now) i)
      (filter (\<lambda>w. wh_enabled w \<and> webhookSubscribesToEvent (wh_events w) ty) (webhooks d))"
proof -
  from run obtain fs where fresh: "tget ev_id i (events d) = None"
    and d': "d' = d\<lparr>events := events d @ [\<lparr>ev_id = i, ev_type = ty, ev_time = to_unix now, ev_source = src, ev_subject = sub, ev_data = json\<rparr>],
      event_outbox := insert_or_ignore ob_id (outbox_rows (to_unix now) i ty d) (event_outbox d), faults := fs\<rparr>"
    by (rule CreateEvent_Inr)
  note jobs = fan_out_append [OF assms(1,2) fresh, of "to_unix now" ty]
    outbox_rows_new_job [OF hooks_wfD(2) [OF assms(1)] assms(3), of "to_unix now" i]
  show ?thesis by (simp add: d' jobs(1)) (simp only: jobs(2))
qed

lemma demo_hooks_wf: "hooks_wf demo_hooks"
proof -
  have "db_wf demo_hooks"
    by (simp add: demo_hooks_def empty_db_def wf_defs tunique_def trefs_def trefs_opt_def tbelow_def)
  moreover have "webhookEventTypeAllowed ''instance.*''" "webhookEventTypeAllowed ''user.''" by code_simp+
  then have "subs_ok demo_hooks" by (auto simp: subs_ok_def demo_hooks_def empty_db_def)
  moreover have "jobs_named demo_hooks" by (simp add: jobs_named_def demo_hooks_def empty_db_def)
  ultimately show ?thesis by (simp add: hooks_wf_def)
qed

theorem event_reaches_subscribers_witness:
  "map ob_id (event_outbox (snd (CreateEvent (5 * second) (Some ''e'') ''instance.started'' ''hellingd'' ''vm'' (Some ''{}'') demo_hooks)))
    = [''e:w1'']"
proof -
  let ?m = "CreateEvent (5 * second) (Some ''e'') ''instance.started'' ''hellingd'' ''vm'' (Some ''{}'')"
  have "\<not> isl (fst (?m demo_hooks))" by code_simp
  then obtain e d' where run: "?m demo_hooks = (Inr e, d')" by (metis isl_def old.sum.exhaust surj_pair fst_conv)
  have ty: "list_all (\<lambda>c. \<not> upper_letter c) ''instance.started''" by code_simp
  have jobs: "map ob_id (event_outbox demo_hooks @ map (new_job (to_unix (5 * second)) ''e'')
      (filter (\<lambda>w. wh_enabled w \<and> webhookSubscribesToEvent (wh_events w) ''instance.started'') (webhooks demo_hooks))) = [''e:w1'']"
    by code_simp
  from event_reaches_subscribers [OF demo_hooks_wf _ ty run] show ?thesis by (simp add: run jobs [simplified])
qed

theorem hook_tables_consistent_witness:
  "hooks_wf (run_calls Some
     [CallCreateEvent (5 * second) (Some ''e'') ''user.created'' ''hellingd'' ''7'' (Some ''{}''),
      CallUpdateWebhook (6 * second) ''w2'' ''ops'' ''https://ops.example'' ''s'' [''user.created'', '' *''] True,
      CallDeleteWebhook ''w1''] demo_hooks)"
  by (rule hook_tables_consistent [OF demo_hooks_wf]) code_simp

end
