(* ===== verification/Outbox_Lease.thy ===== *)
theory Outbox_Lease
  imports Webhook_Queue
begin

text \<open>
  The outbox as a queue with leases.  The locale states what a queue of leased jobs promises of each of
  its calls; its lemmas are about any sequence of calls.  The interpretation is the outbox of the store
  with all its calls, the failing ones included.
\<close>

section \<open>The contract\<close>

text \<open>
  \<open>step c s\<close> is the call \<open>c\<close>: whether it succeeded, the jobs it handed out, the new state.  A job that was
  handed out is \<open>leased\<close> since the clock of the call; \<open>closed\<close> jobs are done or gone; \<open>frees c j\<close> calls may
  make a job due again, \<open>acks c j\<close> is the acknowledgement.
\<close>

locale lease_queue =
  fixes valid :: "'s \<Rightarrow> bool"
    and ok_call :: "'c \<Rightarrow> bool"
    and step :: "'c \<Rightarrow> 's \<Rightarrow> (bool \<times> 'j list) \<times> 's"
    and clock :: "'c \<Rightarrow> int"
    and frees :: "'c \<Rightarrow> 'j \<Rightarrow> bool"
    and leased :: "'s \<Rightarrow> 'j \<Rightarrow> int option"
    and closed :: "'s \<Rightarrow> 'j \<Rightarrow> bool"
    and lease :: int
  assumes lease_pos: "0 < lease"
    and valid_step: "valid s \<Longrightarrow> ok_call c \<Longrightarrow> valid (snd (step c s))"
    and grant_leases: "valid s \<Longrightarrow> j \<in> set (snd (fst (step c s))) \<Longrightarrow> leased (snd (step c s)) j = Some (clock c)"
    and grant_waits: "valid s \<Longrightarrow> j \<in> set (snd (fst (step c s))) \<Longrightarrow> leased s j = Some t \<Longrightarrow> t + lease \<le> clock c"
    and grant_open: "valid s \<Longrightarrow> j \<in> set (snd (fst (step c s))) \<Longrightarrow> \<not> closed s j"
    and lease_held: "valid s \<Longrightarrow> leased s j = Some t \<Longrightarrow> \<not> frees c j \<Longrightarrow> leased (snd (step c s)) j \<noteq> Some t \<Longrightarrow>
      closed (snd (step c s)) j \<or> (\<exists>t'. leased (snd (step c s)) j = Some t' \<and> t + lease \<le> t')"
    and closed_held: "valid s \<Longrightarrow> closed s j \<Longrightarrow> \<not> frees c j \<Longrightarrow> closed (snd (step c s)) j"
begin

definition steps :: "'c list \<Rightarrow> 's \<Rightarrow> 's" where
  "steps cs s = fold (\<lambda>c s. snd (step c s)) cs s"

lemma steps_simps [simp]: "steps [] s = s" "steps (c # cs) s = steps cs (snd (step c s))"
  by (simp_all add: steps_def)

lemma valid_steps: "valid s \<Longrightarrow> list_all ok_call cs \<Longrightarrow> valid (steps cs s)"
  by (induction cs arbitrary: s) (simp_all add: valid_step)

lemma closed_steps:
  "valid s \<Longrightarrow> list_all ok_call cs \<Longrightarrow> list_all (\<lambda>c. \<not> frees c j) cs \<Longrightarrow> closed s j \<Longrightarrow> closed (steps cs s) j"
  by (induction cs arbitrary: s) (simp_all add: valid_step closed_held)

text \<open>A job that is done or gone is not handed out again unless a call frees it.\<close>

lemma closed_never_granted:
  assumes "valid s" "list_all ok_call cs" "list_all (\<lambda>c. \<not> frees c j) cs" "closed s j"
  shows "j \<notin> set (snd (fst (step c (steps cs s))))"
  using grant_open [OF valid_steps [OF assms(1,2)]] closed_steps [OF assms] by blast

lemma lease_steps:
  assumes "valid s" "list_all ok_call cs" "list_all (\<lambda>c. \<not> frees c j) cs" "leased s j = Some t"
  shows "closed (steps cs s) j \<or> (\<exists>t'. leased (steps cs s) j = Some t' \<and> t \<le> t')"
  using assms
proof (induction cs arbitrary: s t)
  case (Cons c cs)
  let ?s = "snd (step c s)"
  have v: "valid ?s" and rest: "list_all ok_call cs" "list_all (\<lambda>c. \<not> frees c j) cs"
    using Cons.prems by (simp_all add: valid_step)
  consider "closed ?s j" | t' where "leased ?s j = Some t'" "t \<le> t'"
    using lease_held [of s j t c] Cons.prems lease_pos by fastforce
  then show ?case
  proof cases
    case 1
    then show ?thesis using closed_steps [OF v rest] by simp
  next
    case 2
    then show ?thesis using Cons.IH [OF v rest, of t'] by fastforce
  qed
qed simp

text \<open>Two grants of a job are a lease apart when nothing in between freed it.\<close>

lemma grants_spaced:
  assumes "valid s" "ok_call c" "list_all ok_call cs" "list_all (\<lambda>c. \<not> frees c j) cs"
    and first: "j \<in> set (snd (fst (step c s)))"
    and again: "j \<in> set (snd (fst (step c' (steps cs (snd (step c s))))))"
  shows "clock c + lease \<le> clock c'"
proof -
  let ?s = "snd (step c s)"
  have v: "valid ?s" using assms by (simp add: valid_step)
  then have v': "valid (steps cs ?s)" using assms by (simp add: valid_steps)
  have "leased ?s j = Some (clock c)" by (rule grant_leases [OF assms(1) first])
  moreover have "\<not> closed (steps cs ?s) j" by (rule grant_open [OF v' again])
  ultimately obtain t where "leased (steps cs ?s) j = Some t" "clock c \<le> t"
    using lease_steps [OF v assms(3,4)] by blast
  then show ?thesis using grant_waits [OF v' again] by fastforce
qed

end

locale acked_queue = lease_queue valid ok_call step clock frees leased closed lease
  for valid :: "'s \<Rightarrow> bool" and ok_call :: "'c \<Rightarrow> bool" and step :: "'c \<Rightarrow> 's \<Rightarrow> (bool \<times> 'j list) \<times> 's"
    and clock frees leased closed lease +
  fixes acks :: "'c \<Rightarrow> 'j \<Rightarrow> bool"
  assumes ack_closes: "valid s \<Longrightarrow> acks c j \<Longrightarrow> fst (fst (step c s)) \<Longrightarrow> closed (snd (step c s)) j"
begin

lemma acked_never_granted:
  assumes "valid s" "ok_call c" "acks c j" "fst (fst (step c s))" "list_all ok_call cs" "list_all (\<lambda>c. \<not> frees c j) cs"
  shows "j \<notin> set (snd (fst (step c' (steps cs (snd (step c s))))))"
  by (rule closed_never_granted) (use assms in \<open>simp_all add: valid_step ack_closes\<close>)

end

section \<open>The outbox\<close>

definition job_row :: "db \<Rightarrow> string \<Rightarrow> outbox option" where
  "job_row d j = tget ob_id j (event_outbox d)"

definition job_leased :: "db \<Rightarrow> string \<Rightarrow> int option" where
  "job_leased d j = (case job_row d j of None \<Rightarrow> None
     | Some r \<Rightarrow> if ob_status r = ObProcessing then Some (ob_updated_at r) else None)"

definition job_closed :: "db \<Rightarrow> string \<Rightarrow> bool" where
  "job_closed d j = (case job_row d j of None \<Rightarrow> True | Some r \<Rightarrow> ob_status r = ObDelivered)"

fun call_clock :: "hook_call \<Rightarrow> int" where
  "call_clock (CallClaimPending now limit) = to_unix now"
| "call_clock (CallClaimEvent now eid) = to_unix now"
| "call_clock _ = 0"

text \<open>
  Rescheduling frees a job.  A job that is gone could come back only if a new event got the id of the old
  one.
\<close>

fun call_frees :: "hook_call \<Rightarrow> string \<Rightarrow> bool" where
  "call_frees (CallMarkPending now i nxt) j = (i = j)"
| "call_frees (CallMarkEventPending now eid nxt) j = has_prefix j (eid @ '':'')"
| "call_frees (CallCreateEvent now uuid ty src sub data) j =
     (case uuid of None \<Rightarrow> False | Some i \<Rightarrow> has_prefix j (i @ '':''))"
| "call_frees _ j = False"

fun call_acks :: "hook_call \<Rightarrow> string \<Rightarrow> bool" where
  "call_acks (CallMarkDelivered now i) j = (i = j)"
| "call_acks _ j = False"

section \<open>What a call does to one job\<close>

definition claimable :: "int \<Rightarrow> outbox \<Rightarrow> bool" where
  "claimable t r \<longleftrightarrow> ob_status r = ObPending \<or> ob_status r = ObProcessing \<and> ob_updated_at r + 120 \<le> t"

text \<open>\<open>row_effect granted clock freed before after\<close>\<close>

inductive row_effect :: "bool \<Rightarrow> int \<Rightarrow> bool \<Rightarrow> outbox option \<Rightarrow> outbox option \<Rightarrow> bool" where
  same: "row_effect False t f r r"
| gone: "row_effect False t f r None"
| claim: "claimable t x \<Longrightarrow> row_effect g t f (Some x) (Some (claim_row t x))"
| deliver: "row_effect False t f (Some x) (Some (delivered_row u x))"
| freed: "row_effect False t True r r'"

inductive_cases grantedE: "row_effect True t f r r'"
inductive_cases not_freedE: "row_effect g t False r r'"

lemma to_unix_lease: "to_unix (now - outboxProcessingLease) = to_unix now - 120"
  by (simp add: to_unix_def outboxProcessingLease_def minute_def second_def)

definition shrunk :: "db \<Rightarrow> db \<Rightarrow> bool" where
  "shrunk d0 d \<longleftrightarrow> (\<exists>P. event_outbox d = filter P (event_outbox d0))"

lemma shrunk_refl: "shrunk d d"
  by (auto simp: shrunk_def intro: exI [of _ "\<lambda>_. True"])

lemma shrunk_data [simp]: "data_pred (shrunk d0)"
  by (simp add: data_pred_def shrunk_def)

lemma shrunk_same: "event_outbox d' = event_outbox d \<Longrightarrow> shrunk d0 d \<Longrightarrow> shrunk d0 d'"
  by (simp add: shrunk_def)

lemma shrunk_filter: "event_outbox d' = filter P (event_outbox d) \<Longrightarrow> shrunk d0 d \<Longrightarrow> shrunk d0 d'"
  by (auto simp: shrunk_def)

lemmas shrunk_rules = keeps_rules [OF shrunk_data]

lemma shrunk_subscriptions: "keeps (shrunk d0) (insert_subscriptions wid tys)"
proof (induction tys)
  case (Cons ty tys)
  have "keeps (shrunk d0) (insert_subscription wid ty)"
    unfolding insert_subscription_def by (rule shrunk_rules) (simp add: shrunk_def)
  then show ?case using Cons by (simp add: keeps_dbind)
qed (simp add: keeps_dret)

lemma shrunk_deleteEventBatch: "keeps (shrunk d0) (deleteEventBatch P)"
  unfolding deleteEventBatch_def Let_def
  by (rule shrunk_rules) (auto simp: tdelete_def intro: shrunk_filter)

lemma shrunk_calls:
  "keeps (shrunk d0) (PruneEvents now keep age)"
  "keeps (shrunk d0) (CreateWebhook enc now uuid uid name url secret evs)"
  "keeps (shrunk d0) (UpdateWebhook enc now i name url secret evs enabled)"
  "keeps (shrunk d0) (DeleteWebhook i)" "keeps (shrunk d0) (CreateWebhookDelivery now uuid a)"
  unfolding CreateWebhook_def store_webhook_def UpdateWebhook_def rewrite_webhook_def DeleteWebhook_def
    CreateWebhookDelivery_def replaceWebhookEventSubscriptions_def trim_deliveries_def Let_def
    PruneEvents_def pruneEventsBefore_def pruneEventsAboveLimit_def
  by (intro flow_rules shrunk_rules shrunk_subscriptions prune_batches_keeps shrunk_deleteEventBatch;
      (auto simp: tdelete_def intro: shrunk_same shrunk_filter; fail)?)+

lemma tget_filter_unique:
  "tunique key rows \<Longrightarrow>
   tget key k (filter P rows) = (case tget key k rows of None \<Rightarrow> None | Some r \<Rightarrow> if P r then Some r else None)"
proof (induction rows)
  case (Cons a rows)
  have "tget key (key a) rows = None" using Cons.prems by (simp add: tunique_def tget_None) (metis imageI)
  then show ?case using Cons by (auto simp: tunique_def)
qed simp

lemma shrunk_effect:
  assumes "shrunk d d'" "tunique ob_id (event_outbox d)"
  shows "row_effect False t f (job_row d j) (job_row d' j)"
proof -
  from assms(1) obtain P where "event_outbox d' = filter P (event_outbox d)" by (auto simp: shrunk_def)
  then consider "job_row d' j = job_row d j" | "job_row d' j = None"
    using tget_filter_unique [OF assms(2), of j P] by (auto simp: job_row_def split: option.splits if_splits)
  then show ?thesis by cases (simp_all add: row_effect.intros)
qed

lemma mark_outbox_cases:
  assumes "mark_outbox P f d = (r, d')"
  shows "isl r \<and> event_outbox d' = event_outbox d \<or> \<not> isl r \<and> event_outbox d' = tupdate P f (event_outbox d)"
  using assms unfolding mark_outbox_def by (cases r) (auto dest: exec_Inr exec_Inl)

lemma mark_outbox_row:
  assumes "mark_outbox P f d = (r, d')" "\<And>r. ob_id (f r) = ob_id r"
  shows "job_row d' j = job_row d j \<or> \<not> isl r \<and> job_row d' j = map_option (\<lambda>r. if P r then f r else r) (job_row d j)"
  using mark_outbox_cases [OF assms(1)] tget_tupdate [of ob_id f j P "event_outbox d"] assms(2)
  by (auto simp: job_row_def)

lemma claim_update_cases:
  assumes "claim_update P t d = (r, d')"
  obtains (claimed) fs where "r = Inr (map (claim_row t) (filter (P (d\<lparr>faults := fs\<rparr>)) (event_outbox d)))"
    "event_outbox d' = tupdate (P (d\<lparr>faults := fs\<rparr>)) (claim_row t) (event_outbox d)"
  | (failed) e where "r = Inl e" "event_outbox d' = event_outbox d"
proof (cases rule: stmt_cases [of "\<lambda>d. (Inr (map (claim_row t) (filter (P d) (event_outbox d))),
      d\<lparr>event_outbox := tupdate (P d) (claim_row t) (event_outbox d)\<rparr>)" d])
  case (ok fs)
  then show ?thesis using assms claimed [of fs] by (auto simp: claim_update_def)
next
  case (fault fs)
  then show ?thesis using assms failed by (auto simp: claim_update_def)
qed

lemma claimed_events_cases:
  assumes "claimed_events rows d = (r, d')"
  shows "event_outbox d' = event_outbox d \<and> (\<forall>js. r = Inr js \<longrightarrow> oe_outbox_id ` set js \<subseteq> ob_id ` set rows)"
proof (cases "rows = []")
  case False
  then have run: "listOutboxEvents rows d = (r, d')" using assms by (simp add: claimed_events_def)
  have "content d' = content d" using run unfolding listOutboxEvents_def by (rule query_content)
  then have "event_outbox d' = event_outbox d" by (rule contentD)
  moreover have "oe_outbox_id ` set js \<subseteq> ob_id ` set rows" if "r = Inr js" for js
    using query_Inr [OF run [unfolded listOutboxEvents_def that]]
    by (auto simp: Let_def map_filter_def split: if_splits option.splits)
  ultimately show ?thesis by blast
qed (use assms in \<open>auto simp: claimed_events_def dret_def\<close>)

lemma claim_transaction:
  assumes run: "transaction (dbind (claim_update P t) claimed_events) d = (r, d')"
  obtains (claimed) fs js where "r = Inr js" "event_outbox d' = tupdate (P (d\<lparr>faults := fs\<rparr>)) (claim_row t) (event_outbox d)"
    "oe_outbox_id ` set js \<subseteq> ob_id ` {x \<in> set (event_outbox d). P (d\<lparr>faults := fs\<rparr>) x}"
  | (failed) e where "r = Inl e" "event_outbox d' = event_outbox d"
proof (cases r)
  case (Inl e)
  then have "event_outbox d' = event_outbox d" using run by (auto dest: transaction_Inl)
  with Inl show ?thesis by (rule failed)
next
  case (Inr js)
  from transaction_Inr [OF run [unfolded Inr]] obtain gs gs' d2
    where body: "dbind (claim_update P t) claimed_events (d\<lparr>faults := gs\<rparr>) = (Inr js, d2)" and d': "d' = d2\<lparr>faults := gs'\<rparr>"
    by blast
  from body obtain rows d1 where 1: "claim_update P t (d\<lparr>faults := gs\<rparr>) = (Inr rows, d1)"
    and 2: "claimed_events rows d1 = (Inr js, d2)" by (auto simp: dbind_Inr)
  show ?thesis
  proof (cases rule: claim_update_cases [OF 1])
    case (1 fs)
    then have rows: "rows = map (claim_row t) (filter (P (d\<lparr>faults := fs\<rparr>)) (event_outbox d))"
      and d1: "event_outbox d1 = tupdate (P (d\<lparr>faults := fs\<rparr>)) (claim_row t) (event_outbox d)" by simp_all
    have "ob_id ` set rows = ob_id ` {x \<in> set (event_outbox d). P (d\<lparr>faults := fs\<rparr>) x}"
      by (auto simp: rows image_iff)
    then show ?thesis using claimed_events_cases [OF 2] d1 d' Inr by (intro claimed [of js fs]) simp_all
  next
    case (2 e)
    then show ?thesis by simp
  qed
qed

text \<open>A claim whose condition implies \<open>claimable\<close>, for one job.\<close>

lemma claim_effect:
  assumes run: "claim_call (transaction (dbind (claim_update P t) claimed_events)) d = ((b, js), d')"
    and uniq: "tunique ob_id (event_outbox d)"
    and P: "\<And>fs x. x \<in> set (event_outbox d) \<Longrightarrow> P (d\<lparr>faults := fs\<rparr>) x \<Longrightarrow> claimable t x"
  shows "row_effect (j \<in> set js) t f (job_row d j) (job_row d' j)"
proof -
  let ?m = "transaction (dbind (claim_update P t) claimed_events)"
  obtain r where r: "?m d = (r, d')" "js = (case r of Inl e \<Rightarrow> [] | Inr es \<Rightarrow> map oe_outbox_id es)"
    using run by (auto simp: claim_call_def split: prod.splits sum.splits)
  show ?thesis
  proof (cases rule: claim_transaction [OF r(1)])
    case (1 fs es)
    let ?P = "P (d\<lparr>faults := fs\<rparr>)"
    from 1 have rows: "event_outbox d' = tupdate ?P (claim_row t) (event_outbox d)"
      and js: "js = map oe_outbox_id es" "oe_outbox_id ` set es \<subseteq> ob_id ` {x \<in> set (event_outbox d). ?P x}"
      using r(2) by simp_all
    have after: "job_row d' j = map_option (\<lambda>x. if ?P x then claim_row t x else x) (job_row d j)"
      by (simp add: job_row_def rows tget_tupdate)
    show ?thesis
    proof (cases "\<exists>x \<in> set (event_outbox d). ob_id x = j \<and> ?P x")
      case True
      then obtain x where x: "x \<in> set (event_outbox d)" "ob_id x = j" "?P x" by blast
      then have "job_row d j = Some x" using tget_mem [OF uniq] by (auto simp: job_row_def)
      then show ?thesis using after x P [OF x(1,3)] by (simp add: row_effect.claim)
    next
      case False
      then have "j \<notin> set js" using js by (auto simp: image_iff subset_iff)
      moreover have "job_row d' j = job_row d j"
        using after False tget_Some [of ob_id j "event_outbox d"] by (cases "job_row d j") (auto simp: job_row_def)
      ultimately show ?thesis by (simp add: row_effect.same)
    qed
  next
    case (2 e)
    then show ?thesis using r(2) by (simp add: job_row_def row_effect.same)
  qed
qed

lemma quiet_callD: "quiet_call m d = ((b, js), d') \<Longrightarrow> js = [] \<and> (\<exists>r. m d = (r, d') \<and> b = (\<not> isl r))"
  by (auto simp: quiet_call_def split: prod.splits)

lemma shrunk_call:
  assumes "keeps (shrunk d) m" "quiet_call m d = ((b, js), d')" "db_wf d"
  shows "row_effect (j \<in> set js) t f (job_row d j) (job_row d' j)"
proof -
  obtain r where "m d = (r, d')" "js = []" using quiet_callD [OF assms(2)] by blast
  then show ?thesis
    using shrunk_effect [of d d'] keepsD [OF assms(1) _ shrunk_refl] assms(3) by (simp add: wf_defs)
qed

lemma mark_call:
  assumes "quiet_call (mark_outbox P g) d = ((b, js), d')" "\<And>r. ob_id (g r) = ob_id r"
    "\<And>x. job_row d j = Some x \<Longrightarrow> P x \<Longrightarrow> row_effect False t f (Some x) (Some (g x))"
  shows "row_effect (j \<in> set js) t f (job_row d j) (job_row d' j)"
proof -
  obtain r where r: "mark_outbox P g d = (r, d')" "js = []" using quiet_callD [OF assms(1)] by blast
  from mark_outbox_row [OF r(1) assms(2), of j] consider "job_row d' j = job_row d j"
    | x where "job_row d j = Some x" "P x" "job_row d' j = Some (g x)"
    by (cases "job_row d j") (auto split: if_splits)
  then show ?thesis using assms(3) r(2) by cases (simp_all add: row_effect.same)
qed

lemma create_event_effect:
  assumes wf: "hooks_wf d" and run: "CreateEvent now uuid ty src sub data d = (r, d')"
  shows "row_effect False t (case uuid of None \<Rightarrow> False | Some i \<Rightarrow> has_prefix j (i @ '':'')) (job_row d j) (job_row d' j)"
proof (cases r)
  case (Inl e)
  have "content d' = content d"
  proof (cases "uuid = None \<or> data = None")
    case True
    then show ?thesis using run by (cases uuid) (auto simp: CreateEvent_def with_uuid_def dfail_def)
  next
    case False
    then obtain i json where u: "uuid = Some i" "data = Some json" by auto
    show ?thesis
      by (rule transaction_atomic [OF run [unfolded CreateEvent_def with_uuid_def u option.case Inl]])
  qed
  then have "event_outbox d' = event_outbox d" by (rule contentD)
  then show ?thesis by (simp add: job_row_def row_effect.same)
next
  case (Inr e)
  have "CreateEvent now None ty src sub v d = (Inl ErrUUID, d)" for v
    by (simp add: CreateEvent_def with_uuid_def dfail_def)
  moreover have "CreateEvent now (Some i) ty src sub None d = (Inl (ErrInvalid ''marshaling event data''), d)" for i
    by (simp add: CreateEvent_def with_uuid_def dfail_def)
  ultimately have "uuid \<noteq> None \<and> data \<noteq> None"
    using run Inr by (metis Inl_Inr_False not_Some_eq prod.inject)
  then obtain i json where u: "uuid = Some i" "data = Some json" by auto
  obtain fs where d': "d' = d\<lparr>events := events d @ [\<lparr>ev_id = i, ev_type = ty, ev_time = to_unix now, ev_source = src, ev_subject = sub, ev_data = json\<rparr>],
      event_outbox := insert_or_ignore ob_id (outbox_rows (to_unix now) i ty d) (event_outbox d), faults := fs\<rparr>"
    by (rule CreateEvent_Inr [OF run [unfolded u Inr]])
  show ?thesis
  proof (cases "has_prefix j (i @ '':'')")
    case True
    then show ?thesis by (simp add: u row_effect.freed)
  next
    case False
    have "tget ob_id j (insert_or_ignore ob_id (outbox_rows (to_unix now) i ty d) (event_outbox d)) = job_row d j"
    proof (rule insert_or_ignore_induct [where P = "\<lambda>rows. tget ob_id j rows = job_row d j"])
      fix x and acc :: "outbox list"
      assume "x \<in> set (outbox_rows (to_unix now) i ty d)" and acc: "tget ob_id j acc = job_row d j"
      then have "ob_id x \<noteq> j" using False by (auto simp: outbox_rows_def has_prefix_iff)
      then show "tget ob_id j (acc @ [x]) = job_row d j" using acc by (simp add: tget_append split: option.split)
    qed (simp add: job_row_def)
    then show ?thesis by (simp add: job_row_def d' row_effect.same)
  qed
qed

lemma call_effect:
  assumes wf: "hooks_wf d" and run: "run_call enc c d = ((b, js), d')"
  shows "row_effect (j \<in> set js) (call_clock c) (call_frees c j) (job_row d j) (job_row d' j)"
proof -
  have db: "db_wf d" and uniq: "tunique ob_id (event_outbox d)" using hooks_wfD(1) [OF wf] by (simp_all add: wf_defs)
  have named: "has_prefix j (eid @ '':'')" if row: "job_row d j = Some x" and ev: "ob_event_id x = eid" for x eid
  proof -
    have "x \<in> set (event_outbox d)" "ob_id x = j" using tget_Some [of ob_id j "event_outbox d" x] row by (simp_all add: job_row_def)
    then obtain w where "j = eid @ '':'' @ w" using hooks_wfD(3) [OF wf] ev by (auto simp: jobs_named_def)
    then show ?thesis by (simp add: has_prefix_iff)
  qed
  show ?thesis
  proof (cases c)
    case (CallCreateEvent now uuid ty src sub data)
    then obtain r where "CreateEvent now uuid ty src sub data d = (r, d')" "js = []" using run quiet_callD by fastforce
    then show ?thesis using create_event_effect [OF wf] by (simp add: CallCreateEvent)
  next
    case (CallClaimPending now limit)
    have "row_effect (j \<in> set js) (to_unix now) False (job_row d j) (job_row d' j)"
    proof (rule claim_effect [OF run [unfolded CallClaimPending run_call.simps ClaimPendingOutboxEvents_def Let_def
            claimOutboxEventIDs_def] uniq])
      fix x fs
      let ?due = "due (to_unix now) (to_unix (now - outboxProcessingLease))"
      assume x: "x \<in> set (event_outbox d)" and "ob_id x \<in> set (map ob_id (take (nat (if limit \<le> 0 \<or> 2000 < limit then 1000 else limit))
        (sort_key (\<lambda>r. (ob_next_run_at r, ob_created_at r, ob_id r)) (filter ?due (event_outbox (d\<lparr>faults := fs\<rparr>))))))"
      then obtain y where "y \<in> set (event_outbox d)" "?due y" "ob_id y = ob_id x" by (auto dest!: in_set_takeD)
      then have "?due x" using tunique_eq [OF uniq _ x] by blast
      then show "claimable (to_unix now) x" by (auto simp: claimable_def due_def to_unix_lease)
    qed
    then show ?thesis by (simp add: CallClaimPending)
  next
    case (CallClaimEvent now eid)
    have "row_effect (j \<in> set js) (to_unix now) False (job_row d j) (job_row d' j)"
      by (rule claim_effect [OF run [unfolded CallClaimEvent run_call.simps ClaimEventOutbox_def claimEventOutbox_def] uniq])
        (auto simp: claimable_def to_unix_lease)
    then show ?thesis by (simp add: CallClaimEvent)
  next
    case (CallMarkDelivered now i)
    show ?thesis
      by (rule mark_call [OF run [unfolded CallMarkDelivered run_call.simps MarkOutboxDelivered_def]]) (simp_all add: row_effect.deliver)
  next
    case (CallMarkPending now i nxt)
    show ?thesis
      by (rule mark_call [OF run [unfolded CallMarkPending run_call.simps MarkOutboxPending_def]])
        (auto simp: CallMarkPending job_row_def row_effect.freed)
  next
    case (CallMarkEventDelivered now eid)
    show ?thesis
      by (rule mark_call [OF run [unfolded CallMarkEventDelivered run_call.simps MarkEventOutboxDelivered_def]])
        (simp_all add: row_effect.deliver)
  next
    case (CallMarkEventPending now eid nxt)
    show ?thesis
      by (rule mark_call [OF run [unfolded CallMarkEventPending run_call.simps MarkEventOutboxPending_def]])
        (auto simp: CallMarkEventPending named row_effect.freed)
  qed (use run db in \<open>auto intro: shrunk_call [OF shrunk_calls(1)] shrunk_call [OF shrunk_calls(2)]
        shrunk_call [OF shrunk_calls(3)] shrunk_call [OF shrunk_calls(4)] shrunk_call [OF shrunk_calls(5)]\<close>)
qed

section \<open>The outbox keeps the contract\<close>

lemma claimed_state [simp]:
  "ob_status (claim_row t x) = ObProcessing" "ob_updated_at (claim_row t x) = t"
  "ob_status (delivered_row t x) = ObDelivered"
  by (simp_all add: claim_row_def delivered_row_def)

lemma call_cases:
  fixes enc c d j
  defines "r \<equiv> run_call enc c d"
  assumes "hooks_wf d"
  shows "row_effect (j \<in> set (snd (fst r))) (call_clock c) (call_frees c j) (job_row d j) (job_row (snd r) j)"
  using call_effect [of d enc c "fst (fst r)" "snd (fst r)" "snd r" j] assms(2) by (simp add: r_def)

interpretation outbox: acked_queue hooks_wf uuid_ok "run_call enc" call_clock call_frees job_leased job_closed 120 call_acks
  for enc
proof (unfold_locales, goal_cases)
  case (2 d c)
  then show ?case by (rule hooks_wf_call)
next
  case (3 d j c)
  then show ?case using call_cases [of d j enc c] by (auto simp: job_leased_def elim: grantedE)
next
  case (4 d j c t)
  then show ?case using call_cases [of d j enc c]
    by (auto simp: job_leased_def claimable_def elim!: grantedE split: option.splits if_splits)
next
  case (5 d j c)
  then show ?case using call_cases [of d j enc c] by (auto simp: job_closed_def claimable_def elim!: grantedE)
next
  case (6 d j t c)
  then show ?case using call_cases [of d j enc c]
    by (auto simp: job_leased_def job_closed_def claimable_def elim!: not_freedE split: option.splits if_splits)
next
  case (7 d j c)
  then show ?case using call_cases [of d j enc c]
    by (auto simp: job_closed_def claimable_def elim!: not_freedE split: option.splits)
next
  case (8 d c j)
  then obtain now where c: "c = CallMarkDelivered now j" by (cases c) auto
  obtain r d' where run: "MarkOutboxDelivered now j d = (r, d')" by (cases "MarkOutboxDelivered now j d") 
  then have "\<not> isl r" using 8 c by (simp add: quiet_call_def)
  then have "event_outbox d' = tupdate (\<lambda>r. ob_id r = j) (delivered_row (to_unix now)) (event_outbox d)"
    using mark_outbox_cases [OF run [unfolded MarkOutboxDelivered_def]] by blast
  then have "job_closed d' j"
    by (auto simp: job_closed_def job_row_def tget_tupdate split: option.split)
  then show ?case by (simp add: c run)
qed simp

text \<open>
  C17: Whatever calls happen in between, concurrent claims, failures, pruning and changes of webhooks
  included, a delivery job that was handed out is not handed out again for two minutes, unless a call
  rescheduled it.
\<close>

theorem claims_spaced:
  assumes "hooks_wf d" "uuid_ok c" "list_all uuid_ok cs" "list_all (\<lambda>c. \<not> call_frees c j) cs"
    and "j \<in> set (snd (fst (run_call enc c d)))"
    and "j \<in> set (snd (fst (run_call enc c' (run_calls enc cs (snd (run_call enc c d))))))"
  shows "call_clock c + 120 \<le> call_clock c'"
  using outbox.grants_spaced [OF assms(1-5), of c'] assms(6) by (simp add: outbox.steps_def run_calls_def)

text \<open>
  A job whose delivery was recorded is never handed out again, whatever calls follow, unless one of
  them reschedules it or creates an event with the id of the job's event.
\<close>

theorem delivered_never_claimed:
  assumes "hooks_wf d" and "fst (fst (run_call enc (CallMarkDelivered now j) d))"
    and "list_all uuid_ok cs" "list_all (\<lambda>c. \<not> call_frees c j) cs"
  shows "j \<notin> set (snd (fst (run_call enc c (run_calls enc cs (snd (run_call enc (CallMarkDelivered now j) d))))))"
  using outbox.acked_never_granted [OF assms(1) _ _ assms(2-4), of c] by (simp add: outbox.steps_def run_calls_def)

definition demo_jobs :: db where
  "demo_jobs = snd (run_call Some (CallCreateEvent (5 * second) (Some ''e'') ''instance.started'' ''hellingd'' ''vm'' (Some ''{}'')) demo_hooks)"

lemma demo_jobs_wf: "hooks_wf demo_jobs"
  unfolding demo_jobs_def by (rule hooks_wf_call [OF demo_hooks_wf]) code_simp

theorem claims_spaced_witness:
  "call_clock (CallClaimPending (10 * second) 5) + 120 \<le> call_clock (CallClaimPending (140 * second) 5)"
proof (rule claims_spaced [OF demo_jobs_wf])
  let ?between = "[CallClaimPending (60 * second) 5, CallDeleteWebhook ''w2'']"
  show "list_all uuid_ok ?between" "list_all (\<lambda>c. \<not> call_frees c ''e:w1'') ?between" by code_simp+
  show "''e:w1'' \<in> set (snd (fst (run_call Some (CallClaimPending (10 * second) 5) demo_jobs)))" by code_simp
  show "''e:w1'' \<in> set (snd (fst (run_call Some (CallClaimPending (140 * second) 5)
      (run_calls Some ?between (snd (run_call Some (CallClaimPending (10 * second) 5) demo_jobs))))))"
    by code_simp
qed simp

theorem delivered_never_claimed_witness:
  "''e:w1'' \<notin> set (snd (fst (run_call Some (CallClaimPending (900 * second) 5)
     (run_calls Some [CallClaimPending (140 * second) 5] (snd (run_call Some (CallMarkDelivered (11 * second) ''e:w1'') demo_jobs))))))"
  by (rule delivered_never_claimed [OF demo_jobs_wf]) code_simp+

end
