(* ===== verification/Webhook_Dispatch.thy ===== *)
theory Webhook_Dispatch
  imports Outbox_Lease
begin

text \<open>
  \<open>server/webhook_dispatch.go\<close>: dispatching a job, retrying, and draining the outbox into the queue of
  the workers.

  The HTTP POST, JSON encoding and decryption are functions of \<open>dispatch_env\<close>.  A dispatch returns the
  requests it sent.  \<open>dtry\<close> runs an operation and goes on with its outcome, whatever it is; logging is
  left out.
\<close>

definition dtry :: "'a dbm \<Rightarrow> ('a res \<Rightarrow> 'b dbm) \<Rightarrow> 'b dbm" where
  "dtry m k d = (case m d of (r, d1) \<Rightarrow> k r d1)"

lemma keeps_dtry [keeps_intros]: "keeps P m \<Longrightarrow> (\<And>r. keeps P (k r)) \<Longrightarrow> keeps P (dtry m k)"
  by (rule keepsI) (auto simp: dtry_def split: prod.splits dest: keepsD)

section \<open>One job\<close>

record dispatch_env =
  dp_now :: gotime
  dp_uuid :: "string option"
  dp_body :: "event \<Rightarrow> string option"
  dp_decrypt :: "string \<Rightarrow> string + string"
  dp_deliver :: "string \<Rightarrow> string \<Rightarrow> string \<Rightarrow> int option \<times> string option \<times> string option"
  dp_retry_delays :: "int list"

type_synonym sent = "(string \<times> string) list"

definition outcomeSuccess :: string where "outcomeSuccess = ''success''"

definition outcomeFailed :: string where "outcomeFailed = ''failed''"

definition rescheduleWebhookEvent :: "dispatch_env \<Rightarrow> outbox_event \<Rightarrow> bool dbm" where
  "rescheduleWebhookEvent env job =
     (if oe_attempt job \<le> 0 \<or> int (length (dp_retry_delays env)) < oe_attempt job then dret False
      else let delay = dp_retry_delays env ! nat (oe_attempt job - 1) in
        dtry (MarkOutboxPending (dp_now env) (oe_outbox_id job) (dp_now env + delay)) (\<lambda>r. dret (\<not> isl r)))"

definition deliverWebhookAttempt :: "dispatch_env \<Rightarrow> webhook \<Rightarrow> event \<Rightarrow> string \<Rightarrow> string \<Rightarrow> int \<Rightarrow> bool dbm" where
  "deliverWebhookAttempt env hook ev secret body attempt =
     (case dp_deliver env (wh_url hook) secret body of (statusCode, responseBody, deliveryErr) \<Rightarrow>
      dtry (CreateWebhookDelivery (dp_now env) (dp_uuid env)
        \<lparr>di_webhook_id = wh_id hook, di_event_id = ev_id ev, di_event_type = ev_type ev,
         di_status = (if deliveryErr = None then outcomeSuccess else outcomeFailed), di_status_code = statusCode,
         di_response_body = responseBody, di_error = deliveryErr, di_attempt = attempt\<rparr>)
      (\<lambda>_. dret (deliveryErr = None)))"

definition dispatchEventWebhooks :: "dispatch_env \<Rightarrow> outbox_event \<Rightarrow> sent dbm" where
  "dispatchEventWebhooks env job =
     (let ev = oe_event job;
          delivered = dtry (MarkOutboxDelivered (dp_now env) (oe_outbox_id job));
          later = dtry (MarkOutboxPending (dp_now env) (oe_outbox_id job) (dp_now env + 30 * second))
      in dtry (GetWebhook (oe_webhook_id job)) (\<lambda>r. case r of
        Inl e \<Rightarrow> if e = ErrNotFound then delivered (\<lambda>_. dret []) else later (\<lambda>_. dret [])
      | Inr hook \<Rightarrow>
          if \<not> wh_enabled hook \<or> \<not> webhookSubscribesToEvent (wh_events hook) (ev_type ev) then delivered (\<lambda>_. dret [])
          else (case dp_body env ev of
            None \<Rightarrow> later (\<lambda>_. dret [])
          | Some body \<Rightarrow> (case dp_decrypt env (wh_secret_encrypted hook) of
              Inl msg \<Rightarrow>
                dtry (CreateWebhookDelivery (dp_now env) (dp_uuid env)
                  \<lparr>di_webhook_id = wh_id hook, di_event_id = ev_id ev, di_event_type = ev_type ev, di_status = outcomeFailed,
                   di_status_code = None, di_response_body = None, di_error = Some msg, di_attempt = oe_attempt job\<rparr>) (\<lambda>_.
                dbind (rescheduleWebhookEvent env job) (\<lambda>again.
                if again then dret [] else delivered (\<lambda>_. dret [])))
            | Inr secret \<Rightarrow>
                dbind (deliverWebhookAttempt env hook ev secret body (oe_attempt job)) (\<lambda>ok.
                if ok then delivered (\<lambda>_. dret [(wh_url hook, body)])
                else dbind (rescheduleWebhookEvent env job) (\<lambda>again.
                  if again then dret [(wh_url hook, body)] else delivered (\<lambda>_. dret [(wh_url hook, body)])))))))"

section \<open>Draining the outbox\<close>

text \<open>
  \<open>q\<close> is the content of the channel \<open>webhookQueue\<close>.  Only the drainer sends to it; the workers take jobs
  out, which can only make room, so that one drain is modelled with the queue as it was at its start.
\<close>

fun push_jobs :: "gotime \<Rightarrow> nat \<Rightarrow> outbox_event list \<Rightarrow> outbox_event list \<Rightarrow> outbox_event list dbm" where
  "push_jobs now cap q [] = dret q"
| "push_jobs now cap q (e # es) =
     (if length q < cap then push_jobs now cap (q @ [e]) es
      else dtry (MarkOutboxPending now (oe_outbox_id e) (now + 5 * second)) (\<lambda>_. push_jobs now cap q es))"

definition drainWebhookOutbox :: "gotime \<Rightarrow> nat \<Rightarrow> outbox_event list \<Rightarrow> outbox_event list dbm" where
  "drainWebhookOutbox now cap q =
     (let limit = int cap - int (length q) in
      if limit \<le> 0 then dret q
      else dtry (ClaimPendingOutboxEvents now (if 1000 < limit then 1000 else limit)) (\<lambda>r. case r of
        Inl e \<Rightarrow> dret q
      | Inr evs \<Rightarrow> push_jobs now cap q evs))"

section \<open>What dispatching keeps\<close>

lemmas dispatch_defs = dispatchEventWebhooks_def rescheduleWebhookEvent_def deliverWebhookAttempt_def

lemma keeps_prod3 [keeps_intros]: "(\<And>a b c. keeps P (f a b c)) \<Longrightarrow> keeps P (case t of (a, b, c) \<Rightarrow> f a b c)"
  by (cases t) simp

lemma dispatch_keeps:
  assumes "keeps P (GetWebhook (oe_webhook_id job))"
    "\<And>i nxt. keeps P (MarkOutboxPending (dp_now env) (oe_outbox_id job) nxt)"
    "keeps P (MarkOutboxDelivered (dp_now env) (oe_outbox_id job))"
    "\<And>a. keeps P (CreateWebhookDelivery (dp_now env) (dp_uuid env) a)"
  shows "keeps P (dispatchEventWebhooks env job)"
  unfolding dispatch_defs Let_def
  by (intro flow_rules keeps_dtry keeps_prod3 assms)

lemma hooks_GetWebhook: "keeps subs_ok (GetWebhook i)" "keeps jobs_named (GetWebhook i)"
  unfolding GetWebhook_def one_row_def by (intro flow_rules subs_rules jobs_rules)+

lemma keeps_hooks: "keeps db_wf m \<Longrightarrow> keeps subs_ok m \<Longrightarrow> keeps jobs_named m \<Longrightarrow> keeps hooks_wf m"
  by (simp add: keeps_def hooks_wf_def)

lemma hooks_dispatch: "keeps hooks_wf (dispatchEventWebhooks env job)"
  by (rule dispatch_keeps) (intro keeps_hooks call_keeps wf_webhooks wf_outbox hooks_GetWebhook)+

section \<open>A dispatch without database failures\<close>

lemma mark_quiet:
  assumes "faults d = []"
  shows "MarkOutboxDelivered now j d
      = (Inr (), d\<lparr>event_outbox := tupdate (\<lambda>r. ob_id r = j) (delivered_row (to_unix now)) (event_outbox d)\<rparr>)"
    "MarkOutboxPending now j nxt d
      = (Inr (), d\<lparr>event_outbox := tupdate (\<lambda>r. ob_id r = j) (pending_row (to_unix now) (to_unix nxt)) (event_outbox d)\<rparr>)"
  by (simp_all add: MarkOutboxDelivered_def MarkOutboxPending_def mark_outbox_def exec_def stmt_no_faults [OF assms])

lemma GetWebhook_quiet: "faults d = [] \<Longrightarrow> snd (GetWebhook i d) = d"
  by (simp add: GetWebhook_def dbind_def query_def stmt_no_faults one_row_def dfail_def dret_def split: option.split)

lemma CreateWebhookDelivery_quiet:
  assumes "faults d = []"
  shows "event_outbox (snd (CreateWebhookDelivery now uuid a d)) = event_outbox d"
    "faults (snd (CreateWebhookDelivery now uuid a d)) = []"
  using assms
  by (simp_all add: CreateWebhookDelivery_def with_uuid_def dfail_def Let_def dbind_def stmt_no_faults dignore_def trim_deliveries_def
      exec_def dret_def split: option.split)

definition same_outbox :: "db \<Rightarrow> db \<Rightarrow> bool" where
  "same_outbox d d' \<longleftrightarrow> faults d' = [] \<and> event_outbox d' = event_outbox d"

text \<open>A job is settled, or due again after the delay of its attempt.\<close>

inductive settles :: "dispatch_env \<Rightarrow> outbox_event \<Rightarrow> db \<Rightarrow> db \<Rightarrow> bool" for env job d d' where
  delivered: "faults d' = [] \<Longrightarrow> event_outbox d' = tupdate (\<lambda>r. ob_id r = oe_outbox_id job)
      (delivered_row (to_unix (dp_now env))) (event_outbox d) \<Longrightarrow> settles env job d d'"
| again: "faults d' = [] \<Longrightarrow> 1 \<le> oe_attempt job \<Longrightarrow> oe_attempt job \<le> int (length (dp_retry_delays env)) \<Longrightarrow>
    event_outbox d' = tupdate (\<lambda>r. ob_id r = oe_outbox_id job) (pending_row (to_unix (dp_now env))
      (to_unix (dp_now env + dp_retry_delays env ! nat (oe_attempt job - 1)))) (event_outbox d) \<Longrightarrow> settles env job d d'"

lemma settles_delivered:
  "same_outbox d d1 \<Longrightarrow> settles env job d (snd (dtry (MarkOutboxDelivered (dp_now env) (oe_outbox_id job)) (\<lambda>_. dret x) d1))"
  by (rule settles.delivered) (simp_all add: dtry_def mark_quiet dret_def same_outbox_def)

lemma settles_again:
  assumes "same_outbox d d1"
  shows "settles env job d (snd (dbind (rescheduleWebhookEvent env job) (\<lambda>again.
     if again then dret x else dtry (MarkOutboxDelivered (dp_now env) (oe_outbox_id job)) (\<lambda>_. dret y)) d1))"
proof (cases "oe_attempt job \<le> 0 \<or> int (length (dp_retry_delays env)) < oe_attempt job")
  case True
  then show ?thesis using settles_delivered [OF assms, of env job y]
    by (simp add: rescheduleWebhookEvent_def dbind_def dret_def)
next
  case False
  then show ?thesis using assms
    by (intro settles.again)
      (simp_all add: rescheduleWebhookEvent_def dbind_def dret_def dtry_def Let_def mark_quiet same_outbox_def)
qed

lemma snd_dtry: "snd (dtry m k d) = snd (k (fst (m d)) (snd (m d)))"
  by (simp add: dtry_def split: prod.split)

lemma attempt_quiet:
  assumes "faults d = []"
  shows "\<exists>ok d1. deliverWebhookAttempt env hook ev secret body att d = (Inr ok, d1) \<and> same_outbox d d1"
  using CreateWebhookDelivery_quiet [OF assms]
  by (auto simp: deliverWebhookAttempt_def dtry_def dret_def same_outbox_def split: prod.splits) (metis snd_conv)+

lemma dispatch_settles:
  assumes quiet: "faults d = []" and body: "dp_body env (oe_event job) \<noteq> None"
  shows "settles env job d (snd (dispatchEventWebhooks env job d))"
proof -
  have same: "same_outbox d d" using quiet by (simp add: same_outbox_def)
  obtain b where b: "dp_body env (oe_event job) = Some b" using body by auto
  obtain r where r: "GetWebhook (oe_webhook_id job) d = (r, d)"
    using GetWebhook_quiet [OF quiet, of "oe_webhook_id job"] by (metis prod.collapse)
  show ?thesis
  proof (cases r)
    case (Inl e)
    have "e = ErrNotFound"
      using r quiet unfolding Inl GetWebhook_def one_row_def
      by (auto simp: dbind_def query_def stmt_no_faults dfail_def dret_def split: option.splits)
    then show ?thesis using r Inl settles_delivered [OF same, of env job]
      by (simp add: dispatchEventWebhooks_def Let_def dtry_def)
  next
    case (Inr hook)
    consider "\<not> wh_enabled hook \<or> \<not> webhookSubscribesToEvent (wh_events hook) (ev_type (oe_event job))"
      | msg where "wh_enabled hook \<and> webhookSubscribesToEvent (wh_events hook) (ev_type (oe_event job))"
          "dp_decrypt env (wh_secret_encrypted hook) = Inl msg"
      | s where "wh_enabled hook \<and> webhookSubscribesToEvent (wh_events hook) (ev_type (oe_event job))"
          "dp_decrypt env (wh_secret_encrypted hook) = Inr s"
      by (cases "dp_decrypt env (wh_secret_encrypted hook)") auto
    then show ?thesis
    proof cases
      case 1
      then show ?thesis using r Inr settles_delivered [OF same, of env job]
        by (simp add: dispatchEventWebhooks_def Let_def dtry_def)
    next
      case 2
      then show ?thesis using r Inr b CreateWebhookDelivery_quiet [OF quiet]
        by (simp add: dispatchEventWebhooks_def Let_def dtry_def [of "GetWebhook _"] snd_dtry settles_again same_outbox_def)
    next
      case 3
      obtain ok d1 where att: "deliverWebhookAttempt env hook (oe_event job) s b (oe_attempt job) d = (Inr ok, d1)"
        and d1: "same_outbox d d1" using attempt_quiet [OF quiet] by blast
      then show ?thesis using r Inr b 3 settles_delivered [OF d1, of env job] settles_again [OF d1, of env job]
        by (cases ok) (simp_all add: dispatchEventWebhooks_def Let_def dtry_def [of "GetWebhook _"] dbind_def [of "deliverWebhookAttempt _ _ _ _ _ _"])
    qed
  qed
qed

section \<open>Rounds of claiming and dispatching\<close>

text \<open>
  One round: a claim of what is due at \<open>now\<close>, and a dispatch of every job claimed, each by a worker with
  its own clock, receiver and identifiers.
\<close>

definition dispatch_round :: "gotime \<Rightarrow> (outbox_event \<Rightarrow> dispatch_env) \<Rightarrow> db \<Rightarrow> db" where
  "dispatch_round now worker d = (case ClaimPendingOutboxEvents now 1000 d of
     (Inl e, d1) \<Rightarrow> d1
   | (Inr jobs, d1) \<Rightarrow> fold (\<lambda>job d. snd (dispatchEventWebhooks (worker job) job d)) jobs d1)"

definition dispatch_rounds :: "(gotime \<times> (outbox_event \<Rightarrow> dispatch_env)) list \<Rightarrow> db \<Rightarrow> db" where
  "dispatch_rounds rounds d = fold (\<lambda>(now, worker) d. dispatch_round now worker d) rounds d"

text \<open>Jobs that wait have made \<open>k\<close> attempts and are due at \<open>T\<close>; a retry had at most \<open>L\<close>.\<close>

definition waiting :: "int \<Rightarrow> unixsec \<Rightarrow> outbox \<Rightarrow> bool" where
  "waiting k T r \<longleftrightarrow> ob_status r = ObPending \<and> k \<le> ob_attempts r \<and> (case ob_next_run_at r of None \<Rightarrow> False | Some t \<Rightarrow> t \<le> T)"

definition settled_or_waiting :: "int \<Rightarrow> unixsec \<Rightarrow> db \<Rightarrow> bool" where
  "settled_or_waiting k T d \<longleftrightarrow> (\<forall>r \<in> set (event_outbox d). ob_status r = ObDelivered \<or> waiting k T r)"

lemma transaction_quiet:
  assumes "faults d = []" "m d = (Inr x, d2)" "faults d2 = []"
  shows "transaction m d = (Inr x, d2)"
  using assms by (simp add: transaction_def stmt_no_faults dbind_def dret_def)

lemma listOutboxEvents_quiet:
  assumes quiet: "faults d = []" and wf: "db_wf d" and uniq: "tunique ob_id claimed"
    and run: "listOutboxEvents claimed d = (r, d')"
  obtains js where "r = Inr js" "d' = d"
    "\<And>x. x \<in> set (event_outbox d) \<Longrightarrow> x \<in> set claimed \<Longrightarrow> ob_id x \<in> oe_outbox_id ` set js"
    "\<And>job x. job \<in> set js \<Longrightarrow> x \<in> set claimed \<Longrightarrow> oe_outbox_id job = ob_id x \<Longrightarrow> oe_attempt job = ob_attempts x"
proof -
  let ?sel = "\<lambda>r. if ob_id r \<notin> set (map ob_id claimed) then None
         else case tget ev_id (ob_event_id r) (events d) of None \<Rightarrow> None | Some e \<Rightarrow> Some (e, r)"
  let ?mk = "\<lambda>(e, r). \<lparr>oe_event = scan_event e, oe_outbox_id = ob_id r,
     oe_webhook_id = (case ob_webhook_id r of None \<Rightarrow> '''' | Some w \<Rightarrow> w),
     oe_attempt = (case tget ob_id (ob_id r) claimed of None \<Rightarrow> 0 | Some c \<Rightarrow> ob_attempts c)\<rparr>"
  let ?jobs = "List.map_filter ?sel (event_outbox d)"
  let ?js = "map ?mk (sort_key (\<lambda>(e, r). (ev_time e, ev_id e, ob_id r)) ?jobs)"
  have run': "(Inr ?js, d) = (r, d')"
    using run by (simp only: listOutboxEvents_def query_def stmt_no_faults [OF quiet] Let_def)
  note run' = run' [THEN prod.inject [THEN iffD1]]
  have "r = Inr ?js" by (rule run' [THEN conjunct1, symmetric])
  moreover have "d' = d" by (rule run' [THEN conjunct2, symmetric])
  moreover have "ob_id x \<in> oe_outbox_id ` set ?js" if x: "x \<in> set (event_outbox d)" "x \<in> set claimed" for x
  proof -
    obtain e where "tget ev_id (ob_event_id x) (events d) = Some e"
    proof -
      have "trefs ob_event_id (event_outbox d) ev_id (events d)" using wf by (simp add: wf_defs)
      then have "ob_event_id x \<in> set (map ev_id (events d))" using x(1) by (auto simp: trefs_map)
      then have "tget ev_id (ob_event_id x) (events d) \<noteq> None" by (rule tget_key_mem)
      then show ?thesis using that by blast
    qed
    then have "(e, x) \<in> set ?jobs" using x by (auto simp: map_filter_def image_iff intro!: exI [of _ x])
    then show ?thesis by (force simp: image_iff)
  qed
  moreover have "oe_attempt job = ob_attempts x"
    if "job \<in> set ?js" "x \<in> set claimed" "oe_outbox_id job = ob_id x" for job x
    using that tget_mem [OF uniq that(2)] by auto
  ultimately show ?thesis by (rule that)
qed

lemma claimed_events_quiet:
  assumes quiet: "faults d = []" and wf: "db_wf d" and uniq: "tunique ob_id claimed"
  obtains js where "claimed_events claimed d = (Inr js, d)"
    "\<And>x. x \<in> set (event_outbox d) \<Longrightarrow> x \<in> set claimed \<Longrightarrow> ob_id x \<in> oe_outbox_id ` set js"
    "\<And>job x. job \<in> set js \<Longrightarrow> x \<in> set claimed \<Longrightarrow> oe_outbox_id job = ob_id x \<Longrightarrow> oe_attempt job = ob_attempts x"
    "oe_outbox_id ` set js \<subseteq> ob_id ` set claimed"
proof (cases "claimed = []")
  case True
  then show ?thesis using that [of "[]"] by (simp add: claimed_events_def dret_def)
next
  case False
  obtain r d2 where run: "listOutboxEvents claimed d = (r, d2)" by (cases "listOutboxEvents claimed d")
  then have ce: "claimed_events claimed d = (r, d2)" using False by (simp add: claimed_events_def)
  obtain js where js: "r = Inr js" "d2 = d"
    "\<And>x. x \<in> set (event_outbox d) \<Longrightarrow> x \<in> set claimed \<Longrightarrow> ob_id x \<in> oe_outbox_id ` set js"
    "\<And>job x. job \<in> set js \<Longrightarrow> x \<in> set claimed \<Longrightarrow> oe_outbox_id job = ob_id x \<Longrightarrow> oe_attempt job = ob_attempts x"
    by (rule listOutboxEvents_quiet [OF quiet wf uniq run]) (rule that)
  moreover have "oe_outbox_id ` set js \<subseteq> ob_id ` set claimed"
    using claimed_events_cases [OF ce] js(1) by blast
  ultimately show ?thesis using ce by (intro that [of js]) simp_all
qed

lemma hooks_claim_update: "keeps hooks_wf (claim_update P t)"
proof (rule keeps_hooks)
  show "keeps subs_ok (claim_update P t)"
    unfolding claim_update_def by (rule subs_rules) (simp add: subs_ok_def)
  show "keeps jobs_named (claim_update P t)"
    unfolding claim_update_def by (rule jobs_rules) (simp add: jobs_tupdate)
qed (rule wf_claim_update)

lemma claim_all_due:
  assumes wf: "hooks_wf d" and quiet: "faults d = []" and few: "length (event_outbox d) \<le> 1000"
    and waits: "settled_or_waiting k (to_unix now) d"
  obtains js d1 where "ClaimPendingOutboxEvents now 1000 d = (Inr js, d1)" "faults d1 = []" "hooks_wf d1"
    "length (event_outbox d1) = length (event_outbox d)"
    "\<And>r. r \<in> set (event_outbox d1) \<Longrightarrow> ob_status r \<noteq> ObDelivered \<Longrightarrow> ob_id r \<in> oe_outbox_id ` set js"
    "\<And>r job. r \<in> set (event_outbox d1) \<Longrightarrow> job \<in> set js \<Longrightarrow> oe_outbox_id job = ob_id r \<Longrightarrow>
       oe_attempt job = ob_attempts r \<and> k + 1 \<le> ob_attempts r"
proof -
  let ?t = "to_unix now"
  let ?due = "due ?t (to_unix (now - outboxProcessingLease))"
  let ?P = "\<lambda>d r. ob_id r \<in> set (map ob_id (take 1000
     (sort_key (\<lambda>r. (ob_next_run_at r, ob_created_at r, ob_id r)) (filter ?due (event_outbox d)))))"
  let ?claimed = "map (claim_row ?t) (filter (?P d) (event_outbox d))"
  let ?d1 = "d\<lparr>event_outbox := tupdate (?P d) (claim_row ?t) (event_outbox d)\<rparr>"
  have uniq: "tunique ob_id (event_outbox d)" using hooks_wfD(1) [OF wf] by (simp add: wf_defs)
  have dueI: "?due r" if "r \<in> set (event_outbox d)" "ob_status r \<noteq> ObDelivered" for r
    using waits hooks_wfD(3) [OF wf] that
    by (auto simp: settled_or_waiting_def waiting_def jobs_named_def due_def split: option.splits)
  have all: "take 1000 (sort_key (\<lambda>r. (ob_next_run_at r, ob_created_at r, ob_id r)) (filter ?due (event_outbox d)))
      = sort_key (\<lambda>r. (ob_next_run_at r, ob_created_at r, ob_id r)) (filter ?due (event_outbox d))"
    using order_trans [OF length_filter_le few] by simp
  have P: "?P d r \<longleftrightarrow> ?due r" if r: "r \<in> set (event_outbox d)" for r
  proof
    assume "?P d r"
    then obtain s where "s \<in> set (event_outbox d)" "?due s" "ob_id s = ob_id r" unfolding all by auto
    then show "?due r" using tunique_eq [OF uniq _ r] by blast
  qed (use r in \<open>simp add: all\<close>)
  have claim: "claim_update ?P ?t d = (Inr ?claimed, ?d1)"
    by (simp only: claim_update_def stmt_no_faults [OF quiet])
  have quiet1: "faults ?d1 = []" using quiet by simp
  have wf1: "hooks_wf ?d1" by (rule keepsD [OF hooks_claim_update claim wf])
  have claimed: "x \<in> set ?claimed" if "x \<in> set (event_outbox ?d1)" "ob_status x \<noteq> ObDelivered" for x
  proof -
    from that(1) obtain r where r: "r \<in> set (event_outbox d)" "x = (if ?P d r then claim_row ?t r else r)"
      by (auto dest!: in_tupdate)
    then have "?P d r" using that(2) dueI [OF r(1)] P [OF r(1)] by (auto split: if_splits)
    then show ?thesis using r by auto
  qed
  have attempts: "k + 1 \<le> ob_attempts x" if "x \<in> set ?claimed" for x
  proof -
    from that obtain r where r: "r \<in> set (event_outbox d)" "?P d r" "x = claim_row ?t r" by auto
    then have "waiting k ?t r"
      using waits P [OF r(1)] by (auto simp: settled_or_waiting_def due_def)
    then show ?thesis by (simp add: r(3) claim_row_def waiting_def)
  qed
  have uniq1: "tunique ob_id ?claimed"
    using uniq by (simp add: tunique_def comp_def distinct_map_filter)
  obtain js where ce: "claimed_events ?claimed ?d1 = (Inr js, ?d1)"
    and got: "\<And>x. x \<in> set (event_outbox ?d1) \<Longrightarrow> x \<in> set ?claimed \<Longrightarrow> ob_id x \<in> oe_outbox_id ` set js"
    and att: "\<And>job x. job \<in> set js \<Longrightarrow> x \<in> set ?claimed \<Longrightarrow> oe_outbox_id job = ob_id x \<Longrightarrow> oe_attempt job = ob_attempts x"
    and ids: "oe_outbox_id ` set js \<subseteq> ob_id ` set ?claimed"
    by (rule claimed_events_quiet [OF quiet1 hooks_wfD(1) [OF wf1] uniq1]) (rule that)
  have body: "dbind (claim_update ?P ?t) claimed_events d = (Inr js, ?d1)" by (simp only: dbind_def claim ce prod.case sum.case)
  have num: "nat (if (1000::int) \<le> 0 \<or> 2000 < (1000::int) then 1000 else 1000) = 1000" by simp
  have "ClaimPendingOutboxEvents now 1000 d = (Inr js, ?d1)"
    unfolding ClaimPendingOutboxEvents_def claimOutboxEventIDs_def Let_def num
    by (rule transaction_quiet [of d "dbind (claim_update ?P ?t) claimed_events", OF quiet body quiet1])
  moreover have "oe_attempt job = ob_attempts r \<and> k + 1 \<le> ob_attempts r"
    if r: "r \<in> set (event_outbox ?d1)" and job: "job \<in> set js" "oe_outbox_id job = ob_id r" for r job
  proof -
    have "oe_outbox_id job \<in> ob_id ` set ?claimed" by (rule subsetD [OF ids imageI [OF job(1)]])
    then obtain x where eq: "oe_outbox_id job = ob_id x" and mem: "x \<in> set ?claimed" by (rule imageE)
    have x: "x \<in> set ?claimed" "ob_id x = ob_id r" using mem eq job(2) by (simp_all only:)
    have "x \<in> set (event_outbox ?d1)" using mem by (auto simp: set_tupdate)
    moreover have "tunique ob_id (event_outbox ?d1)" using hooks_wfD(1) [OF wf1] unfolding wf_defs by blast
    ultimately have "x = r" using tunique_eq [OF _ _ r x(2)] by blast
    then show ?thesis using att [OF job(1) x(1)] attempts [OF x(1)] job(2) by simp
  qed
  moreover have "length (event_outbox ?d1) = length (event_outbox d)" by simp
  moreover have "ob_id r \<in> oe_outbox_id ` set js"
    if "r \<in> set (event_outbox ?d1)" "ob_status r \<noteq> ObDelivered" for r
    by (rule got [OF that(1) claimed [OF that]])
  ultimately show ?thesis by (intro that [OF _ quiet1 wf1])
qed

section \<open>Attempts end\<close>

text \<open>A row after its dispatch in a round, and the state while jobs of the round remain.\<close>

definition finished :: "int \<Rightarrow> int \<Rightarrow> unixsec \<Rightarrow> outbox \<Rightarrow> bool" where
  "finished k L T r \<longleftrightarrow> ob_status r = ObDelivered \<or> waiting (k + 1) T r \<and> ob_attempts r \<le> L"

definition round_inv :: "int \<Rightarrow> int \<Rightarrow> unixsec \<Rightarrow> outbox_event list \<Rightarrow> db \<Rightarrow> bool" where
  "round_inv k L T js d \<longleftrightarrow> faults d = [] \<and> hooks_wf d \<and>
     (\<forall>r \<in> set (event_outbox d). (finished k L T r \<or> ob_id r \<in> oe_outbox_id ` set js) \<and>
       (\<forall>job \<in> set js. oe_outbox_id job = ob_id r \<longrightarrow> oe_attempt job = ob_attempts r \<and> k + 1 \<le> ob_attempts r))"

text \<open>A worker of a round: its body encodes, its retries are due by \<open>T\<close>.\<close>

definition worker_ok :: "int \<Rightarrow> unixsec \<Rightarrow> (outbox_event \<Rightarrow> dispatch_env) \<Rightarrow> bool" where
  "worker_ok L T worker \<longleftrightarrow> (\<forall>job. dp_body (worker job) (oe_event job) \<noteq> None \<and>
     int (length (dp_retry_delays (worker job))) = L \<and>
     (\<forall>delay \<in> set (dp_retry_delays (worker job)). to_unix (dp_now (worker job) + delay) \<le> T))"

lemma settled_rows:
  assumes st: "settles env job d d'" and r: "r \<in> set (event_outbox d')"
    and env: "int (length (dp_retry_delays env)) = L" "\<forall>delay \<in> set (dp_retry_delays env). to_unix (dp_now env + delay) \<le> T"
  obtains (other) "r \<in> set (event_outbox d)" "ob_id r \<noteq> oe_outbox_id job"
  | (own) s where "s \<in> set (event_outbox d)" "ob_id s = oe_outbox_id job" "ob_id r = oe_outbox_id job"
      "ob_attempts r = ob_attempts s" "ob_attempts s = oe_attempt job \<and> k + 1 \<le> ob_attempts s \<longrightarrow> finished k L T r"
  using st
proof cases
  case delivered
  from r [unfolded delivered(2)] obtain s where s: "s \<in> set (event_outbox d)"
    "r = (if ob_id s = oe_outbox_id job then delivered_row (to_unix (dp_now env)) s else s)" by (auto dest!: in_tupdate)
  then show ?thesis
    using own [of s] other by (cases "ob_id s = oe_outbox_id job") (simp_all add: finished_def delivered_row_def)
next
  case again
  let ?delay = "dp_retry_delays env ! nat (oe_attempt job - 1)"
  from r [unfolded again(4)] obtain s where s: "s \<in> set (event_outbox d)"
    "r = (if ob_id s = oe_outbox_id job then pending_row (to_unix (dp_now env)) (to_unix (dp_now env + ?delay)) s else s)"
    by (auto dest!: in_tupdate)
  have "?delay \<in> set (dp_retry_delays env)" using again(2,3) by (intro nth_mem) simp
  then have "to_unix (dp_now env + ?delay) \<le> T" using env(2) by blast
  then show ?thesis
    using own [of s] other s again(3) env(1)
    by (cases "ob_id s = oe_outbox_id job") (simp_all add: finished_def waiting_def pending_row_def)
qed

lemma round_step:
  assumes inv: "round_inv k L T (job # js) d" and ok: "worker_ok L T worker"
  shows "round_inv k L T js (snd (dispatchEventWebhooks (worker job) job d))"
proof -
  let ?d = "snd (dispatchEventWebhooks (worker job) job d)"
  have quiet: "faults d = []" and wf: "hooks_wf d" using inv by (simp_all add: round_inv_def)
  have env: "dp_body (worker job) (oe_event job) \<noteq> None" "int (length (dp_retry_delays (worker job))) = L"
    "\<forall>delay \<in> set (dp_retry_delays (worker job)). to_unix (dp_now (worker job) + delay) \<le> T"
    using ok by (simp_all add: worker_ok_def)
  have st: "settles (worker job) job d ?d" by (rule dispatch_settles [OF quiet env(1)])
  have "faults ?d = []" using st by cases
  moreover have "hooks_wf ?d" using hooks_dispatch wf by (simp add: keeps_def)
  moreover have "(finished k L T r \<or> ob_id r \<in> oe_outbox_id ` set js) \<and>
      (\<forall>job' \<in> set js. oe_outbox_id job' = ob_id r \<longrightarrow> oe_attempt job' = ob_attempts r \<and> k + 1 \<le> ob_attempts r)"
    if r: "r \<in> set (event_outbox ?d)" for r
  proof (cases rule: settled_rows [OF st r env(2,3), where k = k])
    case 1
    then show ?thesis using inv by (auto simp: round_inv_def)
  next
    case own: (2 s)
    then have "ob_attempts s = oe_attempt job \<and> k + 1 \<le> ob_attempts s" using inv by (auto simp: round_inv_def)
    then show ?thesis using own inv by (auto simp: round_inv_def)
  qed
  ultimately show ?thesis by (simp add: round_inv_def)
qed

lemma round_fold:
  "round_inv k L T js d \<Longrightarrow> worker_ok L T worker \<Longrightarrow>
   round_inv k L T [] (fold (\<lambda>job d. snd (dispatchEventWebhooks (worker job) job d)) js d)"
  by (induction js arbitrary: d) (simp_all add: round_step)

lemma settles_length: "settles env job d d' \<Longrightarrow> length (event_outbox d') = length (event_outbox d)"
  by (induction rule: settles.induct) simp_all

lemma fold_length:
  assumes "round_inv k L T js d" "worker_ok L T worker"
  shows "length (event_outbox (fold (\<lambda>job d. snd (dispatchEventWebhooks (worker job) job d)) js d)) = length (event_outbox d)"
  using assms
proof (induction js arbitrary: d)
  case (Cons job js)
  have "settles (worker job) job d (snd (dispatchEventWebhooks (worker job) job d))"
    using Cons.prems by (intro dispatch_settles) (simp_all add: round_inv_def worker_ok_def)
  then show ?case using Cons.IH [OF round_step [OF Cons.prems] Cons.prems(2)] by (simp add: settles_length)
qed simp

lemma round_settles:
  assumes wf: "hooks_wf d" and quiet: "faults d = []" and few: "length (event_outbox d) \<le> 1000"
    and waits: "settled_or_waiting k (to_unix now) d" and ok: "worker_ok L T worker"
  shows "round_inv k L T [] (dispatch_round now worker d) \<and> length (event_outbox (dispatch_round now worker d)) \<le> 1000"
proof -
  obtain js d1 where claim: "ClaimPendingOutboxEvents now 1000 d = (Inr js, d1)" and d1: "faults d1 = []" "hooks_wf d1"
    "length (event_outbox d1) = length (event_outbox d)"
    and got: "\<And>r. r \<in> set (event_outbox d1) \<Longrightarrow> ob_status r \<noteq> ObDelivered \<Longrightarrow> ob_id r \<in> oe_outbox_id ` set js"
    and att: "\<And>r job. r \<in> set (event_outbox d1) \<Longrightarrow> job \<in> set js \<Longrightarrow> oe_outbox_id job = ob_id r \<Longrightarrow>
       oe_attempt job = ob_attempts r \<and> k + 1 \<le> ob_attempts r"
    by (rule claim_all_due [OF wf quiet few waits]) (rule that)
  have inv: "round_inv k L T js d1" using d1 got att by (auto simp: round_inv_def finished_def)
  have "dispatch_round now worker d = fold (\<lambda>job d. snd (dispatchEventWebhooks (worker job) job d)) js d1"
    by (simp add: dispatch_round_def claim)
  then show ?thesis using round_fold [OF inv ok] fold_length [OF inv ok] d1(3) few by simp
qed

text \<open>The rounds come late enough: each starts when the retries of the one before are due.\<close>

fun rounds_ok :: "int \<Rightarrow> unixsec \<Rightarrow> (gotime \<times> (outbox_event \<Rightarrow> dispatch_env)) list \<Rightarrow> bool" where
  "rounds_ok L T [] = True"
| "rounds_ok L T ((now, worker) # rs) = (T \<le> to_unix now \<and> (\<exists>T'. worker_ok L T' worker \<and> rounds_ok L T' rs))"

lemma waiting_later: "waiting k T r \<Longrightarrow> T \<le> T' \<Longrightarrow> waiting k T' r"
  by (auto simp: waiting_def split: option.splits)

lemma finished_rounds:
  assumes "round_inv k L T [] d" "length (event_outbox d) \<le> 1000" "rounds_ok L T rounds" "k + int (length rounds) = L"
  shows "\<forall>r \<in> set (event_outbox (dispatch_rounds rounds d)). ob_status r = ObDelivered"
  using assms
proof (induction rounds arbitrary: k T d)
  case Nil
  then show ?case by (auto simp: dispatch_rounds_def round_inv_def finished_def waiting_def)
next
  case (Cons round rounds)
  obtain now worker where r: "round = (now, worker)" by (cases round)
  obtain T' where T: "T \<le> to_unix now" and ok: "worker_ok L T' worker" "rounds_ok L T' rounds"
    using Cons.prems(3) by (auto simp: r)
  have "settled_or_waiting (k + 1) (to_unix now) d"
    using Cons.prems(1) T by (auto simp: settled_or_waiting_def round_inv_def finished_def intro: waiting_later)
  then have "round_inv (k + 1) L T' [] (dispatch_round now worker d) \<and> length (event_outbox (dispatch_round now worker d)) \<le> 1000"
    using Cons.prems(1,2) ok(1) by (intro round_settles) (simp_all add: round_inv_def)
  then show ?case using Cons.IH [of "k + 1" T' "dispatch_round now worker d"] ok(2) Cons.prems(4)
    by (simp add: dispatch_rounds_def r)
qed

text \<open>
  C19: With a working database and at most 1000 jobs in the outbox, all due, one more round of claiming and
  dispatching than there are retry delays settles every job, whatever the receivers answer: no job is
  retried for ever.
\<close>

theorem retries_end:
  assumes wf: "hooks_wf d" and quiet: "faults d = []" and few: "length (event_outbox d) \<le> 1000"
    and due: "settled_or_waiting 0 T d" and rounds: "rounds_ok L T rounds" "0 \<le> L" "int (length rounds) = L + 1"
  shows "list_all (\<lambda>r. ob_status r = ObDelivered) (event_outbox (dispatch_rounds rounds d))"
proof -
  obtain now worker rs where r: "rounds = (now, worker) # rs" using rounds by (cases rounds) auto
  obtain T' where T: "T \<le> to_unix now" and ok: "worker_ok L T' worker" "rounds_ok L T' rs" using rounds(1) by (auto simp: r)
  have "settled_or_waiting 0 (to_unix now) d" using due T by (auto simp: settled_or_waiting_def intro: waiting_later)
  from round_settles [OF wf quiet few this ok(1)]
  have "\<forall>r \<in> set (event_outbox (dispatch_rounds rs (dispatch_round now worker d))). ob_status r = ObDelivered"
    using ok(2) rounds(3) by (intro finished_rounds [of 0 L T']) (simp_all add: r)
  then show ?thesis by (simp add: list_all_iff dispatch_rounds_def r)
qed

definition demo_worker :: "gotime \<Rightarrow> string \<Rightarrow> outbox_event \<Rightarrow> dispatch_env" where
  "demo_worker now uuid job = \<lparr>dp_now = now, dp_uuid = Some uuid, dp_body = (\<lambda>e. Some (ev_data e)), dp_decrypt = Inr,
     dp_deliver = (\<lambda>url secret body. (Some 503, None, Some ''webhook returned status 503'')),
     dp_retry_delays = [second, 10 * second, 60 * second]\<rparr>"

definition demo_rounds :: "(gotime \<times> (outbox_event \<Rightarrow> dispatch_env)) list" where
  "demo_rounds = [(10 * second, demo_worker (11 * second) ''d1''), (80 * second, demo_worker (81 * second) ''d2''),
     (150 * second, demo_worker (151 * second) ''d3''), (220 * second, demo_worker (221 * second) ''d4'')]"

lemma rounds_okI:
  "T \<le> to_unix now \<Longrightarrow> worker_ok L T' worker \<Longrightarrow> rounds_ok L T' rs \<Longrightarrow> rounds_ok L T ((now, worker) # rs)"
  by auto

lemma demo_worker_ok: "t + 60 \<le> T \<Longrightarrow> worker_ok 3 T (demo_worker (t * second) u)"
  by (auto simp: worker_ok_def demo_worker_def to_unix_def second_def)

theorem retries_end_witness:
  "map ob_status (event_outbox (dispatch_rounds demo_rounds demo_jobs)) = [ObDelivered] \<and>
   map de_status_code (deliveries (dispatch_rounds demo_rounds demo_jobs)) = [Some 503, Some 503, Some 503, Some 503]"
proof -
  have quiet: "faults demo_jobs = []" by code_simp
  have few: "length (event_outbox demo_jobs) \<le> 1000" by code_simp
  have due: "settled_or_waiting 0 5 demo_jobs" by code_simp
  have rounds: "rounds_ok 3 5 demo_rounds" unfolding demo_rounds_def
    by (intro rounds_okI [where T' = 71] rounds_okI [where T' = 141] rounds_okI [where T' = 211] rounds_okI [where T' = 281]
        demo_worker_ok) (simp_all add: to_unix_def second_def)
  have len: "int (length demo_rounds) = 3 + 1" by (simp add: demo_rounds_def)
  have one: "length (event_outbox (dispatch_rounds demo_rounds demo_jobs)) = 1" by code_simp
  have codes: "map de_status_code (deliveries (dispatch_rounds demo_rounds demo_jobs)) = [Some 503, Some 503, Some 503, Some 503]"
    by code_simp
  from retries_end [OF demo_jobs_wf quiet few due rounds _ len]
  have "list_all (\<lambda>r. ob_status r = ObDelivered) (event_outbox (dispatch_rounds demo_rounds demo_jobs))" by simp
  then show ?thesis using one codes by (auto simp: length_Suc_conv)
qed

section \<open>Draining never overflows the queue\<close>

lemma push_jobs_fit: "length q + length es \<le> cap \<Longrightarrow> push_jobs now cap q es d = (Inr (q @ es), d)"
  by (induction es arbitrary: q) (simp_all add: dret_def)

lemma taffected_claim:
  assumes "tunique ob_id rows"
  shows "length (filter (\<lambda>r. ob_id r \<in> set (map ob_id (take n (sort_key f (filter Q rows))))) rows) \<le> n"
proof -
  let ?ids = "map ob_id (take n (sort_key f (filter Q rows)))"
  have "taffected (\<lambda>r. ob_id r \<in> set ?ids) rows = card (ob_id ` set rows \<inter> set ?ids)" by (rule taffected_set [OF assms])
  also have "\<dots> \<le> card (set ?ids)" by (rule card_mono) auto
  also have "\<dots> \<le> length ?ids" by (rule card_length)
  also have "\<dots> \<le> n" by simp
  finally show ?thesis by (simp only: taffected_def)
qed

lemma length_map_filter: "length (List.map_filter f xs) \<le> length (filter (\<lambda>x. f x \<noteq> None) xs)"
  by (induction xs) (simp_all add: map_filter_simps split: option.split)

lemma claimed_events_length:
  assumes "claimed_events claimed d = (Inr js, d')" "tunique ob_id (event_outbox d)"
  shows "length js \<le> length claimed"
proof (cases "claimed = []")
  case False
  have same: "event_outbox (d\<lparr>faults := fs\<rparr>) = event_outbox d" for fs by simp
  let ?sel = "\<lambda>d r. if ob_id r \<notin> set (map ob_id claimed) then None
         else case tget ev_id (ob_event_id r) (events d) of None \<Rightarrow> None | Some e \<Rightarrow> Some (e, r)"
  have run: "listOutboxEvents claimed d = (Inr js, d')" using assms(1) False by (simp add: claimed_events_def)
  from query_Inr [OF run [unfolded listOutboxEvents_def]] obtain fs
    where "length js = length (List.map_filter (?sel (d\<lparr>faults := fs\<rparr>)) (event_outbox (d\<lparr>faults := fs\<rparr>)))"
    by (auto simp only: Let_def length_map length_sort)
  also have "\<dots> \<le> length (filter (\<lambda>r. ?sel (d\<lparr>faults := fs\<rparr>) r \<noteq> None) (event_outbox (d\<lparr>faults := fs\<rparr>)))"
    by (rule length_map_filter)
  also have "\<dots> \<le> length (filter (\<lambda>r. ob_id r \<in> set (map ob_id claimed)) (event_outbox d))"
    unfolding same by (rule length_filter_imp) (simp split: if_splits)
  also have "\<dots> = card (ob_id ` set (event_outbox d) \<inter> set (map ob_id claimed))"
    using taffected_set [OF assms(2), of "set (map ob_id claimed)"] by (simp only: taffected_def)
  also have "\<dots> \<le> card (set (map ob_id claimed))" by (rule card_mono) auto
  also have "\<dots> \<le> length claimed" using card_length [of "map ob_id claimed"] by simp
  finally show ?thesis .
qed (use assms in \<open>simp add: claimed_events_def dret_def\<close>)

lemma claim_at_most:
  assumes wf: "db_wf d" and run: "ClaimPendingOutboxEvents now limit d = (Inr js, d')" and limit: "0 < limit" "limit \<le> 2000"
  shows "length js \<le> nat limit"
proof -
  let ?P = "\<lambda>d r. ob_id r \<in> set (map ob_id (take (nat limit)
     (sort_key (\<lambda>r. (ob_next_run_at r, ob_created_at r, ob_id r))
       (filter (due (to_unix now) (to_unix (now - outboxProcessingLease))) (event_outbox d)))))"
  have num: "(if limit \<le> 0 \<or> 2000 < limit then 1000 else limit) = limit" using limit by simp
  have tx: "transaction (dbind (claim_update ?P (to_unix now)) claimed_events) d = (Inr js, d')"
    using run unfolding ClaimPendingOutboxEvents_def claimOutboxEventIDs_def Let_def num .
  obtain gs gs' d2 where "dbind (claim_update ?P (to_unix now)) claimed_events (d\<lparr>faults := gs\<rparr>) = (Inr js, d2)"
    using transaction_Inr [OF tx] by blast
  then obtain rows d1 where 1: "claim_update ?P (to_unix now) (d\<lparr>faults := gs\<rparr>) = (Inr rows, d1)"
    and 2: "claimed_events rows d1 = (Inr js, d2)" unfolding dbind_Inr by blast
  have uniq: "tunique ob_id (event_outbox d)" using wf unfolding wf_defs by blast
  have "db_wf d1" using keepsD [OF wf_claim_update 1] wf by simp
  then have "length js \<le> length rows" by (intro claimed_events_length [OF 2]) (simp add: wf_defs)
  also have "length rows \<le> nat limit"
  proof (cases rule: claim_update_cases [OF 1])
    case (1 fs)
    then have "length rows = length (filter (?P d) (event_outbox d))" by simp
    also have "\<dots> \<le> nat limit" by (rule taffected_claim [OF uniq])
    finally show ?thesis .
  next
    case (2 e)
    then show ?thesis by simp
  qed
  finally show ?thesis .
qed

text \<open>
  A drain hands every job it claims to the workers: the jobs claimed fit into the queue, in the order
  of the claim, and none is put back for lack of room; a drain that claims nothing leaves the queue.
\<close>

theorem drain_fits:
  assumes "db_wf d" and "length q \<le> cap"
  shows "\<exists>js d'. drainWebhookOutbox now cap q d = (Inr (q @ js), d') \<and> length (q @ js) \<le> cap \<and>
    (js \<noteq> [] \<longrightarrow> ClaimPendingOutboxEvents now (min 1000 (int (cap - length q))) d = (Inr js, d'))"
proof (cases "length q < cap")
  case True
  let ?limit = "if 1000 < int cap - int (length q) then 1000 else int cap - int (length q)"
  have limit: "0 < ?limit" "?limit \<le> 2000" "nat ?limit \<le> cap - length q" "?limit = min 1000 (int (cap - length q))"
    using True by auto
  obtain r d' where claim: "ClaimPendingOutboxEvents now ?limit d = (r, d')" by (cases "ClaimPendingOutboxEvents now ?limit d")
  show ?thesis
  proof (cases r)
    case (Inl e)
    then show ?thesis using claim True
      by (intro exI [of _ "[]"] exI [of _ d']) (simp add: drainWebhookOutbox_def Let_def dtry_def dret_def)
  next
    case (Inr js)
    have fit: "length q + length js \<le> cap"
      using claim_at_most [OF assms(1) claim [unfolded Inr] limit(1,2)] limit(3) True by linarith
    then have "drainWebhookOutbox now cap q d = (Inr (q @ js), d')"
      using claim True Inr by (simp add: drainWebhookOutbox_def Let_def dtry_def push_jobs_fit)
    then show ?thesis using fit claim Inr limit(4) by (intro exI [of _ js] exI [of _ d']) simp
  qed
next
  case False
  then show ?thesis using assms(2)
    by (intro exI [of _ "[]"] exI [of _ d]) (simp add: drainWebhookOutbox_def Let_def dret_def)
qed

theorem drain_fits_witness:
  "\<exists>js d'. drainWebhookOutbox (10 * second) 8192 [] demo_jobs = (Inr js, d') \<and> map oe_outbox_id js = [''e:w1'']"
proof -
  have "db_wf demo_jobs" using demo_jobs_wf by (rule hooks_wfD)
  then obtain js d' where run: "drainWebhookOutbox (10 * second) 8192 [] demo_jobs = (Inr ([] @ js), d')"
    using drain_fits [of demo_jobs "[]" 8192 "10 * second"] by auto
  have "(case fst (drainWebhookOutbox (10 * second) 8192 [] demo_jobs) of Inl e \<Rightarrow> [] | Inr js \<Rightarrow> map oe_outbox_id js) = [''e:w1'']"
    by code_simp
  then show ?thesis using run by auto
qed

section \<open>A failed attempt whose rescheduling fails\<close>

text \<open>
  When a delivery attempt fails and the statement that reschedules the job fails too, the job is
  recorded as delivered and nothing is retried, although attempts were left: \<open>rescheduleWebhookEvent\<close>
  answers false both when the attempts are used up and when the database refused.
\<close>

theorem failed_reschedule_drops_job:
  assumes "faults d = [False, False, False, True]" and "tget wh_id (oe_webhook_id job) (webhooks d) = Some hook"
    and "wh_enabled hook" "webhookSubscribesToEvent (wh_events hook) (ev_type (oe_event job))"
    and "dp_body env (oe_event job) = Some body" "dp_decrypt env (wh_secret_encrypted hook) = Inr secret"
    and "dp_deliver env (wh_url hook) secret body = (status, response, Some err)"
    and "dp_uuid env = Some i" "tget de_id i (deliveries d) = None"
    and attempts_left: "1 \<le> oe_attempt job" "oe_attempt job \<le> int (length (dp_retry_delays env))"
  shows "event_outbox (snd (dispatchEventWebhooks env job d))
    = tupdate (\<lambda>r. ob_id r = oe_outbox_id job) (delivered_row (to_unix (dp_now env))) (event_outbox d)"
proof -
  have "wh_id hook = oe_webhook_id job" using assms(2) by (rule tget_SomeD)
  then show ?thesis using assms
    by (simp add: dispatchEventWebhooks_def deliverWebhookAttempt_def rescheduleWebhookEvent_def dtry_def Let_def GetWebhook_def
        query_def stmt_def dbind_def one_row_def dret_def scan_webhook_def CreateWebhookDelivery_def with_uuid_def dignore_def
        trim_deliveries_def exec_def mark_outbox_def MarkOutboxPending_def MarkOutboxDelivered_def)
qed

definition demo_job :: outbox_event where
  "demo_job = \<lparr>oe_event = \<lparr>ev_id = ''e'', ev_type = ''instance.started'', ev_time = 0, ev_source = ''helling'', ev_subject = ''vm'',
     ev_data = ''{}''\<rparr>, oe_outbox_id = ''e:w1'', oe_webhook_id = ''w1'', oe_attempt = 1\<rparr>"

theorem failed_reschedule_drops_job_witness:
  "map ob_status (event_outbox (snd (dispatchEventWebhooks (demo_worker (11 * second) ''d1'' demo_job) demo_job
     (demo_jobs\<lparr>faults := [False, False, False, True]\<rparr>)))) = [ObDelivered]"
proof -
  let ?d = "demo_jobs\<lparr>faults := [False, False, False, True]\<rparr>"
  let ?env = "demo_worker (11 * second) ''d1'' demo_job"
  let ?hook = "hd (webhooks demo_jobs)"
  have pre: "faults ?d = [False, False, False, True]" by simp
  have hook: "tget wh_id (oe_webhook_id demo_job) (webhooks ?d) = Some ?hook" "wh_enabled ?hook"
    "webhookSubscribesToEvent (wh_events ?hook) (ev_type (oe_event demo_job))" by code_simp+
  have env: "dp_body ?env (oe_event demo_job) = Some (ev_data (oe_event demo_job))"
    "dp_decrypt ?env (wh_secret_encrypted ?hook) = Inr (wh_secret_encrypted ?hook)"
    "dp_deliver ?env (wh_url ?hook) (wh_secret_encrypted ?hook) (ev_data (oe_event demo_job))
       = (Some 503, None, Some ''webhook returned status 503'')"
    "dp_uuid ?env = Some ''d1''" by (simp_all add: demo_worker_def)
  have log: "tget de_id ''d1'' (deliveries ?d) = None" by code_simp
  have att: "1 \<le> oe_attempt demo_job" "oe_attempt demo_job \<le> int (length (dp_retry_delays ?env))"
    by (simp_all add: demo_job_def demo_worker_def)
  have "map ob_status (tupdate (\<lambda>r. ob_id r = oe_outbox_id demo_job) (delivered_row (to_unix (dp_now ?env))) (event_outbox ?d)) = [ObDelivered]"
    by code_simp
  then show ?thesis by (simp only: failed_reschedule_drops_job [OF pre hook env log att])
qed

end
