(* ===== verification/Server_Events.thy ===== *)
theory Server_Events
  imports Server_Core Webhook_Dispatch
begin

text \<open>
  \<open>server/events_handlers.go\<close> and \<open>incus.MapLifecycleEvent\<close>: publishing events, and the two ways to read
  them, a JSON snapshot and a stream that first replays what is stored.

  \<open>node\<close> is the server with its event hub and the wake-up flag of the drainer.  A stream is the list of
  events written to it; writing stops when the client is gone, after as many events as the environment
  says.
\<close>

section \<open>The hub\<close>

text \<open>A subscriber is a channel with a buffer of 16 events; what does not fit is dropped.\<close>

type_synonym hub = "(nat \<times> event list) list"

definition hub_subscribe :: "nat \<Rightarrow> hub \<Rightarrow> hub" where
  "hub_subscribe ch h = h @ [(ch, [])]"

definition hub_unsubscribe :: "nat \<Rightarrow> hub \<Rightarrow> hub" where
  "hub_unsubscribe ch h = filter (\<lambda>(c, buf). c \<noteq> ch) h"

definition hub_publish :: "event \<Rightarrow> hub \<Rightarrow> hub" where
  "hub_publish ev h = map (\<lambda>(c, buf). (c, if length buf < 16 then buf @ [ev] else buf)) h"

record node =
  nd_server :: server
  nd_hub :: hub
  nd_wake :: bool

definition nd_db :: "node \<Rightarrow> db" where
  "nd_db n = sv_db (nd_server n)"

definition set_db :: "db \<Rightarrow> node \<Rightarrow> node" where
  "set_db d n = n\<lparr>nd_server := (nd_server n)\<lparr>sv_db := d\<rparr>\<rparr>"

definition on_node_db :: "'a dbm \<Rightarrow> ('a res \<Rightarrow> node \<Rightarrow> 'b \<times> node) \<Rightarrow> node \<Rightarrow> 'b \<times> node" where
  "on_node_db m k n = (case m (nd_db n) of (r, d) \<Rightarrow> k r (set_db d n))"

definition node_audit :: "(server \<Rightarrow> server) \<Rightarrow> node \<Rightarrow> node" where
  "node_audit f n = n\<lparr>nd_server := f (nd_server n)\<rparr>"

lemma node_simps [simp]:
  "nd_db (set_db d n) = d" "set_db d (set_db d' n) = set_db d n" "nd_hub (set_db d n) = nd_hub n"
  "nd_db (n\<lparr>nd_hub := h\<rparr>) = nd_db n" "nd_db (n\<lparr>nd_wake := w\<rparr>) = nd_db n" "set_db (nd_db n) n = n"
  by (simp_all add: nd_db_def set_db_def)

section \<open>Publishing\<close>

definition enqueueWebhookEvent :: "node \<Rightarrow> node" where
  "enqueueWebhookEvent n = n\<lparr>nd_wake := True\<rparr>"

text \<open>\<open>data\<close> is the JSON text of the payload, \<open>None\<close> when it does not encode.\<close>

definition emitEvent :: "gotime \<Rightarrow> string option \<Rightarrow> string \<Rightarrow> string \<Rightarrow> string option \<Rightarrow> node \<Rightarrow> event res \<times> node" where
  "emitEvent now uuid ty subject data = on_node_db (CreateEvent now uuid ty ''helling'' subject data) (\<lambda>r n. case r of
     Inl e \<Rightarrow> (Inl e, n)
   | Inr ev \<Rightarrow> (let n = n\<lparr>nd_hub := hub_publish ev (nd_hub n)\<rparr> in
       if ty \<noteq> ''webhook.test'' then (Inr ev, enqueueWebhookEvent n)
       else on_node_db (MarkEventOutboxDelivered now (ev_id ev)) (\<lambda>_ n. (Inr ev, n)) n))"

definition emitExternalEvent ::
  "gotime \<Rightarrow> string option \<Rightarrow> string \<Rightarrow> string \<Rightarrow> string \<Rightarrow> string option \<Rightarrow> node \<Rightarrow> event res \<times> node" where
  "emitExternalEvent now uuid ty source subject data = on_node_db (CreateEvent now uuid ty source subject data) (\<lambda>r n. case r of
     Inl e \<Rightarrow> (Inl e, n)
   | Inr ev \<Rightarrow> (Inr ev, enqueueWebhookEvent (n\<lparr>nd_hub := hub_publish ev (nd_hub n)\<rparr>)))"

text \<open>\<open>MapLifecycleEvent\<close> on the decoded frame: its action and its source.\<close>

definition MapLifecycleEvent :: "(string \<times> string) option \<Rightarrow> (string \<times> string) option" where
  "MapLifecycleEvent raw = (case raw of None \<Rightarrow> None
   | Some (action, source) \<Rightarrow> Some (
       (if action = ''created'' then ''instance.created''
        else if action = ''deleted'' then ''instance.deleted''
        else if action = ''started'' \<or> action = ''resumed'' then ''instance.started''
        else if action = ''stopped'' \<or> action = ''paused'' then ''instance.stopped''
        else ''instance.updated''), source))"

definition MirrorIncusLifecycleEvent ::
  "gotime \<Rightarrow> string option \<Rightarrow> (string \<times> string) option \<Rightarrow> string option \<Rightarrow> node \<Rightarrow> unit res \<times> node" where
  "MirrorIncusLifecycleEvent now uuid raw data n = (case MapLifecycleEvent raw of
     None \<Rightarrow> (Inl (ErrInvalid ''decoding incus lifecycle event''), n)
   | Some (name, subject) \<Rightarrow> (case emitExternalEvent now uuid name ''incus'' subject data n of
       (Inl e, n) \<Rightarrow> (Inl e, n) | (Inr ev, n) \<Rightarrow> (Inr (), n)))"

section \<open>Reading\<close>

definition wantsSSE :: "string \<Rightarrow> bool" where
  "wantsSSE accept = contains_str accept ''text/event-stream''"

definition eventMatchesFilter :: "event \<Rightarrow> string \<Rightarrow> bool" where
  "eventMatchesFilter ev typeFilter =
     (if typeFilter = '''' then True
      else if has_suffix typeFilter ''.'' then has_prefix (ev_type ev) typeFilter
      else ev_type ev = typeFilter)"

definition handleEventsSnapshot :: "string \<Rightarrow> string \<Rightarrow> string \<Rightarrow> node \<Rightarrow> event list response \<times> node" where
  "handleEventsSnapshot raw typeFilter since =
     (let limit = (case parse_int64 raw of Some n \<Rightarrow> if raw \<noteq> '''' \<and> 0 < n \<and> n \<le> 500 then n else 50 | None \<Rightarrow> 50)
      in on_node_db (ListEvents limit typeFilter since) (\<lambda>r n. case r of
          Inl e \<Rightarrow> (internalError, n)
        | Inr rows \<Rightarrow> (writeJSON 200 rows, n)))"

definition eventReplayPageSize :: nat where "eventReplayPageSize = 500"

definition eventReplayMaxEvents :: nat where "eventReplayMaxEvents = 2000"

text \<open>
  \<open>writeEventsForward\<close> to a client that takes \<open>room\<close> more events: what was written, whether all was.
\<close>

definition writeEvents :: "nat \<Rightarrow> event list \<Rightarrow> event list \<times> bool" where
  "writeEvents room evs = (take room evs, length evs \<le> room)"

text \<open>The result of a replay: the events written, and whether the stream goes on.\<close>

definition replay_latest :: "nat \<Rightarrow> string \<Rightarrow> event list \<Rightarrow> (event list \<times> bool) dbm" where
  "replay_latest room typeFilter written = dtry (ListEvents 50 typeFilter '''') (\<lambda>r. case r of
     Inl e \<Rightarrow> dret (written, True)
   | Inr evs \<Rightarrow> (case writeEvents (room - length written) (rev evs) of (w, ok) \<Rightarrow> dret (written @ w, ok)))"

function replay_pages :: "nat \<Rightarrow> string \<Rightarrow> string \<Rightarrow> nat \<Rightarrow> event list \<Rightarrow> (event list \<times> bool) dbm" where
  "replay_pages room typeFilter cursor sent written d =
     (if sent < eventReplayMaxEvents then
        let limit = min eventReplayPageSize (eventReplayMaxEvents - sent) in
        (case ListEvents (int limit) typeFilter cursor d of
          (Inl e, d) \<Rightarrow> (Inr (written, True), d)
        | (Inr evs, d) \<Rightarrow> (case writeEvents (room - length written) evs of (w, ok) \<Rightarrow>
            if \<not> ok then (Inr (written @ w, False), d)
            else if length evs < limit then (Inr (written @ w, True), d)
            else replay_pages room typeFilter (ev_id (last evs)) (sent + length evs) (written @ w) d))
      else replay_latest room typeFilter written d)"
  by pat_completeness auto

termination
  by (relation "measure (\<lambda>(room, ty, cursor, sent, written, d). eventReplayMaxEvents - sent)")
    (auto simp: eventReplayMaxEvents_def eventReplayPageSize_def)

declare replay_pages.simps [simp del]

definition replayStoredEvents :: "nat \<Rightarrow> string \<Rightarrow> string \<Rightarrow> (event list \<times> bool) dbm" where
  "replayStoredEvents room typeFilter cursor =
     (if cursor \<noteq> '''' then replay_pages room typeFilter cursor 0 [] else replay_latest room typeFilter [])"

text \<open>
  \<open>streamLiveEvents\<close> after its subscription: what the loop selects, one item after the other, and what
  it writes to a client that takes \<open>room\<close> more writes.
\<close>

datatype live_input = ClientGone | LiveEvent event | HeartbeatTick

datatype sse_write = SseEvent event | SseHeartbeat

fun streamLiveEvents :: "nat \<Rightarrow> string \<Rightarrow> live_input list \<Rightarrow> sse_write list" where
  "streamLiveEvents room typeFilter [] = []"
| "streamLiveEvents room typeFilter (ClientGone # ins) = []"
| "streamLiveEvents room typeFilter (LiveEvent ev # ins) =
     (if \<not> eventMatchesFilter ev typeFilter then streamLiveEvents room typeFilter ins
      else if room = 0 then [] else SseEvent ev # streamLiveEvents (room - 1) typeFilter ins)"
| "streamLiveEvents room typeFilter (HeartbeatTick # ins) =
     (if room = 0 then [] else SseHeartbeat # streamLiveEvents (room - 1) typeFilter ins)"

text \<open>The text \<open>writeSSE\<close> sends, \<open>body\<close> being the JSON of the event.\<close>

definition writeSSE :: "event \<Rightarrow> string \<Rightarrow> string" where
  "writeSSE ev body = ''event: '' @ ev_type ev @ [CHR 0x0A] @ ''id: '' @ ev_id ev @ [CHR 0x0A] @ ''data: '' @ body
     @ [CHR 0x0A, CHR 0x0A]"

section \<open>A replay sends what the client missed\<close>

definition type_matches :: "string \<Rightarrow> event \<Rightarrow> bool" where
  "type_matches typeFilter r \<longleftrightarrow> typeFilter = '''' \<or>
     (if has_suffix typeFilter ''.'' then sql_like (typeFilter @ ''%'') (ev_type r) else ev_type r = typeFilter)"

text \<open>The stored events after a cursor, in the order of their ids, and the latest ones, newest first.\<close>

definition stored_after :: "string \<Rightarrow> string \<Rightarrow> db \<Rightarrow> event list" where
  "stored_after typeFilter cursor d = sort_key ev_id (filter (\<lambda>r. type_matches typeFilter r \<and> cursor < ev_id r) (events d))"

definition stored_latest :: "nat \<Rightarrow> string \<Rightarrow> db \<Rightarrow> event list" where
  "stored_latest n typeFilter d = take n (newest_first (filter (type_matches typeFilter) (events d)))"

lemma ListEvents_after:
  assumes "faults d = []" "cursor \<noteq> ''''" "0 < n" "n \<le> 500"
  shows "ListEvents (int n) typeFilter cursor d = (Inr (map scan_event (take n (stored_after typeFilter cursor d))), d)"
proof -
  have "nat (if int n \<le> 0 \<or> 500 < int n then 50 else int n) = n" using assms(3,4) by auto
  moreover have "filter (\<lambda>r. ((if has_suffix typeFilter ''.'' then '''' else typeFilter) = '''' \<and>
        (if has_suffix typeFilter ''.'' then typeFilter @ ''%'' else '''') = '''' \<or>
        (if has_suffix typeFilter ''.'' then '''' else typeFilter) \<noteq> '''' \<and> ev_type r = (if has_suffix typeFilter ''.'' then '''' else typeFilter) \<or>
        (if has_suffix typeFilter ''.'' then typeFilter @ ''%'' else '''') \<noteq> '''' \<and>
          sql_like (if has_suffix typeFilter ''.'' then typeFilter @ ''%'' else '''') (ev_type r)) \<and> (cursor = '''' \<or> cursor < ev_id r)) (events d)
     = filter (\<lambda>r. type_matches typeFilter r \<and> cursor < ev_id r) (events d)"
    using assms(2) by (intro filter_cong refl) (auto simp: type_matches_def has_suffix_def)
  ultimately show ?thesis
    using assms(2) by (simp only: ListEvents_def query_def stmt_no_faults [OF assms(1)] Let_def stored_after_def simp_thms if_True)
qed

lemma ListEvents_latest:
  assumes "faults d = []"
  shows "ListEvents 50 typeFilter '''' d = (Inr (map scan_event (stored_latest 50 typeFilter d)), d)"
proof -
  have "filter (\<lambda>r. ((if has_suffix typeFilter ''.'' then '''' else typeFilter) = '''' \<and>
        (if has_suffix typeFilter ''.'' then typeFilter @ ''%'' else '''') = '''' \<or>
        (if has_suffix typeFilter ''.'' then '''' else typeFilter) \<noteq> '''' \<and> ev_type r = (if has_suffix typeFilter ''.'' then '''' else typeFilter) \<or>
        (if has_suffix typeFilter ''.'' then typeFilter @ ''%'' else '''') \<noteq> '''' \<and>
          sql_like (if has_suffix typeFilter ''.'' then typeFilter @ ''%'' else '''') (ev_type r)) \<and> ('''' = '''' \<or> '''' < ev_id r)) (events d)
     = filter (type_matches typeFilter) (events d)"
    by (intro filter_cong refl) (auto simp: type_matches_def has_suffix_def)
  then show ?thesis
    by (simp add: ListEvents_def query_def stmt_no_faults [OF assms] Let_def stored_latest_def newest_first_def)
qed

lemma filter_increasing:
  fixes key :: "'r \<Rightarrow> 'k :: linorder"
  assumes inc: "sorted_wrt (\<lambda>x y. key x < key y) xs" and n: "0 < n" "n \<le> length xs"
  shows "filter (\<lambda>x. key (xs ! (n - 1)) < key x) xs = drop n xs"
proof -
  have "filter (\<lambda>x. key (xs ! (n - 1)) < key x) (take n xs) = []"
  proof (unfold filter_empty_conv, rule ballI)
    fix x assume "x \<in> set (take n xs)"
    then obtain i where "i < n" "x = xs ! i" using n by (auto simp: in_set_conv_nth)
    then have "i = n - 1 \<or> key x < key (xs ! (n - 1))"
      using sorted_wrt_nth_less [OF inc, of i "n - 1"] n by (cases "i = n - 1") auto
    then show "\<not> key (xs ! (n - 1)) < key x" using \<open>x = xs ! i\<close> by auto
  qed
  moreover have "filter (\<lambda>x. key (xs ! (n - 1)) < key x) (drop n xs) = drop n xs"
  proof (rule filter_True, rule ballI)
    fix x assume "x \<in> set (drop n xs)"
    then obtain i where "i < length xs - n" "x = xs ! (n + i)" using n by (auto simp: in_set_conv_nth)
    then show "key (xs ! (n - 1)) < key x" using sorted_wrt_nth_less [OF inc, of "n - 1" "n + i"] n by simp
  qed
  ultimately show ?thesis by (metis append_self_conv2 append_take_drop_id filter_append)
qed

lemma stored_increasing:
  assumes "db_wf d"
  shows "sorted_wrt (\<lambda>x y. ev_id x < ev_id y) (stored_after typeFilter cursor d)"
proof -
  have "distinct (map ev_id (filter P (events d)))" for P
    using assms by (simp add: wf_defs tunique_def distinct_map_filter)
  then have "distinct (map ev_id (stored_after typeFilter cursor d))" by (simp add: stored_after_def distinct_map)
  moreover have "sorted (map ev_id (stored_after typeFilter cursor d))" by (simp add: stored_after_def)
  ultimately have "sorted_wrt (<) (map ev_id (stored_after typeFilter cursor d))" by (simp add: strict_sorted_iff)
  then show ?thesis by (simp add: sorted_wrt_map)
qed

lemma stored_after_next:
  assumes wf: "db_wf d" and n: "0 < n" "n \<le> length (stored_after typeFilter cursor d)"
  shows "stored_after typeFilter (ev_id (stored_after typeFilter cursor d ! (n - 1))) d = drop n (stored_after typeFilter cursor d)"
proof -
  let ?S = "stored_after typeFilter cursor d"
  let ?c = "ev_id (?S ! (n - 1))"
  have "?S ! (n - 1) \<in> set ?S" using n by simp
  then have "cursor < ?c" by (simp only: stored_after_def set_sort set_filter mem_Collect_eq)
  then have "filter (\<lambda>r. type_matches typeFilter r \<and> ?c < ev_id r) (events d)
      = filter (\<lambda>r. ?c < ev_id r) (filter (\<lambda>r. type_matches typeFilter r \<and> cursor < ev_id r) (events d))"
    unfolding filter_filter by (intro filter_cong refl) (auto dest: less_trans)
  then have "stored_after typeFilter ?c d = filter (\<lambda>r. ?c < ev_id r) ?S"
    by (simp only: stored_after_def filter_sort)
  also have "\<dots> = drop n ?S" by (rule filter_increasing [OF stored_increasing [OF wf] n])
  finally show ?thesis .
qed

lemma short_take: "length (take n xs) < n \<Longrightarrow> length xs < n"
  by simp

lemma take_full: "n \<le> length xs \<Longrightarrow> length (take n xs) = n"
  by simp

lemma scan_event_id [simp]: "ev_id (scan_event r) = ev_id r"
  by (simp add: scan_event_def)

lemma last_page:
  assumes "0 < n" "s + n \<le> length S"
  shows "ev_id (last (map scan_event (take n (drop s S)))) = ev_id (S ! (s + n - 1))"
proof -
  have "take n (drop s S) \<noteq> []" using assms by auto
  then have "last (map scan_event (take n (drop s S))) = scan_event (last (take n (drop s S)))" by (rule last_map)
  also have "last (take n (drop s S)) = S ! (s + n - 1)"
    using assms \<open>take n (drop s S) \<noteq> []\<close> by (simp add: last_conv_nth min_absorb2)
  finally have "ev_id (last (map scan_event (take n (drop s S)))) = ev_id (scan_event (S ! (s + n - 1)))"
    by (rule arg_cong)
  then show ?thesis by simp
qed

lemma replay_from:
  assumes wf: "db_wf d" and quiet: "faults d = []" and room: "2050 \<le> room"
    and S: "S = stored_after typeFilter start d"
  shows "cursor \<noteq> '''' \<Longrightarrow> sent \<le> 2000 \<Longrightarrow> sent \<le> length S \<Longrightarrow> stored_after typeFilter cursor d = drop sent S \<Longrightarrow>
    written = map scan_event (take sent S) \<Longrightarrow>
    replay_pages room typeFilter cursor sent written d =
      (Inr (map scan_event (take 2000 S) @ (if length S < 2000 then [] else map scan_event (rev (stored_latest 50 typeFilter d))), True), d)"
proof (induction "2000 - sent" arbitrary: sent cursor written rule: less_induct)
  case less
  have len: "length written = sent" using less.prems by simp
  show ?case
  proof (cases "sent < 2000")
    case True
    let ?limit = "min eventReplayPageSize (eventReplayMaxEvents - sent)"
    have limit: "0 < ?limit" "?limit \<le> 500" "sent + ?limit \<le> 2000"
      using True by (simp_all add: eventReplayPageSize_def eventReplayMaxEvents_def)
    let ?page = "take ?limit (drop sent S)"
    have page: "ListEvents (int ?limit) typeFilter cursor d = (Inr (map scan_event ?page), d)"
      using ListEvents_after [OF quiet less.prems(1) limit(1,2), of typeFilter] less.prems(4) by simp
    have fits: "writeEvents (room - length written) (map scan_event ?page) = (map scan_event ?page, True)"
      using limit room len by (simp add: writeEvents_def)
    have more: "take (sent + ?limit) S = take sent S @ ?page" by (simp add: take_add)
    have written': "written @ map scan_event ?page = map scan_event (take (sent + ?limit) S)"
      using less.prems(5) by (simp only: more map_append)
    show ?thesis
    proof (cases "length ?page < ?limit")
      case short: True
      then have "length (drop sent S) < ?limit" by (rule short_take)
      then have "length S < sent + ?limit" using less.prems(3) unfolding length_drop by linarith
      then have "take (sent + ?limit) S = S" "take 2000 S = S" "length S < 2000" using limit(3) by simp_all
      then show ?thesis
        using True short page fits written' by (subst replay_pages.simps) (simp add: Let_def eventReplayMaxEvents_def)
    next
      case False
      then have all: "sent + ?limit \<le> length S" using less.prems(3) by (simp add: min_def split: if_splits)
      have plen: "length (map scan_event ?page) = ?limit"
        using all unfolding length_map by (intro take_full) simp
      let ?last = "ev_id (last (map scan_event ?page))"
      have last: "?last = ev_id (S ! (sent + ?limit - 1))"
        by (rule last_page [OF limit(1) all])
      have next_page: "stored_after typeFilter ?last d = drop (sent + ?limit) S"
        using stored_after_next [OF wf, of "sent + ?limit" typeFilter start] all limit(1) last by (simp only: S)
      have ne: "?last \<noteq> ''''"
      proof -
        have "S ! (sent + ?limit - 1) \<in> set S" by (rule nth_mem) (use all limit(1) in linarith)
        then have "start < ev_id (S ! (sent + ?limit - 1))" unfolding S by (simp add: stored_after_def)
        then show ?thesis unfolding last by auto
      qed
      have "replay_pages room typeFilter ?last (sent + ?limit) (written @ map scan_event ?page) d =
        (Inr (map scan_event (take 2000 S) @ (if length S < 2000 then [] else map scan_event (rev (stored_latest 50 typeFilter d))), True), d)"
        by (rule less.hyps [OF _ ne limit(3) all next_page written']) (use limit(1) True in linarith)
      then show ?thesis
        using True False page fits plen by (subst replay_pages.simps) (simp add: Let_def eventReplayMaxEvents_def)
    qed
  next
    case False
    then have sent: "sent = 2000" "2000 \<le> length S" using less.prems by simp_all
    have "length (stored_latest 50 typeFilter d) \<le> 50" by (simp add: stored_latest_def)
    then have fits: "writeEvents (room - length written) (rev (map scan_event (stored_latest 50 typeFilter d)))
        = (map scan_event (rev (stored_latest 50 typeFilter d)), True)"
      using room len sent by (simp add: writeEvents_def rev_map)
    have "replay_pages room typeFilter cursor sent written d = replay_latest room typeFilter written d"
      using False by (subst replay_pages.simps) (simp add: eventReplayMaxEvents_def)
    also have "\<dots> = (Inr (written @ map scan_event (rev (stored_latest 50 typeFilter d)), True), d)"
      using fits by (simp add: replay_latest_def dtry_def ListEvents_latest [OF quiet] dret_def)
    finally show ?thesis using sent less.prems(5) by simp
  qed
qed

text \<open>
  C35: A client that resumes with \<open>Last-Event-ID\<close> is sent, page by page, exactly the stored events after
  that id that match its filter, each once and in the order of their ids, when they are fewer than 2000;
  otherwise it is sent the first 2000 of them and then the 50 latest, oldest first, with no mark of the gap.
\<close>

theorem replay_exact:
  assumes wf: "db_wf d" and quiet: "faults d = []" and room: "2050 \<le> room" and cursor: "cursor \<noteq> ''''"
  shows "replayStoredEvents room typeFilter cursor d =
    (Inr (map scan_event (take 2000 (stored_after typeFilter cursor d)) @
       (if length (stored_after typeFilter cursor d) < 2000 then [] else map scan_event (rev (stored_latest 50 typeFilter d))), True), d)"
  using replay_from [OF wf quiet room refl cursor, where sent = 0 and written = "[]" and start = cursor] cursor
  by (simp add: replayStoredEvents_def)

theorem replay_exact_witness:
  "(case fst (replayStoredEvents 3000 ''user.'' ''a'' demo_events) of Inl e \<Rightarrow> [] | Inr (evs, ok) \<Rightarrow> map ev_id evs) = [''b'', ''c'']"
proof -
  have wf: "db_wf demo_events" "faults demo_events = []"
    by (simp_all add: demo_events_def empty_db_def wf_defs tunique_def trefs_def trefs_opt_def tbelow_def)
  have "map ev_id (stored_after ''user.'' ''a'' demo_events) = [''b'', ''c'']" by code_simp
  moreover have "length (stored_after ''user.'' ''a'' demo_events) = 2" by code_simp
  moreover have "ev_id \<circ> scan_event = ev_id" by (simp add: scan_event_def comp_def fun_eq_iff)
  ultimately show ?thesis using replay_exact [OF wf, of 3000 "''a''" "''user.''"] by simp
qed

end
