(* ===== verification/Webhook_Net.thy ===== *)
theory Webhook_Net
  imports Prelude "HOL-Library.Word"
begin

unbundle bit_operations_syntax

text \<open>
  Where webhooks may be delivered (\<open>server/webhook_handlers.go\<close>): the URL check, the check of the dialler,
  and \<open>blockedWebhookIP\<close> over the functions of package \<open>net\<close> it calls.

  A \<open>net.IP\<close> is its bytes, 4 or 16 of them; \<open>None\<close> is the nil address.  \<open>url.Parse\<close>, \<open>net.ParseIP\<close>, the
  resolver and \<open>net.SplitHostPort\<close> are functions of the environment \<open>net_env\<close>.
\<close>

section \<open>Addresses\<close>

type_synonym ip = "8 word list"

definition v4InV6Prefix :: ip where
  "v4InV6Prefix = replicate 10 0 @ [255, 255]"

definition To4 :: "ip \<Rightarrow> ip option" where
  "To4 ip = (if length ip = 4 then Some ip
     else if length ip = 16 \<and> take 12 ip = v4InV6Prefix then Some (drop 12 ip) else None)"

definition ip_equal :: "ip \<Rightarrow> ip \<Rightarrow> bool" where
  "ip_equal a b = (if length a = length b then a = b
     else if length a = 4 \<and> length b = 16 then take 12 b = v4InV6Prefix \<and> a = drop 12 b
     else if length a = 16 \<and> length b = 4 then take 12 a = v4InV6Prefix \<and> drop 12 a = b
     else False)"

definition IsUnspecified :: "ip \<Rightarrow> bool" where
  "IsUnspecified ip \<longleftrightarrow> ip_equal ip (replicate 4 0) \<or> ip_equal ip (replicate 16 0)"

definition IsLoopback :: "ip \<Rightarrow> bool" where
  "IsLoopback ip = (case To4 ip of Some ip4 \<Rightarrow> ip4 ! 0 = 127 | None \<Rightarrow> ip_equal ip (replicate 15 0 @ [1]))"

definition IsPrivate :: "ip \<Rightarrow> bool" where
  "IsPrivate ip = (case To4 ip of
     Some ip4 \<Rightarrow> ip4 ! 0 = 10 \<or> ip4 ! 0 = 172 \<and> ip4 ! 1 AND 0xf0 = 16 \<or> ip4 ! 0 = 192 \<and> ip4 ! 1 = 168
   | None \<Rightarrow> length ip = 16 \<and> ip ! 0 AND 0xfe = 0xfc)"

definition IsMulticast :: "ip \<Rightarrow> bool" where
  "IsMulticast ip = (case To4 ip of Some ip4 \<Rightarrow> ip4 ! 0 AND 0xf0 = 0xe0 | None \<Rightarrow> length ip = 16 \<and> ip ! 0 = 0xff)"

definition IsLinkLocalMulticast :: "ip \<Rightarrow> bool" where
  "IsLinkLocalMulticast ip = (case To4 ip of Some ip4 \<Rightarrow> ip4 ! 0 = 224 \<and> ip4 ! 1 = 0 \<and> ip4 ! 2 = 0
     | None \<Rightarrow> length ip = 16 \<and> ip ! 0 = 0xff \<and> ip ! 1 AND 0x0f = 0x02)"

definition IsLinkLocalUnicast :: "ip \<Rightarrow> bool" where
  "IsLinkLocalUnicast ip = (case To4 ip of Some ip4 \<Rightarrow> ip4 ! 0 = 169 \<and> ip4 ! 1 = 254
     | None \<Rightarrow> length ip = 16 \<and> ip ! 0 = 0xfe \<and> ip ! 1 AND 0xc0 = 0x80)"

definition IsGlobalUnicast :: "ip \<Rightarrow> bool" where
  "IsGlobalUnicast ip \<longleftrightarrow> (length ip = 4 \<or> length ip = 16) \<and> \<not> ip_equal ip (replicate 4 255) \<and>
     \<not> IsUnspecified ip \<and> \<not> IsLoopback ip \<and> \<not> IsMulticast ip \<and> \<not> IsLinkLocalUnicast ip"

section \<open>Networks\<close>

text \<open>\<open>net.CIDRMask\<close>, with the number of bytes for the number of bits.\<close>

fun CIDRMask :: "nat \<Rightarrow> nat \<Rightarrow> ip" where
  "CIDRMask n 0 = []"
| "CIDRMask n (Suc k) = (if 8 \<le> n then 0xff # CIDRMask (n - 8) k else NOT (drop_bit n 0xff) # CIDRMask 0 k)"

text \<open>\<open>IP.Mask\<close>, \<open>None\<close> for nil.\<close>

definition mask_ip :: "ip \<Rightarrow> ip \<Rightarrow> ip option" where
  "mask_ip ip msk =
     (let msk = (if length msk = 16 \<and> length ip = 4 \<and> take 12 msk = replicate 12 255 then drop 12 msk else msk);
          ip = (if length msk = 4 \<and> length ip = 16 \<and> take 12 ip = v4InV6Prefix then drop 12 ip else ip)
      in if length ip \<noteq> length msk then None else Some (map2 (AND) ip msk))"

record ipnet =
  net_ip :: ip
  net_mask :: ip

text \<open>
  \<open>net.ParseCIDR\<close> of \<open>addr/n\<close> where the text \<open>addr\<close> stands for \<open>lit\<close>, 4 bytes in dotted and 16 bytes in
  colon notation.
\<close>

definition ParseCIDR :: "ip \<Rightarrow> nat \<Rightarrow> ipnet option" where
  "ParseCIDR lit n = (let m = CIDRMask n (length lit);
       addr16 = (if length lit = 4 then v4InV6Prefix @ lit else lit)
     in map_option (\<lambda>i. \<lparr>net_ip = i, net_mask = m\<rparr>) (mask_ip addr16 m))"

definition networkNumberAndMask :: "ipnet \<Rightarrow> (ip \<times> ip) option" where
  "networkNumberAndMask n =
     (let ip = (case To4 (net_ip n) of Some i \<Rightarrow> i | None \<Rightarrow> net_ip n); m = net_mask n
      in if length ip \<noteq> 4 \<and> length ip \<noteq> 16 then None
         else if length m = 4 then (if length ip \<noteq> 4 then None else Some (ip, m))
         else if length m = 16 then Some (ip, if length ip = 4 then drop 12 m else m)
         else None)"

definition net_Contains :: "ipnet \<Rightarrow> ip \<Rightarrow> bool" where
  "net_Contains n ip = (case networkNumberAndMask n of None \<Rightarrow> length ip = 0
   | Some (nn, m) \<Rightarrow> let ip = (case To4 ip of Some i \<Rightarrow> i | None \<Rightarrow> ip)
       in length ip = length nn \<and> list_all (\<lambda>((a, k), b). a AND k = b AND k) (zip (zip nn m) ip))"

section \<open>Blocked addresses\<close>

text \<open>The groups of an IPv6 literal, the missing ones of \<open>::\<close> being 0.\<close>

definition ip6 :: "16 word list \<Rightarrow> ip" where
  "ip6 gs = concat (map (\<lambda>g. [ucast (drop_bit 8 g), ucast g]) (gs @ replicate (8 - length gs) 0))"

definition blocked_cidrs :: "(ip \<times> nat) list" where
  "blocked_cidrs =
     [([0, 0, 0, 0], 8), ([10, 0, 0, 0], 8), ([100, 64, 0, 0], 10), ([127, 0, 0, 0], 8), ([169, 254, 0, 0], 16),
      ([172, 16, 0, 0], 12), ([192, 0, 0, 0], 24), ([192, 0, 2, 0], 24), ([192, 88, 99, 2], 32), ([192, 168, 0, 0], 16),
      ([198, 18, 0, 0], 15), ([198, 51, 100, 0], 24), ([203, 0, 113, 0], 24), ([224, 0, 0, 0], 4), ([240, 0, 0, 0], 4),
      ([255, 255, 255, 255], 32), (ip6 [], 128), (ip6 [0, 0, 0, 0, 0, 0, 0, 1], 128), (ip6 [0, 0, 0, 0, 0, 0xffff], 96),
      (ip6 [0x64, 0xff9b], 96), (ip6 [0x64, 0xff9b, 1], 48), (ip6 [0x100], 64), (ip6 [0x100, 0, 0, 1], 64),
      (ip6 [0x2001], 23), (ip6 [0x2001, 0xdb8], 32), (ip6 [0x2002], 16), (ip6 [0x3fff], 20), (ip6 [0x5f00], 16),
      (ip6 [0xfc00], 7), (ip6 [0xfe80], 10), (ip6 [0xff00], 8)]"

text \<open>\<open>mustParseIPRanges\<close> panics on a literal that does not parse; all of these do.\<close>

definition mustParseIPRanges :: "(ip \<times> nat) list \<Rightarrow> ipnet list" where
  "mustParseIPRanges cidrs = List.map_filter (\<lambda>(lit, n). ParseCIDR lit n) cidrs"

definition blockedWebhookIPRanges :: "ipnet list" where
  "blockedWebhookIPRanges = mustParseIPRanges blocked_cidrs"

definition blockedWebhookIP :: "ip option \<Rightarrow> bool" where
  "blockedWebhookIP ip = (case ip of None \<Rightarrow> True
   | Some ip \<Rightarrow> let ip = (case To4 ip of Some i \<Rightarrow> i | None \<Rightarrow> ip) in
       if \<not> IsGlobalUnicast ip \<or> IsLoopback ip \<or> IsPrivate ip \<or> IsLinkLocalUnicast ip \<or> IsLinkLocalMulticast ip
         \<or> IsMulticast ip \<or> IsUnspecified ip then True
       else list_ex (\<lambda>r. net_Contains r ip) blockedWebhookIPRanges)"

section \<open>URLs and dialling\<close>

record net_env =
  ne_parse :: "string \<Rightarrow> (string \<times> string) option"       \<comment> \<open>\<open>url.Parse\<close>: scheme and host name\<close>
  ne_parse_ip :: "string \<Rightarrow> ip option"
  ne_lookup :: "string \<Rightarrow> ip list option"
  ne_split_host_port :: "string \<Rightarrow> (string \<times> string) option"

definition validateWebhookURL :: "net_env \<Rightarrow> string \<Rightarrow> string + unit" where
  "validateWebhookURL env raw = (case ne_parse env raw of
     None \<Rightarrow> Inl ''webhook url must be absolute https''
   | Some (scheme, host) \<Rightarrow>
       if scheme \<noteq> ''https'' \<or> host = '''' then Inl ''webhook url must be absolute https''
       else (case ne_parse_ip env host of
         Some ip \<Rightarrow> if blockedWebhookIP (Some ip) then Inl ''webhook url resolves to a blocked address range'' else Inr ()
       | None \<Rightarrow> (case ne_lookup env host of None \<Rightarrow> Inl ''resolving webhook host''
         | Some addrs \<Rightarrow> if list_ex (\<lambda>a. blockedWebhookIP (Some a)) addrs
             then Inl ''webhook url resolves to a blocked address range'' else Inr ())))"

text \<open>\<open>safeWebhookDialContext\<close>: the address and port it connects to.\<close>

definition safeWebhookDialContext :: "net_env \<Rightarrow> string \<Rightarrow> string + ip \<times> string" where
  "safeWebhookDialContext env address = (case ne_split_host_port env address of
     None \<Rightarrow> Inl ''parsing webhook dial address''
   | Some (host, port) \<Rightarrow> (case ne_lookup env host of
       None \<Rightarrow> Inl ''resolving webhook dial host''
     | Some ips \<Rightarrow>
         if list_ex (\<lambda>a. blockedWebhookIP (Some a)) ips then Inl ''webhook url resolves to a blocked address range''
         else if ips = [] then Inl ''webhook host resolved no addresses''
         else Inr (hd ips, port)))"

section \<open>Masks and prefixes\<close>

text \<open>An address as a number.\<close>

fun ip_value :: "ip \<Rightarrow> nat" where
  "ip_value [] = 0"
| "ip_value (b # bs) = unat b * 256 ^ length bs + ip_value bs"

lemma ip_value_less: "ip_value bs < 256 ^ length bs"
proof (induction bs)
  case (Cons b bs)
  have "unat b \<le> 255" using unsigned_less [of b, where ?'a = nat] by simp
  then have "unat b * 256 ^ length bs \<le> 255 * 256 ^ length bs" by (rule mult_le_mono1)
  then show ?case using Cons unfolding ip_value.simps length_Cons power_Suc by linarith
qed simp

lemma all_ones: "(255 :: 8 word) = - 1"
  by simp

lemma byte_prefix:
  fixes a b :: "8 word"
  assumes "n < 8"
  shows "a AND NOT (drop_bit n 255) = b AND NOT (drop_bit n 255) \<longleftrightarrow> unat a div 2 ^ (8 - n) = unat b div 2 ^ (8 - n)"
proof -
  have "a AND NOT (drop_bit n 255) = b AND NOT (drop_bit n 255) \<longleftrightarrow> drop_bit (8 - n) a = drop_bit (8 - n) b"
  proof
    assume eq: "a AND NOT (drop_bit n 255) = b AND NOT (drop_bit n 255)"
    show "drop_bit (8 - n) a = drop_bit (8 - n) b"
    proof (rule bit_word_eqI)
      fix i assume "i < LENGTH(8)"
      have "bit (a AND NOT (drop_bit n 255)) (8 - n + i) = bit (b AND NOT (drop_bit n 255)) (8 - n + i)" by (simp only: eq)
      then show "bit (drop_bit (8 - n) a) i = bit (drop_bit (8 - n) b) i"
        using assms unfolding all_ones by (auto simp: bit_simps dest: bit_imp_le_length)
    qed
  next
    assume eq: "drop_bit (8 - n) a = drop_bit (8 - n) b"
    show "a AND NOT (drop_bit n 255) = b AND NOT (drop_bit n 255)"
    proof (rule bit_word_eqI)
      fix i assume i: "i < LENGTH(8)"
      have key: "bit (drop_bit (8 - n) a) (i - (8 - n)) = bit (drop_bit (8 - n) b) (i - (8 - n))" by (simp only: eq)
      have mask_bit: "bit (NOT (drop_bit n (255 :: 8 word))) i \<longleftrightarrow> 8 \<le> n + i"
        using i unfolding all_ones by (auto simp: bit_simps)
      show "bit (a AND NOT (drop_bit n 255)) i = bit (b AND NOT (drop_bit n 255)) i"
      proof (cases "8 \<le> n + i")
        case True
        then have "8 - n + (i - (8 - n)) = i" using assms by simp
        then have "bit a i = bit b i" using key by (simp add: bit_drop_bit_eq)
        then show ?thesis by (simp add: bit_and_iff)
      next
        case False
        then show ?thesis using mask_bit by (simp add: bit_and_iff)
      qed
    qed
  qed
  also have "\<dots> \<longleftrightarrow> unat (drop_bit (8 - n) a) = unat (drop_bit (8 - n) b)" by (rule word_unat_eq_iff)
  also have "\<dots> \<longleftrightarrow> unat a div 2 ^ (8 - n) = unat b div 2 ^ (8 - n)"
    by (simp only: unat_drop_bit_eq, simp only: drop_bit_eq_div)
  finally show ?thesis .
qed

lemma CIDRMask_zero: "CIDRMask 0 k = replicate k 0"
  by (induction k) simp_all

lemma zero_mask_all: "length a = k \<Longrightarrow> list_all (\<lambda>((a, m), b). a AND m = b AND m) (zip (zip a (replicate k 0)) b)"
  by (auto simp: list_all_iff set_zip)

lemma div_split:
  fixes x y p :: nat
  assumes "y < p" "q dvd p" "0 < q"
  shows "(x * p + y) div q = x * (p div q) + y div q"
  using assms by (metis div_mult_swap div_mult_self3 dvd_mult add.commute div_plus_div_distrib_dvd_left mult.commute)

lemma mult_add_unique:
  fixes p :: nat
  assumes "r < p" "s < p"
  shows "a * p + r = b * p + s \<longleftrightarrow> a = b \<and> r = s"
proof
  assume eq: "a * p + r = b * p + s"
  have "(a * p + r) div p = a" "(b * p + s) div p = b" using assms by simp_all
  then have "a = b" using eq by simp
  then show "a = b \<and> r = s" using eq by simp
qed simp

lemma mask_prefix:
  assumes "length a = k" "length b = k" "n \<le> 8 * k"
  shows "list_all (\<lambda>((a, m), b). a AND m = b AND m) (zip (zip a (CIDRMask n k)) b)
    \<longleftrightarrow> ip_value a div 2 ^ (8 * k - n) = ip_value b div 2 ^ (8 * k - n)"
  using assms
proof (induction k arbitrary: a b n)
  case (Suc k)
  obtain x xs y ys where a: "a = x # xs" "length xs = k" and b: "b = y # ys" "length ys = k"
    using Suc.prems by (auto simp: length_Suc_conv)
  have big: "(256::nat) ^ k = 2 ^ (8 * k)" by (simp add: power_mult)
  show ?case
  proof (cases "8 \<le> n")
    case True
    let ?q = "2 ^ (8 * k - (n - 8)) :: nat"
    have q: "?q dvd 256 ^ k" using True Suc.prems by (simp add: big le_imp_power_dvd)
    have e: "8 * Suc k - n = 8 * k - (n - 8)" using True Suc.prems by simp
    have split: "(unat w * 256 ^ k + ip_value ws) div ?q = unat w * (256 ^ k div ?q) + ip_value ws div ?q"
      if "length ws = k" for w :: "8 word" and ws
      using div_split [OF _ q, of "ip_value ws" "unat w"] ip_value_less [of ws] that by simp
    have less: "ip_value ws div ?q < 256 ^ k div ?q" if "length ws = k" for ws
      using ip_value_less [of ws] that dvd_div_mult_self [OF q] by (simp add: less_mult_imp_div_less)
    have IH: "list_all (\<lambda>((a, m), b). a AND m = b AND m) (zip (zip xs (CIDRMask (n - 8) k)) ys)
        \<longleftrightarrow> ip_value xs div ?q = ip_value ys div ?q"
      using Suc.IH [OF a(2) b(2), of "n - 8"] Suc.prems True by simp
    have "x AND 255 = y AND 255 \<longleftrightarrow> x = y"
      unfolding all_ones by simp
    moreover have "unat x * (256 ^ k div ?q) + ip_value xs div ?q = unat y * (256 ^ k div ?q) + ip_value ys div ?q
        \<longleftrightarrow> unat x = unat y \<and> ip_value xs div ?q = ip_value ys div ?q"
      by (rule mult_add_unique [OF less [OF a(2)] less [OF b(2)]])
    moreover have "ip_value a div 2 ^ (8 * Suc k - n) = unat x * (256 ^ k div ?q) + ip_value xs div ?q"
      "ip_value b div 2 ^ (8 * Suc k - n) = unat y * (256 ^ k div ?q) + ip_value ys div ?q"
      by (simp_all only: a(1) b(1) ip_value.simps a(2) b(2) e split [OF a(2)] split [OF b(2)])
    moreover have "list_all (\<lambda>((a, m), b). a AND m = b AND m) (zip (zip a (CIDRMask n (Suc k))) b)
        \<longleftrightarrow> x AND 255 = y AND 255 \<and> ip_value xs div ?q = ip_value ys div ?q"
      using True by (simp only: a(1) b(1) CIDRMask.simps if_True zip_Cons_Cons list.pred_inject prod.case IH)
    ultimately show ?thesis using word_unat_eq_iff [of x y] by (simp only:)
  next
    case False
    have e: "8 * Suc k - n = 8 * k + (8 - n)" using False by simp
    have split: "(unat w * 256 ^ k + ip_value ws) div 2 ^ (8 * Suc k - n) = unat w div 2 ^ (8 - n)"
      if len: "length ws = k" for w :: "8 word" and ws
    proof -
      have "(unat w * 256 ^ k + ip_value ws) div 256 ^ k = unat w" using ip_value_less [of ws] len by simp
      then show ?thesis by (simp only: e power_add big [symmetric] div_mult2_eq)
    qed
    show ?thesis using False a b split byte_prefix [of n x y] zero_mask_all [of xs k ys]
      by (simp add: CIDRMask_zero)
  qed
qed simp

section \<open>What is blocked\<close>

lemma ranges_parsed: "blockedWebhookIPRanges = map (\<lambda>(lit, n). \<lparr>net_ip =
    (if length lit = 4 \<or> take 12 lit \<noteq> v4InV6Prefix then lit else v4InV6Prefix @ replicate 4 0), net_mask = CIDRMask n (length lit)\<rparr>) blocked_cidrs"
  by code_simp

lemma blocked4:
  assumes "To4 ip \<noteq> None"
  shows "blockedWebhookIP (Some ip)"
proof -
  from assms obtain ip4 where ip4: "To4 ip = Some ip4" by auto
  then have len: "length ip4 = 4" by (auto simp: To4_def split: if_splits)
  then have again: "To4 ip4 = Some ip4" by (simp add: To4_def)
  let ?n = "\<lparr>net_ip = v4InV6Prefix @ [0, 0, 0, 0], net_mask = CIDRMask 96 16\<rparr>"
  have "blockedWebhookIPRanges ! 18 = ?n" "18 < length blockedWebhookIPRanges" by code_simp+
  then have "?n \<in> set blockedWebhookIPRanges" by (metis nth_mem)
  moreover have "networkNumberAndMask ?n = Some ([0, 0, 0, 0], [0, 0, 0, 0])" by code_simp
  then have "net_Contains ?n ip4"
    using len again by (auto simp: net_Contains_def Let_def list_all_iff set_zip less_Suc_eq eval_nat_numeral)
  ultimately have "list_ex (\<lambda>r. net_Contains r ip4) blockedWebhookIPRanges" by (auto simp: list_ex_iff)
  then show ?thesis using ip4 by (simp add: blockedWebhookIP_def Let_def)
qed

text \<open>
  No IPv4 address is ever accepted, in either notation: the range \<open>::ffff:0:0/96\<close> of the list is,
  for \<open>net.IPNet.Contains\<close>, the IPv4 network \<open>0.0.0.0/0\<close>.
\<close>

theorem ipv4_all_blocked:
  assumes "To4 ip \<noteq> None"
  shows "blockedWebhookIP (Some ip)"
  using assms by (rule blocked4)

theorem ipv4_all_blocked_witness: "blockedWebhookIP (Some [93, 184, 216, 34])"
  by (rule ipv4_all_blocked) code_simp

lemma list_all_zip3:
  "length a = k \<Longrightarrow> length m = k \<Longrightarrow> length b = k \<Longrightarrow>
   list_all (\<lambda>((x, y), z). Q x y z) (zip (zip a m) b) \<longleftrightarrow> (\<forall>i < k. Q (a ! i) (m ! i) (b ! i))"
  by (simp add: list_all_length)

lemma contains6:
  assumes ip: "length ip = 16" "To4 ip = None" and nn: "length nn = 16" "To4 nn = None" and n: "n \<le> 128"
  shows "net_Contains \<lparr>net_ip = nn, net_mask = CIDRMask n 16\<rparr> ip \<longleftrightarrow>
    ip_value ip div 2 ^ (128 - n) = ip_value nn div 2 ^ (128 - n)"
proof -
  have len: "length (CIDRMask n k) = k" for k by (induction n k rule: CIDRMask.induct) simp_all
  have "networkNumberAndMask \<lparr>net_ip = nn, net_mask = CIDRMask n 16\<rparr> = Some (nn, CIDRMask n 16)"
    by (simp add: networkNumberAndMask_def Let_def nn len)
  then have "net_Contains \<lparr>net_ip = nn, net_mask = CIDRMask n 16\<rparr> ip \<longleftrightarrow>
      list_all (\<lambda>((a, k), b). a AND k = b AND k) (zip (zip nn (CIDRMask n 16)) ip)"
    by (simp add: net_Contains_def Let_def ip nn)
  also have "\<dots> \<longleftrightarrow> ip_value nn div 2 ^ (8 * 16 - n) = ip_value ip div 2 ^ (8 * 16 - n)"
    by (rule mask_prefix) (use ip nn n in simp_all)
  finally show ?thesis by auto
qed

lemma v4_not_contains6:
  assumes "length ip = 16" "To4 ip = None" "networkNumberAndMask r = Some (nn, m)" "length nn = 4"
  shows "\<not> net_Contains r ip"
  using assms by (simp add: net_Contains_def Let_def)

lemma mapped_prefix:
  assumes ip: "length ip = 16" "To4 ip = None"
  shows "ip_value ip div 2 ^ 32 \<noteq> ip_value (v4InV6Prefix @ replicate 4 0) div 2 ^ 32"
proof
  let ?lit = "v4InV6Prefix @ replicate 4 0 :: ip"
  assume "ip_value ip div 2 ^ 32 = ip_value ?lit div 2 ^ 32"
  then have all: "list_all (\<lambda>((a, k), b). a AND k = b AND k) (zip (zip ?lit (CIDRMask 96 16)) ip)"
    using mask_prefix [of ?lit 16 ip 96] ip by (simp add: v4InV6Prefix_def)
  have mask: "CIDRMask 96 16 = replicate 12 255 @ replicate 4 0" by code_simp
  have "ip ! i = ?lit ! i" if "i < 12" for i
  proof -
    have "(?lit ! i) AND (CIDRMask 96 16 ! i) = ip ! i AND (CIDRMask 96 16 ! i)"
      using all that ip list_all_zip3 [of ?lit 16 "CIDRMask 96 16" ip] by (simp add: v4InV6Prefix_def mask)
    then show ?thesis using that by (simp add: mask nth_append all_ones del: replicate.simps)
  qed
  then have "take 12 ip = take 12 ?lit" using ip by (intro nth_take_lemma) (simp_all add: v4InV6Prefix_def)
  then show False using ip by (simp add: To4_def v4InV6Prefix_def)
qed

lemma range_at: "i < length blockedWebhookIPRanges \<Longrightarrow> net_Contains (blockedWebhookIPRanges ! i) ip \<Longrightarrow>
    list_ex (\<lambda>r. net_Contains r ip) blockedWebhookIPRanges"
  by (auto simp: list_ex_iff)

lemma special6:
  assumes ip: "length ip = 16" "To4 ip = None"
    and special: "\<not> IsGlobalUnicast ip \<or> IsLoopback ip \<or> IsPrivate ip \<or> IsLinkLocalUnicast ip \<or> IsLinkLocalMulticast ip
         \<or> IsMulticast ip \<or> IsUnspecified ip"
  shows "list_ex (\<lambda>r. net_Contains r ip) blockedWebhookIPRanges"
proof -
  have contains: "list_ex (\<lambda>r. net_Contains r ip) blockedWebhookIPRanges"
    if "i < length blockedWebhookIPRanges" "networkNumberAndMask (blockedWebhookIPRanges ! i) = Some (nn, m)"
      "length nn = 16" "length m = 16" "\<forall>k < 16. nn ! k AND m ! k = ip ! k AND m ! k" for i nn m
    using that list_all_zip3 [of nn 16 m ip "\<lambda>a k b. a AND k = b AND k"] ip
    by (intro range_at [of i]) (simp_all add: net_Contains_def Let_def)
  from special ip consider "ip = replicate 16 0" | "ip = replicate 15 0 @ [1]" | "ip ! 0 AND 0xfe = 0xfc"
    | "ip ! 0 = 0xfe" "ip ! 1 AND 0xc0 = 0x80" | "ip ! 0 = 0xff"
    by (auto simp: IsGlobalUnicast_def IsLoopback_def IsPrivate_def IsLinkLocalUnicast_def IsLinkLocalMulticast_def
        IsMulticast_def IsUnspecified_def ip_equal_def To4_def)
  then show ?thesis
  proof cases
    case 1
    show ?thesis unfolding 1 by (rule range_at [of 16]; code_simp)
  next
    case 2
    show ?thesis unfolding 2 by (rule range_at [of 17]; code_simp)
  next
    case 3
    have "networkNumberAndMask (blockedWebhookIPRanges ! 28) = Some (0xfc # replicate 15 0, 0xfe # replicate 15 0)" by code_simp
    then show ?thesis using 3
      by (intro contains [of 28]) (auto simp: nth_Cons' split: if_splits, code_simp)
  next
    case 4
    have "networkNumberAndMask (blockedWebhookIPRanges ! 29) = Some (0xfe # 0x80 # replicate 14 0, 0xff # 0xc0 # replicate 14 0)" by code_simp
    then show ?thesis using 4
      by (intro contains [of 29]) (auto simp: nth_Cons' le_Suc_eq split: if_splits, code_simp)
  next
    case 5
    have "networkNumberAndMask (blockedWebhookIPRanges ! 30) = Some (0xff # replicate 15 0, 0xff # replicate 15 0)" by code_simp
    then show ?thesis using 5
      by (intro contains [of 30]) (auto simp: nth_Cons' split: if_splits, code_simp)
  qed
qed

lemma range_contains6:
  assumes ip: "length ip = 16" "To4 ip = None" and r: "(lit, n) \<in> set blocked_cidrs"
  shows "net_Contains \<lparr>net_ip = (if length lit = 4 \<or> take 12 lit \<noteq> v4InV6Prefix then lit else v4InV6Prefix @ replicate 4 0),
      net_mask = CIDRMask n (length lit)\<rparr> ip
    \<longleftrightarrow> length lit = 16 \<and> ip_value ip div 2 ^ (128 - n) = ip_value lit div 2 ^ (128 - n)" (is "net_Contains ?r ip \<longleftrightarrow> _")
proof -
  have shape: "list_all (\<lambda>(lit, n). (length lit = 4 \<and> n \<le> 32) \<or> (length lit = 16 \<and> n \<le> 128 \<and> To4 lit = None)
      \<or> (lit = v4InV6Prefix @ replicate 4 0 \<and> n = 96)) blocked_cidrs" by code_simp
  then consider "length lit = 4" | "length lit = 16" "n \<le> 128" "To4 lit = None"
    | "lit = v4InV6Prefix @ replicate 4 0" "n = 96" using r by (auto simp: list_all_iff)
  then show ?thesis
  proof cases
    case 1
    have len: "length (CIDRMask n k) = k" for k by (induction n k rule: CIDRMask.induct) simp_all
    have "\<not> net_Contains ?r ip"
      by (rule v4_not_contains6 [OF ip, of _ lit "CIDRMask n 4"]) (simp_all add: networkNumberAndMask_def To4_def Let_def 1 len)
    then show ?thesis using 1 by simp
  next
    case 2
    then have "take 12 lit \<noteq> v4InV6Prefix" by (auto simp: To4_def)
    then show ?thesis using 2 contains6 [OF ip 2(1,3,2)] by simp
  next
    case 3
    have "networkNumberAndMask \<lparr>net_ip = v4InV6Prefix @ replicate 4 0, net_mask = CIDRMask 96 16\<rparr> = Some ([0, 0, 0, 0], [0, 0, 0, 0])"
      by code_simp
    then have "\<not> net_Contains \<lparr>net_ip = v4InV6Prefix @ replicate 4 0, net_mask = CIDRMask 96 16\<rparr> ip"
      by (rule v4_not_contains6 [OF ip]) simp
    moreover have "length (v4InV6Prefix @ replicate 4 (0 :: 8 word)) = 16" "take 12 (v4InV6Prefix @ replicate 4 (0 :: 8 word)) = v4InV6Prefix"
      by code_simp+
    ultimately show ?thesis using mapped_prefix [OF ip] by (simp add: 3)
  qed
qed

lemma blocked6:
  assumes ip: "length ip = 16" "To4 ip = None"
  shows "blockedWebhookIP (Some ip) \<longleftrightarrow>
    list_ex (\<lambda>(lit, n). length lit = 16 \<and> ip_value ip div 2 ^ (128 - n) = ip_value lit div 2 ^ (128 - n)) blocked_cidrs"
proof -
  have "blockedWebhookIP (Some ip) \<longleftrightarrow> list_ex (\<lambda>r. net_Contains r ip) blockedWebhookIPRanges"
    using special6 [OF ip] ip(2) by (auto simp: blockedWebhookIP_def Let_def)
  also have "\<dots> \<longleftrightarrow> (\<exists>(lit, n) \<in> set blocked_cidrs. net_Contains \<lparr>net_ip =
      (if length lit = 4 \<or> take 12 lit \<noteq> v4InV6Prefix then lit else v4InV6Prefix @ replicate 4 0), net_mask = CIDRMask n (length lit)\<rparr> ip)"
    by (auto simp only: ranges_parsed list_ex_iff set_map split: prod.split)
  also have "\<dots> \<longleftrightarrow> (\<exists>(lit, n) \<in> set blocked_cidrs. length lit = 16 \<and> ip_value ip div 2 ^ (128 - n) = ip_value lit div 2 ^ (128 - n))"
  proof (rule bex_cong [OF refl])
    fix x assume x: "x \<in> set blocked_cidrs"
    obtain lit n where "x = (lit, n)" by (cases x)
    with x show "(case x of (lit, n) \<Rightarrow> net_Contains \<lparr>net_ip = (if length lit = 4 \<or> take 12 lit \<noteq> v4InV6Prefix then lit
        else v4InV6Prefix @ replicate 4 0), net_mask = CIDRMask n (length lit)\<rparr> ip)
      = (case x of (lit, n) \<Rightarrow> length lit = 16 \<and> ip_value ip div 2 ^ (128 - n) = ip_value lit div 2 ^ (128 - n))"
      using range_contains6 [OF ip] by (simp only: prod.case)
  qed
  finally show ?thesis by (simp add: list_ex_iff)
qed

text \<open>
  For an IPv6 address that is not an IPv4 one in disguise, the byte and mask tests of package \<open>net\<close>
  that the check makes amount to one comparison of numbers per range: the address is blocked exactly if it
  agrees with a listed IPv6 range on the bits of its prefix.
\<close>

theorem ipv6_blocked_iff_prefix:
  assumes "length ip = 16" "To4 ip = None"
  shows "blockedWebhookIP (Some ip) \<longleftrightarrow>
    list_ex (\<lambda>(lit, n). length lit = 16 \<and> ip_value ip div 2 ^ (128 - n) = ip_value lit div 2 ^ (128 - n)) blocked_cidrs"
  by (rule blocked6 [OF assms])

theorem ipv6_blocked_iff_prefix_witness:
  "\<not> blockedWebhookIP (Some (ip6 [0x2606, 0x4700])) \<and> blockedWebhookIP (Some (ip6 [0xfd12, 0x3456]))"
proof -
  have *: "length (ip6 [0x2606, 0x4700]) = 16" "To4 (ip6 [0x2606, 0x4700]) = None"
    "length (ip6 [0xfd12, 0x3456]) = 16" "To4 (ip6 [0xfd12, 0x3456]) = None" by code_simp+
  have "\<not> list_ex (\<lambda>(lit, n). length lit = 16 \<and>
      ip_value (ip6 [0x2606, 0x4700]) div 2 ^ (128 - n) = ip_value lit div 2 ^ (128 - n)) blocked_cidrs" by code_simp
  moreover have "list_ex (\<lambda>(lit, n). length lit = 16 \<and>
      ip_value (ip6 [0xfd12, 0x3456]) div 2 ^ (128 - n) = ip_value lit div 2 ^ (128 - n)) blocked_cidrs" by code_simp
  ultimately show ?thesis using ipv6_blocked_iff_prefix [OF *(1,2)] ipv6_blocked_iff_prefix [OF *(3,4)] by simp
qed


definition demo_net :: net_env where
  "demo_net = \<lparr>ne_parse = (\<lambda>s. Some (''https'', ''hooks.example'')), ne_parse_ip = (\<lambda>s. None),
     ne_lookup = (\<lambda>h. Some [ip6 [0x2606, 0x4700]]), ne_split_host_port = (\<lambda>a. Some (''hooks.example'', ''443''))\<rparr>"


end
