(* ===== verification/Server_Webhooks.thy ===== *)
theory Server_Webhooks
  imports Server_Events Webhook_Net
begin

text \<open>
  The webhook endpoints (\<open>server/webhook_handlers.go\<close>).  Their routes are behind the admin middleware of
  \<open>Server_Routes\<close>; \<open>wid\<close> is the id in the path.  \<open>hook_env\<close> holds what is outside: encryption, JSON, the
  network, the HTTP POST.
\<close>

record hook_env =
  he_now :: gotime
  he_uuid :: "string option"
  he_event_uuid :: "string option"
  he_delivery_uuid :: "string option"
  he_encrypt :: "string \<Rightarrow> string option"
  he_decrypt :: "string \<Rightarrow> string option"
  he_net :: net_env
  he_json :: "(string \<times> string) list \<Rightarrow> string option"      \<comment> \<open>a JSON object of strings\<close>
  he_body :: "event \<Rightarrow> string option"                     \<comment> \<open>\<open>json.Marshal(eventToResponse(ev))\<close>\<close>
  he_hmac :: "string \<Rightarrow> string \<Rightarrow> string"                 \<comment> \<open>HMAC-SHA256 in hexadecimal\<close>
  he_post :: "string \<Rightarrow> string \<Rightarrow> string \<Rightarrow> string + nat \<times> string"
    \<comment> \<open>URL, signature, body: an error, or the status and the first 4097 bytes of the answer\<close>

record create_webhook_request =
  cw_name :: string
  cw_url :: string
  cw_secret :: string
  cw_events :: "string list"
  cw_enabled :: "bool option"

record update_webhook_request =
  uw_name :: "string option"
  uw_url :: "string option"
  uw_secret :: "string option"
  uw_events :: "string list option"
  uw_enabled :: "bool option"

record webhook_response =
  wr_id :: string
  wr_name :: string
  wr_url :: string
  wr_events :: "string list"
  wr_enabled :: bool
  wr_created_at :: gotime
  wr_updated_at :: gotime

definition webhookToResponse :: "webhook \<Rightarrow> webhook_response" where
  "webhookToResponse w = \<lparr>wr_id = wh_id w, wr_name = wh_name w, wr_url = wh_url w, wr_events = wh_events w,
     wr_enabled = wh_enabled w, wr_created_at = wh_created_at w, wr_updated_at = wh_updated_at w\<rparr>"

record webhook_delivery_response =
  dr_id :: string
  dr_webhook_id :: string
  dr_event_id :: string
  dr_event_type :: string
  dr_status :: string
  dr_attempt :: int
  dr_http_status :: "int option"
  dr_error :: "string option"
  dr_created_at :: gotime

definition webhookDeliveryToResponse :: "delivery \<Rightarrow> webhook_delivery_response" where
  "webhookDeliveryToResponse de = \<lparr>dr_id = de_id de, dr_webhook_id = de_webhook_id de, dr_event_id = de_event_id de,
     dr_event_type = de_event_type de, dr_status = de_status de, dr_attempt = de_attempt de,
     dr_http_status = de_status_code de, dr_error = de_error de, dr_created_at = de_created_at de\<rparr>"

definition validateWebhookSecret :: "string \<Rightarrow> string + unit" where
  "validateWebhookSecret secret =
     (if length secret < 16 then Inl ''secret must be at least 16 characters''
      else if 512 < length secret then Inl ''secret must be at most 512 characters'' else Inr ())"

section \<open>Handlers\<close>

definition handleListWebhooks :: "node \<Rightarrow> webhook_response list response \<times> node" where
  "handleListWebhooks = on_node_db ListWebhooks (\<lambda>r n. case r of
     Inl e \<Rightarrow> (internalError, n)
   | Inr rows \<Rightarrow> (writeJSON 200 (map webhookToResponse rows), n))"

text \<open>The text of a validation error of the store.\<close>

definition error_text :: "store_error \<Rightarrow> string" where
  "error_text e = (case e of ErrInvalid m \<Rightarrow> m | _ \<Rightarrow> '''')"

definition webhook_created :: "hook_env \<Rightarrow> request \<Rightarrow> webhook \<Rightarrow> node \<Rightarrow> webhook_response response \<times> node" where
  "webhook_created env r row n =
     (let n = snd (emitEvent (he_now env) (he_event_uuid env) ''webhook.created'' (wh_id row) (he_json env [(''name'', wh_name row)]) n)
      in (writeJSON 201 (webhookToResponse row),
          node_audit (audit r ''webhook.create'' ''success'' ''webhook'' (wh_id row) ''webhook created'') n))"

definition handleCreateWebhook ::
  "hook_env \<Rightarrow> request \<Rightarrow> create_webhook_request option \<Rightarrow> node \<Rightarrow> webhook_response response \<times> node" where
  "handleCreateWebhook env r body n = (case body of
     None \<Rightarrow> (writeError 400 ''bad_request'' ''invalid JSON body'', n)
   | Some req \<Rightarrow>
     let name = trim_space (cw_name req); url = trim_space (cw_url req); secret = cw_secret req in
     if name = '''' \<or> url = '''' \<or> secret = '''' then (writeError 400 ''bad_request'' ''name, url, and secret are required'', n)
     else (case validateWebhookSecret secret of Inl m \<Rightarrow> (writeError 400 ''bad_request'' m, n)
     | Inr _ \<Rightarrow> if cw_events req = [] then (writeError 400 ''bad_request'' ''events are required'', n)
     else (case ValidateWebhookEvents (cw_events req) of Inl e \<Rightarrow> (writeError 400 ''bad_request'' (error_text e), n)
     | Inr _ \<Rightarrow> (case validateWebhookURL (he_net env) url of Inl m \<Rightarrow> (writeError 400 ''bad_request'' m, n)
     | Inr _ \<Rightarrow> (case rq_user r of None \<Rightarrow> (writeError 401 ''unauthorized'' ''authentication required'', n)
     | Some u \<Rightarrow> on_node_db (CreateWebhook (he_encrypt env) (he_now env) (he_uuid env) (u_id u) name url secret (cw_events req))
         (\<lambda>res n. case res of Inl e \<Rightarrow> (internalError, n)
         | Inr row \<Rightarrow>
             if cw_enabled req = Some False then
               on_node_db (UpdateWebhook (he_encrypt env) (he_now env) (wh_id row) (wh_name row) (wh_url row) secret (wh_events row) False)
                 (\<lambda>res n. case res of Inl e \<Rightarrow> (internalError, n)
                 | Inr _ \<Rightarrow> webhook_created env r (row\<lparr>wh_enabled := False\<rparr>) n) n
             else webhook_created env r row n) n)))))"

definition webhook_lookup :: "string \<Rightarrow> (webhook \<Rightarrow> node \<Rightarrow> 'p response \<times> node) \<Rightarrow> node \<Rightarrow> 'p response \<times> node" where
  "webhook_lookup wid k = on_node_db (GetWebhook wid) (\<lambda>res n. case res of
     Inl e \<Rightarrow> if e = ErrNotFound then (writeError 404 ''not_found'' ''webhook not found'', n) else (internalError, n)
   | Inr row \<Rightarrow> k row n)"

definition handleGetWebhook :: "string \<Rightarrow> node \<Rightarrow> webhook_response response \<times> node" where
  "handleGetWebhook wid = webhook_lookup wid (\<lambda>row n. (writeJSON 200 (webhookToResponse row), n))"

text \<open>\<open>applyWebhookUpdate\<close>: the changed row and the secret to store.\<close>

definition applyWebhookUpdate ::
  "net_env \<Rightarrow> webhook \<Rightarrow> update_webhook_request \<Rightarrow> string \<Rightarrow> string + webhook \<times> string" where
  "applyWebhookUpdate net row req secret =
     (let row = (case uw_name req of None \<Rightarrow> row | Some v \<Rightarrow> row\<lparr>wh_name := trim_space v\<rparr>);
          row = (case uw_url req of None \<Rightarrow> row | Some v \<Rightarrow> row\<lparr>wh_url := trim_space v\<rparr>)
      in case (if uw_url req = None then Inr () else validateWebhookURL net (wh_url row)) of Inl m \<Rightarrow> Inl m
      | Inr _ \<Rightarrow> (case (case uw_events req of None \<Rightarrow> Inr (wh_events row) | Some evs \<Rightarrow> ValidateWebhookEvents evs) of
          Inl e \<Rightarrow> Inl (error_text e)
        | Inr evs \<Rightarrow>
            let row = row\<lparr>wh_events := evs\<rparr>;
                secret = (case uw_secret req of None \<Rightarrow> secret | Some v \<Rightarrow> v);
                row = (case uw_enabled req of None \<Rightarrow> row | Some v \<Rightarrow> row\<lparr>wh_enabled := v\<rparr>)
            in if wh_name row = '''' \<or> wh_url row = '''' \<or> secret = '''' \<or> wh_events row = []
               then Inl ''name, url, secret, and events cannot be empty''
               else (case validateWebhookSecret secret of Inl m \<Rightarrow> Inl m | Inr _ \<Rightarrow> Inr (row, secret))))"

definition zero_webhook :: webhook where
  "zero_webhook = \<lparr>wh_id = '''', wh_user_id = 0, wh_name = '''', wh_url = '''', wh_secret_encrypted = '''', wh_events = [],
     wh_enabled = False, wh_created_at = 0, wh_updated_at = 0\<rparr>"

definition handleUpdateWebhook ::
  "hook_env \<Rightarrow> request \<Rightarrow> string \<Rightarrow> update_webhook_request option \<Rightarrow> node \<Rightarrow> webhook_response response \<times> node" where
  "handleUpdateWebhook env r wid body = webhook_lookup wid (\<lambda>row n. case body of
     None \<Rightarrow> (writeError 400 ''bad_request'' ''invalid JSON body'', n)
   | Some req \<Rightarrow> (case he_decrypt env (wh_secret_encrypted row) of None \<Rightarrow> (internalError, n)
   | Some secret \<Rightarrow> (case applyWebhookUpdate (he_net env) row req secret of Inl m \<Rightarrow> (writeError 400 ''bad_request'' m, n)
   | Inr (row, secret) \<Rightarrow>
       on_node_db (UpdateWebhook (he_encrypt env) (he_now env) (wh_id row) (wh_name row) (wh_url row) secret (wh_events row) (wh_enabled row))
         (\<lambda>res n. case res of Inl e \<Rightarrow> (internalError, n)
         | Inr _ \<Rightarrow> on_node_db (GetWebhook (wh_id row)) (\<lambda>res n.
             let row = (case res of Inl e \<Rightarrow> zero_webhook | Inr w \<Rightarrow> w);
                 n = snd (emitEvent (he_now env) (he_event_uuid env) ''webhook.updated'' (wh_id row) (he_json env [(''name'', wh_name row)]) n)
             in (writeJSON 200 (webhookToResponse row),
                 node_audit (audit r ''webhook.update'' ''success'' ''webhook'' (wh_id row) ''webhook updated'') n)) n) n)))"

definition handleDeleteWebhook :: "hook_env \<Rightarrow> request \<Rightarrow> string \<Rightarrow> node \<Rightarrow> unit response \<times> node" where
  "handleDeleteWebhook env r wid = on_node_db (DeleteWebhook wid) (\<lambda>res n. case res of
     Inl e \<Rightarrow> (internalError, n)
   | Inr _ \<Rightarrow> (let n = snd (emitEvent (he_now env) (he_event_uuid env) ''webhook.deleted'' wid (he_json env []) n)
       in (noContent, node_audit (audit r ''webhook.delete'' ''success'' ''webhook'' wid ''webhook deleted'') n)))"

section \<open>One delivery\<close>

definition webhookSignature :: "hook_env \<Rightarrow> string \<Rightarrow> string \<Rightarrow> string" where
  "webhookSignature env secret body = ''sha256='' @ he_hmac env secret body"

text \<open>The redirects the client follows: \<open>via\<close> requests were made already.\<close>

definition webhook_CheckRedirect :: "net_env \<Rightarrow> nat \<Rightarrow> string \<Rightarrow> string + unit" where
  "webhook_CheckRedirect net via url =
     (if 3 \<le> via then Inl ''webhook redirect limit exceeded'' else validateWebhookURL net url)"

text \<open>Status code, response body and error of a delivery; the last two texts are of fixed form.\<close>

definition deliverWebhookWithClient ::
  "hook_env \<Rightarrow> string \<Rightarrow> string \<Rightarrow> string \<Rightarrow> int option \<times> string option \<times> string option" where
  "deliverWebhookWithClient env destURL secret body = (case validateWebhookURL (he_net env) destURL of
     Inl m \<Rightarrow> (None, None, Some m)
   | Inr _ \<Rightarrow> (case he_post env destURL (webhookSignature env secret body) body of
       Inl m \<Rightarrow> (None, None, Some m)
     | Inr (status, answer) \<Rightarrow>
         if 4096 < length answer then (Some (int status), None, Some ''webhook response body too large'')
         else if status < 200 \<or> 300 \<le> status
         then (Some (int status), Some answer, Some (''webhook returned status '' @ show_nat status))
         else (Some (int status), Some answer, None)))"

definition handleTestWebhook :: "hook_env \<Rightarrow> request \<Rightarrow> string \<Rightarrow> node \<Rightarrow> webhook_delivery_response response \<times> node" where
  "handleTestWebhook env r wid = webhook_lookup wid (\<lambda>row n.
     case emitEvent (he_now env) (he_event_uuid env) ''webhook.test'' (wh_id row) (he_json env [(''webhook_id'', wh_id row)]) n of
       (Inl e, n) \<Rightarrow> (internalError, n)
     | (Inr ev, n) \<Rightarrow> (case he_decrypt env (wh_secret_encrypted row) of None \<Rightarrow> (internalError, n)
     | Some secret \<Rightarrow> (case he_body env ev of None \<Rightarrow> (internalError, n)
     | Some body \<Rightarrow> (case deliverWebhookWithClient env (wh_url row) secret body of (statusCode, responseBody, deliveryErr) \<Rightarrow>
         let status = (if deliveryErr = None then outcomeSuccess else outcomeFailed) in
         on_node_db (CreateWebhookDelivery (he_now env) (he_delivery_uuid env)
           \<lparr>di_webhook_id = wh_id row, di_event_id = ev_id ev, di_event_type = ev_type ev, di_status = status,
            di_status_code = statusCode, di_response_body = responseBody, di_error = deliveryErr, di_attempt = 1\<rparr>)
         (\<lambda>res n. case res of Inl e \<Rightarrow> (internalError, n)
          | Inr de \<Rightarrow> (writeJSON 202 (webhookDeliveryToResponse de), node_audit (audit r ''webhook.test'' status ''webhook'' (wh_id row) ''webhook test delivery'') n)) n))))"

end
