(* ===== verification/Service.thy ===== *)
theory Service
  imports Prelude
begin

text \<open>
  The contract of a group of HTTP endpoints: each request, served in an environment it may come in, keeps the
  state valid.  Environments hold what a request reads from outside: the clock, random ids, the services the
  handlers call.
\<close>

locale service =
  fixes serve :: "'env \<Rightarrow> 'q \<Rightarrow> 's \<Rightarrow> 's" and comes_in :: "'q \<Rightarrow> 'env \<Rightarrow> bool" and valid :: "'s \<Rightarrow> bool"
  assumes serve_valid: "comes_in q env \<Longrightarrow> valid s \<Longrightarrow> valid (serve env q s)"
begin

lemma served_valid:
  assumes "\<And>env q. (env, q) \<in> set calls \<Longrightarrow> comes_in q env" "valid s"
  shows "valid (fold (\<lambda>(env, q). serve env q) calls s)"
  using assms
proof (induction calls arbitrary: s)
  case (Cons c calls)
  obtain env q where c: "c = (env, q)" by fastforce
  have "valid (serve env q s)" by (rule serve_valid) (simp_all add: c Cons.prems)
  then have "valid (fold (\<lambda>(env, q). serve env q) calls (serve env q s))"
    by (intro Cons.IH) (auto intro: Cons.prems(1))
  then show ?case by (simp add: c)
qed simp

lemma interleaved_valid:
  assumes "\<And>env q. (env, q) \<in> set (before @ after) \<Longrightarrow> comes_in q env" "valid s"
  shows "valid (fold (\<lambda>(env, q). serve env q) after (fold (\<lambda>(env, q). serve env q) before s))"
  using served_valid [of "before @ after" s] assms by simp

end

end
