(* ===== verification/Server_Webhooks_Props.thy ===== *)
theory Server_Webhooks_Props
  imports Server_Webhooks Service
begin

text \<open>
  What the webhook endpoints leave in the table of webhooks: the effect of a creation, and the rules every
  stored webhook satisfies after any sequence of requests.
\<close>

section \<open>The table of webhooks\<close>

definition hook_rows :: "(webhook \<Rightarrow> bool) \<Rightarrow> db \<Rightarrow> bool" where
  "hook_rows Q d \<longleftrightarrow> list_all Q (webhooks d)"

definition same_hooks :: "webhook list \<Rightarrow> db \<Rightarrow> bool" where
  "same_hooks ws d \<longleftrightarrow> webhooks d = ws"

lemma hook_preds [simp]: "data_pred (hook_rows Q)" "data_pred (same_hooks ws)"
  by (simp_all add: data_pred_def hook_rows_def same_hooks_def)

lemmas same_rules = keeps_rules [OF hook_preds(2)]
lemmas rows_rules = keeps_rules [OF hook_preds(1)]

lemma same_events:
  "keeps (same_hooks ws) (CreateEvent now uuid ty src sub data)" "keeps (same_hooks ws) (MarkEventOutboxDelivered now eid)"
  "keeps (same_hooks ws) (CreateWebhookDelivery now uuid a)" "keeps (same_hooks ws) (GetWebhook i)"
  "keeps (same_hooks ws) ListWebhooks"
  unfolding outbox_defs CreateEvent_def CreateWebhookDelivery_def trim_deliveries_def GetWebhook_def ListWebhooks_def one_row_def Let_def
  by (intro flow_rules same_rules; (simp add: same_hooks_def; fail)?)+

lemma same_subscriptions: "keeps (same_hooks ws) (insert_subscriptions wid tys)"
proof (induction tys)
  case (Cons ty tys)
  have "keeps (same_hooks ws) (insert_subscription wid ty)"
    unfolding insert_subscription_def by (rule same_rules) (simp add: same_hooks_def)
  then show ?case using Cons by (simp add: keeps_dbind)
qed (simp add: keeps_dret)

lemma same_replace: "keeps (same_hooks ws) (replaceWebhookEventSubscriptions wid evs)"
  unfolding replaceWebhookEventSubscriptions_def
  by (intro flow_rules same_rules same_subscriptions) (simp add: same_hooks_def)

lemma same_hooksD: "keeps (same_hooks (webhooks d)) m \<Longrightarrow> m d = (r, d') \<Longrightarrow> webhooks d' = webhooks d"
  using keepsD [of "same_hooks (webhooks d)" m d r d'] by (simp add: same_hooks_def)

text \<open>A predicate of the rows is kept by what leaves the table alone.\<close>

lemma rows_same: "(\<And>ws. keeps (same_hooks ws) m) \<Longrightarrow> keeps (hook_rows Q) m"
proof (rule keepsI)
  fix d r d' assume same: "\<And>ws. keeps (same_hooks ws) m" and "hook_rows Q d" "m d = (r, d')"
  then show "hook_rows Q d'" using same_hooksD [OF same] by (simp add: hook_rows_def)
qed

lemmas rows_events = same_events [THEN rows_same]

section \<open>Creating and updating rows\<close>

lemma store_webhook_rows:
  assumes "store_webhook now w d = (r, d')"
  shows "webhooks d' = (if isl r then webhooks d else webhooks d @ [w\<lparr>wh_created_at := to_unix now, wh_updated_at := to_unix now\<rparr>])
    \<and> (\<not> isl r \<longrightarrow> r = Inr w \<and> tget wh_id (wh_id w) (webhooks d) = None)"
proof (cases r)
  case (Inl e)
  then have "\<exists>fs. d' = d\<lparr>faults := fs\<rparr>" using assms unfolding store_webhook_def by (intro transaction_Inl) simp
  then show ?thesis using Inl by auto
next
  case (Inr x)
  let ?f = "\<lambda>d. if tget wh_id (wh_id w) (webhooks d) \<noteq> None then (Inl ErrUnique, d)
     else if tget u_id (wh_user_id w) (users d) = None then (Inl ErrForeignKey, d)
     else (Inr (), d\<lparr>webhooks := webhooks d @ [w\<lparr>wh_created_at := to_unix now, wh_updated_at := to_unix now\<rparr>]\<rparr>)"
  let ?m = "dbind (stmt ?f) (\<lambda>_. dbind (replaceWebhookEventSubscriptions (wh_id w) (wh_events w)) (\<lambda>_. dret w))"
  have "transaction ?m d = (Inr x, d')" using assms Inr by (simp add: store_webhook_def)
  from transaction_Inr [OF this] obtain fs fs' d2 where run: "?m (d\<lparr>faults := fs\<rparr>) = (Inr x, d2)" and d': "d' = d2\<lparr>faults := fs'\<rparr>"
    by blast
  from run obtain u d1 v where 1: "stmt ?f (d\<lparr>faults := fs\<rparr>) = (Inr u, d1)"
    and 2: "replaceWebhookEventSubscriptions (wh_id w) (wh_events w) d1 = (Inr v, d2)" and x: "x = w"
    unfolding dbind_Inr dret_def by blast
  have "webhooks d1 = webhooks d @ [w\<lparr>wh_created_at := to_unix now, wh_updated_at := to_unix now\<rparr>]
      \<and> tget wh_id (wh_id w) (webhooks d) = None"
  proof (cases rule: stmt_cases [of ?f "d\<lparr>faults := fs\<rparr>"])
    case (ok gs)
    with 1 have "?f (d\<lparr>faults := gs\<rparr>) = (Inr u, d1)" by simp
    then show ?thesis by (auto split: if_splits)
  qed (use 1 in simp)
  then show ?thesis using same_hooksD [OF same_replace 2] Inr x d' by simp
qed

lemma rewrite_webhook_rows:
  assumes "rewrite_webhook i evs f d = (r, d')"
  shows "webhooks d' = (if isl r then webhooks d
    else tupdate (\<lambda>r. wh_id r = i) (\<lambda>r. (f r)\<lparr>wh_id := wh_id r, wh_events := evs\<rparr>) (webhooks d))"
proof (cases r)
  case (Inl e)
  then have "\<exists>fs. d' = d\<lparr>faults := fs\<rparr>" using assms unfolding rewrite_webhook_def by (intro transaction_Inl) simp
  then show ?thesis using Inl by auto
next
  case (Inr x)
  let ?f = "\<lambda>d. d\<lparr>webhooks := tupdate (\<lambda>r. wh_id r = i) (\<lambda>r. (f r)\<lparr>wh_id := wh_id r, wh_events := evs\<rparr>) (webhooks d)\<rparr>"
  have "transaction (dbind (exec ?f) (\<lambda>_. replaceWebhookEventSubscriptions i evs)) d = (Inr x, d')"
    using assms Inr by (simp add: rewrite_webhook_def)
  from transaction_Inr [OF this] obtain fs fs' d2 where "dbind (exec ?f) (\<lambda>_. replaceWebhookEventSubscriptions i evs) (d\<lparr>faults := fs\<rparr>) = (Inr x, d2)"
    and d': "d' = d2\<lparr>faults := fs'\<rparr>" by blast
  then obtain u d1 where 1: "exec ?f (d\<lparr>faults := fs\<rparr>) = (Inr u, d1)" and 2: "replaceWebhookEventSubscriptions i evs d1 = (Inr x, d2)"
    unfolding dbind_Inr by blast
  from exec_Inr [OF 1] have "webhooks d1 = webhooks (?f d)" by auto
  then show ?thesis using same_hooksD [OF same_replace 2] Inr d' by simp
qed

section \<open>Handlers on a node\<close>

lemma on_node_db_cases:
  obtains r d' where "m (nd_db n) = (r, d')" "on_node_db m k n = k r (set_db d' n)"
  by (cases "m (nd_db n)") (simp add: on_node_db_def)

lemma nd_audit [simp]: "nd_db (node_audit (audit r a o1 t s msg) n) = nd_db n"
  by (simp add: node_audit_def nd_db_def audit_def auditForUser_def auditForUserWithPolicyReason_def
      auditForAnonymous_def auditForActorWithPolicyReason_def Let_def split: option.split)

lemma on_node_db_same:
  assumes "\<And>ws. keeps (same_hooks ws) m" "\<And>r n'. webhooks (nd_db n') = webhooks (nd_db n) \<Longrightarrow> webhooks (nd_db (snd (k r n'))) = webhooks (nd_db n)"
  shows "webhooks (nd_db (snd (on_node_db m k n))) = webhooks (nd_db n)"
proof (rule on_node_db_cases [of m n k])
  fix r d' assume run: "m (nd_db n) = (r, d')" and eq: "on_node_db m k n = k r (set_db d' n)"
  have "webhooks d' = webhooks (nd_db n)" by (rule same_hooksD [OF assms(1) run])
  then show ?thesis using assms(2) [of "set_db d' n" r] eq by simp
qed

lemma emit_same [simp]: "webhooks (nd_db (snd (emitEvent now uuid ty subject data n))) = webhooks (nd_db n)"
  unfolding emitEvent_def
  by (rule on_node_db_same [OF same_events(1)])
    (auto simp: enqueueWebhookEvent_def Let_def intro: on_node_db_same [OF same_events(2), THEN trans] split: sum.split)

lemma webhook_created_node [simp]:
  "webhooks (nd_db (snd (webhook_created env r row n))) = webhooks (nd_db n)"
  "fst (webhook_created env r row n) = writeJSON 201 (webhookToResponse row)"
  by (simp_all add: webhook_created_def Let_def)

section \<open>Creating a webhook\<close>

text \<open>The row a creation request asks for, apart from id, times and the enabled flag.\<close>

definition requested_row :: "hook_env \<Rightarrow> user \<Rightarrow> create_webhook_request \<Rightarrow> webhook \<Rightarrow> bool" where
  "requested_row env u req w \<longleftrightarrow> wh_user_id w = u_id u \<and>
     wh_name w = trim_space (cw_name req) \<and> wh_name w \<noteq> '''' \<and>
     wh_url w = trim_space (cw_url req) \<and> validateWebhookURL (he_net env) (wh_url w) = Inr () \<and>
     16 \<le> length (cw_secret req) \<and> length (cw_secret req) \<le> 512 \<and>
     he_encrypt env (cw_secret req) = Some (wh_secret_encrypted w) \<and>
     ValidateWebhookEvents (cw_events req) = Inr (wh_events w)"

lemma validateWebhookSecret_Inr: "validateWebhookSecret s = Inr u \<longleftrightarrow> 16 \<le> length s \<and> length s \<le> 512"
  by (auto simp: validateWebhookSecret_def)

lemma Validate_again: "ValidateWebhookEvents es = Inr evs \<Longrightarrow> ValidateWebhookEvents evs = Inr evs"
  using normalize_twice [of es] by (auto simp: ValidateWebhookEvents_def Let_def split: if_splits)

lemma CreateWebhook_rows:
  assumes "CreateWebhook enc now uuid uid name url secret evs d = (r, d')"
  shows "case r of Inl e \<Rightarrow> webhooks d' = webhooks d
   | Inr w \<Rightarrow> tget wh_id (wh_id w) (webhooks d) = None \<and>
      webhooks d' = webhooks d @ [w\<lparr>wh_created_at := to_unix now, wh_updated_at := to_unix now\<rparr>] \<and>
      wh_user_id w = uid \<and> wh_name w = name \<and> wh_url w = url \<and> wh_enabled w \<and>
      enc secret = Some (wh_secret_encrypted w) \<and> ValidateWebhookEvents evs = Inr (wh_events w)"
proof (cases "\<exists>i es c. uuid = Some i \<and> ValidateWebhookEvents evs = Inr es \<and> enc secret = Some c")
  case False
  then show ?thesis using assms
    by (auto simp: CreateWebhook_def with_uuid_def dfail_def split: option.splits sum.splits)
next
  case True
  then obtain i es c where i: "uuid = Some i" "ValidateWebhookEvents evs = Inr es" "enc secret = Some c" by blast
  then show ?thesis
    using assms store_webhook_rows [of now _ d r d']
    by (fastforce simp: CreateWebhook_def with_uuid_def split: sum.split)
qed

lemma UpdateWebhook_rows:
  assumes "UpdateWebhook enc now i name url secret evs enabled d = (r, d')"
  shows "case r of Inl e \<Rightarrow> webhooks d' = webhooks d
   | Inr _ \<Rightarrow> \<exists>es c. ValidateWebhookEvents evs = Inr es \<and> enc secret = Some c \<and>
      webhooks d' = tupdate (\<lambda>r. wh_id r = i) (\<lambda>r. r\<lparr>wh_name := name, wh_url := url, wh_secret_encrypted := c,
        wh_enabled := enabled, wh_updated_at := to_unix now, wh_events := es\<rparr>) (webhooks d)"
proof (cases "\<exists>es c. ValidateWebhookEvents evs = Inr es \<and> enc secret = Some c")
  case False
  then show ?thesis using assms
    by (auto simp: UpdateWebhook_def dfail_def split: option.splits sum.splits)
next
  case True
  then obtain es c where es: "ValidateWebhookEvents evs = Inr es" "enc secret = Some c" by blast
  then show ?thesis
    using assms rewrite_webhook_rows [of i es _ d r d']
    by (fastforce simp: UpdateWebhook_def split: sum.split)
qed

lemma tupdate_last:
  "tget key k rows = None \<Longrightarrow> key w = k \<Longrightarrow> tupdate (\<lambda>r. key r = k) f (rows @ [w]) = rows @ [f w]"
  by (auto simp: tupdate_def tget_None intro!: map_idI)

lemma webhook_created_result:
  "(resp, n') = webhook_created env r row n \<Longrightarrow> webhooks (nd_db n') = webhooks (nd_db n) \<and> rs_status resp = 201"
  by (metis snd_conv fst_conv webhook_created_node response_simps(1))

lemma create_webhook_store:
  fixes n :: node
  assumes user: "rq_user r = Some u" and name: "trim_space (cw_name req) \<noteq> ''''"
    and url: "validateWebhookURL (he_net env) (trim_space (cw_url req)) = Inr ()"
    and secret: "16 \<le> length (cw_secret req)" "length (cw_secret req) \<le> 512"
    and run: "on_node_db (CreateWebhook (he_encrypt env) (he_now env) (he_uuid env) (u_id u) (trim_space (cw_name req))
        (trim_space (cw_url req)) (cw_secret req) (cw_events req))
      (\<lambda>res n. case res of Inl e \<Rightarrow> (internalError, n)
         | Inr row \<Rightarrow>
             if cw_enabled req = Some False then
               on_node_db (UpdateWebhook (he_encrypt env) (he_now env) (wh_id row) (wh_name row) (wh_url row) (cw_secret req) (wh_events row) False)
                 (\<lambda>res n. case res of Inl e \<Rightarrow> (internalError, n)
                 | Inr _ \<Rightarrow> webhook_created env r (row\<lparr>wh_enabled := False\<rparr>) n) n
             else webhook_created env r row n) n = (resp, n')"
  shows "rs_status resp = 500 \<and> webhooks (nd_db n') = webhooks (nd_db n) \<or>
    (\<exists>w. webhooks (nd_db n') = webhooks (nd_db n) @ [w] \<and> requested_row env u req w \<and>
       (rs_status resp = 201 \<and> wh_enabled w = (cw_enabled req \<noteq> Some False) \<or>
        rs_status resp = 500 \<and> cw_enabled req = Some False \<and> wh_enabled w))"
proof -
  obtain res d1 where create: "CreateWebhook (he_encrypt env) (he_now env) (he_uuid env) (u_id u) (trim_space (cw_name req))
      (trim_space (cw_url req)) (cw_secret req) (cw_events req) (nd_db n) = (res, d1)" by fastforce
  note rows = CreateWebhook_rows [OF create]
  show ?thesis
  proof (cases res)
    case (Inl e)
    then show ?thesis using run rows create by (auto simp: on_node_db_def)
  next
    case (Inr row)
    let ?w = "row\<lparr>wh_created_at := to_unix (he_now env), wh_updated_at := to_unix (he_now env)\<rparr>"
    from rows Inr have fresh: "tget wh_id (wh_id row) (webhooks (nd_db n)) = None"
      and d1: "webhooks d1 = webhooks (nd_db n) @ [?w]" and en: "wh_enabled row"
      and enc: "he_encrypt env (cw_secret req) = Some (wh_secret_encrypted row)"
      and evs: "ValidateWebhookEvents (cw_events req) = Inr (wh_events row)"
      and fields: "wh_user_id row = u_id u" "wh_name row = trim_space (cw_name req)" "wh_url row = trim_space (cw_url req)"
      by simp_all
    have w: "requested_row env u req ?w"
      using name url secret enc evs fields by (simp add: requested_row_def)
    show ?thesis
    proof (cases "cw_enabled req = Some False")
      case False
      then have "(resp, n') = webhook_created env r row (set_db d1 n)"
        using run create Inr by (simp add: on_node_db_def)
      then have "webhooks (nd_db n') = webhooks d1 \<and> rs_status resp = 201" by (auto dest: webhook_created_result)
      then show ?thesis using False w d1 en by (intro disjI2 exI [of _ ?w]) simp
    next
      case True
      obtain res2 d2 where upd: "UpdateWebhook (he_encrypt env) (he_now env) (wh_id row) (wh_name row) (wh_url row) (cw_secret req)
          (wh_events row) False d1 = (res2, d2)" by fastforce
      note rows2 = UpdateWebhook_rows [OF upd]
      show ?thesis
      proof (cases res2)
        case (Inl e)
        then have "webhooks (nd_db n') = webhooks d1" "rs_status resp = 500"
          using run create Inr True upd rows2 by (auto simp: on_node_db_def)
        then show ?thesis using True w d1 en by (intro disjI2 exI [of _ ?w]) simp
      next
        case (Inr v)
        let ?w2 = "?w\<lparr>wh_enabled := False\<rparr>"
        have "webhooks d2 = webhooks (nd_db n) @ [?w2]"
          using rows2 Inr enc Validate_again [OF evs] tupdate_last [OF fresh, of ?w] d1 by auto
        moreover have "(resp, n') = webhook_created env r (row\<lparr>wh_enabled := False\<rparr>) (set_db d2 n)"
          using run create \<open>res = Inr row\<close> upd Inr True by (simp add: on_node_db_def)
        then have "webhooks (nd_db n') = webhooks d2 \<and> rs_status resp = 201" by (auto dest: webhook_created_result)
        moreover have "requested_row env u req ?w2" using w by (auto simp: requested_row_def)
        ultimately show ?thesis using True by (intro disjI2 exI [of _ ?w2]) simp
      qed
    qed
  qed
qed

lemma create_webhook_effect:
  assumes "handleCreateWebhook env r body n = (resp, n')"
  shows "rs_status resp \<in> {400, 401, 500} \<and> webhooks (nd_db n') = webhooks (nd_db n) \<or>
    (\<exists>req u w. body = Some req \<and> rq_user r = Some u \<and> webhooks (nd_db n') = webhooks (nd_db n) @ [w] \<and>
       requested_row env u req w \<and>
       (rs_status resp = 201 \<and> wh_enabled w = (cw_enabled req \<noteq> Some False) \<or>
        rs_status resp = 500 \<and> cw_enabled req = Some False \<and> wh_enabled w))"
proof (cases "\<exists>req u. body = Some req \<and> rq_user r = Some u \<and> trim_space (cw_name req) \<noteq> '''' \<and> trim_space (cw_url req) \<noteq> '''' \<and>
    cw_secret req \<noteq> '''' \<and> validateWebhookSecret (cw_secret req) = Inr () \<and> cw_events req \<noteq> [] \<and>
    (\<exists>es. ValidateWebhookEvents (cw_events req) = Inr es) \<and> validateWebhookURL (he_net env) (trim_space (cw_url req)) = Inr ()")
  case True
  then obtain req u es where ok: "body = Some req" "rq_user r = Some u" "trim_space (cw_name req) \<noteq> ''''" "trim_space (cw_url req) \<noteq> ''''"
    "cw_secret req \<noteq> ''''" "validateWebhookSecret (cw_secret req) = Inr ()" "cw_events req \<noteq> []"
    "ValidateWebhookEvents (cw_events req) = Inr es" "validateWebhookURL (he_net env) (trim_space (cw_url req)) = Inr ()" by blast
  then have len: "16 \<le> length (cw_secret req)" "length (cw_secret req) \<le> 512" by (simp_all add: validateWebhookSecret_Inr)
  show ?thesis
    using assms create_webhook_store [OF ok(2,3,9) len, of n resp n']
    unfolding handleCreateWebhook_def Let_def ok option.case sum.case by (auto simp: ok)
next
  case False
  then show ?thesis using assms
    by (auto simp: handleCreateWebhook_def Let_def split: option.splits if_splits sum.splits)
qed

text \<open>
  A creation request either leaves the webhooks as they were, answering 400, 401 or 500, or adds
  exactly one webhook: the one asked for, owned by the caller, with a name, a URL that passed the check, a
  secret of 16 to 512 bytes stored encrypted, and accepted patterns.  The answer is then 201 and the webhook
  enabled as asked; but when it was asked for disabled and the second transaction failed, the answer is 500
  and an enabled webhook stays.
\<close>

theorem create_webhook_sound:
  assumes "handleCreateWebhook env r body n = (resp, n')"
  shows "rs_status resp \<in> {400, 401, 500} \<and> webhooks (nd_db n') = webhooks (nd_db n) \<or>
    (\<exists>req u w. body = Some req \<and> rq_user r = Some u \<and> webhooks (nd_db n') = webhooks (nd_db n) @ [w] \<and>
       requested_row env u req w \<and>
       (rs_status resp = 201 \<and> wh_enabled w = (cw_enabled req \<noteq> Some False) \<or>
        rs_status resp = 500 \<and> cw_enabled req = Some False \<and> wh_enabled w))"
  using assms by (rule create_webhook_effect)

section \<open>Every stored webhook is valid\<close>

text \<open>\<open>dec\<close> is the decryption of secrets, \<open>parse\<close> is \<open>url.Parse\<close>.\<close>

definition https_url :: "(string \<Rightarrow> (string \<times> string) option) \<Rightarrow> string \<Rightarrow> bool" where
  "https_url parse url = (case parse url of None \<Rightarrow> False | Some (scheme, host) \<Rightarrow> scheme = ''https'' \<and> host \<noteq> '''')"

definition hook_ok :: "(string \<Rightarrow> string option) \<Rightarrow> (string \<Rightarrow> (string \<times> string) option) \<Rightarrow> webhook \<Rightarrow> bool" where
  "hook_ok dec parse w \<longleftrightarrow> wh_name w \<noteq> '''' \<and> trim_space (wh_name w) = wh_name w \<and>
     https_url parse (wh_url w) \<and>
     ValidateWebhookEvents (wh_events w) = Inr (wh_events w) \<and>
     (case dec (wh_secret_encrypted w) of None \<Rightarrow> False | Some s \<Rightarrow> 16 \<le> length s \<and> length s \<le> 512)"

definition same_world :: "(string \<Rightarrow> string option) \<Rightarrow> (string \<Rightarrow> (string \<times> string) option) \<Rightarrow> hook_env \<Rightarrow> bool" where
  "same_world dec parse env \<longleftrightarrow> he_decrypt env = dec \<and> ne_parse (he_net env) = parse \<and>
     (\<forall>s c. he_encrypt env s = Some c \<longrightarrow> dec c = Some s)"

datatype hook_request =
    HookList
  | HookCreate request "create_webhook_request option"
  | HookGet string
  | HookUpdate request string "update_webhook_request option"
  | HookDelete request string
  | HookTest request string

fun serve_hook :: "hook_env \<Rightarrow> hook_request \<Rightarrow> node \<Rightarrow> node" where
  "serve_hook env HookList n = snd (handleListWebhooks n)"
| "serve_hook env (HookCreate r body) n = snd (handleCreateWebhook env r body n)"
| "serve_hook env (HookGet i) n = snd (handleGetWebhook i n)"
| "serve_hook env (HookUpdate r i body) n = snd (handleUpdateWebhook env r i body n)"
| "serve_hook env (HookDelete r i) n = snd (handleDeleteWebhook env r i n)"
| "serve_hook env (HookTest r i) n = snd (handleTestWebhook env r i n)"

definition serve_hooks :: "(hook_env \<times> hook_request) list \<Rightarrow> node \<Rightarrow> node" where
  "serve_hooks calls n = fold (\<lambda>(env, q). serve_hook env q) calls n"

lemma validateWebhookURL_https:
  "validateWebhookURL net url = Inr u \<Longrightarrow> https_url (ne_parse net) url"
  by (auto simp: validateWebhookURL_def https_url_def split: option.splits prod.splits if_splits)

lemma requested_ok:
  "requested_row env u req w \<Longrightarrow> same_world dec parse env \<Longrightarrow> hook_ok dec parse w"
  unfolding requested_row_def hook_ok_def same_world_def
  by (auto dest: validateWebhookURL_https intro: Validate_again)

text \<open>The row and secret an accepted update stores.\<close>

lemma applyWebhookUpdate_ok:
  assumes old: "hook_ok dec parse row" and parse: "ne_parse net = parse"
    and run: "applyWebhookUpdate net row req secret = Inr (row', secret')"
  shows "wh_id row' = wh_id row \<and> wh_name row' \<noteq> '''' \<and> trim_space (wh_name row') = wh_name row' \<and>
     https_url parse (wh_url row') \<and>
     16 \<le> length secret' \<and> length secret' \<le> 512"
proof -
  let ?row = "case uw_name req of None \<Rightarrow> row | Some v \<Rightarrow> row\<lparr>wh_name := trim_space v\<rparr>"
  let ?row = "case uw_url req of None \<Rightarrow> ?row | Some v \<Rightarrow> ?row\<lparr>wh_url := trim_space v\<rparr>"
  have names: "wh_id ?row = wh_id row" "trim_space (wh_name ?row) = wh_name ?row"
    using old by (auto simp: hook_ok_def split: option.split)
  have url: "https_url parse (wh_url ?row)"
    if "(if uw_url req = None then Inr () else validateWebhookURL net (wh_url ?row)) = Inr ()"
    using that old parse validateWebhookURL_https [of net "wh_url ?row" "()"]
    by (cases "uw_url req") (auto simp: hook_ok_def split: option.split)
  from run obtain ok: "(if uw_url req = None then Inr () else validateWebhookURL net (wh_url ?row)) = Inr ()"
    and row': "wh_id row' = wh_id ?row" "wh_name row' = wh_name ?row" "wh_url row' = wh_url ?row" "wh_name row' \<noteq> ''''"
    and secret': "validateWebhookSecret secret' = Inr ()"
    unfolding applyWebhookUpdate_def Let_def
    by (cases "if uw_url req = None then Inr () else validateWebhookURL net (wh_url ?row)")
      (auto simp: Let_def split: sum.splits if_splits option.splits)
  then show ?thesis using names url by (simp add: validateWebhookSecret_Inr)
qed

lemma GetWebhook_Inr:
  assumes "GetWebhook i d = (Inr row, d')"
  shows "\<exists>r \<in> set (webhooks d). row = scan_webhook r"
proof -
  from assms obtain x d1 where q: "query (\<lambda>d. tget wh_id i (webhooks d)) d = (Inr x, d1)" and o: "one_row scan_webhook x d1 = (Inr row, d')"
    unfolding GetWebhook_def dbind_Inr by blast
  from query_Inr [OF q] have "x = tget wh_id i (webhooks d)" by auto
  then show ?thesis using o tget_Some by (cases x) (force simp: one_row_def dret_def dfail_def)+
qed

lemma hook_ok_scan [simp]: "hook_ok dec parse (scan_webhook r) = hook_ok dec parse r"
  by (simp add: hook_ok_def scan_webhook_def)

text \<open>What a handler does to the rows, by cases on its database calls.\<close>

lemma rows_lookup:
  assumes ok: "list_all Q (webhooks (nd_db n))"
    and found: "\<And>r n'. r \<in> set (webhooks (nd_db n)) \<Longrightarrow> webhooks (nd_db n') = webhooks (nd_db n) \<Longrightarrow>
      list_all Q (webhooks (nd_db (snd (k (scan_webhook r) n'))))"
  shows "list_all Q (webhooks (nd_db (snd (webhook_lookup wid k n))))"
  unfolding webhook_lookup_def
proof (rule on_node_db_cases [of "GetWebhook wid" n])
  fix r d' assume run: "GetWebhook wid (nd_db n) = (r, d')"
    and eq: "on_node_db (GetWebhook wid) (\<lambda>res n. case res of
     Inl e \<Rightarrow> if e = ErrNotFound then (writeError 404 ''not_found'' ''webhook not found'', n) else (internalError, n)
   | Inr row \<Rightarrow> k row n) n = (case r of
     Inl e \<Rightarrow> if e = ErrNotFound then (writeError 404 ''not_found'' ''webhook not found'', set_db d' n) else (internalError, set_db d' n)
   | Inr row \<Rightarrow> k row (set_db d' n))"
  have same: "webhooks d' = webhooks (nd_db n)" by (rule same_hooksD [OF same_events(4) run])
  show "list_all Q (webhooks (nd_db (snd (on_node_db (GetWebhook wid) (\<lambda>res n. case res of
     Inl e \<Rightarrow> if e = ErrNotFound then (writeError 404 ''not_found'' ''webhook not found'', n) else (internalError, n)
   | Inr row \<Rightarrow> k row n) n))))"
  proof (cases r)
    case (Inr row)
    then obtain x where "x \<in> set (webhooks (nd_db n))" "row = scan_webhook x" using GetWebhook_Inr run by blast
    then show ?thesis using eq Inr found [of x "set_db d' n"] same by simp
  qed (use eq same ok in simp)
qed

lemma rows_create:
  assumes "same_world dec parse env" "list_all (hook_ok dec parse) (webhooks (nd_db n))"
  shows "list_all (hook_ok dec parse) (webhooks (nd_db (snd (handleCreateWebhook env r body n))))"
proof -
  obtain resp n' where run: "handleCreateWebhook env r body n = (resp, n')" by fastforce
  from create_webhook_effect [OF run] show ?thesis using assms requested_ok run by fastforce
qed

lemma rows_stored_update:
  assumes world: "same_world dec parse env" and ok: "list_all (hook_ok dec parse) (webhooks d)"
    and name: "name \<noteq> ''''" "trim_space name = name" and url: "https_url parse url"
    and secret: "16 \<le> length secret" "length secret \<le> 512"
    and run: "UpdateWebhook (he_encrypt env) now i name url secret evs enabled d = (r, d')"
  shows "list_all (hook_ok dec parse) (webhooks d')"
proof (cases r)
  case (Inl e)
  then show ?thesis using UpdateWebhook_rows [OF run] ok by simp
next
  case (Inr v)
  then obtain es c where es: "ValidateWebhookEvents evs = Inr es" and c: "he_encrypt env secret = Some c"
    and rows: "webhooks d' = tupdate (\<lambda>r. wh_id r = i) (\<lambda>r. r\<lparr>wh_name := name, wh_url := url, wh_secret_encrypted := c,
        wh_enabled := enabled, wh_updated_at := to_unix now, wh_events := es\<rparr>) (webhooks d)"
    using UpdateWebhook_rows [OF run] by auto
  have "dec c = Some secret" using world c by (simp add: same_world_def)
  then show ?thesis
    using ok name url secret Validate_again [OF es] by (auto simp: rows list_all_iff set_tupdate hook_ok_def)
qed

lemma rows_update:
  assumes world: "same_world dec parse env" and ok: "list_all (hook_ok dec parse) (webhooks (nd_db n))"
  shows "list_all (hook_ok dec parse) (webhooks (nd_db (snd (handleUpdateWebhook env r wid body n))))"
  unfolding handleUpdateWebhook_def
proof (rule rows_lookup [OF ok], goal_cases)
  case (1 x n')
  have old: "hook_ok dec parse (scan_webhook x)" using 1 ok by (simp add: list_all_iff)
  have ok': "list_all (hook_ok dec parse) (webhooks (nd_db n'))" using ok 1 by simp
  show ?case
  proof (cases "\<exists>req secret row' secret'. body = Some req \<and> he_decrypt env (wh_secret_encrypted (scan_webhook x)) = Some secret \<and>
      applyWebhookUpdate (he_net env) (scan_webhook x) req secret = Inr (row', secret')")
    case False
    then show ?thesis using ok' by (auto split: option.split sum.split)
  next
    case True
    then obtain req secret row' secret' where body: "body = Some req"
      and dec: "he_decrypt env (wh_secret_encrypted (scan_webhook x)) = Some secret"
      and upd: "applyWebhookUpdate (he_net env) (scan_webhook x) req secret = Inr (row', secret')" by blast
    obtain res d2 where run: "UpdateWebhook (he_encrypt env) (he_now env) (wh_id row') (wh_name row') (wh_url row') secret'
        (wh_events row') (wh_enabled row') (nd_db n') = (res, d2)" by fastforce
    have parse: "ne_parse (he_net env) = parse" using world by (simp add: same_world_def)
    have rows: "list_all (hook_ok dec parse) (webhooks d2)"
      using applyWebhookUpdate_ok [OF old parse upd] by (intro rows_stored_update [OF world ok' _ _ _ _ _ run]) simp_all
    let ?after = "\<lambda>res n. let row = (case res of Inl e \<Rightarrow> zero_webhook | Inr w \<Rightarrow> w);
                 n = snd (emitEvent (he_now env) (he_event_uuid env) ''webhook.updated'' (wh_id row) (he_json env [(''name'', wh_name row)]) n)
             in (writeJSON 200 (webhookToResponse row),
                 node_audit (audit r ''webhook.update'' ''success'' ''webhook'' (wh_id row) ''webhook updated'') n)"
    have "webhooks (nd_db (snd (on_node_db (GetWebhook (wh_id row')) ?after (set_db d2 n')))) = webhooks (nd_db (set_db d2 n'))"
      by (rule on_node_db_same [OF same_events(4)]) (simp add: Let_def)
    then show ?thesis
      using rows run by (simp add: body dec upd on_node_db_def [of "UpdateWebhook _ _ _ _ _ _ _ _"] split: sum.split)
  qed
qed

lemma rows_delete:
  assumes "list_all Q (webhooks (nd_db n))"
  shows "list_all Q (webhooks (nd_db (snd (handleDeleteWebhook env r wid n))))"
proof -
  have kept: "keeps (hook_rows Q) (DeleteWebhook wid)"
    unfolding DeleteWebhook_def by (rule rows_rules) (auto simp: hook_rows_def list_all_iff)
  obtain res d' where run: "DeleteWebhook wid (nd_db n) = (res, d')" by fastforce
  have "list_all Q (webhooks d')" using keepsD [OF kept run] assms by (simp add: hook_rows_def)
  then show ?thesis using run by (simp add: handleDeleteWebhook_def on_node_db_def Let_def split: sum.split)
qed

lemma test_same: "webhooks (nd_db (snd (on_node_db (CreateWebhookDelivery now uuid a) (\<lambda>res n. case res of Inl e \<Rightarrow> (internalError, n)
    | Inr de \<Rightarrow> (p de, node_audit (audit r x y t s m) n)) n))) = webhooks (nd_db n)"
  by (rule on_node_db_same [OF same_events(3)]) (simp split: sum.split)

lemma rows_test:
  assumes ok: "list_all Q (webhooks (nd_db n))"
  shows "list_all Q (webhooks (nd_db (snd (handleTestWebhook env r wid n))))"
  unfolding handleTestWebhook_def
proof (rule rows_lookup [OF ok], goal_cases)
  case (1 x n')
  obtain res n2 where emit: "emitEvent (he_now env) (he_event_uuid env) ''webhook.test'' (wh_id (scan_webhook x))
      (he_json env [(''webhook_id'', wh_id (scan_webhook x))]) n' = (res, n2)" by fastforce
  then have "webhooks (nd_db n2) = webhooks (nd_db n)"
    using emit_same [of "he_now env" "he_event_uuid env" "''webhook.test''" "wh_id (scan_webhook x)"
        "he_json env [(''webhook_id'', wh_id (scan_webhook x))]" n'] 1 by simp
  then show ?case using ok emit
    by (auto simp: Let_def test_same split: sum.split option.split prod.split)
qed

lemma serve_hook_ok:
  assumes "same_world dec parse env" "list_all (hook_ok dec parse) (webhooks (nd_db n))"
  shows "list_all (hook_ok dec parse) (webhooks (nd_db (serve_hook env q n)))"
proof (cases q)
  case HookList
  have "webhooks (nd_db (snd (handleListWebhooks n))) = webhooks (nd_db n)"
    unfolding handleListWebhooks_def by (rule on_node_db_same [OF same_events(5)]) (simp split: sum.split)
  then show ?thesis using HookList assms(2) by simp
next
  case (HookGet i)
  have "list_all (hook_ok dec parse) (webhooks (nd_db (snd (handleGetWebhook i n))))"
    unfolding handleGetWebhook_def by (rule rows_lookup [OF assms(2)]) (simp add: assms(2))
  then show ?thesis using HookGet by simp
qed (use assms rows_create rows_update rows_delete rows_test in simp_all)

interpretation hooks: service serve_hook "\<lambda>_. same_world dec parse" "\<lambda>n. list_all (hook_ok dec parse) (webhooks (nd_db n))" for dec parse
  by unfold_locales (rule serve_hook_ok)

lemma serve_hooks_ok:
  assumes "\<forall>(env, q) \<in> set calls. same_world dec parse env" "list_all (hook_ok dec parse) (webhooks (nd_db n))"
  shows "list_all (hook_ok dec parse) (webhooks (nd_db (serve_hooks calls n)))"
  using assms hooks.served_valid [of calls dec parse n] by (auto simp: serve_hooks_def)

text \<open>
  Whatever sequence of requests the webhook endpoints serve, with whatever database failures, network
  answers and random values, every stored webhook has a trimmed nonempty name, an https URL with a host, a
  nonempty normalised list of accepted patterns and a secret that decrypts to 16 to 512 bytes.
\<close>

theorem webhook_rows_valid:
  assumes "\<forall>(env, q) \<in> set calls. same_world dec parse env" "list_all (hook_ok dec parse) (webhooks (nd_db n))"
  shows "list_all (hook_ok dec parse) (webhooks (nd_db (serve_hooks calls n)))"
  using assms by (rule serve_hooks_ok)

section \<open>Examples\<close>

definition demo_hook_net :: net_env where
  "demo_hook_net = \<lparr>ne_parse = (\<lambda>raw. map_option (\<lambda>h. (''https'', h)) (cut_prefix raw ''https://'')),
     ne_parse_ip = (\<lambda>h. None), ne_lookup = (\<lambda>h. Some [ip6 [0x2a00, 1]]), ne_split_host_port = (\<lambda>a. None)\<rparr>"

definition demo_hook_env :: hook_env where
  "demo_hook_env = \<lparr>he_now = 5 * second, he_uuid = Some ''w9'', he_event_uuid = Some ''e9'', he_delivery_uuid = Some ''d9'',
     he_encrypt = (\<lambda>s. Some (''enc:'' @ s)), he_decrypt = (\<lambda>c. cut_prefix c ''enc:''), he_net = demo_hook_net,
     he_json = (\<lambda>fs. Some ''{}''), he_body = (\<lambda>e. Some ''{}''), he_hmac = (\<lambda>k b. k),
     he_post = (\<lambda>url sig b. Inr (204, ''''))\<rparr>"

definition demo_create :: create_webhook_request where
  "demo_create = \<lparr>cw_name = '' new '', cw_url = ''https://new.example'', cw_secret = ''0123456789abcdef'',
     cw_events = [''user.''], cw_enabled = Some False\<rparr>"

definition demo_node :: "bool list \<Rightarrow> node" where
  "demo_node fs = \<lparr>nd_server = \<lparr>sv_db = demo_hooks\<lparr>faults := fs\<rparr>, sv_user_limiter = NewRateLimiter 5 (15 * minute),
     sv_ip_limiter = NewRateLimiter 20 (15 * minute), sv_mfa = Map.empty, sv_audit = [],
     sv_setup_token = None, sv_schedule_token = None\<rparr>, nd_hub = [], nd_wake = False\<rparr>"

definition demo_admin_request :: request where
  "demo_admin_request = \<lparr>rq_method = ''POST'', rq_path = ''/api/v1/webhooks'', rq_uri = ''/api/v1/webhooks'',
     rq_source_ip = ''192.0.2.1'', rq_cookie = None, rq_authorization = '''', rq_schedule_token = '''',
     rq_user = Some \<lparr>u_id = 1, u_username = ''admin'', u_password_hash = ''h'', u_is_admin = True, u_incus_project = '''', u_created_at = 0\<rparr>,
     rq_scopes = None, rq_jwt_id = None, rq_runner = False\<rparr>"

lemma demo_url_accepted: "validateWebhookURL demo_hook_net ''https://new.example'' = Inr ()"
  by code_simp

theorem create_webhook_sound_witness:
  "case handleCreateWebhook demo_hook_env demo_admin_request (Some demo_create) (demo_node []) of (resp, n') \<Rightarrow>
     \<exists>w. webhooks (nd_db n') = webhooks demo_hooks @ [w] \<and> wh_name w = ''new'' \<and> \<not> wh_enabled w"
proof -
  obtain resp n' where run: "handleCreateWebhook demo_hook_env demo_admin_request (Some demo_create) (demo_node []) = (resp, n')"
    by fastforce
  have "rs_status (fst (handleCreateWebhook demo_hook_env demo_admin_request (Some demo_create) (demo_node []))) = 201" by code_simp
  then have "rs_status resp = 201" by (simp add: run)
  moreover have "webhooks (nd_db (demo_node [])) = webhooks demo_hooks" by (simp add: demo_node_def nd_db_def)
  moreover have "trim_space '' new '' = ''new''" by code_simp
  ultimately show ?thesis using create_webhook_sound [OF run] run by (auto simp: requested_row_def demo_create_def)
qed

text \<open>The second transaction fails: the answer is 500, and the webhook that was asked for disabled is enabled.\<close>

theorem create_disabled_left_enabled:
  "case handleCreateWebhook demo_hook_env demo_admin_request (Some demo_create) (demo_node (replicate 5 False @ [True])) of (resp, n') \<Rightarrow>
     (rs_status resp, map (\<lambda>w. (wh_name w, wh_enabled w)) (webhooks (nd_db n')))
       = (500, [(''ci'', True), (''ops'', True), (''new'', True)])"
  by code_simp

theorem webhook_rows_valid_witness:
  "list_all (hook_ok (he_decrypt demo_hook_env) (ne_parse demo_hook_net)) (webhooks (nd_db (serve_hooks
     [(demo_hook_env, HookCreate demo_admin_request (Some demo_create)),
      (demo_hook_env, HookUpdate demo_admin_request ''w9'' (Some \<lparr>uw_name = Some ''x'', uw_url = None, uw_secret = Some ''short'',
         uw_events = None, uw_enabled = Some True\<rparr>)),
      (demo_hook_env, HookDelete demo_admin_request ''w1'')]
     ((demo_node [])\<lparr>nd_server := (nd_server (demo_node []))\<lparr>sv_db := demo_hooks\<lparr>webhooks := []\<rparr>\<rparr>\<rparr>))))"
  by (rule webhook_rows_valid)
    (auto simp: same_world_def demo_hook_env_def cut_prefix_append [of "''enc:''", simplified] nd_db_def)

end
