(* ===== verification/Systemd_Units.thy ===== *)
theory Systemd_Units
  imports Go_Text
begin

text \<open>
  Package \<open>systemd\<close>: rendering the units of a schedule, the manager that stages them
  (\<open>systemd/schedules.go\<close>), and the privileged helper that installs them (\<open>systemd/unit_linker.go\<close>).

  \<open>host\<close> is the file system as far as these functions look at it, by path, and the log of the
  \<open>systemctl\<close> commands that succeeded.  Every call of the operating system may fail: \<open>ho_faults\<close> says
  which do, as \<open>faults\<close> does for the database.
\<close>

section \<open>Names and contents of units\<close>

definition scheduleUnitPrefix :: string where "scheduleUnitPrefix = ''helling-schedule-''"

definition hex_char :: "char \<Rightarrow> bool" where
  "hex_char c \<longleftrightarrow> in_range 48 57 c \<or> in_range 97 102 c \<or> in_range 65 70 c"

text \<open>The UUID of \<open>managedScheduleUnitName\<close>, and the whole pattern.\<close>

definition uuid_text :: "string \<Rightarrow> bool" where
  "uuid_text s \<longleftrightarrow> length s = 36 \<and>
     list_all (\<lambda>(i, c). if i \<in> {8, 13, 18, 23} then c = CHR ''-'' else hex_char c) (zip [0..<36] s)"

definition managedScheduleUnitName :: "string \<Rightarrow> bool" where
  "managedScheduleUnitName s \<longleftrightarrow> has_prefix s scheduleUnitPrefix \<and>
     (let rest = drop (length scheduleUnitPrefix) s
      in uuid_text (take 36 rest) \<and> (drop 36 rest = ''.service'' \<or> drop 36 rest = ''.timer''))"

text \<open>\<open>filepath.Base\<close>\<close>

definition filepath_base :: "string \<Rightarrow> string" where
  "filepath_base path = (if path = '''' then ''.'' else
     let p = rev (dropWhile (\<lambda>c. c = CHR ''/'') (rev path))
     in if p = '''' then ''/'' else last (split_char (CHR ''/'') p))"

definition ValidateManagedUnitName :: "string \<Rightarrow> string + unit" where
  "ValidateManagedUnitName name =
     (if name = '''' then Inl ''unit name is required''
      else if filepath_base name \<noteq> name then Inl ''unit name must be a basename''
      else if \<not> managedScheduleUnitName name then Inl ''unit name is not a managed schedule service or timer''
      else Inr ())"

record schedule_spec =
  sp_id :: string
  sp_kind :: string
  sp_target :: string
  sp_on_calendar :: string
  sp_enabled :: bool

record schedule_units =
  su_service_name :: string
  su_timer_name :: string
  su_service :: string
  su_timer :: string

definition validateScheduleSpec :: "schedule_spec \<Rightarrow> string + unit" where
  "validateScheduleSpec spec =
     (if sp_id spec = '''' then Inl ''schedule id is required''
      else if sp_kind spec \<noteq> ''backup'' \<and> sp_kind spec \<noteq> ''snapshot'' then Inl ''schedule kind must be backup or snapshot''
      else if trim_space (sp_target spec) = '''' then Inl ''schedule target is required''
      else if trim_space (sp_on_calendar spec) = '''' then Inl ''schedule on_calendar is required''
      else if contains_control (sp_on_calendar spec) then Inl ''schedule on_calendar must not contain control characters''
      else if contains_control (sp_target spec) then Inl ''schedule target must not contain control characters''
      else Inr ())"

definition ValidateScheduleInput :: "string \<Rightarrow> string \<Rightarrow> string \<Rightarrow> string + unit" where
  "ValidateScheduleInput kind target on_calendar = validateScheduleSpec
     \<lparr>sp_id = ''00000000-0000-0000-0000-000000000000'', sp_kind = kind, sp_target = target,
      sp_on_calendar = on_calendar, sp_enabled = False\<rparr>"

text \<open>The text of a unit, each line ended by a newline.\<close>

definition unit_lines :: "string list \<Rightarrow> string" where
  "unit_lines ls = concat (map (\<lambda>l. l @ [newline]) ls)"

definition service_lines :: "string \<Rightarrow> string \<Rightarrow> string list" where
  "service_lines cli i =
     [''[Unit]'', ''Description=Helling schedule '' @ i,
      ''Documentation=https://github.com/Bizarre-Industries/Helling'', '''',
      ''[Service]'', ''Type=oneshot'', ''User=helling'', ''Group=helling'',
      ''Environment=HELLING_API=http+unix:///run/helling/api.sock'',
      ''Environment=HELLING_SCHEDULE_TOKEN_FILE=/etc/helling/schedule-runner.token'',
      ''ExecStart='' @ cli @ '' schedule run --system '' @ i]"

definition timer_lines :: "string \<Rightarrow> string \<Rightarrow> string list" where
  "timer_lines i cal =
     [''[Unit]'', ''Description=Helling schedule timer '' @ i,
      ''Documentation=https://github.com/Bizarre-Industries/Helling'', '''',
      ''[Timer]'', ''OnCalendar='' @ cal, ''Persistent=true'',
      ''Unit='' @ scheduleUnitPrefix @ i @ ''.service'', '''',
      ''[Install]'', ''WantedBy=timers.target'']"

definition DefaultHellingCLIPath :: string where "DefaultHellingCLIPath = ''/usr/bin/helling''"

definition RenderScheduleUnits :: "schedule_spec \<Rightarrow> string \<Rightarrow> string + schedule_units" where
  "RenderScheduleUnits spec cli = (case validateScheduleSpec spec of Inl m \<Rightarrow> Inl m
   | Inr _ \<Rightarrow>
     let cli = (if cli = '''' then DefaultHellingCLIPath else cli);
         service = scheduleUnitPrefix @ sp_id spec @ ''.service'';
         timer = scheduleUnitPrefix @ sp_id spec @ ''.timer'' in
     if \<not> has_prefix cli ''/'' \<or> contains_control_or_space cli
     then Inl ''helling CLI path must be an absolute path without whitespace or control characters''
     else (case ValidateManagedUnitName service of Inl m \<Rightarrow> Inl m
     | Inr _ \<Rightarrow> (case ValidateManagedUnitName timer of Inl m \<Rightarrow> Inl m
     | Inr _ \<Rightarrow> Inr \<lparr>su_service_name = service, su_timer_name = timer,
         su_service = unit_lines (service_lines cli (sp_id spec)),
         su_timer = unit_lines (timer_lines (sp_id spec) (sp_on_calendar spec))\<rparr>)))"

section \<open>The host\<close>

datatype inode = Regular string | Symlink string | Directory | Device

record host =
  ho_files :: "string \<Rightarrow> inode option"
  ho_log :: "string list list"
  ho_faults :: "bool list"

type_synonym 'a io = "host \<Rightarrow> (string + 'a) \<times> host"

definition io_ret :: "'a \<Rightarrow> 'a io" where "io_ret x h = (Inr x, h)"

definition io_fail :: "string \<Rightarrow> 'a io" where "io_fail m h = (Inl m, h)"

definition io_bind :: "'a io \<Rightarrow> ('a \<Rightarrow> 'b io) \<Rightarrow> 'b io" where
  "io_bind m k h = (case m h of (Inl e, h) \<Rightarrow> (Inl e, h) | (Inr x, h) \<Rightarrow> k x h)"

definition io_lift :: "string + 'a \<Rightarrow> 'a io" where "io_lift r h = (r, h)"

text \<open>A call of the operating system, which may fail without effect.\<close>

definition io_call :: "string \<Rightarrow> 'a io \<Rightarrow> 'a io" where
  "io_call m f h = (case ho_faults h of [] \<Rightarrow> f h
     | b # bs \<Rightarrow> if b then (Inl m, h\<lparr>ho_faults := bs\<rparr>) else f (h\<lparr>ho_faults := bs\<rparr>))"

definition set_file :: "string \<Rightarrow> inode option \<Rightarrow> host \<Rightarrow> host" where
  "set_file p f h = h\<lparr>ho_files := (ho_files h)(p := f)\<rparr>"

text \<open>\<open>filepath.Join\<close> of a clean directory and a base name.\<close>

definition filepath_join :: "string \<Rightarrow> string \<Rightarrow> string" where
  "filepath_join dir name = dir @ ''/'' @ name"

text \<open>\<open>os.Lstat\<close>, \<open>os.Remove\<close>\<close>

definition os_lstat :: "string \<Rightarrow> inode option io" where
  "os_lstat p = io_call ''stat installed unit'' (\<lambda>h. (Inr (ho_files h p), h))"

definition os_remove :: "string \<Rightarrow> string \<Rightarrow> unit io" where
  "os_remove m p = io_call m (\<lambda>h. (Inr (), set_file p None h))"

text \<open>\<open>os.ReadFile\<close> follows symbolic links, 40 of them at most.\<close>

fun read_path :: "nat \<Rightarrow> (string \<Rightarrow> inode option) \<Rightarrow> string \<Rightarrow> string option" where
  "read_path 0 fs p = None"
| "read_path (Suc k) fs p = (case fs p of
     Some (Regular body) \<Rightarrow> Some body
   | Some (Symlink t) \<Rightarrow> read_path k fs t
   | _ \<Rightarrow> None)"

definition os_read_file :: "string \<Rightarrow> string \<Rightarrow> string io" where
  "os_read_file m p = io_call m (\<lambda>h. (case read_path 41 (ho_files h) p of None \<Rightarrow> Inl m | Some body \<Rightarrow> Inr body, h))"

text \<open>
  \<open>writeUnit\<close> and \<open>writeInstalledUnit\<close>, which are the same but for the texts of their errors: a temporary
  file is written and renamed to \<open>dir/name\<close>, so that the file is replaced as a whole or not at all.
\<close>

definition write_file :: "string \<Rightarrow> string \<Rightarrow> string \<Rightarrow> unit io" where
  "write_file dir name body = io_bind (io_lift (ValidateManagedUnitName name)) (\<lambda>_.
     io_bind (io_call ''creating temporary unit file'' (io_ret ())) (\<lambda>_.
     io_bind (io_call ''writing temporary unit file'' (io_ret ())) (\<lambda>_.
     io_bind (io_call ''closing temporary unit file'' (io_ret ())) (\<lambda>_.
     io_bind (io_call ''chmod temporary unit file'' (io_ret ())) (\<lambda>_.
     io_call ''installing unit file'' (\<lambda>h.
       if ho_files h (filepath_join dir name) = Some Directory then (Inl ''installing unit file'', h)
       else (Inr (), set_file (filepath_join dir name) (Some (Regular body)) h)))))))"

section \<open>The privileged helper\<close>

record unit_linker =
  ul_staging :: string
  ul_system :: string

definition linker_stagingDir :: "unit_linker \<Rightarrow> string" where
  "linker_stagingDir l = (if ul_staging l \<noteq> '''' then ul_staging l else ''/etc/systemd/system/helling-managed'')"

definition linker_systemDir :: "unit_linker \<Rightarrow> string" where
  "linker_systemDir l = (if ul_system l \<noteq> '''' then ul_system l else ''/etc/systemd/system'')"

definition run_systemctl :: "string list \<Rightarrow> unit io" where
  "run_systemctl args = io_call ''systemctl'' (\<lambda>h. (Inr (), h\<lparr>ho_log := ho_log h @ [args]\<rparr>))"

definition removeManagedTarget :: "string \<Rightarrow> string \<Rightarrow> unit io" where
  "removeManagedTarget target source = io_bind (os_lstat target) (\<lambda>info. case info of
     None \<Rightarrow> io_ret ()
   | Some (Symlink t) \<Rightarrow> io_bind (io_call ''read installed symlink'' (io_ret ())) (\<lambda>_.
       if t \<noteq> source then io_fail ''refusing unit symlink outside staging dir''
       else os_remove ''removing unit symlink'' target)
   | Some (Regular b) \<Rightarrow> os_remove ''removing unit'' target
   | Some _ \<Rightarrow> io_fail ''refusing non-regular unit'')"

fun first_calendar :: "string list \<Rightarrow> string + string" where
  "first_calendar [] = Inl ''staged timer missing OnCalendar''"
| "first_calendar (line # ls) = (case cut_prefix line ''OnCalendar='' of
     None \<Rightarrow> first_calendar ls
   | Some v \<Rightarrow> let v = trim_space v in
       (case ValidateScheduleInput ''backup'' ''managed'' v of Inl m \<Rightarrow> Inl m | Inr _ \<Rightarrow> Inr v))"

definition readStagedOnCalendar :: "string \<Rightarrow> string io" where
  "readStagedOnCalendar path = io_bind (os_read_file ''reading staged timer'' path) (\<lambda>body.
     if 4096 < length body then io_fail ''staged timer is too large''
     else io_lift (first_calendar (split_char newline body)))"

definition unit_schedule_id :: "string \<Rightarrow> string" where
  "unit_schedule_id u = trim_suffix (trim_suffix (trim_prefix u scheduleUnitPrefix) ''.service'') ''.timer''"

definition canonicalUnitBody :: "unit_linker \<Rightarrow> string \<Rightarrow> string io" where
  "canonicalUnitBody l u =
     io_bind (if has_suffix u ''.timer'' then readStagedOnCalendar (filepath_join (linker_stagingDir l) u) else io_ret ''daily'') (\<lambda>cal.
     io_bind (io_lift (RenderScheduleUnits \<lparr>sp_id = unit_schedule_id u, sp_kind = ''backup'', sp_target = ''managed'',
       sp_on_calendar = cal, sp_enabled = True\<rparr> DefaultHellingCLIPath)) (\<lambda>units.
     io_ret (if has_suffix u ''.timer'' then su_timer units else su_service units)))"

definition linker_install :: "unit_linker \<Rightarrow> string \<Rightarrow> unit io" where
  "linker_install l u = io_bind (canonicalUnitBody l u) (\<lambda>body.
     io_bind (removeManagedTarget (filepath_join (linker_systemDir l) u) (filepath_join (linker_stagingDir l) u)) (\<lambda>_.
     io_bind (write_file (linker_systemDir l) u body) (\<lambda>_.
     io_bind (run_systemctl [''daemon-reload'']) (\<lambda>_.
     if has_suffix u ''.timer'' then run_systemctl [''enable'', ''--now'', u] else io_ret ()))))"

definition linker_remove :: "unit_linker \<Rightarrow> string \<Rightarrow> unit io" where
  "linker_remove l u =
     io_bind (if has_suffix u ''.timer'' then run_systemctl [''disable'', ''--now'', u] else io_ret ()) (\<lambda>_.
     io_bind (removeManagedTarget (filepath_join (linker_systemDir l) u) (filepath_join (linker_stagingDir l) u)) (\<lambda>_.
     run_systemctl [''daemon-reload'']))"

text \<open>\<open>UnitLinker.Handle\<close>; its last branch is dead.\<close>

definition linker_Handle :: "unit_linker \<Rightarrow> string list \<Rightarrow> unit io" where
  "linker_Handle l args = (case args of
     [action, u] \<Rightarrow>
       if action \<noteq> ''install'' \<and> action \<noteq> ''remove'' then io_fail ''unsupported action''
       else io_bind (io_lift (ValidateManagedUnitName u)) (\<lambda>_.
         if action = ''install'' then linker_install l u else linker_remove l u)
   | _ \<Rightarrow> io_fail ''usage: helling-unit-link install|remove <helling-schedule-uuid.service|timer>'')"

section \<open>The manager of the daemon\<close>

text \<open>The helper is a process started with two arguments; \<open>sm_run_helper\<close> is what it does.\<close>

record schedule_manager =
  sm_staging :: string
  sm_cli :: string
  sm_run_helper :: "string list \<Rightarrow> unit io"

definition manager_stagingDir :: "schedule_manager \<Rightarrow> string" where
  "manager_stagingDir sm = (if sm_staging sm \<noteq> '''' then sm_staging sm else ''/etc/systemd/system/helling-managed'')"

definition manager_runHelper :: "schedule_manager \<Rightarrow> string \<Rightarrow> string \<Rightarrow> unit io" where
  "manager_runHelper sm action u =
     (if action \<noteq> ''install'' \<and> action \<noteq> ''remove'' then io_fail ''unsupported helper action''
      else io_bind (io_lift (ValidateManagedUnitName u)) (\<lambda>_. sm_run_helper sm [action, u]))"

definition manager_Install :: "schedule_manager \<Rightarrow> schedule_spec \<Rightarrow> unit io" where
  "manager_Install sm spec = io_bind (io_lift (RenderScheduleUnits spec (sm_cli sm))) (\<lambda>units.
     io_bind (io_call ''creating schedule unit staging dir'' (io_ret ())) (\<lambda>_.
     io_bind (write_file (manager_stagingDir sm) (su_service_name units) (su_service units)) (\<lambda>_.
     io_bind (write_file (manager_stagingDir sm) (su_timer_name units) (su_timer units)) (\<lambda>_.
     io_bind (manager_runHelper sm ''install'' (su_service_name units)) (\<lambda>_.
     if sp_enabled spec then manager_runHelper sm ''install'' (su_timer_name units) else io_ret ())))))"

definition manager_Remove :: "schedule_manager \<Rightarrow> string \<Rightarrow> unit io" where
  "manager_Remove sm i = io_bind (io_lift (RenderScheduleUnits
       \<lparr>sp_id = i, sp_kind = ''backup'', sp_target = ''unused'', sp_on_calendar = ''daily'', sp_enabled = False\<rparr> (sm_cli sm))) (\<lambda>units.
     io_bind (manager_runHelper sm ''remove'' (su_timer_name units)) (\<lambda>_.
     manager_runHelper sm ''remove'' (su_service_name units)))"

end
