(* ===== verification/Systemd_Units_Props.thy ===== *)
theory Systemd_Units_Props
  imports Systemd_Units
begin

text \<open>
  The privileged helper writes nothing but the units this package renders, whatever is staged; and the
  manager with the helper implements a board of schedules.
\<close>

section \<open>Names\<close>

lemma uuid_text_chars: "uuid_text i \<Longrightarrow> c \<in> set i \<Longrightarrow> c = CHR ''-'' \<or> hex_char c"
proof -
  assume i: "uuid_text i" and c: "c \<in> set i"
  have len: "length i = 36"
    and all: "\<forall>k < 36. if k \<in> {8, 13, 18, 23} then i ! k = CHR ''-'' else hex_char (i ! k)"
    using i unfolding uuid_text_def list_all_length by simp_all
  then obtain k where "k < 36" "i ! k = c" using c by (metis in_set_conv_nth)
  then show ?thesis using all by metis
qed

lemma uuid_text_plain:
  assumes "uuid_text i"
  shows "CHR ''/'' \<notin> set i" "CHR ''.'' \<notin> set i" "newline \<notin> set i"
proof -
  have "CHR ''/'' \<noteq> CHR ''-''" "CHR ''.'' \<noteq> CHR ''-''" "newline \<noteq> CHR ''-''"
    "\<not> hex_char (CHR ''/'')" "\<not> hex_char (CHR ''.'')" "\<not> hex_char newline" by code_simp+
  then show "CHR ''/'' \<notin> set i" "CHR ''.'' \<notin> set i" "newline \<notin> set i"
    using uuid_text_chars [OF assms] by blast+
qed

definition service_name :: "string \<Rightarrow> string" where
  "service_name i = scheduleUnitPrefix @ i @ ''.service''"

definition timer_name :: "string \<Rightarrow> string" where
  "timer_name i = scheduleUnitPrefix @ i @ ''.timer''"

lemma base_plain:
  assumes "u \<noteq> ''''" "CHR ''/'' \<notin> set u"
  shows "filepath_base u = u"
proof -
  have "last u \<noteq> CHR ''/''" using assms last_in_set by metis
  then have "dropWhile (\<lambda>c. c = CHR ''/'') (rev u) = rev u"
    using assms(1) by (cases u rule: rev_cases) auto
  then show ?thesis using assms split_char_no [OF assms(2)] by (simp add: filepath_base_def)
qed

lemma managed_name:
  "ValidateManagedUnitName u = Inr v \<longleftrightarrow> (\<exists>i. uuid_text i \<and> (u = service_name i \<or> u = timer_name i))"
proof
  assume "ValidateManagedUnitName u = Inr v"
  then have m: "managedScheduleUnitName u" by (auto simp: ValidateManagedUnitName_def split: if_splits)
  then obtain rest where rest: "u = scheduleUnitPrefix @ rest" by (auto simp: managedScheduleUnitName_def has_prefix_iff)
  then have "uuid_text (take 36 rest)" "drop 36 rest = ''.service'' \<or> drop 36 rest = ''.timer''"
    using m by (simp_all add: managedScheduleUnitName_def Let_def)
  then show "\<exists>i. uuid_text i \<and> (u = service_name i \<or> u = timer_name i)"
    using rest append_take_drop_id [of 36 rest] unfolding service_name_def timer_name_def by metis
next
  assume "\<exists>i. uuid_text i \<and> (u = service_name i \<or> u = timer_name i)"
  then obtain i e where i: "uuid_text i" and u: "u = scheduleUnitPrefix @ i @ e" and e: "e = ''.service'' \<or> e = ''.timer''"
    unfolding service_name_def timer_name_def by blast
  have "CHR ''/'' \<notin> set u" using uuid_text_plain [OF i] e by (auto simp: u scheduleUnitPrefix_def)
  moreover have ne: "u \<noteq> ''''" by (simp add: u scheduleUnitPrefix_def)
  moreover have "managedScheduleUnitName u"
    using i e by (auto simp: u managedScheduleUnitName_def uuid_text_def)
  ultimately show "ValidateManagedUnitName u = Inr v" by (simp add: ValidateManagedUnitName_def base_plain)
qed

lemma no_suffix: "CHR ''.'' \<notin> set i \<Longrightarrow> CHR ''.'' \<in> set e \<Longrightarrow> \<not> has_suffix i e"
  by (auto simp: has_suffix_iff)

lemma unit_names:
  assumes "uuid_text i"
  shows "unit_schedule_id (service_name i) = i" "unit_schedule_id (timer_name i) = i"
    "\<not> has_suffix (service_name i) ''.timer''" "has_suffix (timer_name i) ''.timer''"
proof -
  note dot = uuid_text_plain(2) [OF assms]
  have i: "trim_suffix i ''.timer'' = i" using no_suffix [OF dot, of "''.timer''"] by (simp add: trim_suffix_def)
  have s: "trim_suffix (i @ ''.service'') ''.service'' = i" by (rule trim_suffix_append)
  show "unit_schedule_id (service_name i) = i"
    by (simp only: unit_schedule_id_def service_name_def trim_prefix_append s i)
  have "\<not> has_suffix (i @ ''.timer'') ''.service''"
  proof
    assume "has_suffix (i @ ''.timer'') ''.service''"
    then obtain t where "i @ ''.timer'' = t @ ''.service''" by (auto simp: has_suffix_iff)
    then have "rev (i @ ''.timer'') = rev (t @ ''.service'')" by (simp only:)
    then show False by simp
  qed
  then have "trim_suffix (i @ ''.timer'') ''.service'' = i @ ''.timer''" by (simp add: trim_suffix_def)
  moreover have "trim_suffix (i @ ''.timer'') ''.timer'' = i" by (rule trim_suffix_append)
  ultimately show "unit_schedule_id (timer_name i) = i"
    by (simp only: unit_schedule_id_def timer_name_def trim_prefix_append)
  show "\<not> has_suffix (service_name i) ''.timer''"
  proof
    assume "has_suffix (service_name i) ''.timer''"
    then obtain t where "service_name i = t @ ''.timer''" by (auto simp: has_suffix_iff)
    then have "rev (service_name i) = rev (t @ ''.timer'')" by (simp only:)
    then show False by (simp add: service_name_def)
  qed
  show "has_suffix (timer_name i) ''.timer''"
    unfolding timer_name_def has_suffix_iff by (metis append.assoc)
qed

lemma service_not_timer: "service_name i \<noteq> timer_name j"
proof
  assume "service_name i = timer_name j"
  then have "rev (service_name i) = rev (timer_name j)" by (simp only:)
  then show False by (simp add: service_name_def timer_name_def)
qed

lemma names_inject [simp]: "service_name i = service_name j \<longleftrightarrow> i = j" "timer_name i = timer_name j \<longleftrightarrow> i = j"
  "service_name i \<noteq> timer_name j" "timer_name j \<noteq> service_name i"
  using service_not_timer [of i j] by (auto simp: service_name_def timer_name_def)

lemma names_no_slash: "uuid_text i \<Longrightarrow> CHR ''/'' \<notin> set (service_name i)" "uuid_text i \<Longrightarrow> CHR ''/'' \<notin> set (timer_name i)"
  using uuid_text_plain [of i] by (auto simp: service_name_def timer_name_def scheduleUnitPrefix_def)

lemma join_inject:
  assumes "CHR ''/'' \<notin> set u" "CHR ''/'' \<notin> set v"
  shows "filepath_join a u = filepath_join b v \<longleftrightarrow> a = b \<and> u = v"
proof
  assume "filepath_join a u = filepath_join b v"
  then have eq: "rev u @ CHR ''/'' # rev a = rev v @ CHR ''/'' # rev b"
    unfolding filepath_join_def by (metis append.assoc append_Cons append_Nil rev.simps rev_append rev_rev_ident)
  have "split_char (CHR ''/'') (rev u @ CHR ''/'' # rev a) = rev u # split_char (CHR ''/'') (rev a)"
    "split_char (CHR ''/'') (rev v @ CHR ''/'' # rev b) = rev v # split_char (CHR ''/'') (rev b)"
    using assms by (simp_all add: split_char_append)
  then have "rev u = rev v" using eq by simp
  then show "a = b \<and> u = v" using eq by simp
qed simp

section \<open>What a run may change\<close>

definition touches :: "(string \<Rightarrow> inode option \<Rightarrow> bool) \<Rightarrow> 'a io \<Rightarrow> bool" where
  "touches P m \<longleftrightarrow> (\<forall>h r h' p. m h = (r, h') \<longrightarrow> ho_files h' p = ho_files h p \<or> P p (ho_files h' p))"

named_theorems touch_intros \<open>rules for what a run may change\<close>

lemma touchesD: "touches P m \<Longrightarrow> m h = (r, h') \<Longrightarrow> ho_files h' p = ho_files h p \<or> P p (ho_files h' p)"
  unfolding touches_def by blast

lemma touches_pure [touch_intros]: "touches P (io_ret x)" "touches P (io_fail m)" "touches P (io_lift r)"
  by (simp_all add: touches_def io_ret_def io_fail_def io_lift_def)

lemma touches_call [touch_intros]:
  assumes "touches P f"
  shows "touches P (io_call m f)"
  unfolding touches_def
proof (intro allI impI)
  fix h r h' p assume run: "io_call m f h = (r, h')"
  show "ho_files h' p = ho_files h p \<or> P p (ho_files h' p)"
  proof (cases "ho_faults h")
    case Nil
    then show ?thesis using run touchesD [OF assms, of h r h' p] by (simp add: io_call_def)
  next
    case (Cons b bs)
    then show ?thesis using run touchesD [OF assms, of "h\<lparr>ho_faults := bs\<rparr>" r h' p]
      by (auto simp: io_call_def split: if_splits)
  qed
qed

lemma touches_bind_result:
  assumes m: "touches P m" and k: "\<And>x h h'. m h = (Inr x, h') \<Longrightarrow> touches P (k x)"
  shows "touches P (io_bind m k)"
  unfolding touches_def
proof (intro allI impI)
  fix h r h' p assume run: "io_bind m k h = (r, h')"
  show "ho_files h' p = ho_files h p \<or> P p (ho_files h' p)"
  proof (cases "m h")
    case (Pair r1 h1)
    show ?thesis
    proof (cases r1)
      case (Inl e)
      then show ?thesis using run Pair touchesD [OF m Pair] by (simp add: io_bind_def)
    next
      case (Inr x)
      then have "k x h1 = (r, h')" using run Pair by (simp add: io_bind_def)
      moreover have "touches P (k x)" using k Pair Inr by blast
      ultimately show ?thesis using touchesD [of P "k x" h1 r h' p] touchesD [OF m Pair, of p] by auto
    qed
  qed
qed

lemma touches_bind [touch_intros]: "touches P m \<Longrightarrow> (\<And>x. touches P (k x)) \<Longrightarrow> touches P (io_bind m k)"
  by (rule touches_bind_result)

lemma touches_if [touch_intros]: "touches P m \<Longrightarrow> touches P n \<Longrightarrow> touches P (if b then m else n)"
  by simp

lemma touches_file: "(\<And>h. P p f) \<Longrightarrow> touches P (\<lambda>h. (r h, set_file p f h))"
  by (simp add: touches_def set_file_def)

lemma touches_read: "(\<And>h. ho_files (g h) = ho_files h) \<Longrightarrow> touches P (\<lambda>h. (r h, g h))"
  by (simp add: touches_def)

lemma touches_write_file:
  assumes "ValidateManagedUnitName name = Inr () \<Longrightarrow> P (filepath_join dir name) (Some (Regular body))"
  shows "touches P (write_file dir name body)"
  unfolding write_file_def
proof (rule touches_bind_result)
  fix x and h h' :: host assume "io_lift (ValidateManagedUnitName name) h = (Inr x, h')"
  then have name: "ValidateManagedUnitName name = Inr ()" by (simp add: io_lift_def)
  show "touches P (io_bind (io_call ''creating temporary unit file'' (io_ret ())) (\<lambda>_.
     io_bind (io_call ''writing temporary unit file'' (io_ret ())) (\<lambda>_.
     io_bind (io_call ''closing temporary unit file'' (io_ret ())) (\<lambda>_.
     io_bind (io_call ''chmod temporary unit file'' (io_ret ())) (\<lambda>_.
     io_call ''installing unit file'' (\<lambda>h.
       if ho_files h (filepath_join dir name) = Some Directory then (Inl ''installing unit file'', h)
       else (Inr (), set_file (filepath_join dir name) (Some (Regular body)) h)))))))"
    using assms [OF name] by (intro touch_intros) (simp add: touches_def set_file_def)
qed (rule touch_intros)

lemma touches_systemctl [touch_intros]: "touches P (run_systemctl args)"
  unfolding run_systemctl_def by (intro touch_intros touches_read) simp

lemma touches_removeManagedTarget:
  assumes "P target None"
  shows "touches P (removeManagedTarget target source)"
  unfolding removeManagedTarget_def os_lstat_def
proof (intro touches_bind touches_call touches_read refl)
  fix info :: "inode option"
  show "touches P (case info of None \<Rightarrow> io_ret ()
   | Some (Symlink t) \<Rightarrow> io_bind (io_call ''read installed symlink'' (io_ret ())) (\<lambda>_.
       if t \<noteq> source then io_fail ''refusing unit symlink outside staging dir'' else os_remove ''removing unit symlink'' target)
   | Some (Regular b) \<Rightarrow> os_remove ''removing unit'' target
   | Some _ \<Rightarrow> io_fail ''refusing non-regular unit'')"
    using assms unfolding os_remove_def
    by (auto split: option.split inode.split intro!: touch_intros touches_file)
qed

lemma touches_canonicalUnitBody [touch_intros]: "touches P (canonicalUnitBody l u)"
  unfolding canonicalUnitBody_def readStagedOnCalendar_def os_read_file_def
  by (intro touch_intros touches_read refl)

section \<open>The helper installs only canonical units\<close>

lemma io_bind_Inr: "io_bind m k h = (Inr y, h') \<longleftrightarrow> (\<exists>x h1. m h = (Inr x, h1) \<and> k x h1 = (Inr y, h'))"
  by (auto simp: io_bind_def split: prod.splits sum.splits)

definition calendar_ok :: "string \<Rightarrow> bool" where
  "calendar_ok cal \<longleftrightarrow> cal \<noteq> '''' \<and> trim_space cal = cal \<and> \<not> contains_control cal"

lemma ValidateScheduleInput_Inr:
  "ValidateScheduleInput kind target cal = Inr u \<longleftrightarrow> (kind = ''backup'' \<or> kind = ''snapshot'') \<and>
     trim_space target \<noteq> '''' \<and> \<not> contains_control target \<and> trim_space cal \<noteq> '''' \<and> \<not> contains_control cal"
  by (auto simp: ValidateScheduleInput_def validateScheduleSpec_def)

lemma first_calendar_Inr: "first_calendar ls = Inr v \<Longrightarrow> calendar_ok v"
proof (induction ls)
  case (Cons line ls)
  then show ?case
    by (auto simp: Let_def calendar_ok_def ValidateScheduleInput_Inr split: option.splits sum.splits)
qed simp

lemma readStaged_Inr:
  assumes "readStagedOnCalendar path h = (Inr cal, h')"
  shows "calendar_ok cal"
proof -
  from assms obtain body h1 where "(if 4096 < length body then io_fail ''staged timer is too large''
     else io_lift (first_calendar (split_char newline body))) h1 = (Inr cal, h')"
    unfolding readStagedOnCalendar_def io_bind_Inr by blast
  then show ?thesis by (auto simp: io_fail_def io_lift_def split: if_splits intro: first_calendar_Inr)
qed

lemma Render_Inr:
  assumes "RenderScheduleUnits spec cli = Inr units"
  shows "validateScheduleSpec spec = Inr () \<and> uuid_text (sp_id spec) \<and>
    su_service_name units = service_name (sp_id spec) \<and> su_timer_name units = timer_name (sp_id spec) \<and>
    su_service units = unit_lines (service_lines (if cli = '''' then DefaultHellingCLIPath else cli) (sp_id spec)) \<and>
    su_timer units = unit_lines (timer_lines (sp_id spec) (sp_on_calendar spec))"
proof -
  have "ValidateManagedUnitName (service_name (sp_id spec)) = Inr ()"
    using assms by (auto simp: RenderScheduleUnits_def Let_def service_name_def split: sum.splits if_splits)
  then have "uuid_text (sp_id spec)" by (auto simp: managed_name)
  then show ?thesis using assms
    by (auto simp: RenderScheduleUnits_def Let_def service_name_def timer_name_def split: sum.splits if_splits)
qed

definition canonical_unit :: "string \<Rightarrow> string \<Rightarrow> bool" where
  "canonical_unit u body \<longleftrightarrow> (\<exists>i. uuid_text i \<and>
     (u = service_name i \<and> body = unit_lines (service_lines DefaultHellingCLIPath i) \<or>
      u = timer_name i \<and> (\<exists>cal. calendar_ok cal \<and> body = unit_lines (timer_lines i cal))))"

lemma canonicalUnitBody_Inr:
  assumes name: "ValidateManagedUnitName u = Inr v" and run: "canonicalUnitBody l u h = (Inr body, h')"
  shows "canonical_unit u body"
proof -
  from name obtain i where i: "uuid_text i" and u: "u = service_name i \<or> u = timer_name i" by (auto simp: managed_name)
  from run obtain cal h1 units h2 where
    cal: "(if has_suffix u ''.timer'' then readStagedOnCalendar (filepath_join (linker_stagingDir l) u) else io_ret ''daily'') h = (Inr cal, h1)"
    and render: "io_lift (RenderScheduleUnits \<lparr>sp_id = unit_schedule_id u, sp_kind = ''backup'', sp_target = ''managed'',
       sp_on_calendar = cal, sp_enabled = True\<rparr> DefaultHellingCLIPath) h1 = (Inr units, h2)"
    and body: "io_ret (if has_suffix u ''.timer'' then su_timer units else su_service units) h2 = (Inr body, h')"
    unfolding canonicalUnitBody_def io_bind_Inr by blast
  have units: "RenderScheduleUnits \<lparr>sp_id = unit_schedule_id u, sp_kind = ''backup'', sp_target = ''managed'',
       sp_on_calendar = cal, sp_enabled = True\<rparr> DefaultHellingCLIPath = Inr units"
    using render by (simp add: io_lift_def)
  show ?thesis
  proof (cases "u = timer_name i")
    case True
    then have "calendar_ok cal" using cal unit_names [OF i] readStaged_Inr by simp
    then show ?thesis
      using True Render_Inr [OF units] body unit_names [OF i] i by (auto simp: canonical_unit_def io_ret_def)
  next
    case False
    then show ?thesis
      using u Render_Inr [OF units] body unit_names [OF i] i
      by (auto simp: canonical_unit_def io_ret_def DefaultHellingCLIPath_def split: if_splits)
  qed
qed

definition helper_change :: "string \<Rightarrow> string \<Rightarrow> string \<Rightarrow> inode option \<Rightarrow> bool" where
  "helper_change dir u p f \<longleftrightarrow> p = filepath_join dir u \<and>
     (f = None \<or> (\<exists>body. canonical_unit u body \<and> f = Some (Regular body)))"

lemma helper_touches:
  assumes "ValidateManagedUnitName u = Inr ()"
  shows "touches (helper_change (linker_systemDir l) u) (linker_install l u)"
    "touches (helper_change (linker_systemDir l) u) (linker_remove l u)"
proof -
  show "touches (helper_change (linker_systemDir l) u) (linker_install l u)"
    unfolding linker_install_def
  proof (rule touches_bind_result [OF touches_canonicalUnitBody])
    fix body h h' assume "canonicalUnitBody l u h = (Inr body, h')"
    then have "canonical_unit u body" by (rule canonicalUnitBody_Inr [OF assms])
    then show "touches (helper_change (linker_systemDir l) u)
      (io_bind (removeManagedTarget (filepath_join (linker_systemDir l) u) (filepath_join (linker_stagingDir l) u)) (\<lambda>_.
       io_bind (write_file (linker_systemDir l) u body) (\<lambda>_.
       io_bind (run_systemctl [''daemon-reload'']) (\<lambda>_.
       if has_suffix u ''.timer'' then run_systemctl [''enable'', ''--now'', u] else io_ret ()))))"
      by (intro touch_intros touches_removeManagedTarget touches_write_file) (auto simp: helper_change_def)
  qed
  show "touches (helper_change (linker_systemDir l) u) (linker_remove l u)"
    unfolding linker_remove_def
    by (intro touch_intros touches_removeManagedTarget) (auto simp: helper_change_def)
qed

lemma Handle_touches:
  assumes "linker_Handle l args h = (r, h')" "ho_files h' p \<noteq> ho_files h p"
  shows "\<exists>action u. args = [action, u] \<and> ValidateManagedUnitName u = Inr () \<and>
    helper_change (linker_systemDir l) u p (ho_files h' p)"
proof -
  from assms obtain action u where args: "args = [action, u]" "action = ''install'' \<or> action = ''remove''"
    by (auto simp: linker_Handle_def io_fail_def split: list.splits if_splits)
  then have run: "io_bind (io_lift (ValidateManagedUnitName u)) (\<lambda>_. if action = ''install'' then linker_install l u else linker_remove l u) h = (r, h')"
    using assms(1) by (auto simp: linker_Handle_def)
  have name: "ValidateManagedUnitName u = Inr ()"
    using run assms(2) by (cases "ValidateManagedUnitName u") (auto simp: io_bind_def io_lift_def)
  then have "(if action = ''install'' then linker_install l u else linker_remove l u) h = (r, h')"
    using run by (simp add: io_bind_def io_lift_def)
  moreover have "touches (helper_change (linker_systemDir l) u)
      (if action = ''install'' then linker_install l u else linker_remove l u)"
    by (intro touches_if helper_touches name)
  ultimately have "helper_change (linker_systemDir l) u p (ho_files h' p)"
    using assms(2) touchesD by blast
  then show ?thesis using args name by blast
qed

lemma split_unit_lines:
  "\<forall>l \<in> set ls. newline \<notin> set l \<Longrightarrow> split_char newline (unit_lines ls) = ls @ ['''']"
  by (induction ls) (simp_all add: unit_lines_def split_char_append)

lemma canonical_lines:
  assumes "canonical_unit u body"
  obtains (service) i where "uuid_text i" "u = service_name i"
      "split_char newline body = service_lines DefaultHellingCLIPath i @ ['''']"
  | (timer) i cal where "uuid_text i" "u = timer_name i" "calendar_ok cal"
      "split_char newline body = timer_lines i cal @ ['''']"
proof -
  from assms obtain i where i: "uuid_text i" and cases:
    "u = service_name i \<and> body = unit_lines (service_lines DefaultHellingCLIPath i) \<or>
      u = timer_name i \<and> (\<exists>cal. calendar_ok cal \<and> body = unit_lines (timer_lines i cal))"
    unfolding canonical_unit_def by blast
  have "\<forall>l \<in> set (service_lines DefaultHellingCLIPath i). newline \<notin> set l"
    using uuid_text_plain(3) [OF i] by (simp add: service_lines_def DefaultHellingCLIPath_def)
  moreover have "\<forall>l \<in> set (timer_lines i cal). newline \<notin> set l" if "calendar_ok cal" for cal
    using uuid_text_plain(3) [OF i] no_control_no_newline [of cal] that
    by (simp add: timer_lines_def scheduleUnitPrefix_def calendar_ok_def)
  ultimately show ?thesis using cases i service timer split_unit_lines by metis
qed

text \<open>
  C6: Whatever is staged and whatever its arguments, the privileged helper changes no file but one of the
  system directory whose name is that of a managed unit; it removes that file or makes it a unit whose lines
  are exactly those of a schedule's service, which runs as user helling, or of its timer, the calendar being
  the only free text, on one line.
\<close>

theorem helper_installs_canonical:
  assumes "linker_Handle l args h = (r, h')" "ho_files h' p \<noteq> ho_files h p"
  shows "\<exists>i u. uuid_text i \<and> (u = service_name i \<or> u = timer_name i) \<and> p = filepath_join (linker_systemDir l) u \<and>
    (ho_files h' p = None \<or> (\<exists>body. ho_files h' p = Some (Regular body) \<and>
      (u = service_name i \<and> split_char newline body = service_lines DefaultHellingCLIPath i @ [''''] \<or>
       u = timer_name i \<and> (\<exists>cal. calendar_ok cal \<and> split_char newline body = timer_lines i cal @ ['''']))))"
proof -
  from Handle_touches [OF assms] obtain u where name: "ValidateManagedUnitName u = Inr ()"
    and change: "helper_change (linker_systemDir l) u p (ho_files h' p)" by blast
  from name obtain i where i: "uuid_text i" "u = service_name i \<or> u = timer_name i" by (auto simp: managed_name)
  consider "ho_files h' p = None" | body where "canonical_unit u body" "ho_files h' p = Some (Regular body)"
    using change by (auto simp: helper_change_def)
  then show ?thesis
  proof cases
    case 1
    then show ?thesis using i change by (auto simp: helper_change_def)
  next
    case 2
    from 2(1) show ?thesis
      by (cases rule: canonical_lines) (use i 2(2) change in \<open>auto simp: helper_change_def\<close>)
  qed
qed

section \<open>What a run that succeeds has done\<close>

definition does :: "((string \<Rightarrow> inode option) \<Rightarrow> string \<Rightarrow> inode option) \<Rightarrow> 'a io \<Rightarrow> bool" where
  "does g m \<longleftrightarrow> (\<forall>h x h'. m h = (Inr x, h') \<longrightarrow> ho_files h' = g (ho_files h))"

lemma doesD: "does g m \<Longrightarrow> m h = (Inr x, h') \<Longrightarrow> ho_files h' = g (ho_files h)"
  unfolding does_def by blast

lemma io_call_Inr: "io_call m f h = (Inr x, h') \<Longrightarrow> \<exists>bs. f (h\<lparr>ho_faults := bs\<rparr>) = (Inr x, h')"
proof (cases "ho_faults h")
  case Nil
  assume run: "io_call m f h = (Inr x, h')"
  have "h\<lparr>ho_faults := ho_faults h\<rparr> = h" by simp
  then have "h\<lparr>ho_faults := []\<rparr> = h" by (simp only: Nil)
  then have "f (h\<lparr>ho_faults := []\<rparr>) = (Inr x, h')" using run by (simp only: io_call_def Nil list.case)
  then show ?thesis by (rule exI)
qed (auto simp: io_call_def split: if_splits)

lemma does_pure: "does (\<lambda>fs. fs) (io_ret x)" "does g (io_fail m)" "does (\<lambda>fs. fs) (io_lift r)"
  by (simp_all add: does_def io_ret_def io_fail_def io_lift_def)

lemma does_call: "does g f \<Longrightarrow> does g (io_call m f)"
  unfolding does_def by (fastforce dest: io_call_Inr)

lemma does_bind: "does g m \<Longrightarrow> (\<And>x. does g' (k x)) \<Longrightarrow> does (\<lambda>fs. g' (g fs)) (io_bind m k)"
  unfolding does_def io_bind_Inr by fastforce

lemma does_nothing_then: "does (\<lambda>fs. fs) m \<Longrightarrow> (\<And>x. does g (k x)) \<Longrightarrow> does g (io_bind m k)"
  using does_bind [of "\<lambda>fs. fs" m g k] by simp

lemma does_then_nothing: "does g m \<Longrightarrow> (\<And>x. does (\<lambda>fs. fs) (k x)) \<Longrightarrow> does g (io_bind m k)"
  using does_bind [of g m "\<lambda>fs. fs" k] by simp

lemma does_write_file: "does (\<lambda>fs. fs(filepath_join dir name := Some (Regular body))) (write_file dir name body)"
  unfolding write_file_def
  by (intro does_nothing_then does_pure does_call) (auto simp: does_def set_file_def split: if_splits)

lemma does_systemctl: "does (\<lambda>fs. fs) (run_systemctl args)"
  unfolding run_systemctl_def by (rule does_call) (simp add: does_def)

lemma does_os_remove: "does (\<lambda>fs. fs(p := None)) (os_remove m p)"
  unfolding os_remove_def by (rule does_call) (simp add: does_def set_file_def)

lemma does_removeManagedTarget: "does (\<lambda>fs. fs(target := None)) (removeManagedTarget target source)"
  unfolding does_def
proof (intro allI impI)
  fix h x h' assume run: "removeManagedTarget target source h = (Inr x, h')"
  let ?k = "\<lambda>info. case info of None \<Rightarrow> io_ret ()
   | Some (Symlink t) \<Rightarrow> io_bind (io_call ''read installed symlink'' (io_ret ())) (\<lambda>_.
       if t \<noteq> source then io_fail ''refusing unit symlink outside staging dir'' else os_remove ''removing unit symlink'' target)
   | Some (Regular b) \<Rightarrow> os_remove ''removing unit'' target
   | Some _ \<Rightarrow> io_fail ''refusing non-regular unit''"
  from run obtain info h1 where stat: "os_lstat target h = (Inr info, h1)" and rest: "?k info h1 = (Inr x, h')"
    unfolding removeManagedTarget_def io_bind_Inr by blast
  from stat obtain bs where "h1 = h\<lparr>ho_faults := bs\<rparr>" "info = ho_files h target"
    unfolding os_lstat_def by (auto dest!: io_call_Inr)
  then have files: "ho_files h1 = ho_files h" "info = ho_files h1 target" by simp_all
  show "ho_files h' = (ho_files h)(target := None)"
  proof (cases info)
    case None
    then show ?thesis using rest files by (auto simp: io_ret_def)
  next
    case (Some f)
    have "does (\<lambda>fs. fs(target := None)) (?k (Some f))"
      by (cases f) (auto intro!: does_os_remove does_pure does_nothing_then does_call)
    then have "ho_files h' = (ho_files h1)(target := None)" using rest unfolding Some by (rule doesD)
    then show ?thesis using files by simp
  qed
qed

lemma does_if: "does g m \<Longrightarrow> does g n \<Longrightarrow> does g (if b then m else n)"
  by simp

lemma does_read: "does (\<lambda>fs. fs) (\<lambda>h. (r h, h))"
  by (simp add: does_def)

lemma does_canonical: "does (\<lambda>fs. fs) (canonicalUnitBody l u)"
  unfolding canonicalUnitBody_def readStagedOnCalendar_def os_read_file_def
  by (intro does_nothing_then does_if does_pure does_call does_read)

lemma linker_install_files:
  assumes "linker_install l u h = (Inr v, h')"
  shows "\<exists>body h1. canonicalUnitBody l u h = (Inr body, h1) \<and>
    ho_files h' = (ho_files h)(filepath_join (linker_systemDir l) u := Some (Regular body))"
proof -
  let ?k = "\<lambda>body. io_bind (removeManagedTarget (filepath_join (linker_systemDir l) u) (filepath_join (linker_stagingDir l) u)) (\<lambda>_.
     io_bind (write_file (linker_systemDir l) u body) (\<lambda>_.
     io_bind (run_systemctl [''daemon-reload'']) (\<lambda>_.
     if has_suffix u ''.timer'' then run_systemctl [''enable'', ''--now'', u] else io_ret ())))"
  from assms obtain body h1 where body: "canonicalUnitBody l u h = (Inr body, h1)" and rest: "?k body h1 = (Inr v, h')"
    unfolding linker_install_def io_bind_Inr by blast
  have last: "does (\<lambda>fs. fs) (if has_suffix u ''.timer'' then run_systemctl [''enable'', ''--now'', u] else io_ret ())"
    by (simp add: does_systemctl does_pure)
  have "does (\<lambda>fs. (fs(filepath_join (linker_systemDir l) u := None))(filepath_join (linker_systemDir l) u := Some (Regular body))) (?k body)"
    by (intro does_bind does_removeManagedTarget does_then_nothing does_write_file does_systemctl last)
  then have "ho_files h' = (ho_files h1)(filepath_join (linker_systemDir l) u := Some (Regular body))"
    using rest by (auto dest: doesD)
  then show ?thesis using body doesD [OF does_canonical body] by auto
qed

lemma linker_remove_files:
  "linker_remove l u h = (Inr v, h') \<Longrightarrow> ho_files h' = (ho_files h)(filepath_join (linker_systemDir l) u := None)"
proof -
  have first: "does (\<lambda>fs. fs) (if has_suffix u ''.timer'' then run_systemctl [''disable'', ''--now'', u] else io_ret ())"
    by (simp add: does_systemctl does_pure)
  have "does (\<lambda>fs. fs(filepath_join (linker_systemDir l) u := None)) (linker_remove l u)"
    unfolding linker_remove_def
    by (intro does_nothing_then [OF first] does_then_nothing does_removeManagedTarget does_systemctl)
  then show "linker_remove l u h = (Inr v, h') \<Longrightarrow> ho_files h' = (ho_files h)(filepath_join (linker_systemDir l) u := None)"
    by (rule doesD)
qed

text \<open>A staged timer is read back as its calendar, trimmed.\<close>

lemma cut_other: "s = [] \<or> hd s \<noteq> CHR ''O'' \<Longrightarrow> cut_prefix s ''OnCalendar='' = None"
  by (cases s) (auto simp: cut_prefix_def has_prefix_def)

lemma first_calendar_timer:
  assumes i: "uuid_text i" and cal: "newline \<notin> set cal"
    and run: "first_calendar (split_char newline (unit_lines (timer_lines i cal))) = Inr v"
  shows "v = trim_space cal"
proof -
  have "\<forall>l \<in> set (timer_lines i cal). newline \<notin> set l"
    using uuid_text_plain(3) [OF i] cal by (simp add: timer_lines_def scheduleUnitPrefix_def)
  then have "split_char newline (unit_lines (timer_lines i cal)) = timer_lines i cal @ ['''']" by (rule split_unit_lines)
  moreover have "cut_prefix (''OnCalendar='' @ cal) ''OnCalendar='' = Some cal" by (rule cut_prefix_append)
  ultimately show ?thesis
    using run by (simp add: timer_lines_def cut_other Let_def split: sum.splits)
qed

lemma canonical_timer:
  assumes i: "uuid_text i" and cal: "newline \<notin> set cal"
    and staged: "ho_files h (filepath_join (linker_stagingDir l) (timer_name i)) = Some (Regular (unit_lines (timer_lines i cal)))"
    and run: "canonicalUnitBody l (timer_name i) h = (Inr body, h')"
  shows "body = unit_lines (timer_lines i (trim_space cal)) \<and> calendar_ok (trim_space cal)"
proof -
  let ?path = "filepath_join (linker_stagingDir l) (timer_name i)"
  from run [unfolded canonicalUnitBody_def io_bind_Inr unit_names(2) [OF i], simplified unit_names(4) [OF i] if_True]
  obtain v h1 units h2 where
    read: "readStagedOnCalendar ?path h = (Inr v, h1)"
    and render: "io_lift (RenderScheduleUnits \<lparr>sp_id = i, sp_kind = ''backup'', sp_target = ''managed'',
       sp_on_calendar = v, sp_enabled = True\<rparr> DefaultHellingCLIPath) h1 = (Inr units, h2)"
    and body: "io_ret (su_timer units) h2 = (Inr body, h')"
    by blast
  from read [unfolded readStagedOnCalendar_def io_bind_Inr] obtain got h0 where
    opened: "os_read_file ''reading staged timer'' ?path h = (Inr got, h0)"
    and rest: "(if 4096 < length got then io_fail ''staged timer is too large''
      else io_lift (first_calendar (split_char newline got))) h0 = (Inr v, h1)"
    by blast
  from rest have v: "first_calendar (split_char newline got) = Inr v" by (simp add: io_fail_def io_lift_def split: if_splits)
  from opened have "read_path 41 (ho_files h) ?path = Some got"
    unfolding os_read_file_def by (auto dest!: io_call_Inr split: option.splits)
  then have "got = unit_lines (timer_lines i cal)" using staged by (simp add: eval_nat_numeral)
  then have "v = trim_space cal" using first_calendar_timer [OF i cal] v by simp
  moreover have "su_timer units = unit_lines (timer_lines i v)"
    using Render_Inr [of _ DefaultHellingCLIPath units] render by (fastforce simp: io_lift_def)
  moreover have "calendar_ok v" by (rule readStaged_Inr [OF read])
  ultimately show ?thesis using body by (simp add: io_ret_def)
qed

lemma canonical_service:
  assumes "uuid_text i" "canonicalUnitBody l (service_name i) h = (Inr body, h')"
  shows "body = unit_lines (service_lines DefaultHellingCLIPath i)"
proof -
  have "ValidateManagedUnitName (service_name i) = Inr ()" using assms(1) by (auto simp: managed_name)
  then have "canonical_unit (service_name i) body" by (rule canonicalUnitBody_Inr [OF _ assms(2)])
  then show ?thesis by (auto simp: canonical_unit_def)
qed

section \<open>The manager with the helper is a board of schedules\<close>

text \<open>
  The abstract state: for each schedule whether its service is installed, and the calendar of its timer.
  The operations of the board are what the daemon means by installing and removing a schedule.
\<close>

type_synonym board = "string \<Rightarrow> bool \<times> string option"

datatype unit_op = OpInstall schedule_spec | OpRemove string

fun op_schedule :: "unit_op \<Rightarrow> string" where
  "op_schedule (OpInstall spec) = sp_id spec"
| "op_schedule (OpRemove i) = i"

fun run_unit_op :: "schedule_manager \<Rightarrow> unit_op \<Rightarrow> unit io" where
  "run_unit_op sm (OpInstall spec) = manager_Install sm spec"
| "run_unit_op sm (OpRemove i) = manager_Remove sm i"

fun board_op :: "unit_op \<Rightarrow> board \<Rightarrow> board" where
  "board_op (OpInstall spec) b = b(sp_id spec :=
     (True, if sp_enabled spec then Some (trim_space (sp_on_calendar spec)) else snd (b (sp_id spec))))"
| "board_op (OpRemove i) b = b(i := (False, None))"

text \<open>The board a host shows: the regular files with the names and texts of units.\<close>

definition timer_calendar :: "inode option \<Rightarrow> string option" where
  "timer_calendar f = (case f of Some (Regular body) \<Rightarrow>
       (case first_calendar (split_char newline body) of Inr cal \<Rightarrow> Some cal | Inl _ \<Rightarrow> None)
     | _ \<Rightarrow> None)"

definition board_of :: "string \<Rightarrow> (string \<Rightarrow> inode option) \<Rightarrow> board" where
  "board_of dir fs i = (if uuid_text i
     then (fs (filepath_join dir (service_name i)) = Some (Regular (unit_lines (service_lines DefaultHellingCLIPath i))),
           timer_calendar (fs (filepath_join dir (timer_name i))))
     else (False, None))"

text \<open>The helper of the manager is the privileged helper, on the same staging directory.\<close>

definition paired :: "schedule_manager \<Rightarrow> unit_linker \<Rightarrow> bool" where
  "paired sm l \<longleftrightarrow> sm_run_helper sm = linker_Handle l \<and> manager_stagingDir sm = linker_stagingDir l \<and>
     linker_systemDir l \<noteq> linker_stagingDir l"

lemma managed_names [simp]: "uuid_text i \<Longrightarrow> ValidateManagedUnitName (service_name i) = Inr ()"
  "uuid_text i \<Longrightarrow> ValidateManagedUnitName (timer_name i) = Inr ()"
  by (auto simp: managed_name)

lemma runHelper_files:
  assumes "paired sm l" "ValidateManagedUnitName u = Inr ()"
  shows "manager_runHelper sm ''install'' u h = linker_install l u h"
    "manager_runHelper sm ''remove'' u h = linker_remove l u h"
  using assms by (simp_all add: manager_runHelper_def paired_def linker_Handle_def io_bind_def io_lift_def)

lemma Remove_files:
  assumes pair: "paired sm l" and run: "manager_Remove sm i h = (Inr v, h')"
  shows "uuid_text i \<and> ho_files h' = (ho_files h)(filepath_join (linker_systemDir l) (timer_name i) := None,
    filepath_join (linker_systemDir l) (service_name i) := None)"
proof -
  let ?spec = "\<lparr>sp_id = i, sp_kind = ''backup'', sp_target = ''unused'', sp_on_calendar = ''daily'', sp_enabled = False\<rparr>"
  from run [unfolded manager_Remove_def io_bind_Inr] obtain units h1 w h2 where
    render: "io_lift (RenderScheduleUnits ?spec (sm_cli sm)) h = (Inr units, h1)"
    and timer: "manager_runHelper sm ''remove'' (su_timer_name units) h1 = (Inr w, h2)"
    and service: "manager_runHelper sm ''remove'' (su_service_name units) h2 = (Inr v, h')" by blast
  have h1: "h1 = h" and units: "RenderScheduleUnits ?spec (sm_cli sm) = Inr units" using render by (simp_all add: io_lift_def)
  from Render_Inr [OF units] have i: "uuid_text i" and names: "su_timer_name units = timer_name i" "su_service_name units = service_name i"
    by simp_all
  then show ?thesis
    using timer service runHelper_files [OF pair] linker_remove_files by (simp add: names h1)
qed

lemma Install_files:
  assumes pair: "paired sm l" and run: "manager_Install sm spec h = (Inr v, h')"
  defines "i \<equiv> sp_id spec"
  shows "uuid_text i \<and> (sp_enabled spec \<longrightarrow> calendar_ok (trim_space (sp_on_calendar spec))) \<and>
    (\<forall>p. p \<noteq> filepath_join (linker_stagingDir l) (service_name i) \<and> p \<noteq> filepath_join (linker_stagingDir l) (timer_name i) \<longrightarrow>
      ho_files h' p = (if p = filepath_join (linker_systemDir l) (service_name i) then Some (Regular (unit_lines (service_lines DefaultHellingCLIPath i)))
        else if sp_enabled spec \<and> p = filepath_join (linker_systemDir l) (timer_name i)
          then Some (Regular (unit_lines (timer_lines i (trim_space (sp_on_calendar spec)))))
        else ho_files h p))"
proof -
  let ?sys = "linker_systemDir l" and ?stage = "linker_stagingDir l"
  from run [unfolded manager_Install_def io_bind_Inr] obtain units h1 w2 h2 w3 h3 w4 h4 w5 h5 where
    render: "io_lift (RenderScheduleUnits spec (sm_cli sm)) h = (Inr units, h1)"
    and mk: "io_call ''creating schedule unit staging dir'' (io_ret ()) h1 = (Inr w2, h2)"
    and write1: "write_file (manager_stagingDir sm) (su_service_name units) (su_service units) h2 = (Inr w3, h3)"
    and write2: "write_file (manager_stagingDir sm) (su_timer_name units) (su_timer units) h3 = (Inr w4, h4)"
    and service: "manager_runHelper sm ''install'' (su_service_name units) h4 = (Inr w5, h5)"
    and timer: "(if sp_enabled spec then manager_runHelper sm ''install'' (su_timer_name units) else io_ret ()) h5 = (Inr v, h')"
    by blast
  have h1: "h1 = h" and units: "RenderScheduleUnits spec (sm_cli sm) = Inr units" using render by (simp_all add: io_lift_def)
  from Render_Inr [OF units] have i: "uuid_text i" and valid: "validateScheduleSpec spec = Inr ()"
    and names: "su_timer_name units = timer_name i" "su_service_name units = service_name i"
    and body: "su_timer units = unit_lines (timer_lines i (sp_on_calendar spec))" by (simp_all add: i_def)
  have cal: "newline \<notin> set (sp_on_calendar spec)"
    using valid no_control_no_newline by (auto simp: validateScheduleSpec_def split: if_splits)
  have stage: "manager_stagingDir sm = ?stage" and dirs: "?sys \<noteq> ?stage" using pair by (simp_all add: paired_def)
  note slash = names_no_slash [OF i]
  have paths: "filepath_join ?sys (service_name i) \<noteq> filepath_join ?stage (timer_name i)"
    "filepath_join ?sys (service_name i) \<noteq> filepath_join ?sys (timer_name i)"
    using dirs slash by (simp_all add: join_inject)
  have f2: "ho_files h2 = ho_files h"
    using mk doesD [OF does_call [OF does_pure(1)]] h1 by metis
  have f4: "ho_files h4 = (ho_files h)(filepath_join ?stage (service_name i) := Some (Regular (su_service units)),
      filepath_join ?stage (timer_name i) := Some (Regular (su_timer units)))"
    using doesD [OF does_write_file write1] doesD [OF does_write_file write2] f2 by (simp add: stage names)
  from linker_install_files [of l "service_name i" h4 w5 h5] service
  obtain b1 g1 where b1: "canonicalUnitBody l (service_name i) h4 = (Inr b1, g1)"
    and f5: "ho_files h5 = (ho_files h4)(filepath_join ?sys (service_name i) := Some (Regular b1))"
    using runHelper_files [OF pair] i by (auto simp: names)
  have b1': "b1 = unit_lines (service_lines DefaultHellingCLIPath i)" by (rule canonical_service [OF i b1])
  show ?thesis
  proof (cases "sp_enabled spec")
    case False
    then show ?thesis using timer i f4 f5 b1' by (auto simp: io_ret_def)
  next
    case True
    then have "linker_install l (timer_name i) h5 = (Inr v, h')"
      using timer runHelper_files [OF pair] i by (simp add: names)
    from linker_install_files [OF this] obtain b2 g2 where b2: "canonicalUnitBody l (timer_name i) h5 = (Inr b2, g2)"
      and f6: "ho_files h' = (ho_files h5)(filepath_join ?sys (timer_name i) := Some (Regular b2))" by blast
    have "ho_files h5 (filepath_join ?stage (timer_name i)) = Some (Regular (unit_lines (timer_lines i (sp_on_calendar spec))))"
      using paths f4 f5 body by auto
    then have "b2 = unit_lines (timer_lines i (trim_space (sp_on_calendar spec)))" "calendar_ok (trim_space (sp_on_calendar spec))"
      using canonical_timer [OF i cal _ b2] by blast+
    then show ?thesis using True i f4 f5 f6 b1' paths by auto
  qed
qed

definition own_paths :: "unit_linker \<Rightarrow> string \<Rightarrow> string set" where
  "own_paths l i = {filepath_join (linker_stagingDir l) (service_name i), filepath_join (linker_stagingDir l) (timer_name i),
     filepath_join (linker_systemDir l) (service_name i), filepath_join (linker_systemDir l) (timer_name i)}"

lemma touches_mono: "touches P m \<Longrightarrow> (\<And>p f. P p f \<Longrightarrow> Q p f) \<Longrightarrow> touches Q m"
  unfolding touches_def by blast

lemma touches_runHelper:
  assumes pair: "paired sm l" and u: "u = service_name i \<or> u = timer_name i"
  shows "touches (\<lambda>p f. p \<in> own_paths l i) (manager_runHelper sm action u)"
proof -
  have handle: "touches (\<lambda>p f. p \<in> own_paths l i) (linker_Handle l [action, u])"
    if "ValidateManagedUnitName u = Inr ()"
  proof -
    have own: "helper_change (linker_systemDir l) u p f \<Longrightarrow> p \<in> own_paths l i" for p f
      using u by (auto simp: helper_change_def own_paths_def)
    show ?thesis unfolding touches_def
      using Handle_touches [of l "[action, u]"] own by (metis (no_types, lifting) list.inject)
  qed
  show ?thesis
    unfolding manager_runHelper_def
  proof (rule touches_if [OF touches_pure(2)], rule touches_bind_result [OF touches_pure(3)])
    fix x and h h' :: host assume "io_lift (ValidateManagedUnitName u) h = (Inr x, h')"
    then have "ValidateManagedUnitName u = Inr ()" by (simp add: io_lift_def)
    then show "touches (\<lambda>p f. p \<in> own_paths l i) (sm_run_helper sm [action, u])"
      using handle pair by (simp add: paired_def)
  qed
qed

lemma op_touches:
  assumes pair: "paired sm l"
  shows "touches (\<lambda>p f. uuid_text (op_schedule op) \<and> p \<in> own_paths l (op_schedule op)) (run_unit_op sm op)"
proof (cases op)
  case (OpInstall spec)
  show ?thesis
    unfolding OpInstall run_unit_op.simps manager_Install_def
  proof (rule touches_bind_result [OF touches_pure(3)])
    fix units h h' assume "io_lift (RenderScheduleUnits spec (sm_cli sm)) h = (Inr units, h')"
    then have "RenderScheduleUnits spec (sm_cli sm) = Inr units" by (simp add: io_lift_def)
    from Render_Inr [OF this] have i: "uuid_text (sp_id spec)"
      and names: "su_service_name units = service_name (sp_id spec)" "su_timer_name units = timer_name (sp_id spec)"
      by simp_all
    have stage: "manager_stagingDir sm = linker_stagingDir l" using pair by (simp add: paired_def)
    show "touches (\<lambda>p f. uuid_text (op_schedule (OpInstall spec)) \<and> p \<in> own_paths l (op_schedule (OpInstall spec)))
      (io_bind (io_call ''creating schedule unit staging dir'' (io_ret ())) (\<lambda>_.
       io_bind (write_file (manager_stagingDir sm) (su_service_name units) (su_service units)) (\<lambda>_.
       io_bind (write_file (manager_stagingDir sm) (su_timer_name units) (su_timer units)) (\<lambda>_.
       io_bind (manager_runHelper sm ''install'' (su_service_name units)) (\<lambda>_.
       if sp_enabled spec then manager_runHelper sm ''install'' (su_timer_name units) else io_ret ())))))"
      unfolding names stage op_schedule.simps
      by (rule touches_mono [of "\<lambda>p f. p \<in> own_paths l (sp_id spec)"],
          intro touch_intros touches_write_file touches_runHelper [OF pair]) (simp_all add: own_paths_def i)
  qed
next
  case (OpRemove i)
  let ?spec = "\<lparr>sp_id = i, sp_kind = ''backup'', sp_target = ''unused'', sp_on_calendar = ''daily'', sp_enabled = False\<rparr>"
  show ?thesis
    unfolding OpRemove run_unit_op.simps manager_Remove_def
  proof (rule touches_bind_result [OF touches_pure(3)])
    fix units h h' assume "io_lift (RenderScheduleUnits ?spec (sm_cli sm)) h = (Inr units, h')"
    then have "RenderScheduleUnits ?spec (sm_cli sm) = Inr units" by (simp add: io_lift_def)
    from Render_Inr [OF this] have i: "uuid_text i"
      and names: "su_service_name units = service_name i" "su_timer_name units = timer_name i"
      by simp_all
    show "touches (\<lambda>p f. uuid_text (op_schedule (OpRemove i)) \<and> p \<in> own_paths l (op_schedule (OpRemove i)))
      (io_bind (manager_runHelper sm ''remove'' (su_timer_name units)) (\<lambda>_. manager_runHelper sm ''remove'' (su_service_name units)))"
      unfolding names op_schedule.simps
      by (rule touches_mono [of "\<lambda>p f. p \<in> own_paths l i"], intro touch_intros touches_runHelper [OF pair]) (simp_all add: i)
  qed
qed

lemma board_frame:
  assumes dirs: "linker_systemDir l \<noteq> linker_stagingDir l" and "i \<noteq> j"
    and same: "\<And>p. \<not> (uuid_text j \<and> p \<in> own_paths l j) \<Longrightarrow> fs' p = fs p"
  shows "board_of (linker_systemDir l) fs' i = board_of (linker_systemDir l) fs i"
proof (cases "uuid_text i")
  case True
  then have "\<not> (uuid_text j \<and> filepath_join (linker_systemDir l) u \<in> own_paths l j)" if "u = service_name i \<or> u = timer_name i" for u
    using that assms names_no_slash [of i] names_no_slash [of j] by (auto simp: own_paths_def join_inject)
  then show ?thesis using same True by (simp add: board_of_def)
qed (simp add: board_of_def)

lemma op_success_uuid:
  assumes "paired sm l" "run_unit_op sm op h = (Inr v, h')"
  shows "uuid_text (op_schedule op)"
  using assms Install_files Remove_files by (cases op) auto

lemma first_calendar_ok:
  assumes i: "uuid_text i" and cal: "calendar_ok cal"
  shows "first_calendar (split_char newline (unit_lines (timer_lines i cal))) = Inr cal"
proof -
  have nl: "newline \<notin> set cal" using cal no_control_no_newline by (simp add: calendar_ok_def)
  have "\<forall>l \<in> set (timer_lines i cal). newline \<notin> set l"
    using uuid_text_plain(3) [OF i] nl by (simp add: timer_lines_def scheduleUnitPrefix_def)
  then have "split_char newline (unit_lines (timer_lines i cal)) = timer_lines i cal @ ['''']" by (rule split_unit_lines)
  moreover have "cut_prefix (''OnCalendar='' @ cal) ''OnCalendar='' = Some cal" by (rule cut_prefix_append)
  moreover have "ValidateScheduleInput ''backup'' ''managed'' cal = Inr ()"
  proof -
    have "trim_space ''managed'' \<noteq> ''''" "\<not> contains_control ''managed''" by code_simp+
    then show ?thesis using cal by (simp add: ValidateScheduleInput_Inr calendar_ok_def)
  qed
  ultimately show ?thesis using cal by (simp add: timer_lines_def cut_other Let_def calendar_ok_def)
qed

lemma op_refines:
  assumes pair: "paired sm l" and run: "run_unit_op sm op h = (Inr v, h')"
  shows "board_of (linker_systemDir l) (ho_files h') = board_op op (board_of (linker_systemDir l) (ho_files h))"
proof
  let ?sys = "linker_systemDir l" and ?j = "op_schedule op"
  have dirs: "?sys \<noteq> linker_stagingDir l" using pair by (simp add: paired_def)
  have j: "uuid_text ?j" by (rule op_success_uuid [OF pair run])
  fix i show "board_of ?sys (ho_files h') i = board_op op (board_of ?sys (ho_files h)) i"
  proof (cases "i = ?j")
    case False
    then have "board_of ?sys (ho_files h') i = board_of ?sys (ho_files h) i"
      using touchesD [OF op_touches [OF pair] run] by (intro board_frame [OF dirs]) auto
    then show ?thesis using False by (cases op) simp_all
  next
    case True
    note slash = names_no_slash [OF j]
    show ?thesis
    proof (cases op)
      case (OpRemove k)
      then show ?thesis using Remove_files [OF pair, of k h v h'] run True j by (simp add: board_of_def timer_calendar_def)
    next
      case (OpInstall spec)
      have files: "sp_enabled spec \<longrightarrow> calendar_ok (trim_space (sp_on_calendar spec))"
        "ho_files h' (filepath_join ?sys (service_name i)) = Some (Regular (unit_lines (service_lines DefaultHellingCLIPath i)))"
        "ho_files h' (filepath_join ?sys (timer_name i)) = (if sp_enabled spec
           then Some (Regular (unit_lines (timer_lines i (trim_space (sp_on_calendar spec))))) else ho_files h (filepath_join ?sys (timer_name i)))"
        using Install_files [OF pair, of spec h v h'] run True OpInstall slash dirs by (simp_all add: join_inject)
      then show ?thesis
        using True OpInstall j first_calendar_ok [OF j] by (simp add: board_of_def timer_calendar_def)
    qed
  qed
qed

text \<open>
  C7: The schedule manager with the privileged helper refines the board of schedules: an operation that
  succeeds has on the files of the host the effect that the board gives it, the calendar arriving trimmed
  in the timer systemd reads, and whether it succeeds or stops half-way, no other schedule is changed.
\<close>

theorem units_refine_board:
  assumes pair: "paired sm l" and run: "run_unit_op sm op h = (r, h')"
  shows "board_of (linker_systemDir l) (ho_files h') =
    (if r = Inr () then board_op op (board_of (linker_systemDir l) (ho_files h))
     else (board_of (linker_systemDir l) (ho_files h))
       (op_schedule op := board_of (linker_systemDir l) (ho_files h') (op_schedule op)))"
proof (cases r)
  case (Inr v)
  then show ?thesis using op_refines [OF pair] run by simp
next
  case (Inl e)
  have "linker_systemDir l \<noteq> linker_stagingDir l" using pair by (simp add: paired_def)
  then show ?thesis
    using Inl touchesD [OF op_touches [OF pair] run] by (auto intro!: board_frame simp: fun_eq_iff)
qed

section \<open>Examples\<close>

definition demo_id :: string where "demo_id = ''0194d2c0-0000-7000-8000-0123456789ab''"

definition demo_linker :: unit_linker where "demo_linker = \<lparr>ul_staging = '''', ul_system = ''''\<rparr>"

definition demo_manager :: schedule_manager where
  "demo_manager = \<lparr>sm_staging = '''', sm_cli = '''', sm_run_helper = linker_Handle demo_linker\<rparr>"

text \<open>A host whose staged timer carries a line that is not the daemon's.\<close>

definition demo_host :: host where
  "demo_host = \<lparr>ho_files = (\<lambda>p. if p = ''/etc/systemd/system/helling-managed/'' @ timer_name demo_id
       then Some (Regular (unit_lines [''[Timer]'', ''OnCalendar= hourly '', ''ExecStart=/bin/sh''])) else None),
     ho_log = [], ho_faults = []\<rparr>"

theorem helper_installs_canonical_witness:
  "\<exists>body. ho_files (snd (linker_Handle demo_linker [''install'', timer_name demo_id] demo_host))
       (''/etc/systemd/system/'' @ timer_name demo_id) = Some (Regular body) \<and>
     (\<exists>i cal. split_char newline body = timer_lines i cal @ [''''])"
proof -
  let ?p = "''/etc/systemd/system/'' @ timer_name demo_id"
  obtain r h' where run: "linker_Handle demo_linker [''install'', timer_name demo_id] demo_host = (r, h')" by fastforce
  have "ho_files (snd (linker_Handle demo_linker [''install'', timer_name demo_id] demo_host)) ?p \<noteq> None"
    "ho_files demo_host ?p = None" by code_simp+
  then have new: "ho_files h' ?p \<noteq> None" and change: "ho_files h' ?p \<noteq> ho_files demo_host ?p" by (simp_all add: run)
  have i: "uuid_text demo_id" by code_simp
  have sys: "filepath_join (linker_systemDir demo_linker) u = ''/etc/systemd/system/'' @ u" for u
    by (simp add: filepath_join_def linker_systemDir_def demo_linker_def)
  from helper_installs_canonical [OF run change] new
  obtain j u body where "u = service_name j \<or> u = timer_name j" "?p = ''/etc/systemd/system/'' @ u"
    "ho_files h' ?p = Some (Regular body)"
    "u = service_name j \<or> (\<exists>cal. split_char newline body = timer_lines j cal @ [''''])" unfolding sys by blast
  then have "ho_files h' ?p = Some (Regular body) \<and> (\<exists>cal. split_char newline body = timer_lines j cal @ [''''])" by auto
  then show ?thesis unfolding run snd_conv by blast
qed

definition demo_installed :: host where
  "demo_installed = demo_host\<lparr>ho_files :=
     (ho_files demo_host)(''/etc/systemd/system/'' @ service_name demo_id := Some (Regular (unit_lines (service_lines DefaultHellingCLIPath demo_id))),
       ''/etc/systemd/system/'' @ timer_name demo_id := Some (Regular (unit_lines (timer_lines demo_id ''daily''))))\<rparr>"

theorem units_refine_board_witness:
  "board_of ''/etc/systemd/system'' (ho_files (snd (run_unit_op demo_manager (OpRemove demo_id) demo_installed))) demo_id = (False, None)"
proof -
  obtain r h' where run: "run_unit_op demo_manager (OpRemove demo_id) demo_installed = (r, h')" by fastforce
  have "\<not> isl (fst (run_unit_op demo_manager (OpRemove demo_id) demo_installed))" by code_simp
  then have "\<not> isl r" by (metis run fst_conv)
  then have r: "r = Inr ()" by (cases r) simp_all
  have pair: "paired demo_manager demo_linker"
    by (simp add: paired_def demo_manager_def demo_linker_def manager_stagingDir_def linker_stagingDir_def linker_systemDir_def)
  have sys: "linker_systemDir demo_linker = ''/etc/systemd/system''" by (simp add: linker_systemDir_def demo_linker_def)
  show ?thesis using units_refine_board [OF pair run] unfolding r run snd_conv sys by simp
qed

end
