(* ===== verification/Server_Schedules.thy ===== *)
theory Server_Schedules
  imports Server_Events Systemd_Units_Props
begin

text \<open>
  The schedule endpoints (\<open>server/schedule_handlers.go\<close>).  Their state is the server and the host with its
  units; Incus is in the environment \<open>sched_env\<close>, as are the clock and the random ids.
\<close>

record snode =
  sn_node :: node
  sn_host :: host

text \<open>The two calls of the Incus client, from instance and artifact name to the id of the operation.\<close>

record incus_ops =
  io_backup :: "string \<Rightarrow> string \<Rightarrow> string option"
  io_snapshot :: "string \<Rightarrow> string \<Rightarrow> string option"

record sched_env =
  sx_now :: gotime
  sx_uuid :: "string option"
  sx_event_uuid :: "string option"
  sx_op_uuid :: "string option"
  sx_json :: "(string \<times> string) list \<Rightarrow> string option"     \<comment> \<open>a JSON object of strings\<close>
  sx_manager :: "schedule_manager option"
  sx_incus :: "incus_ops option"

definition sn_db :: "snode \<Rightarrow> db" where
  "sn_db s = nd_db (sn_node s)"

definition on_sched_db :: "'a dbm \<Rightarrow> ('a res \<Rightarrow> snode \<Rightarrow> 'b \<times> snode) \<Rightarrow> snode \<Rightarrow> 'b \<times> snode" where
  "on_sched_db m k s = (case m (sn_db s) of (r, d) \<Rightarrow> k r (s\<lparr>sn_node := set_db d (sn_node s)\<rparr>))"

definition on_host :: "unit io \<Rightarrow> (string + unit \<Rightarrow> snode \<Rightarrow> 'b \<times> snode) \<Rightarrow> snode \<Rightarrow> 'b \<times> snode" where
  "on_host m k s = (case m (sn_host s) of (r, h) \<Rightarrow> k r (s\<lparr>sn_host := h\<rparr>))"

text \<open>\<open>emitEvent\<close>, its result ignored, and \<open>audit\<close>.\<close>

definition sched_emit :: "sched_env \<Rightarrow> string \<Rightarrow> string \<Rightarrow> (string \<times> string) list \<Rightarrow> snode \<Rightarrow> snode" where
  "sched_emit env ty subject fs s =
     s\<lparr>sn_node := snd (emitEvent (sx_now env) (sx_event_uuid env) ty subject (sx_json env fs) (sn_node s))\<rparr>"

definition sched_audit :: "request \<Rightarrow> string \<Rightarrow> string \<Rightarrow> string \<Rightarrow> string \<Rightarrow> snode \<Rightarrow> snode" where
  "sched_audit r action outcome i message s = s\<lparr>sn_node := node_audit (audit r action outcome ''schedule'' i message) (sn_node s)\<rparr>"

section \<open>Requests and answers\<close>

record create_schedule_request =
  cs_name :: string
  cs_kind :: string
  cs_target :: string
  cs_on_calendar :: string
  cs_enabled :: "bool option"

record update_schedule_request =
  us_name :: "string option"
  us_on_calendar :: "string option"
  us_enabled :: "bool option"

record schedule_response =
  sr_id :: string
  sr_name :: string
  sr_kind :: string
  sr_target :: string
  sr_on_calendar :: string
  sr_enabled :: bool
  sr_unit_name :: string
  sr_last_run_at :: "gotime option"
  sr_next_run_at :: "gotime option"
  sr_last_status :: "string option"
  sr_last_error :: "string option"
  sr_created_at :: gotime
  sr_updated_at :: gotime

definition scheduleToResponse :: "schedule \<Rightarrow> schedule_response" where
  "scheduleToResponse r = \<lparr>sr_id = sc_id r, sr_name = sc_name r, sr_kind = sc_kind r, sr_target = sc_target r,
     sr_on_calendar = sc_on_calendar r, sr_enabled = sc_enabled r, sr_unit_name = (case sc_unit_name r of None \<Rightarrow> '''' | Some u \<Rightarrow> u),
     sr_last_run_at = sc_last_run_at r, sr_next_run_at = sc_next_run_at r, sr_last_status = sc_last_status r,
     sr_last_error = sc_last_error r, sr_created_at = sc_created_at r, sr_updated_at = sc_updated_at r\<rparr>"

definition validScheduleKind :: "string \<Rightarrow> bool" where
  "validScheduleKind kind \<longleftrightarrow> kind = ''backup'' \<or> kind = ''snapshot''"

section \<open>Units of a schedule\<close>

definition scheduleUnitSpec :: "schedule \<Rightarrow> schedule_spec" where
  "scheduleUnitSpec r = \<lparr>sp_id = sc_id r, sp_kind = sc_kind r, sp_target = sc_target r,
     sp_on_calendar = sc_on_calendar r, sp_enabled = sc_enabled r\<rparr>"

definition installScheduleUnits :: "sched_env \<Rightarrow> schedule \<Rightarrow> unit io" where
  "installScheduleUnits env row = (case sx_manager env of None \<Rightarrow> io_ret () | Some sm \<Rightarrow> manager_Install sm (scheduleUnitSpec row))"

definition refreshScheduleUnits :: "sched_env \<Rightarrow> schedule \<Rightarrow> unit io" where
  "refreshScheduleUnits env row = (case sx_manager env of None \<Rightarrow> io_ret ()
   | Some sm \<Rightarrow> io_bind (if \<not> sc_enabled row then manager_Remove sm (sc_id row) else io_ret ())
       (\<lambda>_. manager_Install sm (scheduleUnitSpec row)))"

definition removeScheduleUnits :: "sched_env \<Rightarrow> string \<Rightarrow> unit io" where
  "removeScheduleUnits env i = (case sx_manager env of None \<Rightarrow> io_ret () | Some sm \<Rightarrow> manager_Remove sm i)"

section \<open>Handlers\<close>

definition handleListSchedules :: "string \<Rightarrow> snode \<Rightarrow> schedule_response list response \<times> snode" where
  "handleListSchedules kind = on_sched_db (ListSchedules kind) (\<lambda>r s. case r of
     Inl e \<Rightarrow> (internalError, s)
   | Inr rows \<Rightarrow> (writeJSON 200 (map scheduleToResponse rows), s))"

definition schedule_installed ::
  "sched_env \<Rightarrow> request \<Rightarrow> schedule \<Rightarrow> snode \<Rightarrow> schedule_response response \<times> snode" where
  "schedule_installed env r row = on_host (installScheduleUnits env row) (\<lambda>res s. case res of
     Inl m \<Rightarrow> on_sched_db (DeleteSchedule (sc_id row))
       (\<lambda>_ s. (writeError 500 ''internal'' ''could not install schedule units'', s)) s
   | Inr _ \<Rightarrow> (writeJSON 201 (scheduleToResponse row),
       sched_audit r ''schedule.create'' ''success'' (sc_id row) ''schedule created''
         (sched_emit env ''schedule.created'' (sc_id row) [(''name'', sc_name row)] s)))"

definition handleCreateSchedule ::
  "sched_env \<Rightarrow> request \<Rightarrow> create_schedule_request option \<Rightarrow> snode \<Rightarrow> schedule_response response \<times> snode" where
  "handleCreateSchedule env r body s = (case body of
     None \<Rightarrow> (writeError 400 ''bad_request'' ''invalid JSON body'', s)
   | Some req \<Rightarrow>
     let name = trim_space (cs_name req); kind = trim_space (cs_kind req);
         target = trim_space (cs_target req); cal = trim_space (cs_on_calendar req) in
     if name = '''' \<or> kind = '''' \<or> target = '''' \<or> cal = ''''
     then (writeError 400 ''bad_request'' ''name, kind, target, and on_calendar are required'', s)
     else if \<not> validScheduleKind kind then (writeError 400 ''bad_request'' ''kind must be backup or snapshot'', s)
     else (case ValidateScheduleInput kind target cal of Inl m \<Rightarrow> (writeError 400 ''bad_request'' m, s)
     | Inr _ \<Rightarrow> (case rq_user r of None \<Rightarrow> (writeError 401 ''unauthorized'' ''authentication required'', s)
     | Some u \<Rightarrow> on_sched_db (CreateSchedule (sx_now env) (sx_uuid env) (u_id u) name kind target cal)
         (\<lambda>res s. case res of Inl e \<Rightarrow> (internalError, s)
         | Inr row \<Rightarrow>
             if cs_enabled req = Some False then
               on_sched_db (UpdateSchedule (sx_now env) (sc_id row) (sc_name row) (sc_on_calendar row) False)
                 (\<lambda>res s. case res of Inl e \<Rightarrow> (internalError, s)
                 | Inr _ \<Rightarrow> schedule_installed env r (row\<lparr>sc_enabled := False\<rparr>) s) s
             else schedule_installed env r row s) s)))"

definition schedule_lookup ::
  "string \<Rightarrow> (schedule \<Rightarrow> snode \<Rightarrow> 'p response \<times> snode) \<Rightarrow> snode \<Rightarrow> 'p response \<times> snode" where
  "schedule_lookup i k = on_sched_db (GetSchedule i) (\<lambda>res s. case res of
     Inl e \<Rightarrow> if e = ErrNotFound then (writeError 404 ''not_found'' ''schedule not found'', s) else (internalError, s)
   | Inr row \<Rightarrow> k row s)"

definition handleGetSchedule :: "string \<Rightarrow> snode \<Rightarrow> schedule_response response \<times> snode" where
  "handleGetSchedule i = schedule_lookup i (\<lambda>row s. (writeJSON 200 (scheduleToResponse row), s))"

definition apply_schedule_update :: "update_schedule_request \<Rightarrow> schedule \<Rightarrow> schedule" where
  "apply_schedule_update req row =
     (let row = (case us_name req of None \<Rightarrow> row | Some v \<Rightarrow> row\<lparr>sc_name := trim_space v\<rparr>);
          row = (case us_on_calendar req of None \<Rightarrow> row | Some v \<Rightarrow> row\<lparr>sc_on_calendar := trim_space v\<rparr>)
      in (case us_enabled req of None \<Rightarrow> row | Some v \<Rightarrow> row\<lparr>sc_enabled := v\<rparr>))"

definition zero_schedule :: schedule where
  "zero_schedule = \<lparr>sc_id = '''', sc_user_id = 0, sc_name = '''', sc_kind = '''', sc_target = '''', sc_on_calendar = '''',
     sc_enabled = False, sc_unit_name = Some '''', sc_last_status = None, sc_last_error = None, sc_last_run_at = None,
     sc_next_run_at = None, sc_created_at = 0, sc_updated_at = 0\<rparr>"

definition schedule_updated ::
  "sched_env \<Rightarrow> request \<Rightarrow> schedule \<Rightarrow> snode \<Rightarrow> schedule_response response \<times> snode" where
  "schedule_updated env r row = on_sched_db (GetSchedule (sc_id row)) (\<lambda>res s.
     let row = (case res of Inl e \<Rightarrow> zero_schedule | Inr w \<Rightarrow> w) in
     (writeJSON 200 (scheduleToResponse row),
      sched_audit r ''schedule.update'' ''success'' (sc_id row) ''schedule updated''
        (sched_emit env ''schedule.updated'' (sc_id row) [(''name'', sc_name row)] s)))"

definition handleUpdateSchedule ::
  "sched_env \<Rightarrow> request \<Rightarrow> string \<Rightarrow> update_schedule_request option \<Rightarrow> snode \<Rightarrow> schedule_response response \<times> snode" where
  "handleUpdateSchedule env r i body = schedule_lookup i (\<lambda>row s. case body of
     None \<Rightarrow> (writeError 400 ''bad_request'' ''invalid JSON body'', s)
   | Some req \<Rightarrow>
     let row = apply_schedule_update req row in
     if sc_name row = '''' \<or> sc_on_calendar row = ''''
     then (writeError 400 ''bad_request'' ''name and on_calendar cannot be empty'', s)
     else (case ValidateScheduleInput (sc_kind row) (sc_target row) (sc_on_calendar row) of
       Inl m \<Rightarrow> (writeError 400 ''bad_request'' m, s)
     | Inr _ \<Rightarrow> on_host (refreshScheduleUnits env row) (\<lambda>res s. case res of
         Inl m \<Rightarrow> (writeError 500 ''internal'' ''could not install schedule units'', s)
       | Inr _ \<Rightarrow> on_sched_db (UpdateSchedule (sx_now env) (sc_id row) (sc_name row) (sc_on_calendar row) (sc_enabled row))
           (\<lambda>res s. case res of Inl e \<Rightarrow> (internalError, s) | Inr _ \<Rightarrow> schedule_updated env r row s) s) s))"

definition handleDeleteSchedule :: "sched_env \<Rightarrow> request \<Rightarrow> string \<Rightarrow> snode \<Rightarrow> unit response \<times> snode" where
  "handleDeleteSchedule env r i = schedule_lookup i (\<lambda>row.
     on_host (removeScheduleUnits env (sc_id row)) (\<lambda>res s. case res of
       Inl m \<Rightarrow> (writeError 500 ''internal'' ''could not remove schedule units'', s)
     | Inr _ \<Rightarrow> on_sched_db (DeleteSchedule (sc_id row)) (\<lambda>res s. case res of
         Inl e \<Rightarrow> (internalError, s)
       | Inr _ \<Rightarrow> (noContent, sched_audit r ''schedule.delete'' ''success'' (sc_id row) ''schedule deleted''
           (sched_emit env ''schedule.deleted'' (sc_id row) [] s))) s))"

section \<open>Running a schedule\<close>

text \<open>\<open>Time.Format(''20060102T150405Z'')\<close> in UTC: the civil date of a day counted from 1970.\<close>

definition civil_date :: "int \<Rightarrow> int \<times> int \<times> int" where
  "civil_date days =
     (let z = days + 719468; era = z div 146097; doe = z mod 146097;
          yoe = (doe - doe div 1460 + doe div 36524 - doe div 146096) div 365;
          doy = doe - (365 * yoe + yoe div 4 - yoe div 100);
          mp = (5 * doy + 2) div 153;
          d = doy - (153 * mp + 2) div 5 + 1;
          m = (if mp < 10 then mp + 3 else mp - 9);
          y = yoe + era * 400 + (if m \<le> 2 then 1 else 0)
      in (y, m, d))"

definition padded :: "nat \<Rightarrow> int \<Rightarrow> string" where
  "padded n v = (let s = format_int v in replicate (n - length s) (CHR ''0'') @ s)"

definition format_utc :: "gotime \<Rightarrow> string" where
  "format_utc t = (let secs = to_unix t; days = secs div 86400; rest = secs mod 86400 in
     case civil_date days of (y, m, d) \<Rightarrow> padded 4 y @ padded 2 m @ padded 2 d @ ''T'' @ padded 2 (rest div 3600)
       @ padded 2 (rest mod 3600 div 60) @ padded 2 (rest mod 60) @ ''Z'')"

definition scheduleArtifactName :: "schedule \<Rightarrow> gotime \<Rightarrow> string" where
  "scheduleArtifactName row now = ''helling-'' @ sc_id row @ ''-'' @ format_utc now"

definition runScheduleIncusOperation :: "incus_ops \<Rightarrow> schedule \<Rightarrow> string \<Rightarrow> string option" where
  "runScheduleIncusOperation ops row artifact =
     (if sc_kind row = ''backup'' then io_backup ops (sc_target row) artifact
      else if sc_kind row = ''snapshot'' then io_snapshot ops (sc_target row) artifact else None)"

definition handleRunSchedule :: "sched_env \<Rightarrow> request \<Rightarrow> string \<Rightarrow> snode \<Rightarrow> event response \<times> snode" where
  "handleRunSchedule env r i = schedule_lookup i (\<lambda>row s. case sx_incus env of
     None \<Rightarrow> (writeError 503 ''incus_unavailable'' ''incus unavailable'',
       sched_audit r ''schedule.run'' ''failed'' (sc_id row) ''incus unavailable'' s)
   | Some ops \<Rightarrow> (case (case rq_user r of Some u \<Rightarrow> Some (u_id u) | None \<Rightarrow> if rq_runner r then Some (sc_user_id row) else None) of
       None \<Rightarrow> (writeError 401 ''unauthorized'' ''authentication required'', s)
     | Some uid \<Rightarrow> let artifact = scheduleArtifactName row (sx_now env) in
       (case runScheduleIncusOperation ops row artifact of
         None \<Rightarrow> (writeError 502 ''incus_error'' ''could not submit schedule operation'',
           sched_audit r ''schedule.run'' ''failed'' (sc_id row) ''schedule run failed'' s)
       | Some op \<Rightarrow> on_sched_db (CreateOperation (sx_now env) (sx_op_uuid env) uid (''schedule.'' @ sc_kind row) (sc_target row) op)
           (\<lambda>res s. case res of Inl e \<Rightarrow> (internalError, s)
           | Inr dbop \<Rightarrow> on_sched_db (MarkScheduleRunStarted (sx_now env) (sc_id row)) (\<lambda>_ s.
               case emitEvent (sx_now env) (sx_event_uuid env) ''schedule.started'' (sc_id row)
                 (sx_json env [(''artifact'', artifact), (''incus_operation_id'', op), (''kind'', sc_kind row),
                    (''operation_id'', op_id dbop), (''target'', sc_target row)]) (sn_node s) of
                 (Inl e, n) \<Rightarrow> (internalError, s\<lparr>sn_node := n\<rparr>)
               | (Inr ev, n) \<Rightarrow> (writeJSON 202 ev,
                   sched_audit r ''schedule.run'' ''success'' (sc_id row) ''schedule run requested'' (s\<lparr>sn_node := n\<rparr>))) s) s)))"

end
