(* ===== verification/Server_Schedules_Props.thy ===== *)
theory Server_Schedules_Props
  imports Server_Schedules Service
begin

text \<open>
  What the schedule endpoints leave: valid rows after any sequence of requests, and for a creation the row
  together with the units on the host.
\<close>

section \<open>The table of schedules\<close>

definition same_schedules :: "schedule list \<Rightarrow> db \<Rightarrow> bool" where
  "same_schedules ws d \<longleftrightarrow> schedules d = ws"

lemma schedules_pred [simp]: "data_pred (same_schedules ws)"
  by (simp add: data_pred_def same_schedules_def)

lemma schedules_exec: "(\<And>d. schedules (f d) = schedules d) \<Longrightarrow> keeps (same_schedules ws) (exec f)"
  by (rule keeps_exec) (simp_all add: same_schedules_def)

lemma schedules_stmt: "(\<And>d. schedules (snd (g d)) = schedules d) \<Longrightarrow> keeps (same_schedules ws) (stmt g)"
  by (rule keeps_stmt) (simp_all add: same_schedules_def keeps_def)

lemmas schedules_keep = keeps_query [OF schedules_pred] keeps_transaction [OF schedules_pred] schedules_exec schedules_stmt

lemmas flow_schedules = keeps_dret keeps_dfail keeps_dbind keeps_if keeps_option keeps_with_uuid keeps_sum schedules_keep

lemma schedules_untouched:
  "keeps (same_schedules ws) (CreateEvent now uuid ty src sub data)" "keeps (same_schedules ws) (MarkEventOutboxDelivered now eid)"
  "keeps (same_schedules ws) (CreateOperation now uuid uid kind target op)" "keeps (same_schedules ws) (GetSchedule i)"
  "keeps (same_schedules ws) (ListSchedules kind)"
  unfolding outbox_defs CreateEvent_def CreateOperation_def GetSchedule_def ListSchedules_def one_row_def Let_def
  by (intro flow_schedules; simp)+

lemma same_schedulesD: "(\<And>ws. keeps (same_schedules ws) m) \<Longrightarrow> m d = (r, d') \<Longrightarrow> schedules d' = schedules d"
  using keepsD [of "same_schedules (schedules d)" m d r d'] by (simp add: same_schedules_def)

lemma CreateSchedule_rows:
  assumes "CreateSchedule now uuid uid name kind target cal d = (r, d')"
  shows "case r of Inl e \<Rightarrow> schedules d' = schedules d
   | Inr w \<Rightarrow> tget sc_id (sc_id w) (schedules d) = None \<and> schedules d' = schedules d @
       [w\<lparr>sc_last_status := Some ''never'', sc_created_at := to_unix now, sc_updated_at := to_unix now\<rparr>] \<and>
      sc_user_id w = uid \<and> sc_name w = name \<and> sc_kind w = kind \<and> sc_target w = target \<and> sc_on_calendar w = cal \<and> sc_enabled w"
proof (cases uuid)
  case None
  then show ?thesis using assms by (auto simp: CreateSchedule_def with_uuid_def dfail_def)
next
  case (Some i)
  let ?sch = "\<lparr>sc_id = i, sc_user_id = uid, sc_name = name, sc_kind = kind, sc_target = target,
                sc_on_calendar = cal, sc_enabled = True, sc_unit_name = Some (''helling-schedule-'' @ i),
                sc_last_status = None, sc_last_error = None, sc_last_run_at = None, sc_next_run_at = None,
                sc_created_at = now, sc_updated_at = now\<rparr>"
  let ?f = "\<lambda>d. if tget sc_id i (schedules d) \<noteq> None then (Inl ErrUnique, d)
       else if tget u_id uid (users d) = None then (Inl ErrForeignKey, d)
       else (Inr (), d\<lparr>schedules := schedules d @
              [?sch\<lparr>sc_last_status := Some ''never'', sc_created_at := to_unix now, sc_updated_at := to_unix now\<rparr>]\<rparr>)"
  have run: "dbind (stmt ?f) (\<lambda>_. dret ?sch) d = (r, d')" using assms by (simp only: CreateSchedule_def with_uuid_def Let_def Some option.case)
  show ?thesis
  proof (cases rule: stmt_cases [of ?f d])
    case (ok fs)
    then show ?thesis using run by (auto simp: dbind_def dret_def split: if_splits)
  next
    case (fault fs)
    then show ?thesis using run by (auto simp: dbind_def)
  qed
qed

lemma exec_rows:
  assumes "exec f d = (r, d')" "\<And>d. schedules (f d) = g (schedules d)"
  shows "schedules d' = (if isl r then schedules d else g (schedules d))"
  using assms by (cases r) (auto dest!: exec_Inr exec_Inl)

lemma UpdateSchedule_rows:
  "UpdateSchedule now i name cal en d = (r, d') \<Longrightarrow> schedules d' = (if isl r then schedules d else
     tupdate (\<lambda>r. sc_id r = i) (\<lambda>r. r\<lparr>sc_name := name, sc_on_calendar := cal, sc_enabled := en, sc_updated_at := to_unix now\<rparr>) (schedules d))"
  unfolding UpdateSchedule_def by (erule exec_rows) simp

lemma DeleteSchedule_rows:
  "DeleteSchedule i d = (r, d') \<Longrightarrow> schedules d' = (if isl r then schedules d else tdelete (\<lambda>r. sc_id r = i) (schedules d))"
  unfolding DeleteSchedule_def by (erule exec_rows) simp

text \<open>Without failures to come an update or a deletion succeeds, and a creation leaves none to come.\<close>

lemma quiet_writes:
  "UpdateSchedule now i name cal en d = (r, d') \<Longrightarrow> faults d = [] \<Longrightarrow> \<not> isl r \<and> faults d' = []"
  "DeleteSchedule i d = (r, d') \<Longrightarrow> faults d = [] \<Longrightarrow> \<not> isl r"
  "CreateSchedule now uuid uid name kind target cal d = (x, d') \<Longrightarrow> faults d = [] \<Longrightarrow> faults d' = []"
  by (auto simp: UpdateSchedule_def DeleteSchedule_def CreateSchedule_def with_uuid_def exec_def stmt_def dbind_def dfail_def
      dret_def Let_def split: option.splits if_splits)

lemma MarkScheduleRunStarted_rows:
  "MarkScheduleRunStarted now i d = (r, d') \<Longrightarrow> schedules d' = (if isl r then schedules d else
     tupdate (\<lambda>r. sc_id r = i) (\<lambda>r. r\<lparr>sc_last_run_at := Some (to_unix now), sc_last_error := None, sc_updated_at := to_unix now\<rparr>) (schedules d))"
  unfolding MarkScheduleRunStarted_def by (erule exec_rows) simp

section \<open>Steps of the handlers\<close>

lemma emit_schedules [simp]: "schedules (nd_db (snd (emitEvent now uuid ty subject data n))) = schedules (nd_db n)"
proof -
  obtain r d where create: "CreateEvent now uuid ty ''helling'' subject data (nd_db n) = (r, d)" by fastforce
  have d: "schedules d = schedules (nd_db n)" by (rule same_schedulesD [OF schedules_untouched(1) create])
  show ?thesis
  proof (cases r)
    case (Inr ev)
    obtain r2 d2 where mark: "MarkEventOutboxDelivered now (ev_id ev) d = (r2, d2)" by fastforce
    have "schedules d2 = schedules d" by (rule same_schedulesD [OF schedules_untouched(2) mark])
    then show ?thesis using Inr create d mark
      by (simp add: emitEvent_def on_node_db_def enqueueWebhookEvent_def Let_def)
  qed (simp add: emitEvent_def on_node_db_def create d)
qed

lemma sched_steps [simp]:
  "schedules (sn_db (sched_emit env ty subject fs s)) = schedules (sn_db s)" "sn_host (sched_emit env ty subject fs s) = sn_host s"
  "sn_db (sched_audit r a o1 i m s) = sn_db s" "sn_host (sched_audit r a o1 i m s) = sn_host s"
  "sn_db (s\<lparr>sn_host := h\<rparr>) = sn_db s" "sn_db (s\<lparr>sn_node := n\<rparr>) = nd_db n"
  by (simp_all add: sched_emit_def sn_db_def,
      simp_all add: sched_audit_def sn_db_def node_audit_def nd_db_def audit_def auditForUser_def
      auditForUserWithPolicyReason_def auditForAnonymous_def auditForActorWithPolicyReason_def Let_def split: option.split)

definition schedule_ok :: "schedule \<Rightarrow> bool" where
  "schedule_ok w \<longleftrightarrow> sc_name w \<noteq> '''' \<and> trim_space (sc_name w) = sc_name w \<and> validScheduleKind (sc_kind w) \<and>
     sc_target w \<noteq> '''' \<and> trim_space (sc_target w) = sc_target w \<and> \<not> contains_control (sc_target w) \<and> calendar_ok (sc_on_calendar w)"

lemma schedule_ok_scan [simp]: "schedule_ok (scan_schedule r) = schedule_ok r"
  by (simp add: schedule_ok_def scan_schedule_def)

lemma GetSchedule_Inr:
  assumes "GetSchedule i d = (Inr row, d')"
  shows "\<exists>r \<in> set (schedules d). row = scan_schedule r \<and> sc_id r = i"
proof -
  from assms obtain x d1 where q: "query (\<lambda>d. tget sc_id i (schedules d)) d = (Inr x, d1)" and o: "one_row scan_schedule x d1 = (Inr row, d')"
    unfolding GetSchedule_def dbind_Inr by blast
  from query_Inr [OF q] have "x = tget sc_id i (schedules d)" by auto
  then show ?thesis using o by (cases x) (force simp: one_row_def dret_def dfail_def dest: tget_Some)+
qed

text \<open>Predicates of the rows through the database calls of a handler.\<close>

lemma rows_on_db:
  assumes ok: "list_all Q (schedules (sn_db s))"
    and step: "\<And>r d'. m (sn_db s) = (r, d') \<Longrightarrow> list_all Q (schedules d') \<and>
      (\<forall>s'. list_all Q (schedules (sn_db s')) \<longrightarrow> list_all Q (schedules (sn_db (snd (k r s')))))"
  shows "list_all Q (schedules (sn_db (snd (on_sched_db m k s))))"
proof -
  obtain r d' where run: "m (sn_db s) = (r, d')" by fastforce
  then show ?thesis using step [OF run] by (simp add: on_sched_db_def sn_db_def)
qed

lemma rows_on_host:
  assumes "list_all Q (schedules (sn_db s))"
    "\<And>r s'. list_all Q (schedules (sn_db s')) \<Longrightarrow> list_all Q (schedules (sn_db (snd (k r s'))))"
  shows "list_all Q (schedules (sn_db (snd (on_host m k s))))"
  using assms by (simp add: on_host_def split: prod.split)

lemma rows_schedule_lookup:
  assumes ok: "list_all schedule_ok (schedules (sn_db s))"
    and found: "\<And>row s'. schedule_ok row \<Longrightarrow> list_all schedule_ok (schedules (sn_db s')) \<Longrightarrow>
      list_all schedule_ok (schedules (sn_db (snd (k row s'))))"
  shows "list_all schedule_ok (schedules (sn_db (snd (schedule_lookup i k s))))"
  unfolding schedule_lookup_def
proof (rule rows_on_db [OF ok])
  fix r d' assume run: "GetSchedule i (sn_db s) = (r, d')"
  have "schedule_ok row" if "r = Inr row" for row
    using GetSchedule_Inr [of i "sn_db s" row d'] run that ok by (auto simp: list_all_iff)
  then show "list_all schedule_ok (schedules d') \<and> (\<forall>s'. list_all schedule_ok (schedules (sn_db s')) \<longrightarrow>
      list_all schedule_ok (schedules (sn_db (snd (case r of
        Inl e \<Rightarrow> if e = ErrNotFound then (writeError 404 ''not_found'' ''schedule not found'', s') else (internalError, s')
      | Inr row \<Rightarrow> k row s')))))"
    using same_schedulesD [OF schedules_untouched(4) run] ok found by (simp split: sum.split)
qed

section \<open>Creating a schedule\<close>

text \<open>The row a creation request asks for, apart from id, times, unit name and status.\<close>

definition requested_schedule :: "user \<Rightarrow> create_schedule_request \<Rightarrow> schedule \<Rightarrow> bool" where
  "requested_schedule u req w \<longleftrightarrow> sc_user_id w = u_id u \<and> sc_name w = trim_space (cs_name req) \<and>
     sc_kind w = trim_space (cs_kind req) \<and> sc_target w = trim_space (cs_target req) \<and>
     sc_on_calendar w = trim_space (cs_on_calendar req) \<and> schedule_ok w"

definition create_accepted :: "request \<Rightarrow> create_schedule_request option \<Rightarrow> user \<Rightarrow> create_schedule_request \<Rightarrow> bool" where
  "create_accepted r body u req \<longleftrightarrow> body = Some req \<and> rq_user r = Some u \<and> trim_space (cs_name req) \<noteq> '''' \<and>
     validScheduleKind (trim_space (cs_kind req)) \<and> trim_space (cs_target req) \<noteq> '''' \<and> trim_space (cs_on_calendar req) \<noteq> '''' \<and>
     ValidateScheduleInput (trim_space (cs_kind req)) (trim_space (cs_target req)) (trim_space (cs_on_calendar req)) = Inr ()"

lemma create_refused:
  assumes "\<nexists>u req. create_accepted r body u req"
  shows "snd (handleCreateSchedule env r body s) = s \<and> rs_status (fst (handleCreateSchedule env r body s)) \<in> {400, 401}"
  using assms
  by (auto simp: handleCreateSchedule_def create_accepted_def Let_def split: option.splits sum.splits)

lemma create_accepted_run:
  assumes "create_accepted r body u req"
  shows "handleCreateSchedule env r body s = on_sched_db (CreateSchedule (sx_now env) (sx_uuid env) (u_id u) (trim_space (cs_name req))
      (trim_space (cs_kind req)) (trim_space (cs_target req)) (trim_space (cs_on_calendar req)))
    (\<lambda>res s. case res of Inl e \<Rightarrow> (internalError, s)
     | Inr row \<Rightarrow>
         if cs_enabled req = Some False then
           on_sched_db (UpdateSchedule (sx_now env) (sc_id row) (sc_name row) (sc_on_calendar row) False)
             (\<lambda>res s. case res of Inl e \<Rightarrow> (internalError, s)
             | Inr _ \<Rightarrow> schedule_installed env r (row\<lparr>sc_enabled := False\<rparr>) s) s
         else schedule_installed env r row s) s"
  using assms unfolding create_accepted_def handleCreateSchedule_def Let_def
  by (auto simp: validScheduleKind_def)

lemma requested_schedule_ok:
  assumes "create_accepted r body u req"
    "sc_user_id w = u_id u" "sc_name w = trim_space (cs_name req)" "sc_kind w = trim_space (cs_kind req)"
    "sc_target w = trim_space (cs_target req)" "sc_on_calendar w = trim_space (cs_on_calendar req)"
  shows "requested_schedule u req w"
  using assms by (auto simp: requested_schedule_def create_accepted_def schedule_ok_def calendar_ok_def ValidateScheduleInput_Inr)

text \<open>The end of a creation: the units are installed, or the row is deleted again.\<close>

lemma schedule_installed_outcome:
  assumes fresh: "tget sc_id (sc_id row) ws = None" and rows: "schedules (sn_db s) = ws @ [w]" "sc_id w = sc_id row"
    and run: "schedule_installed env r row s = (resp, s')"
  shows "rs_status resp = 201 \<and> schedules (sn_db s') = ws @ [w] \<and> installScheduleUnits env row (sn_host s) = (Inr (), sn_host s') \<or>
    rs_status resp = 500 \<and> (schedules (sn_db s') = ws \<or> faults (sn_db s) \<noteq> [] \<and> schedules (sn_db s') = ws @ [w])"
proof -
  obtain res h where inst: "installScheduleUnits env row (sn_host s) = (res, h)" by fastforce
  show ?thesis
  proof (cases res)
    case (Inr v)
    then show ?thesis using run inst rows by (auto simp: schedule_installed_def on_host_def)
  next
    case (Inl m)
    obtain r2 d2 where del: "DeleteSchedule (sc_id row) (sn_db s) = (r2, d2)" by fastforce
    have "tdelete (\<lambda>r. sc_id r = sc_id row) (ws @ [w]) = ws"
      using fresh rows(2) by (auto simp: tdelete_def tget_None intro!: filter_True)
    then have "schedules d2 = (if isl r2 then ws @ [w] else ws)" using DeleteSchedule_rows [OF del] rows by simp
    moreover have "faults (sn_db s) = [] \<Longrightarrow> \<not> isl r2" using quiet_writes(2) [OF del] by simp
    ultimately show ?thesis using run inst Inl del
      by (auto simp: schedule_installed_def on_host_def on_sched_db_def split: if_splits)
  qed
qed

lemma schedule_last: "tget sc_id i ws = None \<Longrightarrow> sc_id w = i \<Longrightarrow> tupdate (\<lambda>r. sc_id r = i) f (ws @ [w]) = ws @ [f w]"
  by (auto simp: tupdate_def tget_None intro!: map_idI)

lemma create_schedule_outcome:
  assumes ok: "create_accepted r body u req" and run: "handleCreateSchedule env r body s = (resp, s')"
  shows "rs_status resp = 500 \<and> schedules (sn_db s') = schedules (sn_db s) \<or>
    (\<exists>w row. requested_schedule u req w \<and> requested_schedule u req row \<and> sc_id row = sc_id w \<and>
       sc_enabled row = (cs_enabled req \<noteq> Some False) \<and>
       (rs_status resp = 500 \<and> faults (sn_db s) \<noteq> [] \<and> schedules (sn_db s') = schedules (sn_db s) @ [w] \<or>
        rs_status resp = 201 \<and> schedules (sn_db s') = schedules (sn_db s) @ [w] \<and> sc_enabled w = sc_enabled row \<and>
        installScheduleUnits env row (sn_host s) = (Inr (), sn_host s')))"
proof -
  let ?ws = "schedules (sn_db s)"
  obtain res d1 where create: "CreateSchedule (sx_now env) (sx_uuid env) (u_id u) (trim_space (cs_name req))
      (trim_space (cs_kind req)) (trim_space (cs_target req)) (trim_space (cs_on_calendar req)) (sn_db s) = (res, d1)" by fastforce
  note rows = CreateSchedule_rows [OF create]
  show ?thesis
  proof (cases res)
    case (Inl e)
    then show ?thesis using run rows create by (auto simp: create_accepted_run [OF ok] on_sched_db_def)
  next
    case (Inr row)
    let ?w = "row\<lparr>sc_last_status := Some ''never'', sc_created_at := to_unix (sx_now env), sc_updated_at := to_unix (sx_now env)\<rparr>"
    let ?s1 = "s\<lparr>sn_node := set_db d1 (sn_node s)\<rparr>"
    have quiet: "faults (sn_db s) = [] \<Longrightarrow> faults d1 = []" by (rule quiet_writes(3) [OF create])
    from rows Inr have fresh: "tget sc_id (sc_id row) ?ws = None" and d1: "schedules d1 = ?ws @ [?w]" and en: "sc_enabled row"
      and req: "requested_schedule u req row" "requested_schedule u req ?w" "requested_schedule u req (row\<lparr>sc_enabled := False\<rparr>)"
      by (auto intro!: requested_schedule_ok [OF ok])
    show ?thesis
    proof (cases "cs_enabled req = Some False")
      case False
      then have "schedule_installed env r row ?s1 = (resp, s')"
        using run create Inr by (simp add: create_accepted_run [OF ok] on_sched_db_def)
      from schedule_installed_outcome [OF fresh _ _ this, of ?w]
      have "rs_status resp = 201 \<and> schedules (sn_db s') = ?ws @ [?w] \<and> installScheduleUnits env row (sn_host s) = (Inr (), sn_host s') \<or>
          rs_status resp = 500 \<and> (schedules (sn_db s') = ?ws \<or> faults (sn_db s) \<noteq> [] \<and> schedules (sn_db s') = ?ws @ [?w])"
        using d1 quiet by auto
      moreover have "sc_id row = sc_id ?w" "sc_enabled ?w = sc_enabled row" by simp_all
      ultimately show ?thesis using False en req by blast
    next
      case True
      obtain res2 d2 where upd: "UpdateSchedule (sx_now env) (sc_id row) (sc_name row) (sc_on_calendar row) False d1 = (res2, d2)" by fastforce
      note rows2 = UpdateSchedule_rows [OF upd]
      let ?s2 = "s\<lparr>sn_node := set_db d2 (sn_node s)\<rparr>"
      have step: "(case res2 of Inl e \<Rightarrow> (internalError, ?s2)
          | Inr _ \<Rightarrow> schedule_installed env r (row\<lparr>sc_enabled := False\<rparr>) ?s2) = (resp, s')"
        using run create Inr True upd by (simp add: create_accepted_run [OF ok] on_sched_db_def sn_db_def)
      show ?thesis
      proof (cases res2)
        case (Inl e)
        then have "faults (sn_db s) \<noteq> []" using quiet quiet_writes(1) [OF upd] by auto
        then show ?thesis using Inl step rows2 d1 True req by (intro disjI2 exI [of _ ?w] exI [of _ "row\<lparr>sc_enabled := False\<rparr>"]) auto
      next
        case (Inr v)
        let ?w2 = "?w\<lparr>sc_name := sc_name row, sc_on_calendar := sc_on_calendar row, sc_enabled := False, sc_updated_at := to_unix (sx_now env)\<rparr>"
        have d2: "schedules (sn_db ?s2) = ?ws @ [?w2]"
          using rows2 Inr d1 schedule_last [OF fresh, of ?w] by simp
        have "schedule_installed env r (row\<lparr>sc_enabled := False\<rparr>) ?s2 = (resp, s')" using step Inr by simp
        from schedule_installed_outcome [OF _ d2 _ this] fresh have "rs_status resp = 201 \<and> schedules (sn_db s') = ?ws @ [?w2] \<and>
            installScheduleUnits env (row\<lparr>sc_enabled := False\<rparr>) (sn_host s) = (Inr (), sn_host s') \<or>
          rs_status resp = 500 \<and> (schedules (sn_db s') = ?ws \<or> faults (sn_db s) \<noteq> [] \<and> schedules (sn_db s') = ?ws @ [?w2])"
          using quiet quiet_writes(1) [OF upd] by auto
        moreover have "requested_schedule u req ?w2" using req(2) by (auto simp: requested_schedule_def schedule_ok_def)
        moreover have "sc_id (row\<lparr>sc_enabled := False\<rparr>) = sc_id ?w2" "sc_enabled ?w2 = sc_enabled (row\<lparr>sc_enabled := False\<rparr>)"
          "sc_enabled (row\<lparr>sc_enabled := False\<rparr>) = (cs_enabled req \<noteq> Some False)" using True by simp_all
        ultimately show ?thesis using req(3) by blast
      qed
    qed
  qed
qed

lemma install_board:
  assumes "sx_manager env = Some sm" "paired sm l" "installScheduleUnits env row h = (Inr (), h')"
  shows "board_of (linker_systemDir l) (ho_files h') = (board_of (linker_systemDir l) (ho_files h))
    (sc_id row := (True, if sc_enabled row then Some (trim_space (sc_on_calendar row))
       else snd (board_of (linker_systemDir l) (ho_files h) (sc_id row))))"
proof -
  have "run_unit_op sm (OpInstall (scheduleUnitSpec row)) h = (Inr (), h')"
    using assms(1,3) by (simp add: installScheduleUnits_def)
  from op_refines [OF assms(2) this] show ?thesis by (simp add: scheduleUnitSpec_def)
qed

text \<open>
  C21: A creation request is refused with 400 or 401 and changes nothing; or answers 500 and leaves the rows as they
  were, except that the one row asked for may stay, without its units, when a statement of the database fails (the one
  that disables the row or the one that deletes it again); or answers 201 and has added exactly that row, valid and owned by the caller, and
  installed its units on the host: a service, and a timer with the calendar of the row when it is enabled.
\<close>

theorem create_schedule_sound:
  assumes manager: "sx_manager env = Some sm" "paired sm l"
    and run: "handleCreateSchedule env r body s = (resp, s')"
  shows "rs_status resp \<in> {400, 401} \<and> s' = s \<or>
    (\<exists>req u. body = Some req \<and> rq_user r = Some u \<and>
      (rs_status resp = 500 \<and> (schedules (sn_db s') = schedules (sn_db s) \<or>
         faults (sn_db s) \<noteq> [] \<and> (\<exists>w. requested_schedule u req w \<and> schedules (sn_db s') = schedules (sn_db s) @ [w])) \<or>
       rs_status resp = 201 \<and> (\<exists>w. requested_schedule u req w \<and> sc_enabled w = (cs_enabled req \<noteq> Some False) \<and>
         schedules (sn_db s') = schedules (sn_db s) @ [w] \<and>
         board_of (linker_systemDir l) (ho_files (sn_host s')) = (board_of (linker_systemDir l) (ho_files (sn_host s)))
           (sc_id w := (True, if sc_enabled w then Some (sc_on_calendar w)
              else snd (board_of (linker_systemDir l) (ho_files (sn_host s)) (sc_id w)))))))"
proof (cases "\<exists>u req. create_accepted r body u req")
  case False
  from create_refused [OF this, of env s] run show ?thesis by auto
next
  case True
  then obtain u req where ok: "create_accepted r body u req" by blast
  then have req: "body = Some req" "rq_user r = Some u" by (simp_all add: create_accepted_def)
  have cal: "trim_space (sc_on_calendar w) = sc_on_calendar w" if "requested_schedule u req w" for w
    using that by (simp add: requested_schedule_def)
  from create_schedule_outcome [OF ok run] consider "rs_status resp = 500 \<and> schedules (sn_db s') = schedules (sn_db s)"
    | w where "requested_schedule u req w" "rs_status resp = 500" "faults (sn_db s) \<noteq> []" "schedules (sn_db s') = schedules (sn_db s) @ [w]"
    | w row where "requested_schedule u req w" "requested_schedule u req row" "sc_id row = sc_id w" "sc_enabled row = (cs_enabled req \<noteq> Some False)"
      "rs_status resp = 201" "schedules (sn_db s') = schedules (sn_db s) @ [w]" "sc_enabled w = sc_enabled row"
      "installScheduleUnits env row (sn_host s) = (Inr (), sn_host s')" by blast
  then show ?thesis
  proof cases
    case 3
    have "sc_on_calendar row = sc_on_calendar w" using 3(1,2) by (simp add: requested_schedule_def)
    then show ?thesis using 3 req install_board [OF manager 3(8)] cal [OF 3(1)] by auto
  qed (use req in blast)+
qed

section \<open>Every stored schedule is valid\<close>

datatype sched_request =
    SchedList string
  | SchedCreate request "create_schedule_request option"
  | SchedGet string
  | SchedUpdate request string "update_schedule_request option"
  | SchedDelete request string
  | SchedRun request string

fun serve_sched :: "sched_env \<Rightarrow> sched_request \<Rightarrow> snode \<Rightarrow> snode" where
  "serve_sched env (SchedList kind) s = snd (handleListSchedules kind s)"
| "serve_sched env (SchedCreate r body) s = snd (handleCreateSchedule env r body s)"
| "serve_sched env (SchedGet i) s = snd (handleGetSchedule i s)"
| "serve_sched env (SchedUpdate r i body) s = snd (handleUpdateSchedule env r i body s)"
| "serve_sched env (SchedDelete r i) s = snd (handleDeleteSchedule env r i s)"
| "serve_sched env (SchedRun r i) s = snd (handleRunSchedule env r i s)"

definition serve_scheds :: "(sched_env \<times> sched_request) list \<Rightarrow> snode \<Rightarrow> snode" where
  "serve_scheds calls s = fold (\<lambda>(env, q). serve_sched env q) calls s"

lemma rows_sched_create:
  assumes "list_all schedule_ok (schedules (sn_db s))"
  shows "list_all schedule_ok (schedules (sn_db (snd (handleCreateSchedule env r body s))))"
proof (cases "\<exists>u req. create_accepted r body u req")
  case False
  from create_refused [OF this, of env s] assms show ?thesis by simp
next
  case True
  then obtain u req where ok: "create_accepted r body u req" by blast
  obtain resp s' where run: "handleCreateSchedule env r body s = (resp, s')" by fastforce
  have "requested_schedule u req w \<Longrightarrow> schedule_ok w" for w by (simp add: requested_schedule_def)
  then show ?thesis using create_schedule_outcome [OF ok run] assms run by auto
qed

lemma apply_update_fields:
  "sc_kind (apply_schedule_update req row) = sc_kind row" "sc_target (apply_schedule_update req row) = sc_target row"
  "sc_id (apply_schedule_update req row) = sc_id row"
  "schedule_ok row \<Longrightarrow> trim_space (sc_name (apply_schedule_update req row)) = sc_name (apply_schedule_update req row)"
  "schedule_ok row \<Longrightarrow> trim_space (sc_on_calendar (apply_schedule_update req row)) = sc_on_calendar (apply_schedule_update req row)"
  by (auto simp: apply_schedule_update_def schedule_ok_def calendar_ok_def Let_def split: option.split)

lemma rows_stored:
  assumes "UpdateSchedule now i name cal en d = (r, d')" "list_all schedule_ok (schedules d)"
    "name \<noteq> ''''" "trim_space name = name" "calendar_ok cal"
  shows "list_all schedule_ok (schedules d')"
  using assms UpdateSchedule_rows [OF assms(1)] by (auto simp: list_all_iff set_tupdate schedule_ok_def)

lemma rows_updated:
  "list_all schedule_ok (schedules (sn_db s)) \<Longrightarrow> list_all schedule_ok (schedules (sn_db (snd (schedule_updated env r row s))))"
  unfolding schedule_updated_def
  by (rule rows_on_db) (auto simp: Let_def dest: same_schedulesD [OF schedules_untouched(4)])

lemma rows_sched_update:
  assumes ok: "list_all schedule_ok (schedules (sn_db s))"
  shows "list_all schedule_ok (schedules (sn_db (snd (handleUpdateSchedule env r i body s))))"
  unfolding handleUpdateSchedule_def
proof (rule rows_schedule_lookup [OF ok], goal_cases)
  case (1 row s')
  show ?case
  proof (cases body)
    case (Some req)
    let ?row = "apply_schedule_update req row"
    show ?thesis
    proof (cases "sc_name ?row = '''' \<or> sc_on_calendar ?row = '''' \<or> isl (ValidateScheduleInput (sc_kind ?row) (sc_target ?row) (sc_on_calendar ?row))")
      case True
      then show ?thesis using 1 Some by (auto simp: Let_def split: sum.split)
    next
      case False
      then obtain u where valid: "ValidateScheduleInput (sc_kind ?row) (sc_target ?row) (sc_on_calendar ?row) = Inr u"
        by (cases "ValidateScheduleInput (sc_kind ?row) (sc_target ?row) (sc_on_calendar ?row)") auto
      then have cal: "calendar_ok (sc_on_calendar ?row)"
        using False apply_update_fields [where req = req and row = row] 1(1) by (auto simp: calendar_ok_def ValidateScheduleInput_Inr)
      note stored = rows_stored [OF _ _ _ apply_update_fields(4) [OF 1(1)] cal]
      have "list_all schedule_ok (schedules (sn_db (snd (on_host (refreshScheduleUnits env ?row) (\<lambda>res s. case res of
          Inl m \<Rightarrow> (writeError 500 ''internal'' ''could not install schedule units'', s)
        | Inr _ \<Rightarrow> on_sched_db (UpdateSchedule (sx_now env) (sc_id ?row) (sc_name ?row) (sc_on_calendar ?row) (sc_enabled ?row))
           (\<lambda>res s. case res of Inl e \<Rightarrow> (internalError, s) | Inr _ \<Rightarrow> schedule_updated env r ?row s) s) s'))))"
        using 1(2)
      proof (rule rows_on_host, goal_cases)
        case (1 res s2)
        show ?case
        proof (cases res)
          case (Inr v)
          have "list_all schedule_ok (schedules (sn_db (snd (on_sched_db
              (UpdateSchedule (sx_now env) (sc_id ?row) (sc_name ?row) (sc_on_calendar ?row) (sc_enabled ?row))
              (\<lambda>res s. case res of Inl e \<Rightarrow> (internalError, s) | Inr _ \<Rightarrow> schedule_updated env r ?row s) s2))))"
            using 1 False by (intro rows_on_db conjI) (auto elim: stored intro: rows_updated split: sum.split)
          then show ?thesis using Inr by simp
        qed (use 1 in simp)
      qed
      then show ?thesis using Some False valid by (simp add: Let_def)
    qed
  qed (use 1 in simp)
qed

lemma rows_sched_delete:
  assumes ok: "list_all schedule_ok (schedules (sn_db s))"
  shows "list_all schedule_ok (schedules (sn_db (snd (handleDeleteSchedule env r i s))))"
  unfolding handleDeleteSchedule_def
proof (rule rows_schedule_lookup [OF ok], rule rows_on_host, assumption, goal_cases)
  case (1 row s' res s2)
  have kept: "list_all schedule_ok (schedules d')" if "DeleteSchedule (sc_id row) (sn_db s2) = (x, d')" for x d'
    using DeleteSchedule_rows [OF that] 1 by (auto simp: list_all_iff)
  show ?case
  proof (cases res)
    case (Inr v)
    have "list_all schedule_ok (schedules (sn_db (snd (on_sched_db (DeleteSchedule (sc_id row)) (\<lambda>res s. case res of
         Inl e \<Rightarrow> (internalError, s)
       | Inr _ \<Rightarrow> (noContent, sched_audit r ''schedule.delete'' ''success'' (sc_id row) ''schedule deleted''
           (sched_emit env ''schedule.deleted'' (sc_id row) [] s))) s2))))"
      by (rule rows_on_db [OF 1(3)]) (auto dest: kept split: sum.split)
    then show ?thesis using Inr by simp
  qed (use 1 in simp)
qed

lemma rows_sched_run:
  assumes ok: "list_all schedule_ok (schedules (sn_db s))"
  shows "list_all schedule_ok (schedules (sn_db (snd (handleRunSchedule env r i s))))"
  unfolding handleRunSchedule_def
proof (rule rows_schedule_lookup [OF ok], goal_cases)
  case (1 row s')
  have emitted: "list_all schedule_ok (schedules (sn_db (snd (case emitEvent now uuid ty subject data (sn_node s2) of
       (Inl e, n) \<Rightarrow> (internalError, s2\<lparr>sn_node := n\<rparr>)
     | (Inr ev, n) \<Rightarrow> (writeJSON 202 ev, sched_audit r a o1 t m (s2\<lparr>sn_node := n\<rparr>))))))"
    if "list_all schedule_ok (schedules (sn_db s2))" for now uuid ty subject data s2 a o1 t m
  proof -
    obtain res n where emit: "emitEvent now uuid ty subject data (sn_node s2) = (res, n)" by fastforce
    then have "schedules (nd_db n) = schedules (sn_db s2)"
      using emit_schedules [of now uuid ty subject data "sn_node s2"] by (simp add: sn_db_def)
    then show ?thesis using that emit by (cases res) simp_all
  qed
  have marked: "list_all schedule_ok (schedules d')"
    if "MarkScheduleRunStarted now i' d = (x, d')" "list_all schedule_ok (schedules d)" for now i' d x d'
    using MarkScheduleRunStarted_rows [OF that(1)] that(2) by (auto simp: list_all_iff set_tupdate schedule_ok_def)
  have created: "list_all schedule_ok (schedules d')"
    if "CreateOperation now uuid uid kind target op d = (x, d')" "list_all schedule_ok (schedules d)" for now uuid uid kind target op d x d'
    using same_schedulesD [OF schedules_untouched(3) that(1)] that(2) by simp
  show ?case
    using 1(2)
    by (auto simp: Let_def intro!: rows_on_db emitted dest: marked created split: option.split sum.split)
qed

lemma serve_sched_ok:
  assumes ok: "list_all schedule_ok (schedules (sn_db s))"
  shows "list_all schedule_ok (schedules (sn_db (serve_sched env q s)))"
proof (cases q)
  case (SchedList kind)
  have "list_all schedule_ok (schedules (sn_db (snd (handleListSchedules kind s))))"
    unfolding handleListSchedules_def
    by (rule rows_on_db [OF ok]) (use ok in \<open>auto dest: same_schedulesD [OF schedules_untouched(5)] split: sum.split\<close>)
  then show ?thesis using SchedList by simp
next
  case (SchedGet i)
  have "list_all schedule_ok (schedules (sn_db (snd (handleGetSchedule i s))))"
    unfolding handleGetSchedule_def by (rule rows_schedule_lookup [OF ok]) simp
  then show ?thesis using SchedGet by simp
qed (use ok rows_sched_create rows_sched_update rows_sched_delete rows_sched_run in simp_all)

interpretation scheds: service serve_sched "\<lambda>_ _. True" "\<lambda>s. list_all schedule_ok (schedules (sn_db s))"
  by unfold_locales (rule serve_sched_ok)

text \<open>
  C22: Whatever sequence of requests the schedule endpoints serve, and whatever fails, every stored schedule
  is well-typed: its kind is backup or snapshot, its name, target and calendar are nonempty and trimmed, and
  neither target nor calendar holds a control character.
\<close>

theorem schedule_rows_typed:
  assumes "list_all schedule_ok (schedules (sn_db s))"
  shows "list_all schedule_ok (schedules (sn_db (serve_scheds calls s)))"
  using assms scheds.served_valid [of calls s] by (simp add: serve_scheds_def)

section \<open>Examples\<close>

definition demo_sched_env :: sched_env where
  "demo_sched_env = \<lparr>sx_now = 5 * second, sx_uuid = Some demo_id, sx_event_uuid = Some ''e'', sx_op_uuid = Some ''o'',
     sx_json = (\<lambda>fs. Some ''{}''), sx_manager = Some demo_manager, sx_incus = None\<rparr>"

definition demo_sched_db :: db where
  "demo_sched_db = empty_db\<lparr>
     users := [\<lparr>u_id = 1, u_username = ''admin'', u_password_hash = ''h'', u_is_admin = True, u_incus_project = '''', u_created_at = 0\<rparr>],
     user_seq := 1\<rparr>"

definition demo_snode :: snode where
  "demo_snode = \<lparr>sn_node = \<lparr>nd_server = \<lparr>sv_db = demo_sched_db, sv_user_limiter = NewRateLimiter 5 (15 * minute),
     sv_ip_limiter = NewRateLimiter 20 (15 * minute), sv_mfa = Map.empty, sv_audit = [],
     sv_setup_token = None, sv_schedule_token = None\<rparr>, nd_hub = [], nd_wake = False\<rparr>,
     sn_host = \<lparr>ho_files = Map.empty, ho_log = [], ho_faults = []\<rparr>\<rparr>"

definition demo_sched_request :: request where
  "demo_sched_request = \<lparr>rq_method = ''POST'', rq_path = ''/api/v1/schedules'', rq_uri = ''/api/v1/schedules'',
     rq_source_ip = ''192.0.2.1'', rq_cookie = None, rq_authorization = '''', rq_schedule_token = '''',
     rq_user = Some \<lparr>u_id = 1, u_username = ''admin'', u_password_hash = ''h'', u_is_admin = True, u_incus_project = '''', u_created_at = 0\<rparr>,
     rq_scopes = None, rq_jwt_id = None, rq_runner = False\<rparr>"

definition demo_sched_create :: create_schedule_request where
  "demo_sched_create = \<lparr>cs_name = ''nightly'', cs_kind = ''backup'', cs_target = ''vm1'', cs_on_calendar = '' daily'', cs_enabled = Some False\<rparr>"

theorem create_schedule_sound_witness:
  "case handleCreateSchedule demo_sched_env demo_sched_request (Some demo_sched_create) demo_snode of (resp, s') \<Rightarrow>
     \<exists>w. schedules (sn_db s') = [w] \<and> sc_on_calendar w = trim_space '' daily'' \<and>
       board_of ''/etc/systemd/system'' (ho_files (sn_host s')) (sc_id w) =
         (True, snd (board_of ''/etc/systemd/system'' Map.empty (sc_id w)))"
proof -
  obtain resp s' where run: "handleCreateSchedule demo_sched_env demo_sched_request (Some demo_sched_create) demo_snode = (resp, s')"
    by fastforce
  have "rs_status (fst (handleCreateSchedule demo_sched_env demo_sched_request (Some demo_sched_create) demo_snode)) = 201" by code_simp
  then have status: "rs_status resp = 201" by (simp add: run)
  have manager: "sx_manager demo_sched_env = Some demo_manager" by (simp add: demo_sched_env_def)
  have pair: "paired demo_manager demo_linker"
    by (simp add: paired_def demo_manager_def demo_linker_def manager_stagingDir_def linker_stagingDir_def linker_systemDir_def)
  have sys: "linker_systemDir demo_linker = ''/etc/systemd/system''" by (simp add: linker_systemDir_def demo_linker_def)
  have start: "schedules (sn_db demo_snode) = []" "ho_files (sn_host demo_snode) = Map.empty"
    by (simp_all add: demo_snode_def sn_db_def nd_db_def demo_sched_db_def empty_db_def)
  from create_schedule_sound [OF manager pair run] status obtain w where
    "requested_schedule (the (rq_user demo_sched_request)) demo_sched_create w" "\<not> sc_enabled w" "schedules (sn_db s') = [w]"
    "board_of ''/etc/systemd/system'' (ho_files (sn_host s')) = (board_of ''/etc/systemd/system'' Map.empty)
       (sc_id w := (True, snd (board_of ''/etc/systemd/system'' Map.empty (sc_id w))))"
    unfolding start sys by (auto simp: demo_sched_create_def)
  then show ?thesis unfolding run by (auto simp: requested_schedule_def demo_sched_create_def)
qed

theorem schedule_rows_typed_witness:
  "list_all schedule_ok (schedules (sn_db (serve_scheds
     [(demo_sched_env, SchedCreate demo_sched_request (Some demo_sched_create)),
      (demo_sched_env, SchedUpdate demo_sched_request demo_id (Some \<lparr>us_name = Some '' x '', us_on_calendar = Some ''hourly'', us_enabled = Some True\<rparr>)),
      (demo_sched_env, SchedRun demo_sched_request demo_id)] demo_snode)))"
  by (rule schedule_rows_typed) (simp add: demo_snode_def sn_db_def nd_db_def demo_sched_db_def empty_db_def)

end
