(* ===== verification/Firewall_Helper.thy ===== *)
theory Firewall_Helper
  imports Go_Text
begin

text \<open>
  The privileged firewall helper (\<open>firewall/helper.go\<close>): which \<open>nft\<close> argument vectors it accepts, and what
  it runs.  \<open>nft\<close> is not part of the repository: it is a function from arguments and its state to success,
  output and new state.

  \<open>net.ParseCIDR\<close> is modelled as far as acceptance goes, with the parsers of package \<open>netip\<close> it calls.
\<close>

section \<open>net.ParseCIDR\<close>

definition hex_digit :: "char \<Rightarrow> bool" where
  "hex_digit c \<longleftrightarrow> in_range 48 57 c \<or> in_range 97 102 c \<or> in_range 65 70 c"

definition ipv4_field :: "string \<Rightarrow> bool" where
  "ipv4_field f \<longleftrightarrow> f \<noteq> '''' \<and> list_all is_digit f \<and> (length f = 1 \<or> hd f \<noteq> CHR ''0'') \<and> parse_digits 0 f \<le> 255"

definition ipv4_text :: "string \<Rightarrow> bool" where
  "ipv4_text s \<longleftrightarrow> (let fs = split_char (CHR ''.'') s in length fs = 4 \<and> list_all ipv4_field fs)"

text \<open>
  \<open>parseIPv6\<close>: \<open>i\<close> bytes are filled, \<open>ell\<close> says whether \<open>::\<close> was seen, \<open>s\<close> is left to parse.
\<close>

definition ipv6_complete :: "nat \<Rightarrow> bool \<Rightarrow> bool" where
  "ipv6_complete i ell = (if i < 16 then ell else \<not> ell)"

function ipv6_groups :: "nat \<Rightarrow> bool \<Rightarrow> string \<Rightarrow> bool" where
  "ipv6_groups i ell s =
     (if 16 \<le> i then s = '''' \<and> ipv6_complete i ell
      else let group = takeWhile hex_digit s; rest = dropWhile hex_digit s in
        if group = '''' \<or> 4 < length group then False
        else if rest \<noteq> '''' \<and> hd rest = CHR ''.'' then
          (ell \<or> i = 12) \<and> i + 4 \<le> 16 \<and> ipv4_text s \<and> ipv6_complete (i + 4) ell
        else if rest = '''' then ipv6_complete (i + 2) ell
        else if hd rest \<noteq> CHR '':'' \<or> length rest = 1 then False
        else if hd (tl rest) = CHR '':'' then
          (if ell then False else if tl (tl rest) = '''' then ipv6_complete (i + 2) True
           else ipv6_groups (i + 2) True (tl (tl rest)))
        else ipv6_groups (i + 2) ell (tl rest))"
  by pat_completeness auto

termination by (relation "measure (\<lambda>(i, ell, s). 16 - i)") auto

declare ipv6_groups.simps [simp del]

definition ipv6_text :: "string \<Rightarrow> bool" where
  "ipv6_text s = (if has_prefix s ''::'' then drop 2 s = '''' \<or> ipv6_groups 0 True (drop 2 s) else ipv6_groups 0 False s)"

text \<open>\<open>netip.ParseAddr\<close>: the number of bits of the address; a zone is refused by \<open>ParseCIDR\<close>.\<close>

definition addr_bits :: "string \<Rightarrow> nat option" where
  "addr_bits s = (case dropWhile (\<lambda>c. c \<noteq> CHR ''.'' \<and> c \<noteq> CHR '':'' \<and> c \<noteq> CHR ''%'') s of
     [] \<Rightarrow> None
   | c # _ \<Rightarrow> if c = CHR ''.'' then (if ipv4_text s then Some 32 else None)
       else if c = CHR '':'' \<and> CHR ''%'' \<notin> set s \<and> ipv6_text s then Some 128 else None)"

definition cidr_text :: "string \<Rightarrow> bool" where
  "cidr_text s \<longleftrightarrow> (let addr = takeWhile (\<lambda>c. c \<noteq> CHR ''/'') s; tail = dropWhile (\<lambda>c. c \<noteq> CHR ''/'') s in
     tail \<noteq> '''' \<and> (case (addr_bits addr, parse_uint (tl tail)) of (Some bits, Some n) \<Rightarrow> n \<le> bits | _ \<Rightarrow> False))"

section \<open>Argument vectors\<close>

definition nftCommentPattern :: "string \<Rightarrow> bool" where
  "nftCommentPattern s \<longleftrightarrow> has_prefix s ''helling:'' \<and> length s = 44 \<and>
     list_all (\<lambda>c. in_range 48 57 c \<or> in_range 97 102 c \<or> c = CHR ''-'') (drop 8 s)"

definition validChain :: "string \<Rightarrow> bool" where
  "validChain c \<longleftrightarrow> c = ''input'' \<or> c = ''output'' \<or> c = ''forward''"

definition validAction :: "string \<Rightarrow> bool" where
  "validAction a \<longleftrightarrow> a = ''accept'' \<or> a = ''drop'' \<or> a = ''reject''"

definition validatePort :: "string \<Rightarrow> string + unit" where
  "validatePort port = (case parse_int64 port of None \<Rightarrow> Inl ''invalid nft destination port''
   | Some n \<Rightarrow> if n < 1 \<or> 65535 < n then Inl ''invalid nft destination port'' else Inr ())"

definition validateListArgs :: "string list \<Rightarrow> string + unit" where
  "validateListArgs args =
     (if length args = 4 \<and> args ! 1 = ''table'' \<and> args ! 2 = ''inet'' \<and> args ! 3 = ''helling'' then Inr ()
      else if length args = 5 \<and> args ! 1 = ''chain'' \<and> args ! 2 = ''inet'' \<and> args ! 3 = ''helling'' \<and> validChain (args ! 4) then Inr ()
      else Inl ''unsupported nft list arguments'')"

definition chain_definition :: "string \<Rightarrow> string list" where
  "chain_definition chain = [''{'', ''type'', ''filter'', ''hook'', chain, ''priority'', ''0'', '';'', ''policy'', ''accept'', '';'', ''}'']"

definition validateAddChainArgs :: "string list \<Rightarrow> string + unit" where
  "validateAddChainArgs args =
     (if length args \<noteq> 17 then Inl ''unsupported nft add chain arguments''
      else if args ! 2 \<noteq> ''inet'' \<or> args ! 3 \<noteq> ''helling'' \<or> \<not> validChain (args ! 4) then Inl ''invalid nft chain target''
      else if drop 5 args \<noteq> chain_definition (args ! 4) then Inl ''unsupported nft chain definition''
      else Inr ())"

text \<open>The token at \<open>i\<close>: where the next one starts, and whether the rule ends here.\<close>

definition validateCIDRToken :: "string list \<Rightarrow> nat \<Rightarrow> string + nat \<times> bool" where
  "validateCIDRToken args i =
     (if length args \<le> i + 2 \<or> args ! (i + 1) \<noteq> ''saddr'' \<and> args ! (i + 1) \<noteq> ''daddr'' then Inl ''invalid nft cidr selector''
      else if \<not> cidr_text (args ! (i + 2)) then Inl ''invalid nft cidr''
      else Inr (i + 3, False))"

definition validateTransportToken :: "string list \<Rightarrow> nat \<Rightarrow> string + nat \<times> bool" where
  "validateTransportToken args i =
     (if i + 2 < length args \<and> args ! (i + 1) = ''dport'' then
        (case validatePort (args ! (i + 2)) of Inl m \<Rightarrow> Inl m | Inr _ \<Rightarrow> Inr (i + 3, False))
      else Inr (i + 1, False))"

definition validateRuleToken :: "string list \<Rightarrow> nat \<Rightarrow> string + nat \<times> bool" where
  "validateRuleToken args i = (let tok = args ! i in
     if tok = ''ip'' then validateCIDRToken args i
     else if tok = ''tcp'' \<or> tok = ''udp'' then validateTransportToken args i
     else if tok = ''icmp'' then Inr (i + 1, False)
     else if tok = ''comment'' then
       (if length args \<le> i + 2 \<or> \<not> nftCommentPattern (args ! (i + 1)) \<or> \<not> validAction (args ! (i + 2))
        then Inl ''invalid nft comment/action''
        else if i + 3 \<noteq> length args then Inl ''trailing nft rule arguments''
        else Inr (length args, True))
     else Inl ''unsupported nft rule token'')"

text \<open>The loop of \<open>validateAddRuleArgs\<close>, \<open>None\<close> being that it does not end.\<close>

partial_function (option) rule_loop :: "string list \<Rightarrow> nat \<Rightarrow> (string + unit) option" where
  [code]: "rule_loop args i =
     (if i < length args then (case validateRuleToken args i of
        Inl m \<Rightarrow> Some (Inl m)
      | Inr (nxt, done1) \<Rightarrow> if done1 then Some (Inr ()) else rule_loop args nxt)
      else Some (Inl ''nft rule missing comment/action''))"

definition validateAddRuleArgs :: "string list \<Rightarrow> (string + unit) option" where
  "validateAddRuleArgs args =
     (if length args < 8 \<or> args ! 2 \<noteq> ''inet'' \<or> args ! 3 \<noteq> ''helling'' \<or> \<not> validChain (args ! 4)
      then Some (Inl ''invalid nft rule target'') else rule_loop args 5)"

definition validateAddArgs :: "string list \<Rightarrow> (string + unit) option" where
  "validateAddArgs args =
     (if 2 \<le> length args \<and> args ! 1 = ''table'' \<and> length args = 4 \<and> args ! 2 = ''inet'' \<and> args ! 3 = ''helling'' then Some (Inr ())
      else if 2 \<le> length args \<and> args ! 1 = ''chain'' then Some (validateAddChainArgs args)
      else if 2 \<le> length args \<and> args ! 1 = ''rule'' then validateAddRuleArgs args
      else Some (Inl ''unsupported nft add arguments''))"

definition validateDeleteArgs :: "string list \<Rightarrow> string + unit" where
  "validateDeleteArgs args =
     (if length args \<noteq> 7 \<or> args ! 1 \<noteq> ''rule'' \<or> args ! 2 \<noteq> ''inet'' \<or> args ! 3 \<noteq> ''helling'' \<or> \<not> validChain (args ! 4)
        \<or> args ! 5 \<noteq> ''handle'' then Inl ''unsupported nft delete arguments''
      else (case parse_int64 (args ! 6) of None \<Rightarrow> Inl ''invalid nft handle''
        | Some h \<Rightarrow> if h \<le> 0 then Inl ''invalid nft handle'' else Inr ()))"

definition ValidateNFTArgs :: "string list \<Rightarrow> (string + unit) option" where
  "ValidateNFTArgs args = (case args of
     [] \<Rightarrow> Some (Inl ''usage: helling-firewall <validated nft args>'')
   | a # rest \<Rightarrow>
       if a = ''-a'' then
         (if length args < 2 \<or> args ! 1 \<noteq> ''list'' then Some (Inl ''nft -a is only allowed for list commands'')
          else Some (validateListArgs rest))
       else if a = ''list'' then Some (validateListArgs args)
       else if a = ''add'' then validateAddArgs args
       else if a = ''delete'' then Some (validateDeleteArgs args)
       else Some (Inl ''unsupported nft action''))"

section \<open>Running nft\<close>

type_synonym 'n nft = "string list \<Rightarrow> 'n \<Rightarrow> (bool \<times> string) \<times> 'n"

fun owned_line :: "string \<Rightarrow> string list \<Rightarrow> string + unit" where
  "owned_line handle [] = Inl ''nft delete target handle not found''"
| "owned_line handle (line # ls) =
     (if \<not> contains_str line (''handle '' @ handle) then owned_line handle ls
      else if contains_str line (''comment '' @ [CHR 0x22] @ ''helling:'') then Inr ()
      else Inl ''nft delete target is not Helling-owned'')"

definition validateDeleteOwnership :: "'n nft \<Rightarrow> string list \<Rightarrow> 'n \<Rightarrow> (string + unit) \<times> 'n" where
  "validateDeleteOwnership nft args n = (case nft [''-a'', ''list'', ''chain'', ''inet'', ''helling'', args ! 4] n of
     ((ok, out), n) \<Rightarrow> (if \<not> ok then Inl ''listing nft chain before delete'' else owned_line (args ! 6) (split_char newline out), n))"

text \<open>\<open>Handle\<close>: exit status and standard output of the helper.\<close>

definition helper_Handle :: "'n nft \<Rightarrow> string list \<Rightarrow> 'n \<Rightarrow> ((string + unit) \<times> string) \<times> 'n" where
  "helper_Handle nft args n = (case ValidateNFTArgs args of
     None \<Rightarrow> ((Inl ''does not end'', ''''), n)
   | Some (Inl m) \<Rightarrow> ((Inl m, ''''), n)
   | Some (Inr _) \<Rightarrow>
       (case (if args ! 0 = ''delete'' then validateDeleteOwnership nft args n else (Inr (), n)) of
         (Inl m, n) \<Rightarrow> ((Inl m, ''''), n)
       | (Inr _, n) \<Rightarrow> (case nft args n of ((ok, out), n) \<Rightarrow> ((if ok then Inr () else Inl ''running nft'', out), n))))"

end
