(* ===== verification/Firewall_Helper_Props.thy ===== *)
theory Firewall_Helper_Props
  imports Firewall_Helper
begin

text \<open>
  The language of the firewall helper: its validator ends on every argument vector and accepts exactly the
  commands of a grammar, and \<open>nft\<close> runs nothing outside it.
\<close>

section \<open>Grammar\<close>

definition nft_port :: "string \<Rightarrow> bool" where
  "nft_port s \<longleftrightarrow> (\<exists>n. parse_int64 s = Some n \<and> 1 \<le> n \<and> n \<le> 65535)"

definition nft_target :: "string \<Rightarrow> string list" where
  "nft_target chain = [''inet'', ''helling'', chain]"

inductive nft_rule :: "string list \<Rightarrow> bool" where
  verdict: "nftCommentPattern c \<Longrightarrow> validAction a \<Longrightarrow> nft_rule [''comment'', c, a]"
| cidr: "d = ''saddr'' \<or> d = ''daddr'' \<Longrightarrow> cidr_text c \<Longrightarrow> nft_rule ts \<Longrightarrow> nft_rule (''ip'' # d # c # ts)"
| port: "p = ''tcp'' \<or> p = ''udp'' \<Longrightarrow> nft_port n \<Longrightarrow> nft_rule ts \<Longrightarrow> nft_rule (p # ''dport'' # n # ts)"
| protocol: "p = ''tcp'' \<or> p = ''udp'' \<or> p = ''icmp'' \<Longrightarrow> nft_rule ts \<Longrightarrow> nft_rule (p # ts)"

inductive_simps nft_rule_Nil [simp]: "nft_rule []"
inductive_simps nft_rule_Cons: "nft_rule (t # ts)"

inductive nft_command :: "string list \<Rightarrow> bool" where
  list_table: "nft_command [''list'', ''table'', ''inet'', ''helling'']"
| list_chain: "validChain c \<Longrightarrow> nft_command (''list'' # ''chain'' # nft_target c)"
| list_table_handles: "nft_command [''-a'', ''list'', ''table'', ''inet'', ''helling'']"
| list_chain_handles: "validChain c \<Longrightarrow> nft_command (''-a'' # ''list'' # ''chain'' # nft_target c)"
| add_table: "nft_command [''add'', ''table'', ''inet'', ''helling'']"
| add_chain: "validChain c \<Longrightarrow> nft_command (''add'' # ''chain'' # nft_target c @ chain_definition c)"
| add_rule: "validChain c \<Longrightarrow> nft_rule ts \<Longrightarrow> nft_command (''add'' # ''rule'' # nft_target c @ ts)"
| delete_rule: "validChain c \<Longrightarrow> parse_int64 h = Some n \<Longrightarrow> 0 < n \<Longrightarrow>
    nft_command (''delete'' # ''rule'' # nft_target c @ [''handle'', h])"

section \<open>One token\<close>

lemma validatePort_Inr: "validatePort s = Inr v \<longleftrightarrow> nft_port s"
  by (auto simp: validatePort_def nft_port_def split: option.splits)

lemma nft_rule_dport: "\<not> nft_rule (''dport'' # ts)"
  by (simp add: nft_rule_Cons)

lemma nft_rule_ip: "nft_rule (''ip'' # ts) \<longleftrightarrow>
    (\<exists>d c us. ts = d # c # us \<and> (d = ''saddr'' \<or> d = ''daddr'') \<and> cidr_text c \<and> nft_rule us)"
  by (subst nft_rule_Cons) auto

lemma nft_rule_icmp: "nft_rule (''icmp'' # ts) \<longleftrightarrow> nft_rule ts"
  by (subst nft_rule_Cons) simp

lemma nft_rule_comment: "nft_rule (''comment'' # ts) \<longleftrightarrow> (\<exists>c a. ts = [c, a] \<and> nftCommentPattern c \<and> validAction a)"
  by (subst nft_rule_Cons) auto

lemma nft_rule_transport:
  "p = ''tcp'' \<or> p = ''udp'' \<Longrightarrow> nft_rule (p # ts) \<longleftrightarrow>
     (\<exists>n us. ts = ''dport'' # n # us \<and> nft_port n \<and> nft_rule us) \<or> nft_rule ts"
  by (subst nft_rule_Cons) auto

lemma nft_rule_other:
  "t \<notin> {''ip'', ''tcp'', ''udp'', ''icmp'', ''comment''} \<Longrightarrow> \<not> nft_rule (t # ts)"
  by (subst nft_rule_Cons) auto

lemmas nft_rule_keyword = nft_rule_dport nft_rule_ip nft_rule_icmp nft_rule_comment

text \<open>Each step of the loop consumes a token and keeps the language of what is left.\<close>

definition token_sound :: "string list \<Rightarrow> nat \<Rightarrow> string + nat \<times> bool \<Rightarrow> bool" where
  "token_sound args i res = (case res of
     Inl _ \<Rightarrow> \<not> nft_rule (drop i args)
   | Inr (nxt, done1) \<Rightarrow> i < nxt \<and> (if done1 then nft_rule (drop i args) else nft_rule (drop i args) = nft_rule (drop nxt args)))"

lemma drop3: "i + 2 < length xs \<Longrightarrow> drop i xs = xs ! i # xs ! (i + 1) # xs ! (i + 2) # drop (i + 3) xs"
  by (simp add: Cons_nth_drop_Suc numeral_3_eq_3)

lemma drop_short: "i < length xs \<Longrightarrow> \<not> i + 2 < length xs \<Longrightarrow> drop i xs = [xs ! i] \<or> drop i xs = [xs ! i, xs ! (i + 1)]"
proof -
  assume "i < length xs" "\<not> i + 2 < length xs"
  then have "length xs = Suc i \<or> length xs = Suc (Suc i)" by arith
  then show ?thesis by (auto simp: Cons_nth_drop_Suc [symmetric])
qed

lemma validateCIDRToken_sound:
  assumes "i < length args" "args ! i = ''ip''"
  shows "token_sound args i (validateCIDRToken args i)"
proof (cases "i + 2 < length args")
  case True
  show ?thesis unfolding token_sound_def drop3 [OF True] assms(2) nft_rule_keyword
    using True by (auto simp: validateCIDRToken_def)
next
  case False
  then show ?thesis using drop_short [OF assms(1) False] assms(2)
    by (auto simp: token_sound_def validateCIDRToken_def nft_rule_keyword)
qed

lemma validateTransportToken_sound:
  assumes i: "i < length args" and tok: "args ! i = ''tcp'' \<or> args ! i = ''udp''"
  shows "token_sound args i (validateTransportToken args i)"
proof (cases "i + 2 < length args")
  case True
  have "drop (i + 1) args = args ! (i + 1) # args ! (i + 2) # drop (i + 3) args"
    using drop3 [OF True] by (metis Cons_nth_drop_Suc Suc_eq_plus1 i list.inject)
  then show ?thesis using True nft_rule_transport [OF tok, of "drop (i + 1) args"] drop3 [OF True]
    by (auto simp: token_sound_def validateTransportToken_def validatePort_Inr nft_rule_keyword split: sum.splits)
       (metis isl_def sum.disc(2) validatePort_Inr unit.exhaust)+
next
  case False
  then show ?thesis
    using drop_short [OF i False] nft_rule_transport [OF tok] Cons_nth_drop_Suc [OF i]
    by (auto simp: token_sound_def validateTransportToken_def nft_rule_keyword)
qed


lemma validateRuleToken_sound:
  assumes i: "i < length args"
  shows "token_sound args i (validateRuleToken args i)"
proof -
  let ?t = "args ! i"
  consider "?t = ''ip''" | "?t = ''tcp'' \<or> ?t = ''udp''" | "?t = ''icmp''" | "?t = ''comment''"
    | "?t \<notin> {''ip'', ''tcp'', ''udp'', ''icmp'', ''comment''}" by blast
  then show ?thesis
  proof cases
    case 1
    then show ?thesis using validateCIDRToken_sound [OF i] by (simp add: validateRuleToken_def)
  next
    case 2
    then show ?thesis using validateTransportToken_sound [OF i] by (auto simp: validateRuleToken_def)
  next
    case 3
    then show ?thesis using Cons_nth_drop_Suc [OF i, symmetric] by (simp add: validateRuleToken_def token_sound_def nft_rule_icmp)
  next
    case 4
    have "drop i args = ''comment'' # drop (Suc i) args" using Cons_nth_drop_Suc [OF i] 4 by simp
    moreover have "drop (Suc i) args = [args ! (i + 1), args ! (i + 2)]" if "i + 3 = length args"
      using that drop3 [of i args] Cons_nth_drop_Suc [OF i] by simp
    moreover have "i + 3 = length args" if "drop (Suc i) args = [c, a]" for c a
      using arg_cong [OF that, of length] i by simp
    ultimately show ?thesis using 4
      by (auto simp: validateRuleToken_def token_sound_def nft_rule_comment)
  next
    case 5
    then show ?thesis using Cons_nth_drop_Suc [OF i, symmetric] nft_rule_other
      by (simp add: validateRuleToken_def token_sound_def)
  qed
qed

section \<open>The loop\<close>

lemma rule_loop_decides: "\<exists>r. rule_loop args i = Some r \<and> (r = Inr () \<longleftrightarrow> nft_rule (drop i args))"
proof (induction "length args - i" arbitrary: i rule: less_induct)
  case less
  show ?case
  proof (cases "i < length args")
    case False
    then show ?thesis by (subst rule_loop.simps) simp
  next
    case True
    note sound = validateRuleToken_sound [OF True]
    show ?thesis
    proof (cases "validateRuleToken args i")
      case (Inl m)
      then show ?thesis using sound True by (subst rule_loop.simps) (simp add: token_sound_def)
    next
      case (Inr res)
      obtain nxt done1 where res: "res = (nxt, done1)" by fastforce
      have "\<exists>r. rule_loop args nxt = Some r \<and> (r = Inr () \<longleftrightarrow> nft_rule (drop nxt args))"
        using sound True Inr res by (intro less) (auto simp: token_sound_def)
      then show ?thesis using sound True Inr res by (subst rule_loop.simps) (auto simp: token_sound_def)
    qed
  qed
qed

lemma rule_loop_Inr: "rule_loop args i = Some (Inr ()) \<longleftrightarrow> nft_rule (drop i args)"
  using rule_loop_decides [of args i] by (metis option.inject)

section \<open>The validator\<close>

text \<open>C24: the validator of the privileged firewall helper returns a decision for every argument vector: the loop over the
tokens of a rule, which moves its own index, always ends.\<close>

theorem validator_terminates: "\<exists>decision. ValidateNFTArgs args = Some decision"
proof -
  have rule: "\<exists>d. validateAddRuleArgs a = Some d" for a
    using rule_loop_decides [of a 5] by (auto simp: validateAddRuleArgs_def)
  have "\<exists>d. validateAddArgs a = Some d" for a
    using rule [of a] by (simp add: validateAddArgs_def)
  then show ?thesis by (auto simp: ValidateNFTArgs_def split: list.split)
qed

text \<open>The subcommands, each as the words it accepts.\<close>

lemma validateListArgs_Inr: "validateListArgs (a # rest) = Inr () \<longleftrightarrow>
    rest = [''table'', ''inet'', ''helling''] \<or> (\<exists>c. validChain c \<and> rest = ''chain'' # nft_target c)"
  by (auto simp: validateListArgs_def nft_target_def numeral_eq_Suc length_Suc_conv)


lemma nft_rule_length: "nft_rule ts \<Longrightarrow> 3 \<le> length ts"
  by (induction rule: nft_rule.induct) auto

lemma validateAddChainArgs_Inr: "validateAddChainArgs (a # b # rest) = Inr () \<longleftrightarrow>
    (\<exists>c. validChain c \<and> rest = nft_target c @ chain_definition c)"
proof
  assume ok: "validateAddChainArgs (a # b # rest) = Inr ()"
  then obtain x y c ts where "rest = x # y # c # ts"
    by (auto simp: validateAddChainArgs_def numeral_eq_Suc length_Suc_conv split: if_splits)
  then show "\<exists>c. validChain c \<and> rest = nft_target c @ chain_definition c" using ok
    by (auto simp: validateAddChainArgs_def nft_target_def split: if_splits)
qed (auto simp: validateAddChainArgs_def nft_target_def chain_definition_def)

lemma validateAddRuleArgs_Inr: "validateAddRuleArgs (a # b # rest) = Some (Inr ()) \<longleftrightarrow>
    (\<exists>c ts. validChain c \<and> nft_rule ts \<and> rest = nft_target c @ ts)"
proof
  assume ok: "validateAddRuleArgs (a # b # rest) = Some (Inr ())"
  then have "6 \<le> length rest" by (auto simp: validateAddRuleArgs_def split: if_splits)
  then obtain x y c ts where "rest = x # y # c # ts"
    by (cases rest; cases "tl rest"; cases "tl (tl rest)") auto
  then show "\<exists>c ts. validChain c \<and> nft_rule ts \<and> rest = nft_target c @ ts" using ok
    by (auto simp: validateAddRuleArgs_def nft_target_def rule_loop_Inr split: if_splits)
qed (auto simp: validateAddRuleArgs_def nft_target_def rule_loop_Inr dest: nft_rule_length)

lemma validateDeleteArgs_Inr: "validateDeleteArgs (a # rest) = Inr () \<longleftrightarrow>
    (\<exists>c h n. validChain c \<and> parse_int64 h = Some n \<and> 0 < n \<and> rest = ''rule'' # nft_target c @ [''handle'', h])"
proof
  assume ok: "validateDeleteArgs (a # rest) = Inr ()"
  then obtain x y z c u h where "rest = [x, y, z, c, u, h]"
    by (auto simp: validateDeleteArgs_def numeral_eq_Suc length_Suc_conv split: if_splits)
  then show "\<exists>c h n. validChain c \<and> parse_int64 h = Some n \<and> 0 < n \<and> rest = ''rule'' # nft_target c @ [''handle'', h]"
    using ok by (auto simp: validateDeleteArgs_def nft_target_def split: if_splits option.splits)
qed (auto simp: validateDeleteArgs_def nft_target_def)

lemma validateAddArgs_Inr: "validateAddArgs (a # rest) = Some (Inr ()) \<longleftrightarrow>
    rest = [''table'', ''inet'', ''helling''] \<or> (\<exists>c. validChain c \<and> rest = ''chain'' # nft_target c @ chain_definition c)
    \<or> (\<exists>c ts. validChain c \<and> nft_rule ts \<and> rest = ''rule'' # nft_target c @ ts)"
proof (cases rest)
  case (Cons b us)
  consider "b = ''table''" | "b = ''chain''" | "b = ''rule''" | "b \<notin> {''table'', ''chain'', ''rule''}" by blast
  then show ?thesis
  proof cases
    case 1
    have "length us = 2 \<and> us ! 0 = ''inet'' \<and> us ! 1 = ''helling'' \<longleftrightarrow> us = [''inet'', ''helling'']"
      by (auto simp: numeral_eq_Suc length_Suc_conv)
    then show ?thesis using 1 by (simp add: Cons validateAddArgs_def numeral_eq_Suc)
  next
    case 2
    then show ?thesis by (simp add: Cons validateAddArgs_def validateAddChainArgs_Inr)
  next
    case 3
    then show ?thesis by (simp add: Cons validateAddArgs_def validateAddRuleArgs_Inr)
  qed (simp add: Cons validateAddArgs_def)
qed (simp add: validateAddArgs_def)

inductive_simps nft_command_Cons: "nft_command (a # rest)"
inductive_simps nft_command_Nil [simp]: "nft_command []"

lemma accepted_commands: "ValidateNFTArgs args = Some (Inr ()) \<longleftrightarrow> nft_command args"
proof (cases args)
  case (Cons a rest)
  consider "a = ''-a''" | "a = ''list''" | "a = ''add''" | "a = ''delete''" | "a \<notin> {''-a'', ''list'', ''add'', ''delete''}" by blast
  then show ?thesis
  proof cases
    case 1
    then show ?thesis unfolding Cons
      by (cases rest) (auto simp: ValidateNFTArgs_def nft_command_Cons validateListArgs_Inr)
  next
    case 2
    then show ?thesis unfolding Cons by (auto simp: ValidateNFTArgs_def nft_command_Cons validateListArgs_Inr)
  next
    case 3
    then show ?thesis unfolding Cons by (auto simp: ValidateNFTArgs_def nft_command_Cons validateAddArgs_Inr)
  next
    case 4
    then show ?thesis unfolding Cons by (auto simp: ValidateNFTArgs_def nft_command_Cons validateDeleteArgs_Inr)
  next
    case 5
    then show ?thesis unfolding Cons by (auto simp: ValidateNFTArgs_def nft_command_Cons)
  qed
qed (simp add: ValidateNFTArgs_def)

text \<open>C8: the firewall helper accepts exactly the commands of the grammar: listing, creating Helling's own table and its
three chains, adding a rule of selectors that ends in Helling's comment and a verdict, and deleting a rule by its handle.
Every accepted command names the table \<open>inet helling\<close>.\<close>

theorem nft_grammar: "ValidateNFTArgs args = Some (Inr ()) \<longleftrightarrow> nft_command args"
  by (rule accepted_commands)


section \<open>Deleting by handle\<close>

lemma owned_line_first:
  "(\<forall>l \<in> set pre. \<not> contains_str l (''handle '' @ h)) \<Longrightarrow> contains_str line (''handle '' @ h) \<Longrightarrow>
    contains_str line (''comment '' @ [CHR 0x22] @ ''helling:'') \<Longrightarrow> owned_line h (pre @ line # post) = Inr ()"
  by (induction pre) auto

text \<open>
  The ownership check of a deletion looks for a line that contains the handle as text: when the first such
  line is a rule of Helling whose own handle only starts with the digits asked for, \<open>nft\<close> deletes the rule with
  the handle asked for, whoever owns it.
\<close>

theorem delete_ownership_prefix:
  assumes "validChain c" "parse_int64 h = Some v" "0 < v"
    and listing: "nft [''-a'', ''list'', ''chain'', ''inet'', ''helling'', c] n = ((True, out), n1)"
      "split_char newline out = pre @ line # post"
    and first: "\<forall>l \<in> set pre. \<not> contains_str l (''handle '' @ h)"
    and other: "line = start @ ''handle '' @ h @ digits" "contains_str start (''comment '' @ [CHR 0x22] @ ''helling:'')"
  shows "snd (helper_Handle nft [''delete'', ''rule'', ''inet'', ''helling'', c, ''handle'', h] n) =
    snd (nft [''delete'', ''rule'', ''inet'', ''helling'', c, ''handle'', h] n1)"
proof -
  let ?args = "[''delete'', ''rule'', ''inet'', ''helling'', c, ''handle'', h]"
  have valid: "ValidateNFTArgs ?args = Some (Inr ())"
    using assms(1-3) delete_rule [of c h v] by (simp add: accepted_commands nft_target_def)
  have "contains_str line (''handle '' @ h)" unfolding other(1)
    using contains_str_append [of start "''handle '' @ h" digits] by simp
  moreover have "contains_str line (''comment '' @ [CHR 0x22] @ ''helling:'')"
    using other by (auto simp: contains_str_iff) (metis append.assoc)
  ultimately have "owned_line h (split_char newline out) = Inr ()"
    unfolding listing(2) by (rule owned_line_first [OF first])
  then have "validateDeleteOwnership nft ?args n = (Inr (), n1)"
    by (simp add: validateDeleteOwnership_def listing(1))
  then show ?thesis using valid by (simp add: helper_Handle_def split: prod.split)
qed

text \<open>A chain that holds a foreign rule with handle 4 after one of Helling with handle 42.\<close>

definition demo_chain :: "(string \<times> string) list" where
  "demo_chain = [(''42'', ''tcp dport 22 comment '' @ [CHR 0x22] @ ''helling:x'' @ [CHR 0x22] @ '' accept # ''), (''4'', ''drop # '')]"

definition demo_chain_nft :: "(string \<times> string) list nft" where
  "demo_chain_nft args rules =
     (if args ! 0 = ''delete'' then ((True, ''''), filter (\<lambda>(h, _). h \<noteq> args ! 6) rules)
      else ((True, concat (map (\<lambda>(h, r). r @ ''handle '' @ h @ [newline]) rules)), rules))"

theorem delete_ownership_prefix_witness:
  "map fst (snd (helper_Handle demo_chain_nft [''delete'', ''rule'', ''inet'', ''helling'', ''input'', ''handle'', ''4''] demo_chain)) = [''42'']"
proof -
  let ?start = "''tcp dport 22 comment '' @ [CHR 0x22] @ ''helling:x'' @ [CHR 0x22] @ '' accept # ''"
  have "snd (helper_Handle demo_chain_nft [''delete'', ''rule'', ''inet'', ''helling'', ''input'', ''handle'', ''4''] demo_chain) =
    snd (demo_chain_nft [''delete'', ''rule'', ''inet'', ''helling'', ''input'', ''handle'', ''4''] demo_chain)"
  proof (rule delete_ownership_prefix)
    show "validChain ''input''" "(0::int) < 4" by (simp_all add: validChain_def)
    show "parse_int64 ''4'' = Some 4" by code_simp
    show "demo_chain_nft [''-a'', ''list'', ''chain'', ''inet'', ''helling'', ''input''] demo_chain =
      ((True, ?start @ ''handle 42'' @ [newline] @ ''drop # handle 4'' @ [newline]), demo_chain)" by code_simp
    show "split_char newline (?start @ ''handle 42'' @ [newline] @ ''drop # handle 4'' @ [newline]) =
      [] @ (?start @ ''handle 42'') # [''drop # handle 4'', '''']" by code_simp
    show "\<forall>l \<in> set []. \<not> contains_str l (''handle '' @ ''4'')" by simp
    show "?start @ ''handle 42'' = ?start @ ''handle '' @ ''4'' @ ''2''" by simp
    show "contains_str ?start (''comment '' @ [CHR 0x22] @ ''helling:'')" by code_simp
  qed
  then show ?thesis by (simp only:) code_simp
qed

end
