(* ===== verification/Server_Firewall.thy ===== *)
theory Server_Firewall
  imports Server_Events Firewall_Helper_Props
begin

text \<open>
  The host firewall endpoints (\<open>server/firewall_handlers.go\<close>).  Their state is the server and what \<open>nft\<close>
  keeps; the daemon reaches \<open>nft\<close> through the privileged helper of \<open>Firewall_Helper\<close> only.  A helper that
  cannot be started or is killed at the deadline is an \<open>nft\<close> that fails.
\<close>

record 'n fnode =
  fn_node :: node
  fn_nft :: 'n

record 'n fw_env =
  fx_now :: gotime
  fx_uuid :: "string option"
  fx_event_uuid :: "string option"
  fx_nft :: "'n nft"

definition fn_db :: "'n fnode \<Rightarrow> db" where
  "fn_db s = nd_db (fn_node s)"

definition on_fw_db :: "'a dbm \<Rightarrow> ('a res \<Rightarrow> 'n fnode \<Rightarrow> 'b \<times> 'n fnode) \<Rightarrow> 'n fnode \<Rightarrow> 'b \<times> 'n fnode" where
  "on_fw_db m k s = (case m (fn_db s) of (r, d) \<Rightarrow> k r (s\<lparr>fn_node := set_db d (fn_node s)\<rparr>))"

type_synonym ('a, 'n) nftm = "'n \<Rightarrow> 'a \<times> 'n"

definition on_nft :: "('a, 'n) nftm \<Rightarrow> ('a \<Rightarrow> 'n fnode \<Rightarrow> 'b \<times> 'n fnode) \<Rightarrow> 'n fnode \<Rightarrow> 'b \<times> 'n fnode" where
  "on_nft m k s = (case m (fn_nft s) of (r, n) \<Rightarrow> k r (s\<lparr>fn_nft := n\<rparr>))"

definition fw_emit :: "'n fw_env \<Rightarrow> string \<Rightarrow> string \<Rightarrow> 'n fnode \<Rightarrow> 'n fnode" where
  "fw_emit env ty subject s =
     s\<lparr>fn_node := snd (emitEvent (fx_now env) (fx_event_uuid env) ty subject (Some ''{}'') (fn_node s))\<rparr>"

definition fw_audit :: "request \<Rightarrow> string \<Rightarrow> string \<Rightarrow> string \<Rightarrow> 'n fnode \<Rightarrow> 'n fnode" where
  "fw_audit r action i message s = s\<lparr>fn_node := node_audit (audit r action ''success'' ''firewall_rule'' i message) (fn_node s)\<rparr>"

section \<open>Requests and answers\<close>

record create_firewall_request =
  cq_direction :: string
  cq_action :: string
  cq_protocol :: string
  cq_source_cidr :: "string option"
  cq_destination_cidr :: "string option"
  cq_destination_port :: "int option"
  cq_enabled :: "bool option"
  cq_comment :: "string option"

record firewall_response =
  fr_id :: string
  fr_direction :: string
  fr_action :: string
  fr_protocol :: string
  fr_source_cidr :: "string option"
  fr_destination_cidr :: "string option"
  fr_destination_port :: "int option"
  fr_enabled :: bool
  fr_comment :: "string option"
  fr_nft_comment :: string
  fr_nft_handle :: "int option"
  fr_created_at :: gotime
  fr_updated_at :: gotime

definition firewallRuleToResponse :: "firewall_rule \<Rightarrow> firewall_response" where
  "firewallRuleToResponse r = \<lparr>fr_id = fw_id r, fr_direction = fw_direction r, fr_action = fw_action r,
     fr_protocol = fw_protocol r, fr_source_cidr = fw_source_cidr r, fr_destination_cidr = fw_destination_cidr r,
     fr_destination_port = fw_destination_port r, fr_enabled = fw_enabled r, fr_comment = fw_comment r,
     fr_nft_comment = fw_nft_comment r, fr_nft_handle = fw_nft_handle r,
     fr_created_at = fw_created_at r, fr_updated_at = fw_updated_at r\<rparr>"

definition validateFirewallEnums :: "create_firewall_request \<Rightarrow> string + unit" where
  "validateFirewallEnums req =
     (if cq_direction req \<noteq> ''input'' \<and> cq_direction req \<noteq> ''output'' \<and> cq_direction req \<noteq> ''forward''
      then Inl ''direction must be input, output, or forward''
      else if cq_action req \<noteq> ''accept'' \<and> cq_action req \<noteq> ''drop'' \<and> cq_action req \<noteq> ''reject''
      then Inl ''action must be accept, drop, or reject''
      else if cq_protocol req \<noteq> ''tcp'' \<and> cq_protocol req \<noteq> ''udp'' \<and> cq_protocol req \<noteq> ''icmp'' \<and> cq_protocol req \<noteq> ''any''
      then Inl ''protocol must be tcp, udp, icmp, or any''
      else Inr ())"

definition validateOptionalCIDR :: "string option \<Rightarrow> string \<Rightarrow> string + unit" where
  "validateOptionalCIDR value field = (case value of None \<Rightarrow> Inr ()
   | Some c \<Rightarrow> if cidr_text c then Inr () else Inl (field @ '' must be CIDR notation''))"

definition validateFirewallRule :: "create_firewall_request \<Rightarrow> string + unit" where
  "validateFirewallRule req = (case validateFirewallEnums req of Inl m \<Rightarrow> Inl m | Inr _ \<Rightarrow>
     case validateOptionalCIDR (cq_source_cidr req) ''source_cidr'' of Inl m \<Rightarrow> Inl m | Inr _ \<Rightarrow>
     case validateOptionalCIDR (cq_destination_cidr req) ''destination_cidr'' of Inl m \<Rightarrow> Inl m | Inr _ \<Rightarrow>
     (case cq_destination_port req of None \<Rightarrow> Inr ()
      | Some p \<Rightarrow> if p < 1 \<or> 65535 < p then Inl ''destination_port must be 1..65535''
          else if cq_protocol req \<noteq> ''tcp'' \<and> cq_protocol req \<noteq> ''udp'' then Inl ''destination_port requires tcp or udp protocol''
          else Inr ()))"

section \<open>Calling the helper\<close>

definition runFirewallHelper :: "'n nft \<Rightarrow> string list \<Rightarrow> (string + unit, 'n) nftm" where
  "runFirewallHelper nft args n = (case helper_Handle nft args n of ((res, _), n) \<Rightarrow> (res, n))"

definition runNFT :: "'n nft \<Rightarrow> string list \<Rightarrow> (string + unit, 'n) nftm" where
  "runNFT nft args = runFirewallHelper nft args"

definition runFirewallHelperOutput :: "'n nft \<Rightarrow> string list \<Rightarrow> (string + string, 'n) nftm" where
  "runFirewallHelperOutput nft args n = (case ValidateNFTArgs (filter (\<lambda>a. a \<noteq> ''-a'') args) of
     None \<Rightarrow> (Inl ''does not end'', n)
   | Some (Inl m) \<Rightarrow> (Inl m, n)
   | Some (Inr _) \<Rightarrow> (case helper_Handle nft args n of
       ((Inl m, _), n) \<Rightarrow> (Inl m, n) | ((Inr _, out), n) \<Rightarrow> (Inr out, n)))"

text \<open>\<open>strings.LastIndex\<close>, the first of \<open>strings.Fields\<close>, and the lines of a \<open>bufio.Scanner\<close>.\<close>

definition last_index :: "string \<Rightarrow> string \<Rightarrow> nat option" where
  "last_index s p = (case rev (filter (\<lambda>i. has_prefix (drop i s) p) [0..<Suc (length s)]) of [] \<Rightarrow> None | i # _ \<Rightarrow> Some i)"

function field_chars :: "string \<Rightarrow> string" where
  "field_chars s = (if s = [] \<or> rune_is_space (fst (decode_rune s)) then []
     else take (snd (decode_rune s)) s @ field_chars (drop (snd (decode_rune s)) s))"
  by pat_completeness auto

termination by (relation "measure length") (auto simp: decode_rune_width_pos)

declare field_chars.simps [simp del]

definition first_field :: "string \<Rightarrow> string option" where
  "first_field s = (let t = trim_left_space s in if t = [] then None else Some (field_chars t))"

definition scanner_lines :: "string \<Rightarrow> string list" where
  "scanner_lines s = (let ls = split_char newline s in if last ls = [] then butlast ls else ls)"

definition max_scan_token :: nat where "max_scan_token = 65536"

fun handle_by_comment :: "string \<Rightarrow> string list \<Rightarrow> string + int" where
  "handle_by_comment comment [] = Inl ''nft rule with comment not found''"
| "handle_by_comment comment (raw # ls) =
     (if max_scan_token \<le> length raw then Inl ''reading nft ruleset''
      else let line = trim_suffix raw [CHR 0x0D] in
        if \<not> contains_str line (''comment '' @ [CHR 0x22] @ comment @ [CHR 0x22]) then handle_by_comment comment ls
        else (case last_index line ''# handle '' of None \<Rightarrow> Inl ''nft rule has no handle''
        | Some i \<Rightarrow> (case first_field (drop (i + 9) line) of None \<Rightarrow> Inl ''nft rule has empty handle''
          | Some f \<Rightarrow> (case parse_int64 f of None \<Rightarrow> Inl ''parsing nft handle'' | Some h \<Rightarrow> Inr h))))"

definition parseNFTHandleByComment :: "string \<Rightarrow> string \<Rightarrow> string + int" where
  "parseNFTHandleByComment out comment = handle_by_comment comment (scanner_lines out)"

definition nftArgsForRule :: "firewall_rule \<Rightarrow> string list" where
  "nftArgsForRule row =
     [''add'', ''rule'', ''inet'', ''helling'', fw_direction row]
     @ (case fw_source_cidr row of None \<Rightarrow> [] | Some c \<Rightarrow> [''ip'', ''saddr'', c])
     @ (case fw_destination_cidr row of None \<Rightarrow> [] | Some c \<Rightarrow> [''ip'', ''daddr'', c])
     @ (if fw_protocol row = ''any'' then [] else fw_protocol row #
         (case fw_destination_port row of None \<Rightarrow> []
          | Some p \<Rightarrow> if fw_protocol row = ''tcp'' \<or> fw_protocol row = ''udp'' then [''dport'', format_int p] else []))
     @ [''comment'', fw_nft_comment row, fw_action row]"

fun ensure_chains :: "'n nft \<Rightarrow> string list \<Rightarrow> (string + unit, 'n) nftm" where
  "ensure_chains nft [] n = (Inr (), n)"
| "ensure_chains nft (c # cs) n = (case runNFT nft [''list'', ''chain'', ''inet'', ''helling'', c] n of
     (Inr _, n) \<Rightarrow> ensure_chains nft cs n
   | (Inl _, n) \<Rightarrow> (case runNFT nft [''add'', ''chain'', ''inet'', ''helling'', c, ''{'', ''type'', ''filter'', ''hook'', c,
         ''priority'', ''0'', '';'', ''policy'', ''accept'', '';'', ''}''] n of
       (Inl m, n) \<Rightarrow> (Inl (''creating nft chain '' @ c), n)
     | (Inr _, n) \<Rightarrow> ensure_chains nft cs n))"

definition ensureHellingNFTBase :: "'n nft \<Rightarrow> (string + unit, 'n) nftm" where
  "ensureHellingNFTBase nft n =
     (case (case runNFT nft [''list'', ''table'', ''inet'', ''helling''] n of
        (Inr _, n) \<Rightarrow> (Inr (), n)
      | (Inl _, n) \<Rightarrow> runNFT nft [''add'', ''table'', ''inet'', ''helling''] n) of
        (Inl m, n) \<Rightarrow> (Inl ''creating nft table'', n)
      | (Inr _, n) \<Rightarrow> ensure_chains nft [''input'', ''output'', ''forward''] n)"

definition applyFirewallRule :: "'n nft \<Rightarrow> firewall_rule \<Rightarrow> (string + unit, 'n) nftm" where
  "applyFirewallRule nft row n = (case ensureHellingNFTBase nft n of (Inl m, n) \<Rightarrow> (Inl m, n)
   | (Inr _, n) \<Rightarrow> runNFT nft (nftArgsForRule row) n)"

definition lookupFirewallHandle :: "'n nft \<Rightarrow> firewall_rule \<Rightarrow> (string + int, 'n) nftm" where
  "lookupFirewallHandle nft row n =
     (case runFirewallHelperOutput nft [''-a'', ''list'', ''chain'', ''inet'', ''helling'', fw_direction row] n of
       (Inl m, n) \<Rightarrow> (Inl ''listing nft chain'', n)
     | (Inr out, n) \<Rightarrow> (parseNFTHandleByComment out (fw_nft_comment row), n))"

definition removeFirewallRule :: "'n nft \<Rightarrow> firewall_rule \<Rightarrow> (string + unit, 'n) nftm" where
  "removeFirewallRule nft row n =
     (case (case fw_nft_handle row of Some h \<Rightarrow> (Inr h, n) | None \<Rightarrow> lookupFirewallHandle nft row n) of
       (Inl m, n) \<Rightarrow> (Inl m, n)
     | (Inr h, n) \<Rightarrow> runNFT nft [''delete'', ''rule'', ''inet'', ''helling'', fw_direction row, ''handle'', format_int h] n)"

section \<open>Handlers\<close>

definition handleListFirewallRules :: "'n fnode \<Rightarrow> firewall_response list response \<times> 'n fnode" where
  "handleListFirewallRules = on_fw_db ListFirewallRules (\<lambda>r s. case r of
     Inl e \<Rightarrow> (internalError, s) | Inr rows \<Rightarrow> (writeJSON 200 (map firewallRuleToResponse rows), s))"

definition firewall_created ::
  "'n fw_env \<Rightarrow> request \<Rightarrow> firewall_rule \<Rightarrow> 'n fnode \<Rightarrow> firewall_response response \<times> 'n fnode" where
  "firewall_created env r row s = (writeJSON 201 (firewallRuleToResponse row),
     fw_audit r ''firewall.rule.create'' (fw_id row) ''firewall rule created''
       (fw_emit env ''firewall.rule.created'' (fw_id row) s))"

text \<open>An enabled rule is applied, or its row deleted again.\<close>

definition firewall_applied ::
  "'n fw_env \<Rightarrow> request \<Rightarrow> firewall_rule \<Rightarrow> 'n fnode \<Rightarrow> firewall_response response \<times> 'n fnode" where
  "firewall_applied env r row = on_nft (applyFirewallRule (fx_nft env) row) (\<lambda>res s. case res of
     Inl m \<Rightarrow> on_fw_db (DeleteFirewallRule (fw_id row))
       (\<lambda>_ s. (writeError 502 ''firewall_apply_failed'' ''could not apply firewall rule'', s)) s
   | Inr _ \<Rightarrow> on_nft (lookupFirewallHandle (fx_nft env) row) (\<lambda>res s. case res of
       Inl m \<Rightarrow> firewall_created env r row s
     | Inr h \<Rightarrow> on_fw_db (UpdateFirewallRuleHandle (fx_now env) (fw_id row) h)
         (\<lambda>_ s. firewall_created env r (row\<lparr>fw_nft_handle := Some h\<rparr>) s) s) s)"

definition handleCreateFirewallRule ::
  "'n fw_env \<Rightarrow> request \<Rightarrow> create_firewall_request option \<Rightarrow> 'n fnode \<Rightarrow> firewall_response response \<times> 'n fnode" where
  "handleCreateFirewallRule env r body s = (case body of
     None \<Rightarrow> (writeError 400 ''bad_request'' ''invalid JSON body'', s)
   | Some req \<Rightarrow> (case validateFirewallRule req of Inl m \<Rightarrow> (writeError 400 ''bad_request'' m, s)
   | Inr _ \<Rightarrow> (case rq_user r of None \<Rightarrow> (writeError 401 ''unauthorized'' ''authentication required'', s)
   | Some u \<Rightarrow>
     let enabled = (case cq_enabled req of None \<Rightarrow> True | Some b \<Rightarrow> b) in
     on_fw_db (CreateFirewallRule (fx_now env) (fx_uuid env) (u_id u) (Some
       \<lparr>fi_direction = cq_direction req, fi_action = cq_action req, fi_protocol = cq_protocol req,
        fi_source_cidr = cq_source_cidr req, fi_destination_cidr = cq_destination_cidr req,
        fi_destination_port = cq_destination_port req, fi_enabled = enabled, fi_comment = cq_comment req\<rparr>))
     (\<lambda>res s. case res of Inl e \<Rightarrow> (internalError, s)
     | Inr row \<Rightarrow>
       if \<not> fw_enabled row then firewall_created env r row s else firewall_applied env r row s) s)))"

definition firewall_deleted :: "'n fw_env \<Rightarrow> request \<Rightarrow> string \<Rightarrow> 'n fnode \<Rightarrow> unit response \<times> 'n fnode" where
  "firewall_deleted env r i = on_fw_db (DeleteFirewallRule i) (\<lambda>res s. case res of Inl e \<Rightarrow> (internalError, s)
   | Inr _ \<Rightarrow> (noContent, fw_audit r ''firewall.rule.delete'' i ''firewall rule deleted''
       (fw_emit env ''firewall.rule.deleted'' i s)))"

definition handleDeleteFirewallRule :: "'n fw_env \<Rightarrow> request \<Rightarrow> string \<Rightarrow> 'n fnode \<Rightarrow> unit response \<times> 'n fnode" where
  "handleDeleteFirewallRule env r i s =
     (if i = '''' then (writeError 400 ''bad_request'' ''rule id required'', s)
      else on_fw_db (GetFirewallRule i) (\<lambda>res s. case res of
        Inl e \<Rightarrow> if e = ErrNotFound then (writeError 404 ''not_found'' ''firewall rule not found'', s) else (internalError, s)
      | Inr row \<Rightarrow>
        if \<not> fw_enabled row then firewall_deleted env r i s
        else on_nft (removeFirewallRule (fx_nft env) row) (\<lambda>res s. case res of
          Inl m \<Rightarrow> (writeError 500 ''internal'' ''could not remove firewall rule'', s)
        | Inr _ \<Rightarrow> firewall_deleted env r i s) s) s)"

end
