(* ===== verification/Server_Firewall_Props.thy ===== *)
theory Server_Firewall_Props
  imports Server_Firewall Service
begin

text \<open>
  What the firewall endpoints leave in the table of rules and in \<open>nft\<close>: the daemon changes \<open>nft\<close> only by
  commands of the helper's grammar, and every rule it stores can be turned into one.
\<close>

section \<open>Commands reach nft through the grammar\<close>

inductive nft_runs :: "'n nft \<Rightarrow> 'n \<Rightarrow> 'n \<Rightarrow> bool" for nft n0 where
  start: "nft_runs nft n0 n0"
| run: "nft_runs nft n0 n \<Longrightarrow> nft_command args \<Longrightarrow> nft_runs nft n0 (snd (nft args n))"

definition confined :: "'n nft \<Rightarrow> ('a, 'n) nftm \<Rightarrow> bool" where
  "confined nft m \<longleftrightarrow> (\<forall>n0 n. nft_runs nft n0 n \<longrightarrow> nft_runs nft n0 (snd (m n)))"

lemma confinedD: "confined nft m \<Longrightarrow> m n = (r, n') \<Longrightarrow> nft_runs nft n0 n \<Longrightarrow> nft_runs nft n0 n'"
  unfolding confined_def by (metis snd_conv)

lemma nft_runs_step: "nft args n = (r, n') \<Longrightarrow> nft_command args \<Longrightarrow> nft_runs nft n0 n \<Longrightarrow> nft_runs nft n0 n'"
  using nft_runs.run [of nft n0 n args] by simp

lemma ownership_confined:
  assumes "nft_command args" "args ! 0 = ''delete''"
  shows "confined nft (validateDeleteOwnership nft args)"
proof -
  have "validChain (args ! 4)" using assms by (cases rule: nft_command.cases) (auto simp: nft_target_def)
  then have "nft_command [''-a'', ''list'', ''chain'', ''inet'', ''helling'', args ! 4]"
    using list_chain_handles [of "args ! 4"] by (simp add: nft_target_def)
  then show ?thesis
    by (auto simp: confined_def validateDeleteOwnership_def intro: nft_runs_step split: prod.split)
qed

lemma helper_confined: "confined nft (helper_Handle nft args)"
proof (cases "ValidateNFTArgs args = Some (Inr ())")
  case True
  then have cmd: "nft_command args" by (simp add: accepted_commands)
  have own: "nft_runs nft n0 n1" if "args ! 0 = ''delete''" "validateDeleteOwnership nft args n = (r, n1)" "nft_runs nft n0 n" for n n0 r n1
    using confinedD [OF ownership_confined [OF cmd that(1)] that(2,3)] .
  show ?thesis using True
    by (auto simp: confined_def helper_Handle_def split: prod.split sum.split intro: nft_runs_step [OF _ cmd] dest: own)
next
  case False
  then show ?thesis by (auto simp: confined_def helper_Handle_def split: option.split sum.split)
qed

lemma runNFT_confined: "confined nft (runNFT nft args)"
  using helper_confined [of nft args] by (auto simp: confined_def runNFT_def runFirewallHelper_def split: prod.split) (metis snd_conv)+


lemma output_confined: "confined nft (runFirewallHelperOutput nft args)"
  using helper_confined [of nft args]
  by (auto simp: confined_def runFirewallHelperOutput_def split: prod.split option.split sum.split) (metis snd_conv)+

lemma runNFT_runs: "runNFT nft args n = (r, n') \<Longrightarrow> nft_runs nft n0 n \<Longrightarrow> nft_runs nft n0 n'"
  by (rule confinedD [OF runNFT_confined])

lemma ensure_chains_confined: "confined nft (ensure_chains nft cs)"
  unfolding confined_def
proof (intro allI impI)
  fix n0 n assume "nft_runs nft n0 n"
  then show "nft_runs nft n0 (snd (ensure_chains nft cs n))"
    by (induction cs arbitrary: n) (auto split: prod.split sum.split dest: runNFT_runs)
qed

lemma confined_ret: "confined nft (\<lambda>n. (x, n))"
  by (simp add: confined_def)

lemma confined_bind:
  assumes "confined nft m" "\<And>r. confined nft (k r)"
  shows "confined nft (\<lambda>n. case m n of (r, n) \<Rightarrow> k r n)"
  using assms by (simp add: confined_def split: prod.split) (metis snd_conv)

lemma confined_sum:
  "(\<And>m. confined nft (f m)) \<Longrightarrow> (\<And>x. confined nft (g x)) \<Longrightarrow>
    confined nft (\<lambda>n. case r of Inl m \<Rightarrow> f m n | Inr x \<Rightarrow> g x n)"
  by (cases r) simp_all

lemma confined_option:
  "confined nft f \<Longrightarrow> (\<And>x. confined nft (g x)) \<Longrightarrow> confined nft (\<lambda>n. case r of None \<Rightarrow> f n | Some x \<Rightarrow> g x n)"
  by (cases r) simp_all

lemmas confined_intros = confined_ret confined_bind confined_sum confined_option

lemma ensure_base_confined: "confined nft (ensureHellingNFTBase nft)"
  unfolding ensureHellingNFTBase_def [abs_def] by (intro confined_intros runNFT_confined ensure_chains_confined)

lemma apply_confined: "confined nft (applyFirewallRule nft row)"
  unfolding applyFirewallRule_def [abs_def] by (intro confined_intros runNFT_confined ensure_base_confined)

lemma lookup_confined: "confined nft (lookupFirewallHandle nft row)"
  unfolding lookupFirewallHandle_def [abs_def] by (intro confined_intros output_confined)

lemma remove_confined: "confined nft (removeFirewallRule nft row)"
  unfolding removeFirewallRule_def [abs_def] by (intro confined_intros runNFT_confined lookup_confined)

section \<open>Rows\<close>

definition same_rules :: "firewall_rule list \<Rightarrow> db \<Rightarrow> bool" where
  "same_rules ws d \<longleftrightarrow> firewall_rules d = ws"

lemma rules_pred [simp]: "data_pred (same_rules ws)"
  by (simp add: data_pred_def same_rules_def)

lemma rules_exec: "(\<And>d. firewall_rules (f d) = firewall_rules d) \<Longrightarrow> keeps (same_rules ws) (exec f)"
  by (rule keeps_exec) (simp_all add: same_rules_def)

lemma rules_stmt: "(\<And>d. firewall_rules (snd (g d)) = firewall_rules d) \<Longrightarrow> keeps (same_rules ws) (stmt g)"
  by (rule keeps_stmt) (simp_all add: same_rules_def keeps_def)

lemmas rules_keep = keeps_query [OF rules_pred] keeps_transaction [OF rules_pred] rules_exec rules_stmt

lemma rules_untouched:
  "keeps (same_rules ws) (CreateEvent now uuid ty src sub data)" "keeps (same_rules ws) (MarkEventOutboxDelivered now eid)"
  "keeps (same_rules ws) ListFirewallRules" "keeps (same_rules ws) (GetFirewallRule i)"
  unfolding outbox_defs CreateEvent_def ListFirewallRules_def GetFirewallRule_def one_row_def Let_def
  by (intro keeps_dret keeps_dfail keeps_dbind keeps_if keeps_option keeps_with_uuid keeps_sum rules_keep; simp)+

lemma same_rulesD: "(\<And>ws. keeps (same_rules ws) m) \<Longrightarrow> m d = (r, d') \<Longrightarrow> firewall_rules d' = firewall_rules d"
  using keepsD [of "same_rules (firewall_rules d)" m d r d'] by (simp add: same_rules_def)

lemma emit_rules [simp]: "firewall_rules (nd_db (snd (emitEvent now uuid ty subject data n))) = firewall_rules (nd_db n)"
proof -
  obtain r d where create: "CreateEvent now uuid ty ''helling'' subject data (nd_db n) = (r, d)" by fastforce
  have d: "firewall_rules d = firewall_rules (nd_db n)" by (rule same_rulesD [OF rules_untouched(1) create])
  show ?thesis
  proof (cases r)
    case (Inr ev)
    obtain r2 d2 where mark: "MarkEventOutboxDelivered now (ev_id ev) d = (r2, d2)" by fastforce
    have "firewall_rules d2 = firewall_rules d" by (rule same_rulesD [OF rules_untouched(2) mark])
    then show ?thesis using Inr create d mark
      by (simp add: emitEvent_def on_node_db_def enqueueWebhookEvent_def Let_def)
  qed (simp add: emitEvent_def on_node_db_def create d)
qed

lemma fw_steps [simp]:
  "firewall_rules (fn_db (fw_emit env ty subject s)) = firewall_rules (fn_db s)" "fn_nft (fw_emit env ty subject s) = fn_nft s"
  "fn_db (fw_audit r a i m s) = fn_db s" "fn_nft (fw_audit r a i m s) = fn_nft s"
  "fn_db (s\<lparr>fn_nft := n\<rparr>) = fn_db s" "fn_db (s\<lparr>fn_node := nd\<rparr>) = nd_db nd"
  by (simp_all add: fw_emit_def fn_db_def,
      simp_all add: fw_audit_def fn_db_def node_audit_def nd_db_def audit_def auditForUser_def
      auditForUserWithPolicyReason_def auditForAnonymous_def auditForActorWithPolicyReason_def Let_def split: option.split)

lemma CreateFirewallRule_rows:
  assumes "CreateFirewallRule now uuid uid (Some inp) d = (r, d')"
  shows "case r of Inl e \<Rightarrow> firewall_rules d' = firewall_rules d
   | Inr w \<Rightarrow> uuid = Some (fw_id w) \<and> tget fw_id (fw_id w) (firewall_rules d) = None \<and>
      firewall_rules d' = firewall_rules d @ [w\<lparr>fw_created_at := to_unix now, fw_updated_at := to_unix now\<rparr>] \<and>
      fw_user_id w = uid \<and> fw_direction w = fi_direction inp \<and> fw_action w = fi_action inp \<and> fw_protocol w = fi_protocol inp \<and>
      fw_source_cidr w = fi_source_cidr inp \<and> fw_destination_cidr w = fi_destination_cidr inp \<and>
      fw_destination_port w = fi_destination_port inp \<and> fw_enabled w = fi_enabled inp \<and> fw_comment w = fi_comment inp \<and>
      fw_nft_comment w = ''helling:'' @ fw_id w \<and> fw_nft_handle w = None"
proof (cases uuid)
  case None
  then show ?thesis using assms by (auto simp: CreateFirewallRule_def with_uuid_def dfail_def)
next
  case (Some i)
  let ?w = "\<lparr>fw_id = i, fw_user_id = uid, fw_direction = fi_direction inp, fw_action = fi_action inp,
                   fw_protocol = fi_protocol inp, fw_source_cidr = fi_source_cidr inp,
                   fw_destination_cidr = fi_destination_cidr inp, fw_destination_port = fi_destination_port inp,
                   fw_enabled = fi_enabled inp, fw_comment = fi_comment inp, fw_nft_comment = ''helling:'' @ i,
                   fw_nft_handle = None, fw_created_at = now, fw_updated_at = now\<rparr>"
  let ?f = "\<lambda>d. if tget fw_id i (firewall_rules d) \<noteq> None \<or> tget fw_nft_comment (fw_nft_comment ?w) (firewall_rules d) \<noteq> None
         then (Inl ErrUnique, d)
         else if tget u_id uid (users d) = None then (Inl ErrForeignKey, d)
         else (Inr (), d\<lparr>firewall_rules := firewall_rules d @ [?w\<lparr>fw_created_at := to_unix now, fw_updated_at := to_unix now\<rparr>]\<rparr>)"
  have run: "dbind (stmt ?f) (\<lambda>_. dret ?w) d = (r, d')"
    using assms by (simp only: CreateFirewallRule_def with_uuid_def Let_def Some option.case)
  show ?thesis
  proof (cases rule: stmt_cases [of ?f d])
    case (ok fs)
    then show ?thesis using run Some by (auto simp: dbind_def dret_def split: if_splits)
  next
    case (fault fs)
    then show ?thesis using run by (auto simp: dbind_def)
  qed
qed

lemma UpdateFirewallRuleHandle_rows:
  "UpdateFirewallRuleHandle now i h d = (r, d') \<Longrightarrow> firewall_rules d' = (if isl r then firewall_rules d else
     tupdate (\<lambda>r. fw_id r = i) (\<lambda>r. r\<lparr>fw_nft_handle := Some h, fw_updated_at := to_unix now\<rparr>) (firewall_rules d))"
  unfolding UpdateFirewallRuleHandle_def by (cases r) (auto dest!: exec_Inr exec_Inl)

lemma DeleteFirewallRule_rows:
  assumes "DeleteFirewallRule i d = (r, d')"
  shows "firewall_rules d' = firewall_rules d \<or> firewall_rules d' = tdelete (\<lambda>r. fw_id r = i) (firewall_rules d)"
    and "r = Inr u \<Longrightarrow> firewall_rules d' = tdelete (\<lambda>r. fw_id r = i) (firewall_rules d)"
proof -
  let ?f = "\<lambda>d. (Inr (taffected (\<lambda>r. fw_id r = i) (firewall_rules d)),
        d\<lparr>firewall_rules := tdelete (\<lambda>r. fw_id r = i) (firewall_rules d)\<rparr>)"
  have run: "dbind (stmt ?f) (\<lambda>n. if n = 0 then dfail ErrNotFound else dret ()) d = (r, d')"
    using assms by (simp only: DeleteFirewallRule_def)
  show "firewall_rules d' = firewall_rules d \<or> firewall_rules d' = tdelete (\<lambda>r. fw_id r = i) (firewall_rules d)"
    using run by (cases rule: stmt_cases [of ?f d]) (auto simp: dbind_def dret_def dfail_def split: if_splits)
  show "firewall_rules d' = tdelete (\<lambda>r. fw_id r = i) (firewall_rules d)" if "r = Inr u"
    using run that by (cases rule: stmt_cases [of ?f d]) (auto simp: dbind_def dret_def dfail_def split: if_splits)
qed


section \<open>A validated rule is a command of the grammar\<close>

text \<open>\<open>UUID.String\<close> prints 32 lower-case hexadecimal digits and four hyphens.\<close>

definition canonical_uuid :: "string \<Rightarrow> bool" where
  "canonical_uuid i \<longleftrightarrow> length i = 36 \<and> list_all (\<lambda>c. in_range 48 57 c \<or> in_range 97 102 c \<or> c = CHR ''-'') i"

definition requested_rule :: "create_firewall_request \<Rightarrow> firewall_rule \<Rightarrow> bool" where
  "requested_rule req w \<longleftrightarrow> fw_direction w = cq_direction req \<and> fw_action w = cq_action req \<and> fw_protocol w = cq_protocol req \<and>
     fw_source_cidr w = cq_source_cidr req \<and> fw_destination_cidr w = cq_destination_cidr req \<and>
     fw_destination_port w = cq_destination_port req \<and> fw_enabled w = (cq_enabled req \<noteq> Some False) \<and>
     fw_comment w = cq_comment req \<and> fw_nft_comment w = ''helling:'' @ fw_id w"

lemma comment_pattern: "canonical_uuid i \<Longrightarrow> nftCommentPattern (''helling:'' @ i)"
  by (simp add: canonical_uuid_def nftCommentPattern_def has_prefix_def)

lemma validateFirewallRule_Inr:
  "validateFirewallRule req = Inr v \<longleftrightarrow> validChain (cq_direction req) \<and> validAction (cq_action req) \<and>
     cq_protocol req \<in> {''tcp'', ''udp'', ''icmp'', ''any''} \<and>
     (\<forall>c. cq_source_cidr req = Some c \<longrightarrow> cidr_text c) \<and> (\<forall>c. cq_destination_cidr req = Some c \<longrightarrow> cidr_text c) \<and>
     (\<forall>p. cq_destination_port req = Some p \<longrightarrow> 1 \<le> p \<and> p \<le> 65535 \<and> cq_protocol req \<in> {''tcp'', ''udp''})"
proof -
  have enums: "validateFirewallEnums req = Inr u \<longleftrightarrow> validChain (cq_direction req) \<and> validAction (cq_action req) \<and>
     cq_protocol req \<in> {''tcp'', ''udp'', ''icmp'', ''any''}" for u
    by (simp add: validateFirewallEnums_def validChain_def validAction_def)
  have cidrs: "validateOptionalCIDR v f = Inr u \<longleftrightarrow> (\<forall>c. v = Some c \<longrightarrow> cidr_text c)" for v f u
    by (simp add: validateOptionalCIDR_def split: option.split)
  have "validateFirewallRule req = Inr v \<longleftrightarrow> validateFirewallEnums req = Inr () \<and>
     validateOptionalCIDR (cq_source_cidr req) ''source_cidr'' = Inr () \<and>
     validateOptionalCIDR (cq_destination_cidr req) ''destination_cidr'' = Inr () \<and>
     (\<forall>p. cq_destination_port req = Some p \<longrightarrow> 1 \<le> p \<and> p \<le> 65535 \<and> cq_protocol req \<in> {''tcp'', ''udp''})"
    by (simp add: validateFirewallRule_def not_less split: sum.split option.split)
  then show ?thesis unfolding enums cidrs by blast
qed

lemma nft_port_format: "1 \<le> p \<Longrightarrow> p \<le> 65535 \<Longrightarrow> nft_port (format_int p)"
  by (simp add: nft_port_def parse_format_int64)

lemma rule_body:
  assumes proto: "proto \<in> {''tcp'', ''udp'', ''icmp'', ''any''}"
    and dport: "\<And>p. dport = Some p \<Longrightarrow> 1 \<le> p \<and> p \<le> 65535 \<and> proto \<in> {''tcp'', ''udp''}"
    and rest: "nft_rule rest"
  shows "nft_rule ((if proto = ''any'' then [] else proto # (case dport of None \<Rightarrow> []
          | Some p \<Rightarrow> if proto = ''tcp'' \<or> proto = ''udp'' then [''dport'', format_int p] else [])) @ rest)"
proof (cases dport)
  case None
  then show ?thesis using proto rest by (auto intro: nft_rule.protocol)
next
  case (Some p)
  then show ?thesis using dport [OF Some] nft_rule.port [of proto "format_int p" rest] rest nft_port_format [of p] by auto
qed

lemma selector: "(\<forall>c. v = Some c \<longrightarrow> cidr_text c) \<Longrightarrow> d = ''saddr'' \<or> d = ''daddr'' \<Longrightarrow> nft_rule rest \<Longrightarrow>
    nft_rule ((case v of None \<Rightarrow> [] | Some c \<Rightarrow> [''ip'', d, c]) @ rest)"
  by (cases v) (auto intro: nft_rule.cidr)

lemma requested_rule_command:
  assumes valid: "validateFirewallRule req = Inr v" and req: "requested_rule req w" and uuid: "canonical_uuid (fw_id w)"
  shows "nft_command (nftArgsForRule w)"
proof -
  let ?verdict = "[''comment'', fw_nft_comment w, fw_action w]"
  have src: "\<forall>c. fw_source_cidr w = Some c \<longrightarrow> cidr_text c" and dst: "\<forall>c. fw_destination_cidr w = Some c \<longrightarrow> cidr_text c"
    and proto: "fw_protocol w \<in> {''tcp'', ''udp'', ''icmp'', ''any''}"
    and dport: "fw_destination_port w = Some p \<Longrightarrow> 1 \<le> p \<and> p \<le> 65535 \<and> fw_protocol w \<in> {''tcp'', ''udp''}" for p
    using valid req by (auto simp: requested_rule_def validateFirewallRule_Inr)
  have "nft_rule ?verdict"
    using valid req comment_pattern [OF uuid] by (auto simp: requested_rule_def validateFirewallRule_Inr intro: nft_rule.verdict)
  note body = selector [OF src disjI1 [OF refl] selector [OF dst disjI2 [OF refl] rule_body [OF proto dport this]]]
  have "validChain (fw_direction w)" using valid req by (auto simp: requested_rule_def validateFirewallRule_Inr)
  from add_rule [OF this body] show ?thesis by (simp add: nftArgsForRule_def nft_target_def)
qed


section \<open>Any sequence of requests\<close>

datatype fw_request =
    FwList
  | FwCreate request "create_firewall_request option"
  | FwDelete request string

fun serve_fw :: "'n fw_env \<Rightarrow> fw_request \<Rightarrow> 'n fnode \<Rightarrow> 'n fnode" where
  "serve_fw env FwList s = snd (handleListFirewallRules s)"
| "serve_fw env (FwCreate r body) s = snd (handleCreateFirewallRule env r body s)"
| "serve_fw env (FwDelete r i) s = snd (handleDeleteFirewallRule env r i s)"

definition serve_fws :: "('n fw_env \<times> fw_request) list \<Rightarrow> 'n fnode \<Rightarrow> 'n fnode" where
  "serve_fws calls s = fold (\<lambda>(env, q). serve_fw env q) calls s"

text \<open>The rules that can be applied, and the state of \<open>nft\<close> they share.\<close>

definition fw_ok :: "(firewall_rule \<Rightarrow> bool) \<Rightarrow> 'n nft \<Rightarrow> 'n \<Rightarrow> 'n fnode \<Rightarrow> bool" where
  "fw_ok Q nft n0 s \<longleftrightarrow> list_all Q (firewall_rules (fn_db s)) \<and> nft_runs nft n0 (fn_nft s)"

definition handle_free :: "(firewall_rule \<Rightarrow> bool) \<Rightarrow> bool" where
  "handle_free Q \<longleftrightarrow> (\<forall>w h t. Q (w\<lparr>fw_nft_handle := h, fw_updated_at := t\<rparr>) = Q w)"

lemma fw_ok_db:
  assumes ok: "fw_ok Q nft n0 s"
    and step: "\<And>r d'. m (fn_db s) = (r, d') \<Longrightarrow> list_all Q (firewall_rules d') \<and>
      (\<forall>s'. fw_ok Q nft n0 s' \<longrightarrow> fw_ok Q nft n0 (snd (k r s')))"
  shows "fw_ok Q nft n0 (snd (on_fw_db m k s))"
proof -
  obtain r d' where run: "m (fn_db s) = (r, d')" by fastforce
  then show ?thesis using step [OF run] ok by (simp add: on_fw_db_def fw_ok_def)
qed

lemma fw_ok_nft:
  assumes ok: "fw_ok Q nft n0 s" and m: "confined nft m"
    and step: "\<And>r s'. fw_ok Q nft n0 s' \<Longrightarrow> fw_ok Q nft n0 (snd (k r s'))"
  shows "fw_ok Q nft n0 (snd (on_nft m k s))"
proof -
  obtain r n' where run: "m (fn_nft s) = (r, n')" by fastforce
  then have "fw_ok Q nft n0 (s\<lparr>fn_nft := n'\<rparr>)" using ok confinedD [OF m run] by (simp add: fw_ok_def)
  then show ?thesis using run step by (simp add: on_nft_def)
qed

lemma fw_ok_emit [simp]: "fw_ok Q nft n0 (fw_emit env ty i s) = fw_ok Q nft n0 s"
  "fw_ok Q nft n0 (fw_audit r a i m s) = fw_ok Q nft n0 s"
  by (simp_all add: fw_ok_def)

lemma fw_ok_delete_row: "fw_ok Q nft n0 s \<Longrightarrow> DeleteFirewallRule i (fn_db s) = (r, d') \<Longrightarrow> list_all Q (firewall_rules d')"
  using DeleteFirewallRule_rows(1) [of i "fn_db s" r d'] by (auto simp: fw_ok_def list_all_iff)

lemma fw_ok_handle: "handle_free Q \<Longrightarrow> fw_ok Q nft n0 s \<Longrightarrow> UpdateFirewallRuleHandle now i h (fn_db s) = (r, d') \<Longrightarrow>
    list_all Q (firewall_rules d')"
  using UpdateFirewallRuleHandle_rows [of now i h "fn_db s" r d']
  by (auto simp: fw_ok_def list_all_iff set_tupdate handle_free_def)

lemma fw_ok_list: "fw_ok Q nft n0 s \<Longrightarrow> fw_ok Q nft n0 (snd (handleListFirewallRules s))"
  unfolding handleListFirewallRules_def
  by (rule fw_ok_db) (auto dest: same_rulesD [OF rules_untouched(3)] simp: fw_ok_def split: sum.split)

lemma fw_ok_deleted: "fw_ok Q nft n0 s \<Longrightarrow> fw_ok Q nft n0 (snd (firewall_deleted env r i s))"
  unfolding firewall_deleted_def by (rule fw_ok_db) (auto dest: fw_ok_delete_row split: sum.split)

lemma fw_ok_remove:
  assumes "fx_nft env = nft" "fw_ok Q nft n0 s"
  shows "fw_ok Q nft n0 (snd (on_nft (removeFirewallRule (fx_nft env) row) (\<lambda>res s. case res of
          Inl m \<Rightarrow> (writeError 500 ''internal'' ''could not remove firewall rule'', s)
        | Inr _ \<Rightarrow> firewall_deleted env r i s) s))"
  using assms by (intro fw_ok_nft) (auto intro: remove_confined fw_ok_deleted split: sum.split)

lemma fw_ok_delete:
  assumes "fx_nft env = nft" "fw_ok Q nft n0 s"
  shows "fw_ok Q nft n0 (snd (handleDeleteFirewallRule env r i s))"
proof (cases "i = ''''")
  case False
  have "fw_ok Q nft n0 (snd (on_fw_db (GetFirewallRule i) (\<lambda>res s. case res of
        Inl e \<Rightarrow> if e = ErrNotFound then (writeError 404 ''not_found'' ''firewall rule not found'', s) else (internalError, s)
      | Inr row \<Rightarrow>
        if \<not> fw_enabled row then firewall_deleted env r i s
        else on_nft (removeFirewallRule (fx_nft env) row) (\<lambda>res s. case res of
          Inl m \<Rightarrow> (writeError 500 ''internal'' ''could not remove firewall rule'', s)
        | Inr _ \<Rightarrow> firewall_deleted env r i s) s) s))"
    using assms
    by (intro fw_ok_db conjI allI impI)
       (auto dest: same_rulesD [OF rules_untouched(4)] intro: fw_ok_remove fw_ok_deleted simp: fw_ok_def [of Q nft n0 s] split: sum.split)
  then show ?thesis using False by (simp add: handleDeleteFirewallRule_def)
qed (use assms in \<open>simp add: handleDeleteFirewallRule_def\<close>)


lemma fw_ok_created: "fw_ok Q nft n0 (snd (firewall_created env r row s)) = fw_ok Q nft n0 s"
  by (simp add: firewall_created_def)

lemma fw_ok_applied:
  assumes nft: "fx_nft env = nft" and free: "handle_free Q" and ok: "fw_ok Q nft n0 s"
  shows "fw_ok Q nft n0 (snd (firewall_applied env r row s))"
  unfolding firewall_applied_def
proof (rule fw_ok_nft [OF ok], goal_cases)
  case 1
  show ?case using apply_confined nft by simp
next
  case (2 res s1)
  show ?case
  proof (cases res)
    case (Inl m)
    then show ?thesis using 2 by (auto intro!: fw_ok_db dest: fw_ok_delete_row)
  next
    case (Inr u)
    have "fw_ok Q nft n0 (snd (on_nft (lookupFirewallHandle (fx_nft env) row) (\<lambda>res s. case res of
       Inl m \<Rightarrow> firewall_created env r row s
     | Inr h \<Rightarrow> on_fw_db (UpdateFirewallRuleHandle (fx_now env) (fw_id row) h)
         (\<lambda>_ s. firewall_created env r (row\<lparr>fw_nft_handle := Some h\<rparr>) s) s) s1))"
      using 2 nft lookup_confined
      by (intro fw_ok_nft)
         (auto simp: fw_ok_created intro!: fw_ok_db dest: fw_ok_handle [OF free] split: sum.split)
    then show ?thesis using Inr by simp
  qed
qed

text \<open>A creation request that is not refused at once.\<close>

definition rule_accepted :: "request \<Rightarrow> create_firewall_request option \<Rightarrow> user \<Rightarrow> create_firewall_request \<Rightarrow> bool" where
  "rule_accepted r body u req \<longleftrightarrow> body = Some req \<and> rq_user r = Some u \<and> validateFirewallRule req = Inr ()"

definition rule_input :: "create_firewall_request \<Rightarrow> firewall_input" where
  "rule_input req = \<lparr>fi_direction = cq_direction req, fi_action = cq_action req, fi_protocol = cq_protocol req,
     fi_source_cidr = cq_source_cidr req, fi_destination_cidr = cq_destination_cidr req,
     fi_destination_port = cq_destination_port req, fi_enabled = (cq_enabled req \<noteq> Some False), fi_comment = cq_comment req\<rparr>"

lemma rule_refused:
  assumes "\<nexists>u req. rule_accepted r body u req"
  shows "snd (handleCreateFirewallRule env r body s) = s \<and> rs_status (fst (handleCreateFirewallRule env r body s)) \<in> {400, 401}"
  using assms by (auto simp: handleCreateFirewallRule_def rule_accepted_def Let_def split: option.splits sum.splits)

lemma rule_accepted_run:
  assumes "rule_accepted r body u req"
  shows "handleCreateFirewallRule env r body s =
    on_fw_db (CreateFirewallRule (fx_now env) (fx_uuid env) (u_id u) (Some (rule_input req))) (\<lambda>res s. case res of
       Inl e \<Rightarrow> (internalError, s)
     | Inr row \<Rightarrow> if \<not> fw_enabled row then firewall_created env r row s else firewall_applied env r row s) s"
proof -
  have "(case cq_enabled req of None \<Rightarrow> True | Some b \<Rightarrow> b) = (cq_enabled req \<noteq> Some False)" by (simp split: option.split)
  then show ?thesis using assms
    by (simp add: rule_accepted_def handleCreateFirewallRule_def Let_def rule_input_def)
qed

lemma created_row:
  assumes "CreateFirewallRule now uuid uid (Some (rule_input req)) d = (Inr w, d')"
  shows "requested_rule req w" "uuid = Some (fw_id w)" "fw_user_id w = uid"
    "tget fw_id (fw_id w) (firewall_rules d) = None" "fw_nft_handle w = None"
    "firewall_rules d' = firewall_rules d @ [w\<lparr>fw_created_at := to_unix now, fw_updated_at := to_unix now\<rparr>]"
  using CreateFirewallRule_rows [OF assms] by (simp_all add: requested_rule_def rule_input_def)

definition can_apply :: "firewall_rule \<Rightarrow> bool" where
  "can_apply w \<longleftrightarrow> nft_command (nftArgsForRule w)"

lemma can_apply_more [simp]:
  "can_apply (w\<lparr>fw_nft_handle := h\<rparr>) = can_apply w" "can_apply (w\<lparr>fw_updated_at := t\<rparr>) = can_apply w"
  "can_apply (w\<lparr>fw_created_at := t\<rparr>) = can_apply w"
  by (simp_all add: can_apply_def nftArgsForRule_def split: option.split)

lemma handle_free_can_apply: "handle_free can_apply"
  by (simp add: handle_free_def)

lemma fw_ok_create:
  assumes nft: "fx_nft env = nft" and uuid: "\<And>i. fx_uuid env = Some i \<Longrightarrow> canonical_uuid i" and ok: "fw_ok can_apply nft n0 s"
  shows "fw_ok can_apply nft n0 (snd (handleCreateFirewallRule env r body s))"
proof (cases "\<exists>u req. rule_accepted r body u req")
  case False
  from rule_refused [OF this, of env s] ok show ?thesis by simp
next
  case True
  then obtain u req where acc: "rule_accepted r body u req" by blast
  show ?thesis unfolding rule_accepted_run [OF acc]
  proof (rule fw_ok_db [OF ok], goal_cases)
    case (1 res d')
    show ?case
    proof (cases res)
      case (Inl e)
      then show ?thesis using CreateFirewallRule_rows [OF 1] ok by (simp add: fw_ok_def)
    next
      case (Inr w)
      note row = created_row [OF 1 [unfolded Inr]]
      have "can_apply w" unfolding can_apply_def
        using acc row(1) uuid [OF row(2)] by (auto simp: rule_accepted_def intro: requested_rule_command)
      then show ?thesis using Inr row(6) ok fw_ok_applied [OF nft handle_free_can_apply]
        by (auto simp: fw_ok_created fw_ok_def [of _ _ _ s])
    qed
  qed
qed

definition calls_use :: "'n nft \<Rightarrow> ('n fw_env \<times> fw_request) list \<Rightarrow> bool" where
  "calls_use nft calls \<longleftrightarrow> (\<forall>(env, q) \<in> set calls. fx_nft env = nft \<and> (\<forall>i. fx_uuid env = Some i \<longrightarrow> canonical_uuid i))"

interpretation fw_apply: service serve_fw
  "\<lambda>_ env. fx_nft env = nft \<and> (\<forall>i. fx_uuid env = Some i \<longrightarrow> canonical_uuid i)" "fw_ok can_apply nft n0" for nft n0
proof
  fix q and env :: "'a fw_env" and s
  assume "fx_nft env = nft \<and> (\<forall>i. fx_uuid env = Some i \<longrightarrow> canonical_uuid i)" "fw_ok can_apply nft n0 s"
  then show "fw_ok can_apply nft n0 (serve_fw env q s)"
    by (cases q) (simp_all add: fw_ok_list fw_ok_create fw_ok_delete)
qed

lemma serve_fws_ok:
  assumes "calls_use nft calls" "fw_ok can_apply nft n0 s"
  shows "fw_ok can_apply nft n0 (serve_fws calls s)"
  using assms fw_apply.served_valid [of calls nft n0 s] by (auto simp: serve_fws_def calls_use_def)

lemma fw_ok_create_any:
  assumes nft: "fx_nft env = nft" and ok: "fw_ok (\<lambda>_. True) nft n0 s"
  shows "fw_ok (\<lambda>_. True) nft n0 (snd (handleCreateFirewallRule env r body s))"
proof (cases "\<exists>u req. rule_accepted r body u req")
  case False
  from rule_refused [OF this, of env s] ok show ?thesis by simp
next
  case True
  then obtain u req where acc: "rule_accepted r body u req" by blast
  have free: "handle_free (\<lambda>_. True)" by (simp add: handle_free_def)
  show ?thesis unfolding rule_accepted_run [OF acc] using nft ok
    by (intro fw_ok_db conjI allI impI) (auto simp: list_all_iff fw_ok_created intro: fw_ok_applied [OF _ free] split: sum.split)
qed

interpretation fw_any: service serve_fw "\<lambda>_ env. fx_nft env = nft" "fw_ok (\<lambda>_. True) nft n0" for nft n0
proof
  fix q and env :: "'a fw_env" and s
  assume "fx_nft env = nft" "fw_ok (\<lambda>_. True) nft n0 s"
  then show "fw_ok (\<lambda>_. True) nft n0 (serve_fw env q s)"
    by (cases q) (simp_all add: fw_ok_list fw_ok_create_any fw_ok_delete)
qed

section \<open>Creating a rule\<close>

lemma runNFT_Inr:
  assumes "runNFT nft args n = (Inr u, n')" "args ! 0 \<noteq> ''delete''"
  shows "\<exists>out. nft args n = ((True, out), n')"
  using assms by (auto simp: runNFT_def runFirewallHelper_def helper_Handle_def split: option.splits sum.splits prod.splits if_splits)

lemma list_command: "validChain c \<Longrightarrow> ValidateNFTArgs [''-a'', ''list'', ''chain'', ''inet'', ''helling'', c] = Some (Inr ())"
  "validChain c \<Longrightarrow> ValidateNFTArgs [''list'', ''chain'', ''inet'', ''helling'', c] = Some (Inr ())"
  using list_chain_handles [of c] list_chain [of c] by (simp_all add: accepted_commands nft_target_def)

lemma lookup_nft:
  assumes "validChain (fw_direction w)"
  shows "snd (lookupFirewallHandle nft w n) = snd (nft [''-a'', ''list'', ''chain'', ''inet'', ''helling'', fw_direction w] n)"
  using list_command [OF assms] assms
  by (auto simp: validChain_def lookupFirewallHandle_def runFirewallHelperOutput_def helper_Handle_def split: prod.split)

text \<open>What \<open>nft\<close> did for a rule: it took the rule, and listed its chain.\<close>

definition applied :: "'n nft \<Rightarrow> firewall_rule \<Rightarrow> 'n \<Rightarrow> 'n \<Rightarrow> bool" where
  "applied nft w n n' \<longleftrightarrow> (\<exists>n1 n2 out. nft_runs nft n n1 \<and> nft (nftArgsForRule w) n1 = ((True, out), n2) \<and>
     n' = snd (nft [''-a'', ''list'', ''chain'', ''inet'', ''helling'', fw_direction w] n2))"

lemma applied_more: "applied nft (w\<lparr>fw_nft_handle := h\<rparr>) = applied nft w" "applied nft (w\<lparr>fw_updated_at := t\<rparr>) = applied nft w"
  "applied nft (w\<lparr>fw_created_at := t\<rparr>) = applied nft w"
  by (auto simp: applied_def nftArgsForRule_def fun_eq_iff split: option.split)

lemma requested_more [simp]:
  "requested_rule req (w\<lparr>fw_nft_handle := h\<rparr>) = requested_rule req w" "requested_rule req (w\<lparr>fw_updated_at := t\<rparr>) = requested_rule req w"
  "requested_rule req (w\<lparr>fw_created_at := t\<rparr>) = requested_rule req w"
  by (simp_all add: requested_rule_def)

lemma applied_ok:
  assumes "applyFirewallRule nft w n = (Inr u, n2)" "validChain (fw_direction w)"
  shows "applied nft w n (snd (lookupFirewallHandle nft w n2))"
proof -
  from assms(1) obtain n1 where base: "ensureHellingNFTBase nft n = (Inr (), n1)" and add: "runNFT nft (nftArgsForRule w) n1 = (Inr u, n2)"
    by (auto simp: applyFirewallRule_def split: prod.splits sum.splits)
  have "nftArgsForRule w ! 0 \<noteq> ''delete''" by (simp add: nftArgsForRule_def)
  from runNFT_Inr [OF add this] obtain out where "nft (nftArgsForRule w) n1 = ((True, out), n2)" by blast
  moreover have "nft_runs nft n n1" using confinedD [OF ensure_base_confined base nft_runs.start] .
  ultimately show ?thesis by (auto simp: applied_def lookup_nft [OF assms(2)])
qed

lemma rule_last: "tget fw_id i ws = None \<Longrightarrow> fw_id w = i \<Longrightarrow> tupdate (\<lambda>r. fw_id r = i) f (ws @ [w]) = ws @ [f w]"
  "tget fw_id i ws = None \<Longrightarrow> fw_id w = i \<Longrightarrow> tdelete (\<lambda>r. fw_id r = i) (ws @ [w]) = ws"
  by (auto simp: tupdate_def tdelete_def tget_None intro!: map_idI filter_True)

lemma applied_outcome:
  assumes row: "validChain (fw_direction row)" "tget fw_id (fw_id row) ws = None"
    and s: "firewall_rules (fn_db s) = ws @ [w]" "fw_id w = fw_id row"
    and run: "firewall_applied env r row s = (resp, s')"
  shows "rs_status resp = 502 \<and> (firewall_rules (fn_db s') = ws \<or> firewall_rules (fn_db s') = ws @ [w]) \<or>
    rs_status resp = 201 \<and> applied (fx_nft env) row (fn_nft s) (fn_nft s') \<and>
      (\<exists>h t. firewall_rules (fn_db s') = ws @ [w\<lparr>fw_nft_handle := h, fw_updated_at := t\<rparr>])"
proof -
  obtain res n2 where app: "applyFirewallRule (fx_nft env) row (fn_nft s) = (res, n2)" by fastforce
  show ?thesis
  proof (cases res)
    case (Inl m)
    obtain r2 d2 where del: "DeleteFirewallRule (fw_id row) (fn_db s) = (r2, d2)" by fastforce
    have "firewall_rules d2 = ws @ [w] \<or> firewall_rules d2 = ws"
      using DeleteFirewallRule_rows(1) [OF del] s rule_last(2) [OF row(2) s(2)] by simp
    then show ?thesis using run app Inl del by (auto simp: firewall_applied_def on_nft_def on_fw_db_def)
  next
    case (Inr u)
    obtain res3 n3 where look: "lookupFirewallHandle (fx_nft env) row n2 = (res3, n3)" by fastforce
    then have done1: "applied (fx_nft env) row (fn_nft s) n3" using applied_ok [OF app [unfolded Inr] row(1)] by simp
    show ?thesis
    proof (cases res3)
      case (Inl m)
      have "rs_status resp = 201 \<and> fn_nft s' = n3 \<and> firewall_rules (fn_db s') = firewall_rules (fn_db s)"
        using run app \<open>res = Inr u\<close> look Inl by (auto simp: firewall_applied_def on_nft_def firewall_created_def)
      then show ?thesis using done1 s(1)
        by (intro disjI2 conjI exI [of _ "fw_nft_handle w"] exI [of _ "fw_updated_at w"]) simp_all
    next
      case (Inr h)
      obtain r4 d4 where upd: "UpdateFirewallRuleHandle (fx_now env) (fw_id row) h (fn_db s) = (r4, d4)" by fastforce
      have "\<exists>h t. firewall_rules d4 = ws @ [w\<lparr>fw_nft_handle := h, fw_updated_at := t\<rparr>]"
      proof (cases "isl r4")
        case True
        then show ?thesis using UpdateFirewallRuleHandle_rows [OF upd] s(1)
          by (intro exI [of _ "fw_nft_handle w"] exI [of _ "fw_updated_at w"]) simp
      next
        case False
        then show ?thesis using UpdateFirewallRuleHandle_rows [OF upd] s(1) rule_last(1) [OF row(2) s(2)] by auto
      qed
      moreover have "rs_status resp = 201 \<and> fn_nft s' = n3 \<and> firewall_rules (fn_db s') = firewall_rules d4"
        using run app \<open>res = Inr u\<close> look Inr upd
        by (auto simp: firewall_applied_def on_nft_def on_fw_db_def firewall_created_def)
      ultimately show ?thesis using done1 by simp
    qed
  qed
qed


text \<open>
  A request to create a firewall rule is refused with 400 or 401 and changes nothing, or answers 500 and
  adds no row, or answers 502 and adds at most the row asked for (when the row cannot be taken out again), or
  answers 201 and has added exactly that row, owned by the caller; \<open>nft\<close> then took exactly the arguments of
  an enabled rule and listed its chain, and was not called at all for a disabled one.
\<close>

theorem create_firewall_sound:
  assumes run: "handleCreateFirewallRule env r body s = (resp, s')"
  shows "rs_status resp \<in> {400, 401} \<and> s' = s \<or>
    rs_status resp = 500 \<and> firewall_rules (fn_db s') = firewall_rules (fn_db s) \<and> fn_nft s' = fn_nft s \<or>
    (\<exists>req u w. rule_accepted r body u req \<and> requested_rule req w \<and> fw_user_id w = u_id u \<and> fx_uuid env = Some (fw_id w) \<and>
      (rs_status resp = 502 \<and> fw_enabled w \<and> firewall_rules (fn_db s') \<in> {firewall_rules (fn_db s), firewall_rules (fn_db s) @ [w]} \<or>
       rs_status resp = 201 \<and> firewall_rules (fn_db s') = firewall_rules (fn_db s) @ [w] \<and>
         (if fw_enabled w then applied (fx_nft env) w (fn_nft s) (fn_nft s') else fn_nft s' = fn_nft s)))"
proof (cases "\<exists>u req. rule_accepted r body u req")
  case False
  from rule_refused [OF this, of env s] run show ?thesis by auto
next
  case True
  then obtain u req where acc: "rule_accepted r body u req" by blast
  let ?ws = "firewall_rules (fn_db s)"
  obtain res d1 where create: "CreateFirewallRule (fx_now env) (fx_uuid env) (u_id u) (Some (rule_input req)) (fn_db s) = (res, d1)"
    by fastforce
  show ?thesis
  proof (cases res)
    case (Inl e)
    then show ?thesis using CreateFirewallRule_rows [OF create] run create by (auto simp: rule_accepted_run [OF acc] on_fw_db_def)
  next
    case (Inr row)
    note new = created_row [OF create [unfolded Inr]]
    let ?w = "row\<lparr>fw_created_at := to_unix (fx_now env), fw_updated_at := to_unix (fx_now env)\<rparr>"
    let ?s1 = "s\<lparr>fn_node := set_db d1 (fn_node s)\<rparr>"
    have s1: "firewall_rules (fn_db ?s1) = ?ws @ [?w]" using new(6) by simp
    have chain: "validChain (fw_direction row)"
      using acc new(1) by (auto simp: rule_accepted_def requested_rule_def validateFirewallRule_Inr)
    have step: "(if \<not> fw_enabled row then firewall_created env r row ?s1 else firewall_applied env r row ?s1) = (resp, s')"
      using run create Inr by (simp add: rule_accepted_run [OF acc] on_fw_db_def)
    show ?thesis
    proof (cases "fw_enabled row")
      case False
      then show ?thesis using step s1 acc new(1-3)
        by (intro disjI2 exI [of _ req] exI [of _ u] exI [of _ ?w]) (auto simp: firewall_created_def)
    next
      case True
      then have "firewall_applied env r row ?s1 = (resp, s')" using step by simp
      from applied_outcome [OF chain new(4) s1 _ this] consider
          "rs_status resp = 502" "firewall_rules (fn_db s') \<in> {?ws, ?ws @ [?w]}"
        | h t where "rs_status resp = 201" "applied (fx_nft env) row (fn_nft s) (fn_nft s')"
          "firewall_rules (fn_db s') = ?ws @ [?w\<lparr>fw_nft_handle := h, fw_updated_at := t\<rparr>]" by auto
      then show ?thesis
      proof cases
        case 1
        then show ?thesis using acc new(1-3) True by (intro disjI2 exI [of _ req] exI [of _ u] exI [of _ ?w]) simp
      next
        case 2
        then show ?thesis using acc new(1-3) True
          by (intro disjI2 exI [of _ req] exI [of _ u] exI [of _ "?w\<lparr>fw_nft_handle := h, fw_updated_at := t\<rparr>"])
             (simp add: applied_more)
      qed
    qed
  qed
qed

section \<open>Any sequence of requests, stated\<close>

text \<open>
  C9: Whatever requests the firewall endpoints serve, \<open>nft\<close> runs only commands of the helper's grammar: its
  state is reached from the first one by commands on Helling's own table.
\<close>

theorem firewall_confined:
  assumes "\<And>env q. (env, q) \<in> set calls \<Longrightarrow> fx_nft env = nft"
  shows "nft_runs nft (fn_nft s) (fn_nft (serve_fws calls s))"
proof -
  have "fw_ok (\<lambda>_. True) nft (fn_nft s) s" by (simp add: fw_ok_def list_all_iff nft_runs.start)
  from fw_any.served_valid [of calls nft, OF assms this] show ?thesis by (simp add: fw_ok_def serve_fws_def)
qed

text \<open>
  C23: Every rule in the database can be applied: whatever requests are served, its direction, selectors, port,
  comment and verdict form an \<open>add rule\<close> command the privileged helper accepts.
\<close>

theorem firewall_rows_accepted:
  assumes "calls_use nft calls" "list_all can_apply (firewall_rules (fn_db s))"
  shows "list_all (\<lambda>w. ValidateNFTArgs (nftArgsForRule w) = Some (Inr ())) (firewall_rules (fn_db (serve_fws calls s)))"
proof -
  have "fw_ok can_apply nft (fn_nft s) s" using assms(2) by (simp add: fw_ok_def nft_runs.start)
  from serve_fws_ok [OF assms(1) this] show ?thesis
    by (simp add: fw_ok_def list_all_iff can_apply_def accepted_commands)
qed


section \<open>Examples\<close>

text \<open>An \<open>nft\<close> that keeps the commands it was given and lists nothing.\<close>

definition demo_nft :: "string list list nft" where
  "demo_nft args cmds = ((True, ''''), cmds @ [args])"

definition demo_rule_id :: string where "demo_rule_id = ''0190163d-8694-739b-aea5-966c26f8ad91''"

definition demo_fw_env :: "string list list fw_env" where
  "demo_fw_env = \<lparr>fx_now = 5 * second, fx_uuid = Some demo_rule_id, fx_event_uuid = Some ''e'', fx_nft = demo_nft\<rparr>"

definition demo_fw_user :: user where
  "demo_fw_user = \<lparr>u_id = 1, u_username = ''admin'', u_password_hash = ''h'', u_is_admin = True, u_incus_project = '''', u_created_at = 0\<rparr>"

definition demo_fnode :: "string list list fnode" where
  "demo_fnode = \<lparr>fn_node = \<lparr>nd_server = \<lparr>sv_db = empty_db\<lparr>users := [demo_fw_user], user_seq := 1\<rparr>,
     sv_user_limiter = NewRateLimiter 5 (15 * minute), sv_ip_limiter = NewRateLimiter 20 (15 * minute), sv_mfa = Map.empty,
     sv_audit = [], sv_setup_token = None, sv_schedule_token = None\<rparr>, nd_hub = [], nd_wake = False\<rparr>, fn_nft = []\<rparr>"

definition demo_fw_http :: request where
  "demo_fw_http = \<lparr>rq_method = ''POST'', rq_path = ''/api/v1/firewall'', rq_uri = ''/api/v1/firewall'',
     rq_source_ip = ''192.0.2.1'', rq_cookie = None, rq_authorization = '''', rq_schedule_token = '''',
     rq_user = Some demo_fw_user, rq_scopes = None, rq_jwt_id = None, rq_runner = False\<rparr>"

definition demo_fw_create :: create_firewall_request where
  "demo_fw_create = \<lparr>cq_direction = ''input'', cq_action = ''drop'', cq_protocol = ''tcp'', cq_source_cidr = Some ''10.0.0.0/8'',
     cq_destination_cidr = None, cq_destination_port = Some 22, cq_enabled = None, cq_comment = None\<rparr>"

lemma demo_no_rules: "firewall_rules (fn_db demo_fnode) = []" "fn_nft demo_fnode = []"
  by (simp_all add: demo_fnode_def fn_db_def nd_db_def empty_db_def)

theorem create_firewall_sound_witness:
  "case handleCreateFirewallRule demo_fw_env demo_fw_http (Some demo_fw_create) demo_fnode of (resp, s') \<Rightarrow>
     \<exists>w. firewall_rules (fn_db s') = [w] \<and> fw_source_cidr w = Some ''10.0.0.0/8'' \<and> applied demo_nft w [] (fn_nft s')"
proof -
  obtain resp s' where run: "handleCreateFirewallRule demo_fw_env demo_fw_http (Some demo_fw_create) demo_fnode = (resp, s')"
    by fastforce
  have "rs_status (fst (handleCreateFirewallRule demo_fw_env demo_fw_http (Some demo_fw_create) demo_fnode)) = 201" by code_simp
  then have "rs_status resp = 201" by (simp add: run)
  with create_firewall_sound [OF run] show ?thesis unfolding run
    by (auto simp: demo_no_rules rule_accepted_def requested_rule_def demo_fw_create_def demo_fw_env_def)
qed

definition demo_fw_calls :: "(string list list fw_env \<times> fw_request) list" where
  "demo_fw_calls = [(demo_fw_env, FwCreate demo_fw_http (Some demo_fw_create)), (demo_fw_env, FwList),
     (demo_fw_env, FwDelete demo_fw_http demo_rule_id)]"

theorem firewall_confined_witness: "nft_runs demo_nft [] (fn_nft (serve_fws demo_fw_calls demo_fnode))"
proof -
  have "fx_nft env = demo_nft" if "(env, q) \<in> set demo_fw_calls" for env q
    using that by (auto simp: demo_fw_calls_def demo_fw_env_def)
  from firewall_confined [of demo_fw_calls demo_nft demo_fnode, OF this] show ?thesis by (simp add: demo_no_rules)
qed

theorem firewall_rows_accepted_witness:
  "list_all (\<lambda>w. ValidateNFTArgs (nftArgsForRule w) = Some (Inr ())) (firewall_rules (fn_db (serve_fws (take 2 demo_fw_calls) demo_fnode)))"
proof (rule firewall_rows_accepted)
  have "canonical_uuid demo_rule_id" by code_simp
  then show "calls_use demo_nft (take 2 demo_fw_calls)" by (simp add: calls_use_def demo_fw_calls_def demo_fw_env_def)
qed (simp add: demo_no_rules)

end
