(* ===== verification/Trust_Helper.thy ===== *)
theory Trust_Helper
  imports Incus_Trust Systemd_Units
begin

text \<open>
  The privileged Incus trust helper (\<open>incus/trust_helper.go\<close>) and the files the service stages for it
  (\<open>writeTrustRequest\<close> of \<open>incus/user_trust.go\<close>).  The daemon writes a request file; the helper runs one \<open>incus
  config trust\<close> command for it when the request, its name, the arguments, a policy file of root and the staged
  certificate agree, and removes the request.

  The state is the file tree with the metadata the helper looks at, the \<open>incus\<close> commands started so far, and a
  list of system calls that will fail.  JSON, PEM and SHA-256 are parameters.
\<close>

section \<open>Files\<close>

record trust_file =
  tf_symlink :: "string option"
  tf_perm :: nat
  tf_uid :: nat
  tf_body :: "string option"       \<comment> \<open>\<open>None\<close> for a directory\<close>

record trust_host =
  th_files :: "string \<Rightarrow> trust_file option"
  th_cli :: "string list list"
  th_faults :: "bool list"

datatype trust_error = NotExist | TrustError string

type_synonym 'a tio = "trust_host \<Rightarrow> (trust_error + 'a) \<times> trust_host"

definition t_ret :: "'a \<Rightarrow> 'a tio" where "t_ret x h = (Inr x, h)"

definition t_fail :: "string \<Rightarrow> 'a tio" where "t_fail m h = (Inl (TrustError m), h)"

definition t_bind :: "'a tio \<Rightarrow> ('a \<Rightarrow> 'b tio) \<Rightarrow> 'b tio" where
  "t_bind m k h = (case m h of (Inl e, h) \<Rightarrow> (Inl e, h) | (Inr x, h) \<Rightarrow> k x h)"

text \<open>A system call fails when the next element of \<open>th_faults\<close> says so.\<close>

definition t_call :: "string \<Rightarrow> 'a tio \<Rightarrow> 'a tio" where
  "t_call m f h = (case th_faults h of
     [] \<Rightarrow> f h
   | b # bs \<Rightarrow> if b then (Inl (TrustError m), h\<lparr>th_faults := bs\<rparr>) else f (h\<lparr>th_faults := bs\<rparr>))"

definition t_check :: "bool \<Rightarrow> string \<Rightarrow> unit tio" where
  "t_check b m = (if b then t_ret () else t_fail m)"

fun follow :: "nat \<Rightarrow> (string \<Rightarrow> trust_file option) \<Rightarrow> string \<Rightarrow> string option" where
  "follow 0 fs p = None"
| "follow (Suc k) fs p = (case fs p of None \<Rightarrow> None
   | Some f \<Rightarrow> (case tf_symlink f of None \<Rightarrow> tf_body f | Some t \<Rightarrow> follow k fs t))"

definition t_read :: "string \<Rightarrow> string \<Rightarrow> string tio" where
  "t_read m p = t_call m (\<lambda>h. case follow 41 (th_files h) p of
     None \<Rightarrow> (Inl (TrustError m), h) | Some body \<Rightarrow> (Inr body, h))"

definition t_remove :: "string \<Rightarrow> string \<Rightarrow> unit tio" where
  "t_remove m p = t_call m (\<lambda>h. if th_files h p = None then (Inl (TrustError m), h)
     else (Inr (), h\<lparr>th_files := (th_files h)(p := None)\<rparr>))"

text \<open>Running \<open>/usr/bin/incus\<close>: the command is started, and may fail.\<close>

definition run_incus :: "string list \<Rightarrow> unit tio" where
  "run_incus args h = (let h = h\<lparr>th_cli := th_cli h @ [args]\<rparr> in t_call ''incus'' (t_ret ()) h)"

section \<open>Names\<close>

definition hex_text :: "string \<Rightarrow> bool" where
  "hex_text s \<longleftrightarrow> list_all (\<lambda>c. in_range 48 57 c \<or> in_range 97 102 c) s"

text \<open>\<open>^helling-user-(\d+)-([0-9a-f]{64})\.crt$\<close>: the digits and the fingerprint.\<close>

definition trustCertNamePattern :: "string \<Rightarrow> (string \<times> string) option" where
  "trustCertNamePattern s = (case cut_prefix s ''helling-user-'' of None \<Rightarrow> None
   | Some t \<Rightarrow> let ds = takeWhile is_digit t; rest = dropWhile is_digit t in
       if ds \<noteq> '''' \<and> length rest = 69 \<and> hd rest = CHR ''-'' \<and> hex_text (take 64 (tl rest)) \<and> drop 65 rest = ''.crt''
       then Some (ds, take 64 (tl rest)) else None)"

text \<open>\<open>^helling-trust-(register|revoke)-(\d+)-([0-9a-f]{64})-[0-9a-f]{16}\.json$\<close>\<close>

definition request_tail :: "string \<Rightarrow> (string \<times> string) option" where
  "request_tail t = (let ds = takeWhile is_digit t; rest = dropWhile is_digit t in
     if ds \<noteq> '''' \<and> length rest = 87 \<and> hd rest = CHR ''-'' \<and> hex_text (take 64 (tl rest)) \<and> rest ! 65 = CHR ''-''
       \<and> hex_text (take 16 (drop 66 rest)) \<and> drop 82 rest = ''.json''
     then Some (ds, take 64 (tl rest)) else None)"

definition trustRequestNamePattern :: "string \<Rightarrow> (string \<times> string \<times> string) option" where
  "trustRequestNamePattern s = (case cut_prefix s ''helling-trust-register-'' of
     Some t \<Rightarrow> map_option (\<lambda>(ds, fp). (''register'', ds, fp)) (request_tail t)
   | None \<Rightarrow> (case cut_prefix s ''helling-trust-revoke-'' of
       Some t \<Rightarrow> map_option (\<lambda>(ds, fp). (''revoke'', ds, fp)) (request_tail t)
     | None \<Rightarrow> None))"

section \<open>Requests and policies\<close>

record trust_request_manifest =
  tq_action :: string
  tq_user_id :: int
  tq_fingerprint :: string
  tq_project :: string
  tq_cert_basename :: string

record trust_policy =
  tp_user_id :: int
  tp_project :: string
  tp_projects :: "string list"
  tp_actions :: "string list"

text \<open>Decoding one JSON value without unknown fields and nothing after it; PEM gives type, bytes and rest.\<close>

record trust_codec =
  tc_request :: "string \<Rightarrow> trust_request_manifest option"
  tc_policy :: "string \<Rightarrow> trust_policy option"
  tc_encode :: "trust_request_manifest \<Rightarrow> string"
  tc_pem :: "string \<Rightarrow> (string \<times> string \<times> string) option"
  tc_sha256 :: "string \<Rightarrow> string"

record trust_helper =
  hl_staging :: string
  hl_request :: string
  hl_policy :: string
  hl_owner :: "nat option"
  hl_codec :: trust_codec

definition helper_stagingDir :: "trust_helper \<Rightarrow> string" where
  "helper_stagingDir h = (if hl_staging h \<noteq> '''' then hl_staging h else ''/var/lib/helling/incus-trust'')"

definition helper_requestDir :: "trust_helper \<Rightarrow> string" where
  "helper_requestDir h = (if hl_request h \<noteq> '''' then hl_request h else ''/var/lib/helling/incus-trust/requests'')"

definition policyDir :: "trust_helper \<Rightarrow> string" where
  "policyDir h = (if hl_policy h \<noteq> '''' then hl_policy h else ''/etc/helling/incus-trust.d'')"

definition policyOwnerUID :: "trust_helper \<Rightarrow> nat" where
  "policyOwnerUID h = (case hl_owner h of Some uid \<Rightarrow> uid | None \<Rightarrow> 0)"

unbundle bit_operations_syntax

definition verifyLockedDownPath :: "string \<Rightarrow> nat option \<Rightarrow> unit tio" where
  "verifyLockedDownPath p owner = t_call ''stat'' (\<lambda>h. case th_files h p of
     None \<Rightarrow> (Inl NotExist, h)
   | Some f \<Rightarrow>
       if tf_symlink f \<noteq> None then (Inl (TrustError ''must not be a symlink''), h)
       else if tf_perm f AND 18 \<noteq> 0 then (Inl (TrustError ''must not be group/world writable''), h)
       else if (case owner of None \<Rightarrow> False | Some uid \<Rightarrow> tf_uid f \<noteq> uid) then (Inl (TrustError ''owner uid''), h)
       else (Inr (), h))"

definition readLockedDownJSONFile :: "(string \<Rightarrow> 'a option) \<Rightarrow> string \<Rightarrow> nat option \<Rightarrow> 'a tio" where
  "readLockedDownJSONFile decode p owner =
     t_bind (verifyLockedDownPath p owner) (\<lambda>_.
     t_bind (t_read ''opening'' p) (\<lambda>body.
       if 65536 < length body then t_fail ''is too large''
       else (case decode body of None \<Rightarrow> t_fail ''decoding'' | Some v \<Rightarrow> t_ret v)))"

definition validateTrustPolicyProjects :: "trust_policy \<Rightarrow> bool" where
  "validateTrustPolicyProjects p \<longleftrightarrow> \<not> (tp_project p = '''' \<and> tp_projects p = []) \<and>
     (tp_project p = '''' \<or> ValidTrustProjectName (tp_project p)) \<and> list_all ValidTrustProjectName (tp_projects p)"

definition policyAllowsProject :: "trust_policy \<Rightarrow> string \<Rightarrow> bool" where
  "policyAllowsProject p project \<longleftrightarrow> tp_project p = project \<or> list_ex (\<lambda>q. q = project) (tp_projects p)"

definition policyAllowsAction :: "trust_policy \<Rightarrow> string \<Rightarrow> bool" where
  "policyAllowsAction p action \<longleftrightarrow> list_ex (\<lambda>a. a = action) (tp_actions p)"

definition loadPolicy :: "trust_helper \<Rightarrow> int \<Rightarrow> trust_policy tio" where
  "loadPolicy hl uid = (let owner = Some (policyOwnerUID hl); decode = tc_policy (hl_codec hl);
       name = ''helling-user-'' @ format_int uid @ ''.json'' in
     t_bind (t_check (filepath_base name = name) ''invalid trust policy basename'') (\<lambda>_.
     t_bind (verifyLockedDownPath (policyDir hl) owner) (\<lambda>_.
     t_bind (\<lambda>h. case readLockedDownJSONFile decode (filepath_join (policyDir hl) name) owner h of
        (Inl NotExist, h) \<Rightarrow> readLockedDownJSONFile decode (filepath_join (policyDir hl) ''default.json'') owner h
      | res \<Rightarrow> res) (\<lambda>policy.
     t_bind (t_check (\<not> tp_user_id policy < 0) ''trust policy user id must be non-negative'') (\<lambda>_.
     t_bind (t_check (tp_user_id policy = 0 \<or> tp_user_id policy = uid) ''trust policy user id does not match request'') (\<lambda>_.
     t_bind (t_check (validateTrustPolicyProjects policy) ''invalid trust policy project'') (\<lambda>_.
     t_ret policy)))))))"

definition parseTrustRequestName :: "string \<Rightarrow> int \<Rightarrow> string \<Rightarrow> string \<Rightarrow> int option" where
  "parseTrustRequestName action uid fp name =
     (if filepath_base name \<noteq> name then None
      else case trustRequestNamePattern name of None \<Rightarrow> None
      | Some (a, ds, f) \<Rightarrow>
          if a \<noteq> action then None
          else (case parse_int64 ds of None \<Rightarrow> None
          | Some n \<Rightarrow> if n \<le> 0 then None else if action = ''register'' \<and> n \<noteq> uid then None
              else if f \<noteq> fp then None else Some n))"

definition validateTrustRequestManifest :: "trust_request_manifest \<Rightarrow> string \<Rightarrow> int \<Rightarrow> string \<Rightarrow> string \<Rightarrow> string \<Rightarrow> bool" where
  "validateTrustRequestManifest req action uid fp project cert \<longleftrightarrow>
     tq_action req = action \<and> tq_user_id req = uid \<and> tq_fingerprint req = fp \<and> tq_cert_basename req = cert \<and>
     \<not> (action = ''register'' \<and> tq_project req \<noteq> project)"

definition validateRequest :: "trust_helper \<Rightarrow> string \<Rightarrow> int \<Rightarrow> string \<Rightarrow> string \<Rightarrow> string \<Rightarrow> string \<Rightarrow> string tio" where
  "validateRequest hl action uid fp project cert name = (case parseTrustRequestName action uid fp name of
     None \<Rightarrow> t_fail ''invalid trust request''
   | Some rid \<Rightarrow> let p = filepath_join (helper_requestDir hl) name in
       t_bind (readLockedDownJSONFile (tc_request (hl_codec hl)) p None) (\<lambda>req.
       t_bind (t_check (validateTrustRequestManifest req action rid fp project cert) ''trust request manifest does not match helper command'') (\<lambda>_.
       t_bind (loadPolicy hl rid) (\<lambda>policy.
       t_bind (t_check (tp_user_id policy = 0 \<or> tp_user_id policy = rid) ''trust policy user id does not match request'') (\<lambda>_.
       t_bind (t_check (policyAllowsProject policy (tq_project req)) ''trust policy project does not match request'') (\<lambda>_.
       t_bind (t_check (policyAllowsAction policy action) ''trust policy does not allow action'') (\<lambda>_.
       t_ret p)))))))"

section \<open>The certificate and the commands\<close>

definition blank :: "char \<Rightarrow> bool" where
  "blank c \<longleftrightarrow> c = CHR '' '' \<or> c = CHR 0x0A \<or> c = CHR 0x0D \<or> c = CHR 0x09"

definition bytesTrimSpace :: "string \<Rightarrow> string" where
  "bytesTrimSpace s = rev (dropWhile blank (rev (dropWhile blank s)))"

definition validateStagedTrustCertificate :: "trust_codec \<Rightarrow> string \<Rightarrow> string \<Rightarrow> unit tio" where
  "validateStagedTrustCertificate c p fp = t_bind (t_read ''reading staged trust certificate'' p) (\<lambda>body.
     if 16384 < length body then t_fail ''staged trust certificate is too large''
     else (case tc_pem c body of
       None \<Rightarrow> t_fail ''staged trust certificate is not a PEM certificate''
     | Some (ty, bytes, rest) \<Rightarrow>
         if ty \<noteq> ''CERTIFICATE'' then t_fail ''staged trust certificate is not a PEM certificate''
         else if bytesTrimSpace rest \<noteq> '''' then t_fail ''staged trust certificate contains trailing data''
         else if tc_sha256 c bytes \<noteq> fp then t_fail ''staged trust certificate fingerprint does not match fingerprint argument''
         else t_ret ()))"

definition register_command :: "trust_helper \<Rightarrow> string \<Rightarrow> string \<Rightarrow> string \<Rightarrow> string \<Rightarrow> string list" where
  "register_command hl fp project cert ds =
     [''--force-local'', ''config'', ''trust'', ''add-certificate'', filepath_join (helper_stagingDir hl) cert,
      ''--name'', ''helling-user-'' @ ds @ ''-'' @ take 12 fp, ''--restricted'', ''--projects'', project]"

definition trust_register :: "trust_helper \<Rightarrow> string \<Rightarrow> string \<Rightarrow> string \<Rightarrow> string \<Rightarrow> unit tio" where
  "trust_register hl fp project cert name =
     (if \<not> validateTrustFingerprint fp then t_fail ''invalid Incus trust fingerprint''
      else if \<not> ValidTrustProjectName project then t_fail ''invalid Incus project''
      else case trustCertNamePattern cert of None \<Rightarrow> t_fail ''invalid trust certificate basename''
      | Some (ds, f) \<Rightarrow>
          if filepath_base cert \<noteq> cert then t_fail ''trust certificate must be a basename''
          else if f \<noteq> fp then t_fail ''trust certificate basename fingerprint does not match fingerprint argument''
          else (case parse_int64 ds of None \<Rightarrow> t_fail ''invalid trust certificate user id''
          | Some uid \<Rightarrow> if uid \<le> 0 then t_fail ''invalid trust certificate user id''
              else t_bind (validateRequest hl ''register'' uid fp project cert name) (\<lambda>p.
                t_bind (validateStagedTrustCertificate (hl_codec hl) (filepath_join (helper_stagingDir hl) cert) fp) (\<lambda>_.
                t_bind (t_remove ''consuming Incus trust request'' p) (\<lambda>_.
                run_incus (register_command hl fp project cert ds))))))"

definition trust_revoke :: "trust_helper \<Rightarrow> string \<Rightarrow> string \<Rightarrow> unit tio" where
  "trust_revoke hl fp name =
     (if \<not> validateTrustFingerprint fp then t_fail ''invalid Incus trust fingerprint''
      else t_bind (validateRequest hl ''revoke'' 0 fp '''' '''' name) (\<lambda>p.
        t_bind (t_remove ''consuming Incus trust request'' p) (\<lambda>_.
        run_incus [''--force-local'', ''config'', ''trust'', ''remove'', fp])))"

definition trust_Handle :: "trust_helper \<Rightarrow> string list \<Rightarrow> unit tio" where
  "trust_Handle hl args = (case args of
     [] \<Rightarrow> t_fail ''usage: helling-incus-trust register|revoke ...''
   | a # rest \<Rightarrow>
       if a = ''register'' then (case rest of [fp, project, cert, name] \<Rightarrow> trust_register hl fp project cert name
         | _ \<Rightarrow> t_fail ''usage: helling-incus-trust register <fingerprint> <project> <cert-basename> <request-basename>'')
       else if a = ''revoke'' then (case rest of [fp, name] \<Rightarrow> trust_revoke hl fp name
         | _ \<Rightarrow> t_fail ''usage: helling-incus-trust revoke <fingerprint> <request-basename>'')
       else t_fail ''unsupported Incus trust action'')"

section \<open>Staging a request\<close>

text \<open>\<open>writeTrustRequest\<close> as it touches the files; the token is the random one, 16 hexadecimal digits, or an error.\<close>

definition request_name :: "string \<Rightarrow> int \<Rightarrow> string \<Rightarrow> string \<Rightarrow> string" where
  "request_name action uid fp token = ''helling-trust-'' @ action @ ''-'' @ format_int uid @ ''-'' @ fp @ ''-'' @ token @ ''.json''"

definition stage_request ::
  "trust_helper \<Rightarrow> nat \<Rightarrow> string option \<Rightarrow> string \<Rightarrow> int \<Rightarrow> string \<Rightarrow> string \<Rightarrow> string \<Rightarrow> string tio" where
  "stage_request hl me token action uid fp project cert =
     (if uid \<le> 0 then t_fail ''user id is required''
      else if \<not> validateTrustFingerprint fp then t_fail ''invalid Incus trust fingerprint''
      else if \<not> ValidTrustProjectName project then t_fail ''invalid Incus project''
      else case token of None \<Rightarrow> t_fail ''generating Incus trust request token''
      | Some t \<Rightarrow>
        let name = request_name action uid fp t; p = filepath_join (helper_requestDir hl) name;
            file = \<lparr>tf_symlink = None, tf_perm = 384, tf_uid = me, tf_body = Some ''''\<rparr>;
            body = tc_encode (hl_codec hl) \<lparr>tq_action = action, tq_user_id = uid, tq_fingerprint = fp,
              tq_project = project, tq_cert_basename = cert\<rparr> in
        t_bind (t_call ''creating Incus trust request dir'' (t_ret ())) (\<lambda>_.
        t_bind (t_call ''creating Incus trust request'' (\<lambda>h.
          if th_files h p \<noteq> None then (Inl (TrustError ''creating Incus trust request''), h)
          else (Inr (), h\<lparr>th_files := (th_files h)(p \<mapsto> file)\<rparr>))) (\<lambda>_.
        t_bind (t_call ''writing Incus trust request'' (\<lambda>h.
          (Inr (), h\<lparr>th_files := (th_files h)(p \<mapsto> file\<lparr>tf_body := Some body\<rparr>)\<rparr>))) (\<lambda>_.
        t_bind (t_call ''closing Incus trust request'' (t_ret ())) (\<lambda>_.
        t_ret name)))))"

end
