(* ===== verification/Trust_Helper_Props.thy ===== *)
theory Trust_Helper_Props
  imports Trust_Helper Systemd_Units_Props
begin

text \<open>
  What the trust helper runs, and for whom: only commands a live request, a policy of root and the staged
  certificate agree on, each request at most once; and the requests the daemon stages are ones it accepts.
\<close>

section \<open>Steps\<close>

text \<open>Steps that change neither files nor commands.\<close>

definition looks :: "'a tio \<Rightarrow> bool" where
  "looks m \<longleftrightarrow> (\<forall>h. th_files (snd (m h)) = th_files h \<and> th_cli (snd (m h)) = th_cli h)"

named_theorems looks_intros \<open>rules that a step only looks\<close>

lemma looksD: "looks m \<Longrightarrow> m h = (r, h') \<Longrightarrow> th_files h' = th_files h \<and> th_cli h' = th_cli h"
  unfolding looks_def by (metis snd_conv)

lemma looks_ret [looks_intros]: "looks (t_ret x)"
  by (simp add: looks_def t_ret_def)

lemma looks_fail [looks_intros]: "looks (t_fail m)"
  by (simp add: looks_def t_fail_def)

lemma looks_check [looks_intros]: "looks (t_check b m)"
  by (simp add: t_check_def looks_ret looks_fail)

lemma looks_bind [looks_intros]: "looks m \<Longrightarrow> (\<And>x. looks (k x)) \<Longrightarrow> looks (t_bind m k)"
  by (auto simp: looks_def t_bind_def split: prod.split sum.split) (metis snd_conv)+

lemma looks_if [looks_intros]: "looks m \<Longrightarrow> looks n \<Longrightarrow> looks (if b then m else n)"
  by simp

lemma looks_option [looks_intros]: "looks m \<Longrightarrow> (\<And>x. looks (n x)) \<Longrightarrow> looks (case v of None \<Rightarrow> m | Some x \<Rightarrow> n x)"
  by (cases v) simp_all

lemma looks_call: "looks m \<Longrightarrow> looks (t_call s m)"
  by (auto simp: looks_def t_call_def split: list.split)

lemma looks_read [looks_intros]: "looks (t_read m p)"
  unfolding t_read_def by (rule looks_call) (simp add: looks_def split: option.split)

lemma looks_verify [looks_intros]: "looks (verifyLockedDownPath p owner)"
  unfolding verifyLockedDownPath_def by (rule looks_call) (simp add: looks_def split: option.split)

lemma looks_readLocked [looks_intros]: "looks (readLockedDownJSONFile decode p owner)"
  unfolding readLockedDownJSONFile_def by (intro looks_intros)

lemma looks_default [looks_intros]:
  "looks m \<Longrightarrow> looks n \<Longrightarrow> looks (\<lambda>h. case m h of (Inl NotExist, h) \<Rightarrow> n h | res \<Rightarrow> res)"
  by (auto simp: looks_def split: prod.split sum.split trust_error.split) (metis snd_conv)+

lemma looks_loadPolicy [looks_intros]: "looks (loadPolicy hl uid)"
  unfolding loadPolicy_def Let_def by (intro looks_intros)

lemma looks_validateRequest [looks_intros]: "looks (validateRequest hl action uid fp project cert name)"
  unfolding validateRequest_def Let_def by (intro looks_intros)

lemma looks_staged [looks_intros]: "looks (validateStagedTrustCertificate c p fp)"
  unfolding validateStagedTrustCertificate_def
  by (intro looks_intros) (auto intro: looks_intros split: prod.split)

lemma t_bind_Inr: "t_bind m k h = (Inr y, h') \<longleftrightarrow> (\<exists>x h1. m h = (Inr x, h1) \<and> k x h1 = (Inr y, h'))"
  by (auto simp: t_bind_def split: prod.split sum.split)

lemma t_check_Inr: "t_check b m h = (Inr u, h') \<longleftrightarrow> b \<and> h' = h"
  by (auto simp: t_check_def t_ret_def t_fail_def)

section \<open>What a successful check found\<close>

definition locked_down :: "nat option \<Rightarrow> trust_file \<Rightarrow> bool" where
  "locked_down owner f \<longleftrightarrow> tf_symlink f = None \<and> tf_perm f AND 18 = 0 \<and> (\<forall>uid. owner = Some uid \<longrightarrow> tf_uid f = uid)"

definition locked_json :: "(string \<Rightarrow> 'a option) \<Rightarrow> nat option \<Rightarrow> (string \<Rightarrow> trust_file option) \<Rightarrow> string \<Rightarrow> 'a \<Rightarrow> bool" where
  "locked_json decode owner fs p v \<longleftrightarrow> (\<exists>f body. fs p = Some f \<and> locked_down owner f \<and> tf_body f = Some body \<and>
     length body \<le> 65536 \<and> decode body = Some v)"

text \<open>The policy of a user: their own file, or the default one when they have none.\<close>

definition user_policy :: "trust_helper \<Rightarrow> int \<Rightarrow> string" where
  "user_policy hl uid = filepath_join (policyDir hl) (''helling-user-'' @ format_int uid @ ''.json'')"

definition policy_for :: "trust_helper \<Rightarrow> (string \<Rightarrow> trust_file option) \<Rightarrow> int \<Rightarrow> trust_policy \<Rightarrow> bool" where
  "policy_for hl fs uid p \<longleftrightarrow> (let owner = Some (policyOwnerUID hl); json = locked_json (tc_policy (hl_codec hl)) owner fs in
     (\<exists>f. fs (policyDir hl) = Some f \<and> locked_down owner f) \<and>
     (json (user_policy hl uid) p \<or> fs (user_policy hl uid) = None \<and> json (filepath_join (policyDir hl) ''default.json'') p) \<and>
     (tp_user_id p = 0 \<or> tp_user_id p = uid) \<and> validateTrustPolicyProjects p)"

text \<open>A request stands and its user's policy grants it.\<close>

definition granted :: "trust_helper \<Rightarrow> (string \<Rightarrow> trust_file option) \<Rightarrow> string \<Rightarrow> int \<Rightarrow> string \<Rightarrow> string \<Rightarrow> string \<Rightarrow> string \<Rightarrow> bool" where
  "granted hl fs action uid fp project cert name \<longleftrightarrow> (\<exists>req policy.
     parseTrustRequestName action uid fp name = Some uid \<and>
     locked_json (tc_request (hl_codec hl)) None fs (filepath_join (helper_requestDir hl) name) req \<and>
     req = \<lparr>tq_action = action, tq_user_id = uid, tq_fingerprint = fp, tq_project = project, tq_cert_basename = cert\<rparr> \<and>
     policy_for hl fs uid policy \<and> policyAllowsProject policy project \<and> policyAllowsAction policy action)"

lemma t_call_Inr: "t_call m f h = (Inr x, h') \<Longrightarrow> \<exists>fs. f (h\<lparr>th_faults := fs\<rparr>) = (Inr x, h')"
proof (cases "th_faults h")
  case Nil
  then have same: "h\<lparr>th_faults := []\<rparr> = h" by (cases h) simp
  assume "t_call m f h = (Inr x, h')"
  then have "f h = (Inr x, h')" using Nil by (simp add: t_call_def)
  then have "f (h\<lparr>th_faults := []\<rparr>) = (Inr x, h')" unfolding same .
  then show ?thesis by blast
next
  case (Cons b bs)
  moreover assume "t_call m f h = (Inr x, h')"
  ultimately show ?thesis by (auto simp: t_call_def split: if_splits)
qed

lemma verify_Inr:
  assumes "verifyLockedDownPath p owner h = (Inr u, h')"
  shows "\<exists>f. th_files h p = Some f \<and> locked_down owner f"
proof (cases "th_files h p")
  case None
  then show ?thesis using t_call_Inr [OF assms [unfolded verifyLockedDownPath_def]] by simp
next
  case (Some f)
  then show ?thesis using t_call_Inr [OF assms [unfolded verifyLockedDownPath_def]]
    by (cases owner) (auto simp: locked_down_def split: if_splits)
qed

lemma verify_NotExist: "verifyLockedDownPath p owner h = (Inl NotExist, h') \<Longrightarrow> th_files h p = None"
  by (auto simp: verifyLockedDownPath_def t_call_def split: option.splits if_splits list.splits)

lemma read_Inr:
  assumes "t_read m p h = (Inr body, h')" "th_files h p = Some f" "tf_symlink f = None"
  shows "tf_body f = Some body"
  using t_call_Inr [OF assms(1) [unfolded t_read_def]] assms(2,3)
  by (auto simp: numeral_eq_Suc split: option.splits)

lemma readLocked_Inr:
  assumes "readLockedDownJSONFile decode p owner h = (Inr v, h')"
  shows "locked_json decode owner (th_files h) p v"
proof -
  from assms obtain u h1 body h2 where v: "verifyLockedDownPath p owner h = (Inr u, h1)" and r: "t_read ''opening'' p h1 = (Inr body, h2)"
    and d: "length body \<le> 65536" "decode body = Some v"
    by (auto simp: readLockedDownJSONFile_def t_bind_Inr t_fail_def t_ret_def split: if_splits option.splits)
  from verify_Inr [OF v] obtain f where f: "th_files h p = Some f" "locked_down owner f" by blast
  have "th_files h1 p = Some f" using looksD [OF looks_verify v] f by simp
  then have "tf_body f = Some body" using read_Inr [OF r] f by (simp add: locked_down_def)
  then show ?thesis using f d by (auto simp: locked_json_def)
qed

lemma readLocked_NotExist: "readLockedDownJSONFile decode p owner h = (Inl NotExist, h') \<Longrightarrow> th_files h p = None"
  by (auto simp: readLockedDownJSONFile_def t_bind_def t_read_def t_call_def t_fail_def t_ret_def
      split: prod.splits sum.splits if_splits option.splits list.splits dest: verify_NotExist)

lemma loadPolicy_Inr:
  assumes "loadPolicy hl uid h = (Inr policy, h')"
  shows "policy_for hl (th_files h) uid policy"
proof -
  let ?owner = "Some (policyOwnerUID hl)" and ?decode = "tc_policy (hl_codec hl)"
  let ?step = "\<lambda>h. case readLockedDownJSONFile ?decode (user_policy hl uid) ?owner h of
        (Inl NotExist, h) \<Rightarrow> readLockedDownJSONFile ?decode (filepath_join (policyDir hl) ''default.json'') ?owner h
      | res \<Rightarrow> res"
  from assms obtain u h1 h2 where v: "verifyLockedDownPath (policyDir hl) ?owner h = (Inr u, h1)" and r: "?step h1 = (Inr policy, h2)"
    and p: "tp_user_id policy = 0 \<or> tp_user_id policy = uid" "validateTrustPolicyProjects policy"
    unfolding loadPolicy_def Let_def user_policy_def
    by (auto simp: t_bind_Inr t_check_Inr t_ret_def)
  have files: "th_files h1 = th_files h" using looksD [OF looks_verify v] by simp
  obtain res h3 where first: "readLockedDownJSONFile ?decode (user_policy hl uid) ?owner h1 = (res, h3)" by fastforce
  have files3: "th_files h3 = th_files h1" using looksD [OF looks_readLocked first] by simp
  have "locked_json ?decode ?owner (th_files h) (user_policy hl uid) policy \<or> th_files h (user_policy hl uid) = None \<and>
      locked_json ?decode ?owner (th_files h) (filepath_join (policyDir hl) ''default.json'') policy"
  proof (cases "res = Inl NotExist")
    case True
    then have second: "readLockedDownJSONFile ?decode (filepath_join (policyDir hl) ''default.json'') ?owner h3 = (Inr policy, h2)"
      using r first by simp
    then show ?thesis using readLocked_Inr [OF second] readLocked_NotExist [OF first [unfolded True]] files files3 by simp
  next
    case False
    then have "res = Inr policy" using r first by (auto split: sum.splits trust_error.splits)
    then show ?thesis using readLocked_Inr [OF first [unfolded \<open>res = Inr policy\<close>]] files by simp
  qed
  then show ?thesis using verify_Inr [OF v] p by (auto simp: policy_for_def Let_def)
qed

lemma parse_name_uid: "parseTrustRequestName action uid fp name = Some n \<Longrightarrow> parseTrustRequestName action n fp name = Some n"
  by (auto simp: parseTrustRequestName_def split: option.splits prod.splits if_splits)

lemma parse_name_register: "parseTrustRequestName ''register'' uid fp name = Some n \<Longrightarrow> n = uid"
  by (auto simp: parseTrustRequestName_def split: option.splits prod.splits if_splits)

lemma validateRequest_Inr:
  assumes "validateRequest hl action uid fp project cert name h = (Inr p, h')"
  shows "\<exists>rid proj. parseTrustRequestName action uid fp name = Some rid \<and> (action = ''register'' \<longrightarrow> proj = project) \<and>
    granted hl (th_files h) action rid fp proj cert name \<and> p = filepath_join (helper_requestDir hl) name"
proof (cases "parseTrustRequestName action uid fp name")
  case None
  then show ?thesis using assms by (simp add: validateRequest_def t_fail_def)
next
  case (Some rid)
  let ?p = "filepath_join (helper_requestDir hl) name"
  from assms Some obtain req h1 policy h2 where
    r: "readLockedDownJSONFile (tc_request (hl_codec hl)) ?p None h = (Inr req, h1)"
    and m: "validateTrustRequestManifest req action rid fp project cert"
    and l: "loadPolicy hl rid h1 = (Inr policy, h2)"
    and a: "policyAllowsProject policy (tq_project req)" "policyAllowsAction policy action" and p: "p = ?p"
    by (auto simp: validateRequest_def Let_def t_bind_Inr t_check_Inr t_ret_def)
  have "policy_for hl (th_files h) rid policy" using loadPolicy_Inr [OF l] looksD [OF looks_readLocked r] by simp
  moreover have "req = \<lparr>tq_action = action, tq_user_id = rid, tq_fingerprint = fp, tq_project = tq_project req, tq_cert_basename = cert\<rparr>"
    using m by (cases req) (simp add: validateTrustRequestManifest_def)
  moreover note readLocked_Inr [OF r] parse_name_uid [OF Some]
  ultimately have "granted hl (th_files h) action rid fp (tq_project req) cert name" using a by (auto simp: granted_def)
  moreover have "action = ''register'' \<longrightarrow> tq_project req = project" using m by (auto simp: validateTrustRequestManifest_def)
  ultimately show ?thesis using Some p by blast
qed


section \<open>What the helper does\<close>

lemma acts_bind:
  assumes "looks m" "t_bind m k h = (r, h')" "th_cli h' \<noteq> th_cli h"
  shows "\<exists>x h1. m h = (Inr x, h1) \<and> k x h1 = (r, h') \<and> th_files h1 = th_files h \<and> th_cli h1 = th_cli h"
proof -
  obtain res h1 where run: "m h = (res, h1)" by fastforce
  then show ?thesis using looksD [OF assms(1) run] assms(2,3) by (cases res) (auto simp: t_bind_def)
qed

lemma t_remove_files: "t_remove m p h = (r, h') \<Longrightarrow> th_cli h' = th_cli h \<and>
    (case r of Inl e \<Rightarrow> th_files h' = th_files h | Inr u \<Rightarrow> th_files h' = (th_files h)(p := None))"
  by (auto simp: t_remove_def t_call_def split: list.splits if_splits)

lemma run_incus_acts: "run_incus args h = (r, h') \<Longrightarrow> th_cli h' = th_cli h @ [args] \<and> th_files h' = th_files h"
  by (auto simp: run_incus_def Let_def t_call_def t_ret_def split: list.splits if_splits)

lemma consume_acts:
  assumes "t_bind (t_remove m p) (\<lambda>_. run_incus args) h = (r, h')" "th_cli h' \<noteq> th_cli h"
  shows "th_cli h' = th_cli h @ [args] \<and> th_files h' = (th_files h)(p := None)"
proof -
  obtain res h1 where run: "t_remove m p h = (res, h1)" by fastforce
  then show ?thesis using t_remove_files [OF run] assms run_incus_acts [of args h1 r h']
    by (cases res) (auto simp: t_bind_def)
qed

definition staged_cert :: "trust_codec \<Rightarrow> (string \<Rightarrow> trust_file option) \<Rightarrow> string \<Rightarrow> string \<Rightarrow> bool" where
  "staged_cert c fs p fp \<longleftrightarrow> (\<exists>body bytes rest. follow 41 fs p = Some body \<and>
     tc_pem c body = Some (''CERTIFICATE'', bytes, rest) \<and> tc_sha256 c bytes = fp)"

lemma staged_Inr: "validateStagedTrustCertificate c p fp h = (Inr u, h') \<Longrightarrow> staged_cert c (th_files h) p fp"
  by (auto simp: validateStagedTrustCertificate_def t_bind_Inr t_fail_def t_ret_def staged_cert_def t_read_def
      split: if_splits option.splits prod.splits dest!: t_call_Inr)

lemma register_acts:
  assumes "trust_register hl fp project cert name h = (r, h')" "th_cli h' \<noteq> th_cli h"
  shows "\<exists>uid ds. trustCertNamePattern cert = Some (ds, fp) \<and> parse_int64 ds = Some uid \<and> ValidTrustProjectName project \<and>
    granted hl (th_files h) ''register'' uid fp project cert name \<and>
    staged_cert (hl_codec hl) (th_files h) (filepath_join (helper_stagingDir hl) cert) fp \<and>
    th_cli h' = th_cli h @ [register_command hl fp project cert ds] \<and>
    th_files h' = (th_files h)(filepath_join (helper_requestDir hl) name := None)"
proof (cases "trustCertNamePattern cert")
  case None
  then show ?thesis using assms by (auto simp: trust_register_def t_fail_def split: if_splits)
next
  case (Some df)
  obtain ds f where df: "df = (ds, f)" by fastforce
  let ?k = "\<lambda>p. t_bind (validateStagedTrustCertificate (hl_codec hl) (filepath_join (helper_stagingDir hl) cert) fp) (\<lambda>_.
      t_bind (t_remove ''consuming Incus trust request'' p) (\<lambda>_. run_incus (register_command hl fp project cert ds)))"
  from assms Some df obtain uid where f: "f = fp" "parse_int64 ds = Some uid" "ValidTrustProjectName project"
    and run: "t_bind (validateRequest hl ''register'' uid fp project cert name) ?k h = (r, h')"
    by (auto simp: trust_register_def t_fail_def split: if_splits option.splits)
  from acts_bind [OF looks_validateRequest run assms(2)] obtain p h1 where
    v: "validateRequest hl ''register'' uid fp project cert name h = (Inr p, h1)" and k: "?k p h1 = (r, h')"
    and h1: "th_files h1 = th_files h" "th_cli h1 = th_cli h" by blast
  from acts_bind [OF looks_staged k] assms(2) h1 obtain u h2 where
    s: "validateStagedTrustCertificate (hl_codec hl) (filepath_join (helper_stagingDir hl) cert) fp h1 = (Inr u, h2)"
    and c: "t_bind (t_remove ''consuming Incus trust request'' p) (\<lambda>_. run_incus (register_command hl fp project cert ds)) h2 = (r, h')"
    and h2: "th_files h2 = th_files h" "th_cli h2 = th_cli h" by auto
  from validateRequest_Inr [OF v] obtain rid proj where rid: "parseTrustRequestName ''register'' uid fp name = Some rid" "proj = project"
    "granted hl (th_files h) ''register'' rid fp proj cert name" "p = filepath_join (helper_requestDir hl) name" by blast
  have "rid = uid" by (rule parse_name_register [OF rid(1)])
  moreover have "th_cli h' = th_cli h @ [register_command hl fp project cert ds] \<and> th_files h' = (th_files h)(p := None)"
    using consume_acts [OF c] assms(2) h2 by simp
  ultimately show ?thesis using rid staged_Inr [OF s] h1 f Some df by auto
qed

lemma revoke_acts:
  assumes "trust_revoke hl fp name h = (r, h')" "th_cli h' \<noteq> th_cli h"
  shows "\<exists>uid proj. granted hl (th_files h) ''revoke'' uid fp proj '''' name \<and>
    th_cli h' = th_cli h @ [[''--force-local'', ''config'', ''trust'', ''remove'', fp]] \<and>
    th_files h' = (th_files h)(filepath_join (helper_requestDir hl) name := None)"
proof -
  let ?k = "\<lambda>p. t_bind (t_remove ''consuming Incus trust request'' p) (\<lambda>_. run_incus [''--force-local'', ''config'', ''trust'', ''remove'', fp])"
  from assms have run: "t_bind (validateRequest hl ''revoke'' 0 fp '''' '''' name) ?k h = (r, h')"
    by (auto simp: trust_revoke_def t_fail_def split: if_splits)
  from acts_bind [OF looks_validateRequest run assms(2)] obtain p h1 where
    v: "validateRequest hl ''revoke'' 0 fp '''' '''' name h = (Inr p, h1)" and k: "?k p h1 = (r, h')"
    and h1: "th_files h1 = th_files h" "th_cli h1 = th_cli h" by blast
  from validateRequest_Inr [OF v] obtain rid proj where
    "granted hl (th_files h) ''revoke'' rid fp proj '''' name" "p = filepath_join (helper_requestDir hl) name" by blast
  then show ?thesis using consume_acts [OF k] assms(2) h1 by auto
qed

lemma handle_acts:
  assumes "trust_Handle hl args h = (r, h')" "th_cli h' \<noteq> th_cli h"
  shows "(\<exists>fp project cert name. args = [''register'', fp, project, cert, name] \<and> trust_register hl fp project cert name h = (r, h')) \<or>
    (\<exists>fp name. args = [''revoke'', fp, name] \<and> trust_revoke hl fp name h = (r, h'))"
  using assms by (auto simp: trust_Handle_def t_fail_def split: list.splits if_splits)

lemma handle_granted:
  assumes "trust_Handle hl args h = (r, h')" "th_cli h' \<noteq> th_cli h"
  shows "\<exists>uid fp project cert name.
    (\<exists>ds. args = [''register'', fp, project, cert, name] \<and> granted hl (th_files h) ''register'' uid fp project cert name \<and>
       staged_cert (hl_codec hl) (th_files h) (filepath_join (helper_stagingDir hl) cert) fp \<and>
       parse_int64 ds = Some uid \<and> th_cli h' = th_cli h @ [register_command hl fp project cert ds] \<or>
     args = [''revoke'', fp, name] \<and> granted hl (th_files h) ''revoke'' uid fp project '''' name \<and>
       th_cli h' = th_cli h @ [[''--force-local'', ''config'', ''trust'', ''remove'', fp]]) \<and>
    th_files h' = (th_files h)(filepath_join (helper_requestDir hl) name := None)"
  using handle_acts [OF assms]
proof (elim disjE exE conjE)
  fix fp project cert name
  assume args: "args = [''register'', fp, project, cert, name]" and run: "trust_register hl fp project cert name h = (r, h')"
  show ?thesis using register_acts [OF run assms(2)] args by blast
next
  fix fp name
  assume args: "args = [''revoke'', fp, name]" and run: "trust_revoke hl fp name h = (r, h')"
  show ?thesis using revoke_acts [OF run assms(2)] args by blast
qed



lemma trust_helper_effect:
  assumes "trust_Handle hl args h = (r, h')" "th_cli h' \<noteq> th_cli h"
  shows "\<exists>action uid fp project cert. granted hl (th_files h) action uid fp project cert (last args) \<and>
    th_files h' = (th_files h)(filepath_join (helper_requestDir hl) (last args) := None)"
  using handle_granted [OF assms] by (elim exE conjE disjE; simp; blast)

text \<open>
  C10: Every \<open>incus\<close> command the trust helper starts is granted: a register or revoke request of a user stands in the
  request directory in a file only its owner can write, whose name, contents and the helper's arguments agree;
  a policy file of the policy's owner, that user's own or the default one, allows the project and the action; for a registration
  the staged certificate has the fingerprint of the request.  The command is exactly the one for these arguments, and
  the request is used up.
\<close>

theorem trust_helper_granted:
  assumes "trust_Handle hl args h = (r, h')" "th_cli h' \<noteq> th_cli h"
  shows "\<exists>uid fp project cert name.
    (\<exists>ds. args = [''register'', fp, project, cert, name] \<and> granted hl (th_files h) ''register'' uid fp project cert name \<and>
       staged_cert (hl_codec hl) (th_files h) (filepath_join (helper_stagingDir hl) cert) fp \<and>
       parse_int64 ds = Some uid \<and> th_cli h' = th_cli h @ [register_command hl fp project cert ds] \<or>
     args = [''revoke'', fp, name] \<and> granted hl (th_files h) ''revoke'' uid fp project '''' name \<and>
       th_cli h' = th_cli h @ [[''--force-local'', ''config'', ''trust'', ''remove'', fp]]) \<and>
    th_files h' = (th_files h)(filepath_join (helper_requestDir hl) name := None)"
  using assms by (rule handle_granted)

section \<open>A request is used once\<close>

definition shrinks :: "'a tio \<Rightarrow> bool" where
  "shrinks m \<longleftrightarrow> (\<forall>h p. th_files h p = None \<longrightarrow> th_files (snd (m h)) p = None)"

named_theorems shrinks_intros \<open>rules that a step creates no file\<close>

lemma shrinks_looks: "looks m \<Longrightarrow> shrinks m"
  by (simp add: looks_def shrinks_def)

lemma shrinks_bind [shrinks_intros]: "shrinks m \<Longrightarrow> (\<And>x. shrinks (k x)) \<Longrightarrow> shrinks (t_bind m k)"
  by (auto simp: shrinks_def t_bind_def split: prod.split sum.split) (metis snd_conv)+

lemma shrinks_if [shrinks_intros]: "shrinks m \<Longrightarrow> shrinks n \<Longrightarrow> shrinks (if b then m else n)"
  by simp

lemma shrinks_option [shrinks_intros]: "shrinks m \<Longrightarrow> (\<And>x. shrinks (n x)) \<Longrightarrow> shrinks (case v of None \<Rightarrow> m | Some x \<Rightarrow> n x)"
  by (cases v) simp_all

lemma shrinks_prod [shrinks_intros]: "(\<And>x y. shrinks (n x y)) \<Longrightarrow> shrinks (case v of (x, y) \<Rightarrow> n x y)"
  by (cases v) simp

lemma shrinks_steps [shrinks_intros]: "shrinks (t_remove m p)" "shrinks (run_incus args)"
  by (simp_all add: shrinks_def t_remove_def run_incus_def Let_def t_call_def t_ret_def split: list.split)

lemmas shrinks_checks [shrinks_intros] =
  shrinks_looks [OF looks_fail] shrinks_looks [OF looks_validateRequest] shrinks_looks [OF looks_staged]

lemma shrinks_register: "shrinks (trust_register hl fp project cert name)"
  unfolding trust_register_def by (intro shrinks_intros)

lemma shrinks_revoke: "shrinks (trust_revoke hl fp name)"
  unfolding trust_revoke_def by (intro shrinks_intros)

lemma shrinks_handle: "shrinks (trust_Handle hl args)"
  by (auto simp: trust_Handle_def intro!: shrinks_intros shrinks_register shrinks_revoke split: list.split)

definition run_trust :: "trust_helper \<Rightarrow> string list list \<Rightarrow> trust_host \<Rightarrow> trust_host" where
  "run_trust hl calls h = fold (\<lambda>args h. snd (trust_Handle hl args h)) calls h"

lemma run_trust_shrinks: "th_files h p = None \<Longrightarrow> th_files (run_trust hl calls h) p = None"
  unfolding run_trust_def
proof (induction calls arbitrary: h)
  case (Cons args calls)
  then have "th_files (snd (trust_Handle hl args h)) p = None" using shrinks_handle [of hl args] by (simp add: shrinks_def)
  then show ?case using Cons.IH by simp
qed simp

text \<open>
  A request authorises one command: after the helper has run one for a request, no later call that names
  that request runs any, whatever the calls in between are.
\<close>

theorem trust_request_once:
  assumes "trust_Handle hl args h = (r, h1)" "th_cli h1 \<noteq> th_cli h" "last args' = last args"
  shows "th_cli (snd (trust_Handle hl args' (run_trust hl calls h1))) = th_cli (run_trust hl calls h1)"
proof (rule ccontr)
  let ?h2 = "run_trust hl calls h1" and ?p = "filepath_join (helper_requestDir hl) (last args)"
  assume acts: "th_cli (snd (trust_Handle hl args' ?h2)) \<noteq> th_cli ?h2"
  have "th_files h1 ?p = None"
    using trust_helper_effect [OF assms(1,2)] by auto
  then have gone: "th_files ?h2 ?p = None" by (rule run_trust_shrinks)
  obtain r2 h3 where run: "trust_Handle hl args' ?h2 = (r2, h3)" by fastforce
  from trust_helper_effect [OF run] acts run obtain action uid fp project cert where
    "granted hl (th_files ?h2) action uid fp project cert (last args')" by auto
  then show False using gone assms(3) by (auto simp: granted_def locked_json_def)
qed


section \<open>What the daemon stages, the helper accepts\<close>

lemma digit_run: "list_all is_digit ds \<Longrightarrow> \<not> is_digit c \<Longrightarrow>
    takeWhile is_digit (ds @ c # t) = ds \<and> dropWhile is_digit (ds @ c # t) = c # t"
  by (induction ds) auto

lemma hyphen_no_digit: "\<not> is_digit (CHR ''-'')"
  by (rule not_is_digit_sign)

lemma fingerprint_hex: "validateTrustFingerprint fp \<longleftrightarrow> length fp = 64 \<and> hex_text fp"
  by (simp add: validateTrustFingerprint_def hex_text_def in_range_def Let_def)

lemma request_tail_staged:
  assumes "0 < uid" "validateTrustFingerprint fp" "length t = 16" "hex_text t"
  shows "request_tail (format_int uid @ ''-'' @ fp @ ''-'' @ t @ ''.json'') = Some (format_int uid, fp)"
proof -
  have "list_all is_digit (format_int uid)" using assms(1) by (simp add: format_int_digits)
  from digit_run [OF this hyphen_no_digit, of "fp @ ''-'' @ t @ ''.json''"] show ?thesis
    using assms by (simp add: request_tail_def Let_def fingerprint_hex nth_append)
qed

lemma request_name_pattern:
  assumes "0 < uid" "validateTrustFingerprint fp" "length t = 16" "hex_text t" "action = ''register'' \<or> action = ''revoke''"
  shows "trustRequestNamePattern (request_name action uid fp t) = Some (action, format_int uid, fp)"
proof -
  note tail = request_tail_staged [OF assms(1-4)]
  show ?thesis
  proof (cases "action = ''register''")
    case True
    have "request_name action uid fp t = ''helling-trust-register-'' @ format_int uid @ ''-'' @ fp @ ''-'' @ t @ ''.json''"
      using True by (simp add: request_name_def)
    then show ?thesis using tail True by (simp only: trustRequestNamePattern_def cut_prefix_append) simp
  next
    case False
    then have act: "action = ''revoke''" using assms(5) by simp
    have name: "request_name action uid fp t = ''helling-trust-revoke-'' @ format_int uid @ ''-'' @ fp @ ''-'' @ t @ ''.json''"
      using act by (simp add: request_name_def)
    then have "cut_prefix (request_name action uid fp t) ''helling-trust-register-'' = None"
      by (simp add: cut_prefix_def has_prefix_def)
    then show ?thesis using tail act name by (simp only: trustRequestNamePattern_def cut_prefix_append) simp
  qed
qed

lemma cert_name_pattern:
  assumes "0 < uid" "validateTrustFingerprint fp"
  shows "trustCertNamePattern (''helling-user-'' @ format_int uid @ ''-'' @ fp @ ''.crt'') = Some (format_int uid, fp)"
proof -
  have "list_all is_digit (format_int uid)" using assms(1) by (simp add: format_int_digits)
  from digit_run [OF this hyphen_no_digit, of "fp @ ''.crt''"] show ?thesis
    using assms(2) by (simp add: trustCertNamePattern_def cut_prefix_append [of "''helling-user-''", simplified] Let_def fingerprint_hex)
qed

lemma plain_chars: "list_all is_digit s \<Longrightarrow> CHR ''/'' \<notin> set s" "hex_text s \<Longrightarrow> CHR ''/'' \<notin> set s"
  by (auto simp: list_all_iff hex_text_def is_digit_def in_range_def byte_def)

lemma format_plain: "0 < uid \<Longrightarrow> CHR ''/'' \<notin> set (format_int uid)"
  using plain_chars(1) [OF format_int_digits [of uid]] by simp

lemma staged_names_plain:
  assumes "0 < uid" "hex_text fp" "hex_text t" "action = ''register'' \<or> action = ''revoke''"
  shows "filepath_base (request_name action uid fp t) = request_name action uid fp t"
    "filepath_base (''helling-user-'' @ format_int uid @ ''-'' @ fp @ ''.crt'') = ''helling-user-'' @ format_int uid @ ''-'' @ fp @ ''.crt''"
    "filepath_base (''helling-user-'' @ format_int uid @ ''.json'') = ''helling-user-'' @ format_int uid @ ''.json''"
  using assms format_plain [of uid] plain_chars(2)
  by (auto intro!: base_plain simp: request_name_def)

text \<open>The checks of the helper where no system call fails.\<close>

lemma no_fault_call [simp]: "th_faults h = [] \<Longrightarrow> t_call m f h = f h"
  by (simp add: t_call_def)

lemma verify_ok: "th_faults h = [] \<Longrightarrow> th_files h p = Some f \<Longrightarrow> locked_down owner f \<Longrightarrow> verifyLockedDownPath p owner h = (Inr (), h)"
  by (auto simp: verifyLockedDownPath_def locked_down_def split: option.split)

lemma readLocked_ok:
  assumes "th_faults h = []" "locked_json decode owner (th_files h) p v"
  shows "readLockedDownJSONFile decode p owner h = (Inr v, h)"
proof -
  from assms(2) obtain f body where f: "th_files h p = Some f" "locked_down owner f" "tf_body f = Some body"
    "length body \<le> 65536" "decode body = Some v" by (auto simp: locked_json_def)
  have "t_read m p h = (Inr body, h)" for m
    using f(1-3) assms(1) by (simp add: t_read_def locked_down_def numeral_eq_Suc)
  then show ?thesis using f verify_ok [OF assms(1) f(1,2)]
    by (simp add: readLockedDownJSONFile_def t_bind_def t_ret_def)
qed

lemma verify_missing: "th_faults h = [] \<Longrightarrow> th_files h p = None \<Longrightarrow> verifyLockedDownPath p owner h = (Inl NotExist, h)"
  by (simp add: verifyLockedDownPath_def)

lemma readLocked_missing: "th_faults h = [] \<Longrightarrow> th_files h p = None \<Longrightarrow> readLockedDownJSONFile decode p owner h = (Inl NotExist, h)"
  using verify_missing [of h p owner] by (simp add: readLockedDownJSONFile_def t_bind_def)

lemma loadPolicy_ok:
  assumes "th_faults h = []" "0 < uid" "policy_for hl (th_files h) uid policy" "0 \<le> tp_user_id policy"
  shows "loadPolicy hl uid h = (Inr policy, h)"
proof -
  have base: "filepath_base (''helling-user-'' @ format_int uid @ ''.json'') = ''helling-user-'' @ format_int uid @ ''.json''"
    using staged_names_plain(3) [of uid "[]" "[]" "''register''"] assms(2) by (simp add: hex_text_def)
  from assms(3) obtain f where dir: "th_files h (policyDir hl) = Some f" "locked_down (Some (policyOwnerUID hl)) f"
    by (auto simp: policy_for_def Let_def)
  have "(case readLockedDownJSONFile (tc_policy (hl_codec hl)) (user_policy hl uid) (Some (policyOwnerUID hl)) h of
        (Inl NotExist, h) \<Rightarrow> readLockedDownJSONFile (tc_policy (hl_codec hl)) (filepath_join (policyDir hl) ''default.json'') (Some (policyOwnerUID hl)) h
      | res \<Rightarrow> res) = (Inr policy, h)"
  proof (cases "locked_json (tc_policy (hl_codec hl)) (Some (policyOwnerUID hl)) (th_files h) (user_policy hl uid) policy")
    case True
    then show ?thesis using readLocked_ok [OF assms(1) True] by simp
  next
    case False
    then have none: "th_files h (user_policy hl uid) = None" and default: "locked_json (tc_policy (hl_codec hl)) (Some (policyOwnerUID hl))
        (th_files h) (filepath_join (policyDir hl) ''default.json'') policy"
      using assms(3) by (auto simp: policy_for_def Let_def)
    show ?thesis by (simp add: readLocked_missing [OF assms(1) none] readLocked_ok [OF assms(1) default])
  qed
  then show ?thesis using base assms(3,4) verify_ok [OF assms(1) dir]
    by (auto simp: loadPolicy_def Let_def t_bind_def t_check_def t_ret_def user_policy_def policy_for_def)
qed


lemma owner_only: "(384::nat) AND 18 = 0"
  by code_simp

lemma stage_request_Inr:
  assumes "stage_request hl me (Some t) action uid fp project cert h = (Inr name, h1)"
  shows "name = request_name action uid fp t \<and> 0 < uid \<and> validateTrustFingerprint fp \<and> ValidTrustProjectName project \<and>
    th_cli h1 = th_cli h \<and> th_files h1 = (th_files h)(filepath_join (helper_requestDir hl) name \<mapsto>
      \<lparr>tf_symlink = None, tf_perm = 384, tf_uid = me, tf_body = Some (tc_encode (hl_codec hl)
        \<lparr>tq_action = action, tq_user_id = uid, tq_fingerprint = fp, tq_project = project, tq_cert_basename = cert\<rparr>)\<rparr>)"
  using assms
  by (auto simp: stage_request_def Let_def t_bind_Inr t_fail_def t_ret_def split: if_splits dest!: t_call_Inr)

text \<open>A request as staged, and what the codec and the policy have to give for it.\<close>

definition acceptable :: "trust_helper \<Rightarrow> (string \<Rightarrow> trust_file option) \<Rightarrow> string \<Rightarrow> int \<Rightarrow> string \<Rightarrow> string \<Rightarrow> string \<Rightarrow> bool" where
  "acceptable hl fs action uid fp project cert \<longleftrightarrow>
     (let req = \<lparr>tq_action = action, tq_user_id = uid, tq_fingerprint = fp, tq_project = project, tq_cert_basename = cert\<rparr>;
          body = tc_encode (hl_codec hl) req in
     tc_request (hl_codec hl) body = Some req \<and> length body \<le> 65536 \<and>
     (\<exists>policy. policy_for hl fs uid policy \<and> policyAllowsProject policy project \<and> policyAllowsAction policy action))"

lemma validateRequest_ok:
  assumes stage: "stage_request hl me (Some t) action uid fp project cert h = (Inr name, h1)"
    and action: "action = ''register'' \<or> action = ''revoke''" "length t = 16" "hex_text t" "uid < 2 ^ 63"
    and ok: "acceptable hl (th_files h1) action uid fp project cert" and quiet: "th_faults h1 = []"
    and args: "action = ''register'' \<longrightarrow> arg_uid = uid \<and> arg_project = project"
  shows "validateRequest hl action arg_uid fp arg_project cert name h1 = (Inr (filepath_join (helper_requestDir hl) name), h1)"
proof -
  let ?req = "\<lparr>tq_action = action, tq_user_id = uid, tq_fingerprint = fp, tq_project = project, tq_cert_basename = cert\<rparr>"
  note S = stage_request_Inr [OF stage]
  have name: "name = request_name action uid fp t" "0 < uid" "validateTrustFingerprint fp" using S by simp_all
  have "filepath_base name = name"
    using staged_names_plain(1) [OF name(2) _ action(3,1)] name by (simp add: fingerprint_hex)
  moreover have "trustRequestNamePattern name = Some (action, format_int uid, fp)"
    using request_name_pattern [OF name(2,3) action(2,3,1)] name(1) by simp
  ultimately have parse: "parseTrustRequestName action arg_uid fp name = Some uid"
    using name(2) action(4) args by (simp add: parseTrustRequestName_def parse_format_int64)
  from ok obtain policy where codec: "tc_request (hl_codec hl) (tc_encode (hl_codec hl) ?req) = Some ?req"
      "length (tc_encode (hl_codec hl) ?req) \<le> 65536"
    and policy: "policy_for hl (th_files h1) uid policy" "policyAllowsProject policy project" "policyAllowsAction policy action"
    by (auto simp: acceptable_def Let_def)
  have "locked_json (tc_request (hl_codec hl)) None (th_files h1) (filepath_join (helper_requestDir hl) name) ?req"
    using S codec by (simp add: locked_json_def locked_down_def owner_only)
  note read = readLocked_ok [OF quiet this]
  have uid: "tp_user_id policy = 0 \<or> tp_user_id policy = uid" using policy(1) by (auto simp: policy_for_def Let_def)
  then have "0 \<le> tp_user_id policy" using name(2) by auto
  note load = loadPolicy_ok [OF quiet name(2) policy(1) this]
  have "validateTrustRequestManifest ?req action uid fp arg_project cert" using args by (auto simp: validateTrustRequestManifest_def)
  then show ?thesis using parse read load policy uid
    by (auto simp: validateRequest_def Let_def t_bind_def t_check_def t_ret_def)
qed

lemma consume_ok:
  assumes "th_faults h = []" "th_files h p \<noteq> None"
  shows "t_bind (t_remove m p) (\<lambda>_. run_incus args) h = (Inr (), h\<lparr>th_files := (th_files h)(p := None), th_cli := th_cli h @ [args]\<rparr>)"
  using assms by (simp add: t_bind_def t_remove_def run_incus_def Let_def t_call_def t_ret_def)

text \<open>
  What the daemon stages is what the helper reads: for a request the daemon has written, with its certificate
  staged and a policy that allows it, the helper accepts the arguments the daemon passes, starts exactly the
  registration of that certificate for that project, and removes the request.  (No system call fails; decoding undoes
  encoding of the request.)
\<close>

theorem staged_request_accepted:
  assumes stage: "stage_request hl me (Some t) ''register'' uid fp project cert h = (Inr name, h1)"
    and name: "cert = ''helling-user-'' @ format_int uid @ ''-'' @ fp @ ''.crt''"
    and token: "length t = 16" "hex_text t" "uid < 2 ^ 63"
    and ok: "acceptable hl (th_files h1) ''register'' uid fp project cert" and quiet: "th_faults h1 = []"
    and body: "follow 41 (th_files h1) (filepath_join (helper_stagingDir hl) cert) = Some pem" "length pem \<le> 16384"
      "tc_pem (hl_codec hl) pem = Some (''CERTIFICATE'', bytes, '''')" "tc_sha256 (hl_codec hl) bytes = fp"
  shows "trust_Handle hl [''register'', fp, project, cert, name] h1 = (Inr (), h1\<lparr>
    th_files := (th_files h1)(filepath_join (helper_requestDir hl) name := None),
    th_cli := th_cli h1 @ [register_command hl fp project cert (format_int uid)]\<rparr>)"
proof -
  note S = stage_request_Inr [OF stage]
  have v: "validateRequest hl ''register'' uid fp project cert name h1 = (Inr (filepath_join (helper_requestDir hl) name), h1)"
    by (rule validateRequest_ok [OF stage _ token ok quiet]) simp_all
  have c: "validateStagedTrustCertificate (hl_codec hl) (filepath_join (helper_stagingDir hl) cert) fp h1 = (Inr (), h1)"
    using body quiet
    by (simp add: validateStagedTrustCertificate_def t_bind_def t_read_def t_ret_def bytesTrimSpace_def del: follow.simps)
  have pat: "trustCertNamePattern cert = Some (format_int uid, fp)" "filepath_base cert = cert"
    using S cert_name_pattern [of uid fp] staged_names_plain(2) [of uid fp "[]" "''register''"]
    by (simp_all add: name fingerprint_hex hex_text_def)
  have "th_files h1 (filepath_join (helper_requestDir hl) name) \<noteq> None" using S by simp
  note consume = consume_ok [OF quiet this]
  have int: "parse_int64 (format_int uid) = Some uid" using S token(3) by (simp add: parse_format_int64)
  have "trust_register hl fp project cert name h1 =
     t_bind (validateRequest hl ''register'' uid fp project cert name) (\<lambda>p.
       t_bind (validateStagedTrustCertificate (hl_codec hl) (filepath_join (helper_stagingDir hl) cert) fp) (\<lambda>_.
       t_bind (t_remove ''consuming Incus trust request'' p) (\<lambda>_.
       run_incus (register_command hl fp project cert (format_int uid))))) h1"
    using S pat int by (simp add: trust_register_def)
  then show ?thesis using v c consume by (simp add: trust_Handle_def t_bind_def [of "validateRequest _ _ _ _ _ _ _"] t_bind_def [of "validateStagedTrustCertificate _ _ _"])
qed


section \<open>Examples\<close>

definition demo_fp :: string where "demo_fp = replicate 64 (CHR ''a'')"

definition demo_crt :: string where "demo_crt = ''helling-user-7-'' @ demo_fp @ ''.crt''"

definition demo_manifest :: trust_request_manifest where
  "demo_manifest = \<lparr>tq_action = ''register'', tq_user_id = 7, tq_fingerprint = demo_fp, tq_project = ''default'', tq_cert_basename = demo_crt\<rparr>"

definition demo_policy :: trust_policy where
  "demo_policy = \<lparr>tp_user_id = 0, tp_project = '''', tp_projects = [''default''], tp_actions = [''register'', ''revoke'']\<rparr>"

definition demo_codec :: trust_codec where
  "demo_codec = \<lparr>tc_request = (\<lambda>s. if s = ''request'' then Some demo_manifest else None),
     tc_policy = (\<lambda>s. if s = ''policy'' then Some demo_policy else None), tc_encode = (\<lambda>r. ''request''),
     tc_pem = (\<lambda>s. if s = ''pem'' then Some (''CERTIFICATE'', ''der'', '''') else None), tc_sha256 = (\<lambda>s. demo_fp)\<rparr>"

definition demo_helper :: trust_helper where
  "demo_helper = \<lparr>hl_staging = ''/s'', hl_request = ''/r'', hl_policy = ''/p'', hl_owner = None, hl_codec = demo_codec\<rparr>"

definition root_file :: "nat \<Rightarrow> string option \<Rightarrow> trust_file" where
  "root_file perm body = \<lparr>tf_symlink = None, tf_perm = perm, tf_uid = 0, tf_body = body\<rparr>"

definition demo_trust_host :: trust_host where
  "demo_trust_host = \<lparr>th_files = [''/p'' \<mapsto> root_file 493 None, ''/p/default.json'' \<mapsto> root_file 420 (Some ''policy''),
     ''/s/'' @ demo_crt \<mapsto> root_file 384 (Some ''pem'')], th_cli = [], th_faults = []\<rparr>"

definition demo_request_name :: string where "demo_request_name = request_name ''register'' 7 demo_fp ''0123456789abcdef''"

definition demo_staged_host :: trust_host where
  "demo_staged_host = demo_trust_host\<lparr>th_files := (th_files demo_trust_host)(''/r/'' @ demo_request_name \<mapsto> root_file 384 (Some ''request''))\<rparr>"

definition demo_args :: "string list" where
  "demo_args = [''register'', demo_fp, ''default'', demo_crt, demo_request_name]"

lemma demo_runs: "th_cli (snd (trust_Handle demo_helper demo_args demo_staged_host)) \<noteq> th_cli demo_staged_host"
  by code_simp

theorem trust_helper_granted_witness:
  "\<exists>uid fp project cert name. demo_args = [''register'', fp, project, cert, name] \<and>
     granted demo_helper (th_files demo_staged_host) ''register'' uid fp project cert name"
  using trust_helper_granted [OF surjective_pairing demo_runs] by (auto simp: demo_args_def)

theorem trust_request_once_witness:
  "th_cli (snd (trust_Handle demo_helper demo_args (run_trust demo_helper [demo_args, []]
     (snd (trust_Handle demo_helper demo_args demo_staged_host))))) =
   th_cli (run_trust demo_helper [demo_args, []] (snd (trust_Handle demo_helper demo_args demo_staged_host)))"
  by (rule trust_request_once [OF surjective_pairing demo_runs refl])

lemma demo_perms: "(493::nat) AND 18 = 0" "(420::nat) AND 18 = 0"
  by code_simp+

lemma demo_projects: "validateTrustPolicyProjects demo_policy"
  by code_simp

theorem staged_request_accepted_witness:
  "case stage_request demo_helper 1000 (Some ''0123456789abcdef'') ''register'' 7 demo_fp ''default'' demo_crt demo_trust_host of
     (res, h1) \<Rightarrow> fst (trust_Handle demo_helper [''register'', demo_fp, ''default'', demo_crt, demo_request_name] h1) = Inr ()"
proof -
  obtain res h1 where run: "stage_request demo_helper 1000 (Some ''0123456789abcdef'') ''register'' 7 demo_fp ''default'' demo_crt demo_trust_host = (res, h1)"
    by fastforce
  have "fst (stage_request demo_helper 1000 (Some ''0123456789abcdef'') ''register'' 7 demo_fp ''default'' demo_crt demo_trust_host) = Inr demo_request_name"
    "th_faults (snd (stage_request demo_helper 1000 (Some ''0123456789abcdef'') ''register'' 7 demo_fp ''default'' demo_crt demo_trust_host)) = []"
    by code_simp+
  then have stage: "stage_request demo_helper 1000 (Some ''0123456789abcdef'') ''register'' 7 demo_fp ''default'' demo_crt demo_trust_host
      = (Inr demo_request_name, h1)" and quiet: "th_faults h1 = []" using run by simp_all
  have files: "th_files h1 = (th_files demo_trust_host)(filepath_join (helper_requestDir demo_helper) demo_request_name \<mapsto>
      \<lparr>tf_symlink = None, tf_perm = 384, tf_uid = 1000, tf_body = Some ''request''\<rparr>)"
    using stage_request_Inr [OF stage] by (simp add: demo_helper_def demo_codec_def)
  have at: "th_files h1 ''/p'' = Some (root_file 493 None)" "th_files h1 ''/p/default.json'' = Some (root_file 420 (Some ''policy''))"
    "th_files h1 (user_policy demo_helper 7) = None" "th_files h1 (''/s/'' @ demo_crt) = Some (root_file 384 (Some ''pem''))"
    unfolding files by code_simp+
  have "policy_for demo_helper (th_files h1) 7 demo_policy"
    using at by (simp add: policy_for_def Let_def locked_json_def locked_down_def root_file_def policyDir_def policyOwnerUID_def
        filepath_join_def demo_helper_def demo_codec_def demo_perms demo_projects) (simp add: demo_policy_def)
  then have ok: "acceptable demo_helper (th_files h1) ''register'' 7 demo_fp ''default'' demo_crt"
    by (auto simp: acceptable_def Let_def demo_helper_def demo_codec_def demo_manifest_def
        intro!: exI [of _ demo_policy]) (simp_all add: demo_policy_def policyAllowsProject_def policyAllowsAction_def)
  have "trust_Handle demo_helper [''register'', demo_fp, ''default'', demo_crt, demo_request_name] h1 = (Inr (), h1\<lparr>
    th_files := (th_files h1)(filepath_join (helper_requestDir demo_helper) demo_request_name := None),
    th_cli := th_cli h1 @ [register_command demo_helper demo_fp ''default'' demo_crt (format_int 7)]\<rparr>)"
  proof (rule staged_request_accepted [OF stage _ _ _ _ ok quiet])
    show "demo_crt = ''helling-user-'' @ format_int 7 @ ''-'' @ demo_fp @ ''.crt''" by code_simp
    show "length ''0123456789abcdef'' = 16" "hex_text ''0123456789abcdef''" by code_simp+
    show "follow 41 (th_files h1) (filepath_join (helper_stagingDir demo_helper) demo_crt) = Some ''pem''"
      using at(4) by (simp add: numeral_eq_Suc helper_stagingDir_def demo_helper_def filepath_join_def root_file_def)
    show "tc_pem (hl_codec demo_helper) ''pem'' = Some (''CERTIFICATE'', ''der'', '''')" "tc_sha256 (hl_codec demo_helper) ''der'' = demo_fp"
      by (simp_all add: demo_helper_def demo_codec_def)
  qed simp_all
  then show ?thesis unfolding run by simp
qed

end
