(* ===== verification/Incus_Client.thy ===== *)
theory Incus_Client
  imports Poller Systemd_Units
begin

text \<open>
  The client of the Incus API (\<open>incus/client.go\<close>, \<open>incus/shape.go\<close>): the requests it sends over the Unix socket and
  how it reads the answers.  The socket is a parameter: it answers a request, given the requests sent before, by
  a response or the text of a transport error.  An error is its text, since the handlers look at nothing else.
\<close>

section \<open>Requests and answers\<close>

datatype jval = JString string | JBool bool | JInt int | JObject "(string \<times> jval) list"

record http_request =
  hq_method :: string
  hq_path :: string                        \<comment> \<open>path and query\<close>
  hq_body :: "jval option"

record http_answer =
  ha_status :: nat
  ha_body :: "string + string"             \<comment> \<open>\<open>io.ReadAll\<close>\<close>
  ha_location :: string                    \<comment> \<open>the header \<open>Location\<close>\<close>

record incus_response =
  ir_metadata :: string                    \<comment> \<open>\<open>json.RawMessage\<close>\<close>
  ir_error :: string

record incus_operation =
  io_id :: string
  io_status :: string
  io_err :: string

text \<open>An instance as Incus sends it.  The field \<open>Config\<close> has the tag \<open>json:"-"\<close>: decoding never sets it.\<close>

record instance_json =
  ij_name :: string
  ij_type :: string
  ij_status :: string
  ij_image :: string
  ij_architecture :: string
  ij_created_at :: gotime
  ij_ipv4 :: "string list"
  ij_ipv6 :: "string list"

record incus_instance = instance_json +
  ij_config :: "string \<rightharpoonup> string"

text \<open>\<open>encoding/json\<close> into the types of the client, each with the text of its error, and \<open>unicode.IsPrint\<close>
  outside ASCII.\<close>

record incus_codec =
  ic_envelope :: "string \<Rightarrow> string + incus_response"
  ic_operation :: "string \<Rightarrow> string + incus_operation"
  ic_instance :: "string \<Rightarrow> string + instance_json"
  ic_instances :: "string \<Rightarrow> string + instance_json list"
  ic_string :: "string \<Rightarrow> string option"
  ic_printable :: "nat \<Rightarrow> bool"

record incus_client =
  cl_codec :: incus_codec
  cl_send :: "http_request list \<Rightarrow> http_request \<Rightarrow> string + http_answer"

text \<open>A call of the client extends the log of requests sent.\<close>

type_synonym 'a icall = "http_request list \<Rightarrow> (string + 'a) \<times> http_request list"

definition ic_wrap :: "string \<Rightarrow> 'a icall \<Rightarrow> 'a icall" where
  "ic_wrap what m log = (case m log of (Inl e, log) \<Rightarrow> (Inl (what @ '': '' @ e), log) | (Inr x, log) \<Rightarrow> (Inr x, log))"

section \<open>url.PathEscape and strconv.Quote\<close>

definition lower_hex :: "nat \<Rightarrow> char" where
  "lower_hex n = (if n < 10 then char_of (48 + n) else char_of (87 + n))"

text \<open>The bytes \<open>url.PathEscape\<close> leaves as they are.\<close>

definition path_safe :: "char \<Rightarrow> bool" where
  "path_safe c \<longleftrightarrow> in_range 97 122 c \<or> in_range 65 90 c \<or> in_range 48 57 c \<or> c \<in> set ''-_.~$&+:=@''"

definition escape_byte :: "char \<Rightarrow> string" where
  "escape_byte c = (if path_safe c then [c] else [CHR ''%'', upper_hex (byte c div 16), upper_hex (byte c mod 16)])"

definition pathEscape :: "string \<Rightarrow> string" where
  "pathEscape s = concat (map escape_byte s)"

text \<open>\<open>n\<close> lower-case hexadecimal digits of a number.\<close>

fun hex_digits :: "nat \<Rightarrow> nat \<Rightarrow> string" where
  "hex_digits 0 v = []"
| "hex_digits (Suc n) v = hex_digits n (v div 16) @ [lower_hex (v mod 16)]"

definition backslash :: char where "backslash = char_of (92::nat)"

definition escape_rune :: "(nat \<Rightarrow> bool) \<Rightarrow> nat \<Rightarrow> string \<Rightarrow> string" where
  "escape_rune printable r enc =
     (if r = 34 \<or> r = 92 then backslash # enc
      else if (if r < 128 then 32 \<le> r \<and> r < 127 else printable r) then enc
      else if r = 7 then backslash # ''a'' else if r = 8 then backslash # ''b''
      else if r = 12 then backslash # ''f'' else if r = 10 then backslash # ''n''
      else if r = 13 then backslash # ''r'' else if r = 9 then backslash # ''t''
      else if r = 11 then backslash # ''v''
      else if r < 32 \<or> r = 127 then backslash # ''x'' @ hex_digits 2 r
      else if r < 65536 then backslash # ''u'' @ hex_digits 4 r
      else backslash # ''U'' @ hex_digits 8 r)"

function quote_body :: "(nat \<Rightarrow> bool) \<Rightarrow> string \<Rightarrow> string" where
  "quote_body printable s = (if s = [] then [] else
     case decode_rune s of (r, w) \<Rightarrow>
       (if w = 1 \<and> r = rune_error then backslash # ''x'' @ hex_digits 2 (byte (hd s))
        else escape_rune printable r (take w s)) @ quote_body printable (drop w s))"
  by pat_completeness auto
termination
proof (relation "measure (length \<circ> snd)")
  fix printable s r w
  assume "s \<noteq> ([]::string)" "(r, w) = decode_rune s"
  then have "0 < w" using decode_rune_width_pos [of s] by (metis snd_conv)
  then show "((printable, drop w s), printable, s) \<in> measure (length \<circ> snd)"
    using \<open>s \<noteq> []\<close> by simp
qed simp

declare quote_body.simps [simp del]

definition quoted :: "incus_client \<Rightarrow> string \<Rightarrow> string" where
  "quoted cl s = CHR 0x22 # quote_body (ic_printable (cl_codec cl)) s @ [CHR 0x22]"

section \<open>Reading an answer\<close>

definition incusHTTPError :: "incus_codec \<Rightarrow> nat \<Rightarrow> string \<Rightarrow> string" where
  "incusHTTPError codec status body = ''incus http '' @ format_int (int status) @ '': '' @
     (case ic_envelope codec body of
        Inr env \<Rightarrow> if ir_error env \<noteq> '''' then ir_error env else trim_space body
      | Inl _ \<Rightarrow> trim_space body)"

text \<open>
  \<open>decode\<close> is \<open>json.Unmarshal\<close> into \<open>out\<close>, \<open>by_url\<close> what an operation gets when the metadata is the text of a URL.
  The result is \<open>out\<close>, \<open>None\<close> where it keeps its zero value, and the header \<open>Location\<close>.
\<close>

definition decodeResponse ::
  "incus_codec \<Rightarrow> (string \<Rightarrow> string + 'a) \<Rightarrow> (string \<Rightarrow> 'a) option \<Rightarrow> http_answer \<Rightarrow> string + ('a option \<times> string)" where
  "decodeResponse codec decode by_url resp = (case ha_body resp of
     Inl e \<Rightarrow> Inl (''read response: '' @ e)
   | Inr raw \<Rightarrow>
       if ha_status resp < 200 \<or> 300 \<le> ha_status resp then Inl (incusHTTPError codec (ha_status resp) raw)
       else if raw = '''' then Inr (None, ha_location resp)
       else (case ic_envelope codec raw of
         Inl e \<Rightarrow> Inl (''decode response envelope: '' @ e)
       | Inr env \<Rightarrow>
           if ir_metadata env = '''' \<or> ir_metadata env = ''null'' then Inr (None, ha_location resp)
           else (case decode (ir_metadata env) of
             Inr x \<Rightarrow> Inr (Some x, ha_location resp)
           | Inl e \<Rightarrow> (case (ic_string codec (ir_metadata env), by_url) of
               (Some url, Some f) \<Rightarrow> Inr (Some (f url), ha_location resp)
             | _ \<Rightarrow> Inl (''decode response metadata: '' @ e)))))"

definition operationIDFromLocation :: "string \<Rightarrow> string" where
  "operationIDFromLocation location = (if location = '''' then ''''
     else filepath_base (rev (dropWhile (\<lambda>c. c = CHR ''/'') (rev location))))"

definition doWithLocation ::
  "incus_client \<Rightarrow> (string \<Rightarrow> string + 'a) \<Rightarrow> (string \<Rightarrow> 'a) option \<Rightarrow> http_request \<Rightarrow> ('a option \<times> string) icall" where
  "doWithLocation cl decode by_url req log =
     (case cl_send cl log req of
        Inl e \<Rightarrow> Inl e
      | Inr resp \<Rightarrow> decodeResponse (cl_codec cl) decode by_url resp, log @ [req])"

text \<open>An operation, also from the text of a URL; what is missing is empty.\<close>

definition operation_by_url :: "string \<Rightarrow> incus_operation" where
  "operation_by_url url = \<lparr>io_id = operationIDFromLocation url, io_status = '''', io_err = ''''\<rparr>"

definition no_operation :: incus_operation where
  "no_operation = \<lparr>io_id = '''', io_status = '''', io_err = ''''\<rparr>"

definition or_zero :: "'a \<Rightarrow> 'a option \<Rightarrow> 'a" where
  "or_zero z x = (case x of None \<Rightarrow> z | Some v \<Rightarrow> v)"

definition doOperation :: "incus_client \<Rightarrow> http_request \<Rightarrow> string icall" where
  "doOperation cl req log =
     (case doWithLocation cl (ic_operation (cl_codec cl)) (Some operation_by_url) req log of
        (Inl e, log) \<Rightarrow> (Inl e, log)
      | (Inr (op, location), log) \<Rightarrow>
          (let i = io_id (or_zero no_operation op)
           in Inr (if i = '''' then operationIDFromLocation location else i), log))"

section \<open>The operations of the client\<close>

definition http_get :: "string \<Rightarrow> http_request" where
  "http_get path = \<lparr>hq_method = ''GET'', hq_path = path, hq_body = None\<rparr>"

definition instance_path :: "string \<Rightarrow> string" where
  "instance_path name = ''/1.0/instances/'' @ pathEscape name"

text \<open>\<open>InstanceCreate\<close>.\<close>

record instance_create =
  ic_name :: string
  ic_type :: string
  ic_image :: string
  ic_start :: bool

definition with_config :: "instance_json \<Rightarrow> incus_instance" where
  "with_config j = instance_json.extend j \<lparr>ij_config = Map.empty\<rparr>"

definition zero_instance :: incus_instance where
  "zero_instance = \<lparr>ij_name = '''', ij_type = '''', ij_status = '''', ij_image = '''', ij_architecture = '''',
     ij_created_at = - 62135596800 * second, ij_ipv4 = [], ij_ipv6 = [], ij_config = Map.empty\<rparr>"

definition client_ListInstances :: "incus_client \<Rightarrow> incus_instance list icall" where
  "client_ListInstances cl = ic_wrap ''listing instances'' (\<lambda>log.
     case doWithLocation cl (ic_instances (cl_codec cl)) None (http_get ''/1.0/instances?recursion=1'') log of
       (Inl e, log) \<Rightarrow> (Inl e, log)
     | (Inr (out, _), log) \<Rightarrow> (Inr (map with_config (or_zero [] out)), log))"

definition client_GetInstance :: "incus_client \<Rightarrow> string \<Rightarrow> incus_instance icall" where
  "client_GetInstance cl name = ic_wrap (''getting instance '' @ quoted cl name) (\<lambda>log.
     case doWithLocation cl (ic_instance (cl_codec cl)) None (http_get (instance_path name)) log of
       (Inl e, log) \<Rightarrow> (Inl e, log)
     | (Inr (out, _), log) \<Rightarrow> (Inr (or_zero zero_instance (map_option with_config out)), log))"

definition create_request :: "instance_create \<Rightarrow> http_request" where
  "create_request req = \<lparr>hq_method = ''POST'', hq_path = ''/1.0/instances'',
     hq_body = Some (JObject [(''name'', JString (ic_name req)), (''type'', JString (ic_type req)),
       (''source'', JObject [(''type'', JString ''image''), (''alias'', JString (ic_image req))]),
       (''start'', JBool (ic_start req))])\<rparr>"

definition client_CreateInstance :: "incus_client \<Rightarrow> instance_create \<Rightarrow> string icall" where
  "client_CreateInstance cl req =
     ic_wrap (''creating instance '' @ quoted cl (ic_name req)) (doOperation cl (create_request req))"

definition state_request :: "string \<Rightarrow> string \<Rightarrow> bool \<Rightarrow> int \<Rightarrow> http_request" where
  "state_request name action force timeoutSec = \<lparr>hq_method = ''PUT'', hq_path = instance_path name @ ''/state'',
     hq_body = Some (JObject [(''action'', JString action), (''force'', JBool force),
       (''timeout'', JInt timeoutSec), (''stateful'', JBool False)])\<rparr>"

definition client_UpdateInstanceState :: "incus_client \<Rightarrow> string \<Rightarrow> string \<Rightarrow> bool \<Rightarrow> int \<Rightarrow> string icall" where
  "client_UpdateInstanceState cl name action force timeoutSec =
     ic_wrap (''updating instance '' @ quoted cl name @ '' state to '' @ quoted cl action)
       (doOperation cl (state_request name action force timeoutSec))"

definition delete_request :: "string \<Rightarrow> http_request" where
  "delete_request name = \<lparr>hq_method = ''DELETE'', hq_path = instance_path name, hq_body = None\<rparr>"

definition client_DeleteInstance :: "incus_client \<Rightarrow> string \<Rightarrow> string icall" where
  "client_DeleteInstance cl name = ic_wrap (''deleting instance '' @ quoted cl name) (doOperation cl (delete_request name))"

definition client_CreateInstanceBackup :: "incus_client \<Rightarrow> string \<Rightarrow> string \<Rightarrow> string icall" where
  "client_CreateInstanceBackup cl name backupName =
     ic_wrap (''creating instance '' @ quoted cl name @ '' backup '' @ quoted cl backupName)
       (doOperation cl \<lparr>hq_method = ''POST'', hq_path = instance_path name @ ''/backups'',
          hq_body = Some (JObject [(''name'', JString backupName)])\<rparr>)"

definition client_CreateInstanceSnapshot :: "incus_client \<Rightarrow> string \<Rightarrow> string \<Rightarrow> string icall" where
  "client_CreateInstanceSnapshot cl name snapshotName =
     ic_wrap (''creating instance '' @ quoted cl name @ '' snapshot '' @ quoted cl snapshotName)
       (doOperation cl \<lparr>hq_method = ''POST'', hq_path = instance_path name @ ''/snapshots'',
          hq_body = Some (JObject [(''name'', JString snapshotName), (''stateful'', JBool False)])\<rparr>)"

text \<open>\<open>GetOperation\<close>; its request for an id is the one \<open>operation_request\<close> gives.\<close>

definition operation_request :: "string \<Rightarrow> http_request" where
  "operation_request i = http_get (''/1.0/operations/'' @ pathEscape i)"

definition client_GetOperation :: "incus_client \<Rightarrow> string \<Rightarrow> (incus_status \<times> string) icall" where
  "client_GetOperation cl i log =
     (if i = '''' then (Inr (IncusUnknown, ''''), log)
      else ic_wrap (''get incus operation '' @ i) (\<lambda>log.
        case doWithLocation cl (ic_operation (cl_codec cl)) (Some operation_by_url) (operation_request i) log of
          (Inl e, log) \<Rightarrow> (Inl e, log)
        | (Inr (out, _), log) \<Rightarrow>
            (let op = or_zero no_operation out in Inr (incus_status_of (io_status op), io_err op), log)) log)"

section \<open>ToInstance\<close>

definition ToInstance :: "incus_instance \<Rightarrow> incus_instance" where
  "ToInstance i = \<lparr>ij_name = ij_name i, ij_type = ij_type i, ij_status = to_lower (ij_status i),
     ij_image = (case ij_config i ''image.alias'' of Some alias \<Rightarrow> alias
       | None \<Rightarrow> (case ij_config i ''volatile.base_image'' of Some fp \<Rightarrow> fp | None \<Rightarrow> ij_image i)),
     ij_architecture = ij_architecture i, ij_created_at = ij_created_at i, ij_ipv4 = ij_ipv4 i, ij_ipv6 = ij_ipv6 i,
     ij_config = Map.empty\<rparr>"

end
