(* ===== verification/Server_Instances.thy ===== *)
theory Server_Instances
  imports Incus_Client Server_Core
begin

text \<open>
  The instance endpoints (\<open>server/instance_handlers.go\<close>).  Their state is the server and the log of requests sent to
  Incus over the administrator's socket; \<open>UserFromContext\<close> is the field \<open>rq_user\<close> of the request.
\<close>

record inode =
  in_server :: server
  in_log :: "http_request list"

record inst_env =
  ix_now :: gotime
  ix_uuid :: "string option"
  ix_incus :: "incus_client option"

definition on_incus :: "'a icall \<Rightarrow> (string + 'a \<Rightarrow> inode \<Rightarrow> 'b \<times> inode) \<Rightarrow> inode \<Rightarrow> 'b \<times> inode" where
  "on_incus m k s = (case m (in_log s) of (r, log) \<Rightarrow> k r (s\<lparr>in_log := log\<rparr>))"

definition on_inst_db :: "'a dbm \<Rightarrow> ('a res \<Rightarrow> inode \<Rightarrow> 'b \<times> inode) \<Rightarrow> inode \<Rightarrow> 'b \<times> inode" where
  "on_inst_db m k s = (case m (sv_db (in_server s)) of (r, d) \<Rightarrow> k r (s\<lparr>in_server := (in_server s)\<lparr>sv_db := d\<rparr>\<rparr>))"

section \<open>Requests and answers\<close>

definition instanceNamePattern :: "string \<Rightarrow> bool" where
  "instanceNamePattern name \<longleftrightarrow> (case name of [] \<Rightarrow> False
   | c # cs \<Rightarrow> (in_range 97 122 c \<or> in_range 48 57 c) \<and> length cs \<le> 62 \<and>
       list_all (\<lambda>c. in_range 97 122 c \<or> in_range 48 57 c \<or> c = CHR ''-'') cs)"

definition validInstanceName :: "string \<Rightarrow> bool" where
  "validInstanceName name = instanceNamePattern name"

record instance_create_request =
  ir_name :: string
  ir_type :: string
  ir_image :: string
  ir_start :: bool

text \<open>What \<open>Decode\<close> leaves in the request, its error being ignored.\<close>

record instance_stop_request =
  is_force :: bool
  is_timeout_seconds :: int

record operation_response =
  or_id :: string
  or_kind :: string
  or_target :: string
  or_status :: op_status
  or_created_at :: gotime
  or_updated_at :: gotime
  or_error :: "string option"

definition toOperationResponse :: "operation \<Rightarrow> operation_response" where
  "toOperationResponse op = \<lparr>or_id = op_id op, or_kind = op_kind op, or_target = op_target op, or_status = op_status op,
     or_created_at = op_created_at op, or_updated_at = op_updated_at op,
     or_error = (if op_error op \<noteq> '''' then Some (op_error op) else None)\<rparr>"

datatype instance_body = InstancesBody "incus_instance list" | InstanceBody incus_instance | AcceptedBody operation_response

section \<open>Errors of Incus, by their text\<close>

definition isNotFound :: "string \<Rightarrow> bool" where
  "isNotFound e = contains_str (to_lower e) ''not found''"

definition isAlreadyExists :: "string \<Rightarrow> bool" where
  "isAlreadyExists e = contains_str (to_lower e) ''already exists''"

text \<open>No error of the client is \<open>store.ErrNotFound\<close>.\<close>

definition isConflict :: "string \<Rightarrow> bool" where
  "isConflict e \<longleftrightarrow> contains_str (to_lower e) ''conflict'' \<or> contains_str (to_lower e) ''already running'' \<or>
     contains_str (to_lower e) ''already stopped''"

section \<open>Handlers\<close>

definition incusClientForRequest :: "inst_env \<Rightarrow> request \<Rightarrow> instance_body response + incus_client" where
  "incusClientForRequest env r =
     (if (case rq_user r of Some u \<Rightarrow> \<not> u_is_admin u | None \<Rightarrow> False)
      then Inl (writeError 403 ''forbidden'' ''non-admin Incus access must use the delegated /api/incus proxy'')
      else case ix_incus env of
        None \<Rightarrow> Inl (writeError 503 ''incus_unavailable'' ''Incus client not configured'')
      | Some cl \<Rightarrow> Inr cl)"

definition handleListInstances :: "inst_env \<Rightarrow> request \<Rightarrow> string \<Rightarrow> inode \<Rightarrow> instance_body response \<times> inode" where
  "handleListInstances env r status s = (case incusClientForRequest env r of
     Inl resp \<Rightarrow> (resp, s)
   | Inr cl \<Rightarrow> on_incus (client_ListInstances cl) (\<lambda>res s. case res of
       Inl e \<Rightarrow> (writeError 502 ''incus_error'' ''could not list instances'', s)
     | Inr raw \<Rightarrow> let want = to_lower status in
         (writeJSON 200 (InstancesBody (filter (\<lambda>i. want = '''' \<or> ij_status i = want) (map ToInstance raw))), s)) s)"

definition handleGetInstance :: "inst_env \<Rightarrow> request \<Rightarrow> string \<Rightarrow> inode \<Rightarrow> instance_body response \<times> inode" where
  "handleGetInstance env r name s = (case incusClientForRequest env r of
     Inl resp \<Rightarrow> (resp, s)
   | Inr cl \<Rightarrow>
       if \<not> validInstanceName name then (writeError 400 ''bad_request'' ''invalid instance name'', s)
       else on_incus (client_GetInstance cl name) (\<lambda>res s. case res of
         Inl e \<Rightarrow> (writeError 404 ''not_found'' ''instance not found'', s)
       | Inr i \<Rightarrow> (writeJSON 200 (InstanceBody (ToInstance i)), s)) s)"

text \<open>The end of the four handlers that change an instance: the row of the operation Incus accepted.\<close>

definition record_operation ::
  "inst_env \<Rightarrow> user \<Rightarrow> string \<Rightarrow> string \<Rightarrow> string \<Rightarrow> inode \<Rightarrow> instance_body response \<times> inode" where
  "record_operation env u kind target op =
     on_inst_db (CreateOperation (ix_now env) (ix_uuid env) (u_id u) kind target op) (\<lambda>res s. case res of
       Inl e \<Rightarrow> (internalError, s)
     | Inr dbop \<Rightarrow> (writeJSON 202 (AcceptedBody (toOperationResponse dbop)), s))"

definition handleCreateInstance ::
  "inst_env \<Rightarrow> request \<Rightarrow> instance_create_request option \<Rightarrow> inode \<Rightarrow> instance_body response \<times> inode" where
  "handleCreateInstance env r body s = (case incusClientForRequest env r of
     Inl resp \<Rightarrow> (resp, s)
   | Inr cl \<Rightarrow> (case rq_user r of
       None \<Rightarrow> (writeError 401 ''no_session'' ''no session'', s)
     | Some u \<Rightarrow> (case body of
         None \<Rightarrow> (writeError 400 ''bad_request'' ''invalid JSON body'', s)
       | Some req \<Rightarrow>
           if ir_name req = '''' \<or> ir_image req = '''' then (writeError 400 ''bad_request'' ''name and image are required'', s)
           else if \<not> validInstanceName (ir_name req) then (writeError 400 ''bad_request'' ''invalid instance name'', s)
           else let ty = (if ir_type req = '''' then ''container'' else ir_type req) in
             if ty \<noteq> ''container'' \<and> ty \<noteq> ''virtual-machine''
             then (writeError 400 ''bad_request'' ''type must be container or virtual-machine'', s)
             else on_incus (client_CreateInstance cl
                 \<lparr>ic_name = ir_name req, ic_type = ty, ic_image = ir_image req, ic_start = ir_start req\<rparr>) (\<lambda>res s. case res of
               Inl e \<Rightarrow> (if isAlreadyExists e then writeError 409 ''conflict'' ''instance already exists''
                        else writeError 502 ''incus_error'' ''could not create instance'', s)
             | Inr op \<Rightarrow> record_operation env u ''instance.create'' (ir_name req) op s) s)))"

definition handleDeleteInstance :: "inst_env \<Rightarrow> request \<Rightarrow> string \<Rightarrow> inode \<Rightarrow> instance_body response \<times> inode" where
  "handleDeleteInstance env r name s = (case incusClientForRequest env r of
     Inl resp \<Rightarrow> (resp, s)
   | Inr cl \<Rightarrow> (case rq_user r of
       None \<Rightarrow> (writeError 401 ''no_session'' ''no session'', s)
     | Some u \<Rightarrow>
         if \<not> validInstanceName name then (writeError 400 ''bad_request'' ''invalid instance name'', s)
         else on_incus (client_DeleteInstance cl name) (\<lambda>res s. case res of
           Inl e \<Rightarrow> (if isNotFound e then writeError 404 ''not_found'' ''instance not found''
                    else writeError 502 ''incus_error'' ''could not delete instance'', s)
         | Inr op \<Rightarrow> record_operation env u ''instance.delete'' name op s) s))"

definition handleInstanceStateChange ::
  "inst_env \<Rightarrow> request \<Rightarrow> string \<Rightarrow> string \<Rightarrow> bool \<Rightarrow> int \<Rightarrow> string \<Rightarrow> inode \<Rightarrow> instance_body response \<times> inode" where
  "handleInstanceStateChange env r name action force timeoutSec kind s = (case incusClientForRequest env r of
     Inl resp \<Rightarrow> (resp, s)
   | Inr cl \<Rightarrow> (case rq_user r of
       None \<Rightarrow> (writeError 401 ''no_session'' ''no session'', s)
     | Some u \<Rightarrow>
         if \<not> validInstanceName name then (writeError 400 ''bad_request'' ''invalid instance name'', s)
         else on_incus (client_UpdateInstanceState cl name action force timeoutSec) (\<lambda>res s. case res of
           Inl e \<Rightarrow> (if isNotFound e then writeError 404 ''not_found'' ''instance not found''
                    else if isConflict e then writeError 409 ''conflict'' ''instance state conflict''
                    else writeError 502 ''incus_error'' ''could not change instance state'', s)
         | Inr op \<Rightarrow> record_operation env u kind name op s) s))"

definition handleStartInstance :: "inst_env \<Rightarrow> request \<Rightarrow> string \<Rightarrow> inode \<Rightarrow> instance_body response \<times> inode" where
  "handleStartInstance env r name = handleInstanceStateChange env r name ''start'' False 0 ''instance.start''"

definition handleStopInstance ::
  "inst_env \<Rightarrow> request \<Rightarrow> string \<Rightarrow> instance_stop_request \<Rightarrow> inode \<Rightarrow> instance_body response \<times> inode" where
  "handleStopInstance env r name req =
     handleInstanceStateChange env r name ''stop'' (is_force req)
       (if is_timeout_seconds req \<le> 0 then 30 else is_timeout_seconds req) ''instance.stop''"

section \<open>A call of one of the endpoints\<close>

datatype instance_call =
    ListInstances string
  | GetInstance string
  | CreateInstance "instance_create_request option"
  | DeleteInstance string
  | StartInstance string
  | StopInstance string instance_stop_request

fun serve_instance :: "inst_env \<Rightarrow> request \<Rightarrow> instance_call \<Rightarrow> inode \<Rightarrow> instance_body response \<times> inode" where
  "serve_instance env r (ListInstances status) = handleListInstances env r status"
| "serve_instance env r (GetInstance name) = handleGetInstance env r name"
| "serve_instance env r (CreateInstance body) = handleCreateInstance env r body"
| "serve_instance env r (DeleteInstance name) = handleDeleteInstance env r name"
| "serve_instance env r (StartInstance name) = handleStartInstance env r name"
| "serve_instance env r (StopInstance name req) = handleStopInstance env r name req"

end
