(* ===== verification/Server_Instances_Props.thy ===== *)
theory Server_Instances_Props
  imports Server_Instances Server_Routes
begin

text \<open>
  What the instance endpoints guarantee: which requests reach Incus and for whom, that an operation Incus accepts
  is recorded, what a failure is reported as, and that the poller later asks for the operation Incus named.
\<close>

section \<open>Path segments\<close>

lemma pathEscape_append: "pathEscape (a @ b) = pathEscape a @ pathEscape b"
  by (simp add: pathEscape_def)

lemma pathEscape_safe: "list_all path_safe s \<Longrightarrow> pathEscape s = s"
  by (induction s) (simp_all add: pathEscape_def escape_byte_def)

lemma byte_eq: "byte c = byte d \<longleftrightarrow> c = d"
  by (simp add: byte_def)

lemma path_safe_byte: "path_safe c \<longleftrightarrow> (97 \<le> byte c \<and> byte c \<le> 122) \<or> (65 \<le> byte c \<and> byte c \<le> 90) \<or> (48 \<le> byte c \<and> byte c \<le> 57)
    \<or> byte c \<in> {45, 95, 46, 126, 36, 38, 43, 58, 61, 64}"
proof -
  have "c \<in> set ''-_.~$&+:=@'' \<longleftrightarrow> byte c \<in> byte ` set ''-_.~$&+:=@''"
    by (auto simp: byte_eq)
  then show ?thesis by (simp add: path_safe_def in_range_def byte_def)
qed

text \<open>What the other side decodes: \<open>%XX\<close> is a byte, any other character itself.\<close>

definition hex_value :: "char \<Rightarrow> nat" where
  "hex_value c = (if byte c < 58 then byte c - 48 else byte c - 55)"

fun path_unescape :: "string \<Rightarrow> string" where
  "path_unescape (c # s) = (if c = CHR ''%'' then
     (case s of a # b # t \<Rightarrow> char_of (16 * hex_value a + hex_value b) # path_unescape t | _ \<Rightarrow> []) else c # path_unescape s)"
| "path_unescape [] = []"

lemma hex_value_upper: "n < 16 \<Longrightarrow> hex_value (upper_hex n) = n"
  by (auto simp: hex_value_def upper_hex_def byte_def)

lemma unescape_escape_byte: "path_unescape (escape_byte c @ s) = c # path_unescape s"
proof (cases "path_safe c")
  case True
  then have "c \<noteq> CHR ''%''" by (auto simp: path_safe_byte byte_def)
  then show ?thesis using True by (simp add: escape_byte_def)
next
  case False
  have "byte c div 16 < 16" using byte_less [of c] by linarith
  moreover have "16 * (byte c div 16) + byte c mod 16 = byte c" by simp
  ultimately show ?thesis using False by (simp add: escape_byte_def hex_value_upper) (simp add: byte_def)
qed

lemma unescape_escape: "path_unescape (pathEscape s) = s"
  by (induction s) (simp_all add: pathEscape_def unescape_escape_byte)

lemma upper_hex_safe: "n < 16 \<Longrightarrow> path_safe (upper_hex n)"
  by (auto simp: path_safe_byte upper_hex_def byte_def)

lemma escaped_bytes: "list_all (\<lambda>c. path_safe c \<or> c = CHR ''%'') (pathEscape s)"
proof (induction s)
  case (Cons c s)
  have "byte c div 16 < 16" using byte_less [of c] by linarith
  then have "list_all (\<lambda>c. path_safe c \<or> c = CHR ''%'') (escape_byte c)"
    by (simp add: escape_byte_def upper_hex_safe)
  then show ?case using Cons by (simp add: pathEscape_def)
qed (simp add: pathEscape_def)

section \<open>Names\<close>

lemma name_safe:
  assumes "validInstanceName name"
  shows "list_all path_safe name" "name \<noteq> []" "list_all (\<lambda>c. in_range 97 122 c \<or> in_range 48 57 c \<or> c = CHR ''-'') name"
  using assms
  by (auto simp: validInstanceName_def instanceNamePattern_def path_safe_def list_all_iff split: list.splits)

lemma instance_path_valid: "validInstanceName name \<Longrightarrow> instance_path name = ''/1.0/instances/'' @ name"
  by (simp add: instance_path_def pathEscape_safe name_safe)

section \<open>The calls of the client\<close>

text \<open>A client call sends one request, whatever comes back.\<close>

lemma ic_wrap_log: "snd (ic_wrap what m log) = snd (m log)"
  by (simp add: ic_wrap_def split: prod.split sum.split)

lemma ic_wrap_Inr: "ic_wrap what m log = (Inr x, log') \<longleftrightarrow> m log = (Inr x, log')"
  by (auto simp: ic_wrap_def split: prod.split sum.split)

lemma ic_wrap_Inl: "ic_wrap what m log = (Inl e, log') \<longleftrightarrow> (\<exists>e'. m log = (Inl e', log') \<and> e = what @ '': '' @ e')"
  by (auto simp: ic_wrap_def split: prod.split sum.split)

lemma doOperation_log [simp]: "snd (doOperation cl q log) = log @ [q]"
  by (simp add: doOperation_def doWithLocation_def Let_def split: prod.split sum.split)

lemma doOperation_sends: "doOperation cl q log = (res, log') \<Longrightarrow> log' = log @ [q]"
  using doOperation_log [of cl q log] by simp

lemma list_log: "snd (client_ListInstances cl log) = log @ [http_get ''/1.0/instances?recursion=1'']"
  by (simp add: client_ListInstances_def ic_wrap_log doWithLocation_def split: prod.split sum.split)

lemma get_log: "snd (client_GetInstance cl name log) = log @ [http_get (instance_path name)]"
  by (simp add: client_GetInstance_def ic_wrap_log doWithLocation_def split: prod.split sum.split)

lemmas change_defs = client_CreateInstance_def client_DeleteInstance_def client_UpdateInstanceState_def

lemma on_incusE:
  assumes "on_incus m k s = (resp, s')"
  obtains r log where "m (in_log s) = (r, log)" "k r (s\<lparr>in_log := log\<rparr>) = (resp, s')"
  using assms by (cases "m (in_log s)") (auto simp: on_incus_def)

lemma client_for:
  assumes "incusClientForRequest env r = Inr cl"
  shows "ix_incus env = Some cl \<and> (\<forall>u. rq_user r = Some u \<longrightarrow> u_is_admin u)"
  using assms by (auto simp: incusClientForRequest_def split: if_splits option.splits)

lemma client_refused:
  assumes "incusClientForRequest env r = Inl resp"
  shows "rs_status resp \<in> {403, 503}"
  using assms by (auto simp: incusClientForRequest_def split: if_splits option.splits)

section \<open>Recording an operation\<close>

definition accepted_row :: "inst_env \<Rightarrow> user \<Rightarrow> string \<Rightarrow> string \<Rightarrow> string \<Rightarrow> string \<Rightarrow> operation" where
  "accepted_row env u kind target op i = \<lparr>op_id = i, op_user_id = u_id u, op_kind = kind, op_target = target,
     op_incus_op_id = op, op_status = OpPending, op_error = '''', op_created_at = ix_now env, op_updated_at = ix_now env\<rparr>"

text \<open>The store can take the row: an id was drawn that no operation has, the user still exists, and the statement is
  not the next one to fail.\<close>

definition storable :: "inst_env \<Rightarrow> user \<Rightarrow> db \<Rightarrow> bool" where
  "storable env u d \<longleftrightarrow> (\<exists>i. ix_uuid env = Some i \<and> tget op_id i (operations d) = None) \<and>
     tget u_id (u_id u) (users d) \<noteq> None \<and> \<not> hd (faults d @ [False])"

text \<open>Answered 202 with exactly the row added when the store can take it, and otherwise 500 with the data as it was.\<close>

definition recorded ::
  "inst_env \<Rightarrow> user \<Rightarrow> string \<Rightarrow> string \<Rightarrow> string \<Rightarrow> instance_body response \<Rightarrow> db \<Rightarrow> db \<Rightarrow> bool" where
  "recorded env u kind target op resp d d' \<longleftrightarrow>
     (if storable env u d
      then \<exists>i. ix_uuid env = Some i \<and> resp = writeJSON 202 (AcceptedBody (toOperationResponse (accepted_row env u kind target op i))) \<and>
        same_data (d\<lparr>operations := operations d @ [(accepted_row env u kind target op i)
          \<lparr>op_created_at := to_unix (ix_now env), op_updated_at := to_unix (ix_now env)\<rparr>]\<rparr>) d'
      else resp = internalError \<and> same_data d d')"

lemma CreateOperation_data:
  assumes "CreateOperation (ix_now env) (ix_uuid env) (u_id u) kind target op d = (r, d')"
  shows "if storable env u d
    then \<exists>i. ix_uuid env = Some i \<and> r = Inr (accepted_row env u kind target op i) \<and>
      same_data (d\<lparr>operations := operations d @ [(accepted_row env u kind target op i)
        \<lparr>op_created_at := to_unix (ix_now env), op_updated_at := to_unix (ix_now env)\<rparr>]\<rparr>) d'
    else (\<exists>e. r = Inl e) \<and> same_data d d'"
proof (cases "ix_uuid env")
  case None
  then show ?thesis using assms by (auto simp: CreateOperation_def with_uuid_def dfail_def storable_def)
next
  case (Some i)
  let ?w = "accepted_row env u kind target op i"
  let ?f = "\<lambda>d. if tget op_id i (operations d) \<noteq> None then (Inl ErrUnique, d)
         else if tget u_id (u_id u) (users d) = None then (Inl ErrForeignKey, d)
         else (Inr (), d\<lparr>operations := operations d @
           [?w\<lparr>op_created_at := to_unix (ix_now env), op_updated_at := to_unix (ix_now env)\<rparr>]\<rparr>)"
  have run: "dbind (stmt ?f) (\<lambda>_. dret ?w) d = (r, d')"
    using assms by (simp only: CreateOperation_def with_uuid_def accepted_row_def Let_def Some option.case)
  show ?thesis
  proof (cases "faults d")
    case Nil
    then show ?thesis using run Some
      by (auto simp: stmt_def dbind_def dret_def same_data_def content_def storable_def split: if_splits)
  next
    case (Cons b fs)
    then show ?thesis using run Some
      by (cases b) (auto simp: stmt_def dbind_def dret_def same_data_def content_def storable_def split: if_splits)
  qed
qed

lemma record_operation_outcome:
  assumes "record_operation env u kind target op s = (resp, s')"
  shows "in_log s' = in_log s \<and> in_server s' = (in_server s)\<lparr>sv_db := sv_db (in_server s')\<rparr> \<and>
    recorded env u kind target op resp (sv_db (in_server s)) (sv_db (in_server s'))"
proof -
  obtain r d' where c: "CreateOperation (ix_now env) (ix_uuid env) (u_id u) kind target op (sv_db (in_server s)) = (r, d')"
    by fastforce
  from CreateOperation_data [OF c] assms c show ?thesis
    by (cases r) (auto simp: record_operation_def on_inst_db_def recorded_def split: if_splits)
qed

section \<open>The endpoints that change an instance\<close>

fun call_kind :: "instance_call \<Rightarrow> string option" where
  "call_kind (CreateInstance _) = Some ''instance.create''"
| "call_kind (DeleteInstance _) = Some ''instance.delete''"
| "call_kind (StartInstance _) = Some ''instance.start''"
| "call_kind (StopInstance _ _) = Some ''instance.stop''"
| "call_kind _ = None"

fun call_target :: "instance_call \<Rightarrow> string" where
  "call_target (CreateInstance (Some b)) = ir_name b"
| "call_target (DeleteInstance name) = name"
| "call_target (StartInstance name) = name"
| "call_target (StopInstance name _) = name"
| "call_target (GetInstance name) = name"
| "call_target _ = ''''"

text \<open>The request a call stands for.\<close>

fun call_request :: "instance_call \<Rightarrow> http_request" where
  "call_request (ListInstances _) = http_get ''/1.0/instances?recursion=1''"
| "call_request (GetInstance name) = http_get (instance_path name)"
| "call_request (CreateInstance (Some b)) = create_request \<lparr>ic_name = ir_name b,
     ic_type = (if ir_type b = '''' then ''container'' else ir_type b), ic_image = ir_image b, ic_start = ir_start b\<rparr>"
| "call_request (CreateInstance None) = http_get ''''"
| "call_request (DeleteInstance name) = delete_request name"
| "call_request (StartInstance name) = state_request name ''start'' False 0"
| "call_request (StopInstance name req) = state_request name ''stop'' (is_force req)
     (if is_timeout_seconds req \<le> 0 then 30 else is_timeout_seconds req)"

text \<open>The call asks for something the daemon passes on: a valid name, and for a new instance an image and one of the
  two types.\<close>

fun well_formed :: "instance_call \<Rightarrow> bool" where
  "well_formed (CreateInstance None) = False"
| "well_formed (CreateInstance (Some b)) = (validInstanceName (ir_name b) \<and> ir_image b \<noteq> '''' \<and>
     ir_type b \<in> {'''', ''container'', ''virtual-machine''})"
| "well_formed call = validInstanceName (call_target call)"

lemma well_formed_name: "well_formed call \<Longrightarrow> call_kind call \<noteq> None \<Longrightarrow> validInstanceName (call_target call)"
  by (cases call rule: well_formed.cases) simp_all

text \<open>Nothing happened; or the request was sent and refused, or accepted and recorded.\<close>

definition unsent :: "instance_body response \<Rightarrow> inode \<Rightarrow> inode \<Rightarrow> bool" where
  "unsent resp s s' \<longleftrightarrow> s' = s \<and> rs_status resp \<in> {400, 401, 403, 503}"

definition submitted ::
  "inst_env \<Rightarrow> user \<Rightarrow> string \<Rightarrow> string \<Rightarrow> incus_client \<Rightarrow> http_request \<Rightarrow> instance_body response \<Rightarrow> inode \<Rightarrow> inode \<Rightarrow> bool" where
  "submitted env u kind target cl q resp s s' \<longleftrightarrow> in_log s' = in_log s @ [q] \<and>
     (case fst (doOperation cl q (in_log s)) of
        Inl _ \<Rightarrow> in_server s' = in_server s \<and> rs_status resp \<in> {404, 409, 502}
      | Inr op \<Rightarrow> in_server s' = (in_server s)\<lparr>sv_db := sv_db (in_server s')\<rparr> \<and>
          recorded env u kind target op resp (sv_db (in_server s)) (sv_db (in_server s')))"

lemma submit_outcome:
  assumes "on_incus (ic_wrap what (doOperation cl q)) (\<lambda>res s. case res of
      Inl e \<Rightarrow> (refusal e, s) | Inr op \<Rightarrow> record_operation env u kind target op s) s = (resp, s')"
    and "\<And>e. rs_status (refusal e :: instance_body response) \<in> {404, 409, 502}"
  shows "submitted env u kind target cl q resp s s'"
proof -
  obtain res log where m: "ic_wrap what (doOperation cl q) (in_log s) = (res, log)"
    and k: "(case res of Inl e \<Rightarrow> (refusal e, s\<lparr>in_log := log\<rparr>) | Inr op \<Rightarrow> record_operation env u kind target op (s\<lparr>in_log := log\<rparr>)) = (resp, s')"
    using assms(1) by (elim on_incusE)
  have log: "log = in_log s @ [q]" using m ic_wrap_log [of what "doOperation cl q" "in_log s"] by simp
  show ?thesis
  proof (cases res)
    case (Inl e)
    then obtain e' where "doOperation cl q (in_log s) = (Inl e', log)" using m by (auto simp: ic_wrap_Inl)
    then show ?thesis using k Inl log assms(2) by (auto simp: submitted_def)
  next
    case (Inr op)
    then have "doOperation cl q (in_log s) = (Inr op, log)" using m by (simp add: ic_wrap_Inr)
    then show ?thesis using k Inr log record_operation_outcome [of env u kind target op "s\<lparr>in_log := log\<rparr>" resp s']
      by (auto simp: submitted_def)
  qed
qed

text \<open>Sent when the caller is an administrator, the daemon has a client for Incus and the call is in order (\<open>ok\<close>);
  otherwise refused with nothing changed.\<close>

definition carried_out ::
  "inst_env \<Rightarrow> request \<Rightarrow> bool \<Rightarrow> string \<Rightarrow> string \<Rightarrow> http_request \<Rightarrow> instance_body response \<Rightarrow> inode \<Rightarrow> inode \<Rightarrow> bool" where
  "carried_out env r ok kind target q resp s s' \<longleftrightarrow> (case (rq_user r, ix_incus env) of
     (Some u, Some cl) \<Rightarrow> if u_is_admin u \<and> ok then submitted env u kind target cl q resp s s' else unsent resp s s'
   | _ \<Rightarrow> unsent resp s s')"

lemma carried_outI:
  assumes "\<And>cl u. incusClientForRequest env r = Inr cl \<Longrightarrow> rq_user r = Some u \<Longrightarrow> ok \<Longrightarrow>
      submitted env u kind target cl q resp s s'"
    and "\<not> (\<exists>cl u. incusClientForRequest env r = Inr cl \<and> rq_user r = Some u \<and> ok) \<Longrightarrow> unsent resp s s'"
  shows "carried_out env r ok kind target q resp s s'"
  using assms by (auto simp: carried_out_def incusClientForRequest_def split: option.splits if_splits)

lemma carried_out_cases:
  assumes "carried_out env r ok kind target q resp s s'"
  shows "unsent resp s s' \<or> (\<exists>u cl. rq_user r = Some u \<and> u_is_admin u \<and> ix_incus env = Some cl \<and> ok \<and>
    submitted env u kind target cl q resp s s')"
  using assms by (auto simp: carried_out_def split: option.splits if_splits)

text \<open>The three handlers that change an existing instance or make one, each up to its request.\<close>

lemma create_outcome:
  assumes "handleCreateInstance env r body s = (resp, s')"
  shows "carried_out env r (well_formed (CreateInstance body)) ''instance.create'' (call_target (CreateInstance body))
    (call_request (CreateInstance body)) resp s s'"
proof (rule carried_outI)
  fix cl u
  assume c: "incusClientForRequest env r = Inr cl" "rq_user r = Some u" "well_formed (CreateInstance body)"
  then obtain b where ok: "body = Some b" "ir_name b \<noteq> ''''" "ir_image b \<noteq> ''''" "validInstanceName (ir_name b)"
      "ir_type b \<in> {'''', ''container'', ''virtual-machine''}"
    using name_safe(2) by (cases body) auto
  let ?q = "call_request (CreateInstance body)"
  have "on_incus (ic_wrap (''creating instance '' @ quoted cl (ir_name b)) (doOperation cl ?q)) (\<lambda>res s. case res of
      Inl e \<Rightarrow> (if isAlreadyExists e then writeError 409 ''conflict'' ''instance already exists''
               else writeError 502 ''incus_error'' ''could not create instance'', s)
    | Inr op \<Rightarrow> record_operation env u ''instance.create'' (ir_name b) op s) s = (resp, s')"
    using assms c ok by (auto simp: handleCreateInstance_def client_CreateInstance_def Let_def)
  then have "submitted env u ''instance.create'' (ir_name b) cl ?q resp s s'"
    by (rule submit_outcome) simp
  then show "submitted env u ''instance.create'' (call_target (CreateInstance body)) cl ?q resp s s'" using ok by simp
next
  assume "\<not> (\<exists>cl u. incusClientForRequest env r = Inr cl \<and> rq_user r = Some u \<and> well_formed (CreateInstance body))"
  then show "unsent resp s s'" using assms client_refused [of env r]
    by (auto simp: handleCreateInstance_def unsent_def Let_def split: sum.splits option.splits if_splits)
qed

lemma delete_outcome:
  assumes "handleDeleteInstance env r name s = (resp, s')"
  shows "carried_out env r (validInstanceName name) ''instance.delete'' name (delete_request name) resp s s'"
proof (rule carried_outI)
  fix cl u
  assume ok: "incusClientForRequest env r = Inr cl" "rq_user r = Some u" "validInstanceName name"
  have "on_incus (ic_wrap (''deleting instance '' @ quoted cl name) (doOperation cl (delete_request name))) (\<lambda>res s. case res of
      Inl e \<Rightarrow> (if isNotFound e then writeError 404 ''not_found'' ''instance not found''
               else writeError 502 ''incus_error'' ''could not delete instance'', s)
    | Inr op \<Rightarrow> record_operation env u ''instance.delete'' name op s) s = (resp, s')"
    using assms ok by (simp add: handleDeleteInstance_def client_DeleteInstance_def)
  then show "submitted env u ''instance.delete'' name cl (delete_request name) resp s s'"
    by (rule submit_outcome) simp
next
  assume "\<not> (\<exists>cl u. incusClientForRequest env r = Inr cl \<and> rq_user r = Some u \<and> validInstanceName name)"
  then show "unsent resp s s'" using assms client_refused [of env r]
    by (auto simp: handleDeleteInstance_def unsent_def split: sum.splits option.splits if_splits)
qed

lemma state_outcome:
  assumes "handleInstanceStateChange env r name action force t kind s = (resp, s')"
  shows "carried_out env r (validInstanceName name) kind name (state_request name action force t) resp s s'"
proof (rule carried_outI)
  fix cl u
  assume ok: "incusClientForRequest env r = Inr cl" "rq_user r = Some u" "validInstanceName name"
  have "on_incus (ic_wrap (''updating instance '' @ quoted cl name @ '' state to '' @ quoted cl action)
      (doOperation cl (state_request name action force t))) (\<lambda>res s. case res of
      Inl e \<Rightarrow> (if isNotFound e then writeError 404 ''not_found'' ''instance not found''
               else if isConflict e then writeError 409 ''conflict'' ''instance state conflict''
               else writeError 502 ''incus_error'' ''could not change instance state'', s)
    | Inr op \<Rightarrow> record_operation env u kind name op s) s = (resp, s')"
    using assms ok by (simp add: handleInstanceStateChange_def client_UpdateInstanceState_def)
  then show "submitted env u kind name cl (state_request name action force t) resp s s'"
    by (rule submit_outcome) simp
next
  assume "\<not> (\<exists>cl u. incusClientForRequest env r = Inr cl \<and> rq_user r = Some u \<and> validInstanceName name)"
  then show "unsent resp s s'" using assms client_refused [of env r]
    by (auto simp: handleInstanceStateChange_def unsent_def split: sum.splits option.splits if_splits)
qed

lemma change_outcome:
  assumes "serve_instance env r call s = (resp, s')" "call_kind call = Some kind"
  shows "carried_out env r (well_formed call) kind (call_target call) (call_request call) resp s s'"
proof (cases call)
  case (CreateInstance body)
  then show ?thesis using assms create_outcome [of env r body s resp s'] by simp
next
  case (DeleteInstance name)
  then show ?thesis using assms delete_outcome [of env r name s resp s'] by simp
next
  case (StartInstance name)
  then show ?thesis using assms state_outcome [of env r name "''start''" False 0 "''instance.start''" s resp s']
    by (simp add: handleStartInstance_def)
next
  case (StopInstance name req)
  then show ?thesis using assms state_outcome [of env r name "''stop''" "is_force req"
      "if is_timeout_seconds req \<le> 0 then 30 else is_timeout_seconds req" "''instance.stop''" s resp s']
    by (simp add: handleStopInstance_def)
qed (use assms in simp_all)

text \<open>The calls that only read send one GET, or are refused before.\<close>

lemma read_outcome:
  assumes "serve_instance env r call s = (resp, s')" "call_kind call = None"
  shows "s' = s \<or> (in_server s' = in_server s \<and> in_log s' = in_log s @ [call_request call] \<and>
    (\<forall>u. rq_user r = Some u \<longrightarrow> u_is_admin u) \<and>
    ((\<exists>st. call = ListInstances st) \<or> validInstanceName (call_target call)))"
proof (cases call)
  case (ListInstances st)
  then show ?thesis using assms list_log [of _ "in_log s"] client_for [of env r]
    by (auto simp: handleListInstances_def Let_def split: sum.splits elim!: on_incusE) (metis snd_conv)+
next
  case (GetInstance name)
  then show ?thesis using assms get_log [of _ name "in_log s"] client_for [of env r]
    by (auto simp: handleGetInstance_def split: sum.splits if_splits elim!: on_incusE) (metis snd_conv)+
qed (use assms in simp_all)

section \<open>Which requests reach Incus\<close>

text \<open>The requests of the endpoints, written out: a fixed path, or one with a valid name as a segment of its own.\<close>

definition instance_request :: "http_request \<Rightarrow> bool" where
  "instance_request q \<longleftrightarrow> q = http_get ''/1.0/instances?recursion=1'' \<or>
     (\<exists>name. validInstanceName name \<and>
       (q = http_get (''/1.0/instances/'' @ name) \<or>
        q = \<lparr>hq_method = ''DELETE'', hq_path = ''/1.0/instances/'' @ name, hq_body = None\<rparr> \<or>
        (\<exists>action force t. action \<in> {''start'', ''stop''} \<and> q = \<lparr>hq_method = ''PUT'',
           hq_path = ''/1.0/instances/'' @ name @ ''/state'', hq_body = Some (JObject [(''action'', JString action),
             (''force'', JBool force), (''timeout'', JInt t), (''stateful'', JBool False)])\<rparr>) \<or>
        (\<exists>ty image start. q = \<lparr>hq_method = ''POST'', hq_path = ''/1.0/instances'',
           hq_body = Some (JObject [(''name'', JString name), (''type'', JString ty),
             (''source'', JObject [(''type'', JString ''image''), (''alias'', JString image)]), (''start'', JBool start)])\<rparr>)))"

lemma change_request:
  assumes "call_kind call = Some kind" "validInstanceName (call_target call)"
  shows "instance_request (call_request call) \<and> hq_method (call_request call) \<noteq> ''GET''"
proof (cases call)
  case (CreateInstance body)
  then obtain b where "body = Some b" using assms(2)
    by (cases body) (auto simp: validInstanceName_def instanceNamePattern_def)
  then show ?thesis using CreateInstance assms(2) by (auto simp: instance_request_def create_request_def)
next
  case (DeleteInstance name)
  then show ?thesis using assms(2) by (auto simp: instance_request_def delete_request_def instance_path_valid)
next
  case (StartInstance name)
  then show ?thesis using assms(2) by (auto simp: instance_request_def state_request_def instance_path_valid)
next
  case (StopInstance name req)
  then show ?thesis using assms(2) by (auto simp: instance_request_def state_request_def instance_path_valid)
qed (use assms(1) in simp_all)

lemma read_request:
  assumes "call_kind call = None" "(\<exists>st. call = ListInstances st) \<or> validInstanceName (call_target call)"
  shows "instance_request (call_request call) \<and> hq_method (call_request call) = ''GET''"
  using assms by (cases call) (auto simp: instance_request_def instance_path_valid http_get_def)

text \<open>A request to one of the endpoints: the middleware of its route, then its handler.\<close>

fun instance_route :: "instance_call \<Rightarrow> string \<times> string \<times> string \<times> guard" where
  "instance_route (ListInstances _) = (''GET'', ''/instances'', ''handleListInstances'', GAuth)"
| "instance_route (GetInstance _) = (''GET'', ''/instances/{name}'', ''handleGetInstance'', GAuth)"
| "instance_route (CreateInstance _) = (''POST'', ''/instances'', ''handleCreateInstance'', GAuthWrite)"
| "instance_route (DeleteInstance _) = (''DELETE'', ''/instances/{name}'', ''handleDeleteInstance'', GAuthWrite)"
| "instance_route (StartInstance _) = (''POST'', ''/instances/{name}/start'', ''handleStartInstance'', GAuthWrite)"
| "instance_route (StopInstance _ _) = (''POST'', ''/instances/{name}/stop'', ''handleStopInstance'', GAuthWrite)"

lemma instance_routes: "instance_route call \<in> set registerV1Routes"
  by (cases call) (simp_all add: registerV1Routes_def)

definition instance_endpoint ::
  "config \<Rightarrow> inst_env \<Rightarrow> request \<Rightarrow> instance_call \<Rightarrow> inode \<Rightarrow> instance_body response \<times> inode" where
  "instance_endpoint cfg env r call s =
     (case run_guard (snd (snd (snd (instance_route call)))) cfg (ix_now env) r (in_server s) of
        (Inl resp, sv) \<Rightarrow> (resp, s\<lparr>in_server := sv\<rparr>)
      | (Inr r', sv) \<Rightarrow> serve_instance env r' call (s\<lparr>in_server := sv\<rparr>))"

lemma guard_ok:
  assumes "run_guard g cfg now r s = (Inr r' :: 'p response + request, s')" "g = GAuth \<or> g = GAuthWrite"
  shows "\<exists>row. rq_user r' = Some (scan_user row) \<and> acts_for cfg now r (sv_db s) row (rq_scopes r') \<and>
    (g = GAuthWrite \<longrightarrow> (\<forall>sc. rq_scopes r' = Some sc \<longrightarrow> scopeAllows sc ''write''))"
proof -
  obtain r1 s1 where auth: "authMiddleware cfg now r s = (Inr r1 :: 'p response + request, s1)"
    using assms by (auto simp: run_guard_def split: prod.splits sum.splits)
  show ?thesis
  proof (cases "g = GAuth")
    case True
    then have "r1 = r'" using assms(1) auth by (simp add: run_guard_def)
    then show ?thesis using auth_ok [OF auth] True by auto
  next
    case False
    then have "writeScopeMiddleware r1 s1 = (Inr r' :: 'p response + request, s')"
      using assms auth by (simp add: run_guard_def)
    from writeScopeMiddleware_Inr [OF this] show ?thesis using auth_ok [OF auth] by auto
  qed
qed

text \<open>C13: a request to an instance endpoint makes the daemon send Incus at most one request over the administrator's
  socket, only when the caller is an administrator by a credential valid now, and then a request of a fixed form
  whose instance name is a single valid path segment; anything but a GET only when an API token, if that is the
  credential, allows writing.\<close>

theorem instance_requests_confined:
  assumes "instance_endpoint cfg env r call s = (resp, s')"
  shows "in_log s' = in_log s \<or>
    (\<exists>q row scopes. in_log s' = in_log s @ [q] \<and> instance_request q \<and>
       acts_for cfg (ix_now env) r (sv_db (in_server s)) row scopes \<and> u_is_admin row \<and>
       (hq_method q = ''GET'' \<or> scopes = None \<or> (\<exists>sc. scopes = Some sc \<and> scopeAllows sc ''write'')))"
proof -
  let ?g = "snd (snd (snd (instance_route call)))"
  obtain x :: "instance_body response + request" and sv
    where g: "run_guard ?g cfg (ix_now env) r (in_server s) = (x, sv)" by fastforce
  show ?thesis
  proof (cases x)
    case (Inl e)
    then show ?thesis using assms g by (auto simp: instance_endpoint_def)
  next
    case (Inr r')
    then have run: "serve_instance env r' call (s\<lparr>in_server := sv\<rparr>) = (resp, s')"
      using assms g by (simp add: instance_endpoint_def)
    have "?g = GAuth \<or> ?g = GAuthWrite" by (cases call) simp_all
    from guard_ok [OF g [unfolded Inr] this] obtain row where
      row: "rq_user r' = Some (scan_user row)" "acts_for cfg (ix_now env) r (sv_db (in_server s)) row (rq_scopes r')"
        "?g = GAuthWrite \<longrightarrow> (\<forall>sc. rq_scopes r' = Some sc \<longrightarrow> scopeAllows sc ''write'')" by blast
    show ?thesis
    proof (cases "call_kind call")
      case None
      then show ?thesis using read_outcome [OF run None] read_request [of call] row
        by (auto simp: scan_user_def)
    next
      case (Some kind)
      then have "?g = GAuthWrite" by (cases call) simp_all
      then show ?thesis using carried_out_cases [OF change_outcome [OF run Some]] well_formed_name [of call] Some
          change_request [OF Some] row
        by (cases "rq_scopes r'") (auto simp: scan_user_def unsent_def submitted_def)
    qed
  qed
qed

text \<open>C16: a call that creates, deletes, starts or stops an instance sends the request it stands for, once, exactly
  when the caller is an administrator, the daemon has a client for Incus, the name is valid and a new instance has an
  image and a known type; otherwise the answer is 400, 401, 403 or 503 and nothing changes.  When Incus refuses the
  request, the answer is 404, 409 or 502 and the data are as they were.  When Incus accepts it and the store can take
  the row, the answer is 202 and exactly the row of the operation is added, pending, owned by the caller and with the
  id Incus gave.  The store cannot take it only when no id could be drawn or the id is taken, the user is gone or the
  statement fails; then the answer is 500 and the data are as they were.\<close>

theorem instance_change_recorded:
  assumes "serve_instance env r call s = (resp, s')" "call_kind call = Some kind"
  shows "case (rq_user r, ix_incus env) of
      (Some u, Some cl) \<Rightarrow>
        if u_is_admin u \<and> well_formed call
        then submitted env u kind (call_target call) cl (call_request call) resp s s'
        else unsent resp s s'
    | _ \<Rightarrow> unsent resp s s'"
  using change_outcome [OF assms] by (simp add: carried_out_def)

section \<open>What a failure is reported as\<close>

lemma to_lower_ascii: "list_all (\<lambda>c. byte c < 128) a \<Longrightarrow> to_lower (a @ b) = to_lower a @ to_lower b"
  by (induction a) auto

lemma contains_str_middle: "contains_str b p \<Longrightarrow> contains_str (a @ b @ c) p"
  unfolding contains_str_iff by (metis append.assoc)

text \<open>A valid name is its own lower case and its own quotation.\<close>

lemma to_lower_name: "validInstanceName name \<Longrightarrow> to_lower name = name"
proof -
  have "to_lower s = s" if "list_all (\<lambda>c. in_range 97 122 c \<or> in_range 48 57 c \<or> c = CHR ''-'') s" for s
    using that by (induction s) (auto simp: in_range_def byte_def)
  then show "validInstanceName name \<Longrightarrow> to_lower name = name" by (simp add: name_safe)
qed

lemma quote_body_name:
  "list_all (\<lambda>c. in_range 97 122 c \<or> in_range 48 57 c \<or> c = CHR ''-'') s \<Longrightarrow> quote_body printable s = s"
proof (induction s)
  case Nil
  show ?case by (simp add: quote_body.simps)
next
  case (Cons c s)
  then have c: "32 < byte c" "byte c < 127" "byte c \<noteq> 34" "byte c \<noteq> 92" by (auto simp: in_range_def byte_def)
  then have "decode_rune (c # s) = (byte c, 1)" by (simp add: decode_rune_ascii)
  then show ?case using Cons c by (subst quote_body.simps) (simp add: escape_rune_def rune_error_def)
qed

lemma quoted_name: "validInstanceName name \<Longrightarrow> quoted cl name = CHR 0x22 # name @ [CHR 0x22]"
  by (simp add: quoted_def quote_body_name name_safe)

lemma name_in_error:
  assumes "client_UpdateInstanceState cl name action force t log = (Inl e, log')" "validInstanceName name"
    "contains_str name p"
  shows "contains_str (to_lower e) p"
proof -
  obtain e' where e: "e = (''updating instance '' @ [CHR 0x22] @ name) @ [CHR 0x22] @ '' state to '' @ quoted cl action @ '': '' @ e'"
    using assms(1) by (auto simp: client_UpdateInstanceState_def ic_wrap_Inl quoted_name [OF assms(2)])
  have ascii: "list_all (\<lambda>c. byte c < 128) name" "list_all (\<lambda>c. byte c < 128) (''updating instance '' @ [CHR 0x22])"
    using name_safe(3) [OF assms(2)] by (auto simp: list_all_iff in_range_def byte_def)
  have lower: "to_lower ((a @ name) @ b) = to_lower a @ name @ to_lower b" if "list_all (\<lambda>c. byte c < 128) a" for a b
    unfolding append.assoc to_lower_ascii [OF that] to_lower_ascii [OF ascii(1)] to_lower_name [OF assms(2)] ..
  have "to_lower e = to_lower (''updating instance '' @ [CHR 0x22]) @ name @
      to_lower ([CHR 0x22] @ '' state to '' @ quoted cl action @ '': '' @ e')"
    using lower [OF ascii(2)] unfolding e append.assoc .
  then show ?thesis using contains_str_middle [OF assms(3)] by simp
qed

text \<open>a start or stop that fails for an instance whose name contains the text conflict is answered 409, a state
  conflict, or 404, whatever Incus or the socket reported: the handler searches the text of the error, which quotes
  the name.\<close>

theorem conflict_by_name:
  assumes "serve_instance env r call s = (resp, s')" "call_kind call \<in> {Some ''instance.start'', Some ''instance.stop''}"
    and "ix_incus env = Some cl" "contains_str (call_target call) ''conflict''"
    and "in_log s' \<noteq> in_log s" "rs_status resp \<noteq> 202" "rs_status resp \<noteq> 500"
  shows "rs_status resp \<in> {404, 409}"
proof -
  obtain name action force t kind where h: "handleInstanceStateChange env r name action force t kind s = (resp, s')"
      and n: "call_target call = name"
    using assms(1,2) by (cases call) (auto simp: handleStartInstance_def handleStopInstance_def)
  have run: "incusClientForRequest env r = Inr cl \<and> validInstanceName name \<and> (\<exists>u. rq_user r = Some u \<and>
      on_incus (client_UpdateInstanceState cl name action force t) (\<lambda>res s. case res of
           Inl e \<Rightarrow> (if isNotFound e then writeError 404 ''not_found'' ''instance not found''
                    else if isConflict e then writeError 409 ''conflict'' ''instance state conflict''
                    else writeError 502 ''incus_error'' ''could not change instance state'', s)
         | Inr op \<Rightarrow> record_operation env u kind name op s) s = (resp, s'))"
    using h assms(3,5) by (auto simp: handleInstanceStateChange_def incusClientForRequest_def split: option.splits if_splits sum.splits)
  then obtain u res log where c: "client_UpdateInstanceState cl name action force t (in_log s) = (res, log)"
      and k: "(case res of
           Inl e \<Rightarrow> (if isNotFound e then writeError 404 ''not_found'' ''instance not found''
                    else if isConflict e then writeError 409 ''conflict'' ''instance state conflict''
                    else writeError 502 ''incus_error'' ''could not change instance state'', s\<lparr>in_log := log\<rparr>)
         | Inr op \<Rightarrow> record_operation env u kind name op (s\<lparr>in_log := log\<rparr>)) = (resp, s')"
    by (auto elim!: on_incusE)
  show ?thesis
  proof (cases res)
    case (Inl e)
    have "contains_str (to_lower e) ''conflict''"
      using name_in_error [OF c [unfolded Inl]] run assms(4) n by simp
    then have "isConflict e" by (simp add: isConflict_def)
    then show ?thesis using k Inl by (auto split: if_splits)
  next
    case (Inr op)
    then show ?thesis using k assms(6,7) record_operation_outcome [of env u kind name op "s\<lparr>in_log := log\<rparr>" resp s']
      by (auto simp: recorded_def split: if_splits)
  qed
qed

section \<open>The operation the poller asks for\<close>

lemma dropWhile_no: "xs = [] \<or> \<not> P (hd xs) \<Longrightarrow> dropWhile P xs = xs"
  by (cases xs) auto

lemma location_id:
  assumes "CHR ''/'' \<notin> set i" "i \<noteq> []"
  shows "operationIDFromLocation (''/1.0/operations/'' @ i) = i"
proof -
  let ?p = "''/1.0/operations/'' @ i"
  have "last i \<noteq> CHR ''/''" using assms last_in_set [of i] by metis
  then have l: "last ?p = last i" "last i \<noteq> CHR ''/''" using assms(2) by simp_all
  have rev: "dropWhile (\<lambda>c. c = CHR ''/'') (rev ?p) = rev ?p"
    by (rule dropWhile_no) (use l assms(2) in \<open>simp add: hd_rev del: rev_append\<close>)
  have parts: "split_char (CHR ''/'') ?p = [[], ''1.0'', ''operations'', i]"
    using split_char_no [OF assms(1)] by simp
  show ?thesis unfolding operationIDFromLocation_def filepath_base_def Let_def rev rev_rev_ident parts by simp
qed

text \<open>The three ways an answer names the operation it started.\<close>

definition names_operation :: "incus_codec \<Rightarrow> http_answer \<Rightarrow> string \<Rightarrow> bool" where
  "names_operation codec a i \<longleftrightarrow> 200 \<le> ha_status a \<and> ha_status a < 300 \<and>
     ((ha_body a = Inr '''' \<and> ha_location a = ''/1.0/operations/'' @ i) \<or>
      (\<exists>raw env. ha_body a = Inr raw \<and> raw \<noteq> '''' \<and> ic_envelope codec raw = Inr env \<and>
         ir_metadata env \<notin> {'''', ''null''} \<and>
         ((\<exists>op. ic_operation codec (ir_metadata env) = Inr op \<and> io_id op = i) \<or>
          (\<exists>e. ic_operation codec (ir_metadata env) = Inl e \<and>
             ic_string codec (ir_metadata env) = Some (''/1.0/operations/'' @ i)))))"

text \<open>C40: when no character of an operation's id needs escaping in a path, the operation the client takes from an
  answer, be it from its metadata, a URL in the metadata or the header Location, is the one Incus named, and the
  poller's request for it goes to exactly the URL of that operation.\<close>

theorem operation_followed:
  assumes "list_all path_safe i" "i \<noteq> ''''" "cl_send cl log q = Inr a" "names_operation (cl_codec cl) a i"
  shows "doOperation cl q log = (Inr i, log @ [q]) \<and>
    snd (client_GetOperation cl i log2) = log2 @ [http_get (''/1.0/operations/'' @ i)]"
proof
  have "\<not> path_safe (CHR ''/'')" by (simp add: path_safe_byte byte_def)
  then have "CHR ''/'' \<notin> set i" using assms(1) by (auto simp: list_all_iff)
  note id = location_id [OF this assms(2)]
  show "doOperation cl q log = (Inr i, log @ [q])"
    using assms(2,3,4) id
    by (auto simp: doOperation_def doWithLocation_def decodeResponse_def names_operation_def or_zero_def no_operation_def
        operation_by_url_def)
  show "snd (client_GetOperation cl i log2) = log2 @ [http_get (''/1.0/operations/'' @ i)]"
    using assms(2) pathEscape_safe [OF assms(1)]
    by (simp add: client_GetOperation_def ic_wrap_log doWithLocation_def operation_request_def Let_def split: prod.split sum.split)
qed

text \<open>What a tick of the poller asks this client is what the model of the poller asks \<open>fetch\<close>.\<close>

definition client_fetch :: "incus_client \<Rightarrow> http_request list \<Rightarrow> string \<Rightarrow> (string \<times> string) option" where
  "client_fetch cl log i =
     (case fst (doWithLocation cl (ic_operation (cl_codec cl)) (Some operation_by_url) (operation_request i) log) of
        Inl _ \<Rightarrow> None
      | Inr (out, _) \<Rightarrow> let op = or_zero no_operation out in Some (io_status op, io_err op))"

lemma client_GetOperation_fetch:
  "incus_GetOperation (client_fetch cl log) i = (case fst (client_GetOperation cl i log) of Inl _ \<Rightarrow> None | Inr x \<Rightarrow> Some x)"
  by (auto simp: incus_GetOperation_def client_fetch_def client_GetOperation_def ic_wrap_def Let_def split: prod.split sum.split)

text \<open>The image shown is what Incus sends as \<open>image\<close>: the configuration, where the alias is, is never decoded.\<close>

lemma image_from_wire: "ij_image (ToInstance (with_config j)) = ij_image j"
  by (simp add: ToInstance_def with_config_def instance_json.extend_def)

lemma listed_instances:
  assumes "handleListInstances env r status s = (resp, s')" "rs_payload resp = Body (InstancesBody is)"
  shows "\<exists>js. is = filter (\<lambda>i. to_lower status = '''' \<or> ij_status i = to_lower status) (map (ToInstance \<circ> with_config) js)"
  using assms
  by (auto simp: handleListInstances_def client_ListInstances_def incusClientForRequest_def Let_def ic_wrap_Inr
      split: sum.splits prod.splits if_splits option.splits elim!: on_incusE) (rule exI, rule refl)+

section \<open>A concrete Incus\<close>

text \<open>An Incus that accepts every change with the operation \<open>op-1\<close>, and whose JSON is never looked at; and one
  that refuses every request.\<close>

definition demo_codec :: incus_codec where
  "demo_codec = \<lparr>ic_envelope = (\<lambda>_. Inl ''no JSON''), ic_operation = (\<lambda>_. Inl ''no JSON''),
     ic_instance = (\<lambda>_. Inl ''no JSON''), ic_instances = (\<lambda>_. Inl ''no JSON''),
     ic_string = (\<lambda>_. None), ic_printable = (\<lambda>_. False)\<rparr>"

definition accepting :: incus_client where
  "accepting = \<lparr>cl_codec = demo_codec,
     cl_send = (\<lambda>_ _. Inr \<lparr>ha_status = 202, ha_body = Inr '''', ha_location = ''/1.0/operations/op-1''\<rparr>)\<rparr>"

definition refusing :: incus_client where
  "refusing = \<lparr>cl_codec = demo_codec,
     cl_send = (\<lambda>_ _. Inr \<lparr>ha_status = 500, ha_body = Inr ''no space left'', ha_location = ''''\<rparr>)\<rparr>"

definition demo_inst_env :: "incus_client \<Rightarrow> inst_env" where
  "demo_inst_env cl = \<lparr>ix_now = 5 * second, ix_uuid = Some ''o1'', ix_incus = Some cl\<rparr>"

definition demo_inode :: inode where
  "demo_inode = \<lparr>in_server = demo_server2, in_log = []\<rparr>"

definition demo_root :: request where
  "demo_root = demo_request\<lparr>rq_user := Some (demo_user 1 ''root'' True)\<rparr>"

definition demo_start :: "incus_client \<Rightarrow> string \<Rightarrow> instance_body response \<times> inode" where
  "demo_start cl name = serve_instance (demo_inst_env cl) demo_root (StartInstance name) demo_inode"

theorem operation_followed_witness:
  "doOperation accepting (delete_request ''web'') [] = (Inr ''op-1'', [delete_request ''web'']) \<and>
   snd (client_GetOperation accepting ''op-1'' []) = [http_get ''/1.0/operations/op-1'']"
  using operation_followed [of "''op-1''" accepting "[]" "delete_request ''web''"
      "\<lparr>ha_status = 202, ha_body = Inr '''', ha_location = ''/1.0/operations/op-1''\<rparr>" "[]"]
  by (simp add: accepting_def names_operation_def path_safe_byte byte_def)

theorem instance_change_recorded_witness:
  "submitted (demo_inst_env accepting) (demo_user 1 ''root'' True) ''instance.start'' ''web'' accepting
     (call_request (StartInstance ''web'')) (fst (demo_start accepting ''web'')) demo_inode (snd (demo_start accepting ''web''))"
proof -
  have w: "u_is_admin (demo_user 1 ''root'' True)" "well_formed (StartInstance ''web'')" by code_simp+
  show ?thesis
    using instance_change_recorded [of "demo_inst_env accepting" demo_root "StartInstance ''web''" demo_inode
        "fst (demo_start accepting ''web'')" "snd (demo_start accepting ''web'')" "''instance.start''"] w
    by (simp add: demo_start_def demo_root_def demo_inst_env_def)
qed

text \<open>It was accepted: the log grew, and the answer is 202.\<close>

lemma demo_start_accepted:
  "rs_status (fst (demo_start accepting ''web'')) = 202 \<and> length (in_log (snd (demo_start accepting ''web''))) = 1 \<and>
   length (operations (sv_db (in_server (snd (demo_start accepting ''web''))))) = 1"
  by code_simp

theorem conflict_by_name_witness: "rs_status (fst (demo_start refusing ''conflict-db'')) \<in> {404, 409}"
proof (rule conflict_by_name)
  show "serve_instance (demo_inst_env refusing) demo_root (StartInstance ''conflict-db'') demo_inode =
      (fst (demo_start refusing ''conflict-db''), snd (demo_start refusing ''conflict-db''))"
    by (simp add: demo_start_def)
  show "ix_incus (demo_inst_env refusing) = Some refusing" by (simp add: demo_inst_env_def)
  show "in_log (snd (demo_start refusing ''conflict-db'')) \<noteq> in_log demo_inode"
    "rs_status (fst (demo_start refusing ''conflict-db'')) \<noteq> 202"
    "rs_status (fst (demo_start refusing ''conflict-db'')) \<noteq> 500"
    "contains_str (call_target (StartInstance ''conflict-db'')) ''conflict''" by code_simp+
qed simp

definition demo_endpoint :: "instance_body response \<times> inode" where
  "demo_endpoint = instance_endpoint demo_cfg (demo_inst_env accepting) (demo_request\<lparr>rq_cookie := Some ''cookie''\<rparr>)
     (StartInstance ''web'') demo_inode"

theorem instance_requests_confined_witness:
  "\<exists>q row scopes. in_log (snd demo_endpoint) = in_log demo_inode @ [q] \<and> instance_request q \<and>
     acts_for demo_cfg (5 * second) (demo_request\<lparr>rq_cookie := Some ''cookie''\<rparr>) (sv_db (in_server demo_inode)) row scopes \<and>
     u_is_admin row"
proof -
  have e: "instance_endpoint demo_cfg (demo_inst_env accepting) (demo_request\<lparr>rq_cookie := Some ''cookie''\<rparr>)
     (StartInstance ''web'') demo_inode = (fst demo_endpoint, snd demo_endpoint)" by (simp add: demo_endpoint_def)
  have "in_log (snd demo_endpoint) \<noteq> in_log demo_inode" by code_simp
  then show ?thesis using instance_requests_confined [OF e]
    by (auto simp: demo_inst_env_def)
qed

end
