(* ===== verification/Server_Proxy.thy ===== *)
theory Server_Proxy
  imports Server_Auth Store_Ops
begin

text \<open>
  The reverse proxies to Incus and Podman (\<open>proxy/proxy.go\<close>) and the handler in front of the first (\<open>handleIncusProxy\<close>
  of \<open>server.go\<close>).  A forwarded request is what the \<open>Director\<close> leaves; \<open>httputil.ReverseProxy\<close> then drops hop-by-hop
  headers and adds the address of the client.  The upstreams are a parameter: they answer a request on a channel,
  given all that was forwarded before, with status and body, or fail.  When the body breaks off, or cannot be written
  to the client, \<open>ReverseProxy\<close> has sent the status and panics with \<open>http.ErrAbortHandler\<close>; \<open>middleware.Recoverer\<close> lets
  that panic through, so that nothing after the call of the proxy runs.
\<close>

section \<open>Headers\<close>

type_synonym headers = "(string \<times> string list) list"

text \<open>\<open>http.CanonicalHeaderKey\<close>.\<close>

definition token_byte :: "char \<Rightarrow> bool" where
  "token_byte c \<longleftrightarrow> in_range 97 122 c \<or> in_range 65 90 c \<or> in_range 48 57 c \<or>
     byte c \<in> {33, 35, 36, 37, 38, 39, 42, 43, 45, 46, 94, 95, 96, 124, 126}"

fun canonical_case :: "bool \<Rightarrow> string \<Rightarrow> string" where
  "canonical_case up [] = []"
| "canonical_case up (c # s) =
     (if up \<and> in_range 97 122 c then char_of (byte c - 32)
      else if \<not> up \<and> in_range 65 90 c then char_of (byte c + 32) else c) # canonical_case (c = CHR ''-'') s"

definition canonicalHeaderKey :: "string \<Rightarrow> string" where
  "canonicalHeaderKey s = (if list_all token_byte s then canonical_case True s else s)"

definition header_del :: "string \<Rightarrow> headers \<Rightarrow> headers" where
  "header_del name h = filter (\<lambda>(k, _). k \<noteq> canonicalHeaderKey name) h"

definition stripHellingProxyHeaders :: "headers \<Rightarrow> headers" where
  "stripHellingProxyHeaders header =
     (let header = header_del ''X-Request-ID'' (header_del ''Cookie'' (header_del ''Authorization'' header))
      in fold (\<lambda>name h. if has_prefix (canonicalHeaderKey name) ''X-Helling-'' then header_del name h else h)
           (map fst header) header)"

section \<open>Requests, channels and the state\<close>

record proxy_request =
  pq_request :: request                 \<comment> \<open>method, path, URI, source and context\<close>
  pq_query :: string
  pq_headers :: headers
  pq_body :: string

text \<open>The administrator's sockets; or TLS to a host as the owner of a certificate and its key.\<close>

datatype channel = AdminSocket | PodmanSocket | ClientTLS string string string

record outbound =
  ob_method :: string
  ob_scheme :: string
  ob_host :: string
  ob_path :: string
  ob_query :: string
  ob_headers :: headers
  ob_body :: string

record pnode =
  pn_server :: server
  pn_sent :: "(channel \<times> outbound) list"

record delegated_proxy =
  dp_scheme :: string
  dp_host :: string
  dp_path :: string

record proxy_env =
  py_now :: gotime
  py_upstream :: "(channel \<times> outbound) list \<Rightarrow> channel \<Rightarrow> outbound \<Rightarrow> string + (nat \<times> string \<times> bool)"
                                                \<comment> \<open>status, what is copied of the body, whether that is all\<close>
  py_incus :: bool                              \<comment> \<open>\<open>cfg.IncusProxy != nil\<close>\<close>
  py_podman :: bool
  py_delegated :: "delegated_proxy option"
  py_decrypt :: "string \<Rightarrow> string option"       \<comment> \<open>age\<close>
  py_keypair :: "string \<Rightarrow> string \<Rightarrow> bool"       \<comment> \<open>\<open>tls.X509KeyPair\<close> accepts certificate and key\<close>

text \<open>What the client gets, and whether the handler was aborted by the panic.\<close>

type_synonym proxied = "string response \<times> bool"

definition answer :: "string response \<Rightarrow> pnode \<Rightarrow> proxied \<times> pnode" where
  "answer resp s = ((resp, False), s)"

text \<open>\<open>ReverseProxy.ServeHTTP\<close> with its \<open>ErrorHandler\<close>.\<close>

definition forward :: "proxy_env \<Rightarrow> string \<Rightarrow> channel \<Rightarrow> outbound \<Rightarrow> pnode \<Rightarrow> proxied \<times> pnode" where
  "forward env errorCode ch out s =
     (case py_upstream env (pn_sent s) ch out of
        Inl _ \<Rightarrow> (writeError 502 errorCode ''upstream unreachable'', False)
      | Inr (status, body, complete) \<Rightarrow> (writeJSON status body, \<not> complete), s\<lparr>pn_sent := pn_sent s @ [(ch, out)]\<rparr>)"

section \<open>The proxy over a Unix socket\<close>

definition or_slash :: "string \<Rightarrow> string" where
  "or_slash path = (if path = '''' then ''/'' else path)"

definition unix_director :: "string \<Rightarrow> string \<Rightarrow> proxy_request \<Rightarrow> outbound" where
  "unix_director mount upstreamHost q = \<lparr>ob_method = rq_method (pq_request q), ob_scheme = ''http'', ob_host = upstreamHost,
     ob_path = or_slash (trim_prefix (rq_path (pq_request q)) mount), ob_query = pq_query q,
     ob_headers = stripHellingProxyHeaders (pq_headers q), ob_body = pq_body q\<rparr>"

definition IncusProxy_ServeHTTP :: "proxy_env \<Rightarrow> proxy_request \<Rightarrow> pnode \<Rightarrow> proxied \<times> pnode" where
  "IncusProxy_ServeHTTP env q = forward env ''incus_error'' AdminSocket (unix_director ''/api/incus'' ''incus'' q)"

definition podmanRequestAllowed :: "request \<Rightarrow> bool" where
  "podmanRequestAllowed r \<longleftrightarrow> (rq_method r = ''GET'' \<or> rq_method r = ''HEAD'') \<and>
     (let path = or_slash (trim_prefix (rq_path r) ''/api/podman'') in
      path = ''/_ping'' \<or> path = ''/version'' \<or> path = ''/libpod/info'' \<or> path = ''/libpod/containers/json'' \<or>
      (has_prefix path ''/libpod/containers/'' \<and> has_suffix path ''/json''))"

definition PodmanProxy_ServeHTTP :: "proxy_env \<Rightarrow> proxy_request \<Rightarrow> pnode \<Rightarrow> proxied \<times> pnode" where
  "PodmanProxy_ServeHTTP env q s =
     (if \<not> podmanRequestAllowed (pq_request q)
      then answer (writeError 403 ''podman_proxy_forbidden'' ''podman proxy path or method is not allowed'') s
      else forward env ''podman_error'' PodmanSocket (unix_director ''/api/podman'' ''podman'' q) s)"

section \<open>The delegated proxy\<close>

definition singleJoiningSlash :: "string \<Rightarrow> string \<Rightarrow> string" where
  "singleJoiningSlash a b =
     (if a = '''' then (if b = '''' then ''/'' else b)
      else if b = '''' then a
      else if has_suffix a ''/'' \<and> has_prefix b ''/'' then a @ drop 1 b
      else if \<not> has_suffix a ''/'' \<and> \<not> has_prefix b ''/'' then a @ ''/'' @ b
      else a @ b)"

definition delegated_director :: "delegated_proxy \<Rightarrow> proxy_request \<Rightarrow> outbound" where
  "delegated_director p q = \<lparr>ob_method = rq_method (pq_request q), ob_scheme = dp_scheme p, ob_host = dp_host p,
     ob_path = or_slash (singleJoiningSlash (dp_path p) (trim_prefix (rq_path (pq_request q)) ''/api/incus'')), ob_query = pq_query q,
     ob_headers = stripHellingProxyHeaders (pq_headers q), ob_body = pq_body q\<rparr>"

text \<open>Certificate and key of a user, in PEM.\<close>

definition StoreUserCertificateProvider :: "proxy_env \<Rightarrow> int \<Rightarrow> (string \<times> string) dbm" where
  "StoreUserCertificateProvider env uid =
     dbind (GetIncusUserCert (py_decrypt env) uid) (\<lambda>row.
       if ic_revoked_at row \<noteq> None then dfail ErrCrypto
       else if (case ic_expires_at row of None \<Rightarrow> False | Some t \<Rightarrow> \<not> py_now env < t) then dfail ErrCrypto
       else (case py_decrypt env (ic_encrypted_key_pem row) of
         None \<Rightarrow> dfail ErrCrypto
       | Some key \<Rightarrow> if py_keypair env (ic_cert_pem row) key then dret (ic_cert_pem row, key) else dfail ErrCrypto))"

definition ServeHTTPForUser :: "proxy_env \<Rightarrow> delegated_proxy \<Rightarrow> proxy_request \<Rightarrow> int \<Rightarrow> pnode \<Rightarrow> proxied \<times> pnode" where
  "ServeHTTPForUser env p q uid s =
     (case StoreUserCertificateProvider env uid (sv_db (pn_server s)) of (res, d) \<Rightarrow>
        let s = s\<lparr>pn_server := (pn_server s)\<lparr>sv_db := d\<rparr>\<rparr> in
        case res of
          Inl _ \<Rightarrow> answer (writeError 403 ''incus_proxy_forbidden'' ''Incus proxy certificate is unavailable'') s
        | Inr (cert, key) \<Rightarrow> forward env ''incus_error'' (ClientTLS (dp_host p) cert key) (delegated_director p q) s)"

text \<open>
  \<open>NewDelegatedIncusProxy\<close>: \<open>parse\<close> is \<open>url.Parse\<close>, scheme, host and path; \<open>ca\<close> says whether \<open>loadCertPool\<close> reads a
  certificate at a path.
\<close>

definition NewDelegatedIncusProxy ::
  "(string \<Rightarrow> (string \<times> string \<times> string) option) \<Rightarrow> (string \<Rightarrow> bool) \<Rightarrow> string \<Rightarrow> string \<Rightarrow> string + delegated_proxy" where
  "NewDelegatedIncusProxy parse ca endpoint caCertPath =
     (let endpoint = (if endpoint = '''' then ''https://127.0.0.1:8443'' else endpoint) in
      case parse endpoint of
        None \<Rightarrow> Inl ''parsing delegated Incus endpoint''
      | Some (scheme, host, path) \<Rightarrow>
          if scheme \<noteq> ''https'' \<or> host = '''' then Inl ''delegated Incus endpoint must be an https URL''
          else if caCertPath \<noteq> '''' \<and> \<not> ca caCertPath then Inl ''delegated Incus CA certificate''
          else Inr \<lparr>dp_scheme = scheme, dp_host = host, dp_path = path\<rparr>)"

section \<open>The handler\<close>

definition incusProxyMutation :: "string \<Rightarrow> bool" where
  "incusProxyMutation method \<longleftrightarrow> method \<noteq> ''GET'' \<and> method \<noteq> ''HEAD'' \<and> method \<noteq> ''OPTIONS''"

definition auditIncusProxyMutation :: "request \<Rightarrow> user \<Rightarrow> nat \<Rightarrow> server \<Rightarrow> server" where
  "auditIncusProxyMutation r u statusCode s =
     (let statusCode = (if statusCode = 0 then 200 else statusCode) in s\<lparr>sv_audit := sv_audit s @
        [\<lparr>au_actor = u_username u, au_actor_id = format_int (u_id u), au_role = (if u_is_admin u then ''admin'' else ''user''),
          au_action = ''incus.proxy'', au_outcome = (if 400 \<le> statusCode then ''failure'' else ''success''),
          au_target_type = ''incus'', au_target_id = rq_uri r, au_policy_reason = '''', au_source_ip = rq_source_ip r,
          au_status_code = statusCode, au_jwt_id = (case rq_jwt_id r of None \<Rightarrow> '''' | Some i \<Rightarrow> i),
          au_message = ''Incus proxy mutation''\<rparr>]\<rparr>)"

definition deny_scope :: "request \<Rightarrow> user \<Rightarrow> string \<Rightarrow> string \<Rightarrow> pnode \<Rightarrow> proxied \<times> pnode" where
  "deny_scope r u auditMessage message s =
     answer (writeError 403 ''forbidden'' message) (s\<lparr>pn_server := auditForUserWithPolicyReason r u ''policy.deny'' ''denied''
        ''incus'' (rq_uri r) ''rbac.insufficient_scope'' auditMessage (pn_server s)\<rparr>)"

text \<open>An answer, and the audit record of it when the request is a mutation: the call is not deferred.\<close>

definition audited :: "bool \<Rightarrow> request \<Rightarrow> user \<Rightarrow> proxied \<times> pnode \<Rightarrow> proxied \<times> pnode" where
  "audited mutating r u x = (case x of ((resp, aborted), s) \<Rightarrow>
     ((resp, aborted), if mutating \<and> \<not> aborted
       then s\<lparr>pn_server := auditIncusProxyMutation r u (rs_status resp) (pn_server s)\<rparr> else s))"

definition handleIncusProxy :: "proxy_env \<Rightarrow> proxy_request \<Rightarrow> pnode \<Rightarrow> proxied \<times> pnode" where
  "handleIncusProxy env q s = (let r = pq_request q in case rq_user r of
     None \<Rightarrow> answer (writeError 401 ''unauthorized'' ''authentication required'') s
   | Some u \<Rightarrow> let mutating = incusProxyMutation (rq_method r) in
     if mutating \<and> (case rq_scopes r of None \<Rightarrow> False | Some scopes \<Rightarrow> \<not> scopeAllows scopes ''write'')
     then deny_scope r u ''Incus proxy mutation denied'' ''write API token scope required'' s
     else if u_is_admin u then
       (if (case rq_scopes r of None \<Rightarrow> False | Some scopes \<Rightarrow> scopes \<noteq> ''admin'')
        then deny_scope r u ''admin API token scope required for raw Incus proxy'' ''admin API token scope required'' s
        else if \<not> py_incus env then
          audited mutating r u (answer (writeError 503 ''incus_unavailable'' ''Incus proxy not configured'') s)
        else audited mutating r u (IncusProxy_ServeHTTP env q s))
     else (case py_delegated env of
         None \<Rightarrow> audited mutating r u (answer (writeError 403 ''forbidden'' ''admin role required'') s)
       | Some p \<Rightarrow> audited mutating r u (ServeHTTPForUser env p q (u_id u) s)))"

text \<open>The two groups of \<open>routes\<close> that forward: a request passes the middleware of its group, then its proxy.\<close>

definition incus_route :: "config \<Rightarrow> proxy_env \<Rightarrow> proxy_request \<Rightarrow> pnode \<Rightarrow> proxied \<times> pnode" where
  "incus_route cfg env q s = (case authMiddleware cfg (py_now env) (pq_request q) (pn_server s) of
     (Inl resp, sv) \<Rightarrow> answer resp (s\<lparr>pn_server := sv\<rparr>)
   | (Inr r, sv) \<Rightarrow> handleIncusProxy env (q\<lparr>pq_request := r\<rparr>) (s\<lparr>pn_server := sv\<rparr>))"

definition podman_route :: "config \<Rightarrow> proxy_env \<Rightarrow> proxy_request \<Rightarrow> pnode \<Rightarrow> proxied \<times> pnode" where
  "podman_route cfg env q s =
     (if \<not> py_podman env then answer (writeError 404 ''not_found'' ''route does not exist'') s
      else case authMiddleware cfg (py_now env) (pq_request q) (pn_server s) of
        (Inl resp, sv) \<Rightarrow> answer resp (s\<lparr>pn_server := sv\<rparr>)
      | (Inr r, sv) \<Rightarrow> (case adminMiddleware r sv of
          (Inl resp, sv) \<Rightarrow> answer resp (s\<lparr>pn_server := sv\<rparr>)
        | (Inr r, sv) \<Rightarrow> PodmanProxy_ServeHTTP env (q\<lparr>pq_request := r\<rparr>) (s\<lparr>pn_server := sv\<rparr>)))"

end
