(* ===== verification/Server_Proxy_Props.thy ===== *)
theory Server_Proxy_Props
  imports Server_Proxy Server_Routes
begin

text \<open>
  What the reverse proxies guarantee: who reaches which upstream and as whom, that no credential of Helling goes
  along, and which mutations are audited.
\<close>

section \<open>Headers\<close>

definition clean_headers :: "headers \<Rightarrow> bool" where
  "clean_headers h \<longleftrightarrow> list_all (\<lambda>(k, _). k \<notin> {''Authorization'', ''Cookie'', ''X-Request-Id''} \<and>
     \<not> has_prefix k ''X-Helling-'') h"

definition canonical_headers :: "headers \<Rightarrow> bool" where
  "canonical_headers h \<longleftrightarrow> list_all (\<lambda>(k, _). canonicalHeaderKey k = k) h"

lemma fixed_keys:
  "canonicalHeaderKey ''Authorization'' = ''Authorization''" "canonicalHeaderKey ''Cookie'' = ''Cookie''"
  "canonicalHeaderKey ''X-Request-ID'' = ''X-Request-Id''"
  by code_simp+

lemma fold_header_del:
  "fold (\<lambda>name h. if P name then header_del name h else h) ns h =
   filter (\<lambda>(k, _). \<forall>n \<in> set ns. P n \<longrightarrow> k \<noteq> canonicalHeaderKey n) h"
  by (induction ns arbitrary: h) (auto simp: header_del_def intro!: filter_cong)

lemma strip_clean:
  assumes "canonical_headers h"
  shows "clean_headers (stripHellingProxyHeaders h)"
  using assms unfolding clean_headers_def list_all_iff
  by (auto simp: stripHellingProxyHeaders_def Let_def fold_header_del header_del_def fixed_keys canonical_headers_def list_all_iff)
     fastforce+

text \<open>Everything else goes along.\<close>

lemma strip_keeps:
  assumes "(k, v) \<in> set h" "canonical_headers h" "clean_headers [(k, v)]"
  shows "(k, v) \<in> set (stripHellingProxyHeaders h)"
  using assms
  by (auto simp: stripHellingProxyHeaders_def Let_def fold_header_del header_del_def fixed_keys canonical_headers_def
      clean_headers_def list_all_iff) 

section \<open>Authentication leaves the certificates alone\<close>

definition same_certs :: "incus_cert list \<Rightarrow> db \<Rightarrow> bool" where
  "same_certs cs d \<longleftrightarrow> incus_certs d = cs"

lemma certs_pred [simp]: "data_pred (same_certs cs)"
  by (simp add: data_pred_def same_certs_def)

lemma certs_exec: "(\<And>d. incus_certs (f d) = incus_certs d) \<Longrightarrow> keeps (same_certs cs) (exec f)"
  by (rule keeps_exec) (simp_all add: same_certs_def)

lemma certs_untouched:
  "keeps (same_certs cs) (GetSessionByTokenHash now h)" "keeps (same_certs cs) (GetUserByID i)"
  "keeps (same_certs cs) (DeleteSession h)" "keeps (same_certs cs) (TouchSession now h)"
  "keeps (same_certs cs) (GetAPITokenByHash h)" "keeps (same_certs cs) (TouchAPIToken now h)"
  unfolding GetSessionByTokenHash_def GetUserByID_def DeleteSession_def TouchSession_def GetAPITokenByHash_def
    TouchAPIToken_def one_row_def delete_session_stmt_def Let_def
  by (intro wf_dignore keeps_dret keeps_dfail keeps_dbind keeps_if keeps_option keeps_query [OF certs_pred] certs_exec; simp)+


lemma same_certsD: "(\<And>cs. keeps (same_certs cs) m) \<Longrightarrow> m d = (r, d') \<Longrightarrow> incus_certs d' = incus_certs d"
  using keepsD [of "same_certs (incus_certs d)" m d r d'] by (simp add: same_certs_def)

lemma auth_certs:
  assumes "authMiddleware cfg now r s = (x, s')"
  shows "incus_certs (sv_db s') = incus_certs (sv_db s)"
  using assms
  by (auto simp: authMiddleware_def authenticateBearer_def authenticateAPIToken_def Let_def
      split: if_splits option.splits sum.splits prod.splits elim!: with_dbE
      dest!: same_certsD [OF certs_untouched(1)] same_certsD [OF certs_untouched(2)] same_certsD [OF certs_untouched(3)]
        same_certsD [OF certs_untouched(4)] same_certsD [OF certs_untouched(5)] same_certsD [OF certs_untouched(6)])

lemma auth_method:
  assumes "authMiddleware cfg now r s = (Inr r' :: 'p response + request, s')"
  shows "rq_method r' = rq_method r"
  using assms
  by (auto simp: authMiddleware_def Let_def split: if_splits option.splits sum.splits prod.splits elim!: with_dbE)

section \<open>The certificate a user is forwarded with\<close>

definition own_certificate :: "proxy_env \<Rightarrow> int \<Rightarrow> string \<Rightarrow> string \<Rightarrow> incus_cert list \<Rightarrow> bool" where
  "own_certificate env uid cert key cs \<longleftrightarrow> (\<exists>c \<in> set cs. ic_user_id c = uid \<and> ic_revoked_at c = None \<and>
     (\<forall>t. ic_expires_at c = Some t \<longrightarrow> py_now env < from_unix t) \<and>
     py_decrypt env (ic_encrypted_cert_pem c) = Some cert \<and> py_decrypt env (ic_encrypted_key_pem c) = Some key)"

lemma GetIncusUserCert_row:
  assumes "GetIncusUserCert decrypt uid d = (Inr row, d')"
  shows "\<exists>c pem. tget ic_user_id uid (incus_certs d) = Some c \<and> decrypt (ic_encrypted_cert_pem c) = Some pem \<and>
    row = (scan_cert c)\<lparr>ic_cert_pem := pem\<rparr>"
proof -
  obtain o1 d1 where q: "query (\<lambda>d. tget ic_user_id uid (incus_certs d)) d = (Inr o1, d1)"
    and rest: "dbind (one_row scan_cert o1) (\<lambda>r. case decrypt (ic_encrypted_cert_pem r) of
      None \<Rightarrow> dfail ErrCrypto | Some pem \<Rightarrow> dret (r\<lparr>ic_cert_pem := pem\<rparr>)) d1 = (Inr row, d')"
    using assms by (auto simp: GetIncusUserCert_def dbind_Inr)
  have o1: "o1 = tget ic_user_id uid (incus_certs d)" using query_Inr [OF q] by auto
  show ?thesis
  proof (cases o1)
    case (Some c)
    then show ?thesis using rest o1
      by (auto simp: dbind_Inr one_row_def dret_def dfail_def scan_cert_def split: option.splits)
  qed (use rest in \<open>simp add: dbind_Inr one_row_def dfail_def\<close>)
qed

lemma provider_own:
  assumes "StoreUserCertificateProvider env uid d = (Inr (cert, key), d')"
  shows "own_certificate env uid cert key (incus_certs d)"
proof -
  obtain row d1 where g: "GetIncusUserCert (py_decrypt env) uid d = (Inr row, d1)"
    and row: "ic_revoked_at row = None" "\<forall>t. ic_expires_at row = Some t \<longrightarrow> py_now env < t"
      "py_decrypt env (ic_encrypted_key_pem row) = Some key" "ic_cert_pem row = cert"
    using assms
    by (auto simp: StoreUserCertificateProvider_def dbind_Inr dret_def dfail_def split: option.splits if_splits)
  from GetIncusUserCert_row [OF g] obtain c where
    c: "tget ic_user_id uid (incus_certs d) = Some c" "py_decrypt env (ic_encrypted_cert_pem c) = Some cert"
      "row = (scan_cert c)\<lparr>ic_cert_pem := cert\<rparr>" using row(4) by auto
  then show ?thesis using row tget_Some [OF c(1)] unfolding own_certificate_def
    by (intro bexI [of _ c]) (auto simp: scan_cert_def)
qed

section \<open>Who reaches which upstream\<close>

text \<open>What may go over a channel, for the owner of a row with the scope of the credential.\<close>

definition allowed_on :: "proxy_env \<Rightarrow> incus_cert list \<Rightarrow> user \<Rightarrow> string option \<Rightarrow> channel \<Rightarrow> outbound \<Rightarrow> bool" where
  "allowed_on env cs row scopes ch out = (case ch of
     AdminSocket \<Rightarrow> u_is_admin row \<and> scopes \<in> {None, Some ''admin''}
   | PodmanSocket \<Rightarrow> u_is_admin row \<and> scopes \<in> {None, Some ''admin''} \<and> ob_method out \<in> {''GET'', ''HEAD''}
   | ClientTLS host cert key \<Rightarrow> \<not> u_is_admin row \<and> own_certificate env (u_id row) cert key cs \<and>
       (\<exists>p. py_delegated env = Some p \<and> host = dp_host p))"

text \<open>Nothing was forwarded, or one request with clean headers and the caller's method.\<close>

definition forwarded ::
  "proxy_env \<Rightarrow> incus_cert list \<Rightarrow> proxy_request \<Rightarrow> user \<Rightarrow> string option \<Rightarrow> (channel \<times> outbound) list \<Rightarrow> (channel \<times> outbound) list \<Rightarrow> bool" where
  "forwarded env cs q row scopes log log' \<longleftrightarrow> log' = log \<or> (\<exists>ch out. log' = log @ [(ch, out)] \<and>
     allowed_on env cs row scopes ch out \<and> clean_headers (ob_headers out) \<and> ob_method out = rq_method (pq_request q) \<and>
     (incusProxyMutation (ob_method out) \<longrightarrow> (\<forall>sc. scopes = Some sc \<longrightarrow> scopeAllows sc ''write'')))"

lemma forward_sent: "pn_sent (snd (forward env code ch out s)) = pn_sent s @ [(ch, out)]"
  by (simp add: forward_def)

lemma answer_simps [simp]: "fst (answer resp s) = (resp, False)" "snd (answer resp s) = s"
  "answer resp s = (y, s') \<longleftrightarrow> y = (resp, False) \<and> s' = s" "((resp', b), s') = answer resp s \<longleftrightarrow> resp' = resp \<and> \<not> b \<and> s' = s"
  by (auto simp: answer_def)

lemma audited_sent: "pn_sent (snd (audited b r u x)) = pn_sent (snd x)"
  by (simp add: audited_def split: prod.split)

lemma deny_sent: "pn_sent (snd (deny_scope r u a m s)) = pn_sent s"
  by (simp add: deny_scope_def)

lemma handler_forwards:
  assumes "canonical_headers (pq_headers q)" "rq_user (pq_request q) = Some u"
  shows "forwarded env (incus_certs (sv_db (pn_server s))) q u (rq_scopes (pq_request q)) (pn_sent s)
    (pn_sent (snd (handleIncusProxy env q s)))"
proof -
  let ?r = "pq_request q"
  consider (no_write) "incusProxyMutation (rq_method ?r)" "\<exists>sc. rq_scopes ?r = Some sc \<and> \<not> scopeAllows sc ''write''"
    | (admin) "incusProxyMutation (rq_method ?r) \<longrightarrow> (\<forall>sc. rq_scopes ?r = Some sc \<longrightarrow> scopeAllows sc ''write'')" "u_is_admin u"
    | (user) "incusProxyMutation (rq_method ?r) \<longrightarrow> (\<forall>sc. rq_scopes ?r = Some sc \<longrightarrow> scopeAllows sc ''write'')" "\<not> u_is_admin u"
    by blast
  then show ?thesis
  proof cases
    case no_write
    then show ?thesis using assms by (auto simp: handleIncusProxy_def Let_def deny_sent forwarded_def)
  next
    case admin
    then show ?thesis using assms strip_clean [OF assms(1)]
      by (auto simp: handleIncusProxy_def Let_def deny_sent audited_sent IncusProxy_ServeHTTP_def forward_sent forwarded_def
          allowed_on_def unix_director_def split: option.split)
  next
    case user
    show ?thesis
    proof (cases "py_delegated env")
      case None
      then show ?thesis using user assms by (auto simp: handleIncusProxy_def Let_def audited_sent forwarded_def split: option.split)
    next
      case (Some p)
      then have run: "pn_sent (snd (handleIncusProxy env q s)) = pn_sent (snd (ServeHTTPForUser env p q (u_id u) s))"
        using user assms by (auto simp: handleIncusProxy_def Let_def audited_sent split: option.split)
      obtain res d where pr: "StoreUserCertificateProvider env (u_id u) (sv_db (pn_server s)) = (res, d)" by fastforce
      show ?thesis
      proof (cases res)
        case (Inl e)
        then show ?thesis using run pr by (simp add: ServeHTTPForUser_def forwarded_def)
      next
        case (Inr ck)
        obtain cert key where ck: "ck = (cert, key)" by fastforce
        have "pn_sent (snd (handleIncusProxy env q s)) = pn_sent s @ [(ClientTLS (dp_host p) cert key, delegated_director p q)]"
          using run pr Inr ck by (simp add: ServeHTTPForUser_def forward_sent)
        moreover have "own_certificate env (u_id u) cert key (incus_certs (sv_db (pn_server s)))"
          using provider_own [OF pr [unfolded Inr ck]] .
        ultimately show ?thesis using user assms strip_clean [OF assms(1)] Some
          by (auto simp: forwarded_def allowed_on_def delegated_director_def)
      qed
    qed
  qed
qed

lemma podman_forwards:
  assumes "canonical_headers (pq_headers q)" "u_is_admin u" "scopes \<in> {None, Some ''admin''}"
  shows "forwarded env cs q u scopes (pn_sent s) (pn_sent (snd (PodmanProxy_ServeHTTP env q s)))"
  using assms strip_clean [OF assms(1)]
  by (auto simp: PodmanProxy_ServeHTTP_def forward_sent forwarded_def allowed_on_def unix_director_def podmanRequestAllowed_def
      incusProxyMutation_def)

text \<open>A request to either proxy.\<close>

fun proxy_route :: "bool \<Rightarrow> config \<Rightarrow> proxy_env \<Rightarrow> proxy_request \<Rightarrow> pnode \<Rightarrow> proxied \<times> pnode" where
  "proxy_route True = incus_route"
| "proxy_route False = podman_route"

text \<open>C11: a request to a proxy is forwarded at most once, and only for the user of a credential valid now: over the
  administrator's socket of Incus or (GET and HEAD) of Podman for an administrator whose API token, if any, is an
  admin token, otherwise over TLS as the user, with that user's own certificate, neither revoked nor expired; a
  mutation only when the API token, if any, allows writing.  No credential or internal header of Helling goes along.\<close>

theorem proxy_confined:
  assumes "proxy_route incus cfg env q s = (resp, s')" "canonical_headers (pq_headers q)"
  shows "pn_sent s' = pn_sent s \<or> (\<exists>row scopes. acts_for cfg (py_now env) (pq_request q) (sv_db (pn_server s)) row scopes \<and>
    forwarded env (incus_certs (sv_db (pn_server s))) q row scopes (pn_sent s) (pn_sent s'))"
proof -
  obtain x :: "string response + request" and sv
    where g: "authMiddleware cfg (py_now env) (pq_request q) (pn_server s) = (x, sv)" by fastforce
  show ?thesis
  proof (cases x)
    case (Inl e)
    then show ?thesis using assms g by (cases incus) (auto simp: incus_route_def podman_route_def split: if_splits)
  next
    case (Inr r)
    note auth = g [unfolded Inr]
    from auth_ok [OF auth] obtain row where
      row: "rq_user r = Some (scan_user row)" "acts_for cfg (py_now env) (pq_request q) (sv_db (pn_server s)) row (rq_scopes r)" by blast
    have meth: "rq_method r = rq_method (pq_request q)" by (rule auth_method [OF auth])
    have fields: "u_id (scan_user row) = u_id row" "u_is_admin (scan_user row) = u_is_admin row"
      by (simp_all add: scan_user_def)
    have transfer: "forwarded env cs (q\<lparr>pq_request := r\<rparr>) (scan_user row) sc l l' = forwarded env cs q row sc l l'" for cs sc l l'
      using meth fields by (simp add: forwarded_def allowed_on_def cong: channel.case_cong)
    have can: "canonical_headers (pq_headers (q\<lparr>pq_request := r\<rparr>))" using assms(2) by simp
    show ?thesis
    proof (cases incus)
      case True
      then have "s' = snd (handleIncusProxy env (q\<lparr>pq_request := r\<rparr>) (s\<lparr>pn_server := sv\<rparr>))"
        using assms(1) auth by (simp add: incus_route_def)
      then show ?thesis
        using handler_forwards [OF can, of "scan_user row" env "s\<lparr>pn_server := sv\<rparr>"] row auth_certs [OF g] transfer by auto
    next
      case False
      obtain y :: "string response + request" and sv' where ad: "adminMiddleware r sv = (y, sv')" by fastforce
      show ?thesis
      proof (cases y)
        case (Inl e)
        then show ?thesis using assms(1) auth ad False by (auto simp: podman_route_def split: if_splits)
      next
        case (Inr r2)
        from adminMiddleware_Inr [OF ad [unfolded Inr]]
        have r2: "r2 = r" "u_is_admin (scan_user row)" "rq_scopes r \<in> {None, Some ''admin''}" using row by auto
        have "s' = s \<or> s' = snd (PodmanProxy_ServeHTTP env (q\<lparr>pq_request := r\<rparr>) (s\<lparr>pn_server := sv'\<rparr>))"
          using assms(1) auth ad False Inr r2(1) by (auto simp: podman_route_def split: if_splits)
        then show ?thesis
          using podman_forwards [OF can r2(2,3), of env "incus_certs (sv_db (pn_server s))" "s\<lparr>pn_server := sv'\<rparr>"] row transfer by auto
      qed
    qed
  qed
qed

section \<open>Which mutations are audited\<close>

lemma forward_server: "pn_server (snd (forward env code ch out s)) = pn_server s"
  by (simp add: forward_def)

lemma user_server: "sv_audit (pn_server (snd (ServeHTTPForUser env p q i s))) = sv_audit (pn_server s)"
  by (simp add: ServeHTTPForUser_def Let_def forward_server split: prod.split sum.split)

text \<open>The upstream did not deliver the whole body of its answer.\<close>

definition broken_off :: "proxy_env \<Rightarrow> (channel \<times> outbound) list \<Rightarrow> (channel \<times> outbound) list \<Rightarrow> string response \<Rightarrow> bool" where
  "broken_off env log log' resp \<longleftrightarrow> (\<exists>ch out status body. log' = log @ [(ch, out)] \<and>
     py_upstream env log ch out = Inr (status, body, False) \<and> resp = writeJSON status body)"

lemma forward_aborted: "forward env code ch out s = ((resp, b), s') \<Longrightarrow> b = broken_off env (pn_sent s) (pn_sent s') resp"
  by (auto simp: forward_def broken_off_def split: sum.splits prod.splits)

lemma not_broken [simp]: "\<not> broken_off env log log resp"
  by (simp add: broken_off_def)

lemma user_aborted: "ServeHTTPForUser env p q i s = ((resp, b), s') \<Longrightarrow> b = broken_off env (pn_sent s) (pn_sent s') resp"
  by (auto simp: ServeHTTPForUser_def Let_def split: prod.splits sum.splits dest!: forward_aborted)

definition mutation_record :: "request \<Rightarrow> user \<Rightarrow> nat \<Rightarrow> audit" where
  "mutation_record r u status = last (sv_audit (auditIncusProxyMutation r u status
     \<lparr>sv_db = empty_db, sv_user_limiter = NewRateLimiter 1 1, sv_ip_limiter = NewRateLimiter 1 1, sv_mfa = Map.empty,
      sv_audit = [], sv_setup_token = None, sv_schedule_token = None\<rparr>))"

lemma audited_record:
  "sv_audit (pn_server (snd (audited True r u ((resp, b), s)))) =
     sv_audit (pn_server s) @ (if b then [] else [mutation_record r u (rs_status resp)])"
  by (simp add: audited_def auditIncusProxyMutation_def mutation_record_def Let_def)

lemma handler_shape:
  assumes "rq_user (pq_request q) = Some u"
  shows "(\<exists>a m. handleIncusProxy env q s = deny_scope (pq_request q) u a m s) \<or>
    (\<exists>resp b s1. handleIncusProxy env q s = audited (incusProxyMutation (rq_method (pq_request q))) (pq_request q) u ((resp, b), s1) \<and>
      sv_audit (pn_server s1) = sv_audit (pn_server s) \<and> b = broken_off env (pn_sent s) (pn_sent s1) resp)"
proof -
  let ?r = "pq_request q"
  let ?no_write = "incusProxyMutation (rq_method ?r) \<and> (case rq_scopes ?r of None \<Rightarrow> False | Some sc \<Rightarrow> \<not> scopeAllows sc ''write'')"
  let ?no_admin = "case rq_scopes ?r of None \<Rightarrow> False | Some sc \<Rightarrow> sc \<noteq> ''admin''"
  define x where "x = (if u_is_admin u then (if \<not> py_incus env
      then answer (writeError 503 ''incus_unavailable'' ''Incus proxy not configured'') s else IncusProxy_ServeHTTP env q s)
    else (case py_delegated env of None \<Rightarrow> answer (writeError 403 ''forbidden'' ''admin role required'') s
      | Some p \<Rightarrow> ServeHTTPForUser env p q (u_id u) s))"
  obtain resp b s1 where x: "x = ((resp, b), s1)" by (metis prod.exhaust)
  have "sv_audit (pn_server (snd x)) = sv_audit (pn_server s)"
    by (simp add: x_def IncusProxy_ServeHTTP_def forward_server user_server split: option.split)
  then have audit: "sv_audit (pn_server s1) = sv_audit (pn_server s)" by (simp add: x)
  have b: "b = broken_off env (pn_sent s) (pn_sent s1) resp"
    using x unfolding x_def IncusProxy_ServeHTTP_def
    by (auto split: if_splits option.splits dest!: forward_aborted user_aborted)
  consider ?no_write | "\<not> ?no_write" "u_is_admin u \<and> ?no_admin" | "\<not> ?no_write" "\<not> (u_is_admin u \<and> ?no_admin)" by blast
  then show ?thesis
  proof cases
    case 3
    then have "handleIncusProxy env q s = audited (incusProxyMutation (rq_method ?r)) ?r u x"
      using assms by (cases "u_is_admin u"; cases "py_incus env"; cases "py_delegated env";
        simp add: handleIncusProxy_def x_def Let_def; blast)
    then show ?thesis using x audit b by blast
  qed (use assms in \<open>simp add: handleIncusProxy_def Let_def; blast\<close>)+
qed

text \<open>C12: a mutation through the Incus proxy by an authenticated user leaves exactly one audit record, naming the user
  and the URI: the mutation with the status that was answered, or, when the scope of the API token does not allow it,
  the denial, and then nothing was forwarded.  The exception is an answer whose body breaks off while it is copied:
  the handler is then aborted, the mutation was forwarded, and nothing is recorded.\<close>

theorem proxy_mutation_audited:
  assumes "handleIncusProxy env q s = ((resp, aborted), s')" "rq_user (pq_request q) = Some u"
    and "incusProxyMutation (rq_method (pq_request q))" "u_username u \<notin> {'''', ''anonymous''}"
  shows "aborted = broken_off env (pn_sent s) (pn_sent s') resp \<and>
    (if aborted then sv_audit (pn_server s') = sv_audit (pn_server s)
     else \<exists>a. sv_audit (pn_server s') = sv_audit (pn_server s) @ [a] \<and> au_actor a = u_username u \<and>
       au_actor_id a = format_int (u_id u) \<and> au_target_id a = rq_uri (pq_request q) \<and>
       ((au_action a = ''incus.proxy'' \<and> au_status_code a = (if rs_status resp = 0 then 200 else rs_status resp)) \<or>
        (au_action a = ''policy.deny'' \<and> au_outcome a = ''denied'' \<and> rs_status resp = 403 \<and> pn_sent s' = pn_sent s)))"
proof -
  let ?r = "pq_request q"
  have fields: "au_actor (mutation_record ?r u n) = u_username u \<and> au_actor_id (mutation_record ?r u n) = format_int (u_id u) \<and>
      au_target_id (mutation_record ?r u n) = rq_uri ?r \<and> au_action (mutation_record ?r u n) = ''incus.proxy'' \<and>
      au_status_code (mutation_record ?r u n) = (if n = 0 then 200 else n)" for n
    by (simp add: mutation_record_def auditIncusProxyMutation_def Let_def)
  from handler_shape [OF assms(2), of env s]
  consider (deny) a m where "((resp, aborted), s') = deny_scope ?r u a m s"
    | (step) rsp b s1 where "((resp, aborted), s') = audited True ?r u ((rsp, b), s1)" "sv_audit (pn_server s1) = sv_audit (pn_server s)"
      "b = broken_off env (pn_sent s) (pn_sent s1) rsp"
    using assms(1,3) by auto
  then show ?thesis
  proof cases
    case deny
    then show ?thesis using assms(4)
      by (auto simp: deny_scope_def auditForUserWithPolicyReason_def auditForActorWithPolicyReason_def or_unknown_def Let_def)
  next
    case step
    have eq: "resp = rsp" "aborted = b" "s' = snd (audited True ?r u ((rsp, b), s1))"
      using step(1) by (auto simp: audited_def)
    have sent: "pn_sent s' = pn_sent s1" by (simp add: eq(3) audited_sent)
    have "sv_audit (pn_server s') = sv_audit (pn_server s) @ (if aborted then [] else [mutation_record ?r u (rs_status resp)])"
      using audited_record [of ?r u rsp b s1] step(2) by (simp add: eq)
    moreover have "aborted = broken_off env (pn_sent s) (pn_sent s') resp" using step(3) sent eq(1,2) by simp
    ultimately show ?thesis using fields by (cases aborted) simp_all
  qed
qed

section \<open>A user with a certificate\<close>

text \<open>Alice calls with her API token; the upstream answers every request 200.  Encryption puts \<open>age:\<close> in front.\<close>

definition demo_cert :: incus_cert where
  "demo_cert = \<lparr>ic_user_id = 2, ic_cert_pem = '''', ic_encrypted_cert_pem = ''age:CERT'', ic_encrypted_key_pem = ''age:KEY'',
     ic_fingerprint = ''f'', ic_restricted = True, ic_project_scope = ''default'', ic_expires_at = Some 1000,
     ic_revoked_at = None, ic_created_at = 0, ic_updated_at = 0\<rparr>"

definition demo_pnode :: pnode where
  "demo_pnode = \<lparr>pn_server = demo_server2\<lparr>sv_db := demo_db2\<lparr>incus_certs := [demo_cert]\<rparr>\<rparr>, pn_sent = []\<rparr>"

definition demo_proxy_env :: proxy_env where
  "demo_proxy_env = \<lparr>py_now = 5 * second, py_upstream = (\<lambda>_ _ _. Inr (200, ''{}'', True)), py_incus = True, py_podman = True,
     py_delegated = Some \<lparr>dp_scheme = ''https'', dp_host = ''127.0.0.1:8443'', dp_path = ''''\<rparr>,
     py_decrypt = (\<lambda>c. cut_prefix c ''age:''), py_keypair = (\<lambda>_ _. True)\<rparr>"

definition demo_proxy_request :: proxy_request where
  "demo_proxy_request = \<lparr>pq_request = demo_request\<lparr>rq_path := ''/api/incus/1.0/instances'',
       rq_authorization := ''Bearer helling_x''\<rparr>, pq_query = '''',
     pq_headers = [(''Authorization'', [''Bearer helling_x'']), (''X-Helling-User'', [''root'']), (''Accept'', [''*''])], pq_body = ''{}''\<rparr>"

definition demo_proxied :: "proxied \<times> pnode" where
  "demo_proxied = incus_route demo_cfg demo_proxy_env demo_proxy_request demo_pnode"

text \<open>The request went out as Alice, with the headers stripped.\<close>

lemma demo_proxied_sent: "pn_sent (snd demo_proxied) = [(ClientTLS ''127.0.0.1:8443'' ''CERT'' ''KEY'',
   \<lparr>ob_method = ''POST'', ob_scheme = ''https'', ob_host = ''127.0.0.1:8443'', ob_path = ''/1.0/instances'', ob_query = '''',
    ob_headers = [(''Accept'', [''*''])], ob_body = ''{}''\<rparr>)]"
  by code_simp

theorem proxy_confined_witness:
  "\<exists>row scopes. acts_for demo_cfg (5 * second) (pq_request demo_proxy_request) (sv_db (pn_server demo_pnode)) row scopes \<and>
    forwarded demo_proxy_env [demo_cert] demo_proxy_request row scopes [] (pn_sent (snd demo_proxied))"
proof -
  have run: "proxy_route True demo_cfg demo_proxy_env demo_proxy_request demo_pnode = (fst demo_proxied, snd demo_proxied)"
    by (simp add: demo_proxied_def)
  have can: "canonical_headers (pq_headers demo_proxy_request)" by code_simp
  have sent: "pn_sent demo_pnode = []" "incus_certs (sv_db (pn_server demo_pnode)) = [demo_cert]" "py_now demo_proxy_env = 5 * second"
    by (simp_all add: demo_pnode_def demo_proxy_env_def)
  have "pn_sent (snd demo_proxied) \<noteq> pn_sent demo_pnode" unfolding sent demo_proxied_sent by simp
  then show ?thesis using proxy_confined [OF run can] unfolding sent by blast
qed

definition demo_mutation :: proxy_request where
  "demo_mutation = demo_proxy_request\<lparr>pq_request := (pq_request demo_proxy_request)\<lparr>rq_user := Some (demo_user 2 ''alice'' False),
     rq_scopes := Some ''read''\<rparr>\<rparr>"

theorem proxy_mutation_audited_witness:
  "length (sv_audit (pn_server (snd (handleIncusProxy demo_proxy_env demo_mutation demo_pnode)))) = 1"
proof -
  have hyps: "rq_user (pq_request demo_mutation) = Some (demo_user 2 ''alice'' False)"
    "incusProxyMutation (rq_method (pq_request demo_mutation))" "u_username (demo_user 2 ''alice'' False) \<notin> {'''', ''anonymous''}"
    "sv_audit (pn_server demo_pnode) = []"
    by (simp_all add: demo_mutation_def demo_proxy_request_def demo_request_def incusProxyMutation_def demo_user_def
        demo_pnode_def demo_server2_def demo_server_def)
  have "snd (fst (handleIncusProxy demo_proxy_env demo_mutation demo_pnode)) = False" by code_simp
  then have run: "handleIncusProxy demo_proxy_env demo_mutation demo_pnode =
      ((fst (fst (handleIncusProxy demo_proxy_env demo_mutation demo_pnode)), False), snd (handleIncusProxy demo_proxy_env demo_mutation demo_pnode))"
    by (metis prod.collapse)
  show ?thesis
    using proxy_mutation_audited [OF run hyps(1-3)] hyps(4) by auto
qed

text \<open>An upstream that breaks off: the mutation went out and left no record.\<close>

lemma aborted_unaudited:
  "let env = demo_proxy_env\<lparr>py_upstream := (\<lambda>_ _ _. Inr (200, ''{'', False))\<rparr>;
       q = demo_mutation\<lparr>pq_request := (pq_request demo_mutation)\<lparr>rq_scopes := Some ''write''\<rparr>\<rparr>;
       s = snd (handleIncusProxy env q demo_pnode)
   in length (pn_sent s) = 1 \<and> sv_audit (pn_server s) = []"
  by code_simp

text \<open>The path test of the Podman proxy looks at the two ends only: a path with dot segments to another resource passes
  and is forwarded as it is.\<close>

lemma podman_dot_segments:
  "podmanRequestAllowed (demo_request\<lparr>rq_method := ''GET'', rq_path := ''/api/podman/libpod/containers/../images/json''\<rparr>)"
  by code_simp

end
