(* ===== verification/Server_Metrics.thy ===== *)
theory Server_Metrics
  imports Incus_Client "HOL-Library.Product_Lexorder" "HOL-Library.Word"
begin

text \<open>
  The request metrics (\<open>server/metrics.go\<close>): the registry the middleware records into, its sorted snapshot and the text
  of \<open>/metrics\<close>, and the proof that the registry is a summary of the history of requests.  Counters are \<open>uint64\<close>.
  A duration is in nanoseconds; comparing it with a bucket in seconds, both as \<open>float64\<close>, is the same as comparing
  nanoseconds, since the bounds of the buckets are whole numbers of nanoseconds.  The \<open>float64\<close> sum of a sample is
  kept as the list of what was added to it, in order.  A map is the list of its entries, in no particular order.
\<close>

section \<open>The registry\<close>

record metric_key =
  mk_method :: string
  mk_path :: string
  mk_status :: string

record metric_sample =
  ms_count :: "64 word"
  ms_errors :: "64 word"
  ms_sum :: "int list"
  ms_buckets :: "64 word list"

type_synonym registry = "(metric_key \<times> metric_sample) list"

definition apiDurationBuckets :: "int list" where
  "apiDurationBuckets = [5000000, 10000000, 25000000, 50000000, 100000000, 250000000, 500000000,
     1000000000, 2500000000, 5000000000, 10000000000]"

definition zero_sample :: metric_sample where
  "zero_sample = \<lparr>ms_count = 0, ms_errors = 0, ms_sum = [], ms_buckets = map (\<lambda>_. 0) apiDurationBuckets\<rparr>"

definition metric_key_of :: "string \<Rightarrow> string \<Rightarrow> nat \<Rightarrow> metric_key" where
  "metric_key_of meth path status =
     \<lparr>mk_method = meth, mk_path = (if path = '''' then ''unknown'' else path), mk_status = format_int (int status)\<rparr>"

definition add_sample :: "nat \<Rightarrow> int \<Rightarrow> metric_sample \<Rightarrow> metric_sample" where
  "add_sample status duration s = \<lparr>ms_count = ms_count s + 1,
     ms_errors = (if 500 \<le> status then ms_errors s + 1 else ms_errors s), ms_sum = ms_sum s @ [duration],
     ms_buckets = map (\<lambda>(upper, n). if duration \<le> upper then n + 1 else n) (zip apiDurationBuckets (ms_buckets s))\<rparr>"

fun map_put :: "'k \<Rightarrow> ('v option \<Rightarrow> 'v) \<Rightarrow> ('k \<times> 'v) list \<Rightarrow> ('k \<times> 'v) list" where
  "map_put k f [] = [(k, f None)]"
| "map_put k f ((k', v) # m) = (if k' = k then (k, f (Some v)) # m else (k', v) # map_put k f m)"

definition record_metric :: "string \<Rightarrow> string \<Rightarrow> nat \<Rightarrow> int \<Rightarrow> registry \<Rightarrow> registry" where
  "record_metric meth path status duration = map_put (metric_key_of meth path status)
     (\<lambda>s. add_sample status duration (case s of None \<Rightarrow> zero_sample | Some s \<Rightarrow> s))"

definition key_order :: "metric_key \<Rightarrow> string \<times> string \<times> string" where
  "key_order k = (mk_path k, mk_method k, mk_status k)"

definition metrics_snapshot :: "registry \<Rightarrow> registry" where
  "metrics_snapshot m = sort_key (\<lambda>e. key_order (fst e)) m"

section \<open>The middleware\<close>

text \<open>\<open>None\<close> is a request chi matched to no route.\<close>

definition metricsMiddleware :: "string \<Rightarrow> string option \<Rightarrow> nat \<Rightarrow> int \<Rightarrow> registry \<Rightarrow> registry" where
  "metricsMiddleware meth routePattern written duration =
     record_metric meth (case routePattern of None \<Rightarrow> ''unmatched'' | Some p \<Rightarrow> if p \<noteq> '''' then p else ''unmatched'')
       (if written = 0 then 200 else written) duration"

section \<open>The text of /metrics\<close>

definition replace_all :: "char \<Rightarrow> string \<Rightarrow> string \<Rightarrow> string" where
  "replace_all c new s = concat (map (\<lambda>x. if x = c then new else [x]) s)"

definition escapeMetricLabel :: "string \<Rightarrow> string" where
  "escapeMetricLabel value =
     replace_all (CHR 0x22) [backslash, CHR 0x22] (replace_all (CHR 0x0A) [backslash, CHR ''n'']
       (replace_all backslash [backslash, backslash] value))"

definition go_quote :: "(nat \<Rightarrow> bool) \<Rightarrow> string \<Rightarrow> string" where
  "go_quote printable s = CHR 0x22 # quote_body printable s @ [CHR 0x22]"

definition metricLabels :: "(nat \<Rightarrow> bool) \<Rightarrow> metric_key \<Rightarrow> string" where
  "metricLabels printable k = ''method='' @ go_quote printable (escapeMetricLabel (mk_method k)) @
     '',path='' @ go_quote printable (escapeMetricLabel (mk_path k)) @
     '',status='' @ go_quote printable (escapeMetricLabel (mk_status k))"

definition metric_line :: "string \<Rightarrow> string \<Rightarrow> string \<Rightarrow> string" where
  "metric_line name labels v = name @ ''{'' @ labels @ ''} '' @ v"

definition show_word :: "64 word \<Rightarrow> string" where
  "show_word w = format_int (uint w)"

text \<open>\<open>strconv.FormatFloat\<close> of the bounds.\<close>

definition bucket_names :: "string list" where
  "bucket_names = [''0.005'', ''0.01'', ''0.025'', ''0.05'', ''0.1'', ''0.25'', ''0.5'', ''1'', ''2.5'', ''5'', ''10'']"

text \<open>The sections of the answer, line by line.  \<open>show_sum\<close> prints the \<open>float64\<close> sum of durations with nine decimals.\<close>

definition request_lines :: "(nat \<Rightarrow> bool) \<Rightarrow> registry \<Rightarrow> string list" where
  "request_lines printable rows =
     [''# HELP helling_api_requests_total Total HTTP requests served by hellingd.'',
      ''# TYPE helling_api_requests_total counter''] @
     map (\<lambda>(k, s). metric_line ''helling_api_requests_total'' (metricLabels printable k) (show_word (ms_count s))) rows"

definition error_lines :: "(nat \<Rightarrow> bool) \<Rightarrow> registry \<Rightarrow> string list" where
  "error_lines printable rows =
     [''# HELP helling_api_errors_total Total HTTP requests returning 5xx errors.'',
      ''# TYPE helling_api_errors_total counter''] @
     map (\<lambda>(k, s). metric_line ''helling_api_errors_total'' (metricLabels printable k) (show_word (ms_errors s)))
       (filter (\<lambda>(k, s). ms_errors s \<noteq> 0) rows)"

definition duration_lines :: "(nat \<Rightarrow> bool) \<Rightarrow> (int list \<Rightarrow> string) \<Rightarrow> registry \<Rightarrow> string list" where
  "duration_lines printable show_sum rows =
     [''# HELP helling_api_request_duration_seconds HTTP request duration histogram.'',
      ''# TYPE helling_api_request_duration_seconds histogram''] @
     concat (map (\<lambda>(k, s). let labels = metricLabels printable k; name = ''helling_api_request_duration_seconds'' in
       map (\<lambda>(upper, n). metric_line (name @ ''_bucket'') (labels @ '',le='' @ go_quote printable upper) (show_word n))
         (zip bucket_names (ms_buckets s)) @
       [metric_line (name @ ''_bucket'') (labels @ '',le='' @ go_quote printable ''+Inf'') (show_word (ms_count s)),
        metric_line (name @ ''_sum'') labels (show_sum (ms_sum s)),
        metric_line (name @ ''_count'') labels (show_word (ms_count s))]) rows)"

text \<open>What the handler reads elsewhere: goroutines, open connections, the size of the database or \<open>None\<close> on an error, and
  the scrape of Incus: not configured, failed, or its text.\<close>

record metric_gauges =
  mg_goroutines :: nat
  mg_connections :: nat
  mg_db_size :: "int option"
  mg_incus :: "string option option"

definition gauge_lines :: "metric_gauges \<Rightarrow> string list" where
  "gauge_lines g =
     [''# HELP helling_goroutines Current number of Go goroutines.'', ''# TYPE helling_goroutines gauge'',
      ''helling_goroutines '' @ format_int (int (mg_goroutines g)),
      ''# HELP helling_open_connections Current open SQLite connections.'', ''# TYPE helling_open_connections gauge'',
      ''helling_open_connections '' @ format_int (int (mg_connections g)),
      ''# HELP helling_db_size_bytes Current SQLite database size estimated from page_count * page_size.'',
      ''# TYPE helling_db_size_bytes gauge'',
      ''helling_db_size_bytes '' @ format_int (case mg_db_size g of None \<Rightarrow> 0 | Some n \<Rightarrow> n)]"

definition scrape_line :: "bool \<Rightarrow> string" where
  "scrape_line ok = metric_line ''helling_upstream_metrics_scrape_success''
     (''upstream='' @ [CHR 0x22] @ ''incus'' @ [CHR 0x22]) (if ok then ''1'' else ''0'')"

definition upstream_lines :: "metric_gauges \<Rightarrow> string list" where
  "upstream_lines g =
     [''# HELP helling_upstream_metrics_scrape_success Whether the latest upstream metrics scrape succeeded.'',
      ''# TYPE helling_upstream_metrics_scrape_success gauge''] @
     (case mg_incus g of
        Some (Some upstream) \<Rightarrow> [scrape_line True] @ (if upstream \<noteq> '''' then
          ['''', ''# BEGIN proxied Incus /1.0/metrics'', upstream, ''# END proxied Incus /1.0/metrics''] else [])
      | _ \<Rightarrow> [scrape_line False])"

definition handleMetrics :: "(nat \<Rightarrow> bool) \<Rightarrow> (int list \<Rightarrow> string) \<Rightarrow> metric_gauges \<Rightarrow> registry \<Rightarrow> string" where
  "handleMetrics printable show_sum g m = (let rows = metrics_snapshot m in
     concat (map (\<lambda>l. l @ [CHR 0x0A]) (request_lines printable rows @ error_lines printable rows @
       duration_lines printable show_sum rows @ gauge_lines g @ upstream_lines g)))"

section \<open>The registry summarises the history\<close>

text \<open>A served request: method, path, status and duration.\<close>

type_synonym served = "string \<times> string \<times> nat \<times> int"

definition served_key :: "served \<Rightarrow> metric_key" where
  "served_key = (\<lambda>(meth, path, status, _). metric_key_of meth path status)"

definition served_with :: "metric_key \<Rightarrow> served list \<Rightarrow> served list" where
  "served_with k h = filter (\<lambda>r. served_key r = k) h"

definition history_sample :: "metric_key \<Rightarrow> served list \<Rightarrow> metric_sample" where
  "history_sample k h = (let rs = served_with k h in
     \<lparr>ms_count = of_nat (length rs), ms_errors = of_nat (length (filter (\<lambda>(_, _, status, _). 500 \<le> status) rs)),
      ms_sum = map (\<lambda>(_, _, _, d). d) rs,
      ms_buckets = map (\<lambda>upper. of_nat (length (filter (\<lambda>(_, _, _, d). d \<le> upper) rs))) apiDurationBuckets\<rparr>)"

definition serve_all :: "served list \<Rightarrow> registry" where
  "serve_all h = fold (\<lambda>(meth, path, status, d). record_metric meth path status d) h []"

lemma map_of_map_put: "map_of (map_put k f m) = (map_of m)(k \<mapsto> f (map_of m k))"
  by (induction m rule: map_put.induct) auto

lemma keys_map_put: "map fst (map_put k f m) = (if k \<in> fst ` set m then map fst m else map fst m @ [k])"
  by (induction m rule: map_put.induct) auto

lemma zip_map_self: "zip xs (map f xs) = map (\<lambda>x. (x, f x)) xs"
  by (induction xs) auto

lemma history_new: "served_with k h = [] \<Longrightarrow> history_sample k h = zero_sample"
  by (simp add: history_sample_def zero_sample_def)

lemma history_snoc:
  "history_sample k (h @ [(meth, path, status, d)]) =
     (if metric_key_of meth path status = k then add_sample status d (history_sample k h) else history_sample k h)"
  by (simp add: history_sample_def served_with_def served_key_def add_sample_def Let_def zip_map_self)

lemma serve_all_snoc:
  "serve_all (h @ [(meth, path, status, d)]) = record_metric meth path status d (serve_all h)"
  by (simp add: serve_all_def)

lemma serve_all_entries:
  "distinct (map fst (serve_all h)) \<and> fst ` set (serve_all h) = served_key ` set h \<and>
   (\<forall>k. map_of (serve_all h) k = (if k \<in> served_key ` set h then Some (history_sample k h) else None))"
proof (induction h rule: rev_induct)
  case Nil
  show ?case by (simp add: serve_all_def)
next
  case (snoc r h)
  obtain meth path status d where r: "r = (meth, path, status, d)" by (metis prod.exhaust)
  let ?k = "metric_key_of meth path status"
  have key: "served_key r = ?k" by (simp add: r served_key_def)
  have "map_of (serve_all (h @ [r])) k = (if k \<in> served_key ` set (h @ [r]) then Some (history_sample k (h @ [r])) else None)" for k
  proof (cases "k = ?k")
    case True
    have "history_sample k h = zero_sample" if "k \<notin> served_key ` set h"
      by (rule history_new) (use that in \<open>auto simp: served_with_def filter_empty_conv\<close>)
    then show ?thesis using True snoc key
      by (auto simp: r serve_all_snoc record_metric_def map_of_map_put history_snoc)
  next
    case False
    then show ?thesis using snoc key by (auto simp: r serve_all_snoc record_metric_def map_of_map_put history_snoc)
  qed
  moreover have "map fst (serve_all (h @ [r])) =
      (if ?k \<in> fst ` set (serve_all h) then map fst (serve_all h) else map fst (serve_all h) @ [?k])"
    by (simp add: r serve_all_snoc record_metric_def keys_map_put)
  then have "distinct (map fst (serve_all (h @ [r])))" "set (map fst (serve_all (h @ [r]))) = served_key ` set (h @ [r])"
    using snoc key by (auto split: if_splits)
  ultimately show ?case by simp
qed

lemma entries_by_key:
  assumes "distinct (map fst m)"
  shows "m = map (\<lambda>k. (k, the (map_of m k))) (map fst m)"
proof -
  have "map (\<lambda>k. (k, the (map_of m k))) (map fst m) = map (\<lambda>e. (fst e, the (map_of m (fst e)))) m" by simp
  also have "\<dots> = map id m"
    by (rule map_cong [OF refl]) (use assms in \<open>auto simp: map_of_eq_Some_iff\<close>)
  finally show ?thesis by simp
qed

lemma insort_pairs: "insort_key (\<lambda>e. g (fst e)) (k, f k) (map (\<lambda>k. (k, f k)) ks) = map (\<lambda>k. (k, f k)) (insort_key g k ks)"
  by (induction ks) auto

lemma sort_pairs: "sort_key (\<lambda>e. g (fst e)) (map (\<lambda>k. (k, f k)) ks) = map (\<lambda>k. (k, f k)) (sort_key g ks)"
  by (induction ks) (simp_all add: insort_pairs)

lemma inj_key_order: "inj key_order"
  by (rule injI) (simp add: key_order_def)

lemma sort_key_set:
  assumes "distinct xs" "distinct ys" "set xs = set ys"
  shows "sort_key key_order xs = sort_key key_order ys"
  using assms inj_key_order
  by (intro map_sorted_distinct_set_unique [of key_order]) (auto simp: distinct_map inj_on_def)

text \<open>C30: after any sequence of requests the snapshot has exactly one row for each combination of method, path and
  status that occurred, in the order of path, method and status, and the row counts exactly the requests of that
  combination, its errors and how many were no slower than each bound, modulo 2^64, with their durations summed in
  order.\<close>

theorem snapshot_summarises_history:
  "metrics_snapshot (serve_all h) =
     map (\<lambda>k. (k, history_sample k h)) (sort_key key_order (remdups (map served_key h)))"
proof -
  let ?m = "serve_all h"
  have e: "distinct (map fst ?m)" "fst ` set ?m = served_key ` set h"
    "\<And>k. k \<in> served_key ` set h \<Longrightarrow> map_of ?m k = Some (history_sample k h)"
    using serve_all_entries [of h] by auto
  have "?m = map (\<lambda>k. (k, the (map_of ?m k))) (map fst ?m)" by (rule entries_by_key [OF e(1)])
  also have "\<dots> = map (\<lambda>k. (k, history_sample k h)) (map fst ?m)"
    by (rule map_cong [OF refl]) (use e(2,3) in auto)
  finally have m: "?m = map (\<lambda>k. (k, history_sample k h)) (map fst ?m)" .
  have "metrics_snapshot ?m = map (\<lambda>k. (k, history_sample k h)) (sort_key key_order (map fst ?m))"
    unfolding metrics_snapshot_def by (subst m) (rule sort_pairs)
  also have "sort_key key_order (map fst ?m) = sort_key key_order (remdups (map served_key h))"
    by (rule sort_key_set) (use e in auto)
  finally show ?thesis .
qed

end
