(* ===== verification/Daemon_Config.thy ===== *)
theory Daemon_Config
  imports Go_Text Rate_Limit "HOL-Library.Word"
begin

text \<open>
  The configuration of the daemon (\<open>config/config.go\<close>), what \<open>main.go\<close> makes of it, and the checks and defaults of
  \<open>server.New\<close>.  YAML decoding is a parameter: it updates a configuration from the text of the file, or fails.
  An \<open>int\<close> is an integer within 64 bits; a duration is computed in 64 bits.
\<close>

unbundle bit_operations_syntax

section \<open>The configuration\<close>

record daemon_config =
  dc_state_dir :: string
  dc_socket_path :: string
  dc_socket_group :: string
  dc_socket_mode :: "32 word"
  dc_log_level :: string
  dc_log_format :: string
  dc_session_ttl_hours :: int
  dc_access_ttl_minutes :: int
  dc_jwt_signing_key_path :: string
  dc_setup_token_path :: string
  dc_schedule_token_path :: string
  dc_login_rate_limit :: int
  dc_argon2_time_cost :: int
  dc_argon2_memory_kib :: int
  dc_argon2_parallelism :: int
  dc_incus_socket_path :: string
  dc_incus_project :: string
  dc_https_endpoint :: string
  dc_ca_cert_path :: string
  dc_tls_server_name :: string
  dc_helling_ca_key_path :: string
  dc_helling_ca_cert_path :: string

definition Defaults :: daemon_config where
  "Defaults = \<lparr>dc_state_dir = ''/var/lib/helling'', dc_socket_path = ''/run/helling/api.sock'',
     dc_socket_group = ''helling-proxy'', dc_socket_mode = 432, dc_log_level = ''info'', dc_log_format = ''json'',
     dc_session_ttl_hours = 24 * 7, dc_access_ttl_minutes = 15,
     dc_jwt_signing_key_path = ''/var/lib/helling/jwt/ed25519.key'', dc_setup_token_path = ''/etc/helling/setup-token'',
     dc_schedule_token_path = ''/etc/helling/schedule-runner.token'', dc_login_rate_limit = 5, dc_argon2_time_cost = 3,
     dc_argon2_memory_kib = 64 * 1024, dc_argon2_parallelism = 4,
     dc_incus_socket_path = ''/var/lib/incus/unix.socket.user'', dc_incus_project = ''default'',
     dc_https_endpoint = ''https://127.0.0.1:8443'', dc_ca_cert_path = ''/var/lib/incus/server.crt'', dc_tls_server_name = '''',
     dc_helling_ca_key_path = ''/var/lib/helling/ca.key.age'', dc_helling_ca_cert_path = ''/var/lib/helling/ca.crt''\<rparr>"

section \<open>The environment\<close>

text \<open>A variable that is set and not empty replaces the value.\<close>

definition env_or :: "(string \<Rightarrow> string) \<Rightarrow> string \<Rightarrow> string \<Rightarrow> string" where
  "env_or getenv name v = (if getenv name \<noteq> '''' then getenv name else v)"

definition env_positive :: "(string \<Rightarrow> string) \<Rightarrow> string \<Rightarrow> int \<Rightarrow> int" where
  "env_positive getenv name v = (if getenv name \<noteq> '''' then
     (case parse_int64 (getenv name) of Some n \<Rightarrow> if n > 0 then n else v | None \<Rightarrow> v) else v)"

definition applyBaseEnv :: "(string \<Rightarrow> string) \<Rightarrow> daemon_config \<Rightarrow> daemon_config" where
  "applyBaseEnv getenv c = c\<lparr>dc_state_dir := env_or getenv ''HELLING_STATE_DIR'' (dc_state_dir c),
     dc_socket_path := env_or getenv ''HELLING_SOCKET_PATH'' (dc_socket_path c),
     dc_log_level := env_or getenv ''HELLING_LOG_LEVEL'' (dc_log_level c),
     dc_log_format := env_or getenv ''HELLING_LOG_FORMAT'' (dc_log_format c)\<rparr>"

definition applyIncusEnv :: "(string \<Rightarrow> string) \<Rightarrow> daemon_config \<Rightarrow> daemon_config" where
  "applyIncusEnv getenv c = c\<lparr>dc_incus_socket_path := env_or getenv ''HELLING_INCUS_SOCKET'' (dc_incus_socket_path c),
     dc_incus_project := env_or getenv ''HELLING_INCUS_PROJECT'' (dc_incus_project c),
     dc_https_endpoint := env_or getenv ''HELLING_INCUS_HTTPS_ENDPOINT'' (dc_https_endpoint c),
     dc_ca_cert_path := env_or getenv ''HELLING_INCUS_CA_CERT_PATH'' (dc_ca_cert_path c),
     dc_tls_server_name := env_or getenv ''HELLING_INCUS_TLS_SERVER_NAME'' (dc_tls_server_name c),
     dc_helling_ca_key_path := env_or getenv ''HELLING_INCUS_HELLING_CA_KEY_PATH'' (dc_helling_ca_key_path c),
     dc_helling_ca_cert_path := env_or getenv ''HELLING_INCUS_HELLING_CA_CERT_PATH'' (dc_helling_ca_cert_path c)\<rparr>"

definition applyAuthEnv :: "(string \<Rightarrow> string) \<Rightarrow> daemon_config \<Rightarrow> daemon_config" where
  "applyAuthEnv getenv c = c\<lparr>dc_session_ttl_hours := env_positive getenv ''HELLING_SESSION_TTL_HOURS'' (dc_session_ttl_hours c),
     dc_access_ttl_minutes := env_positive getenv ''HELLING_AUTH_ACCESS_TTL_MINUTES'' (dc_access_ttl_minutes c),
     dc_jwt_signing_key_path := env_or getenv ''HELLING_AUTH_JWT_SIGNING_KEY_PATH'' (dc_jwt_signing_key_path c),
     dc_setup_token_path := env_or getenv ''HELLING_AUTH_SETUP_TOKEN_PATH'' (dc_setup_token_path c),
     dc_schedule_token_path := env_or getenv ''HELLING_AUTH_SCHEDULE_TOKEN_PATH'' (dc_schedule_token_path c)\<rparr>"

definition applyEnv :: "(string \<Rightarrow> string) \<Rightarrow> daemon_config \<Rightarrow> daemon_config" where
  "applyEnv getenv c = applyAuthEnv getenv (applyIncusEnv getenv (applyBaseEnv getenv c))"

section \<open>Validation\<close>

text \<open>The first check that fails gives the error.\<close>

fun first_failure :: "(bool \<times> string) list \<Rightarrow> string + unit" where
  "first_failure [] = Inr ()"
| "first_failure ((bad, m) # cs) = (if bad then Inl m else first_failure cs)"

definition is_abs :: "string \<Rightarrow> bool" where
  "is_abs p = has_prefix p ''/''"

definition auth_validate :: "daemon_config \<Rightarrow> string + unit" where
  "auth_validate c = first_failure
     [(dc_access_ttl_minutes c \<le> 0, ''auth.access_ttl_minutes must be > 0''),
      (dc_jwt_signing_key_path c = '''', ''auth.jwt_signing_key_path must not be empty''),
      (dc_setup_token_path c = '''', ''auth.setup_token_path must not be empty''),
      (\<not> is_abs (dc_setup_token_path c), ''auth.setup_token_path must be absolute''),
      (dc_schedule_token_path c = '''', ''auth.schedule_runner_token_path must not be empty''),
      (\<not> is_abs (dc_schedule_token_path c), ''auth.schedule_runner_token_path must be absolute''),
      (dc_login_rate_limit c \<le> 0, ''auth.login_rate_limit_per_15m must be > 0''),
      (dc_argon2_time_cost c \<le> 0, ''auth.argon2_time_cost must be > 0''),
      (10 < dc_argon2_time_cost c, ''auth.argon2_time_cost must be <= 10''),
      (dc_argon2_memory_kib c < 8 * 1024, ''auth.argon2_memory_kib must be >= 8192 (8 MiB)''),
      (256 * 1024 < dc_argon2_memory_kib c, ''auth.argon2_memory_kib must be <= 262144 (256 MiB)''),
      (dc_argon2_parallelism c \<le> 0, ''auth.argon2_parallelism must be > 0''),
      (8 < dc_argon2_parallelism c, ''auth.argon2_parallelism must be <= 8'')]"

definition incus_validate :: "daemon_config \<Rightarrow> string + unit" where
  "incus_validate c = first_failure
     [(dc_helling_ca_key_path c = '''', ''incus.helling_ca_key_path must not be empty''),
      (\<not> is_abs (dc_helling_ca_key_path c), ''incus.helling_ca_key_path must be absolute''),
      (dc_helling_ca_cert_path c = '''', ''incus.helling_ca_cert_path must not be empty''),
      (\<not> is_abs (dc_helling_ca_cert_path c), ''incus.helling_ca_cert_path must be absolute'')]"

definition maxSessionTTLHours :: int where "maxSessionTTLHours = 24 * 30"

text \<open>Errors that print a value show only the name of the setting here.\<close>

definition config_validate :: "daemon_config \<Rightarrow> string + unit" where
  "config_validate c = (case first_failure
     [(dc_state_dir c = '''', ''state_dir must not be empty''),
      (dc_socket_path c = '''', ''server.socket_path must not be empty''),
      (\<not> is_abs (dc_socket_path c), ''server.socket_path must be absolute''),
      (dc_socket_mode c AND NOT 432 \<noteq> 0, ''server.socket_mode must grant no broader access than 0660''),
      (dc_session_ttl_hours c \<le> 0, ''auth.session_ttl_hours must be > 0''),
      (maxSessionTTLHours < dc_session_ttl_hours c, ''auth.session_ttl_hours must be <= 720'')] of
     Inl m \<Rightarrow> Inl m
   | Inr _ \<Rightarrow> (case auth_validate c of
       Inl m \<Rightarrow> Inl m
     | Inr _ \<Rightarrow> (case first_failure
         [(dc_log_format c \<notin> {''json'', ''text''}, ''log.format''),
          (dc_log_level c \<notin> {''debug'', ''info'', ''warn'', ''error''}, ''log.level'')] of
         Inl m \<Rightarrow> Inl m
       | Inr _ \<Rightarrow> incus_validate c)))"

text \<open>\<open>os.ReadFile\<close>: the text, no such file, or another error.\<close>

datatype config_file = FileText string | FileMissing | FileError

definition Load ::
  "(string \<Rightarrow> daemon_config \<Rightarrow> daemon_config option) \<Rightarrow> (string \<Rightarrow> string) \<Rightarrow> config_file \<Rightarrow> string + daemon_config" where
  "Load yaml getenv file =
     (case (case file of
        FileText data \<Rightarrow> (case yaml data Defaults of None \<Rightarrow> Inl ''parsing'' | Some c \<Rightarrow> Inr c)
      | FileMissing \<Rightarrow> Inr Defaults
      | FileError \<Rightarrow> Inl ''reading'') of
        Inl m \<Rightarrow> Inl m
      | Inr c \<Rightarrow> let c = applyEnv getenv c in
          (case config_validate c of Inl m \<Rightarrow> Inl m | Inr _ \<Rightarrow> Inr c))"

section \<open>What the daemon makes of it\<close>

text \<open>Multiplication of \<open>time.Duration\<close>: 64 bits, signed.\<close>

definition duration_times :: "int \<Rightarrow> int \<Rightarrow> int" where
  "duration_times n unit = sint (word_of_int (n * unit) :: 64 word)"

record argon2_params =
  ap_time :: "32 word"
  ap_memory_kib :: "32 word"
  ap_parallelism :: "8 word"
  ap_salt_len :: nat
  ap_key_len :: nat

definition argon2ParamsFromConfig :: "daemon_config \<Rightarrow> argon2_params" where
  "argon2ParamsFromConfig c = \<lparr>ap_time = word_of_int (dc_argon2_time_cost c), ap_memory_kib = word_of_int (dc_argon2_memory_kib c),
     ap_parallelism = word_of_int (dc_argon2_parallelism c), ap_salt_len = 16, ap_key_len = 32\<rparr>"

record auth_settings =
  as_session_ttl :: int
  as_access_ttl :: int
  as_username_limit :: int
  as_username_window :: int
  as_ip_limit :: int
  as_ip_window :: int
  as_setup_token_path :: string
  as_schedule_token_path :: string
  as_argon2 :: argon2_params

definition auth_settings_of :: "daemon_config \<Rightarrow> auth_settings" where
  "auth_settings_of c = \<lparr>as_session_ttl = duration_times (dc_session_ttl_hours c) (60 * minute),
     as_access_ttl = duration_times (dc_access_ttl_minutes c) minute, as_username_limit = 5,
     as_username_window = 15 * minute, as_ip_limit = 20, as_ip_window = 15 * minute,
     as_setup_token_path = dc_setup_token_path c, as_schedule_token_path = dc_schedule_token_path c,
     as_argon2 = argon2ParamsFromConfig c\<rparr>"

record server_config =
  sg_has_store :: bool
  sg_has_logger :: bool
  sg_auth :: auth_settings
  sg_retry_delays :: "int list option"
  sg_workers :: int
  sg_retention_rows :: int
  sg_retention_age :: int

text \<open>What \<open>main\<close> hands to \<open>New\<close>, as far as \<open>New\<close> looks at it.\<close>

definition server_config_of :: "daemon_config \<Rightarrow> server_config" where
  "server_config_of c = \<lparr>sg_has_store = True, sg_has_logger = True, sg_auth = auth_settings_of c,
     sg_retry_delays = None, sg_workers = 0, sg_retention_rows = 0, sg_retention_age = 0\<rparr>"

text \<open>The configuration with its defaults, and the two limiters.\<close>

definition server_New :: "server_config \<Rightarrow> string + (server_config \<times> limiter \<times> limiter)" where
  "server_New c = (let a = sg_auth c in case first_failure
     [(\<not> sg_has_store c, ''server.New: Store is required''),
      (\<not> sg_has_logger c, ''server.New: Logger is required''),
      (as_session_ttl a \<le> 0, ''server.New: Auth.SessionTTL must be > 0''),
      (as_username_limit a \<le> 0 \<or> as_username_window a \<le> 0, ''server.New: Auth.UsernameLimit/Window must be > 0''),
      (as_ip_limit a \<le> 0 \<or> as_ip_window a \<le> 0, ''server.New: Auth.IPLimit/Window must be > 0'')] of
     Inl m \<Rightarrow> Inl m
   | Inr _ \<Rightarrow> Inr (c\<lparr>
       sg_retry_delays := (case sg_retry_delays c of None \<Rightarrow> Some [second, 10 * second, 60 * second] | Some d \<Rightarrow> Some d),
       sg_workers := (if sg_workers c \<le> 0 then 4 else sg_workers c),
       sg_retention_rows := (if sg_retention_rows c \<le> 0 then 150000 else sg_retention_rows c),
       sg_retention_age := (if sg_retention_age c \<le> 0 then 7 * 24 * 60 * minute else sg_retention_age c)\<rparr>,
     NewRateLimiter (as_username_limit a) (as_username_window a), NewRateLimiter (as_ip_limit a) (as_ip_window a)))"

section \<open>What a loaded configuration guarantees\<close>

lemma first_failure_Inr: "first_failure cs = Inr u \<longleftrightarrow> list_all (\<lambda>(bad, m). \<not> bad) cs"
  by (induction cs rule: first_failure.induct) auto

declare first_failure.simps [simp del]

lemma validated:
  assumes "config_validate c = Inr u"
  shows "dc_socket_mode c AND NOT 432 = 0" "0 < dc_session_ttl_hours c" "dc_session_ttl_hours c \<le> 720"
    "0 < dc_access_ttl_minutes c" "1 \<le> dc_argon2_time_cost c" "dc_argon2_time_cost c \<le> 10"
    "8192 \<le> dc_argon2_memory_kib c" "dc_argon2_memory_kib c \<le> 262144"
    "1 \<le> dc_argon2_parallelism c" "dc_argon2_parallelism c \<le> 8"
  using assms
  by (auto simp: config_validate_def auth_validate_def first_failure_Inr maxSessionTTLHours_def split: sum.splits)

lemma loaded: "Load yaml getenv file = Inr c \<Longrightarrow> config_validate c = Inr ()"
  by (auto simp: Load_def Let_def split: sum.splits)

text \<open>Environment, then file, then default.\<close>

lemma load_precedence:
  assumes "Load yaml getenv (FileText data) = Inr c" "yaml data Defaults = Some y"
  shows "dc_socket_path c = env_or getenv ''HELLING_SOCKET_PATH'' (dc_socket_path y)"
    "dc_session_ttl_hours c = env_positive getenv ''HELLING_SESSION_TTL_HOURS'' (dc_session_ttl_hours y)"
    "dc_helling_ca_key_path c = env_or getenv ''HELLING_INCUS_HELLING_CA_KEY_PATH'' (dc_helling_ca_key_path y)"
    "dc_argon2_time_cost c = dc_argon2_time_cost y"
  using assms
  by (auto simp: Load_def Let_def applyEnv_def applyBaseEnv_def applyIncusEnv_def applyAuthEnv_def split: sum.splits)

lemma duration_exact:
  assumes "0 \<le> n" "0 < unit"
  shows "duration_times n unit = n * unit \<longleftrightarrow> n * unit < 2 ^ 63"
proof -
  have s: "sint (word_of_int x :: 64 word) = signed_take_bit 63 x" for x
    by transfer simp
  show ?thesis
  proof
    assume "duration_times n unit = n * unit"
    then show "n * unit < 2 ^ 63" using sint_lt [of "word_of_int (n * unit) :: 64 word"] by (simp add: duration_times_def)
  next
    assume "n * unit < 2 ^ 63"
    moreover have "0 \<le> n * unit" using assms by simp
    ultimately show "duration_times n unit = n * unit"
      unfolding duration_times_def s by (intro signed_take_bit_int_eq_self) auto
  qed
qed

lemma mode_bits:
  fixes w :: "32 word"
  assumes "w AND NOT 432 = 0" "bit w n"
  shows "n \<in> {4, 5, 7, 8}"
proof -
  have "\<not> bit (w AND NOT 432) n" unfolding assms(1) by simp
  then have "\<not> bit (NOT 432 :: 32 word) n" using assms(2) unfolding bit_and_iff by blast
  moreover have n: "n < 32" using bit_imp_le_length [OF assms(2)] by simp
  ultimately have "bit (432 :: 32 word) n" unfolding bit_not_iff by (simp add: impossible_bit)
  moreover have "list_all (\<lambda>n. bit (432 :: 32 word) n \<longrightarrow> n \<in> {4, 5, 7, 8}) [0..<32]" by code_simp
  ultimately show ?thesis using n by (simp add: list_all_iff)
qed

text \<open>C29: a configuration that loads is one the daemon starts with: \<open>server.New\<close> accepts what \<open>main\<close> makes of it, with
  limiters of 5 and 20 attempts in 15 minutes; the lifetime of a session is computed without overflow, from an hour
  to 30 days, that of an access token exactly when it is at most 153722867 minutes; the parameters of Argon2 fit
  their widths; and the mode of the socket gives others nothing and nobody execution.\<close>

theorem config_accepted:
  assumes "Load yaml getenv file = Inr c"
  shows "(\<exists>c' ul il. server_New (server_config_of c) = Inr (c', ul, il) \<and> rl_limit ul = 5 \<and> rl_limit il = 20 \<and>
      rl_window ul = 15 * minute \<and> rl_window il = 15 * minute \<and> sg_workers c' = 4 \<and> sg_auth c' = auth_settings_of c) \<and>
    as_session_ttl (auth_settings_of c) = dc_session_ttl_hours c * (60 * minute) \<and>
    60 * minute \<le> as_session_ttl (auth_settings_of c) \<and> as_session_ttl (auth_settings_of c) \<le> 30 * 24 * 60 * minute \<and>
    (as_access_ttl (auth_settings_of c) = dc_access_ttl_minutes c * minute \<longleftrightarrow> dc_access_ttl_minutes c \<le> 153722867) \<and>
    uint (ap_time (argon2ParamsFromConfig c)) = dc_argon2_time_cost c \<and>
    uint (ap_memory_kib (argon2ParamsFromConfig c)) = dc_argon2_memory_kib c \<and>
    uint (ap_parallelism (argon2ParamsFromConfig c)) = dc_argon2_parallelism c \<and>
    {n. bit (dc_socket_mode c) n} \<subseteq> {4, 5, 7, 8}"
proof -
  note v = validated [OF loaded [OF assms]]
  have m: "minute = 60000000000" by (simp add: minute_def second_def)
  have ttl: "as_session_ttl (auth_settings_of c) = dc_session_ttl_hours c * (60 * minute)"
    unfolding auth_settings_of_def auth_settings.simps using duration_exact [of "dc_session_ttl_hours c" "60 * minute"] v(2,3)
    by (simp add: m)
  have access: "as_access_ttl (auth_settings_of c) = dc_access_ttl_minutes c * minute \<longleftrightarrow> dc_access_ttl_minutes c \<le> 153722867"
    unfolding auth_settings_of_def auth_settings.simps using duration_exact [of "dc_access_ttl_minutes c" minute] v(4)
    by (simp add: m; linarith)
  have new: "\<exists>c' ul il. server_New (server_config_of c) = Inr (c', ul, il) \<and> rl_limit ul = 5 \<and> rl_limit il = 20 \<and>
      rl_window ul = 15 * minute \<and> rl_window il = 15 * minute \<and> sg_workers c' = 4 \<and> sg_auth c' = auth_settings_of c"
  proof -
    have "0 < as_session_ttl (auth_settings_of c)" using ttl v(2) by (simp add: m)
    then show ?thesis
      by (simp add: server_New_def server_config_of_def first_failure.simps NewRateLimiter_def Let_def auth_settings_of_def m)
  qed
  have words: "uint (ap_time (argon2ParamsFromConfig c)) = dc_argon2_time_cost c"
    "uint (ap_memory_kib (argon2ParamsFromConfig c)) = dc_argon2_memory_kib c"
    "uint (ap_parallelism (argon2ParamsFromConfig c)) = dc_argon2_parallelism c"
    using v(5-10) by (simp_all add: argon2ParamsFromConfig_def uint_word_of_int)
  show ?thesis using new ttl access words v(2,3) mode_bits [OF v(1)] by (auto simp: m)
qed

theorem config_accepted_witness:
  "as_session_ttl (auth_settings_of Defaults) = 168 * (60 * minute) \<and>
   {n. bit (dc_socket_mode Defaults) n} \<subseteq> {4, 5, 7, 8}"
proof -
  have "Load (\<lambda>_ c. Some c) (\<lambda>_. '''') FileMissing = Inr Defaults" by code_simp
  from config_accepted [OF this] show ?thesis by (simp add: Defaults_def)
qed

text \<open>The setting \<open>login_rate_limit_per_15m\<close> is validated and has no effect.\<close>

lemma rate_limit_ignored: "server_config_of (c\<lparr>dc_login_rate_limit := n\<rparr>) = server_config_of c"
  by (simp add: server_config_of_def auth_settings_of_def argon2ParamsFromConfig_def)

text \<open>A longer access token lifetime than 292 years wraps around: this one becomes 26 seconds.\<close>

lemma access_ttl_wraps: "duration_times 307445735 minute div second = 26"
  by (simp add: duration_times_def minute_def second_def)

end
