(* ===== verification/Key_Files.thy ===== *)
theory Key_Files
  imports Systemd_Units
begin

text \<open>
  Keys that are read from a file, or made and written when there is none: the signing key of access tokens
  (\<open>auth/jwt.go\<close>), the age identity (\<open>store/secrets.go\<close>) and Helling's certificate authority
  (\<open>incus/certificates.go\<close>).  Keys, PEM, X.509, base64 and age are parameters.  The file system is the one of
  \<open>Systemd_Units\<close>; a file is truncated, written and closed, and a failure on the way leaves any part of the text
  behind, or all of it.  Directories need no model
  but that making them may fail.
\<close>

section \<open>Files\<close>

text \<open>The file a path leads to, over 40 symbolic links at most.\<close>

fun final_path :: "nat \<Rightarrow> (string \<Rightarrow> inode option) \<Rightarrow> string \<Rightarrow> string option" where
  "final_path 0 fs p = None"
| "final_path (Suc k) fs p = (case fs p of Some (Symlink t) \<Rightarrow> final_path k fs t | _ \<Rightarrow> Some p)"

definition target :: "host \<Rightarrow> string \<Rightarrow> string option" where
  "target h p = final_path 41 (ho_files h) p"

text \<open>\<open>os.ReadFile\<close>: the text, \<open>None\<close> when there is no such file, or another error.\<close>

definition read_or_missing :: "string \<Rightarrow> string option io" where
  "read_or_missing p = io_call ''reading'' (\<lambda>h. (case target h p of
     None \<Rightarrow> Inl ''too many levels of symbolic links''
   | Some q \<Rightarrow> (case ho_files h q of
       None \<Rightarrow> Inr None
     | Some (Regular body) \<Rightarrow> Inr (Some body)
     | Some _ \<Rightarrow> Inl ''not a regular file''), h))"

text \<open>\<open>os.WriteFile\<close>: open and truncate, write, close.  Each byte may be the last one written, and closing may fail when
  all are.\<close>

definition put_file :: "string \<Rightarrow> string \<Rightarrow> string \<Rightarrow> unit io" where
  "put_file m p body = io_call m (\<lambda>h. case target h p of
     None \<Rightarrow> (Inl m, h)
   | Some q \<Rightarrow> (case ho_files h q of
       Some Directory \<Rightarrow> (Inl m, h)
     | Some Device \<Rightarrow> (Inl m, h)
     | _ \<Rightarrow> (Inr (), set_file q (Some (Regular body)) h)))"

primrec write_bytes :: "string \<Rightarrow> string \<Rightarrow> string \<Rightarrow> unit io" where
  "write_bytes p written [] = io_call ''closing'' (io_ret ())"
| "write_bytes p written (c # cs) =
     io_bind (put_file ''writing'' p (written @ [c])) (\<lambda>_. write_bytes p (written @ [c]) cs)"

definition os_write_file :: "string \<Rightarrow> string \<Rightarrow> unit io" where
  "os_write_file p body = io_bind (put_file ''opening'' p '''') (\<lambda>_. write_bytes p '''' body)"

definition mkdir_all :: "string \<Rightarrow> unit io" where
  "mkdir_all p = io_call ''mkdir'' (io_ret ())"

definition io_check :: "bool \<Rightarrow> string \<Rightarrow> unit io" where
  "io_check ok m = (if ok then io_ret () else io_fail m)"

definition io_some :: "string \<Rightarrow> 'a option \<Rightarrow> 'a io" where
  "io_some m x = (case x of None \<Rightarrow> io_fail m | Some v \<Rightarrow> io_ret v)"

section \<open>The contract\<close>

text \<open>A routine that loads a key or makes one: the key it returns is the one the files hold, and once they hold
  a key it returns no other.  \<open>fresh\<close> says that what it makes can be read back.\<close>

locale key_store =
  fixes load :: "'i \<Rightarrow> 'k io" and fresh :: "'i \<Rightarrow> host \<Rightarrow> bool" and holds :: "'k \<Rightarrow> host \<Rightarrow> bool"
  assumes load_holds: "fresh i h \<Longrightarrow> load i h = (Inr k, h') \<Longrightarrow> holds k h'"
    and held: "holds k h \<Longrightarrow> load i h = (res, h') \<Longrightarrow> holds k h' \<and> (isl res \<or> res = Inr k)"
    and holds_faults: "holds k (h\<lparr>ho_faults := fs\<rparr>) = holds k h"

text \<open>Starts of the daemon, each with its own randomness and failures.\<close>

fun restarts :: "('i \<Rightarrow> 'k io) \<Rightarrow> ('i \<times> bool list) list \<Rightarrow> host \<Rightarrow> (string + 'k) list" where
  "restarts load [] h = []"
| "restarts load ((i, fs) # starts) h =
     (case load i (h\<lparr>ho_faults := fs\<rparr>) of (res, h) \<Rightarrow> res # restarts load starts h)"

context key_store
begin

lemma restarts_held: "holds k h \<Longrightarrow> list_all (\<lambda>res. isl res \<or> res = Inr k) (restarts load starts h)"
proof (induction starts arbitrary: h)
  case (Cons s starts)
  obtain i fs res h' where s: "s = (i, fs)" and r: "load i (h\<lparr>ho_faults := fs\<rparr>) = (res, h')" by (metis prod.exhaust)
  have "holds k h' \<and> (isl res \<or> res = Inr k)"
    by (rule held [OF _ r]) (simp add: holds_faults Cons.prems)
  then show ?case using Cons.IH [of h'] by (simp add: s r)
qed simp

lemma restarts_same:
  assumes "fresh i h" "load i h = (Inr k, h')"
  shows "list_all (\<lambda>res. isl res \<or> res = Inr k) (restarts load starts h')"
  by (rule restarts_held [OF load_holds [OF assms]])

end

section \<open>The signing key of access tokens\<close>

text \<open>\<open>trimSpaceBytes\<close>.\<close>

definition jwt_blank :: "char \<Rightarrow> bool" where
  "jwt_blank c \<longleftrightarrow> byte c \<in> {32, 10, 13, 9}"

definition trimSpaceBytes :: "string \<Rightarrow> string" where
  "trimSpaceBytes s = rev (dropWhile jwt_blank (rev (dropWhile jwt_blank s)))"

record seed_codec =
  sd_encode :: "string \<Rightarrow> string"                  \<comment> \<open>\<open>base64.RawStdEncoding\<close>\<close>
  sd_decode :: "string \<Rightarrow> string option"

text \<open>A signer is its seed.\<close>

definition NewJWTSignerFromSeed :: "seed_codec \<Rightarrow> string \<Rightarrow> string io" where
  "NewJWTSignerFromSeed codec seedB64 =
     io_bind (io_some ''auth.NewJWTSignerFromSeed: decode'' (sd_decode codec (trimSpaceBytes seedB64))) (\<lambda>seed.
     io_bind (io_check (length seed = 32) ''auth.NewJWTSignerFromSeed: seed must be 32 bytes'') (\<lambda>_.
     io_ret seed))"

definition LoadOrCreateJWTSigner :: "seed_codec \<Rightarrow> string \<Rightarrow> string option \<Rightarrow> string io" where
  "LoadOrCreateJWTSigner codec path random =
     io_bind (io_check (path \<noteq> '''') ''auth.LoadOrCreateJWTSigner: empty path'') (\<lambda>_.
     io_bind (read_or_missing path) (\<lambda>raw. case raw of
       Some raw \<Rightarrow> NewJWTSignerFromSeed codec raw
     | None \<Rightarrow>
         io_bind (io_some ''auth.NewJWTSigner'' random) (\<lambda>seed.
         io_bind (mkdir_all path) (\<lambda>_.
         io_bind (os_write_file path (sd_encode codec seed)) (\<lambda>_.
         io_ret seed)))))"

section \<open>The age identity\<close>

record 'k age_codec =
  ag_print :: "'k \<Rightarrow> string"
  ag_parse :: "string \<Rightarrow> 'k option"

definition ageIdentityPath :: "(string \<Rightarrow> string) \<Rightarrow> string \<Rightarrow> string" where
  "ageIdentityPath getenv stateDir =
     (if getenv ''HELLING_AGE_IDENTITY_PATH'' \<noteq> '''' then getenv ''HELLING_AGE_IDENTITY_PATH''
      else if stateDir = ''/var/lib/helling'' then ''/etc/helling/age/identity.txt''
      else filepath_join stateDir ''age-identity.txt'')"

definition loadOrCreateAgeIdentity :: "'k age_codec \<Rightarrow> string \<Rightarrow> 'k option \<Rightarrow> 'k io" where
  "loadOrCreateAgeIdentity codec path random =
     io_bind (read_or_missing path) (\<lambda>body. case body of
       Some body \<Rightarrow> io_some ''parsing age identity'' (ag_parse codec (trim_space body))
     | None \<Rightarrow>
         io_bind (io_some ''generating age identity'' random) (\<lambda>k.
         io_bind (mkdir_all path) (\<lambda>_.
         io_bind (os_write_file path (ag_print codec k @ [CHR 0x0A])) (\<lambda>_.
         io_ret k))))"

section \<open>The certificate authority\<close>

datatype 'key pkcs8 = Ed25519Key 'key | OtherKey

record ('key, 'cert) ca_codec =
  cc_pem_encode :: "string \<Rightarrow> string \<Rightarrow> string"                  \<comment> \<open>type and bytes\<close>
  cc_pem_decode :: "string \<Rightarrow> (string \<times> string) option"
  cc_marshal :: "'key \<Rightarrow> string option"
  cc_parse_key :: "string \<Rightarrow> 'key pkcs8 option"
  cc_raw :: "'cert \<Rightarrow> string"
  cc_parse_cert :: "string \<Rightarrow> 'cert option"
  cc_is_ca :: "'cert \<Rightarrow> bool"
  cc_decrypt :: "string \<Rightarrow> string option"

definition readStoredCertificateAuthorityFiles :: "string \<Rightarrow> string \<Rightarrow> (string \<times> string) option io" where
  "readStoredCertificateAuthorityFiles keyPath certPath h =
     (case read_or_missing keyPath h of (key, h) \<Rightarrow> case read_or_missing certPath h of (cert, h) \<Rightarrow>
       (case (key, cert) of
          (Inr (Some k), Inr (Some c)) \<Rightarrow> Inr (Some (k, c))
        | (Inl m, _) \<Rightarrow> Inl (''reading CA key: '' @ m)
        | (_, Inl m) \<Rightarrow> Inl (''reading CA certificate: '' @ m)
        | (Inr None, Inr None) \<Rightarrow> Inr None
        | _ \<Rightarrow> Inl ''CA key and certificate files must be created together'', h))"

definition parseStoredCertificateAuthority ::
  "('key, 'cert) ca_codec \<Rightarrow> string \<Rightarrow> string \<Rightarrow> ('key \<times> 'cert) io" where
  "parseStoredCertificateAuthority codec encryptedKey certPEM =
     io_bind (io_some ''decrypting CA private key'' (cc_decrypt codec encryptedKey)) (\<lambda>keyPEM.
     io_bind (io_some ''CA private key PEM is invalid'' (cc_pem_decode codec keyPEM)) (\<lambda>(ty, der).
     io_bind (io_check (ty = ''PRIVATE KEY'') ''CA private key PEM is invalid'') (\<lambda>_.
     io_bind (io_some ''parsing CA private key'' (cc_parse_key codec der)) (\<lambda>any.
     io_bind (case any of Ed25519Key k \<Rightarrow> io_ret k | OtherKey \<Rightarrow> io_fail ''CA private key must be Ed25519'') (\<lambda>key.
     io_bind (io_some ''CA certificate PEM is invalid'' (cc_pem_decode codec certPEM)) (\<lambda>(ty, der).
     io_bind (io_check (ty = ''CERTIFICATE'') ''CA certificate PEM is invalid'') (\<lambda>_.
     io_bind (io_some ''parsing CA certificate'' (cc_parse_cert codec der)) (\<lambda>cert.
     io_bind (io_check (cc_is_ca codec cert) ''stored Helling certificate is not a CA'') (\<lambda>_.
     io_ret (key, cert))))))))))"

text \<open>The randomness of one start: the new authority, and \<open>encrypt\<close>, which is randomised.\<close>

record ('key, 'cert) ca_random =
  cr_authority :: "('key \<times> 'cert) option"
  cr_encrypt :: "string \<Rightarrow> string option"

definition createAndStoreCertificateAuthority ::
  "('key, 'cert) ca_codec \<Rightarrow> string \<Rightarrow> string \<Rightarrow> ('key, 'cert) ca_random \<Rightarrow> ('key \<times> 'cert) io" where
  "createAndStoreCertificateAuthority codec keyPath certPath random =
     io_bind (mkdir_all keyPath) (\<lambda>_.
     io_bind (mkdir_all certPath) (\<lambda>_.
     io_bind (io_some ''generating internal CA'' (cr_authority random)) (\<lambda>(key, cert).
     io_bind (io_some ''marshaling CA private key'' (cc_marshal codec key)) (\<lambda>der.
     io_bind (io_some ''encrypting CA private key'' (cr_encrypt random (cc_pem_encode codec ''PRIVATE KEY'' der))) (\<lambda>enc.
     io_bind (os_write_file keyPath enc) (\<lambda>_.
     io_bind (os_write_file certPath (cc_pem_encode codec ''CERTIFICATE'' (cc_raw codec cert))) (\<lambda>_.
     io_ret (key, cert))))))))"

definition LoadOrCreateCertificateAuthority ::
  "('key, 'cert) ca_codec \<Rightarrow> string \<Rightarrow> string \<Rightarrow> ('key, 'cert) ca_random \<Rightarrow> ('key \<times> 'cert) io" where
  "LoadOrCreateCertificateAuthority codec keyPath certPath random =
     io_bind (io_check (keyPath \<noteq> '''' \<and> certPath \<noteq> '''') ''CA key and certificate paths are required'') (\<lambda>_.
     io_bind (readStoredCertificateAuthorityFiles keyPath certPath) (\<lambda>stored. case stored of
       Some (encryptedKey, certPEM) \<Rightarrow> parseStoredCertificateAuthority codec encryptedKey certPEM
     | None \<Rightarrow> createAndStoreCertificateAuthority codec keyPath certPath random))"

text \<open>An authority over strings, and a host without files.\<close>

definition demo_pem :: "string \<Rightarrow> (string \<times> string) option" where
  "demo_pem s = (if has_prefix s ''PRIVATE KEY:'' then Some (''PRIVATE KEY'', drop 12 s)
     else if has_prefix s ''CERTIFICATE:'' then Some (''CERTIFICATE'', drop 12 s) else None)"

definition demo_ca_codec :: "(string, string) ca_codec" where
  "demo_ca_codec = \<lparr>cc_pem_encode = (\<lambda>ty b. ty @ '':'' @ b), cc_pem_decode = demo_pem, cc_marshal = Some,
     cc_parse_key = (\<lambda>der. Some (Ed25519Key der)), cc_raw = (\<lambda>c. c), cc_parse_cert = Some, cc_is_ca = (\<lambda>c. True),
     cc_decrypt = (\<lambda>s. Some (drop 4 s))\<rparr>"

definition demo_ca_random :: "string \<Rightarrow> (string, string) ca_random" where
  "demo_ca_random k = \<lparr>cr_authority = Some (k, ''cert-of-'' @ k), cr_encrypt = (\<lambda>s. Some (''age:'' @ s))\<rparr>"

definition demo_empty_host :: host where
  "demo_empty_host = \<lparr>ho_files = (\<lambda>p. None), ho_log = [], ho_faults = []\<rparr>"

section \<open>Files that are written and read\<close>

lemma final_path_no_link: "final_path k fs p = Some q \<Longrightarrow> fs q \<noteq> Some (Symlink t)"
  by (induction k fs p rule: final_path.induct) (auto split: option.splits inode.splits)

lemma final_path_put:
  "final_path k fs p = Some q \<Longrightarrow> (\<And>t. fs q' \<noteq> Some (Symlink t)) \<Longrightarrow> final_path k (fs(q' := Some (Regular b))) p = Some q"
  by (induction k fs p rule: final_path.induct) (auto split: option.splits inode.splits if_splits)

text \<open>The text of the file a path leads to.\<close>

definition file_text :: "host \<Rightarrow> string \<Rightarrow> string option" where
  "file_text h p = (case target h p of None \<Rightarrow> None
     | Some q \<Rightarrow> (case ho_files h q of Some (Regular b) \<Rightarrow> Some b | _ \<Rightarrow> None))"

lemma file_text_faults [simp]: "file_text (h\<lparr>ho_faults := fs\<rparr>) p = file_text h p" "target (h\<lparr>ho_faults := fs\<rparr>) p = target h p"
  by (simp_all add: file_text_def target_def split: option.split)

lemma io_call_cases:
  assumes "io_call m f h = (r, h')"
  obtains (fault) fs where "r = Inl m" "h' = h\<lparr>ho_faults := fs\<rparr>" | (ok) fs where "f (h\<lparr>ho_faults := fs\<rparr>) = (r, h')"
proof (cases "ho_faults h")
  case Nil
  have "h = h\<lparr>ho_faults := ho_faults h\<rparr>" by simp
  then have "h = h\<lparr>ho_faults := []\<rparr>" by (simp only: Nil)
  moreover have "f h = (r, h')" using assms Nil by (simp add: io_call_def)
  ultimately have "f (h\<lparr>ho_faults := []\<rparr>) = (r, h')" by metis
  then show thesis by (rule ok)
next
  case (Cons b bs)
  then show thesis using assms fault [of bs] ok [of bs] by (cases b) (auto simp: io_call_def)
qed

lemma read_result:
  assumes "read_or_missing p h = (r, h')"
  shows "(\<exists>fs. h' = h\<lparr>ho_faults := fs\<rparr>) \<and> (case r of Inl _ \<Rightarrow> True | Inr x \<Rightarrow> x = file_text h p)"
proof (cases rule: io_call_cases [OF assms [unfolded read_or_missing_def]])
  case (1 fs)
  then show ?thesis by auto
next
  case (2 fs)
  then show ?thesis by (auto simp: file_text_def split: option.splits inode.splits)
qed

lemma put_result:
  assumes "put_file m p body h = (r, h')"
  shows "(isl r \<and> (\<exists>fs. h' = h\<lparr>ho_faults := fs\<rparr>)) \<or>
    (r = Inr () \<and> (\<exists>q fs. target h p = Some q \<and> h' = set_file q (Some (Regular body)) (h\<lparr>ho_faults := fs\<rparr>)))"
proof (cases rule: io_call_cases [OF assms [unfolded put_file_def]])
  case (1 fs)
  then show ?thesis by auto
next
  case (2 fs)
  then show ?thesis by (auto split: option.splits inode.splits)
qed

lemma put_target:
  assumes "target h p = Some q" "target h p' = Some q'"
  shows "target (set_file q (Some (Regular b)) h) p' = Some q'"
  using assms final_path_no_link [of 41 "ho_files h" p q]
  by (auto simp: target_def set_file_def intro!: final_path_put)

lemma put_text:
  assumes "target h p = Some q"
  shows "file_text (set_file q (Some (Regular b)) h) p = Some b"
    "target h p' = Some q' \<Longrightarrow> q' \<noteq> q \<Longrightarrow> file_text (set_file q (Some (Regular b)) h) p' = file_text h p'"
  using assms put_target [OF assms, of p _ b] put_target [OF assms, of p' _ b]
  by (auto simp: file_text_def) (simp_all add: set_file_def)

lemma final_path_none:
  "final_path k fs p = None \<Longrightarrow> (\<And>t. fs q' \<noteq> Some (Symlink t)) \<Longrightarrow> final_path k (fs(q' := Some (Regular b))) p = None"
  by (induction k fs p rule: final_path.induct) (auto split: option.splits inode.splits if_splits)

text \<open>What writing may leave: nothing changed, or the first part of the text in the file the path leads to.\<close>

definition wrote :: "string \<Rightarrow> string \<Rightarrow> host \<Rightarrow> host \<Rightarrow> bool" where
  "wrote p b h h' \<longleftrightarrow> (\<exists>q. target h p = Some q \<and> ho_files h' = (ho_files h)(q := Some (Regular b)))"

lemma wrote_target:
  assumes "wrote p b h h'" shows "target h' p' = target h p'"
proof -
  obtain q where q: "target h p = Some q" "ho_files h' = (ho_files h)(q := Some (Regular b))" using assms by (auto simp: wrote_def)
  have link: "ho_files h q \<noteq> Some (Symlink t)" for t using q(1) final_path_no_link by (fastforce simp: target_def)
  show ?thesis
    using final_path_put [of 41 "ho_files h" p' _ q b] final_path_none [of 41 "ho_files h" p' q b] link
    by (cases "target h p'") (auto simp: target_def q(2))
qed

lemma wrote_text:
  assumes "wrote p b h h'"
  shows "file_text h' p = Some b" "target h p' \<noteq> target h p \<Longrightarrow> file_text h' p' = file_text h p'"
    "target h p' = target h p \<Longrightarrow> file_text h' p' = Some b"
  using assms wrote_target [OF assms] by (auto simp: wrote_def file_text_def split: option.split)

lemma wrote_trans: "wrote p b h h1 \<Longrightarrow> wrote p b' h1 h2 \<Longrightarrow> wrote p b' h h2"
  using wrote_target [of p b h h1 p] by (auto simp: wrote_def)

lemma wrote_faults [simp]: "wrote p b (h\<lparr>ho_faults := fs\<rparr>) h' = wrote p b h h'" "wrote p b h (h'\<lparr>ho_faults := fs\<rparr>) = wrote p b h h'"
  by (simp_all add: wrote_def)

lemma put_wrote:
  assumes "put_file m p body h = (r, h')"
  shows "(isl r \<and> ho_files h' = ho_files h) \<or> (r = Inr () \<and> wrote p body h h')"
  using put_result [OF assms] by (auto simp: wrote_def set_file_def)

lemma write_bytes_wrote:
  assumes "write_bytes p written cs h1 = (r, h')" "wrote p written h h1"
  shows "\<exists>b rest. written @ cs = b @ rest \<and> wrote p b h h' \<and> (isl r \<or> rest = [])"
  using assms
proof (induction cs arbitrary: written h1)
  case Nil
  then obtain fs where "h' = h1\<lparr>ho_faults := fs\<rparr>" by (auto simp: io_ret_def elim!: io_call_cases)
  then have "wrote p written h h'" using Nil.prems(2) by simp
  then show ?case by (metis append_Nil2)
next
  case (Cons c cs)
  obtain r1 h2 where w: "put_file ''writing'' p (written @ [c]) h1 = (r1, h2)" by fastforce
  show ?case
  proof (cases r1)
    case (Inl e)
    then have "isl r" "ho_files h' = ho_files h1" using Cons.prems(1) w put_wrote [OF w] by (auto simp: io_bind_def)
    then have "isl r \<and> wrote p written h h'" using Cons.prems(2) by (simp add: wrote_def)
    then show ?thesis by blast
  next
    case (Inr u)
    then have "wrote p (written @ [c]) h h2" using put_wrote [OF w] wrote_trans [OF Cons.prems(2)] by auto
    moreover have "write_bytes p (written @ [c]) cs h2 = (r, h')" using Cons.prems(1) w Inr by (simp add: io_bind_def)
    ultimately have "\<exists>b rest. (written @ [c]) @ cs = b @ rest \<and> wrote p b h h' \<and> (isl r \<or> rest = [])" by (rule Cons.IH [rotated])
    then show ?thesis by (simp only: append.assoc append.simps)
  qed
qed

lemma write_result:
  assumes "os_write_file p body h = (r, h')"
  shows "(isl r \<and> ho_files h' = ho_files h) \<or> (\<exists>b rest. body = b @ rest \<and> wrote p b h h' \<and> (isl r \<or> rest = []))"
proof -
  obtain r1 h1 where w: "put_file ''opening'' p '''' h = (r1, h1)" by fastforce
  show ?thesis
  proof (cases r1)
    case (Inl e)
    then show ?thesis using assms w put_wrote [OF w] by (auto simp: os_write_file_def io_bind_def)
  next
    case (Inr u)
    then have "wrote p '''' h h1" "write_bytes p '''' body h1 = (r, h')"
      using put_wrote [OF w] assms w by (auto simp: os_write_file_def io_bind_def)
    from write_bytes_wrote [OF this(2,1)] show ?thesis by simp
  qed
qed

lemma write_ok: "os_write_file p body h = (Inr u, h') \<Longrightarrow> wrote p body h h'"
  using write_result [of p body h "Inr u" h'] by auto

section \<open>Each of them keeps its key\<close>

lemma bind_Inr: "io_bind m k h = (Inr x, h') \<longleftrightarrow> (\<exists>y h1. m h = (Inr y, h1) \<and> k y h1 = (Inr x, h'))"
  by (auto simp: io_bind_def split: prod.splits sum.splits)

lemma some_Inr [simp]: "io_some m x h = (Inr v, h') \<longleftrightarrow> x = Some v \<and> h' = h"
  by (auto simp: io_some_def io_ret_def io_fail_def split: option.splits)

lemma check_Inr [simp]: "io_check b m h = (Inr u, h') \<longleftrightarrow> b \<and> h' = h"
  by (auto simp: io_check_def io_ret_def io_fail_def)

lemma ret_Inr [simp]: "io_ret x h = (Inr v, h') \<longleftrightarrow> v = x \<and> h' = h"
  by (auto simp: io_ret_def)

lemma mkdir_result: "mkdir_all p h = (r, h') \<Longrightarrow> \<exists>fs. h' = h\<lparr>ho_faults := fs\<rparr>"
  unfolding mkdir_all_def by (erule io_call_cases) (auto simp: io_ret_def)

definition jwt_holds :: "seed_codec \<Rightarrow> string \<Rightarrow> string \<Rightarrow> host \<Rightarrow> bool" where
  "jwt_holds codec path seed h \<longleftrightarrow> path \<noteq> '''' \<and> length seed = 32 \<and> (\<exists>body. file_text h path = Some body \<and>
     sd_decode codec (trimSpaceBytes body) = Some seed)"

definition jwt_fresh :: "seed_codec \<Rightarrow> string option \<Rightarrow> bool" where
  "jwt_fresh codec random \<longleftrightarrow> (\<forall>seed. random = Some seed \<longrightarrow> length seed = 32 \<and>
     sd_decode codec (trimSpaceBytes (sd_encode codec seed)) = Some seed)"

interpretation jwt_key: key_store "LoadOrCreateJWTSigner codec path" "\<lambda>i h. jwt_fresh codec i" "jwt_holds codec path"
proof (unfold_locales, goal_cases)
  case (1 i h k h')
  then obtain raw h1 where path: "path \<noteq> ''''" and r: "read_or_missing path h = (Inr raw, h1)"
    and rest: "(case raw of Some raw \<Rightarrow> NewJWTSignerFromSeed codec raw
     | None \<Rightarrow> io_bind (io_some ''auth.NewJWTSigner'' i) (\<lambda>seed. io_bind (mkdir_all path) (\<lambda>_.
         io_bind (os_write_file path (sd_encode codec seed)) (\<lambda>_. io_ret seed)))) h1 = (Inr k, h')"
    by (auto simp: LoadOrCreateJWTSigner_def bind_Inr)
  from read_result [OF r] obtain fs where h1: "h1 = h\<lparr>ho_faults := fs\<rparr>" "raw = file_text h path" by auto
  show ?case
  proof (cases raw)
    case None
    then obtain h2 u where "i = Some k" "os_write_file path (sd_encode codec k) h2 = (Inr u, h')"
      using rest by (auto simp: bind_Inr)
    then show ?thesis using wrote_text(1) [OF write_ok, of path "sd_encode codec k" h2 u h'] 1(1) path by (simp add: jwt_holds_def jwt_fresh_def)
  next
    case (Some body)
    then show ?thesis using rest h1 path by (auto simp: NewJWTSignerFromSeed_def bind_Inr jwt_holds_def)
  qed
next
  case (2 k h i res h')
  then obtain body where b: "path \<noteq> ''''" "length k = 32" "file_text h path = Some body"
    "sd_decode codec (trimSpaceBytes body) = Some k" by (auto simp: jwt_holds_def)
  obtain raw h1 where r: "read_or_missing path h = (raw, h1)" by fastforce
  from read_result [OF r] obtain fs where h1: "h1 = h\<lparr>ho_faults := fs\<rparr>" "\<And>x. raw = Inr x \<Longrightarrow> x = Some body"
    using b(3) by (auto split: sum.splits)
  have "h' = h1 \<and> (isl res \<or> res = Inr k)"
    using 2(2) r b h1(2)
    by (cases raw) (auto simp: LoadOrCreateJWTSigner_def io_bind_def io_check_def io_ret_def NewJWTSignerFromSeed_def io_some_def)
  then show ?case using 2(1) h1(1) by (simp add: jwt_holds_def)
qed (simp add: jwt_holds_def)

definition age_holds :: "'k age_codec \<Rightarrow> string \<Rightarrow> 'k \<Rightarrow> host \<Rightarrow> bool" where
  "age_holds codec path k h \<longleftrightarrow> (\<exists>body. file_text h path = Some body \<and> ag_parse codec (trim_space body) = Some k)"

definition age_fresh :: "'k age_codec \<Rightarrow> 'k option \<Rightarrow> bool" where
  "age_fresh codec random \<longleftrightarrow> (\<forall>k. random = Some k \<longrightarrow> ag_parse codec (trim_space (ag_print codec k @ [CHR 0x0A])) = Some k)"

interpretation age_key: key_store "loadOrCreateAgeIdentity codec path" "\<lambda>i h. age_fresh codec i" "age_holds codec path"
proof (unfold_locales, goal_cases)
  case (1 i h k h')
  then obtain raw h1 where r: "read_or_missing path h = (Inr raw, h1)"
    and rest: "(case raw of Some body \<Rightarrow> io_some ''parsing age identity'' (ag_parse codec (trim_space body))
     | None \<Rightarrow> io_bind (io_some ''generating age identity'' i) (\<lambda>k. io_bind (mkdir_all path) (\<lambda>_.
         io_bind (os_write_file path (ag_print codec k @ [CHR 0x0A])) (\<lambda>_. io_ret k)))) h1 = (Inr k, h')"
    by (auto simp: loadOrCreateAgeIdentity_def bind_Inr)
  from read_result [OF r] obtain fs where h1: "h1 = h\<lparr>ho_faults := fs\<rparr>" "raw = file_text h path" by auto
  show ?case
  proof (cases raw)
    case None
    then obtain h2 u where "i = Some k" "os_write_file path (ag_print codec k @ [CHR 0x0A]) h2 = (Inr u, h')"
      using rest by (auto simp: bind_Inr)
    then show ?thesis using wrote_text(1) [OF write_ok, of path "ag_print codec k @ [CHR 0x0A]" h2 u h'] 1(1) by (simp add: age_holds_def age_fresh_def)
  next
    case (Some body)
    then show ?thesis using rest h1 by (auto simp: age_holds_def)
  qed
next
  case (2 k h i res h')
  then obtain body where b: "file_text h path = Some body" "ag_parse codec (trim_space body) = Some k" by (auto simp: age_holds_def)
  obtain raw h1 where r: "read_or_missing path h = (raw, h1)" by fastforce
  from read_result [OF r] obtain fs where h1: "h1 = h\<lparr>ho_faults := fs\<rparr>" "\<And>x. raw = Inr x \<Longrightarrow> x = Some body"
    using b(1) by (auto split: sum.splits)
  have "h' = h1 \<and> (isl res \<or> res = Inr k)"
    using 2(2) r b h1(2) by (cases raw) (auto simp: loadOrCreateAgeIdentity_def io_bind_def io_ret_def io_some_def)
  then show ?case using 2(1) h1(1) by (simp add: age_holds_def)
qed (simp add: age_holds_def)

text \<open>The texts of key and certificate parse to the authority.\<close>

definition ca_text :: "('key, 'cert) ca_codec \<Rightarrow> string \<Rightarrow> string \<Rightarrow> 'key \<times> 'cert \<Rightarrow> bool" where
  "ca_text codec enc pem ca \<longleftrightarrow> (\<exists>keyPEM der der'. cc_decrypt codec enc = Some keyPEM \<and>
     cc_pem_decode codec keyPEM = Some (''PRIVATE KEY'', der) \<and> cc_parse_key codec der = Some (Ed25519Key (fst ca)) \<and>
     cc_pem_decode codec pem = Some (''CERTIFICATE'', der') \<and> cc_parse_cert codec der' = Some (snd ca) \<and> cc_is_ca codec (snd ca))"

definition ca_holds :: "('key, 'cert) ca_codec \<Rightarrow> string \<Rightarrow> string \<Rightarrow> 'key \<times> 'cert \<Rightarrow> host \<Rightarrow> bool" where
  "ca_holds codec keyPath certPath ca h \<longleftrightarrow> keyPath \<noteq> '''' \<and> certPath \<noteq> '''' \<and> (\<exists>enc pem. file_text h keyPath = Some enc \<and>
     file_text h certPath = Some pem \<and> ca_text codec enc pem ca)"

text \<open>What is made can be read back, and key and certificate are not the same file.\<close>

definition ca_fresh :: "('key, 'cert) ca_codec \<Rightarrow> ('key, 'cert) ca_random \<Rightarrow> bool" where
  "ca_fresh codec random \<longleftrightarrow> (\<forall>key cert der enc. cr_authority random = Some (key, cert) \<longrightarrow> cc_marshal codec key = Some der \<longrightarrow>
     cr_encrypt random (cc_pem_encode codec ''PRIVATE KEY'' der) = Some enc \<longrightarrow>
     ca_text codec enc (cc_pem_encode codec ''CERTIFICATE'' (cc_raw codec cert)) (key, cert))"

definition apart :: "string \<Rightarrow> string \<Rightarrow> host \<Rightarrow> bool" where
  "apart p p' h \<longleftrightarrow> target h p = None \<or> target h p \<noteq> target h p'"

lemma key_kind_Inr [simp]:
  "(case any of Ed25519Key k \<Rightarrow> io_ret k | OtherKey \<Rightarrow> io_fail m) h = (Inr key, h') \<longleftrightarrow> any = Ed25519Key key \<and> h' = h"
  by (cases any) (auto simp: io_fail_def)

lemma parse_stored:
  "parseStoredCertificateAuthority codec enc pem h = (Inr ca, h') \<longleftrightarrow> ca_text codec enc pem ca \<and> h' = h"
  by (cases ca) (auto simp: parseStoredCertificateAuthority_def bind_Inr ca_text_def)

lemma parse_host: "parseStoredCertificateAuthority codec enc pem h = (r, h') \<Longrightarrow> h' = h"
  by (auto simp: parseStoredCertificateAuthority_def io_bind_def io_some_def io_check_def io_ret_def io_fail_def
      split: option.splits if_splits pkcs8.splits prod.splits sum.splits)

lemma ca_text_unique: "ca_text codec enc pem ca \<Longrightarrow> ca_text codec enc pem ca' \<Longrightarrow> ca = ca'"
  by (cases ca; cases ca') (auto simp: ca_text_def)

lemma stored_result:
  assumes "readStoredCertificateAuthorityFiles keyPath certPath h = (r, h')"
  shows "(\<exists>fs. h' = h\<lparr>ho_faults := fs\<rparr>) \<and> (case r of Inl _ \<Rightarrow> True
    | Inr None \<Rightarrow> file_text h keyPath = None \<and> file_text h certPath = None
    | Inr (Some (k, c)) \<Rightarrow> file_text h keyPath = Some k \<and> file_text h certPath = Some c)"
proof -
  obtain k h1 c h2 where r: "read_or_missing keyPath h = (k, h1)" "read_or_missing certPath h1 = (c, h2)"
    by (metis prod.exhaust)
  then show ?thesis using read_result [OF r(1)] read_result [OF r(2)] assms
    by (auto simp: readStoredCertificateAuthorityFiles_def split: sum.splits option.splits)
qed

lemma create_ok:
  assumes "createAndStoreCertificateAuthority codec keyPath certPath i h = (Inr ca, h')" "ca_fresh codec i" "apart keyPath certPath h"
  shows "\<exists>enc pem. file_text h' keyPath = Some enc \<and> file_text h' certPath = Some pem \<and> ca_text codec enc pem ca"
proof -
  obtain u1 h1 u2 h2 key cert der enc u3 h3 u4 where
    m: "mkdir_all keyPath h = (Inr u1, h1)" "mkdir_all certPath h1 = (Inr u2, h2)"
    and c: "cr_authority i = Some (key, cert)" "cc_marshal codec key = Some der"
      "cr_encrypt i (cc_pem_encode codec ''PRIVATE KEY'' der) = Some enc" "ca = (key, cert)"
    and w: "os_write_file keyPath enc h2 = (Inr u3, h3)"
      "os_write_file certPath (cc_pem_encode codec ''CERTIFICATE'' (cc_raw codec cert)) h3 = (Inr u4, h')"
    using assms(1) by (auto simp: createAndStoreCertificateAuthority_def bind_Inr)
  have t2: "target h2 p = target h p" for p using mkdir_result [OF m(1)] mkdir_result [OF m(2)] by auto
  note k = write_ok [OF w(1)] and c' = write_ok [OF w(2)]
  have "target h keyPath \<noteq> None" using k t2 by (auto simp: wrote_def)
  then have "target h3 keyPath \<noteq> target h3 certPath" using assms(3) t2 by (auto simp: apart_def wrote_target [OF k])
  then have "file_text h' keyPath = Some enc" using wrote_text(1) [OF k] wrote_text(2) [OF c'] by simp
  then show ?thesis using wrote_text(1) [OF c'] c assms(2) by (auto simp: ca_fresh_def)
qed

interpretation authority: key_store "LoadOrCreateCertificateAuthority codec keyPath certPath"
  "\<lambda>i h. ca_fresh codec i \<and> apart keyPath certPath h" "ca_holds codec keyPath certPath"
proof (unfold_locales, goal_cases)
  case (1 i h ca h')
  then obtain stored h1 where path: "keyPath \<noteq> ''''" "certPath \<noteq> ''''"
    and r: "readStoredCertificateAuthorityFiles keyPath certPath h = (Inr stored, h1)"
    and rest: "(case stored of Some (encryptedKey, certPEM) \<Rightarrow> parseStoredCertificateAuthority codec encryptedKey certPEM
     | None \<Rightarrow> createAndStoreCertificateAuthority codec keyPath certPath i) h1 = (Inr ca, h')"
    by (auto simp: LoadOrCreateCertificateAuthority_def bind_Inr)
  from stored_result [OF r] obtain fs where h1: "h1 = h\<lparr>ho_faults := fs\<rparr>" by auto
  show ?case
  proof (cases stored)
    case None
    then show ?thesis using create_ok [of codec keyPath certPath i h1 ca h'] rest 1(1) path h1
      by (simp add: ca_holds_def apart_def)
  next
    case (Some kc)
    then show ?thesis using rest h1 path stored_result [OF r]
      by (cases kc) (auto simp: ca_holds_def parse_stored)
  qed
next
  case (2 ca h i res h')
  then obtain enc pem where b: "keyPath \<noteq> ''''" "certPath \<noteq> ''''" "file_text h keyPath = Some enc"
    "file_text h certPath = Some pem" "ca_text codec enc pem ca" by (auto simp: ca_holds_def)
  obtain stored h1 where r: "readStoredCertificateAuthorityFiles keyPath certPath h = (stored, h1)" by fastforce
  from stored_result [OF r] b obtain fs where h1: "h1 = h\<lparr>ho_faults := fs\<rparr>" "\<And>x. stored = Inr x \<Longrightarrow> x = Some (enc, pem)"
    by (auto split: sum.splits option.splits)
  have "h' = h1 \<and> (isl res \<or> res = Inr ca)"
  proof (cases stored)
    case (Inl m)
    then show ?thesis using 2(2) r b by (auto simp: LoadOrCreateCertificateAuthority_def io_bind_def io_check_def io_ret_def)
  next
    case (Inr x)
    then have p: "parseStoredCertificateAuthority codec enc pem h1 = (res, h')"
      using 2(2) r b h1(2) by (auto simp: LoadOrCreateCertificateAuthority_def io_bind_def io_check_def io_ret_def)
    then show ?thesis using parse_host [OF p] ca_text_unique [OF b(5)]
      by (cases res) (auto simp: parse_stored)
  qed
  then show ?case using 2(1) h1(1) by (simp add: ca_holds_def)
qed (simp add: ca_holds_def)

text \<open>C28: once the certificate authority has been loaded or made, every later start of the daemon, whatever fails in it
  and whatever randomness it has, gets the same authority or none: it is never replaced.  Key and certificate are
  in different files, and what was made can be parsed again.\<close>

theorem authority_survives_restarts:
  assumes "ca_fresh codec i" "apart keyPath certPath h"
    and "LoadOrCreateCertificateAuthority codec keyPath certPath i h = (Inr ca, h')"
  shows "list_all (\<lambda>res. isl res \<or> res = Inr ca) (restarts (LoadOrCreateCertificateAuthority codec keyPath certPath) starts h')"
  using authority.restarts_same [OF _ assms(3)] assms(1,2) by blast

theorem authority_survives_restarts_witness:
  "list_all (\<lambda>res. isl res \<or> res = Inr (''one'', ''cert-of-one''))
     (restarts (LoadOrCreateCertificateAuthority demo_ca_codec ''/k'' ''/c'') [(demo_ca_random ''two'', [True]), (demo_ca_random ''two'', [])]
        (snd (LoadOrCreateCertificateAuthority demo_ca_codec ''/k'' ''/c'' (demo_ca_random ''one'') demo_empty_host)))"
proof (rule authority_survives_restarts)
  show "ca_fresh demo_ca_codec (demo_ca_random ''one'')"
    by (auto simp: ca_fresh_def demo_ca_random_def ca_text_def demo_ca_codec_def demo_pem_def has_prefix_def)
  show "apart ''/k'' ''/c'' demo_empty_host" by code_simp
  show "LoadOrCreateCertificateAuthority demo_ca_codec ''/k'' ''/c'' (demo_ca_random ''one'') demo_empty_host =
    (Inr (''one'', ''cert-of-one''), snd (LoadOrCreateCertificateAuthority demo_ca_codec ''/k'' ''/c'' (demo_ca_random ''one'') demo_empty_host))"
    by (rule prod_eqI) (code_simp, simp)
qed

text \<open>The same for the signing key and for the age identity.\<close>

lemma signer_survives_restarts:
  assumes "jwt_fresh codec i" "LoadOrCreateJWTSigner codec path i h = (Inr seed, h')"
  shows "list_all (\<lambda>res. isl res \<or> res = Inr seed) (restarts (LoadOrCreateJWTSigner codec path) starts h')"
  by (rule jwt_key.restarts_same [OF assms])

lemma identity_survives_restarts:
  assumes "age_fresh codec i" "loadOrCreateAgeIdentity codec path i h = (Inr k, h')"
  shows "list_all (\<lambda>res. isl res \<or> res = Inr k) (restarts (loadOrCreateAgeIdentity codec path) starts h')"
  by (rule age_key.restarts_same [OF assms])

section \<open>A creation that fails half-way\<close>

text \<open>A key without certificate, or with a certificate that is no PEM block.\<close>

definition half_written :: "('key, 'cert) ca_codec \<Rightarrow> string \<Rightarrow> string \<Rightarrow> host \<Rightarrow> bool" where
  "half_written codec keyPath certPath h \<longleftrightarrow> file_text h keyPath \<noteq> None \<and>
     (case file_text h certPath of None \<Rightarrow> True | Some c \<Rightarrow> cc_pem_decode codec c = None)"

lemma half_written_fails:
  assumes "half_written codec keyPath certPath h"
    and "LoadOrCreateCertificateAuthority codec keyPath certPath i h = (res, h')"
  shows "isl res \<and> half_written codec keyPath certPath h'"
proof -
  obtain stored h1 where r: "readStoredCertificateAuthorityFiles keyPath certPath h = (stored, h1)" by fastforce
  from stored_result [OF r] assms(1) obtain fs where h1: "h1 = h\<lparr>ho_faults := fs\<rparr>"
      "\<And>x. stored = Inr x \<Longrightarrow> \<exists>k c. x = Some (k, c) \<and> cc_pem_decode codec c = None"
    by (auto simp: half_written_def split: sum.splits option.splits)
  have "isl res \<and> (h' = h \<or> h' = h1)"
  proof (cases stored)
    case (Inl m)
    then show ?thesis using assms(2) r
      by (auto simp: LoadOrCreateCertificateAuthority_def io_bind_def io_check_def io_ret_def io_fail_def split: if_splits)
  next
    case (Inr x)
    then obtain k c where x: "x = Some (k, c)" "cc_pem_decode codec c = None" using h1(2) by blast
    then have p: "(res, h') = (if keyPath \<noteq> '''' \<and> certPath \<noteq> '''' then parseStoredCertificateAuthority codec k c h1
        else (Inl ''CA key and certificate paths are required'', h))"
      using assms(2) r Inr by (auto simp: LoadOrCreateCertificateAuthority_def io_bind_def io_check_def io_ret_def io_fail_def)
    show ?thesis
    proof (cases "keyPath \<noteq> '''' \<and> certPath \<noteq> ''''")
      case True
      then have p: "parseStoredCertificateAuthority codec k c h1 = (res, h')" using p by simp
      then have "isl res" using x(2) by (cases res) (auto simp: parse_stored ca_text_def)
      then show ?thesis using parse_host [OF p] by simp
    next
      case False
      then show ?thesis using p by (auto split: if_splits)
    qed
  qed
  then show ?thesis using assms(1) h1(1) by (auto simp: half_written_def)
qed

lemma half_written_stuck:
  "half_written codec keyPath certPath h \<Longrightarrow> list_all isl (restarts (LoadOrCreateCertificateAuthority codec keyPath certPath) starts h)"
proof (induction starts arbitrary: h)
  case (Cons s starts)
  obtain i fs res h' where s: "s = (i, fs)"
    and r: "LoadOrCreateCertificateAuthority codec keyPath certPath i (h\<lparr>ho_faults := fs\<rparr>) = (res, h')" by (metis prod.exhaust)
  have "half_written codec keyPath certPath (h\<lparr>ho_faults := fs\<rparr>)" using Cons.prems by (simp add: half_written_def)
  from half_written_fails [OF this r] show ?case using Cons.IH [of h'] by (simp add: s r)
qed simp

text \<open>A file that has been written stays one, whatever is written later.\<close>

lemma same_files: "ho_files h' = ho_files h \<Longrightarrow> file_text h' p = file_text h p"
  by (simp add: file_text_def target_def cong: option.case_cong)

lemma write_keeps_text: "os_write_file p body h = (r, h') \<Longrightarrow> file_text h p' \<noteq> None \<Longrightarrow> file_text h' p' \<noteq> None"
  using write_result [of p body h r h'] same_files [of h' h p'] wrote_text(2,3) [of p _ h h' p']
  by (cases "target h p' = target h p") auto

lemma create_fail:
  assumes "createAndStoreCertificateAuthority codec keyPath certPath i h = (Inl m, h')" "ho_files h' \<noteq> ho_files h"
  shows "file_text h' keyPath \<noteq> None"
proof -
  obtain r1 h1 r2 h2 where m: "mkdir_all keyPath h = (r1, h1)" "mkdir_all certPath h1 = (r2, h2)" by (metis prod.exhaust)
  have f: "ho_files h1 = ho_files h" "ho_files h2 = ho_files h"
    using mkdir_result [OF m(1)] mkdir_result [OF m(2)] by auto
  have "\<exists>u1 u2 key cert der enc. r1 = Inr u1 \<and> r2 = Inr u2 \<and> cr_authority i = Some (key, cert) \<and> cc_marshal codec key = Some der \<and>
      cr_encrypt i (cc_pem_encode codec ''PRIVATE KEY'' der) = Some enc"
    using assms m f
    by (auto simp: createAndStoreCertificateAuthority_def io_bind_def io_some_def io_ret_def io_fail_def
        split: sum.splits option.splits prod.splits)
  then obtain u1 u2 key cert der enc where ok: "r1 = Inr u1" "r2 = Inr u2" "cr_authority i = Some (key, cert)"
    "cc_marshal codec key = Some der" "cr_encrypt i (cc_pem_encode codec ''PRIVATE KEY'' der) = Some enc" by blast
  obtain r3 h3 where w: "os_write_file keyPath enc h2 = (r3, h3)" by fastforce
  let ?pem = "cc_pem_encode codec ''CERTIFICATE'' (cc_raw codec cert)"
  have run: "io_bind (os_write_file keyPath enc) (\<lambda>_. io_bind (os_write_file certPath ?pem) (\<lambda>_. io_ret (key, cert))) h2 = (Inl m, h')"
    using assms(1) m ok by (simp add: createAndStoreCertificateAuthority_def io_bind_def io_some_def io_ret_def)
  show ?thesis
  proof (cases r3)
    case (Inl e)
    then have "h' = h3" using run w by (simp add: io_bind_def)
    then show ?thesis using write_result [OF w] assms(2) f(2) wrote_text(1) [of keyPath _ h2 h3] by auto
  next
    case (Inr u)
    have "file_text h3 keyPath \<noteq> None" using wrote_text(1) [OF write_ok [OF w [unfolded Inr]]] by simp
    moreover obtain r4 where "os_write_file certPath ?pem h3 = (r4, h')"
      using run w Inr by (auto simp: io_bind_def io_ret_def split: sum.splits prod.splits)
    ultimately show ?thesis by (rule write_keeps_text [rotated])
  qed
qed

text \<open>C36: a first start that fails after it began to write the authority leaves the daemon unable to start, unless what it
  got to write of the certificate is a PEM block already (only closing the file failed, say): every later start fails
  too, even with nothing else going wrong, until an operator removes the files.\<close>

theorem authority_half_written:
  assumes "LoadOrCreateCertificateAuthority codec keyPath certPath i h = (Inl m, h')" "ho_files h' \<noteq> ho_files h"
    and "case file_text h' certPath of None \<Rightarrow> True | Some c \<Rightarrow> cc_pem_decode codec c = None"
  shows "list_all isl (restarts (LoadOrCreateCertificateAuthority codec keyPath certPath) starts h')"
proof (rule half_written_stuck)
  obtain stored h1 where r: "readStoredCertificateAuthorityFiles keyPath certPath h = (stored, h1)" by fastforce
  from stored_result [OF r] obtain fs where h1: "h1 = h\<lparr>ho_faults := fs\<rparr>" by auto
  have "\<And>a b. parseStoredCertificateAuthority codec a b h1 \<noteq> (Inl m, h')"
    using assms(2) h1 parse_host [of codec _ _ h1 "Inl m" h'] by (metis host.ext_inject host.surjective host.update_convs)
  then have "stored = Inr None"
    using assms(1,2) r h1
    by (auto simp: LoadOrCreateCertificateAuthority_def io_bind_def io_check_def io_ret_def io_fail_def
        split: sum.splits option.splits if_splits)
  then have "createAndStoreCertificateAuthority codec keyPath certPath i h1 = (Inl m, h')"
    using assms(1,2) r by (auto simp: LoadOrCreateCertificateAuthority_def io_bind_def io_check_def io_ret_def io_fail_def split: if_splits)
  from create_fail [OF this] assms(2,3) h1 show "half_written codec keyPath certPath h'" by (simp add: half_written_def)
qed

text \<open>The first start fails in the middle of the certificate; \<open>demo_pem\<close> decodes from \<open>CERTIFICATE:\<close> on.\<close>

definition demo_torn_host :: host where
  "demo_torn_host = demo_empty_host\<lparr>ho_faults := replicate 30 False @ [True]\<rparr>"

definition demo_torn :: "(string + string \<times> string) \<times> host" where
  "demo_torn = LoadOrCreateCertificateAuthority demo_ca_codec ''/k'' ''/c'' (demo_ca_random ''one'') demo_torn_host"

theorem authority_half_written_witness:
  "file_text (snd demo_torn) ''/c'' = Some ''CERT'' \<and>
   list_all isl (restarts (LoadOrCreateCertificateAuthority demo_ca_codec ''/k'' ''/c'')
     [(demo_ca_random ''two'', []), (demo_ca_random ''two'', [])] (snd demo_torn))"
proof -
  have c: "file_text (snd demo_torn) ''/c'' = Some ''CERT''" by code_simp
  have "fst demo_torn = Inl ''writing''" by code_simp
  then have run: "LoadOrCreateCertificateAuthority demo_ca_codec ''/k'' ''/c'' (demo_ca_random ''one'') demo_torn_host =
      (Inl ''writing'', snd demo_torn)" by (metis demo_torn_def prod.collapse)
  have "ho_files (snd demo_torn) ''/k'' \<noteq> ho_files demo_torn_host ''/k''" by code_simp
  then have changed: "ho_files (snd demo_torn) \<noteq> ho_files demo_torn_host" by metis
  have "cc_pem_decode demo_ca_codec ''CERT'' = None" by code_simp
  then show ?thesis using authority_half_written [OF run changed, of "[(demo_ca_random ''two'', []), (demo_ca_random ''two'', [])]"] c
    by (simp del: restarts.simps)
qed

end
