(* ===== verification/Totp.thy ===== *)
theory Totp
  imports Go_Text "HOL-Library.Word"
begin

text \<open>
  \<open>auth/totp.go\<close> and \<open>auth/totp_validate.go\<close>: base32 secrets, the RFC 6238 code, its validation
  window and the shape of recovery codes.  The integers of the decoder keep their Go widths
  (\<open>bits\<close> is a \<open>uint16\<close>, \<open>bitsLen\<close> a \<open>uint8\<close>).  HMAC-SHA1 (\<open>crypto/hmac\<close>, \<open>crypto/sha1\<close>) is the
  parameter \<open>hmac\<close>; all that is used of it is that it returns 20 bytes.
\<close>

unbundle bit_operations_syntax

type_synonym u8 = "8 word"

section \<open>Base32\<close>

definition b32_alphabet :: string where
  "b32_alphabet = ''ABCDEFGHIJKLMNOPQRSTUVWXYZ234567''"

fun index_from :: "nat \<Rightarrow> 'a \<Rightarrow> 'a list \<Rightarrow> nat option" where
  "index_from i x [] = None"
| "index_from i x (y # ys) = (if x = y then Some i else index_from (Suc i) x ys)"

definition b32_lookup :: "char \<Rightarrow> u8 option" where
  "b32_lookup c = map_option of_nat (index_from 0 c b32_alphabet)"

text \<open>One rune of the normalising loop; every rune kept is an ASCII character.\<close>

definition b32_normal_rune :: "nat \<Rightarrow> string" where
  "b32_normal_rune r =
     (if 97 \<le> r \<and> r \<le> 122 then [char_of (r - 32)]
      else if (65 \<le> r \<and> r \<le> 90) \<or> (50 \<le> r \<and> r \<le> 55) then [char_of r]
      else [])"

definition b32_pad :: "string \<Rightarrow> string" where
  "b32_pad s = s @ replicate ((8 - length s mod 8) mod 8) (CHR ''='')"

fun b32_loop :: "string \<Rightarrow> 16 word \<Rightarrow> u8 \<Rightarrow> u8 list \<Rightarrow> u8 list option" where
  "b32_loop [] bits bitsLen buf = Some buf"
| "b32_loop (c # cs) bits bitsLen buf =
     (if c = CHR ''='' then Some buf
      else case b32_lookup c of
        None \<Rightarrow> None
      | Some v \<Rightarrow>
          let bits = push_bit 5 bits OR ucast v; bitsLen = bitsLen + 5 in
          if 8 \<le> bitsLen then
            let bitsLen = bitsLen - 8 in
            b32_loop cs (bits AND (push_bit (unat bitsLen) 1 - 1)) bitsLen
              (buf @ [ucast (drop_bit (unat bitsLen) bits)])
          else b32_loop cs bits bitsLen buf)"

text \<open>A nil slice and an empty one are not told apart by the caller, which tests \<open>len(key) == 0\<close>.\<close>

definition decodeBase32 :: "string \<Rightarrow> u8 list" where
  "decodeBase32 s = (case b32_loop (b32_pad (concat (map b32_normal_rune (runes s)))) 0 0 [] of
     None \<Rightarrow> [] | Some buf \<Rightarrow> buf)"

text \<open>
  \<open>base32.StdEncoding.WithPadding(NoPadding).EncodeToString\<close>: the bits of the bytes, most
  significant first, in groups of five, the last one filled with zeros.
\<close>

fun bits_msb :: "nat \<Rightarrow> nat \<Rightarrow> bool list" where
  "bits_msb 0 n = []"
| "bits_msb (Suc k) n = bits_msb k (n div 2) @ [odd n]"

definition bits_val :: "bool list \<Rightarrow> nat" where
  "bits_val = foldl (\<lambda>n b. 2 * n + of_bool b) 0"

function b32_groups :: "bool list \<Rightarrow> nat list" where
  "b32_groups bs =
     (if bs = [] then [] else bits_val (take 5 (bs @ replicate 4 False)) # b32_groups (drop 5 bs))"
  by pat_completeness auto
termination by (relation "measure length") auto

declare b32_groups.simps [simp del]

definition b32_encode :: "u8 list \<Rightarrow> string" where
  "b32_encode bs = map (\<lambda>v. b32_alphabet ! v) (b32_groups (concat (map (\<lambda>b. bits_msb 8 (unat b)) bs)))"

definition NewTOTPSecret :: "u8 list option \<Rightarrow> string option" where
  "NewTOTPSecret random = map_option b32_encode random"

section \<open>The code\<close>

definition be_bytes64 :: "64 word \<Rightarrow> u8 list" where
  "be_bytes64 w = map (\<lambda>i. ucast (drop_bit (8 * i) w)) [7, 6, 5, 4, 3, 2, 1, 0]"

definition be_uint32 :: "u8 list \<Rightarrow> 32 word" where
  "be_uint32 b = push_bit 24 (ucast (b ! 0)) OR push_bit 16 (ucast (b ! 1))
     OR push_bit 8 (ucast (b ! 2)) OR ucast (b ! 3)"

definition pad_left :: "nat \<Rightarrow> string \<Rightarrow> string" where
  "pad_left n s = replicate (n - length s) (CHR ''0'') @ s"

definition totpAt :: "(u8 list \<Rightarrow> u8 list \<Rightarrow> u8 list) \<Rightarrow> string \<Rightarrow> int \<Rightarrow> string" where
  "totpAt hmac secret t =
     (if t < 0 then ''''
      else
        let counter = of_int (t div 30) :: 64 word;
            key = decodeBase32 secret in
        if key = [] then ''''
        else
          let s = hmac key (be_bytes64 counter);
              offset = unat (last s AND 0x0f);
              binary = be_uint32 (take 4 (drop offset s)) AND 0x7fffffff in
          pad_left 6 (show_nat (unat binary mod 1000000)))"

definition ValidateTOTP :: "(u8 list \<Rightarrow> u8 list \<Rightarrow> u8 list) \<Rightarrow> unixsec \<Rightarrow> string \<Rightarrow> string \<Rightarrow> bool" where
  "ValidateTOTP hmac now secret code \<longleftrightarrow> length code = 6 \<and>
     (\<exists>offset \<in> set [0, -30, 30]. totpAt hmac secret (now + offset) = code)"

section \<open>Recovery codes\<close>

definition hex_digit :: "nat \<Rightarrow> char" where
  "hex_digit n = (''0123456789abcdef'' ! (n mod 16))"

definition hex_encode :: "u8 list \<Rightarrow> string" where
  "hex_encode bs = concat (map (\<lambda>b. [hex_digit (unat b div 16), hex_digit (unat b)]) bs)"

definition upper_ascii :: "char \<Rightarrow> char" where
  "upper_ascii c = (if in_range 97 122 c then char_of (byte c - 32) else c)"

definition slice :: "nat \<Rightarrow> nat \<Rightarrow> 'a list \<Rightarrow> 'a list" where
  "slice lo hi xs = take (hi - lo) (drop lo xs)"

definition recovery_code_of :: "u8 list \<Rightarrow> string" where
  "recovery_code_of buf = (let h = hex_encode buf in
     map upper_ascii (slice 0 8 h @ ''-'' @ slice 8 16 h @ ''-'' @ slice 16 24 h @ ''-'' @ slice 24 32 h))"

section \<open>The decoder inverts the encoder\<close>

lemma bits_val_Nil [simp]: "bits_val [] = 0"
  by (simp add: bits_val_def)

lemma bits_val_snoc [simp]: "bits_val (bs @ [b]) = 2 * bits_val bs + of_bool b"
  by (simp add: bits_val_def)

lemma bits_val_append: "bits_val (xs @ ys) = bits_val xs * 2 ^ length ys + bits_val ys"
proof (induction ys rule: rev_induct)
  case (snoc y ys)
  have "bits_val (xs @ ys @ [y]) = bits_val ((xs @ ys) @ [y])" by simp
  also have "\<dots> = 2 * bits_val (xs @ ys) + of_bool y" by (rule bits_val_snoc)
  finally show ?case using snoc by simp
qed simp

lemma bits_val_less: "bits_val bs < 2 ^ length bs"
  by (induction bs rule: rev_induct) (auto simp: of_bool_def)

lemma length_bits_msb [simp]: "length (bits_msb k n) = k"
  by (induction k arbitrary: n) auto

lemma bits_val_msb [simp]: "bits_val (bits_msb k n) = n mod 2 ^ k"
proof (induction k arbitrary: n)
  case (Suc k)
  have "n mod (2 * 2 ^ k) = 2 * (n div 2 mod 2 ^ k) + n mod 2"
    by (metis mod_mult2_eq add.commute mult.commute)
  with Suc show ?case by (simp add: of_bool_def mod_2_eq_odd)
qed simp

lemma bits_msb_val: "length bs = k \<Longrightarrow> bits_msb k (bits_val bs) = bs"
proof (induction k arbitrary: bs)
  case (Suc k)
  then obtain cs c where "bs = cs @ [c]" by (cases bs rule: rev_cases) auto
  with Suc show ?case by simp
qed simp

lemma bits_val_take: "n \<le> length bs \<Longrightarrow> bits_val bs div 2 ^ (length bs - n) = bits_val (take n bs)"
  using bits_val_append [of "take n bs" "drop n bs"] bits_val_less [of "drop n bs"] by simp

lemma bits_val_drop: "n \<le> length bs \<Longrightarrow> bits_val bs mod 2 ^ (length bs - n) = bits_val (drop n bs)"
  using bits_val_append [of "take n bs" "drop n bs"] bits_val_less [of "drop n bs"] by simp

text \<open>The eight-bit blocks of a bit string, the rest dropped.\<close>

function octets :: "bool list \<Rightarrow> nat list" where
  "octets bs = (if length bs < 8 then [] else bits_val (take 8 bs) # octets (drop 8 bs))"
  by pat_completeness auto
termination by (relation "measure length") auto

declare octets.simps [simp del]

lemma octets_short: "length bs < 8 \<Longrightarrow> octets bs = []"
  by (subst octets.simps) simp

lemma octets_step:
  "8 \<le> length bs \<Longrightarrow> octets (bs @ cs) = bits_val (take 8 bs) # octets (drop 8 bs @ cs)"
  by (subst octets.simps) simp

lemma octets_bytes:
  "\<forall>n \<in> set ns. n < 256 \<Longrightarrow> length z < 8 \<Longrightarrow> octets (concat (map (bits_msb 8) ns) @ z) = ns"
proof (induction ns)
  case (Cons n ns)
  then show ?case using octets_step [of "bits_msb 8 n" "concat (map (bits_msb 8) ns) @ z"] by simp
qed (simp add: octets_short)

lemma groups_bits:
  "\<exists>k < 5. concat (map (bits_msb 5) (b32_groups bs)) = bs @ replicate k False"
proof (induction bs rule: b32_groups.induct)
  case (1 bs)
  show ?case
  proof (cases "bs = []")
    case True
    then show ?thesis by (subst b32_groups.simps) auto
  next
    case False
    then obtain k where k: "k < 5"
      and ih: "concat (map (bits_msb 5) (b32_groups (drop 5 bs))) = drop 5 bs @ replicate k False"
      using 1 by blast
    have l: "length (take 5 (bs @ replicate 4 False)) = 5"
      using False by (cases bs) auto
    have "concat (map (bits_msb 5) (b32_groups bs))
        = take 5 (bs @ replicate 4 False) @ drop 5 bs @ replicate k False"
      using False by (subst b32_groups.simps) (simp add: ih bits_msb_val [OF l] del: take_append)
    also have "\<exists>j < 5. \<dots> = bs @ replicate j False"
    proof (cases "5 \<le> length bs")
      case True
      then show ?thesis using k by auto
    next
      case short: False
      then have "k = 0 \<or> drop 5 bs = []" by simp
      have "b32_groups [] = []" by (subst b32_groups.simps) simp
      with short ih have "k = 0" by simp
      then show ?thesis using short False
        by (intro exI [of _ "5 - length bs"]) (cases bs, auto simp: min_def)
    qed
    finally show ?thesis .
  qed
qed

lemma groups_less: "v \<in> set (b32_groups bs) \<Longrightarrow> v < 32"
proof (induction bs rule: b32_groups.induct)
  case (1 bs)
  have "bits_val (take 5 (bs @ replicate 4 False)) < 2 ^ length (take 5 (bs @ replicate 4 False))"
    by (rule bits_val_less)
  also have "\<dots> \<le> 2 ^ 5" by (intro power_increasing) auto
  finally show ?case using 1 by (cases "bs = []") (auto simp: b32_groups.simps [of bs] b32_groups.simps [of "[]"])
qed

lemma b32_lookup_nth: "v < 32 \<Longrightarrow> b32_lookup (b32_alphabet ! v) = Some (of_nat v)"
proof -
  have "\<forall>v \<in> set [0..<32]. index_from 0 (b32_alphabet ! v) b32_alphabet = Some v"
    by (simp add: b32_alphabet_def upt_rec)
  then show "v < 32 \<Longrightarrow> ?thesis" by (simp add: b32_lookup_def)
qed

lemma b32_alphabet_char:
  "c \<in> set b32_alphabet \<Longrightarrow> byte c < 128 \<and> b32_normal_rune (byte c) = [c] \<and> c \<noteq> CHR ''=''"
  unfolding b32_alphabet_def by (auto simp: b32_normal_rune_def byte_def)

text \<open>The shifts and masks of one step, on values that fit.\<close>

lemma nat_shift_in: "v < 2 ^ k \<Longrightarrow> push_bit k (n :: nat) OR v = n * 2 ^ k + v"
proof -
  assume "v < 2 ^ k"
  then have "take_bit k v = v" by (simp add: take_bit_nat_eq_self)
  then have "\<not> bit (push_bit k n) i \<or> \<not> bit v i" for i
    by (metis bit_push_bit_iff bit_take_bit_iff not_less)
  then show ?thesis by (subst disjunctive_add [symmetric]) (simp_all add: push_bit_eq_mult)
qed

lemma word16_shift_in:
  assumes "n < 128" "v < 32"
  shows "push_bit 5 (of_nat n :: 16 word) OR ucast (of_nat v :: u8) = of_nat (n * 32 + v)"
proof -
  have "push_bit 5 n OR v = n * 32 + v" using assms nat_shift_in [of v 5 n] by simp
  moreover have "ucast (of_nat v :: u8) = (of_nat v :: 16 word)"
    using assms by (simp add: word_unat_eq_iff unsigned_ucast_eq unsigned_of_nat take_bit_nat_eq_self)
  ultimately show ?thesis by (metis of_nat_or_eq of_nat_push_bit)
qed

lemma word16_take:
  assumes "m < 2 ^ 13"
  shows "ucast (drop_bit k (of_nat m :: 16 word)) = (of_nat (m div 2 ^ k) :: u8)"
  and "(of_nat m :: 16 word) AND (push_bit k 1 - 1) = of_nat (m mod 2 ^ k)"
proof -
  have m: "unat (of_nat m :: 16 word) = m"
    using assms by (simp add: unsigned_of_nat take_bit_nat_eq_self)
  have small: "m div 2 ^ k < 2 ^ 16" using assms by (simp add: order.strict_trans1 [OF div_le_dividend])
  then have "unat (of_nat (m div 2 ^ k) :: 16 word) = m div 2 ^ k"
    by (simp add: unsigned_of_nat take_bit_nat_eq_self)
  moreover have "unat (drop_bit k (of_nat m :: 16 word)) = m div 2 ^ k"
    by (subst unat_drop_bit_eq) (simp only: m drop_bit_eq_div)
  ultimately have "drop_bit k (of_nat m :: 16 word) = of_nat (m div 2 ^ k)"
    by (simp only: word_unat_eq_iff)
  then show "ucast (drop_bit k (of_nat m :: 16 word)) = (of_nat (m div 2 ^ k) :: u8)"
    using small by (simp add: word_unat_eq_iff unsigned_ucast_eq unsigned_of_nat take_bit_nat_eq_self)
  have "push_bit k (1 :: 16 word) - 1 = mask k" by (simp add: mask_eq_exp_minus_1 push_bit_eq_mult)
  then show "(of_nat m :: 16 word) AND (push_bit k 1 - 1) = of_nat (m mod 2 ^ k)"
    by (simp only: take_bit_eq_mask [symmetric] take_bit_of_nat)
      (simp add: take_bit_eq_mod)
qed

text \<open>The loop from a state that holds the pending bits \<open>pend\<close>.\<close>

lemma b32_loop_octets:
  assumes "length pend < 8" "\<forall>v \<in> set vs. v < 32"
  shows "b32_loop (map (\<lambda>v. b32_alphabet ! v) vs @ replicate p (CHR ''=''))
      (of_nat (bits_val pend)) (of_nat (length pend)) buf
    = Some (buf @ map of_nat (octets (pend @ concat (map (bits_msb 5) vs))))"
  using assms
proof (induction vs arbitrary: pend buf)
  case Nil
  then show ?case by (cases p) (simp_all add: octets_short)
next
  case (Cons v vs)
  define pend' where "pend' = pend @ bits_msb 5 v"
  have v: "v < 32" and len: "length pend' = length pend + 5" "length pend' \<le> 12"
    using Cons.prems by (simp_all add: pend'_def)
  have c: "b32_alphabet ! v \<noteq> CHR ''=''"
    using b32_alphabet_char [OF nth_mem, of v] v by (simp add: b32_alphabet_def)
  have "(2 :: nat) ^ length pend \<le> 2 ^ 7" using Cons.prems by (intro power_increasing) auto
  with bits_val_less [of pend] have "bits_val pend < 2 ^ 7" by (rule less_le_trans)
  then have bits: "push_bit 5 (of_nat (bits_val pend) :: 16 word) OR ucast (of_nat v :: u8) = of_nat (bits_val pend')"
    using word16_shift_in [of "bits_val pend" v] v by (simp add: pend'_def bits_val_append)
  have blen: "(of_nat (length pend) :: u8) + 5 = of_nat (length pend')" by (simp add: len)
  have big: "8 \<le> (of_nat (length pend') :: u8) \<longleftrightarrow> 8 \<le> length pend'"
    by (simp only: word_le_nat_alt unsigned_of_nat) (use len in \<open>simp add: take_bit_nat_eq_self\<close>)
  have "b32_loop (map ((!) b32_alphabet) (v # vs) @ replicate p (CHR ''=''))
      (of_nat (bits_val pend)) (of_nat (length pend)) buf
    = Some (buf @ map of_nat (octets (pend' @ concat (map (bits_msb 5) vs))))"
  proof (cases "8 \<le> length pend'")
    case False
    then show ?thesis using Cons.IH [of pend' buf] Cons.prems c
      by (simp add: b32_lookup_nth [OF v] bits blen big)
  next
    case True
    have sub: "(of_nat (length pend') :: u8) - 8 = of_nat (length (drop 8 pend'))"
      using True by (simp add: of_nat_diff)
    have ul: "unat (of_nat (length (drop 8 pend')) :: u8) = length pend' - 8"
      using len by (simp add: unsigned_of_nat take_bit_nat_eq_self)
    have "(2 :: nat) ^ length pend' \<le> 2 ^ 13" using len by (intro power_increasing) auto
    with bits_val_less [of pend'] have v13: "bits_val pend' < 2 ^ 13" by (rule less_le_trans)
    have "b32_loop (map ((!) b32_alphabet) (v # vs) @ replicate p (CHR ''=''))
        (of_nat (bits_val pend)) (of_nat (length pend)) buf
      = b32_loop (map ((!) b32_alphabet) vs @ replicate p (CHR ''=''))
        (of_nat (bits_val (drop 8 pend'))) (of_nat (length (drop 8 pend')))
        (buf @ [of_nat (bits_val (take 8 pend'))])"
      using c True
      by (simp only: list.map append.simps b32_loop.simps(2) if_False b32_lookup_nth [OF v]
          option.case Let_def bits blen big if_True sub ul word16_take [OF v13]
          bits_val_take [OF True] bits_val_drop [OF True])
    also have "\<dots> = Some (buf @ [of_nat (bits_val (take 8 pend'))] @
        map of_nat (octets (drop 8 pend' @ concat (map (bits_msb 5) vs))))"
      using Cons.IH [of "drop 8 pend'" "buf @ [of_nat (bits_val (take 8 pend'))]"] Cons.prems len by simp
    finally show ?thesis by (simp only: octets_step [OF True]) simp
  qed
  then show ?case by (simp add: pend'_def)
qed

lemma b32_normal_encoded:
  assumes "set s \<subseteq> set b32_alphabet" shows "concat (map b32_normal_rune (runes s)) = s"
  using assms
proof (induction s)
  case Nil
  then show ?case by (subst runes.simps) simp
next
  case (Cons c s)
  then show ?case using b32_alphabet_char [of c] by (simp add: runes_ascii)
qed

lemma decode_encode: "decodeBase32 (b32_encode bs) = bs"
proof -
  define groups where "groups = b32_groups (concat (map (\<lambda>b. bits_msb 8 (unat b)) bs))"
  have less: "\<forall>v \<in> set groups. v < 32" by (auto simp: groups_def dest: groups_less)
  obtain k where k: "k < 5" and
    cat: "concat (map (bits_msb 5) groups) = concat (map (bits_msb 8) (map unat bs)) @ replicate k False"
    using groups_bits [of "concat (map (\<lambda>b. bits_msb 8 (unat b)) bs)"] by (auto simp: groups_def comp_def)
  have enc: "b32_encode bs = map ((!) b32_alphabet) groups" by (simp add: b32_encode_def groups_def)
  have "length b32_alphabet = 32" by (simp add: b32_alphabet_def)
  then have sub: "set (b32_encode bs) \<subseteq> set b32_alphabet" using less by (auto simp: enc)
  have "\<forall>n \<in> set (map unat bs). n < 256" using unsigned_less [where 'a = nat and 'b = 8] by auto
  then have "octets (concat (map (bits_msb 5) groups)) = map unat bs"
    using octets_bytes [of "map unat bs" "replicate k False"] k by (simp add: cat)
  then show ?thesis
    using b32_loop_octets [of "[]" groups _ "[]"] less
    by (simp only: decodeBase32_def b32_normal_encoded [OF sub] b32_pad_def)
      (simp add: enc comp_def)
qed

section \<open>The code of RFC 6238\<close>

text \<open>
  The reference: RFC 4226's dynamic truncation on numbers, and six decimal digits written out.
\<close>

primrec dec_digits :: "nat \<Rightarrow> nat \<Rightarrow> string" where
  "dec_digits 0 n = []"
| "dec_digits (Suc k) n = dec_digits k (n div 10) @ [digit_char (n mod 10)]"

definition hotp :: "(u8 list \<Rightarrow> u8 list \<Rightarrow> u8 list) \<Rightarrow> u8 list \<Rightarrow> 64 word \<Rightarrow> string" where
  "hotp hmac key counter =
     (let s = hmac key (be_bytes64 counter); i = unat (s ! 19) mod 16 in
      dec_digits 6 ((unat (s ! i) mod 128 * 2 ^ 24 + unat (s ! (i + 1)) * 2 ^ 16
        + unat (s ! (i + 2)) * 2 ^ 8 + unat (s ! (i + 3))) mod 10 ^ 6))"

lemma length_dec_digits [simp]: "length (dec_digits k n) = k"
  by (induction k arbitrary: n) auto

lemma dec_digits_0: "dec_digits k 0 = replicate k (CHR ''0'')"
proof (induction k)
  case (Suc k)
  have "digit_char 0 = CHR ''0''" by code_simp
  with Suc show ?case by (simp add: replicate_append_same)
qed simp

lemma dec_digits_digits: "list_all is_digit (dec_digits k n)"
  by (induction k arbitrary: n) auto

lemma show_nat_length: "n < 10 ^ k \<Longrightarrow> 0 < k \<Longrightarrow> length (show_nat n) \<le> k"
proof (induction k arbitrary: n)
  case (Suc k)
  show ?case
  proof (cases "n < 10")
    case False
    then have "0 < k" using Suc.prems by (cases k) auto
    then have "length (show_nat (n div 10)) \<le> k" using Suc by (intro Suc.IH) auto
    then show ?thesis using False by (subst show_nat.simps) simp
  qed (subst show_nat.simps, simp)
qed simp

lemma pad_show_nat: "n < 10 ^ k \<Longrightarrow> 0 < k \<Longrightarrow> pad_left k (show_nat n) = dec_digits k n"
proof (induction k arbitrary: n)
  case (Suc k)
  show ?case
  proof (cases "n < 10")
    case True
    then show ?thesis by (subst show_nat.simps) (simp add: pad_left_def dec_digits_0)
  next
    case False
    then have k: "0 < k" using Suc.prems by (cases k) auto
    have n: "n div 10 < 10 ^ k" using Suc.prems by simp
    have "pad_left (Suc k) (show_nat n) = pad_left k (show_nat (n div 10)) @ [digit_char (n mod 10)]"
      using False show_nat_length [OF n k] by (subst show_nat.simps) (simp add: pad_left_def)
    then show ?thesis using Suc.IH [OF n k] by simp
  qed
qed simp

lemma mod_top: "r < 2 ^ 24 \<Longrightarrow> (a * 2 ^ 24 + r :: nat) mod 2 ^ 31 = a mod 128 * 2 ^ 24 + r"
  using mod_mult2_eq [of "a * 2 ^ 24 + r" "2 ^ 24" 128] by simp

lemma be_uint32_unat:
  "unat (be_uint32 [a, b, c, d] AND 0x7fffffff)
     = unat a mod 128 * 2 ^ 24 + unat b * 2 ^ 16 + unat c * 2 ^ 8 + unat d"
proof -
  define m where "m = unat a * 2 ^ 24 + (unat b * 2 ^ 16 + (unat c * 2 ^ 8 + unat d))"
  have lt: "unat x < 256" for x :: u8 using unsigned_less [of x] by simp
  have uc: "ucast x = (of_nat (unat x) :: 32 word)" for x :: u8 by simp
  have "be_uint32 [a, b, c, d] = of_nat (push_bit 24 (unat a) OR (push_bit 16 (unat b) OR
      (push_bit 8 (unat c) OR unat d)))"
    by (simp add: be_uint32_def uc of_nat_or_eq of_nat_push_bit del: of_nat_unat)
  also have "\<dots> = of_nat m"
    using lt [of a] lt [of b] lt [of c] lt [of d] by (simp add: nat_shift_in m_def)
  finally have "be_uint32 [a, b, c, d] AND 0x7fffffff = take_bit 31 (of_nat m)"
    by (simp add: take_bit_eq_mask mask_eq_exp_minus_1)
  then have "unat (be_uint32 [a, b, c, d] AND 0x7fffffff) = take_bit 31 m"
    by (simp only: unsigned_take_bit_eq unsigned_of_nat) simp
  then have "unat (be_uint32 [a, b, c, d] AND 0x7fffffff) = m mod 2 ^ 31"
    by (simp only: take_bit_eq_mod)
  also have "\<dots> = unat a mod 128 * 2 ^ 24 + unat b * 2 ^ 16 + unat c * 2 ^ 8 + unat d"
    using lt [of b] lt [of c] lt [of d] mod_top
      [of "unat b * 2 ^ 16 + (unat c * 2 ^ 8 + unat d)" "unat a"] by (simp add: m_def)
  finally show ?thesis .
qed

lemma totpAt_hotp:
  assumes "\<And>k m. length (hmac k m) = 20" "0 \<le> t" "decodeBase32 secret = key" "key \<noteq> []"
  shows "totpAt hmac secret t = hotp hmac key (of_int (t div 30))"
proof -
  define s where "s = hmac key (be_bytes64 (of_int (t div 30)))"
  define i where "i = unat (s ! 19) mod 16"
  have len: "length s = 20" by (simp add: s_def assms(1))
  have off: "unat (last s AND 0x0f) = i"
  proof -
    have "last s = s ! 19" using len by (cases "s = []") (auto simp: last_conv_nth)
    moreover have "(0x0f :: u8) = mask 4" by (simp add: mask_eq_exp_minus_1)
    moreover have "unat (s ! 19 AND mask 4) = take_bit 4 (unat (s ! 19))"
      by (simp only: take_bit_eq_mask [symmetric] unsigned_take_bit_eq)
    ultimately show ?thesis by (simp add: i_def take_bit_eq_mod)
  qed
  have "i < 16" by (simp add: i_def)
  then have "take 4 (drop i s) = [s ! i, s ! (i + 1), s ! (i + 2), s ! (i + 3)]"
    using len by (simp add: take_Suc_conv_app_nth numeral_eq_Suc)
  then show ?thesis
    using assms(2-4) off by (simp add: totpAt_def hotp_def Let_def s_def [symmetric] i_def [symmetric]
        be_uint32_unat pad_show_nat)
qed

text \<open>decoding inverts encoding, for every byte string.\<close>

theorem base32_roundtrip: "decodeBase32 (b32_encode bs) = bs"
  by (rule decode_encode)

text \<open>C34: a code is accepted for an enrolled secret exactly when it is the RFC 6238 code of the
  current 30-second step or of a neighbour.\<close>

theorem totp_window:
  assumes "\<And>k m. length (hmac k m) = 20" "key \<noteq> []" "30 \<le> now"
  shows "ValidateTOTP hmac now (b32_encode key) code \<longleftrightarrow>
    (\<exists>d \<in> {-1, 0, 1}. code = hotp hmac key (of_int (now div 30 + d)))"
proof -
  have at: "totpAt hmac (b32_encode key) (now + 30 * d) = hotp hmac key (of_int (now div 30 + d))"
    if "d \<in> {-1, 0, 1}" for d
    using that assms(3) totpAt_hotp [OF assms(1), of "now + 30 * d" "b32_encode key" key] assms(2)
    by (auto simp: decode_encode add.commute)
  have six: "length (hotp hmac key c) = 6" for c by (simp add: hotp_def Let_def)
  show ?thesis
    using at [of 0] at [of "-1"] at [of 1] six by (auto simp: ValidateTOTP_def)
qed

theorem totp_window_witness:
  "ValidateTOTP (\<lambda>k m. replicate 20 (m ! 7)) 90 (b32_encode [1, 2]) ''529027''"
proof -
  have "''529027'' = hotp (\<lambda>k m. replicate 20 (m ! 7)) [1, 2] (of_int (90 div 30 + 0))" by code_simp
  then show ?thesis
    by (subst totp_window) auto
qed

end
