(* ===== verification/Go_Json.thy ===== *)
theory Go_Json
  imports Go_Text
begin

text \<open>
  JSON as \<open>encoding/json\<close> decodes it into structs.  A text is its JSON value when it is a JSON document; numbers are
  integers, or their literal.  Of repeated keys the last one counts.
\<close>

datatype json = JNull | JBool bool | JInt int | JNum string | JStr string | JArr "json list" | JObj "(string \<times> json) list"

datatype document = Json json | Raw string

text \<open>The case folding of field names and of \<open>strings.EqualFold\<close>, as far as ASCII letters have folds: the Kelvin sign
  U+212A and the long s U+017F are the two other code points.\<close>

fun fold_case :: "string \<Rightarrow> string" where
  "fold_case [] = []"
| "fold_case (c # cs) =
     (if byte c = 197 \<and> cs \<noteq> [] \<and> byte (hd cs) = 191 then CHR ''s'' # fold_case (tl cs)
      else if byte c = 226 \<and> 2 \<le> length cs \<and> byte (cs ! 0) = 132 \<and> byte (cs ! 1) = 170 then CHR ''k'' # fold_case (drop 2 cs)
      else (if 65 \<le> byte c \<and> byte c \<le> 90 then char_of (byte c + 32) else c) # fold_case cs)"

section \<open>Structs\<close>

text \<open>The entries of an object; \<open>null\<close> leaves a struct as it is.\<close>

definition as_object :: "json \<Rightarrow> (string \<times> json) list option" where
  "as_object j = (case j of JObj fs \<Rightarrow> Some fs | JNull \<Rightarrow> Some [] | _ \<Rightarrow> None)"

definition field :: "string \<Rightarrow> (string \<times> json) list \<Rightarrow> json" where
  "field key fs = (case find (\<lambda>(k, v). fold_case k = key) (rev fs) of None \<Rightarrow> JNull | Some (k, v) \<Rightarrow> v)"

text \<open>A field of a Go type; \<open>None\<close> is a type error, \<open>null\<close> the zero value.\<close>

definition str_field :: "string \<Rightarrow> (string \<times> json) list \<Rightarrow> string option" where
  "str_field key fs = (case field key fs of JStr s \<Rightarrow> Some s | JNull \<Rightarrow> Some '''' | _ \<Rightarrow> None)"

definition bool_field :: "string \<Rightarrow> (string \<times> json) list \<Rightarrow> bool option" where
  "bool_field key fs = (case field key fs of JBool b \<Rightarrow> Some b | JNull \<Rightarrow> Some False | _ \<Rightarrow> None)"

definition int_field :: "string \<Rightarrow> (string \<times> json) list \<Rightarrow> int option" where
  "int_field key fs = (case field key fs of
     JInt n \<Rightarrow> if - (2 ^ 63) \<le> n \<and> n < 2 ^ 63 then Some n else None | JNull \<Rightarrow> Some 0 | _ \<Rightarrow> None)"

definition object_field :: "string \<Rightarrow> (string \<times> json) list \<Rightarrow> (string \<times> json) list option" where
  "object_field key fs = as_object (field key fs)"

text \<open>A slice of structs: \<open>Some None\<close> is the nil slice.\<close>

definition slice_field :: "(json \<Rightarrow> 'r option) \<Rightarrow> string \<Rightarrow> (string \<times> json) list \<Rightarrow> 'r list option option" where
  "slice_field row key fs = (case field key fs of
     JNull \<Rightarrow> Some None
   | JArr xs \<Rightarrow> map_option Some (those (map row xs))
   | _ \<Rightarrow> None)"

section \<open>Texts\<close>

definition as_json :: "document \<Rightarrow> json option" where
  "as_json t = (case t of Json j \<Rightarrow> Some j | Raw _ \<Rightarrow> None)"

definition text_object :: "document \<Rightarrow> (string \<times> json) list option" where
  "text_object t = Option.bind (as_json t) as_object"

lemma text_object_simps [simp]:
  "text_object (Json (JObj fs)) = Some fs" "text_object (Raw s) = None"
  by (simp_all add: text_object_def as_json_def as_object_def)

end
