(* ===== verification/Cli_Client.thy ===== *)
theory Cli_Client
  imports Key_Files Go_Json
begin

text \<open>
  The command-line client's foundations (\<open>helling-cli/internal/config\<close>, \<open>internal/client\<close>, and the prompts of
  \<open>cmd/auth.go\<close>): a profile on disk, an HTTP client that carries its credentials, standard input and output.

  A command maps a world to a result and a new world.  The world is the host's files, what is left of standard input,
  what was written, and \<open>'s\<close>, the state of whatever answers requests.  Writing to standard output does not fail.
\<close>

section \<open>Worlds\<close>

datatype cli_error = Failed string | APIError nat string document       \<comment> \<open>status, detail, body\<close>

record 's world =
  wo_host :: host
  wo_stdin :: "string list"                \<comment> \<open>what each read returns\<close>
  wo_out :: "document list"
  wo_err :: "string list"
  wo_net :: 's

record profile =
  pr_api :: string
  pr_cookie :: string
  pr_access :: string
  pr_token :: string

record api_request =
  hr_socket :: "string option"
  hr_url :: string
  hr_method :: string
  hr_body :: "document option"
  hr_headers :: "(string \<times> string) list"

record api_answer =
  hs_status :: nat
  hs_cookies :: "(string \<times> string) list"
  hs_body :: document

text \<open>What a command finds outside: the environment, global flags, and functions not in the repository.\<close>

record 's outside =
  ce_getenv :: "string \<Rightarrow> string"
  ce_home :: "string option"
  ce_api :: string                         \<comment> \<open>\<open>--api\<close>\<close>
  ce_output :: string                      \<comment> \<open>\<open>--output\<close>\<close>
  ce_yaml :: "string \<Rightarrow> profile option"
  ce_show :: "profile \<Rightarrow> string"
  ce_url_ok :: "string \<Rightarrow> bool"            \<comment> \<open>\<open>url.Parse\<close>\<close>
  ce_terminal :: bool
  ce_read_password :: "string list \<Rightarrow> (string + string) \<times> string list"     \<comment> \<open>\<open>term.ReadPassword\<close>\<close>
  ce_base64 :: "string \<Rightarrow> document option"     \<comment> \<open>\<open>base64.RawURLEncoding\<close>\<close>
  ce_rfc3339 :: "int \<Rightarrow> string"            \<comment> \<open>of a Unix time\<close>
  ce_send :: "api_request \<Rightarrow> 's \<Rightarrow> api_answer option \<times> 's"

type_synonym ('s, 'a) cli = "'s world \<Rightarrow> (cli_error + 'a) \<times> 's world"

definition cret :: "'a \<Rightarrow> ('s, 'a) cli" where "cret x w = (Inr x, w)"

definition cfail :: "string \<Rightarrow> ('s, 'a) cli" where "cfail m w = (Inl (Failed m), w)"

definition cbind :: "('s, 'a) cli \<Rightarrow> ('a \<Rightarrow> ('s, 'b) cli) \<Rightarrow> ('s, 'b) cli" where
  "cbind m k w = (case m w of (Inl e, w) \<Rightarrow> (Inl e, w) | (Inr x, w) \<Rightarrow> k x w)"

definition ccheck :: "bool \<Rightarrow> string \<Rightarrow> ('s, unit) cli" where
  "ccheck ok m = (if ok then cret () else cfail m)"

definition clift :: "string + 'a \<Rightarrow> ('s, 'a) cli" where
  "clift r = (case r of Inl m \<Rightarrow> cfail m | Inr x \<Rightarrow> cret x)"

definition csome :: "string \<Rightarrow> 'a option \<Rightarrow> ('s, 'a) cli" where
  "csome m x = (case x of None \<Rightarrow> cfail m | Some v \<Rightarrow> cret v)"

text \<open>A call whose error is ignored or handled.\<close>

definition ctry :: "('s, 'a) cli \<Rightarrow> ('s, cli_error + 'a) cli" where
  "ctry m w = (case m w of (r, w) \<Rightarrow> (Inr r, w))"

definition on_host :: "'a io \<Rightarrow> ('s, 'a) cli" where
  "on_host m w = (case m (wo_host w) of (r, h) \<Rightarrow>
     (case r of Inl e \<Rightarrow> Inl (Failed e) | Inr x \<Rightarrow> Inr x, w\<lparr>wo_host := h\<rparr>))"

definition cprint :: "document list \<Rightarrow> ('s, unit) cli" where
  "cprint ts w = (Inr (), w\<lparr>wo_out := wo_out w @ ts\<rparr>)"

definition cprintln :: "document \<Rightarrow> ('s, unit) cli" where
  "cprintln t = cprint [t, Raw [CHR 0x0A]]"

definition cwarn :: "string \<Rightarrow> ('s, unit) cli" where
  "cwarn m w = (Inr (), w\<lparr>wo_err := wo_err w @ [m]\<rparr>)"

section \<open>The profile\<close>

definition empty_profile :: profile where
  "empty_profile = \<lparr>pr_api = '''', pr_cookie = '''', pr_access = '''', pr_token = ''''\<rparr>"

definition config_Path :: "'s outside \<Rightarrow> string + string" where
  "config_Path env = (let xdg = ce_getenv env ''XDG_CONFIG_HOME'' in
     if xdg \<noteq> '''' then Inr (filepath_join (filepath_join xdg ''helling'') ''config.yaml'')
     else case ce_home env of None \<Rightarrow> Inl ''config: resolve home''
     | Some home \<Rightarrow> Inr (filepath_join (filepath_join (filepath_join home ''.config'') ''helling'') ''config.yaml''))"

definition profile_applyEnv :: "'s outside \<Rightarrow> profile \<Rightarrow> profile" where
  "profile_applyEnv env prof =
     (let v = ce_getenv env ''HELLING_API''; prof = (if v \<noteq> '''' then prof\<lparr>pr_api := v\<rparr> else prof);
          v = ce_getenv env ''HELLING_TOKEN'' in if v \<noteq> '''' then prof\<lparr>pr_token := v\<rparr> else prof)"

definition config_path_of :: "'s outside \<Rightarrow> string \<Rightarrow> ('s, string) cli" where
  "config_path_of env explicit = (if explicit \<noteq> '''' then cret explicit else clift (config_Path env))"

definition config_Load :: "'s outside \<Rightarrow> string \<Rightarrow> ('s, profile) cli" where
  "config_Load env explicit =
     cbind (config_path_of env explicit) (\<lambda>path.
     cbind (on_host (read_or_missing path)) (\<lambda>raw. case raw of
       None \<Rightarrow> cret (profile_applyEnv env empty_profile)
     | Some raw \<Rightarrow> cbind (csome ''config: parse'' (ce_yaml env raw)) (\<lambda>prof. cret (profile_applyEnv env prof))))"

definition config_Save :: "'s outside \<Rightarrow> profile \<Rightarrow> string \<Rightarrow> ('s, unit) cli" where
  "config_Save env prof explicit =
     cbind (config_path_of env explicit) (\<lambda>path.
     cbind (on_host (mkdir_all path)) (\<lambda>_.
     on_host (os_write_file path (ce_show env prof))))"

definition profile_Bearer :: "profile \<Rightarrow> string" where
  "profile_Bearer p = (if pr_token p \<noteq> '''' then pr_token p else pr_access p)"

section \<open>The HTTP client\<close>

record api_client =
  cc_api :: string
  cc_socket :: "string option"
  cc_bearer :: string
  cc_cookie :: string

definition trim_right_char :: "char \<Rightarrow> string \<Rightarrow> string" where
  "trim_right_char c s = rev (dropWhile (\<lambda>x. x = c) (rev s))"

definition client_New :: "'s outside \<Rightarrow> profile \<Rightarrow> string \<Rightarrow> string + api_client" where
  "client_New env prof baseURL = (let api = (if baseURL = '''' then pr_api prof else baseURL) in
     if api = '''' then Inl ''client: no API endpoint configured''
     else case cut_prefix api ''http+unix://'' of
       Some socketPath \<Rightarrow>
         if socketPath = '''' \<or> \<not> has_prefix socketPath ''/'' then Inl ''client: invalid http+unix endpoint''
         else Inr \<lparr>cc_api = ''http://helling'', cc_socket = Some socketPath, cc_bearer = profile_Bearer prof, cc_cookie = pr_cookie prof\<rparr>
     | None \<Rightarrow>
         if \<not> ce_url_ok env api then Inl ''client: parse''
         else Inr \<lparr>cc_api = trim_right_char (CHR ''/'') api, cc_socket = None, cc_bearer = profile_Bearer prof, cc_cookie = pr_cookie prof\<rparr>)"

definition captureSessionCookie :: "api_answer \<Rightarrow> api_client \<Rightarrow> api_client" where
  "captureSessionCookie resp c = (case find (\<lambda>(name, v). name = ''helling_session'') (hs_cookies resp) of
     None \<Rightarrow> c | Some (name, v) \<Rightarrow> c\<lparr>cc_cookie := name @ ''='' @ v\<rparr>)"

text \<open>A type error is ignored: the other fields keep what was decoded.\<close>

definition decodeAPIError :: "nat \<Rightarrow> document \<Rightarrow> cli_error" where
  "decodeAPIError status raw =
     (let fs = (case text_object raw of None \<Rightarrow> [] | Some fs \<Rightarrow> fs);
          get = (\<lambda>key. case str_field key fs of None \<Rightarrow> '''' | Some s \<Rightarrow> s);
          detail = get ''detail'';
          detail = (if detail = '''' then get ''title'' else detail);
          detail = (if detail = '''' then get ''message'' else detail);
          code = get ''code'';
          detail = (if code \<noteq> '''' \<and> detail \<noteq> '''' then code @ '': '' @ detail else if code \<noteq> '''' then code else detail)
      in APIError status detail raw)"

definition set_header :: "string \<Rightarrow> string \<Rightarrow> (string \<times> string) list \<Rightarrow> (string \<times> string) list" where
  "set_header k v hs = filter (\<lambda>(k', v'). k' \<noteq> k) hs @ [(k, v)]"

definition set_credentials :: "api_client \<Rightarrow> (string \<times> string) list \<Rightarrow> (string \<times> string) list" where
  "set_credentials c hs =
     (let hs = (if cc_bearer c \<noteq> '''' then set_header ''Authorization'' (''Bearer '' @ cc_bearer c) hs else hs)
      in if cc_cookie c \<noteq> '''' then set_header ''Cookie'' (cc_cookie c) hs else hs)"

definition encodeRequestBody :: "json option \<Rightarrow> document option" where
  "encodeRequestBody body = map_option Json body"

text \<open>Sending a request: an answer below 200 or from 300 on is an error.\<close>

definition exchange :: "'s outside \<Rightarrow> api_client \<Rightarrow> api_request \<Rightarrow> ('s, document \<times> api_client) cli" where
  "exchange env c req w =
     (if \<not> ce_url_ok env (hr_url req) then (Inl (Failed ''parse url''), w)
      else case ce_send env req (wo_net w) of
        (None, s) \<Rightarrow> (Inl (Failed (''client: '' @ hr_method req)), w\<lparr>wo_net := s\<rparr>)
      | (Some resp, s) \<Rightarrow>
          (if 200 \<le> hs_status resp \<and> hs_status resp < 300 then Inr (hs_body resp, captureSessionCookie resp c)
           else Inl (decodeAPIError (hs_status resp) (hs_body resp)), w\<lparr>wo_net := s\<rparr>))"

definition client_request :: "api_client \<Rightarrow> string \<Rightarrow> string \<Rightarrow> json option \<Rightarrow> (string \<times> string) list \<Rightarrow> api_request" where
  "client_request c meth path body headers =
     (let hs = (if body \<noteq> None then [(''Content-Type'', ''application/json'')] else []) @ [(''Accept'', ''application/json'')];
          hs = foldl (\<lambda>hs (k, v). set_header k v hs) hs headers
      in \<lparr>hr_socket = cc_socket c, hr_url = cc_api c @ path, hr_method = meth,
           hr_body = encodeRequestBody body, hr_headers = set_credentials c hs\<rparr>)"

definition DoWithHeaders ::
  "'s outside \<Rightarrow> api_client \<Rightarrow> string \<Rightarrow> string \<Rightarrow> json option \<Rightarrow> (string \<times> string) list \<Rightarrow> ('s, document \<times> api_client) cli" where
  "DoWithHeaders env c meth path body headers = exchange env c (client_request c meth path body headers)"

definition client_Do :: "'s outside \<Rightarrow> api_client \<Rightarrow> string \<Rightarrow> string \<Rightarrow> json option \<Rightarrow> ('s, document \<times> api_client) cli" where
  "client_Do env c meth path body = DoWithHeaders env c meth path body []"

text \<open>\<open>Stream\<close>, whose answer is read as it comes: here its whole body.\<close>

definition client_Stream :: "'s outside \<Rightarrow> api_client \<Rightarrow> string \<Rightarrow> string \<Rightarrow> ('s, document \<times> api_client) cli" where
  "client_Stream env c path accept =
     exchange env c \<lparr>hr_socket = cc_socket c, hr_url = cc_api c @ path, hr_method = ''GET'', hr_body = None,
       hr_headers = set_credentials c [(''Accept'', if accept = '''' then ''application/json'' else accept)]\<rparr>"

section \<open>Prompts\<close>

text \<open>\<open>bufio.NewReader(in).ReadString\<close>: what a read returned after the line is lost with the reader.\<close>

fun read_string :: "string list \<Rightarrow> string \<times> string list" where
  "read_string [] = ('''', [])"
| "read_string (c # cs) =
     (if CHR 0x0A \<in> set c then (takeWhile (\<lambda>x. x \<noteq> CHR 0x0A) c @ [CHR 0x0A], cs)
      else case read_string cs of (l, cs) \<Rightarrow> (c @ l, cs))"

definition trim_crlf :: "string \<Rightarrow> string" where
  "trim_crlf s = rev (dropWhile (\<lambda>c. c = CHR 0x0D \<or> c = CHR 0x0A) (rev s))"

definition readLine :: "string \<Rightarrow> ('s, string) cli" where
  "readLine prompt = cbind (cprint [Raw prompt]) (\<lambda>_ w. case read_string (wo_stdin w) of
     (line, rest) \<Rightarrow> (Inr (trim_crlf line), w\<lparr>wo_stdin := rest\<rparr>))"

definition promptIfEmpty :: "string \<Rightarrow> string \<Rightarrow> ('s, string) cli" where
  "promptIfEmpty given prompt = (if given \<noteq> '''' then cret given else readLine prompt)"

definition promptSecret :: "'s outside \<Rightarrow> string \<Rightarrow> string \<Rightarrow> ('s, string) cli" where
  "promptSecret env flagName prompt =
     cbind (ccheck (ce_terminal env) (''--'' @ flagName @ '' is required in non-interactive mode'')) (\<lambda>_.
     cbind (cprint [Raw prompt]) (\<lambda>_ w. case ce_read_password env (wo_stdin w) of
       (r, rest) \<Rightarrow> (case r of Inl m \<Rightarrow> Inl (Failed m) | Inr s \<Rightarrow> Inr s,
         w\<lparr>wo_stdin := rest, wo_out := wo_out w @ [Raw [CHR 0x0A]]\<rparr>)))"

definition promptSecretIfEmpty :: "'s outside \<Rightarrow> string \<Rightarrow> string \<Rightarrow> string \<Rightarrow> ('s, string) cli" where
  "promptSecretIfEmpty env given flagName prompt =
     (if given \<noteq> '''' then cret given else promptSecret env flagName prompt)"

definition readSecretFromStdin :: "('s, string) cli" where
  "readSecretFromStdin w = (case read_string (wo_stdin w) of (line, rest) \<Rightarrow>
     (if trim_space line = '''' then Inl (Failed ''stdin secret is empty'') else Inr (trim_space line), w\<lparr>wo_stdin := rest\<rparr>))"

definition confirmDestructiveAction :: "bool \<Rightarrow> string \<Rightarrow> string \<Rightarrow> ('s, unit) cli" where
  "confirmDestructiveAction yes action ident =
     (if yes then cret ()
      else cbind (readLine (action @ '' '' @ ident @ ''? Type yes to confirm: '')) (\<lambda>answer.
        let answer = fold_case (trim_space answer)
        in ccheck (answer = ''yes'' \<or> answer = ''y'') (action @ '' '' @ ident @ '' canceled'')))"

end
