(* ===== verification/Cli_Commands.thy ===== *)
theory Cli_Commands
  imports Cli_Client
begin

text \<open>
  The commands of \<open>helling\<close> (\<open>helling-cli/cmd\<close>): what each asks of \<open>hellingd\<close>, prints and stores.  Arguments and
  flags are arguments; a flag whose default is told apart from its absence is an option.
\<close>

section \<open>Common parts\<close>

definition userClient :: "'s outside \<Rightarrow> ('s, api_client) cli" where
  "userClient env =
     cbind (config_Load env '''') (\<lambda>prof.
     cbind (ccheck (pr_api prof \<noteq> '''') ''no API endpoint configured (run 'helling auth login')'') (\<lambda>_.
     clift (client_New env prof '''')))"

text \<open>Most commands send one request and print the answer, or a line of their own.\<close>

definition request_print :: "'s outside \<Rightarrow> string \<Rightarrow> string \<Rightarrow> json option \<Rightarrow> ('s, unit) cli" where
  "request_print env meth path body =
     cbind (userClient env) (\<lambda>cli.
     cbind (client_Do env cli meth path body) (\<lambda>(raw, _). cprintln raw))"

definition request_say :: "'s outside \<Rightarrow> string \<Rightarrow> string \<Rightarrow> string \<Rightarrow> ('s, unit) cli" where
  "request_say env meth path line =
     cbind (userClient env) (\<lambda>cli.
     cbind (client_Do env cli meth path None) (\<lambda>_. cprintln (Raw line)))"

text \<open>The verb \<open>%-ns\<close>.\<close>

definition pad :: "nat \<Rightarrow> string \<Rightarrow> string" where
  "pad n s = s @ replicate (n - length (runes s)) (CHR '' '')"

definition show_bool :: "bool \<Rightarrow> string" where
  "show_bool b = (if b then ''true'' else ''false'')"

text \<open>A list: the envelope \<open>{data: [...]}\<close> as a table, as JSON (\<open>encode\<close>, or the answer itself where there is
  none), or as it came when it does not decode.\<close>

definition print_list ::
  "'s outside \<Rightarrow> string \<Rightarrow> (json \<Rightarrow> 'r option) \<Rightarrow> ('r \<Rightarrow> json) option \<Rightarrow> string \<Rightarrow> ('r \<Rightarrow> string) \<Rightarrow> ('s, unit) cli" where
  "print_list env path row encode header show_row =
     cbind (userClient env) (\<lambda>cli.
     cbind (client_Do env cli ''GET'' path None) (\<lambda>(raw, _).
     case Option.bind (text_object raw) (slice_field row ''data'') of
       None \<Rightarrow> cprintln raw
     | Some rows \<Rightarrow>
         if ce_output env = ''json'' then cprintln (case encode of
             None \<Rightarrow> raw
           | Some enc \<Rightarrow> Json (case rows of None \<Rightarrow> JNull | Some rs \<Rightarrow> JArr (map enc rs)))
         else cprint [Raw (concat (map (\<lambda>l. l @ [CHR 0x0A])
           (header # map show_row (case rows of None \<Rightarrow> [] | Some rs \<Rightarrow> rs))))]))"

section \<open>Setup\<close>

definition validateAuthSetupInputs :: "string \<Rightarrow> string \<Rightarrow> string \<Rightarrow> string + string \<times> string" where
  "validateAuthSetupInputs username password setupToken =
     (let username = trim_space username; setupToken = trim_space setupToken in
      if username = '''' then Inl ''username is required''
      else if 64 < length username then Inl ''username must be at most 64 characters''
      else if length password < 8 \<or> 256 < length password then Inl ''password must be 8 to 256 characters''
      else if length setupToken < 32 \<or> 128 < length setupToken then Inl ''setup token must be 32 to 128 characters''
      else Inr (username, setupToken))"

text \<open>The secret, and whether it was asked for.\<close>

definition readSetupSecret :: "'s outside \<Rightarrow> string \<Rightarrow> string \<Rightarrow> string \<Rightarrow> ('s, string \<times> bool) cli" where
  "readSetupSecret env filePath flagName prompt =
     (if filePath \<noteq> '''' then
        cbind (on_host (os_read_file (''read --'' @ flagName) filePath)) (\<lambda>raw. cret (trim_crlf raw, False))
      else cbind (promptSecret env flagName prompt) (\<lambda>v. cret (v, True)))"

text \<open>The API of a command that may run before there is a profile.\<close>

definition resolve_api :: "'s outside \<Rightarrow> ('s, string) cli" where
  "resolve_api env = (if ce_api env \<noteq> '''' then cret (ce_api env)
     else cbind (ctry (config_Load env '''')) (\<lambda>r. cret (case r of Inl _ \<Rightarrow> '''' | Inr prof \<Rightarrow> pr_api prof)))"

definition runAuthSetup :: "'s outside \<Rightarrow> string \<Rightarrow> string \<Rightarrow> string \<Rightarrow> ('s, unit) cli" where
  "runAuthSetup env username passwordFile setupTokenFile =
     cbind (resolve_api env) (\<lambda>api.
     cbind (ccheck (api \<noteq> '''') ''--api is required for first-admin setup'') (\<lambda>_.
     cbind (promptIfEmpty username ''Username: '') (\<lambda>username.
     cbind (readSetupSecret env passwordFile ''password-file'' ''Password: '') (\<lambda>(password, prompted).
     cbind (if prompted then cbind (promptSecret env ''password-file'' ''Confirm password: '') (\<lambda>confirmation.
              ccheck (password = confirmation) ''passwords do not match'') else cret ()) (\<lambda>_.
     cbind (readSetupSecret env setupTokenFile ''setup-token-file'' ''Setup token: '') (\<lambda>(setupToken, _).
     cbind (clift (validateAuthSetupInputs username password setupToken)) (\<lambda>(name, token).
     cbind (config_Load env '''') (\<lambda>prof.
     let prof = prof\<lparr>pr_api := api\<rparr> in
     cbind (clift (client_New env prof api)) (\<lambda>cli.
     cbind (client_Do env cli ''POST'' ''/api/v1/auth/setup''
       (Some (JObj [(''username'', JStr name), (''password'', JStr password), (''setup_token'', JStr token)]))) (\<lambda>_.
     cbind (config_Save env prof '''') (\<lambda>_.
     cprint [Raw (''Created first admin '' @ name @ '' at '' @ api @ ''. Run 'helling auth login' next.'' @ [CHR 0x0A])])))))))))))"

section \<open>Login\<close>

text \<open>The fields of the answer's \<open>data\<close>.\<close>

definition login_env :: "document \<Rightarrow> (string \<times> bool \<times> string) option" where
  "login_env raw = Option.bind (text_object raw) (\<lambda>fs. Option.bind (object_field ''data'' fs) (\<lambda>d.
     case (str_field ''access_token'' d, bool_field ''mfa_required'' d, str_field ''mfa_token'' d) of
       (Some a, Some r, Some t) \<Rightarrow> Some (a, r, t) | _ \<Rightarrow> None))"

definition mfa_env :: "document \<Rightarrow> string option" where
  "mfa_env raw = Option.bind (text_object raw) (\<lambda>fs. Option.bind (object_field ''data'' fs) (str_field ''access_token''))"

text \<open>The access token, and the client with the cookie it was given.\<close>

definition performLogin :: "'s outside \<Rightarrow> api_client \<Rightarrow> string \<Rightarrow> string \<Rightarrow> ('s, string \<times> api_client) cli" where
  "performLogin env cli username password =
     cbind (client_Do env cli ''POST'' ''/api/v1/auth/login''
       (Some (JObj [(''username'', JStr username), (''password'', JStr password)]))) (\<lambda>(raw, cli).
     cbind (csome ''login: decode'' (login_env raw)) (\<lambda>(access, mfaRequired, mfaToken).
     if \<not> mfaRequired then cret (access, cli)
     else cbind (readLine ''TOTP or recovery code: '') (\<lambda>totp.
       cbind (client_Do env cli ''POST'' ''/api/v1/auth/mfa/complete''
         (Some (JObj [(''mfa_token'', JStr mfaToken), (''totp_code'', JStr totp)]))) (\<lambda>(raw, cli).
       cbind (csome ''mfa: decode'' (mfa_env raw)) (\<lambda>access. cret (access, cli))))))"

definition runAuthLogin :: "'s outside \<Rightarrow> string \<Rightarrow> string \<Rightarrow> ('s, unit) cli" where
  "runAuthLogin env username password =
     cbind (resolve_api env) (\<lambda>api.
     cbind (ccheck (api \<noteq> '''') ''--api is required on first login'') (\<lambda>_.
     cbind (promptIfEmpty username ''Username: '') (\<lambda>username.
     cbind (promptSecretIfEmpty env password ''password'' ''Password: '') (\<lambda>password.
     let name = trim_space username in
     cbind (ccheck (name \<noteq> '''') ''username is required'') (\<lambda>_.
     cbind (ccheck (password \<noteq> '''') ''password is required'') (\<lambda>_.
     cbind (config_Load env '''') (\<lambda>prof.
     let prof = prof\<lparr>pr_api := api\<rparr>; loginProfile = empty_profile\<lparr>pr_api := api\<rparr> in
     cbind (clift (client_New env loginProfile api)) (\<lambda>cli.
     cbind (performLogin env cli name password) (\<lambda>(access, cli).
     cbind (config_Save env (prof\<lparr>pr_access := access, pr_cookie := cc_cookie cli\<rparr>) '''') (\<lambda>_.
     cprint [Raw (''Logged in as '' @ name @ '' at '' @ api @ ''.'' @ [CHR 0x0A])]))))))))))"

definition auth_logout :: "'s outside \<Rightarrow> ('s, unit) cli" where
  "auth_logout env =
     cbind (config_Load env '''') (\<lambda>prof.
     if pr_api prof = '''' then cprintln (Raw ''Already logged out.'')
     else cbind (clift (client_New env prof '''')) (\<lambda>cli.
       cbind (ctry (client_Do env cli ''POST'' ''/api/v1/auth/logout'' None)) (\<lambda>r.
       cbind (case r of Inl _ \<Rightarrow> cwarn ''warn: server logout failed'' | Inr _ \<Rightarrow> cret ()) (\<lambda>_.
       cbind (config_Save env (prof\<lparr>pr_access := '''', pr_cookie := ''''\<rparr>) '''') (\<lambda>_.
       cprintln (Raw ''Logged out.''))))))"

definition decodeJWTClaims :: "'s outside \<Rightarrow> string \<Rightarrow> string + string \<times> string \<times> int" where
  "decodeJWTClaims env tok = (let parts = split_char (CHR ''.'') tok in
     if length parts \<noteq> 3 then Inl ''invalid JWT''
     else case ce_base64 env (parts ! 1) of None \<Rightarrow> Inl ''illegal base64 data''
     | Some payload \<Rightarrow> (case text_object payload of None \<Rightarrow> Inl ''invalid claims''
       | Some fs \<Rightarrow> (case (str_field ''username'' fs, str_field ''role'' fs, int_field ''exp'' fs) of
           (Some u, Some r, Some e) \<Rightarrow> Inr (u, r, e) | _ \<Rightarrow> Inl ''invalid claims'')))"

definition auth_whoami :: "'s outside \<Rightarrow> ('s, unit) cli" where
  "auth_whoami env =
     cbind (config_Load env '''') (\<lambda>prof.
     cbind (ccheck (pr_access prof \<noteq> '''' \<or> pr_token prof \<noteq> '''') ''not logged in (run 'helling auth login')'') (\<lambda>_.
     if pr_token prof \<noteq> '''' then cprintln (Raw ''API token in use.'')
     else cbind (clift (decodeJWTClaims env (pr_access prof))) (\<lambda>(username, role, expUnix).
       cprint [Raw (''user:    '' @ username @ [CHR 0x0A] @ ''role:    '' @ role @ [CHR 0x0A] @
         ''expires: '' @ ce_rfc3339 env expUnix @ [CHR 0x0A] @ ''api:     '' @ pr_api prof @ [CHR 0x0A])])))"

section \<open>Tokens and MFA\<close>

text \<open>A row of strings; the columns are the struct's fields in order.\<close>

definition str_row :: "string list \<Rightarrow> json \<Rightarrow> string list option" where
  "str_row keys j = Option.bind (as_object j) (\<lambda>fs. those (map (\<lambda>k. str_field k fs) keys))"

definition str_json :: "string list \<Rightarrow> string list \<Rightarrow> json" where
  "str_json keys vs = JObj (zip keys (map JStr vs))"

text \<open>Columns of the widths given, the last one as it is.\<close>

fun columns :: "nat list \<Rightarrow> string list \<Rightarrow> string" where
  "columns (n # ns) (v # vs) = pad n v @ (if vs = [] then [] else '' '' @ columns ns vs)"
| "columns [] (v # vs) = v"
| "columns _ [] = []"

definition token_list :: "'s outside \<Rightarrow> ('s, unit) cli" where
  "token_list env = (let keys = [''id'', ''name'', ''scope'', ''prefix''] in
     print_list env ''/api/v1/auth/tokens'' (str_row keys) (Some (str_json keys))
       (columns [24, 20, 8] [''ID'', ''NAME'', ''SCOPE'', ''PREFIX'']) (columns [24, 20, 8]))"

definition token_create_body :: "string \<Rightarrow> string \<Rightarrow> int \<Rightarrow> json" where
  "token_create_body name scope expiresIn = JObj ([(''name'', JStr name), (''scope'', JStr scope)] @
     (if 0 < expiresIn then [(''expires_in_seconds'', JInt expiresIn)] else []))"

definition token_create :: "'s outside \<Rightarrow> string \<Rightarrow> string \<Rightarrow> int \<Rightarrow> ('s, unit) cli" where
  "token_create env name scope expiresIn =
     request_print env ''POST'' ''/api/v1/auth/tokens'' (Some (token_create_body name scope expiresIn))"

definition token_revoke :: "'s outside \<Rightarrow> string \<Rightarrow> ('s, unit) cli" where
  "token_revoke env tid = request_say env ''DELETE'' (''/api/v1/auth/tokens/'' @ tid) (''revoked '' @ tid)"

definition mfa_setup :: "'s outside \<Rightarrow> ('s, unit) cli" where
  "mfa_setup env = request_print env ''POST'' ''/api/v1/auth/totp/setup'' (Some (JObj []))"

definition mfa_verify_body :: "string \<Rightarrow> json" where
  "mfa_verify_body code = JObj [(''totp_code'', JStr code)]"

definition mfa_verify :: "'s outside \<Rightarrow> string \<Rightarrow> ('s, unit) cli" where
  "mfa_verify env code = request_print env ''POST'' ''/api/v1/auth/totp/verify'' (Some (mfa_verify_body code))"

definition mfa_disable :: "'s outside \<Rightarrow> string \<Rightarrow> bool \<Rightarrow> ('s, unit) cli" where
  "mfa_disable env password passwordStdin =
     cbind (if passwordStdin then readLine '''' else promptSecretIfEmpty env password ''password'' ''Password: '') (\<lambda>password.
     request_print env ''POST'' ''/api/v1/auth/totp/disable'' (Some (JObj [(''password'', JStr password)])))"

section \<open>Users\<close>

definition user_row :: "json \<Rightarrow> (string \<times> string \<times> bool \<times> string) option" where
  "user_row j = Option.bind (as_object j) (\<lambda>fs.
     case (str_field ''id'' fs, str_field ''username'' fs, bool_field ''is_admin'' fs, str_field ''status'' fs) of
       (Some i, Some u, Some a, Some s) \<Rightarrow> Some (i, u, a, s) | _ \<Rightarrow> None)"

definition user_list :: "'s outside \<Rightarrow> ('s, unit) cli" where
  "user_list env = print_list env ''/api/v1/users'' user_row
     (Some (\<lambda>(i, u, a, s). JObj [(''id'', JStr i), (''username'', JStr u), (''is_admin'', JBool a), (''status'', JStr s)]))
     (columns [24, 20, 10, 10] [''ID'', ''USERNAME'', ''ROLE'', ''STATUS''])
     (\<lambda>(i, u, a, s). columns [24, 20, 10, 10] [i, u, if a then ''admin'' else ''user'', s])"

text \<open>The client is made before standard input is read.\<close>

definition user_create :: "'s outside \<Rightarrow> string \<Rightarrow> bool \<Rightarrow> string \<Rightarrow> bool \<Rightarrow> ('s, unit) cli" where
  "user_create env username isAdmin password passwordStdin =
     cbind (userClient env) (\<lambda>cli.
     cbind (if passwordStdin then readSecretFromStdin else cret password) (\<lambda>password.
     cbind (client_Do env cli ''POST'' ''/api/v1/users'' (Some (JObj ([(''username'', JStr username), (''is_admin'', JBool isAdmin)] @
       (if password \<noteq> '''' then [(''password'', JStr password)] else []))))) (\<lambda>(raw, _). cprintln raw)))"

definition user_get :: "'s outside \<Rightarrow> string \<Rightarrow> ('s, unit) cli" where
  "user_get env i = request_print env ''GET'' (''/api/v1/users/'' @ i) None"

definition user_delete :: "'s outside \<Rightarrow> string \<Rightarrow> ('s, unit) cli" where
  "user_delete env i = request_say env ''DELETE'' (''/api/v1/users/'' @ i) (''deleted '' @ i)"

definition user_set_scope :: "'s outside \<Rightarrow> string \<Rightarrow> string \<Rightarrow> ('s, unit) cli" where
  "user_set_scope env i scope =
     request_print env ''PUT'' (''/api/v1/users/'' @ i @ ''/scope'') (Some (JObj [(''scope'', JStr scope)]))"

section \<open>Webhooks\<close>

definition webhook_row :: "json \<Rightarrow> (string \<times> string \<times> string \<times> string list option \<times> bool) option" where
  "webhook_row j = Option.bind (as_object j) (\<lambda>fs.
     case (str_field ''id'' fs, str_field ''name'' fs, str_field ''url'' fs,
       slice_field (\<lambda>e. case e of JStr s \<Rightarrow> Some s | JNull \<Rightarrow> Some '''' | _ \<Rightarrow> None) ''events'' fs, bool_field ''enabled'' fs) of
       (Some i, Some n, Some u, Some es, Some e) \<Rightarrow> Some (i, n, u, es, e) | _ \<Rightarrow> None)"

definition webhook_list :: "'s outside \<Rightarrow> ('s, unit) cli" where
  "webhook_list env = print_list env ''/api/v1/webhooks'' webhook_row
     (Some (\<lambda>(i, n, u, es, e). JObj [(''id'', JStr i), (''name'', JStr n), (''url'', JStr u),
       (''events'', case es of None \<Rightarrow> JNull | Some xs \<Rightarrow> JArr (map JStr xs)), (''enabled'', JBool e)]))
     (columns [24, 20, 8] [''ID'', ''NAME'', ''ENABLED'', ''URL''])
     (\<lambda>(i, n, u, es, e). columns [24, 20, 8] [i, n, show_bool e, u])"

definition webhook_create :: "'s outside \<Rightarrow> string \<Rightarrow> string \<Rightarrow> string \<Rightarrow> bool \<Rightarrow> string list option \<Rightarrow> ('s, unit) cli" where
  "webhook_create env name url secret secretStdin events =
     cbind (userClient env) (\<lambda>cli.
     cbind (if secretStdin then readSecretFromStdin else cret secret) (\<lambda>secret.
     cbind (client_Do env cli ''POST'' ''/api/v1/webhooks'' (Some (JObj [(''name'', JStr name), (''url'', JStr url),
       (''secret'', JStr secret), (''events'', case events of None \<Rightarrow> JNull | Some xs \<Rightarrow> JArr (map JStr xs))]))) (\<lambda>(raw, _).
     cprintln raw)))"

definition webhook_get :: "'s outside \<Rightarrow> string \<Rightarrow> ('s, unit) cli" where
  "webhook_get env i = request_print env ''GET'' (''/api/v1/webhooks/'' @ i) None"

text \<open>\<open>enabled\<close> is \<open>None\<close> when the flag was not given.\<close>

definition webhook_update :: "'s outside \<Rightarrow> string \<Rightarrow> string \<Rightarrow> string \<Rightarrow> string list \<Rightarrow> bool option \<Rightarrow> ('s, unit) cli" where
  "webhook_update env i name url events enabled =
     request_print env ''PATCH'' (''/api/v1/webhooks/'' @ i) (Some (JObj (
       (if name \<noteq> '''' then [(''name'', JStr name)] else []) @ (if url \<noteq> '''' then [(''url'', JStr url)] else []) @
       (if events \<noteq> [] then [(''events'', JArr (map JStr events))] else []) @
       (case enabled of None \<Rightarrow> [] | Some b \<Rightarrow> [(''enabled'', JBool b)]))))"

definition webhook_delete :: "'s outside \<Rightarrow> bool \<Rightarrow> string \<Rightarrow> ('s, unit) cli" where
  "webhook_delete env yes i =
     cbind (confirmDestructiveAction yes ''delete webhook'' i) (\<lambda>_.
     request_say env ''DELETE'' (''/api/v1/webhooks/'' @ i) (''deleted '' @ i))"

definition webhook_test :: "'s outside \<Rightarrow> string \<Rightarrow> ('s, unit) cli" where
  "webhook_test env i = request_print env ''POST'' (''/api/v1/webhooks/'' @ i @ ''/test'') (Some (JObj []))"

section \<open>Schedules\<close>

definition schedule_row :: "json \<Rightarrow> (string list \<times> bool) option" where
  "schedule_row j = Option.bind (as_object j) (\<lambda>fs.
     case (str_row [''id'', ''name'', ''kind'', ''target'', ''on_calendar''] j, bool_field ''enabled'' fs) of
       (Some vs, Some e) \<Rightarrow> Some (vs, e) | _ \<Rightarrow> None)"

definition schedule_list :: "'s outside \<Rightarrow> ('s, unit) cli" where
  "schedule_list env = print_list env ''/api/v1/schedules'' schedule_row None
     (columns [36, 20, 10, 20, 20, 8] [''ID'', ''NAME'', ''KIND'', ''TARGET'', ''ON_CALENDAR'', ''ENABLED''])
     (\<lambda>(vs, e). columns [36, 20, 10, 20, 20, 8] (vs @ [show_bool e]))"

definition schedule_create :: "'s outside \<Rightarrow> string \<Rightarrow> string \<Rightarrow> string \<Rightarrow> string \<Rightarrow> ('s, unit) cli" where
  "schedule_create env name kind instance_name onCalendar =
     request_print env ''POST'' ''/api/v1/schedules'' (Some (JObj [(''name'', JStr name), (''kind'', JStr kind),
       (''target'', JStr instance_name), (''on_calendar'', JStr onCalendar)]))"

definition schedule_get :: "'s outside \<Rightarrow> string \<Rightarrow> ('s, unit) cli" where
  "schedule_get env i = request_print env ''GET'' (''/api/v1/schedules/'' @ i) None"

definition schedule_update :: "'s outside \<Rightarrow> string \<Rightarrow> string \<Rightarrow> string \<Rightarrow> bool option \<Rightarrow> ('s, unit) cli" where
  "schedule_update env i name onCalendar enabled =
     cbind (userClient env) (\<lambda>cli.
     let body = (if name \<noteq> '''' then [(''name'', JStr name)] else []) @
           (if onCalendar \<noteq> '''' then [(''on_calendar'', JStr onCalendar)] else []) @
           (case enabled of None \<Rightarrow> [] | Some b \<Rightarrow> [(''enabled'', JBool b)]) in
     cbind (ccheck (body \<noteq> []) ''at least one of --name, --on-calendar, or --enabled is required'') (\<lambda>_.
     cbind (client_Do env cli ''PATCH'' (''/api/v1/schedules/'' @ i) (Some (JObj body))) (\<lambda>(raw, _). cprintln raw)))"

definition defaultScheduleRunnerTokenPath :: string where
  "defaultScheduleRunnerTokenPath = ''/etc/helling/schedule-runner.token''"

definition runScheduleAsSystem :: "'s outside \<Rightarrow> string \<Rightarrow> ('s, unit) cli" where
  "runScheduleAsSystem env i =
     (let tokenPath = ce_getenv env ''HELLING_SCHEDULE_TOKEN_FILE'';
          tokenPath = (if tokenPath = '''' then defaultScheduleRunnerTokenPath else tokenPath) in
      cbind (on_host (os_read_file ''read schedule runner token'' tokenPath)) (\<lambda>body.
      let api = ce_getenv env ''HELLING_API''; api = (if api = '''' then ''http+unix:///run/helling/api.sock'' else api) in
      cbind (clift (client_New env (empty_profile\<lparr>pr_api := api\<rparr>) '''')) (\<lambda>cli.
      cbind (DoWithHeaders env cli ''POST'' (''/api/v1/internal/schedules/'' @ i @ ''/run'') (Some (JObj []))
        [(''X-Helling-Schedule-Token'', trim_space body)]) (\<lambda>(raw, _). cprintln raw))))"

definition schedule_run :: "'s outside \<Rightarrow> bool \<Rightarrow> string \<Rightarrow> ('s, unit) cli" where
  "schedule_run env asSystem i = (if asSystem then runScheduleAsSystem env i
     else request_print env ''POST'' (''/api/v1/schedules/'' @ i @ ''/run'') (Some (JObj [])))"

definition schedule_delete :: "'s outside \<Rightarrow> bool \<Rightarrow> string \<Rightarrow> ('s, unit) cli" where
  "schedule_delete env yes i =
     cbind (confirmDestructiveAction yes ''delete schedule'' i) (\<lambda>_.
     request_say env ''DELETE'' (''/api/v1/schedules/'' @ i) (''deleted '' @ i))"

section \<open>The host firewall\<close>

definition firewall_row :: "json \<Rightarrow> (string list \<times> int \<times> string) option" where
  "firewall_row j = Option.bind (as_object j) (\<lambda>fs.
     case (str_row [''id'', ''direction'', ''action'', ''protocol'', ''source_cidr''] j, int_field ''destination_port'' fs,
       str_field ''nft_comment'' fs) of
       (Some vs, Some p, Some c) \<Rightarrow> Some (vs, p, c) | _ \<Rightarrow> None)"

definition firewall_list :: "'s outside \<Rightarrow> ('s, unit) cli" where
  "firewall_list env = print_list env ''/api/v1/firewall/host'' firewall_row None
     (columns [36, 8, 8, 8, 18, 6] [''ID'', ''DIR'', ''ACTION'', ''PROTO'', ''SOURCE'', ''DPORT'', ''NFT''])
     (\<lambda>(vs, p, c). columns [36, 8, 8, 8, 18, 6] (vs @ [format_int p, c]))"

definition firewall_add_body ::
  "string \<Rightarrow> string \<Rightarrow> string \<Rightarrow> string \<Rightarrow> string \<Rightarrow> int \<Rightarrow> string \<Rightarrow> json" where
  "firewall_add_body direction action protocol sourceCIDR destCIDR destPort comment =
     JObj ([(''direction'', JStr direction), (''action'', JStr action), (''protocol'', JStr protocol)] @
       (if sourceCIDR \<noteq> '''' then [(''source_cidr'', JStr sourceCIDR)] else []) @
       (if destCIDR \<noteq> '''' then [(''destination_cidr'', JStr destCIDR)] else []) @
       (if 0 < destPort then [(''destination_port'', JInt destPort)] else []) @
       (if comment \<noteq> '''' then [(''comment'', JStr comment)] else []))"

definition firewall_add ::
  "'s outside \<Rightarrow> string \<Rightarrow> string \<Rightarrow> string \<Rightarrow> string \<Rightarrow> string \<Rightarrow> int \<Rightarrow> string \<Rightarrow> ('s, unit) cli" where
  "firewall_add env direction action protocol sourceCIDR destCIDR destPort comment =
     request_print env ''POST'' ''/api/v1/firewall/host''
       (Some (firewall_add_body direction action protocol sourceCIDR destCIDR destPort comment))"

definition firewall_delete :: "'s outside \<Rightarrow> bool \<Rightarrow> string \<Rightarrow> ('s, unit) cli" where
  "firewall_delete env yes i =
     cbind (confirmDestructiveAction yes ''delete host firewall rule'' i) (\<lambda>_.
     request_say env ''DELETE'' (''/api/v1/firewall/host/'' @ i) (''deleted '' @ i))"

section \<open>System, audit\<close>

definition systemGet :: "'s outside \<Rightarrow> string \<Rightarrow> ('s, unit) cli" where
  "systemGet env path = request_print env ''GET'' path None"

definition system_info :: "'s outside \<Rightarrow> ('s, unit) cli" where
  "system_info env = systemGet env ''/api/v1/system/info''"

definition system_hardware :: "'s outside \<Rightarrow> ('s, unit) cli" where
  "system_hardware env = systemGet env ''/api/v1/system/hardware''"

definition system_diagnostics :: "'s outside \<Rightarrow> ('s, unit) cli" where
  "system_diagnostics env = systemGet env ''/api/v1/system/diagnostics''"

definition system_config_get :: "'s outside \<Rightarrow> string \<Rightarrow> ('s, unit) cli" where
  "system_config_get env key = systemGet env (''/api/v1/system/config/'' @ key)"

definition system_config_set :: "'s outside \<Rightarrow> string \<Rightarrow> string \<Rightarrow> ('s, unit) cli" where
  "system_config_set env key v =
     request_print env ''PUT'' (''/api/v1/system/config/'' @ key) (Some (JObj [(''value'', JStr v)]))"

definition system_health :: "'s outside \<Rightarrow> ('s, unit) cli" where
  "system_health env = systemGet env ''/api/v1/health''"

definition system_upgrade :: "'s outside \<Rightarrow> bool \<Rightarrow> ('s, unit) cli" where
  "system_upgrade env rollback =
     request_print env ''POST'' ''/api/v1/system/upgrade'' (Some (JObj [(''rollback'', JBool rollback)]))"

text \<open>\<open>url.QueryEscape\<close> and \<open>Values.Encode\<close>, the keys given in their order.\<close>

definition query_escape_byte :: "char \<Rightarrow> string" where
  "query_escape_byte c =
     (if in_range 97 122 c \<or> in_range 65 90 c \<or> in_range 48 57 c \<or> c \<in> set ''-_.~'' then [c]
      else if c = CHR '' '' then ''+''
      else [CHR ''%'', upper_hex (byte c div 16), upper_hex (byte c mod 16)])"

definition query_escape :: "string \<Rightarrow> string" where
  "query_escape s = concat (map query_escape_byte s)"

fun query_encode :: "(string \<times> string) list \<Rightarrow> string" where
  "query_encode [] = []"
| "query_encode ((k, v) # q) = query_escape k @ ''='' @ query_escape v @ (if q = [] then [] else ''&'' @ query_encode q)"

definition with_query :: "string \<Rightarrow> (string \<times> string) list \<Rightarrow> string" where
  "with_query path q = path @ (if q = [] then [] else ''?'' @ query_encode q)"

definition query_param :: "string \<Rightarrow> string \<Rightarrow> (string \<times> string) list" where
  "query_param k v = (if v = '''' then [] else [(k, v)])"

definition audit_query :: "'s outside \<Rightarrow> string \<Rightarrow> string \<Rightarrow> string \<Rightarrow> int \<Rightarrow> ('s, unit) cli" where
  "audit_query env actor action cursor limit =
     request_print env ''GET'' (with_query ''/api/v1/audit'' (query_param ''action'' action @ query_param ''actor'' actor @
       query_param ''cursor'' cursor @ (if 0 < limit then [(''limit'', format_int limit)] else []))) None"

definition audit_export :: "'s outside \<Rightarrow> string \<Rightarrow> ('s, unit) cli" where
  "audit_export env format = request_print env ''GET'' (''/api/v1/audit/export?format='' @ query_escape format) None"

section \<open>Events\<close>

text \<open>\<open>limit\<close> is \<open>None\<close> when the flag was not given.\<close>

definition events_list :: "'s outside \<Rightarrow> int option \<Rightarrow> string option \<Rightarrow> ('s, unit) cli" where
  "events_list env limit count =
     cbind (userClient env) (\<lambda>cli.
     cbind (case (count, limit) of
         (Some c, None) \<Rightarrow> csome ''parse count'' (parse_int64 c)
       | _ \<Rightarrow> cret (case limit of None \<Rightarrow> 0 | Some n \<Rightarrow> n)) (\<lambda>limit.
     cbind (client_Do env cli ''GET''
       (with_query ''/api/v1/events'' (if 0 < limit then [(''limit'', format_int limit)] else [])) None) (\<lambda>(raw, _). cprintln raw)))"

text \<open>The lines of \<open>bufio.Scanner\<close>: a carriage return at the end is dropped; \<open>False\<close> when a line does not fit
  its buffer of 64 KiB.\<close>

definition drop_cr :: "string \<Rightarrow> string" where
  "drop_cr l = (if l \<noteq> [] \<and> last l = CHR 0x0D then butlast l else l)"

definition raw_lines :: "string \<Rightarrow> string list" where
  "raw_lines s = (let ls = split_char (CHR 0x0A) s in if last ls = [] then butlast ls else ls)"

definition scan_lines :: "string \<Rightarrow> string list \<times> bool" where
  "scan_lines s = (let ls = raw_lines s; fits = (\<lambda>l. length l < 65536)
     in (map drop_cr (takeWhile fits ls), list_all fits ls))"

definition sse_output :: "string \<Rightarrow> string option" where
  "sse_output line = (case cut_prefix line ''data: '' of
     Some d \<Rightarrow> Some d
   | None \<Rightarrow> if has_prefix line ''event: '' \<or> has_prefix line ''id: '' \<or> has_prefix line '':'' \<or> line = '''' then None
             else Some line)"

text \<open>The lines written, and whether the stream was read to its end.\<close>

definition copySSEData :: "string \<Rightarrow> string list \<times> bool" where
  "copySSEData s = (case scan_lines s of (ls, ok) \<Rightarrow> (List.map_filter sse_output ls, ok))"

definition events_tail :: "'s outside \<Rightarrow> ('s, unit) cli" where
  "events_tail env =
     cbind (userClient env) (\<lambda>cli.
     cbind (client_Stream env cli ''/api/v1/events'' ''text/event-stream'') (\<lambda>(body, _).
     case body of
       Raw s \<Rightarrow> (case copySSEData s of (ls, ok) \<Rightarrow>
         cbind (cprint [Raw (concat (map (\<lambda>l. l @ [CHR 0x0A]) ls))]) (\<lambda>_.
         ccheck ok ''bufio.Scanner: token too long''))
     | Json j \<Rightarrow> cprintln (Json j)))"

section \<open>Instances\<close>

text \<open>Incus answers with an envelope or a bare list.\<close>

definition instance_rows :: "document \<Rightarrow> string list list option" where
  "instance_rows raw = (let row = str_row [''name'', ''status'', ''type''] in
     case Option.bind (text_object raw) (slice_field row ''metadata'') of
       Some (Some rows) \<Rightarrow> Some rows
     | _ \<Rightarrow> (case as_json raw of
         Some (JArr xs) \<Rightarrow> those (map row xs)
       | Some JNull \<Rightarrow> Some []
       | _ \<Rightarrow> None))"

definition compute_list :: "'s outside \<Rightarrow> ('s, unit) cli" where
  "compute_list env =
     cbind (userClient env) (\<lambda>cli.
     cbind (client_Do env cli ''GET'' ''/api/incus/1.0/instances?recursion=1'' None) (\<lambda>(raw, _).
     case instance_rows raw of
       None \<Rightarrow> cprintln raw
     | Some rows \<Rightarrow>
         if rows = [] then cprintln (Raw ''No instances found.'')
         else if ce_output env = ''json'' then
           cprintln (Json (JArr (map (str_json [''name'', ''status'', ''type'']) rows)))
         else cprint [Raw (concat (map (\<lambda>l. columns [30, 12, 10] l @ [CHR 0x0A])
           ([''NAME'', ''TYPE'', ''STATUS''] # map (\<lambda>v. [v ! 0, v ! 2, v ! 1]) rows)))]))"

section \<open>The command tree\<close>

datatype command =
    AuthSetup string string string | AuthLogin string string | AuthLogout | AuthWhoami
  | TokenList | TokenCreate string string int | TokenRevoke string
  | MfaSetup | MfaVerify string | MfaDisable string bool
  | ComputeList
  | UserList | UserCreate string bool string bool | UserGet string | UserDelete string | UserSetScope string string
  | ScheduleList | ScheduleCreate string string string string | ScheduleGet string
  | ScheduleUpdate string string string "bool option" | ScheduleRun bool string | ScheduleDelete bool string
  | WebhookList | WebhookCreate string string string bool "string list option" | WebhookGet string
  | WebhookUpdate string string string "string list" "bool option" | WebhookDelete bool string | WebhookTest string
  | FirewallList | FirewallAdd string string string string string int string | FirewallDelete bool string
  | SystemInfo | SystemHardware | SystemDiagnostics | SystemConfigGet string | SystemConfigSet string string
  | SystemUpgrade bool | SystemHealth
  | AuditQuery string string string int | AuditExport string
  | EventsTail | EventsList "int option" "string option"

primrec run_command :: "'s outside \<Rightarrow> command \<Rightarrow> ('s, unit) cli" where
  "run_command env (AuthSetup u pf tf) = runAuthSetup env u pf tf"
| "run_command env (AuthLogin u p) = runAuthLogin env u p"
| "run_command env AuthLogout = auth_logout env"
| "run_command env AuthWhoami = auth_whoami env"
| "run_command env TokenList = token_list env"
| "run_command env (TokenCreate n s e) = token_create env n s e"
| "run_command env (TokenRevoke i) = token_revoke env i"
| "run_command env MfaSetup = mfa_setup env"
| "run_command env (MfaVerify c) = mfa_verify env c"
| "run_command env (MfaDisable p b) = mfa_disable env p b"
| "run_command env ComputeList = compute_list env"
| "run_command env UserList = user_list env"
| "run_command env (UserCreate u a p b) = user_create env u a p b"
| "run_command env (UserGet i) = user_get env i"
| "run_command env (UserDelete i) = user_delete env i"
| "run_command env (UserSetScope i s) = user_set_scope env i s"
| "run_command env ScheduleList = schedule_list env"
| "run_command env (ScheduleCreate n k t c) = schedule_create env n k t c"
| "run_command env (ScheduleGet i) = schedule_get env i"
| "run_command env (ScheduleUpdate i n c e) = schedule_update env i n c e"
| "run_command env (ScheduleRun b i) = schedule_run env b i"
| "run_command env (ScheduleDelete y i) = schedule_delete env y i"
| "run_command env WebhookList = webhook_list env"
| "run_command env (WebhookCreate n u s b es) = webhook_create env n u s b es"
| "run_command env (WebhookGet i) = webhook_get env i"
| "run_command env (WebhookUpdate i n u es e) = webhook_update env i n u es e"
| "run_command env (WebhookDelete y i) = webhook_delete env y i"
| "run_command env (WebhookTest i) = webhook_test env i"
| "run_command env FirewallList = firewall_list env"
| "run_command env (FirewallAdd d a p s t n c) = firewall_add env d a p s t n c"
| "run_command env (FirewallDelete y i) = firewall_delete env y i"
| "run_command env SystemInfo = system_info env"
| "run_command env SystemHardware = system_hardware env"
| "run_command env SystemDiagnostics = system_diagnostics env"
| "run_command env (SystemConfigGet k) = system_config_get env k"
| "run_command env (SystemConfigSet k v) = system_config_set env k v"
| "run_command env (SystemUpgrade b) = system_upgrade env b"
| "run_command env SystemHealth = system_health env"
| "run_command env (AuditQuery ac an cu l) = audit_query env ac an cu l"
| "run_command env (AuditExport f) = audit_export env f"
| "run_command env EventsTail = events_tail env"
| "run_command env (EventsList l c) = events_list env l c"

end
