(* ===== verification/Cli_Props.thy ===== *)
theory Cli_Props
  imports Cli_Commands Server_Routes
begin

text \<open>
  What the command-line client sends and stores: which of \<open>hellingd\<close>'s routes its commands reach, which credentials a
  login carries, what a logout leaves.
\<close>

section \<open>What a command sends\<close>

text \<open>
  A command sends only requests with \<open>P\<close> when every predicate on the state of the network that such requests
  keep is kept by the command; \<open>I\<close> may say, for instance, that all requests in a log have \<open>P\<close>.
\<close>

definition sends :: "(api_request \<Rightarrow> bool) \<Rightarrow> 's outside \<Rightarrow> ('s, 'a) cli \<Rightarrow> bool" where
  "sends P env m \<longleftrightarrow> (\<forall>I w. (\<forall>rq s. P rq \<longrightarrow> I s \<longrightarrow> I (snd (ce_send env rq s))) \<longrightarrow> I (wo_net w) \<longrightarrow> I (wo_net (snd (m w))))"

named_theorems sends_intros

lemma sendsI [intro?]: "(\<And>I w. (\<And>rq s. P rq \<Longrightarrow> I s \<Longrightarrow> I (snd (ce_send env rq s))) \<Longrightarrow> I (wo_net w) \<Longrightarrow> I (wo_net (snd (m w)))) \<Longrightarrow> sends P env m"
  by (auto simp: sends_def)

lemma sendsD: "sends P env m \<Longrightarrow> (\<And>rq s. P rq \<Longrightarrow> I s \<Longrightarrow> I (snd (ce_send env rq s))) \<Longrightarrow> I (wo_net w) \<Longrightarrow> I (wo_net (snd (m w)))"
  unfolding sends_def by blast

text \<open>What leaves the network alone sends nothing.\<close>

definition silent :: "('s, 'a) cli \<Rightarrow> bool" where
  "silent m \<longleftrightarrow> (\<forall>w. wo_net (snd (m w)) = wo_net w)"

lemma sends_silent: "silent m \<Longrightarrow> sends P env m"
  by (simp add: sends_def silent_def)

lemma silent_simps [simp]:
  "silent (cret x)" "silent (cfail m)" "silent (ccheck b m)" "silent (clift r)" "silent (csome m y)" "silent (on_host io)"
  "silent (cprint ts)" "silent (cprintln t)" "silent (cwarn m)" "silent (readLine p)" "silent readSecretFromStdin"
  by (auto simp: silent_def cret_def cfail_def ccheck_def clift_def csome_def on_host_def cprint_def cprintln_def cwarn_def
      readLine_def readSecretFromStdin_def cbind_def split: sum.splits option.splits prod.splits)

lemma silent_bind: "silent m \<Longrightarrow> (\<And>x. silent (k x)) \<Longrightarrow> silent (cbind m k)"
  unfolding silent_def cbind_def by (auto split: sum.split prod.split) (metis snd_conv)+

lemma silent_config [simp]: "silent (config_Load env p)" "silent (config_Save env prof p)"
  by (auto simp: config_Load_def config_Save_def config_path_of_def intro!: silent_bind split: option.split)

lemma silent_prompt [simp]:
  "silent (promptSecret env f p)" "silent (promptSecretIfEmpty env g f p)" "silent (promptIfEmpty g p)"
  "silent (readSetupSecret env pf f p)" "silent (confirmDestructiveAction yes a i)"
  by (auto simp: promptSecret_def promptSecretIfEmpty_def promptIfEmpty_def readSetupSecret_def confirmDestructiveAction_def
      Let_def intro!: silent_bind)
    (auto simp: silent_def split: prod.splits sum.splits)

lemma silent_try: "silent m \<Longrightarrow> silent (ctry m)"
  by (simp add: silent_def ctry_def split: prod.split) (metis snd_conv)

lemma silent_resolve [simp]: "silent (resolve_api env)"
  by (auto simp: resolve_api_def intro!: silent_bind silent_try)

lemma sends_bind [sends_intros]: "sends P env m \<Longrightarrow> (\<And>x. sends P env (k x)) \<Longrightarrow> sends P env (cbind m k)"
proof
  fix I :: "'a \<Rightarrow> bool" and w :: "'a world"
  assume "sends P env m" "\<And>x. sends P env (k x)" "\<And>rq s. P rq \<Longrightarrow> I s \<Longrightarrow> I (snd (ce_send env rq s))" "I (wo_net w)"
  then show "I (wo_net (snd (cbind m k w)))"
    using sendsD [of P env m I w] sendsD [of P env "k _" I]
    by (auto simp: cbind_def split: prod.splits sum.splits)
qed

lemma sends_then: "silent m \<Longrightarrow> (\<And>x. sends P env (k x)) \<Longrightarrow> sends P env (cbind m k)"
  by (rule sends_bind [OF sends_silent])

lemma ctry_net [simp]: "wo_net (snd (ctry m w)) = wo_net (snd (m w))"
  by (simp add: ctry_def split: prod.split)

lemma sends_try: "sends P env m \<Longrightarrow> sends P env (ctry m)"
  by (simp add: sends_def)

lemma sends_lift: "(\<And>x. r = Inr x \<Longrightarrow> sends P env (k x)) \<Longrightarrow> sends P env (cbind (clift r) k)"
  by (cases r) (auto simp: sends_def cbind_def clift_def cfail_def cret_def)

lemma exchange_net: "wo_net (snd (exchange env c rq w)) \<in> {wo_net w, snd (ce_send env rq (wo_net w))}"
  by (simp add: exchange_def split: prod.split option.split)

lemma sends_exchange: "P rq \<Longrightarrow> sends P env (exchange env c rq)"
  unfolding sends_def using exchange_net [of env c rq] by (metis insertE singletonD)

text \<open>After an exchange the client is the same but for its cookie.\<close>

lemma exchange_Inr:
  "exchange env c rq w = (Inr (raw, c'), w') \<Longrightarrow> \<exists>resp s. ce_send env rq (wo_net w) = (Some resp, s) \<and>
     200 \<le> hs_status resp \<and> hs_status resp < 300 \<and> raw = hs_body resp \<and> c' = captureSessionCookie resp c \<and> w' = w\<lparr>wo_net := s\<rparr>"
  by (auto simp: exchange_def split: if_splits option.splits prod.splits)

lemma capture_simps [simp]:
  "cc_api (captureSessionCookie r c) = cc_api c" "cc_bearer (captureSessionCookie r c) = cc_bearer c"
  "cc_socket (captureSessionCookie r c) = cc_socket c"
  by (auto simp: captureSessionCookie_def split: option.splits)

lemma sends_base [simp]:
  "sends P env (cret x)" "sends P env (cfail m)" "sends P env (ccheck b m)" "sends P env (clift r)" "sends P env (csome m opt)"
  "sends P env (on_host act)" "sends P env (cprint ts)" "sends P env (cprintln t)" "sends P env (cwarn m)"
  "sends P env (readLine p)" "sends P env readSecretFromStdin" "sends P env (config_Load env' f)"
  "sends P env (config_Save env' prof f)" "sends P env (promptSecret env' f p)" "sends P env (promptSecretIfEmpty env' g f p)"
  "sends P env (promptIfEmpty g p)" "sends P env (readSetupSecret env' pf f p)" "sends P env (confirmDestructiveAction yes a i)"
  "sends P env (resolve_api env')"
  by (intro sends_silent silent_simps silent_config silent_prompt silent_resolve)+

lemma sends_cases:
  "(\<And>a b. x = (a, b) \<Longrightarrow> sends P env (f a b)) \<Longrightarrow> sends P env (case x of (a, b) \<Rightarrow> f a b)"
  "(c \<Longrightarrow> sends P env m) \<Longrightarrow> (\<not> c \<Longrightarrow> sends P env m') \<Longrightarrow> sends P env (if c then m else m')"
  "(y = None \<Longrightarrow> sends P env m) \<Longrightarrow> (\<And>v. y = Some v \<Longrightarrow> sends P env (g v)) \<Longrightarrow> sends P env (case y of None \<Rightarrow> m | Some v \<Rightarrow> g v)"
  "(\<And>u. z = Inl u \<Longrightarrow> sends P env (h u)) \<Longrightarrow> (\<And>v. z = Inr v \<Longrightarrow> sends P env (k v)) \<Longrightarrow> sends P env (case z of Inl u \<Rightarrow> h u | Inr v \<Rightarrow> k v)"
  "(\<And>j. d = Json j \<Longrightarrow> sends P env (p j)) \<Longrightarrow> (\<And>t. d = Raw t \<Longrightarrow> sends P env (q t)) \<Longrightarrow> sends P env (case d of Json j \<Rightarrow> p j | Raw t \<Rightarrow> q t)"
  by (simp_all split: prod.split option.split sum.split document.split)

lemma sends_exchange_then:
  assumes "P rq" "\<And>raw c'. cc_api c' = cc_api c \<Longrightarrow> cc_bearer c' = cc_bearer c \<Longrightarrow> sends P env (k (raw, c'))"
  shows "sends P env (cbind (exchange env c rq) k)"
proof
  fix I :: "'a \<Rightarrow> bool" and w :: "'a world"
  assume I: "\<And>rq s. P rq \<Longrightarrow> I s \<Longrightarrow> I (snd (ce_send env rq s))" "I (wo_net w)"
  obtain r w1 where e: "exchange env c rq w = (r, w1)" by fastforce
  have w1: "I (wo_net w1)" using sendsD [OF sends_exchange [where P = P and rq = rq, OF assms(1), of env c] I(1) I(2)] e by simp
  show "I (wo_net (snd (cbind (exchange env c rq) k w)))"
  proof (cases r)
    case (Inl m)
    then show ?thesis using e w1 by (simp add: cbind_def)
  next
    case (Inr x)
    then obtain raw c' where x: "x = (raw, c')" by (cases x)
    have "sends P env (k (raw, c'))" using exchange_Inr [OF e [unfolded Inr x]] by (intro assms(2)) auto
    from sendsD [OF this I(1) w1] show ?thesis using e Inr x by (simp add: cbind_def)
  qed
qed

section \<open>Which routes the commands reach\<close>

text \<open>A request path matches a pattern segment by segment; the query is not looked at.\<close>

definition path_segments :: "string \<Rightarrow> string list" where
  "path_segments p = split_char (CHR ''/'') p"

definition segment_match :: "string \<Rightarrow> string \<Rightarrow> bool" where
  "segment_match q s = (if has_prefix q ''{'' then s \<noteq> '''' else q = s)"

definition route_match :: "string list \<Rightarrow> string list \<Rightarrow> bool" where
  "route_match pat p = list_all2 segment_match pat p"

definition routed :: "string \<Rightarrow> string \<Rightarrow> bool" where
  "routed meth target_path =
     (let p = takeWhile (\<lambda>c. c \<noteq> CHR ''?'') target_path in
      has_prefix p ''/api/incus/'' \<or> (case cut_prefix p ''/api/v1'' of None \<Rightarrow> False
      | Some rest \<Rightarrow> list_ex (\<lambda>(m, pat, h, g). m = meth \<and> route_match (path_segments pat) (path_segments rest)) registerV1Routes))"

text \<open>Arguments that become part of a path do so as they are.\<close>

definition plain :: "string \<Rightarrow> bool" where
  "plain s \<longleftrightarrow> s \<noteq> '''' \<and> CHR ''/'' \<notin> set s \<and> CHR ''?'' \<notin> set s"

fun path_arguments :: "command \<Rightarrow> string list" where
  "path_arguments (TokenRevoke i) = [i]"
| "path_arguments (UserGet i) = [i]"
| "path_arguments (UserDelete i) = [i]"
| "path_arguments (UserSetScope i s) = [i]"
| "path_arguments (ScheduleGet i) = [i]"
| "path_arguments (ScheduleUpdate i n c e) = [i]"
| "path_arguments (ScheduleRun b i) = [i]"
| "path_arguments (ScheduleDelete y i) = [i]"
| "path_arguments (WebhookGet i) = [i]"
| "path_arguments (WebhookUpdate i n u es e) = [i]"
| "path_arguments (WebhookDelete y i) = [i]"
| "path_arguments (WebhookTest i) = [i]"
| "path_arguments (FirewallDelete y i) = [i]"
| "path_arguments (SystemConfigGet k) = [k]"
| "path_arguments (SystemConfigSet k v) = [k]"
| "path_arguments _ = []"

fun unrouted_command :: "command \<Rightarrow> bool" where
  "unrouted_command (MfaDisable p b) = True"
| "unrouted_command (SystemConfigGet k) = True"
| "unrouted_command (SystemConfigSet k v) = True"
| "unrouted_command SystemHealth = True"
| "unrouted_command _ = False"

text \<open>\<open>HELLING_API\<close> names the daemon, and \<open>--api\<close>, where it is given, the same one: then every client of a command
  has one base URL, and the path of a request is what follows it.\<close>

definition endpoint :: "'s outside \<Rightarrow> string" where
  "endpoint env = ce_getenv env ''HELLING_API''"

definition settled :: "'s outside \<Rightarrow> bool" where
  "settled env \<longleftrightarrow> endpoint env \<noteq> '''' \<and> ce_api env \<in> {'''', endpoint env}"

definition base_url :: "'s outside \<Rightarrow> string" where
  "base_url env = (case cut_prefix (endpoint env) ''http+unix://'' of
     Some _ \<Rightarrow> ''http://helling'' | None \<Rightarrow> trim_right_char (CHR ''/'') (endpoint env))"

definition made :: "'s outside \<Rightarrow> api_client \<Rightarrow> bool" where
  "made env c \<longleftrightarrow> cc_api c = base_url env"

lemma made_same: "made env c \<Longrightarrow> cc_api c' = cc_api c \<Longrightarrow> made env c'"
  by (simp add: made_def)

lemma made_client:
  assumes "client_New env prof base = Inr c" "(if base = '''' then pr_api prof else base) \<in> {'''', endpoint env}"
  shows "made env c"
  using assms by (auto simp: client_New_def made_def base_url_def Let_def split: option.splits if_splits)

lemma made_given: "client_New env (prof\<lparr>pr_api := api\<rparr>) api = Inr c \<Longrightarrow> api \<in> {'''', endpoint env} \<Longrightarrow> made env c"
  using made_client [of env "prof\<lparr>pr_api := api\<rparr>" api c] by (cases "api = ''''") auto

lemma made_loaded: "client_New env prof '''' = Inr c \<Longrightarrow> pr_api prof = endpoint env \<Longrightarrow> made env c"
  using made_client [of env prof "''''" c] by simp

definition reaches :: "'s outside \<Rightarrow> bool \<Rightarrow> api_request \<Rightarrow> bool" where
  "reaches env b rq \<longleftrightarrow> (\<exists>path. hr_url rq = base_url env @ path \<and> routed (hr_method rq) path = b)"

text \<open>A request does one of the two, not both.\<close>

lemma reaches_one: "reaches env True rq \<Longrightarrow> \<not> reaches env False rq"
  by (auto simp: reaches_def)

lemma load_endpoint: "config_Load env p w = (Inr prof, w') \<Longrightarrow> settled env \<Longrightarrow> pr_api prof = endpoint env"
  by (auto simp: config_Load_def config_path_of_def cbind_def cret_def csome_def cfail_def profile_applyEnv_def settled_def
      endpoint_def Let_def split: option.splits prod.splits sum.splits if_splits)

lemma sends_result:
  assumes "silent m" "\<And>x w w'. m w = (Inr x, w') \<Longrightarrow> sends P env (k x)"
  shows "sends P env (cbind m k)"
proof
  fix I :: "'a \<Rightarrow> bool" and w :: "'a world"
  assume I: "\<And>rq s. P rq \<Longrightarrow> I s \<Longrightarrow> I (snd (ce_send env rq s))" "I (wo_net w)"
  obtain r w1 where m: "m w = (r, w1)" by fastforce
  then have w1: "I (wo_net w1)" using assms(1) I(2) unfolding silent_def by (metis snd_conv)
  show "I (wo_net (snd (cbind m k w)))"
  proof (cases r)
    case (Inl e)
    then show ?thesis using m w1 by (simp add: cbind_def)
  next
    case (Inr x)
    then show ?thesis using sendsD [OF assms(2) [OF m [unfolded Inr]] I(1) w1] m by (simp add: cbind_def)
  qed
qed

lemma sends_load:
  assumes "settled env" "\<And>prof. pr_api prof = endpoint env \<Longrightarrow> sends P env (k prof)"
  shows "sends P env (cbind (config_Load env p) k)"
  by (rule sends_result [OF silent_config(1)]) (rule assms(2) [OF load_endpoint [OF _ assms(1)]])

lemma resolve_endpoint: "resolve_api env w = (Inr api, w') \<Longrightarrow> settled env \<Longrightarrow> api \<in> {'''', endpoint env}"
  by (cases "config_Load env '''' w"; cases "fst (config_Load env '''' w)")
    (auto simp: resolve_api_def cbind_def ctry_def cret_def dest!: load_endpoint split: if_splits prod.splits sum.splits,
     auto simp: settled_def)

lemma sends_resolve:
  assumes "settled env" "\<And>api. api \<in> {'''', endpoint env} \<Longrightarrow> sends P env (k api)"
  shows "sends P env (cbind (resolve_api env) k)"
  by (rule sends_result [OF silent_resolve]) (rule assms(2) [OF resolve_endpoint [OF _ assms(1)]])

lemma reaches_request: "made env c \<Longrightarrow> routed meth path = b \<Longrightarrow> reaches env b (client_request c meth path body hs)"
  by (auto simp: reaches_def made_def client_request_def Let_def)

lemma sends_userClient:
  assumes "settled env" "\<And>c. made env c \<Longrightarrow> sends P env (k c)"
  shows "sends P env (cbind (userClient env) k)"
proof -
  have assoc: "cbind (cbind m f) g = cbind m (\<lambda>x. cbind (f x) g)" for m :: "('x, 'y) cli" and f :: "'y \<Rightarrow> ('x, 'z) cli" and g :: "'z \<Rightarrow> ('x, 'u) cli"
    by (auto simp: cbind_def fun_eq_iff split: prod.split sum.split)
  show ?thesis unfolding userClient_def assoc
  proof (intro sends_load [OF assms(1)] sends_then [OF silent_simps(3)] sends_lift assms(2))
    fix prof :: profile and u c
    assume "pr_api prof = endpoint env" "client_New env prof '''' = Inr c"
    then show "made env c" by (intro made_loaded)
  qed
qed

lemma sends_Do:
  assumes "made env c" "routed meth path = b" "\<And>raw c'. made env c' \<Longrightarrow> sends (reaches env b) env (k (raw, c'))"
  shows "sends (reaches env b) env (cbind (client_Do env c meth path body) k)"
  unfolding client_Do_def DoWithHeaders_def
proof (rule sends_exchange_then)
  show "reaches env b (client_request c meth path body [])" using assms(1,2) by (rule reaches_request)
  show "sends (reaches env b) env (k (raw, c'))" if "cc_api c' = cc_api c" for raw c'
    by (rule assms(3) [OF made_same [OF assms(1) that]])
qed

lemma sends_request_print:
  "settled env \<Longrightarrow> routed meth path = b \<Longrightarrow> sends (reaches env b) env (request_print env meth path body)"
  unfolding request_print_def by (rule sends_userClient sends_Do sends_cases | assumption | simp)+

lemma sends_request_say:
  "settled env \<Longrightarrow> routed meth path = b \<Longrightarrow> sends (reaches env b) env (request_say env meth path line)"
  unfolding request_say_def by (rule sends_userClient sends_Do | assumption | simp)+

lemma sends_print_list:
  "settled env \<Longrightarrow> routed ''GET'' path = b \<Longrightarrow> sends (reaches env b) env (print_list env path row enc header show_row)"
  unfolding print_list_def by (rule sends_userClient sends_Do sends_cases | assumption | simp)+

lemma split_char_cat: "split_char x (s @ x # t) = split_char x s @ split_char x t"
  by (induction s) (auto split: list.splits)

lemma route_match_same: "route_match ps ps"
  by (auto simp: route_match_def segment_match_def list_all2_same has_prefix_def)

lemma route_match_parts:
  "route_match a a' \<Longrightarrow> route_match b b' \<Longrightarrow> route_match (a @ b) (a' @ b')"
  unfolding route_match_def by (rule list_all2_appendI)

lemma no_query: "CHR ''?'' \<notin> set p \<Longrightarrow> takeWhile (\<lambda>c. c \<noteq> CHR ''?'') p = p"
  by (induction p) auto

definition has_route :: "string \<Rightarrow> string \<Rightarrow> bool" where
  "has_route m p = list_ex (\<lambda>(m', pat, h, g). m' = m \<and> pat = p) registerV1Routes"

definition no_route_in :: "string \<Rightarrow> string \<Rightarrow> bool" where
  "no_route_in m p = list_all (\<lambda>(m', pat, h, g). m' = m \<longrightarrow> \<not> route_match (butlast (path_segments pat)) (path_segments p)) registerV1Routes"

lemma routed_id:
  assumes "has_route m (pre @ ''/{id}'' @ post)" "plain i"
    and "post = [] \<or> hd post = CHR ''/''" "CHR ''?'' \<notin> set (pre @ post)"
  shows "routed m (''/api/v1'' @ pre @ ''/'' @ i @ post)"
proof -
  from assms(2) have i: "CHR ''/'' \<notin> set i" "i \<noteq> ''''" "CHR ''?'' \<notin> set i" by (simp_all add: plain_def)
  have segs: "path_segments (pre @ ''/'' @ j @ post) = path_segments pre @ [j] @ (if post = [] then [] else path_segments (tl post))"
    if "CHR ''/'' \<notin> set j" for j
  proof (cases post)
    case Nil
    then show ?thesis using that by (simp add: path_segments_def split_char_cat split_char_no)
  next
    case (Cons c q)
    then have c: "c = CHR ''/''" using assms(3) by simp
    show ?thesis using that
      by (simp add: Cons c path_segments_def split_char_cat split_char_append split_char_no)
  qed
  have "route_match (path_segments (pre @ ''/'' @ ''{id}'' @ post)) (path_segments (pre @ ''/'' @ i @ post))"
    unfolding segs [OF i(1)] by (subst segs, simp)
      (intro route_match_parts route_match_same, simp add: route_match_def segment_match_def has_prefix_def i)
  then have "list_ex (\<lambda>(m', pat, h, g). m' = m \<and> route_match (path_segments pat) (path_segments (pre @ ''/'' @ i @ post))) registerV1Routes"
    using assms(1) by (auto simp: list_ex_iff has_route_def)
  moreover have "takeWhile (\<lambda>c. c \<noteq> CHR ''?'') (''/api/v1'' @ pre @ ''/'' @ i @ post) = ''/api/v1'' @ pre @ ''/'' @ i @ post"
    by (rule no_query) (use assms(4) i in simp)
  ultimately show ?thesis unfolding routed_def Let_def by (simp only: cut_prefix_append option.case simp_thms)
qed

lemma unrouted_id:
  assumes "no_route_in m pre" "plain i" and "CHR ''?'' \<notin> set pre" "\<not> has_prefix (''/api/v1'' @ pre @ ''/'' @ i) ''/api/incus/''"
  shows "\<not> routed m (''/api/v1'' @ pre @ ''/'' @ i)"
proof -
  from assms(2) have i: "CHR ''/'' \<notin> set i" "CHR ''?'' \<notin> set i" by (simp_all add: plain_def)
  have "route_match ps (path_segments pre @ [i]) \<Longrightarrow> route_match (butlast ps) (path_segments pre)" for ps
    by (auto simp: route_match_def list_all2_append2 list_all2_Cons2)
  then have "\<not> list_ex (\<lambda>(m', pat, h, g). m' = m \<and> route_match (path_segments pat) (path_segments (pre @ ''/'' @ i))) registerV1Routes"
    using assms(1) i by (auto simp: no_route_in_def list_ex_iff list_all_iff path_segments_def split_char_cat split_char_no)
  moreover have "takeWhile (\<lambda>c. c \<noteq> CHR ''?'') (''/api/v1'' @ pre @ ''/'' @ i) = ''/api/v1'' @ pre @ ''/'' @ i"
    by (rule no_query) (use assms(3) i in simp)
  ultimately show ?thesis using assms(4) unfolding routed_def Let_def by (simp only: cut_prefix_append option.case simp_thms)
qed

lemma routed_query: "CHR ''?'' \<notin> set p \<Longrightarrow> routed m (p @ ''?'' @ q) = routed m p"
  by (simp add: routed_def takeWhile_append no_query)

lemma routed_with_query: "CHR ''?'' \<notin> set p \<Longrightarrow> routed m (with_query p q) = routed m p"
  using routed_query [of p m "query_encode q"] by (simp add: with_query_def)

lemma sends_request:
  "made env c \<Longrightarrow> routed meth path = b \<Longrightarrow> sends (reaches env b) env (DoWithHeaders env c meth path body hs)"
  "made env c \<Longrightarrow> routed meth path = b \<Longrightarrow> sends (reaches env b) env (client_Do env c meth path body)"
  unfolding client_Do_def DoWithHeaders_def by (intro sends_exchange reaches_request; assumption)+

lemma fixed_routes:
  "routed ''POST'' ''/api/v1/auth/login'' = True" "routed ''POST'' ''/api/v1/auth/mfa/complete'' = True"
  "routed ''POST'' ''/api/v1/auth/setup'' = True" "routed ''POST'' ''/api/v1/auth/logout'' = True"
  "routed ''GET'' ''/api/v1/auth/tokens'' = True" "routed ''POST'' ''/api/v1/auth/tokens'' = True"
  "routed ''POST'' ''/api/v1/auth/totp/setup'' = True" "routed ''POST'' ''/api/v1/auth/totp/verify'' = True"
  "routed ''POST'' ''/api/v1/auth/totp/disable'' = False" "routed ''GET'' ''/api/incus/1.0/instances?recursion=1'' = True"
  "routed ''GET'' ''/api/v1/users'' = True" "routed ''POST'' ''/api/v1/users'' = True"
  "routed ''GET'' ''/api/v1/schedules'' = True" "routed ''POST'' ''/api/v1/schedules'' = True"
  "routed ''GET'' ''/api/v1/webhooks'' = True" "routed ''POST'' ''/api/v1/webhooks'' = True"
  "routed ''GET'' ''/api/v1/firewall/host'' = True" "routed ''POST'' ''/api/v1/firewall/host'' = True"
  "routed ''GET'' ''/api/v1/system/info'' = True" "routed ''GET'' ''/api/v1/system/hardware'' = True"
  "routed ''GET'' ''/api/v1/system/diagnostics'' = True" "routed ''POST'' ''/api/v1/system/upgrade'' = True"
  "routed ''GET'' ''/api/v1/health'' = False" "routed ''GET'' ''/api/v1/audit'' = True"
  "routed ''GET'' ''/api/v1/audit/export'' = True" "routed ''GET'' ''/api/v1/events'' = True"
  by code_simp+

lemma sends_performLogin:
  assumes "made env c"
  shows "sends (reaches env True) env (performLogin env c u p)"
  unfolding performLogin_def
  by (rule sends_Do [OF _ fixed_routes(1)] sends_Do [OF _ fixed_routes(2)] sends_cases sends_bind | rule assms | assumption | simp)+

lemma sends_auth:
  assumes "settled env"
  shows "sends (reaches env True) env (runAuthSetup env u pf tf)" "sends (reaches env True) env (runAuthLogin env u p)"
    "sends (reaches env True) env (auth_logout env)" "sends (reaches env True) env (auth_whoami env)"
  unfolding runAuthSetup_def runAuthLogin_def auth_logout_def auth_whoami_def Let_def
  by (rule sends_resolve [OF assms] sends_load [OF assms] sends_lift sends_try sends_request(2) [OF _ fixed_routes(3)]
      sends_request(2) [OF _ fixed_routes(4)] sends_performLogin sends_cases sends_bind | erule (1) made_given made_loaded | simp)+

lemma internal_route: "has_route ''POST'' (''/internal/schedules'' @ ''/{id}'' @ ''/run'')" by code_simp

lemma sends_runner:
  assumes "settled env" "plain i"
  shows "sends (reaches env True) env (runScheduleAsSystem env i)"
proof -
  have r: "routed ''POST'' (''/api/v1/internal/schedules/'' @ i @ ''/run'') = True"
    using routed_id [OF internal_route, of i] assms(2) by simp
  show ?thesis unfolding runScheduleAsSystem_def Let_def
    by (rule sends_lift sends_request(1) [OF _ r] sends_cases sends_bind | erule made_client |
      (use assms(1) in \<open>simp add: settled_def endpoint_def; fail\<close>) | simp)+
qed

lemma id_routes:
  "has_route ''DELETE'' (''/auth/tokens'' @ ''/{id}'' @ '''')" "has_route ''GET'' (''/users'' @ ''/{id}'' @ '''')"
  "has_route ''DELETE'' (''/users'' @ ''/{id}'' @ '''')" "has_route ''PUT'' (''/users'' @ ''/{id}'' @ ''/scope'')"
  "has_route ''GET'' (''/schedules'' @ ''/{id}'' @ '''')" "has_route ''PATCH'' (''/schedules'' @ ''/{id}'' @ '''')"
  "has_route ''DELETE'' (''/schedules'' @ ''/{id}'' @ '''')" "has_route ''POST'' (''/schedules'' @ ''/{id}'' @ ''/run'')"
  "has_route ''GET'' (''/webhooks'' @ ''/{id}'' @ '''')" "has_route ''PATCH'' (''/webhooks'' @ ''/{id}'' @ '''')"
  "has_route ''DELETE'' (''/webhooks'' @ ''/{id}'' @ '''')" "has_route ''POST'' (''/webhooks'' @ ''/{id}'' @ ''/test'')"
  "has_route ''DELETE'' (''/firewall/host'' @ ''/{id}'' @ '''')"
  by code_simp+

lemma argument_routes:
  assumes "plain i"
  shows "routed ''DELETE'' (''/api/v1/auth/tokens/'' @ i) = True" "routed ''GET'' (''/api/v1/users/'' @ i) = True"
    "routed ''DELETE'' (''/api/v1/users/'' @ i) = True" "routed ''PUT'' (''/api/v1/users/'' @ i @ ''/scope'') = True"
    "routed ''GET'' (''/api/v1/schedules/'' @ i) = True" "routed ''PATCH'' (''/api/v1/schedules/'' @ i) = True"
    "routed ''DELETE'' (''/api/v1/schedules/'' @ i) = True" "routed ''POST'' (''/api/v1/schedules/'' @ i @ ''/run'') = True"
    "routed ''GET'' (''/api/v1/webhooks/'' @ i) = True" "routed ''PATCH'' (''/api/v1/webhooks/'' @ i) = True"
    "routed ''DELETE'' (''/api/v1/webhooks/'' @ i) = True" "routed ''POST'' (''/api/v1/webhooks/'' @ i @ ''/test'') = True"
    "routed ''DELETE'' (''/api/v1/firewall/host/'' @ i) = True"
  using id_routes [THEN routed_id, OF assms] by simp_all

lemma config_unrouted:
  assumes "plain k"
  shows "routed ''GET'' (''/api/v1/system/config/'' @ k) = False" "routed ''PUT'' (''/api/v1/system/config/'' @ k) = False"
proof -
  have n: "no_route_in ''GET'' ''/system/config''" "no_route_in ''PUT'' ''/system/config''" by code_simp+
  show "routed ''GET'' (''/api/v1/system/config/'' @ k) = False"
    using unrouted_id [OF n(1) assms] by (simp add: has_prefix_def)
  show "routed ''PUT'' (''/api/v1/system/config/'' @ k) = False"
    using unrouted_id [OF n(2) assms] by (simp add: has_prefix_def)
qed

lemma query_routes:
  "routed ''GET'' (with_query ''/api/v1/audit'' q) = True" "routed ''GET'' (with_query ''/api/v1/events'' q) = True"
  "routed ''GET'' (''/api/v1/audit/export?format='' @ f) = True"
  using routed_with_query [of "''/api/v1/audit''" "''GET''" q] routed_with_query [of "''/api/v1/events''" "''GET''" q]
    routed_query [of "''/api/v1/audit/export''" "''GET''" "''format='' @ f"] fixed_routes(24-26) by simp_all

lemmas plain_request = sends_request_print sends_request_say sends_print_list sends_userClient sends_request(2) sends_cases sends_bind

lemma sends_tokens:
  assumes "settled env"
  shows "sends (reaches env True) env (token_list env)" "sends (reaches env True) env (token_create env n s e)"
    "plain i \<Longrightarrow> sends (reaches env True) env (token_revoke env i)"
    "sends (reaches env True) env (mfa_setup env)" "sends (reaches env True) env (mfa_verify env c)"
    "sends (reaches env False) env (mfa_disable env p b)" "sends (reaches env True) env (compute_list env)"
  unfolding token_list_def token_create_def token_revoke_def mfa_setup_def mfa_verify_def mfa_disable_def compute_list_def Let_def
  by (rule plain_request fixed_routes argument_routes assms | assumption | simp)+

lemma sends_users:
  assumes "settled env"
  shows "sends (reaches env True) env (user_list env)" "sends (reaches env True) env (user_create env u a p b)"
    "plain i \<Longrightarrow> sends (reaches env True) env (user_get env i)" "plain i \<Longrightarrow> sends (reaches env True) env (user_delete env i)"
    "plain i \<Longrightarrow> sends (reaches env True) env (user_set_scope env i s)"
  unfolding user_list_def user_create_def user_get_def user_delete_def user_set_scope_def
  by (rule plain_request fixed_routes argument_routes assms | assumption | simp)+

lemma sends_schedules:
  assumes "settled env"
  shows "sends (reaches env True) env (schedule_list env)" "sends (reaches env True) env (schedule_create env n kd t cal)"
    "plain i \<Longrightarrow> sends (reaches env True) env (schedule_get env i)"
    "plain i \<Longrightarrow> sends (reaches env True) env (schedule_update env i n cal en)"
    "plain i \<Longrightarrow> sends (reaches env True) env (schedule_run env b i)"
    "plain i \<Longrightarrow> sends (reaches env True) env (schedule_delete env yes i)"
  unfolding schedule_list_def schedule_create_def schedule_get_def schedule_update_def schedule_run_def schedule_delete_def Let_def
  by (rule plain_request sends_runner fixed_routes argument_routes assms | assumption | simp)+

lemma sends_webhooks:
  assumes "settled env"
  shows "sends (reaches env True) env (webhook_list env)" "sends (reaches env True) env (webhook_create env n u s b es)"
    "plain i \<Longrightarrow> sends (reaches env True) env (webhook_get env i)"
    "plain i \<Longrightarrow> sends (reaches env True) env (webhook_update env i n u evs en)"
    "plain i \<Longrightarrow> sends (reaches env True) env (webhook_delete env yes i)"
    "plain i \<Longrightarrow> sends (reaches env True) env (webhook_test env i)"
  unfolding webhook_list_def webhook_create_def webhook_get_def webhook_update_def webhook_delete_def webhook_test_def
  by (rule plain_request fixed_routes argument_routes assms | assumption | simp)+

lemma sends_firewall:
  assumes "settled env"
  shows "sends (reaches env True) env (firewall_list env)" "sends (reaches env True) env (firewall_add env d a p s t n cm)"
    "plain i \<Longrightarrow> sends (reaches env True) env (firewall_delete env yes i)"
  unfolding firewall_list_def firewall_add_def firewall_delete_def
  by (rule plain_request fixed_routes argument_routes assms | assumption | simp)+

lemma sends_system:
  assumes "settled env"
  shows "sends (reaches env True) env (system_info env)" "sends (reaches env True) env (system_hardware env)"
    "sends (reaches env True) env (system_diagnostics env)" "sends (reaches env True) env (system_upgrade env b)"
    "sends (reaches env False) env (system_health env)" "plain k \<Longrightarrow> sends (reaches env False) env (system_config_get env k)"
    "plain k \<Longrightarrow> sends (reaches env False) env (system_config_set env k v)"
  unfolding systemGet_def system_info_def system_hardware_def system_diagnostics_def system_upgrade_def system_health_def
    system_config_get_def system_config_set_def
  by (rule plain_request fixed_routes config_unrouted assms | assumption | simp)+

lemma sends_stream:
  "made env c \<Longrightarrow> sends (reaches env True) env (client_Stream env c ''/api/v1/events'' a)"
  unfolding client_Stream_def by (rule sends_exchange) (use fixed_routes(26) in \<open>auto simp: reaches_def made_def\<close>)

lemma sends_events:
  assumes "settled env"
  shows "sends (reaches env True) env (audit_query env ac an cu li)" "sends (reaches env True) env (audit_export env f)"
    "sends (reaches env True) env (events_tail env)" "sends (reaches env True) env (events_list env lo co)"
  unfolding audit_query_def audit_export_def events_tail_def events_list_def
  by (rule plain_request sends_stream query_routes assms | assumption | simp split: option.split)+


end
