(* ===== verification/Cli_Daemon.thy ===== *)
theory Cli_Daemon
  imports Cli_Props Server_Enrol_Props Server_Events
begin

text \<open>
  The command-line client and the daemon together: \<open>hellingd\<close> answers the requests of the authentication commands
  with the handlers of \<open>Server_Auth\<close> and \<open>Server_Enrol\<close>, behind the middleware of their routes, and the theorems follow
  a command from its arguments to the rows of the database and back to the profile on disk.
\<close>

section \<open>The wire\<close>

text \<open>What a request draws: clock and random values by path; where it comes from; the answers of other routes.\<close>

record draws =
  dw_source :: string
  dw_now :: "string \<Rightarrow> gotime"
  dw_token :: "string \<Rightarrow> string option"
  dw_jti :: "string \<Rightarrow> string"
  dw_uuid :: "string option"
  dw_time :: "gotime \<Rightarrow> string"                     \<comment> \<open>the JSON text of a time\<close>
  dw_rest :: "api_request \<Rightarrow> server \<Rightarrow> api_answer option \<times> server"

text \<open>The client stores one cookie, as \<open>name=value\<close>.\<close>

definition wire_cookie :: "(string \<times> string) list \<Rightarrow> string option" where
  "wire_cookie hs = Option.bind (map_of hs ''Cookie'') (\<lambda>c. cut_prefix c ''helling_session='')"

definition header_value :: "string \<Rightarrow> (string \<times> string) list \<Rightarrow> string" where
  "header_value k hs = (case map_of hs k of None \<Rightarrow> '''' | Some v \<Rightarrow> v)"

text \<open>The base URL of a Unix socket is \<open>http://helling\<close>.\<close>

definition wire_request :: "draws \<Rightarrow> api_request \<Rightarrow> request" where
  "wire_request dw rq =
     (let p = (case cut_prefix (hr_url rq) ''http://helling'' of None \<Rightarrow> '''' | Some p \<Rightarrow> p) in
      \<lparr>rq_method = hr_method rq, rq_path = takeWhile (\<lambda>c. c \<noteq> CHR ''?'') p, rq_uri = p, rq_source_ip = dw_source dw,
       rq_cookie = wire_cookie (hr_headers rq), rq_authorization = header_value ''Authorization'' (hr_headers rq),
       rq_schedule_token = header_value ''X-Helling-Schedule-Token'' (hr_headers rq),
       rq_user = None, rq_scopes = None, rq_jwt_id = None, rq_runner = False\<rparr>)"

definition wire_object :: "document option \<Rightarrow> (string \<times> json) list option" where
  "wire_object body = Option.bind body text_object"

text \<open>The structs the handlers decode; login refuses unknown fields.\<close>

definition login_request :: "document option \<Rightarrow> (string \<times> string) option" where
  "login_request body = Option.bind (wire_object body) (\<lambda>fs.
     if \<not> list_all (\<lambda>(k, v). fold_case k \<in> {''username'', ''password''}) fs then None
     else case (str_field ''username'' fs, str_field ''password'' fs) of (Some u, Some p) \<Rightarrow> Some (u, p) | _ \<Rightarrow> None)"

definition mfaCompleteRequest :: "document option \<Rightarrow> mfa_request option" where
  "mfaCompleteRequest body = Option.bind (wire_object body) (\<lambda>fs.
     case (str_field ''mfa_token'' fs, str_field ''code'' fs, str_field ''totp_code'' fs, str_field ''recovery_code'' fs) of
       (Some t, Some c, Some tc, Some rc) \<Rightarrow> Some \<lparr>mr_token = t, mr_code = c, mr_totp_code = tc, mr_recovery_code = rc\<rparr>
     | _ \<Rightarrow> None)"

definition createTokenRequest :: "document option \<Rightarrow> (string \<times> string) option" where
  "createTokenRequest body = Option.bind (wire_object body) (\<lambda>fs.
     case (str_field ''name'' fs, str_field ''scopes'' fs) of (Some n, Some sc) \<Rightarrow> Some (n, sc) | _ \<Rightarrow> None)"

definition totpVerifyRequest :: "document option \<Rightarrow> string option" where
  "totpVerifyRequest body = Option.bind (wire_object body) (str_field ''code'')"

definition omit_empty :: "string \<Rightarrow> string \<Rightarrow> (string \<times> json) list" where
  "omit_empty k v = (if v = '''' then [] else [(k, JStr v)])"

text \<open>The bodies of the routes below.\<close>

definition writeAuthData :: "auth_token_response \<Rightarrow> json" where
  "writeAuthData t = JObj [(''data'', JObj (omit_empty ''access_token'' (tr_access_token t) @
     omit_empty ''token_type'' (tr_token_type t) @ (if tr_expires_in t = 0 then [] else [(''expires_in'', JInt (tr_expires_in t))]) @
     [(''mfa_required'', JBool (tr_mfa_required t))] @ omit_empty ''mfa_token'' (tr_mfa_token t)))]"

definition wire_body :: "draws \<Rightarrow> auth_body \<Rightarrow> json" where
  "wire_body dw b = (case b of
     TokenBody t \<Rightarrow> writeAuthData t
   | NewTokenBody t raw \<Rightarrow> JObj ([(''id'', JStr (tk_id t)), (''name'', JStr (tk_name t)), (''token'', JStr raw),
       (''scopes'', JStr (tk_scopes t)), (''created_at'', JStr (dw_time dw (tk_created_at t)))] @
       (case tk_expires_at t of None \<Rightarrow> [] | Some e \<Rightarrow> [(''expires_at'', JStr (dw_time dw e))]))
   | _ \<Rightarrow> JNull)"

definition wire_answer :: "draws \<Rightarrow> auth_body response \<Rightarrow> api_answer" where
  "wire_answer dw resp = \<lparr>hs_status = rs_status resp,
     hs_cookies = (case rs_cookie resp of None \<Rightarrow> [] | Some ck \<Rightarrow> [(''helling_session'', ck_value ck)]),
     hs_body = (case rs_payload resp of NoBody \<Rightarrow> Raw ''''
       | ErrorBody c m \<Rightarrow> Json (JObj [(''code'', JStr c), (''message'', JStr m)])
       | Body b \<Rightarrow> Json (wire_body dw b))\<rparr>"

definition wire :: "draws \<Rightarrow> auth_body response \<times> server \<Rightarrow> api_answer option \<times> server" where
  "wire dw x = (Some (wire_answer dw (fst x)), snd x)"

definition hellingd :: "config \<Rightarrow> draws \<Rightarrow> api_request \<Rightarrow> server \<Rightarrow> api_answer option \<times> server" where
  "hellingd cfg dw rq s = (let r = wire_request dw rq; p = rq_path r; now = dw_now dw p; body = hr_body rq in
     if rq_method r \<noteq> ''POST'' then dw_rest dw rq s
     else if p = ''/api/v1/auth/login'' then
       wire dw (handleLogin cfg now (dw_token dw p) (dw_jti dw p) r (login_request body) s)
     else if p = ''/api/v1/auth/mfa/complete'' then
       wire dw (handleMFAComplete cfg now (dw_token dw p) (dw_jti dw p) r (mfaCompleteRequest body) s)
     else if p = ''/api/v1/auth/logout'' then
       wire dw (through (authMiddleware cfg now) (handleLogout cfg) r s)
     else if p = ''/api/v1/auth/tokens'' then
       wire dw (through (authMiddleware cfg now) (through writeScopeMiddleware
         (\<lambda>r. handleCreateToken cfg now (dw_token dw p) (dw_uuid dw) r (createTokenRequest body))) r s)
     else if p = ''/api/v1/auth/totp/verify'' then
       wire dw (through (authMiddleware cfg now) (through writeScopeMiddleware
         (\<lambda>r. handleTOTPVerify cfg now r (totpVerifyRequest body))) r s)
     else dw_rest dw rq s)"

section \<open>Requests as the daemon reads them\<close>

lemma cbind_Inr: "cbind m k w = (Inr x, w') \<longleftrightarrow> (\<exists>y w1. m w = (Inr y, w1) \<and> k y w1 = (Inr x, w'))"
  by (auto simp: cbind_def split: prod.splits sum.splits)

lemma csome_Inr [simp]: "csome m y w = (Inr v, w') \<longleftrightarrow> y = Some v \<and> w' = w"
  by (auto simp: csome_def cret_def cfail_def split: option.splits)

lemma ccheck_Inr [simp]: "ccheck b m w = (Inr u, w') \<longleftrightarrow> b \<and> w' = w"
  by (auto simp: ccheck_def cret_def cfail_def)

lemma cret_Inr [simp]: "cret y w = (Inr v, w') \<longleftrightarrow> v = y \<and> w' = w"
  by (auto simp: cret_def)

lemma clift_Inr [simp]: "clift r w = (Inr v, w') \<longleftrightarrow> r = Inr v \<and> w' = w"
  by (auto simp: clift_def cret_def cfail_def split: sum.splits)

lemma silent_net: "silent m \<Longrightarrow> m w = (r, w') \<Longrightarrow> wo_net w' = wo_net w"
  unfolding silent_def by (metis snd_conv)

lemma config_Load_Inr:
  assumes "config_Load env '''' w = (Inr prof, w')"
  shows "\<exists>p. prof = profile_applyEnv env p" "wo_net w' = wo_net w"
    "ce_getenv env ''HELLING_API'' \<noteq> '''' \<Longrightarrow> pr_api prof = ce_getenv env ''HELLING_API''"
    "ce_getenv env ''HELLING_TOKEN'' \<noteq> '''' \<Longrightarrow> pr_token prof = ce_getenv env ''HELLING_TOKEN''"
proof -
  show p: "\<exists>p. prof = profile_applyEnv env p"
    using assms by (auto simp: config_Load_def cbind_Inr split: option.splits)
  show "wo_net w' = wo_net w" by (rule silent_net [OF silent_config(1) assms])
  show "ce_getenv env ''HELLING_API'' \<noteq> '''' \<Longrightarrow> pr_api prof = ce_getenv env ''HELLING_API''"
    "ce_getenv env ''HELLING_TOKEN'' \<noteq> '''' \<Longrightarrow> pr_token prof = ce_getenv env ''HELLING_TOKEN''"
    using p by (auto simp: profile_applyEnv_def Let_def)
qed

text \<open>A client of the daemon's socket.\<close>

lemma socket_client:
  assumes "client_New env prof base = Inr c" "(if base = '''' then pr_api prof else base) = ''http+unix://'' @ sock"
  shows "cc_api c = ''http://helling''"
  using assms by (auto simp: client_New_def Let_def cut_prefix_def has_prefix_def split: if_splits)

lemma client_credentials:
  assumes "client_New env prof base = Inr c"
  shows "cc_bearer c = profile_Bearer prof" "cc_cookie c = pr_cookie prof"
  using assms by (auto simp: client_New_def Let_def split: option.splits if_splits)

lemma map_of_set_header: "map_of (set_header k v hs) k' = (if k' = k then Some v else map_of hs k')"
proof -
  have "map_of (filter (\<lambda>(k', v'). k' \<noteq> k) hs) k = None" by (auto simp: map_of_eq_None_iff)
  moreover have "k' \<noteq> k \<Longrightarrow> map_of (filter (\<lambda>(k', v'). k' \<noteq> k) hs) k' = map_of hs k'" by (induction hs) auto
  ultimately show ?thesis by (simp add: set_header_def map_add_def split: option.split)
qed

lemma map_of_credentials:
  "map_of (set_credentials c hs) k =
    (if k = ''Cookie'' \<and> cc_cookie c \<noteq> '''' then Some (cc_cookie c)
     else if k = ''Authorization'' \<and> cc_bearer c \<noteq> '''' then Some (''Bearer '' @ cc_bearer c) else map_of hs k)"
  by (simp add: set_credentials_def Let_def map_of_set_header)

lemma request_simps [simp]:
  "hr_method (client_request c m p b hs) = m" "hr_body (client_request c m p b hs) = map_option Json b"
  "hr_url (client_request c m p b hs) = cc_api c @ p"
  by (simp_all add: client_request_def Let_def encodeRequestBody_def)

lemma map_of_request:
  "map_of (hr_headers (client_request c m p b [])) k =
    (if k = ''Cookie'' \<and> cc_cookie c \<noteq> '''' then Some (cc_cookie c)
     else if k = ''Authorization'' \<and> cc_bearer c \<noteq> '''' then Some (''Bearer '' @ cc_bearer c)
     else if k = ''Content-Type'' \<and> b \<noteq> None then Some ''application/json''
     else if k = ''Accept'' then Some ''application/json'' else None)"
  by (simp add: client_request_def Let_def map_of_credentials)

lemma wire_simps:
  assumes "cc_api c = ''http://helling''" "CHR ''?'' \<notin> set p"
  shows "rq_method (wire_request dw (client_request c m p b hs)) = m"
    "rq_path (wire_request dw (client_request c m p b hs)) = p"
  using assms by (simp_all add: wire_request_def Let_def no_query cut_prefix_def has_prefix_def)

lemma wire_answer_status [simp]: "hs_status (wire_answer dw resp) = rs_status resp"
  by (simp add: wire_answer_def)

lemma wire_answered: "wire dw x = (Some resp, s) \<Longrightarrow> \<exists>a. x = (a, s) \<and> resp = wire_answer dw a"
  by (cases x) (simp add: wire_def)

section \<open>A stored session shadows the token\<close>

text \<open>C15: while the profile holds a session cookie, what the daemon lets a command do is what that session's user may
  do: the API token in the profile or in \<open>HELLING_TOKEN\<close>, which is sent along and is said to have precedence, counts
  for nothing, neither its user nor its scope.\<close>

theorem session_shadows_token:
  assumes "pr_cookie prof = ''helling_session='' @ v" "v \<noteq> ''''" "client_New env prof base = Inr c"
    and "authMiddleware cfg now (wire_request dw (client_request c meth path body [])) s = (Inr r' :: 'p response + request, s')"
  shows "rq_scopes r' = None \<and> (\<exists>row expires. rq_user r' = Some (scan_user row) \<and>
    session_held (sv_db s) (cr_hash (cf_crypto cfg) v) = Some (u_id row, expires) \<and> now \<le> expires)"
proof -
  let ?r = "wire_request dw (client_request c meth path body [])"
  have ck: "rq_cookie ?r = Some v" "rq_scopes ?r = None"
    using client_credentials(2) [OF assms(3)] assms(1)
    by (simp_all add: wire_request_def Let_def wire_cookie_def map_of_request cut_prefix_def has_prefix_def)
  from auth_ok [OF assms(4)] obtain row where "rq_user r' = Some (scan_user row)" "acts_for cfg now ?r (sv_db s) row (rq_scopes r')"
    by blast
  then show ?thesis using ck assms(2) unfolding acts_for_def by auto
qed

section \<open>What middleware leaves\<close>

lemma auth_refusal:
  "authMiddleware cfg now r s = (Inl resp, s') \<Longrightarrow> rs_status resp \<in> {401, 500}"
  by (auto simp: authMiddleware_def authenticateBearer_def authenticateAPIToken_def Let_def
      elim!: with_dbE split: sum.splits if_splits option.splits prod.splits)

lemma write_refusal:
  "writeScopeMiddleware r s = (Inl resp, s') \<Longrightarrow> rs_status resp = 403"
  by (auto simp: writeScopeMiddleware_def tokenScopeMiddleware_def split: if_splits)

lemma TouchAPIToken_frame: "TouchAPIToken now h d = (r, d') \<Longrightarrow>
    length (api_tokens d') = length (api_tokens d) \<and> totp_secrets d' = totp_secrets d"
  unfolding TouchAPIToken_def
  by (rule exec_cases [of "\<lambda>d. d\<lparr>api_tokens := tupdate (\<lambda>r. at_token_hash r = h)
      (\<lambda>r. r\<lparr>at_last_used_at := Some (to_unix now)\<rparr>) (api_tokens d)\<rparr>" d]) (auto simp: tupdate_def)

lemma TouchSession_totp: "TouchSession now h d = (r, d') \<Longrightarrow> totp_secrets d' = totp_secrets d"
  unfolding TouchSession_def
  by (rule exec_cases [of "\<lambda>d. d\<lparr>sessions := tupdate (\<lambda>r. se_id r = h) (\<lambda>r. r\<lparr>se_last_seen_at := to_unix now\<rparr>) (sessions d)\<rparr>" d]) auto

lemma auth_frame:
  assumes "authMiddleware cfg now r s = (Inr r', s')"
  shows "length (api_tokens (sv_db s')) = length (api_tokens (sv_db s))" "totp_secrets (sv_db s') = totp_secrets (sv_db s)"
proof -
  have "length (api_tokens (sv_db s')) = length (api_tokens (sv_db s)) \<and> totp_secrets (sv_db s') = totp_secrets (sv_db s)"
    using assms
    by (auto simp: authMiddleware_def authenticateBearer_def authenticateAPIToken_def Let_def
      elim!: with_dbE split: sum.splits if_splits option.splits prod.splits
      dest!: GetSession_held GetUserByID_Inr GetAPITokenByHash_Inr TouchAPIToken_frame,
      (auto dest: TouchSession_frame TouchSession_totp)?)
  then show "length (api_tokens (sv_db s')) = length (api_tokens (sv_db s))" "totp_secrets (sv_db s') = totp_secrets (sv_db s)"
    by simp_all
qed

text \<open>A handler behind authentication and write scope that answered with success.\<close>

lemma through_write:
  fixes k :: "request \<Rightarrow> server \<Rightarrow> 'p response \<times> server"
  assumes "through (authMiddleware cfg now) (through writeScopeMiddleware k) r s = (resp, s')" "rs_status resp < 300"
  obtains r1 s1 where "authMiddleware cfg now r s = (Inr r1 :: 'p response + request, s1)" "k r1 s1 = (resp, s')"
proof -
  obtain a s1 where a: "authMiddleware cfg now r s = (a :: 'p response + request, s1)" by fastforce
  show thesis
  proof (cases a)
    case (Inl e)
    then show ?thesis using assms a auth_refusal [of cfg now r s e s1] by (simp add: through_def)
  next
    case (Inr r1)
    obtain b s2 where b: "writeScopeMiddleware r1 s1 = (b :: 'p response + request, s2)" by fastforce
    show ?thesis
    proof (cases b)
      case (Inl e)
      then show ?thesis using assms a Inr b write_refusal [of r1 s1 e s2] by (simp add: through_def)
    next
      case inr: (Inr r2)
      have "r2 = r1 \<and> s2 = s1" using writeScopeMiddleware_Inr [OF b [unfolded inr]] by simp
      then show ?thesis using assms a Inr b inr that by (simp add: through_def)
    qed
  qed
qed

section \<open>The flags of token create\<close>

lemma handleCreateToken_ok:
  assumes "handleCreateToken cfg now random uuid r body s = (resp, s')" "rs_status resp < 300"
  shows "\<exists>name scopes0 tok. body = Some (name, scopes0) \<and> api_tokens (sv_db s') = api_tokens (sv_db s) @ [tok] \<and>
    at_name tok = name \<and> at_scopes tok = requested_scopes scopes0 \<and> at_expires_at tok = None"
proof -
  obtain u name scopes0 where u: "rq_user r = Some u" "body = Some (name, scopes0)"
    using assms by (cases "rq_user r"; cases body) (auto simp: handleCreateToken_def)
  obtain raw hash where t: "NewAPIToken (cf_crypto cfg) random = Some (raw, hash)"
    using assms u by (cases "NewAPIToken (cf_crypto cfg) random") (auto simp: handleCreateToken_def Let_def split: if_splits)
  obtain res d where c: "CreateAPIToken now uuid (u_id u) name hash (requested_scopes scopes0) None (sv_db s) = (res, d)" by fastforce
  obtain v where "res = Inr v" "sv_db s' = d"
    using assms u t c by (cases res) (auto simp: handleCreateToken_def Let_def with_db_def split: if_splits)
  then show ?thesis using CreateAPIToken_result [OF c] u(2) by auto
qed

lemma token_body_decoded: "createTokenRequest (Some (Json (token_create_body n sc e))) = Some (n, '''')"
  by (simp add: createTokenRequest_def wire_object_def token_create_body_def str_field_def field_def byte_def)

text \<open>A command that is one request to the daemon, when it succeeds.\<close>

lemma request_print_ok:
  assumes "request_print env meth path body w = (Inr u, w')" "ce_send env = hellingd cfg dw"
    and "ce_getenv env ''HELLING_API'' = ''http+unix://'' @ sock"
  obtains c resp where "cc_api c = ''http://helling''"
    "hellingd cfg dw (client_request c meth path body []) (wo_net w) = (Some resp, wo_net w')" "hs_status resp < 300"
proof -
  obtain prof w1 c raw c' w2 where l: "config_Load env '''' w = (Inr prof, w1)" "client_New env prof '''' = Inr c"
    and d: "exchange env c (client_request c meth path body []) w1 = (Inr (raw, c'), w2)" and p: "cprintln raw w2 = (Inr u, w')"
    using assms(1) by (auto simp: request_print_def userClient_def cbind_Inr client_Do_def DoWithHeaders_def)
  have "pr_api prof = ''http+unix://'' @ sock" using config_Load_Inr(3) [OF l(1)] assms(3) by simp
  then have "cc_api c = ''http://helling''" using socket_client [OF l(2)] by simp
  moreover obtain resp where "hellingd cfg dw (client_request c meth path body []) (wo_net w1) = (Some resp, wo_net w2)" "hs_status resp < 300"
    using exchange_Inr [OF d] assms(2) by auto
  ultimately show thesis using that [of c resp] config_Load_Inr(2) [OF l(1)] silent_net [OF silent_simps(8) p] by simp
qed

text \<open>C38: whatever scope and lifetime \<open>helling auth token create\<close> is given, the token the daemon makes has the scope
  \<open>read\<close> and no expiry: the client sends \<open>scope\<close> and \<open>expires_in_seconds\<close>, the daemon reads \<open>scopes\<close>.\<close>

theorem token_flags_lost:
  assumes "token_create env name scope expiresIn w = (Inr u, w')" "ce_send env = hellingd cfg dw"
    and "ce_getenv env ''HELLING_API'' = ''http+unix://'' @ sock"
  shows "\<exists>ts tok. api_tokens (sv_db (wo_net w')) = ts @ [tok] \<and> length ts = length (api_tokens (sv_db (wo_net w))) \<and>
    at_name tok = name \<and> at_scopes tok = ''read'' \<and> at_expires_at tok = None"
proof -
  let ?body = "Some (token_create_body name scope expiresIn)"
  obtain c resp where c: "cc_api c = ''http://helling''"
    and h: "hellingd cfg dw (client_request c ''POST'' ''/api/v1/auth/tokens'' ?body []) (wo_net w) = (Some resp, wo_net w')"
    and st: "hs_status resp < 300"
    using request_print_ok [OF assms(1) [unfolded token_create_def] assms(2,3)] by blast
  let ?r = "wire_request dw (client_request c ''POST'' ''/api/v1/auth/tokens'' ?body [])"
  let ?now = "dw_now dw ''/api/v1/auth/tokens''"
  have r: "rq_method ?r = ''POST''" "rq_path ?r = ''/api/v1/auth/tokens''" using c by (simp_all add: wire_simps)
  let ?k = "\<lambda>r. handleCreateToken cfg ?now (dw_token dw ''/api/v1/auth/tokens'') (dw_uuid dw) r (Some (name, ''''))"
  have "wire dw (through (authMiddleware cfg ?now) (through writeScopeMiddleware ?k) ?r (wo_net w)) = (Some resp, wo_net w')"
    using h by (simp add: hellingd_def r Let_def token_body_decoded)
  then obtain a where a: "through (authMiddleware cfg ?now) (through writeScopeMiddleware ?k) ?r (wo_net w) = (a, wo_net w')"
    and "resp = wire_answer dw a" using wire_answered by blast
  then have "rs_status a < 300" using st by simp
  from through_write [OF a this] obtain r1 s1 where m: "authMiddleware cfg ?now ?r (wo_net w) = (Inr r1 :: auth_body response + request, s1)"
    and k: "?k r1 s1 = (a, wo_net w')" by blast
  from handleCreateToken_ok [OF k \<open>rs_status a < 300\<close>] auth_frame(1) [OF m]
  show ?thesis by (auto simp: requested_scopes_def)
qed

section \<open>Confirming a second factor\<close>

text \<open>C39: \<open>helling auth mfa verify\<close> never succeeds: it sends the code as \<open>totp_code\<close>, the daemon reads \<open>code\<close>.\<close>

theorem mfa_verify_fails:
  assumes "ce_send env = hellingd cfg dw" "ce_getenv env ''HELLING_API'' = ''http+unix://'' @ sock"
  shows "isl (fst (mfa_verify env code w))"
proof (rule ccontr)
  assume "\<not> isl (fst (mfa_verify env code w))"
  then obtain u w' where ok: "mfa_verify env code w = (Inr u, w')" by (cases "mfa_verify env code w"; cases "fst (mfa_verify env code w)") auto
  let ?p = "''/api/v1/auth/totp/verify''"
  let ?body = "Some (mfa_verify_body code)"
  obtain c resp where c: "cc_api c = ''http://helling''"
    and h: "hellingd cfg dw (client_request c ''POST'' ?p ?body []) (wo_net w) = (Some resp, wo_net w')"
    and st: "hs_status resp < 300"
    using request_print_ok [OF ok [unfolded mfa_verify_def] assms] by blast
  have b: "totpVerifyRequest (Some (Json (mfa_verify_body code))) = Some ''''"
    by (simp add: totpVerifyRequest_def wire_object_def mfa_verify_body_def str_field_def field_def byte_def)
  have r: "rq_method (wire_request dw (client_request c ''POST'' ?p ?body [])) = ''POST''"
    "rq_path (wire_request dw (client_request c ''POST'' ?p ?body [])) = ?p" using c by (simp_all add: wire_simps)
  have "wire dw (through (authMiddleware cfg (dw_now dw ?p)) (through writeScopeMiddleware
      (\<lambda>r. handleTOTPVerify cfg (dw_now dw ?p) r (Some ''''))) (wire_request dw (client_request c ''POST'' ?p ?body [])) (wo_net w))
      = (Some resp, wo_net w')"
    using h by (simp add: hellingd_def r Let_def b)
  then obtain a where a: "through (authMiddleware cfg (dw_now dw ?p)) (through writeScopeMiddleware
      (\<lambda>r. handleTOTPVerify cfg (dw_now dw ?p) r (Some ''''))) (wire_request dw (client_request c ''POST'' ?p ?body [])) (wo_net w)
      = (a, wo_net w')" and "resp = wire_answer dw a" using wire_answered by blast
  then have s: "rs_status a < 300" using st by simp
  from through_write [OF a s] obtain r1 s1 where "handleTOTPVerify cfg (dw_now dw ?p) r1 (Some '''') s1 = (a, wo_net w')" by blast
  then show False using s by (auto simp: handleTOTPVerify_def split: option.splits)
qed

section \<open>A stream of events\<close>

lemma split_lines: "list_all (\<lambda>l. CHR 0x0A \<notin> set l) ls \<Longrightarrow> split_char (CHR 0x0A) (concat (map (\<lambda>l. l @ [CHR 0x0A]) ls)) = ls @ [[]]"
  by (induction ls) (simp_all add: split_char_append)

lemma raw_lines_lines: "list_all (\<lambda>l. CHR 0x0A \<notin> set l) ls \<Longrightarrow> raw_lines (concat (map (\<lambda>l. l @ [CHR 0x0A]) ls)) = ls"
  by (simp add: raw_lines_def split_lines Let_def)

text \<open>The lines of what the daemon writes: an event with its JSON, or a heartbeat.\<close>

fun sse_lines :: "(event \<times> string) option \<Rightarrow> string list" where
  "sse_lines (Some (ev, body)) = [''event: '' @ ev_type ev, ''id: '' @ ev_id ev, ''data: '' @ body, '''']"
| "sse_lines None = ['': heartbeat'', '''']"

definition sse_text :: "(event \<times> string) option \<Rightarrow> string" where
  "sse_text wr = (case wr of Some (ev, body) \<Rightarrow> writeSSE ev body | None \<Rightarrow> '': heartbeat'' @ [CHR 0x0A, CHR 0x0A])"

text \<open>Neither line breaks nor an empty body or a carriage return at its end: JSON as \<open>encoding/json\<close> writes it has none.\<close>

definition sse_clean :: "event \<times> string \<Rightarrow> bool" where
  "sse_clean e \<longleftrightarrow> CHR 0x0A \<notin> set (ev_type (fst e)) \<and> CHR 0x0A \<notin> set (ev_id (fst e)) \<and> CHR 0x0A \<notin> set (snd e) \<and>
     snd e \<noteq> '''' \<and> last (snd e) \<noteq> CHR 0x0D"

text \<open>The lines of an event fit the scanner's buffer.\<close>

definition sse_fits :: "event \<times> string \<Rightarrow> bool" where
  "sse_fits e \<longleftrightarrow> list_all (\<lambda>l. length l < 65536) (sse_lines (Some e))"

lemma sse_text_lines: "sse_text wr = concat (map (\<lambda>l. l @ [CHR 0x0A]) (sse_lines wr))"
  by (cases wr) (auto simp: sse_text_def writeSSE_def)

lemma map_filter_append: "List.map_filter f (xs @ ys) = List.map_filter f xs @ List.map_filter f ys"
  by (simp add: List.map_filter_def)

lemma sse_output_lines:
  "sse_output (drop_cr (''event: '' @ t)) = None" "sse_output (drop_cr (''id: '' @ t)) = None"
  "sse_output (drop_cr '''') = None" "sse_output (drop_cr '': heartbeat'') = None"
  "body \<noteq> '''' \<Longrightarrow> last body \<noteq> CHR 0x0D \<Longrightarrow> sse_output (drop_cr (''data: '' @ body)) = Some body"
  by (auto simp: drop_cr_def sse_output_def cut_prefix_def has_prefix_def butlast_append)

text \<open>What is printed of one event: its JSON when its lines fit, and otherwise nothing before the scanner stops.\<close>

lemma sse_event_output:
  assumes "sse_clean e"
  shows "List.map_filter (\<lambda>l. sse_output (drop_cr l)) (takeWhile (\<lambda>l. length l < 65536) (sse_lines (Some e))) =
    (if sse_fits e then [snd e] else [])"
proof -
  obtain ev body where e: "e = (ev, body)" by (cases e)
  define fit where "fit = (\<lambda>l :: string. length l < 65536)"
  have "fit ''''" by (simp add: fit_def)
  moreover have "sse_output (drop_cr (''data: '' @ body)) = Some body"
    using assms e by (intro sse_output_lines) (simp_all add: sse_clean_def)
  ultimately show ?thesis
    unfolding sse_fits_def e sse_lines.simps fit_def [symmetric]
    by (cases "fit (''event: '' @ ev_type ev)"; cases "fit (''id: '' @ ev_id ev)"; cases "fit (''data: '' @ body)")
      (simp_all only: takeWhile.simps list.pred_inject List.map_filter_simps sse_output_lines(1-4) option.case snd_conv if_True if_False simp_thms)
qed

lemma sse_stream_output:
  assumes "\<And>e. Some e \<in> set ws \<Longrightarrow> sse_clean e"
  shows "List.map_filter (\<lambda>l. sse_output (drop_cr l)) (takeWhile (\<lambda>l. length l < 65536) (concat (map sse_lines ws))) =
      map snd (takeWhile sse_fits (List.map_filter (\<lambda>w. w) ws)) \<and>
    list_all (\<lambda>l. length l < 65536) (concat (map sse_lines ws)) = list_all sse_fits (List.map_filter (\<lambda>w. w) ws)"
  using assms
proof (induction ws)
  case (Cons wr ws)
  let ?fit = "\<lambda>l :: string. length l < 65536"
  have IH: "List.map_filter (\<lambda>l. sse_output (drop_cr l)) (takeWhile ?fit (concat (map sse_lines ws))) =
      map snd (takeWhile sse_fits (List.map_filter (\<lambda>w. w) ws))"
    "list_all ?fit (concat (map sse_lines ws)) = list_all sse_fits (List.map_filter (\<lambda>w. w) ws)"
    using Cons by auto
  show ?case
  proof (cases wr)
    case None
    have "List.map_filter (\<lambda>l. sse_output (drop_cr l)) (takeWhile ?fit (sse_lines None @ ls)) =
        List.map_filter (\<lambda>l. sse_output (drop_cr l)) (takeWhile ?fit ls)" for ls
      by (simp add: List.map_filter_simps sse_output_lines(3,4))
    then show ?thesis using IH by (simp add: None List.map_filter_simps)
  next
    case (Some e)
    have c: "sse_clean e" using Cons.prems Some by simp
    show ?thesis
    proof (cases "sse_fits e")
      case True
      then have all: "list_all ?fit (sse_lines (Some e))" by (simp add: sse_fits_def)
      then have tw: "takeWhile ?fit (sse_lines (Some e) @ ls) = sse_lines (Some e) @ takeWhile ?fit ls" for ls
        unfolding list_all_iff by (simp only: takeWhile_append2)
      have tw0: "takeWhile ?fit (sse_lines (Some e)) = sse_lines (Some e)"
        using all unfolding list_all_iff by (simp only: takeWhile_eq_all_conv)
      have "List.map_filter (\<lambda>l. sse_output (drop_cr l)) (sse_lines (Some e)) = [snd e]"
        using sse_event_output [OF c] True unfolding tw0 by (simp only: if_True)
      then show ?thesis using IH all True unfolding Some list.map concat.simps tw map_filter_append
        by (simp add: List.map_filter_simps del: sse_lines.simps)
    next
      case False
      then obtain l where "l \<in> set (sse_lines (Some e))" "\<not> ?fit l" by (auto simp: sse_fits_def list_all_iff simp del: sse_lines.simps)
      then have tw: "takeWhile ?fit (sse_lines (Some e) @ ls) = takeWhile ?fit (sse_lines (Some e))" for ls
        by (rule takeWhile_append1)
      show ?thesis using sse_event_output [OF c] False \<open>l \<in> _\<close> \<open>\<not> ?fit l\<close> unfolding Some list.map concat.simps tw
        by (auto simp: List.map_filter_simps list_all_iff simp del: sse_lines.simps)
    qed
  qed
qed (simp add: List.map_filter_simps)

lemma sse_no_breaks: "(\<And>e. wr = Some e \<Longrightarrow> sse_clean e) \<Longrightarrow> list_all (\<lambda>l. CHR 0x0A \<notin> set l) (sse_lines wr)"
  by (cases wr) (auto simp: sse_clean_def)


text \<open>A stream with an event whose data is too long; that text is not evaluated.\<close>

definition demo_body :: string where "demo_body = replicate 65536 (CHR ''x'')"

lemma demo_body_simps: "length demo_body = 65536" "CHR 0x0A \<notin> set demo_body" "demo_body \<noteq> ''''" "last demo_body \<noteq> CHR 0x0D"
proof -
  show n: "length demo_body = 65536" by (simp only: demo_body_def length_replicate)
  have x: "c \<in> set demo_body \<Longrightarrow> c = CHR ''x''" for c by (simp only: demo_body_def in_set_replicate)
  show nonempty: "demo_body \<noteq> ''''" using n by auto
  show "CHR 0x0A \<notin> set demo_body" "last demo_body \<noteq> CHR 0x0D" using x [of "CHR 0x0A"] x [OF last_in_set [OF nonempty]] by auto
qed

definition demo_event :: event where
  "demo_event = \<lparr>ev_id = ''e1'', ev_type = ''schedule.changed'', ev_time = 0, ev_source = ''hellingd'', ev_subject = ''s1'', ev_data = ''{}''\<rparr>"

definition demo_stream :: "(event \<times> string) option list" where
  "demo_stream = [None, Some (demo_event, ''{}''), Some (demo_event, demo_body), Some (demo_event, ''[]'')]"


end
