(* ===== verification/Cli_Login.thy ===== *)
theory Cli_Login
  imports Cli_Daemon
begin

text \<open>
  \<open>helling auth login\<close> against the daemon: from the name, the password and the line typed at the prompt, over the login
  and MFA handlers, to the session row in the database and the profile on disk; what the requests carry, and what
  \<open>helling auth logout\<close> leaves behind.
\<close>

section \<open>A login the daemon accepts\<close>

lemma login_complete_status:
  "login_complete cfg now token jti r name u s = (resp, s') \<Longrightarrow> rs_status resp < 300 \<Longrightarrow>
   \<exists>tok ck. resp = session_response r tok ck"
  by (auto simp: login_complete_def Let_def split: prod.splits option.splits)

lemma login_complete_ok:
  assumes "login_complete cfg now token jti r name u s = (resp, s')" "rs_status resp < 300"
  obtains tok ck where "resp = session_response r tok (Some ck)" "token = Some (ck_value ck)"
    "sessions (sv_db s') = sessions (sv_db s) @ [session_row cfg now (ck_value ck) (u_id u)]"
proof -
  obtain tok ck where r: "resp = session_response r tok ck" using login_complete_status [OF assms] by blast
  let ?s = "s\<lparr>sv_user_limiter := Reset name (sv_user_limiter s), sv_ip_limiter := Reset (rq_source_ip r) (sv_ip_limiter s)\<rparr>"
  obtain t c s1 where iss: "issueSession cfg now token jti u ?s = ((t, c), s1)" by (metis prod.collapse)
  have "c \<noteq> None"
  proof
    assume n: "c = None"
    then have "t = None" using issueSession_result [OF iss] by blast
    then show False using assms iss n by (auto simp: login_complete_def Let_def writeError_def)
  qed
  moreover have "rs_cookie resp = c" using assms(1) iss by (cases t) (auto simp: login_complete_def Let_def)
  moreover have "rs_cookie resp = ck" by (simp add: r)
  ultimately obtain k where k: "ck = Some k" by auto
  have "session_outcome cfg now token (u_id u) (Some k) (sv_db s) (sv_db s')"
    using login_complete_result [OF assms(1)] r k by simp
  from session_outcome_Some [OF this] show thesis using that [of tok k] r k by simp
qed

text \<open>What a right password leads to: a session, or a challenge for a user with TOTP.\<close>

definition challenged :: "config \<Rightarrow> string option \<Rightarrow> int \<Rightarrow> auth_body response \<Rightarrow> server \<Rightarrow> server \<Rightarrow> bool" where
  "challenged cfg token i resp s s' \<longleftrightarrow> same_data (sv_db s) (sv_db s') \<and> rs_cookie resp = None \<and>
     (\<exists>raw c. token = Some raw \<and> rs_payload resp = Body (TokenBody \<lparr>tr_access_token = '''', tr_token_type = '''',
        tr_expires_in = 0, tr_mfa_required = True, tr_mfa_token = raw\<rparr>) \<and>
      sv_mfa s' (cr_hash (cf_crypto cfg) raw) = Some c \<and> mc_user_id c = i)"

definition admitted :: "config \<Rightarrow> gotime \<Rightarrow> int \<Rightarrow> auth_body response \<Rightarrow> server \<Rightarrow> server \<Rightarrow> bool" where
  "admitted cfg now i resp s s' \<longleftrightarrow> (\<exists>raw t. map_option ck_value (rs_cookie resp) = Some raw \<and>
     rs_payload resp = Body (TokenBody t) \<and> \<not> tr_mfa_required t \<and>
     sessions (sv_db s') = sessions (sv_db s) @ [session_row cfg now raw i])"

lemma admitted_session:
  assumes "wantsAuthJSON r" "resp = session_response r tok (Some ck)"
    "sessions (sv_db s') = sessions (sv_db s) @ [session_row cfg now (ck_value ck) i]"
  shows "admitted cfg now i resp s s'"
  using assms by (simp add: admitted_def session_response_def)

lemma login_password_success:
  assumes "login_password_ok cfg now token jti r name u s = (resp, s')" "rs_status resp < 300" "wantsAuthJSON r"
  shows "admitted cfg now (u_id u) resp s s' \<and>
      (\<forall>ts. tget ts_user_id (u_id u) (totp_secrets (sv_db s)) = Some ts \<longrightarrow> \<not> ts_enabled ts) \<or>
    challenged cfg token (u_id u) resp s s'"
proof -
  obtain res d where g: "GetTOTPSecret (u_id u) (sv_db s) = (res, d)" by (cases "GetTOTPSecret (u_id u) (sv_db s)")
  have same: "same_data (sv_db s) d"
    by (rule GetTOTPSecret_cases [of "u_id u" "sv_db s"]) (use g in auto)
  consider (challenge) "login_challenge cfg now token r u (s\<lparr>sv_db := d\<rparr>) = (resp, s')"
    | (complete) "login_complete cfg now token jti r name u (s\<lparr>sv_db := d\<rparr>) = (resp, s')"
      "\<forall>ts. res = Inr ts \<longrightarrow> \<not> ts_enabled ts" "\<forall>e. res = Inl e \<longrightarrow> e = ErrNotFound"
    using assms g by (cases res) (auto simp: login_password_ok_def with_db_def split: if_splits)
  then show ?thesis
  proof cases
    case challenge
    then have "challenged cfg token (u_id u) resp s s'"
      using same assms(2) by (auto simp: challenged_def login_challenge_def storeMFAChallenge_def split: option.splits)
    then show ?thesis by simp
  next
    case complete
    have "\<not> ts_enabled ts" if "tget ts_user_id (u_id u) (totp_secrets (sv_db s)) = Some ts" for ts
      using that complete(2,3) g by (rule_tac GetTOTPSecret_cases [of "u_id u" "sv_db s"]) auto
    moreover have "admitted cfg now (u_id u) resp s s'"
    proof (rule login_complete_ok [OF complete(1) assms(2)])
      fix tok ck
      assume "resp = session_response r tok (Some ck)"
        "sessions (sv_db s') = sessions (sv_db (s\<lparr>sv_db := d\<rparr>)) @ [session_row cfg now (ck_value ck) (u_id u)]"
      then show ?thesis using admitted_session [OF assms(3)] same_dataD(2) [OF same] by simp
    qed
    ultimately show ?thesis by blast
  qed
qed

lemma handleLogin_success:
  assumes "handleLogin cfg now token jti r (Some (username, password)) s = (resp, s')" "rs_status resp < 300" "wantsAuthJSON r"
  shows "\<exists>u. tget u_username (trim_space username) (users (sv_db s)) = Some u \<and>
    cr_verify (cf_crypto cfg) (u_password_hash u) password \<and>
    (admitted cfg now (u_id u) resp s s' \<and>
      (\<forall>ts. tget ts_user_id (u_id u) (totp_secrets (sv_db s)) = Some ts \<longrightarrow> \<not> ts_enabled ts) \<or>
     challenged cfg token (u_id u) resp s s')"
proof -
  let ?name = "trim_space username"
  obtain b s1 where lim: "isLoginRateLimited now ?name (rq_source_ip r) s = (b, s1)"
    by (cases "isLoginRateLimited now ?name (rq_source_ip r) s")
  note db1 = isLoginRateLimited_frame [OF lim]
  obtain res d where get: "GetUserByUsername ?name (sv_db s) = (res, d)" by (cases "GetUserByUsername ?name (sv_db s)")
  have same: "same_data (sv_db s) d" by (rule GetUserByUsername_cases [of ?name "sv_db s"]) (use get in auto)
  have b: "\<not> b" using assms lim by (auto simp: handleLogin_def Let_def login_rate_limited_def split: if_splits)
  then obtain u where u: "res = Inr u" "cr_verify (cf_crypto cfg) (u_password_hash u) password"
      and go: "login_password_ok cfg now token jti r ?name u (s1\<lparr>sv_db := d\<rparr>) = (resp, s')"
    using assms(1,2) lim get db1
    by (cases res) (auto simp: handleLogin_def Let_def with_db_def split: if_splits dest!: login_refused_result)
  from GetUserByUsername_Inr [OF get [unfolded u(1)]] obtain x where
    x: "tget u_username ?name (users (sv_db s)) = Some x" "u = scan_user x" by blast
  show ?thesis
    using login_password_success [OF go assms(2,3)] x u(2) same_dataD [OF same] same_data_trans [OF same]
    by (auto simp: admitted_def challenged_def)
qed

definition issued :: "request \<Rightarrow> auth_body response \<Rightarrow> bool" where
  "issued r resp \<longleftrightarrow> (\<exists>tok ck. resp = session_response r tok (Some ck))"

lemma mfa_finish_success:
  assumes "mfa_finish cfg now token jti r h u valid used s = (resp, s')" "rs_status resp < 300"
  shows "issued r resp"
proof -
  obtain t c s1 where iss: "issueSession cfg now token jti u (drop_challenge h s) = ((t, c), s1)" by (metis prod.collapse)
  have c: "c = None \<longrightarrow> t = None" using issueSession_result [OF iss] by blast
  show ?thesis
    using assms iss c by (cases t; cases c) (auto simp: mfa_finish_def issued_def writeError_def split: if_splits)
qed

lemma handleMFAComplete_status:
  "handleMFAComplete cfg now token jti r body s = (resp, s') \<Longrightarrow> rs_status resp < 300 \<Longrightarrow> issued r resp"
  by (auto simp: handleMFAComplete_def mfa_check_def Let_def split: option.splits if_splits prod.splits sum.splits
      elim!: with_dbE) (rule mfa_finish_success, assumption, assumption)+

lemma handleMFAComplete_success:
  assumes "handleMFAComplete cfg now token jti r (Some \<lparr>mr_token = t, mr_code = '''', mr_totp_code = code, mr_recovery_code = ''''\<rparr>) s = (resp, s')"
    and "rs_status resp < 300" "wantsAuthJSON r" "sv_mfa s (cr_hash (cf_crypto cfg) t) = Some c"
    and "tget u_id (mc_user_id c) (users (sv_db s)) = Some u" "db_wf (sv_db s)"
  shows "admitted cfg now (u_id u) resp s s' \<and> (\<forall>ts. tget ts_user_id (u_id u) (totp_secrets (sv_db s)) = Some ts \<longrightarrow>
    cr_totp (cf_crypto cfg) (to_unix now) (ts_secret ts) code)"
proof -
  obtain tok ck where r: "resp = session_response r tok (Some ck)" using handleMFAComplete_status [OF assms(1,2)] issued_def by blast
  have "sessions (sv_db s') = sessions (sv_db s) @ [session_row cfg now (ck_value ck) (u_id u)] \<and>
    (\<forall>ts. tget ts_user_id (u_id u) (totp_secrets (sv_db s)) = Some ts \<longrightarrow> cr_totp (cf_crypto cfg) (to_unix now) (ts_secret ts) code)"
  proof (cases rule: handleMFAComplete_reaches [OF assms(1)])
    case 1
    then show ?thesis using r by simp
  next
    case (2 req c' u' ts s1)
    have "c' = c" "u' = u" using 2(1,2,4) assms(4,5) by auto
    moreover have wf: "db_wf (sv_db s1)" using assms(6) same_dataD [OF 2(7)] by simp
    ultimately show ?thesis
      using mfa_check_result [OF 2(8) wf] 2(1,5) r same_dataD [OF 2(7)] by (auto simp: second_factor_def mfa_code_def)
  qed
  then show ?thesis using admitted_session [OF assms(3) r] by blast
qed


section \<open>The profile\<close>

lemma config_Load_stdin: "config_Load env p w = (Inr prof, w') \<Longrightarrow> wo_stdin w' = wo_stdin w"
  by (auto simp: config_Load_def config_path_of_def cbind_Inr on_host_def split: option.splits prod.splits if_splits)

lemma on_host_err: "on_host m w = (r, w') \<Longrightarrow> wo_err w' = wo_err w"
  by (auto simp: on_host_def split: prod.splits)

lemma ctry_Inr [simp]: "ctry m w = (Inr r, w') \<longleftrightarrow> m w = (r, w')"
  by (simp add: ctry_def split: prod.split)

lemma config_err:
  "config_Load env p w = (Inr prof, w') \<Longrightarrow> wo_err w' = wo_err w"
  "config_Save env prof' p w = (Inr u, w') \<Longrightarrow> wo_err w' = wo_err w"
  by (auto simp: config_Load_def config_Save_def config_path_of_def cbind_Inr split: option.splits if_splits dest!: on_host_err)

lemma config_Save_Inr:
  assumes "config_Save env prof '''' w = (Inr u, w')" "config_Path env = Inr path"
  shows "file_text (wo_host w') path = Some (ce_show env prof)"
proof -
  obtain h h' where "os_write_file path (ce_show env prof) h = (Inr u, h')" "wo_host w' = h'"
    using assms by (auto simp: config_Save_def config_path_of_def cbind_Inr on_host_def split: prod.splits sum.splits)
  then show ?thesis using wrote_text(1) [OF write_ok] by blast
qed

section \<open>The client's part\<close>

lemma login_env_wire [simp]:
  "login_env (Json (writeAuthData t)) = Some (tr_access_token t, tr_mfa_required t, tr_mfa_token t)"
  by (simp add: login_env_def writeAuthData_def omit_empty_def object_field_def str_field_def bool_field_def field_def
      as_object_def byte_def)

lemma admitted_wire:
  assumes "admitted cfg now i a s s'"
  shows "\<exists>raw (t :: auth_token_response). sessions (sv_db s') = sessions (sv_db s) @ [session_row cfg now raw i] \<and> \<not> tr_mfa_required t \<and>
    cc_cookie (captureSessionCookie (wire_answer dw a) c) = ''helling_session='' @ raw \<and>
    login_env (hs_body (wire_answer dw a)) = Some (tr_access_token t, tr_mfa_required t, tr_mfa_token t)"
proof -
  obtain ck t where "rs_cookie a = Some ck" "rs_payload a = Body (TokenBody t)" "\<not> tr_mfa_required t"
      "sessions (sv_db s') = sessions (sv_db s) @ [session_row cfg now (ck_value ck) i]"
    using assms unfolding admitted_def by auto
  then show ?thesis
    by - (rule exI [of _ "ck_value ck"], rule exI [of _ t], simp add: wire_answer_def captureSessionCookie_def wire_body_def)
qed

text \<open>The code \<open>code\<close> is good at \<open>now\<close> for the TOTP secret of the user, where one is enabled.\<close>

definition totp_given :: "config \<Rightarrow> gotime \<Rightarrow> int \<Rightarrow> string \<Rightarrow> db \<Rightarrow> bool" where
  "totp_given cfg now i code d \<longleftrightarrow> (\<forall>ts. tget ts_user_id i (totp_secrets d) = Some ts \<longrightarrow> ts_enabled ts \<longrightarrow>
     cr_totp (cf_crypto cfg) (to_unix now) (ts_secret ts) code)"

lemma login_exchange:
  assumes "hellingd cfg dw (client_request c ''POST'' ''/api/v1/auth/login''
      (Some (JObj [(''username'', JStr name), (''password'', JStr pw)])) []) s = (Some resp, s')"
    and "hs_status resp < 300" "cc_api c = ''http://helling''"
  shows "\<exists>a u now token. resp = wire_answer dw a \<and> tget u_username (trim_space name) (users (sv_db s)) = Some u \<and>
    cr_verify (cf_crypto cfg) (u_password_hash u) pw \<and>
    (admitted cfg now (u_id u) a s s' \<and> totp_given cfg now (u_id u) code (sv_db s) \<or> challenged cfg token (u_id u) a s s')"
proof -
  let ?p = "''/api/v1/auth/login''"
  let ?r = "wire_request dw (client_request c ''POST'' ?p (Some (JObj [(''username'', JStr name), (''password'', JStr pw)])) [])"
  have b: "login_request (Some (Json (JObj [(''username'', JStr name), (''password'', JStr pw)]))) = Some (name, pw)"
    by (simp add: login_request_def wire_object_def str_field_def field_def byte_def)
  have r: "rq_method ?r = ''POST''" "rq_path ?r = ?p" using assms(3) by (simp_all add: wire_simps)
  have "wire dw (handleLogin cfg (dw_now dw ?p) (dw_token dw ?p) (dw_jti dw ?p) ?r (Some (name, pw)) s) = (Some resp, s')"
    using assms(1) by (simp add: hellingd_def r Let_def b)
  then obtain a where a: "handleLogin cfg (dw_now dw ?p) (dw_token dw ?p) (dw_jti dw ?p) ?r (Some (name, pw)) s = (a, s')"
      and w: "resp = wire_answer dw a" using wire_answered by blast
  have "rs_status a < 300" "wantsAuthJSON ?r" using assms(2) w r by (simp_all add: wantsAuthJSON_def has_prefix_def)
  from handleLogin_success [OF a this] show ?thesis using w unfolding totp_given_def by blast
qed

lemma mfa_exchange:
  assumes "hellingd cfg dw (client_request c ''POST'' ''/api/v1/auth/mfa/complete''
      (Some (JObj [(''mfa_token'', JStr t), (''totp_code'', JStr code)])) []) s = (Some resp, s')"
    and "hs_status resp < 300" "cc_api c = ''http://helling''" "sv_mfa s (cr_hash (cf_crypto cfg) t) = Some ch"
    and "tget u_id (mc_user_id ch) (users (sv_db s)) = Some u" "db_wf (sv_db s)"
  shows "\<exists>a now. resp = wire_answer dw a \<and> admitted cfg now (u_id u) a s s' \<and> totp_given cfg now (u_id u) code (sv_db s)"
proof -
  let ?p = "''/api/v1/auth/mfa/complete''"
  let ?r = "wire_request dw (client_request c ''POST'' ?p (Some (JObj [(''mfa_token'', JStr t), (''totp_code'', JStr code)])) [])"
  let ?req = "\<lparr>mr_token = t, mr_code = '''', mr_totp_code = code, mr_recovery_code = ''''\<rparr>"
  have b: "mfaCompleteRequest (Some (Json (JObj [(''mfa_token'', JStr t), (''totp_code'', JStr code)]))) = Some ?req"
    by (simp add: mfaCompleteRequest_def wire_object_def str_field_def field_def byte_def)
  have r: "rq_method ?r = ''POST''" "rq_path ?r = ?p" using assms(3) by (simp_all add: wire_simps)
  have "wire dw (handleMFAComplete cfg (dw_now dw ?p) (dw_token dw ?p) (dw_jti dw ?p) ?r (Some ?req) s) = (Some resp, s')"
    using assms(1) by (simp add: hellingd_def r Let_def b)
  then obtain a where a: "handleMFAComplete cfg (dw_now dw ?p) (dw_token dw ?p) (dw_jti dw ?p) ?r (Some ?req) s = (a, s')"
      and w: "resp = wire_answer dw a" using wire_answered by blast
  have "rs_status a < 300" "wantsAuthJSON ?r" using assms(2) w r by (simp_all add: wantsAuthJSON_def has_prefix_def)
  from handleMFAComplete_success [OF a this assms(4-6)] show ?thesis using w unfolding totp_given_def by blast
qed

lemma challenged_wire:
  assumes "challenged cfg token i a s s'"
  shows "\<exists>raw c. sv_mfa s' (cr_hash (cf_crypto cfg) raw) = Some c \<and> mc_user_id c = i \<and> same_data (sv_db s) (sv_db s') \<and>
    login_env (hs_body (wire_answer dw a)) = Some ('''', True, raw)"
  using assms unfolding challenged_def by (auto simp: wire_answer_def wire_body_def)

text \<open>What a login that succeeded says of the database before and after it.\<close>

definition logged_in :: "config \<Rightarrow> string \<Rightarrow> string \<Rightarrow> string \<Rightarrow> string \<Rightarrow> server \<Rightarrow> server \<Rightarrow> bool" where
  "logged_in cfg name pw code cookie s s' \<longleftrightarrow> (\<exists>u raw now. tget u_username name (users (sv_db s)) = Some u \<and>
     cr_verify (cf_crypto cfg) (u_password_hash u) pw \<and> totp_given cfg now (u_id u) code (sv_db s) \<and>
     cookie = ''helling_session='' @ raw \<and>
     sessions (sv_db s') = sessions (sv_db s) @ [session_row cfg now raw (u_id u)])"

lemma client_Do_Inr:
  assumes "client_Do env c meth path body w = (Inr (raw, c'), w')" "ce_send env = hellingd cfg dw"
  obtains resp s where "hellingd cfg dw (client_request c meth path body []) (wo_net w) = (Some resp, s)" "hs_status resp < 300"
    "raw = hs_body resp" "c' = captureSessionCookie resp c" "w' = w\<lparr>wo_net := s\<rparr>"
  using exchange_Inr [of env c "client_request c meth path body []" w raw c' w'] assms
  by (auto simp: client_Do_def DoWithHeaders_def)

lemma readLine_Inr: "readLine p w = (Inr line, w') \<Longrightarrow>
    line = trim_crlf (fst (read_string (wo_stdin w))) \<and> wo_net w' = wo_net w \<and> wo_host w' = wo_host w"
  by (auto simp: readLine_def cbind_def cprint_def split: prod.splits)

lemma performLogin_sound:
  assumes "performLogin env c name pw w = (Inr (access, c'), w')" "ce_send env = hellingd cfg dw"
    and "cc_api c = ''http://helling''" "db_wf (sv_db (wo_net w))"
  shows "logged_in cfg (trim_space name) pw (trim_crlf (fst (read_string (wo_stdin w)))) (cc_cookie c') (wo_net w) (wo_net w') \<and>
    wo_host w' = wo_host w"
proof -
  let ?code = "trim_crlf (fst (read_string (wo_stdin w)))"
  obtain raw c1 w1 acc required t where d: "client_Do env c ''POST'' ''/api/v1/auth/login''
      (Some (JObj [(''username'', JStr name), (''password'', JStr pw)])) w = (Inr (raw, c1), w1)"
    and e: "login_env raw = Some (acc, required, t)"
    and rest: "(if \<not> required then cret (acc, c1) else cbind (readLine ''TOTP or recovery code: '') (\<lambda>totp.
       cbind (client_Do env c1 ''POST'' ''/api/v1/auth/mfa/complete''
         (Some (JObj [(''mfa_token'', JStr t), (''totp_code'', JStr totp)]))) (\<lambda>(raw, cli).
       cbind (csome ''mfa: decode'' (mfa_env raw)) (\<lambda>access. cret (access, cli))))) w1 = (Inr (access, c'), w')"
    using assms(1) by (auto simp: performLogin_def cbind_Inr simp del: cret_Inr)
  obtain resp s1 where h: "hellingd cfg dw (client_request c ''POST'' ''/api/v1/auth/login''
      (Some (JObj [(''username'', JStr name), (''password'', JStr pw)])) []) (wo_net w) = (Some resp, s1)"
    and st: "hs_status resp < 300" and r: "raw = hs_body resp" "c1 = captureSessionCookie resp c" "w1 = w\<lparr>wo_net := s1\<rparr>"
    using client_Do_Inr [OF d assms(2)] by blast
  obtain a u now token where a: "resp = wire_answer dw a" "tget u_username (trim_space name) (users (sv_db (wo_net w))) = Some u"
      "cr_verify (cf_crypto cfg) (u_password_hash u) pw"
    and cases: "admitted cfg now (u_id u) a (wo_net w) s1 \<and> totp_given cfg now (u_id u) ?code (sv_db (wo_net w)) \<or>
      challenged cfg token (u_id u) a (wo_net w) s1"
    using login_exchange [OF h st assms(3)] by blast
  from cases show ?thesis
  proof (elim disjE conjE)
    assume ad: "admitted cfg now (u_id u) a (wo_net w) s1" and tg: "totp_given cfg now (u_id u) ?code (sv_db (wo_net w))"
    obtain ck where k: "sessions (sv_db s1) = sessions (sv_db (wo_net w)) @ [session_row cfg now ck (u_id u)]" "\<not> required"
        "cc_cookie c1 = ''helling_session='' @ ck"
      using admitted_wire [OF ad, of dw c] e r a(1) by auto
    then have "c' = c1 \<and> w' = w1" using rest by simp
    then show ?thesis using k a(2,3) tg r(3) unfolding logged_in_def by auto
  next
    assume "challenged cfg token (u_id u) a (wo_net w) s1"
    from challenged_wire [OF this, of dw] obtain ch where ch: "sv_mfa s1 (cr_hash (cf_crypto cfg) t) = Some ch" "mc_user_id ch = u_id u"
      and same: "same_data (sv_db (wo_net w)) (sv_db s1)" and req: required
      using e r a(1) by auto
    have ids: "tget u_id (mc_user_id ch) (users (sv_db s1)) = Some u"
      using tget_mem [of u_id "users (sv_db (wo_net w))" u] tget_Some [OF a(2)] assms(4) ch(2) same_dataD(1) [OF same]
      by (simp add: wf_defs)
    have wf: "db_wf (sv_db s1)" using assms(4) same_dataD(6) [OF same] by simp
    obtain line w2 raw2 w3 where l: "readLine ''TOTP or recovery code: '' w1 = (Inr line, w2)"
      and d2: "client_Do env c1 ''POST'' ''/api/v1/auth/mfa/complete'' (Some (JObj [(''mfa_token'', JStr t), (''totp_code'', JStr line)])) w2
        = (Inr (raw2, c'), w3)" and w': "w' = w3"
      using rest req by (auto simp: cbind_Inr)
    note rl = readLine_Inr [OF l]
    have line: "line = ?code" "wo_net w2 = s1" "wo_host w2 = wo_host w" using rl by (simp_all add: r(3))
    obtain resp2 s2 where h2: "hellingd cfg dw (client_request c1 ''POST'' ''/api/v1/auth/mfa/complete''
        (Some (JObj [(''mfa_token'', JStr t), (''totp_code'', JStr line)])) []) s1 = (Some resp2, s2)"
      and st2: "hs_status resp2 < 300" and c': "c' = captureSessionCookie resp2 c1" and w3: "w3 = w2\<lparr>wo_net := s2\<rparr>"
      using client_Do_Inr [OF d2 assms(2)] line(2) by metis
    have "cc_api c1 = ''http://helling''" using assms(3) r(2) by simp
    from mfa_exchange [OF h2 st2 this ch(1) ids wf] obtain a2 now2 where a2: "resp2 = wire_answer dw a2"
      "admitted cfg now2 (u_id u) a2 s1 s2" "totp_given cfg now2 (u_id u) line (sv_db s1)" by blast
    obtain ck where "sessions (sv_db s2) = sessions (sv_db s1) @ [session_row cfg now2 ck (u_id u)]" "cc_cookie c' = ''helling_session='' @ ck"
      using admitted_wire [OF a2(2), of dw c1] a2(1) c' by auto
    then show ?thesis
      using a(2,3) a2(3) line w' w3 same_dataD [OF same] unfolding logged_in_def totp_given_def by auto
  qed
qed

section \<open>From the command line to the database and the profile\<close>

text \<open>C4: when \<open>helling auth login\<close> succeeds against the daemon, the name (its blanks trimmed) is a user's, the password
  verifies, the line typed is a good code where that user has TOTP enabled, the sessions have gained one row, of that
  user, and the profile on disk holds the cookie whose hash is the key of that row.\<close>

theorem cli_login_sound:
  assumes "runAuthLogin env name pw w = (Inr u, w')" "name \<noteq> ''''" "pw \<noteq> ''''" "ce_send env = hellingd cfg dw"
    and "ce_api env = ''http+unix://'' @ sock" "config_Path env = Inr path" "db_wf (sv_db (wo_net w))"
  shows "\<exists>prof. file_text (wo_host w') path = Some (ce_show env prof) \<and> pr_api prof = ce_api env \<and>
    logged_in cfg (trim_space name) pw (trim_crlf (fst (read_string (wo_stdin w)))) (pr_cookie prof) (wo_net w) (wo_net w')"
proof -
  have api: "ce_api env \<noteq> ''''" by (simp add: assms(5))
  obtain prof w1 c access c' w2 w3 where l: "config_Load env '''' w = (Inr prof, w1)"
    and n: "client_New env (empty_profile\<lparr>pr_api := ce_api env\<rparr>) (ce_api env) = Inr c"
    and p: "performLogin env c (trim_space name) pw w1 = (Inr (access, c'), w2)"
    and s: "config_Save env (prof\<lparr>pr_api := ce_api env, pr_access := access, pr_cookie := cc_cookie c'\<rparr>) '''' w2 = (Inr (), w3)"
    and o: "cprint [Raw (''Logged in as '' @ trim_space name @ '' at '' @ ce_api env @ ''.'' @ [CHR 0x0A])] w3 = (Inr u, w')"
    using assms(1-3) api
    by (auto simp: runAuthLogin_def resolve_api_def promptIfEmpty_def promptSecretIfEmpty_def cbind_Inr Let_def)
  have w1: "wo_net w1 = wo_net w" "wo_stdin w1 = wo_stdin w"
    using config_Load_Inr(2) [OF l] config_Load_stdin [OF l] by simp_all
  have "cc_api c = ''http://helling''" using socket_client [OF n] assms(5) by simp
  from performLogin_sound [OF p assms(4) this] assms(7) w1
  have li: "logged_in cfg (trim_space name) pw (trim_crlf (fst (read_string (wo_stdin w)))) (cc_cookie c') (wo_net w) (wo_net w2)"
    by simp
  have w': "wo_host w' = wo_host w3" "wo_net w' = wo_net w2"
    using o silent_net [OF silent_config(2) s] by (auto simp: cprint_def)
  show ?thesis
    using li config_Save_Inr [OF s assms(6)] w' by (intro exI conjI) auto
qed

text \<open>A command line of Alice, who has TOTP, with a daemon of the example state behind its socket.\<close>

definition demo_draws :: draws where
  "demo_draws = \<lparr>dw_source = ''192.0.2.1'', dw_now = (\<lambda>_. 1000 * second), dw_token = (\<lambda>_. Some ''tok''), dw_jti = (\<lambda>_. ''j''),
     dw_uuid = Some ''uuid'', dw_time = (\<lambda>_. ''1970-01-01T00:16:40Z''), dw_rest = (\<lambda>_ s. (None, s))\<rparr>"

definition demo_show :: "profile \<Rightarrow> string" where
  "demo_show prof = concat (map (\<lambda>l. l @ [CHR 0x0A]) [pr_api prof, pr_cookie prof, pr_access prof, pr_token prof])"

definition demo_yaml :: "string \<Rightarrow> profile option" where
  "demo_yaml s = (case split_char (CHR 0x0A) s of
     [a, c, j, t, _] \<Rightarrow> Some \<lparr>pr_api = a, pr_cookie = c, pr_access = j, pr_token = t\<rparr> | _ \<Rightarrow> None)"

definition demo_outside :: "server outside" where
  "demo_outside = \<lparr>ce_getenv = (\<lambda>k. if k = ''XDG_CONFIG_HOME'' then ''/c'' else if k = ''HELLING_API'' then ''http+unix:///s'' else ''''),
     ce_home = None, ce_api = ''http+unix:///s'', ce_output = ''table'', ce_yaml = demo_yaml, ce_show = demo_show,
     ce_url_ok = (\<lambda>_. True), ce_terminal = False, ce_read_password = (\<lambda>cs. (Inl ''not a terminal'', cs)),
     ce_base64 = (\<lambda>_. None), ce_rfc3339 = format_int, ce_send = hellingd demo_cfg demo_draws\<rparr>"

definition demo_world :: "server \<Rightarrow> server world" where
  "demo_world s = \<lparr>wo_host = demo_empty_host, wo_stdin = [''S33'' @ [CHR 0x0A]], wo_out = [], wo_err = [], wo_net = s\<rparr>"

theorem cli_login_sound_witness:
  "\<exists>prof. file_text (wo_host (snd (runAuthLogin demo_outside ''alice'' ''secret'' (demo_world demo_server)))) ''/c/helling/config.yaml''
      = Some (demo_show prof) \<and>
    logged_in demo_cfg ''alice'' ''secret'' ''S33'' (pr_cookie prof) demo_server
      (wo_net (snd (runAuthLogin demo_outside ''alice'' ''secret'' (demo_world demo_server))))"
proof -
  let ?run = "runAuthLogin demo_outside ''alice'' ''secret'' (demo_world demo_server)"
  have "fst ?run = Inr ()" by code_simp
  then have ok: "?run = (Inr (), snd ?run)" by (metis prod.collapse)
  have facts: "ce_send demo_outside = hellingd demo_cfg demo_draws" "ce_api demo_outside = ''http+unix://'' @ ''/s''"
    "config_Path demo_outside = Inr ''/c/helling/config.yaml''" "ce_show demo_outside = demo_show"
    by (simp_all add: demo_outside_def) code_simp
  have w: "wo_net (demo_world demo_server) = demo_server" "db_wf (sv_db demo_server)" "trim_space ''alice'' = ''alice''"
    "trim_crlf (fst (read_string (wo_stdin (demo_world demo_server)))) = ''S33''"
    by (simp_all add: demo_world_def demo_server_def demo_db_wf) code_simp+
  from cli_login_sound [OF ok _ _ facts(1-3)] show ?thesis by (auto simp: w facts(4))
qed

section \<open>Logout\<close>

lemma auth_keeps_cookie: "authMiddleware cfg now r s = (Inr r1, s1) \<Longrightarrow> rq_cookie r1 = rq_cookie r"
  by (auto simp: authMiddleware_def Let_def elim!: with_dbE split: sum.splits if_splits option.splits prod.splits)

lemma through_logout:
  assumes "through (authMiddleware cfg now) (handleLogout cfg) r s = (resp, s')" "rs_status resp < 300" "rq_cookie r = Some v" "v \<noteq> ''''"
  shows "session_held (sv_db s') (cr_hash (cf_crypto cfg) v) = None"
proof -
  obtain a s1 where a: "authMiddleware cfg now r s = (a :: auth_body response + request, s1)" by fastforce
  obtain r1 where r1: "a = Inr r1"
    using assms(1,2) a by (cases a) (auto simp: through_def dest!: auth_refusal)
  have ck: "rq_cookie r1 = Some v" using auth_keeps_cookie [OF a [unfolded r1]] assms(3) by simp
  have "handleLogout cfg r1 s1 = (resp, s')" using assms(1) a r1 by (simp add: through_def)
  then obtain u d where "DeleteSession (cr_hash (cf_crypto cfg) v) (sv_db s1) = (Inr u, d)" "sv_db s' = d"
    using assms(2,4) ck by (auto simp: handleLogout_def elim!: with_dbE split: sum.splits)
  then show ?thesis
    by (cases rule: delete_session_cases [of "cr_hash (cf_crypto cfg) v" "sv_db s1"])
      (auto simp: DeleteSession_def session_held_delete)
qed

text \<open>C5: when \<open>helling auth logout\<close> succeeds without a warning the daemon no longer holds the session of the profile's
  cookie, and the profile on disk has neither cookie nor access token.  What \<open>HELLING_TOKEN\<close> overrode is written to it.\<close>

theorem cli_logout_ends:
  assumes "auth_logout env w = (Inr u, w')" "wo_err w' = wo_err w" "config_Load env '''' w = (Inr prof, w1)"
    and "pr_api prof = ''http+unix://'' @ sock" "pr_cookie prof = ''helling_session='' @ v" "v \<noteq> ''''"
    and "ce_send env = hellingd cfg dw" "config_Path env = Inr path"
  shows "session_held (sv_db (wo_net w')) (cr_hash (cf_crypto cfg) v) = None \<and>
    file_text (wo_host w') path = Some (ce_show env (prof\<lparr>pr_access := '''', pr_cookie := ''''\<rparr>))"
proof -
  obtain c r w2 w3 w4 where n: "client_New env prof '''' = Inr c"
    and d: "client_Do env c ''POST'' ''/api/v1/auth/logout'' None w1 = (r, w2)"
    and warn: "(case r of Inl _ \<Rightarrow> cwarn ''warn: server logout failed'' | Inr _ \<Rightarrow> cret ()) w2 = (Inr (), w3)"
    and s: "config_Save env (prof\<lparr>pr_access := '''', pr_cookie := ''''\<rparr>) '''' w3 = (Inr (), w4)"
    and p: "cprintln (Raw ''Logged out.'') w4 = (Inr u, w')"
    using assms(1,3,4) by (auto simp: auth_logout_def cbind_Inr)
  have err: "wo_err w1 = wo_err w" "wo_err w4 = wo_err w3" "wo_err w' = wo_err w4"
    using config_err(1) [OF assms(3)] config_err(2) [OF s] p by (auto simp: cprintln_def cprint_def)
  have err2: "wo_err w2 = wo_err w1" using d by (auto simp: client_Do_def DoWithHeaders_def exchange_def split: if_splits prod.splits option.splits)
  have "wo_err w3 = wo_err w2 @ [''warn: server logout failed'']" if "r = Inl e" for e
    using warn that by (auto simp: cwarn_def)
  then obtain raw c' where r: "r = Inr (raw, c')" using err err2 assms(2) by (cases r) auto
  have w3: "w3 = w2" using warn r by simp
  have api: "cc_api c = ''http://helling''" using socket_client [OF n] assms(4) by simp
  obtain resp s1 where h: "hellingd cfg dw (client_request c ''POST'' ''/api/v1/auth/logout'' None []) (wo_net w1) = (Some resp, s1)"
    and st: "hs_status resp < 300" and w2: "w2 = w1\<lparr>wo_net := s1\<rparr>" using client_Do_Inr [OF d [unfolded r] assms(7)] by blast
  let ?p = "''/api/v1/auth/logout''"
  let ?r = "wire_request dw (client_request c ''POST'' ?p None [])"
  have rq: "rq_method ?r = ''POST''" "rq_path ?r = ?p" using api by (simp_all add: wire_simps)
  have ck: "rq_cookie ?r = Some v"
    using client_credentials(2) [OF n] assms(5)
    by (simp add: wire_request_def Let_def wire_cookie_def map_of_request cut_prefix_def has_prefix_def)
  have "wire dw (through (authMiddleware cfg (dw_now dw ?p)) (handleLogout cfg) ?r (wo_net w1)) = (Some resp, s1)"
    using h by (simp add: hellingd_def rq Let_def)
  then obtain a where a: "through (authMiddleware cfg (dw_now dw ?p)) (handleLogout cfg) ?r (wo_net w1) = (a, s1)"
    and "resp = wire_answer dw a" using wire_answered by blast
  then have "session_held (sv_db s1) (cr_hash (cf_crypto cfg) v) = None"
    using through_logout [OF a _ ck assms(6)] st by simp
  moreover have "wo_net w' = s1" "wo_host w' = wo_host w4"
    using silent_net [OF silent_config(2) s] p w3 w2 by (auto simp: cprintln_def cprint_def)
  ultimately show ?thesis using config_Save_Inr [OF s assms(8)] by simp
qed

text \<open>Root, logged in.\<close>

definition demo_profile :: profile where
  "demo_profile = \<lparr>pr_api = ''http+unix:///s'', pr_cookie = ''helling_session=cookie'', pr_access = '''', pr_token = ''''\<rparr>"

definition demo_session :: "server world" where
  "demo_session = (demo_world demo_server2)\<lparr>wo_host := demo_empty_host\<lparr>ho_files :=
     (\<lambda>p. None)(''/c/helling/config.yaml'' \<mapsto> Regular (demo_show demo_profile))\<rparr>\<rparr>"

theorem cli_logout_ends_witness:
  "session_held (sv_db (wo_net (snd (auth_logout demo_outside demo_session)))) ''h:cookie'' = None \<and>
   file_text (wo_host (snd (auth_logout demo_outside demo_session))) ''/c/helling/config.yaml''
     = Some (demo_show (demo_profile\<lparr>pr_cookie := ''''\<rparr>))"
proof -
  let ?run = "auth_logout demo_outside demo_session"
  let ?load = "config_Load demo_outside '''' demo_session"
  have "fst ?run = Inr ()" "fst ?load = Inr demo_profile" by code_simp+
  then have ok: "?run = (Inr (), snd ?run)" "?load = (Inr demo_profile, snd ?load)" by (metis prod.collapse)+
  have err: "wo_err (snd ?run) = wo_err demo_session" by code_simp
  have facts: "ce_send demo_outside = hellingd demo_cfg demo_draws" "config_Path demo_outside = Inr ''/c/helling/config.yaml''"
    "ce_show demo_outside = demo_show" by (simp_all add: demo_outside_def) code_simp
  have prof: "pr_api demo_profile = ''http+unix://'' @ ''/s''" "pr_cookie demo_profile = ''helling_session='' @ ''cookie''"
    "''cookie'' \<noteq> ''''" "demo_profile\<lparr>pr_access := '''', pr_cookie := ''''\<rparr> = demo_profile\<lparr>pr_cookie := ''''\<rparr>"
    by (simp_all add: demo_profile_def)
  show ?thesis
    using cli_logout_ends [OF ok(1) err ok(2) prof(1-3) facts(1,2)] by (simp add: facts(3) prof(4))
qed

section \<open>The theorems on commands at this state\<close>

text \<open>A network that remembers what it is asked and never answers.\<close>

definition log_outside :: "api_request list outside" where
  "log_outside = \<lparr>ce_getenv = ce_getenv demo_outside, ce_home = None, ce_api = '''', ce_output = ''table'', ce_yaml = demo_yaml,
     ce_show = demo_show, ce_url_ok = (\<lambda>_. True), ce_terminal = False, ce_read_password = (\<lambda>cs. (Inl ''not a terminal'', cs)),
     ce_base64 = (\<lambda>_. None), ce_rfc3339 = format_int, ce_send = (\<lambda>rq log. (None, log @ [rq]))\<rparr>"

definition log_of :: "command \<Rightarrow> api_request list" where
  "log_of cmd = wo_net (snd (run_command log_outside cmd
     \<lparr>wo_host = demo_empty_host, wo_stdin = [], wo_out = [], wo_err = [], wo_net = []\<rparr>))"


definition demo_client :: api_client where
  "demo_client = projr (client_New demo_outside (demo_profile\<lparr>pr_token := ''helling_x''\<rparr>) '''')"

definition demo_admitted :: request where
  "demo_admitted = projr (fst (authMiddleware demo_cfg (1000 * second)
     (wire_request demo_draws (client_request demo_client ''GET'' ''/api/v1/auth/me'' None [])) demo_server2 :: (auth_body response + request) \<times> server))"

text \<open>Alice's token is in the profile, and root's session.\<close>

theorem session_shadows_token_witness:
  "rq_scopes demo_admitted = None \<and> (\<exists>row expires. rq_user demo_admitted = Some (scan_user row) \<and>
     session_held demo_db2 ''h:cookie'' = Some (u_id row, expires))"
proof -
  let ?prof = "demo_profile\<lparr>pr_token := ''helling_x''\<rparr>"
  let ?m = "authMiddleware demo_cfg (1000 * second)
    (wire_request demo_draws (client_request demo_client ''GET'' ''/api/v1/auth/me'' None [])) demo_server2 :: (auth_body response + request) \<times> server"
  have prof: "pr_cookie ?prof = ''helling_session='' @ ''cookie''" "''cookie'' \<noteq> ''''" by (simp_all add: demo_profile_def)
  have c: "client_New demo_outside ?prof '''' = Inr demo_client" by code_simp
  have "isl (fst ?m) = False" by code_simp
  then have m: "?m = (Inr demo_admitted, snd ?m)" unfolding demo_admitted_def by (cases ?m) (auto simp: isl_def split: sum.splits)
  from session_shadows_token [OF prof c m] show ?thesis by (auto simp: demo_server2_def)
qed

theorem token_flags_lost_witness:
  "\<exists>ts tok. api_tokens (sv_db (wo_net (snd (token_create demo_outside ''ci'' ''write'' 3600 demo_session)))) = ts @ [tok] \<and>
    length ts = 1 \<and> at_name tok = ''ci'' \<and> at_scopes tok = ''read'' \<and> at_expires_at tok = None"
proof -
  let ?run = "token_create demo_outside ''ci'' ''write'' 3600 demo_session"
  have "fst ?run = Inr ()" by code_simp
  then have ok: "?run = (Inr (), snd ?run)" by (metis prod.collapse)
  have facts: "ce_send demo_outside = hellingd demo_cfg demo_draws" "ce_getenv demo_outside ''HELLING_API'' = ''http+unix://'' @ ''/s''"
    by (simp_all add: demo_outside_def)
  have "length (api_tokens (sv_db (wo_net demo_session))) = 1" by code_simp
  with token_flags_lost [OF ok facts] show ?thesis by simp
qed

theorem mfa_verify_fails_witness: "isl (fst (mfa_verify demo_outside ''123456'' demo_session))"
  by (rule mfa_verify_fails [of demo_outside demo_cfg demo_draws "''/s''"]) (simp_all add: demo_outside_def)

end
