(* ===== verification/Spec2Isabelle.thy ===== *)
theory Spec2Isabelle
  imports Server_Users_Props Server_Webhooks_Props Server_Schedules_Props Server_Firewall_Props Trust_Helper_Props
    Server_Instances_Props Server_Proxy_Props Server_Metrics Daemon_Config Key_Files Totp Cli_Login
begin

text \<open>
  Helling manages virtual machines and containers of one Incus host. This development verifies \<open>hellingd\<close>, its
  daemon (\<open>apps/hellingd\<close>, Go), the three privileged helpers it calls, and \<open>helling\<close>, the command-line client
  (\<open>apps/helling-cli\<close>, Go).

  \<^bold>\<open>The program.\<close> A client calls the HTTP API. A request passes middleware that finds out who it acts for
  (session cookie, JWT, API token or schedule-runner token) and whether that user may do it; a handler then
  validates it, works on an SQLite database through \<open>internal/store\<close>, calls Incus, \<open>systemctl\<close> or \<open>nft\<close>, and
  publishes an event and an audit record. Events go to browsers through a hub and to webhooks through an outbox
  in the database with a background dispatcher. A poller follows operations Incus runs. The daemon is
  unprivileged: units and firewall rules are installed by helpers that validate all they are given. Requests
  under \<open>/api/incus\<close> go to Incus through a reverse proxy, with the caller's own certificate or confined to their
  project. The command-line client keeps a profile with credentials on disk and sends one or two requests for
  each command.

  \<^bold>\<open>Conventions.\<close> A Go string is a list of bytes; \<open>time.Time\<close> an integer of nanoseconds, a database time one of
  seconds; an error is \<open>Inl\<close>. A record of tables is the database; an operation maps it to a result and a new
  database. Each statement consumes one element of \<open>faults\<close>, the list of I/O failures to come, so that a theorem
  about every database is one about every pattern of failures; a transaction takes its statements back. Files
  are a map from paths to inodes with a list of failures of its own (\<open>ho_faults\<close>), one per system call; where a
  write that fails matters (keys), it goes byte by byte and may leave any part of the text, or all of it when only
  closing the file fails. A run of the helper for certificates is done, fails, or fails after its change. Handlers take the request, an
  environment (clock, random ids as options, cryptography, network, Incus) and the state, and return response
  and new state. One handler, and one tick of the poller, reads the clock once, where the code may read it several times. A
  JSON body is what decoding gives, \<open>None\<close> when it fails; where client and daemon meet it is a document, decoded
  on each side by the fields its struct names.

  \<^bold>\<open>Theories, by part of the code.\<close>

  \<^item> \<open>Prelude\<close>, \<open>Go_Text\<close>: times, and the parts of \<open>strings\<close>, \<open>strconv\<close>, \<open>unicode/utf8\<close> the code relies on, with
    parsing as the inverse of printing. \<open>Service\<close>: the contract of a group of endpoints.
  \<^item> \<open>Tables\<close>, \<open>Store_Schema\<close>: tables, statements, transactions, the schema with its keys and references
    (\<open>db_wf\<close>), and the rules by which operations keep a predicate (\<open>keeps_intros\<close>).
  \<^item> \<open>Store_Accounts\<close> (\<open>store/users.go\<close>, \<open>sessions.go\<close>, \<open>api_tokens.go\<close>, \<open>totp.go\<close>), \<open>Store_Ops\<close>
    (\<open>operations.go\<close>, \<open>schedules.go\<close>, \<open>firewall.go\<close>, \<open>incus_certs.go\<close>, \<open>kubernetes.go\<close>, \<open>bmc.go\<close>),
    \<open>Store_Events\<close> and \<open>Store_Webhooks\<close> (\<open>events.go\<close>, \<open>webhooks.go\<close>): every operation; all keep \<open>db_wf\<close>.
    \<open>Webhook_Queue\<close>, \<open>Outbox_Lease\<close>: the outbox as a queue of leased jobs.
  \<^item> \<open>Totp\<close>, \<open>Rate_Limit\<close> (\<open>auth/\<close>), \<open>Credentials\<close> (the contract sessions and MFA challenges share).
  \<^item> \<open>Server_Core\<close>, \<open>Server_Auth\<close>, \<open>Server_Enrol\<close>, \<open>Server_Users\<close>, \<open>Server_Routes\<close> (\<open>server/middleware.go\<close>,
    \<open>auth_handlers.go\<close>, \<open>auth_ext_handlers.go\<close>, \<open>user_handlers.go\<close>, \<open>operation_handlers.go\<close>, \<open>server.go\<close>):
    authentication, login, MFA, setup, tokens, users; the theories ending in \<open>_Props\<close> hold what they guarantee.
  \<^item> \<open>Incus_Trust\<close> (\<open>incus/user_trust.go\<close>): per-user client certificates. \<open>Trust_Helper\<close>
    (\<open>incus/trust_helper.go\<close>): the helper that registers them, on a file tree with owners and permissions.
    \<open>Poller\<close> (\<open>poller/poller.go\<close>).
  \<^item> \<open>Server_Events\<close> (\<open>events_handlers.go\<close>): hub, replay and live stream. \<open>Webhook_Net\<close>, \<open>Webhook_Dispatch\<close>,
    \<open>Server_Webhooks\<close> (\<open>webhook_handlers.go\<close>, \<open>webhook_dispatch.go\<close>): where webhooks may go, delivery with
    retries, the endpoints.
  \<^item> \<open>Systemd_Units\<close> (\<open>systemd/\<close>), \<open>Server_Schedules\<close> (\<open>schedule_handlers.go\<close>): units, the helper that links
    them, schedules. The host is a file tree, a log of \<open>systemctl\<close> commands and a list of failures to come.
  \<^item> \<open>Firewall_Helper\<close> (\<open>firewall/helper.go\<close>), \<open>Server_Firewall\<close> (\<open>firewall_handlers.go\<close>): the validator in front
    of \<open>nft\<close>, and rules.
  \<^item> \<open>Incus_Client\<close> (\<open>incus/client.go\<close>, \<open>shape.go\<close>), \<open>Server_Instances\<close> (\<open>instance_handlers.go\<close>): the requests
    the daemon makes of Incus and the instance endpoints over them. \<open>Server_Proxy\<close> (\<open>proxy/proxy.go\<close> and its
    handlers): the reverse proxies, whom they act for, what they add to and take from a request, what they
    audit.
  \<^item> \<open>Server_Metrics\<close> (\<open>server/metrics.go\<close>): the registry of requests and its text. \<open>Daemon_Config\<close>
    (\<open>config/config.go\<close>, \<open>main.go\<close>): defaults, environment, validation, the settings \<open>main\<close> makes of them.
    \<open>Key_Files\<close> (\<open>auth/jwt.go\<close>, \<open>store/secrets.go\<close>, \<open>incus/certificates.go\<close>): keys that are read from files or
    made.
  \<^item> \<open>Go_Json\<close>, \<open>Cli_Client\<close> (\<open>helling-cli/internal\<close> and the prompts), \<open>Cli_Commands\<close> (\<open>cmd/*.go\<close>, \<open>main.go\<close>):
    profile, HTTP client and every command, as maps of a world of files, standard input, output and a network.
    \<open>Cli_Props\<close>: what commands send. \<open>Cli_Daemon\<close>, \<open>Cli_Login\<close>: the network is the daemon, that is the handlers
    of \<open>Server_Auth\<close> and \<open>Server_Enrol\<close> behind the middleware of their routes, with the client's headers and
    documents as they decode them.

  \<^bold>\<open>What is proved.\<close> Login and MFA hand out sessions for verified credentials only, middleware lets a request
  through for exactly the user of a credential valid now, logout and deletion end access, challenges and
  recovery codes work once, no token carries more than its creator had, and the route table puts every mutating
  route behind such a check (\<open>Server_Auth_Props\<close>, \<open>Server_Enrol_Props\<close>, \<open>Server_Users_Props\<close>, \<open>Server_Routes\<close>).
  Provisioning replaces a certificate in the database and in Incus together, and a failure takes it back as far as
  the helper lets it. An event queues one job for each subscriber, a claimed job is
  not handed out again for two minutes, every job is settled after one more round than there are retry delays, a
  webhook reaches no blocked address, a resumed stream gets what it missed unless that is 2000 events or more. The unit helper writes canonical
  units only, and manager with helper implement an abstract board of schedules; the firewall helper accepts
  exactly the commands of a grammar, always decides, and nothing else reaches \<open>nft\<close>; every stored schedule,
  webhook and firewall rule stays valid through any sequence of requests. The helper for certificates serves
  only what its caller may ask; instance requests and the proxies stay in the project of the user, with the
  certificate of the user or not at all; a change Incus accepts leaves a pending operation when the store can take it,
  and a mutation through the proxy leaves an audit record unless the answer breaks off. A
  configuration that loads is one the server accepts; a key once made is the one every later start loads, or it
  fails; the metrics are a summary of the requests served.

  Client and daemon are composed: a login that succeeds goes from the words on the command line to one new
  session row of the right user, with the second factor where there is one, and to the profile on disk holding
  its cookie; a logout that reports no trouble takes both away; a stream of events is printed as it was sent, up to
  the first event too long for the client's scanner; the requests of all but four commands reach a route. Some theorems are about what the code
  does against its purpose: a retry lost when it cannot be stored, every IPv4 address blocked, a certificate
  lost by a refused deletion, a foreign firewall rule deleted for a prefix of its handle, a certificate
  authority half written, client and daemon naming the same field differently (\<open>auth token create\<close>, \<open>auth mfa
  verify\<close>), a token counting for nothing beside a session.

  \<^bold>\<open>Interfaces.\<close> \<open>credential_store\<close> is interpreted by the sessions table and the map of challenges, \<open>throttle\<close>
  by the limiter, \<open>lease_queue\<close> and \<open>acked_queue\<close> by the outbox, \<open>project_trust\<close> by no manager and the Incus
  one, \<open>service\<close> by the webhook, schedule and firewall endpoints, \<open>key_store\<close> by the signing key, the age
  identity and the certificate authority. The client needs no locale: \<open>sends\<close> is the contract of a command for
  whatever answers it.

  \<^bold>\<open>Bounds.\<close> \<open>read_path\<close> follows at most 40 symbolic links, as Linux does; \<open>replay_pages\<close> sends at most 2000
  events, as the code does, and ends since each page is nonempty. The loop of the firewall validator is a
  partial function whose termination is a theorem; all other loops are total functions. Lengths, ports, \<open>int64\<close>
  parsing and address bits are at their width.

  \<^bold>\<open>Not modelled.\<close> Kubernetes, BMC and notification endpoints answer 501. System information, audit queries
  (which run \<open>journalctl\<close>), opening and migrating the database, generated code and the web interface are input
  and output, as are listeners, signals and shutdown in \<open>main\<close>. Argon2id, SHA-256, HMAC, Ed25519, X.509, age and
  AES are parameters, as are Incus, \<open>nft\<close>, DNS, HTTP, YAML, the text of JSON, cobra's parsing of arguments and
  the terminal. The client's timeouts are not modelled; a stream is its whole text. Goroutines are the
  interleavings of their atomic steps the theorems quantify over; data races below that are not.
\<close>

end
